(* ===== verification/Prelude.thy ===== *)
theory Prelude
  imports Complex_Main "HOL-Library.Word"
begin

section \<open>Shared ground: Go values, strings, numbers and bytes\<close>

text \<open>
  The vocabulary every component theory uses. A Go \<open>string\<close> is a \<^typ>\<open>string\<close> (one
  \<^typ>\<open>char\<close> per byte), a \<open>[]byte\<close> is a list of 8-bit words, an error is its message, and
  a function with results \<open>(x, error)\<close> returns a sum whose left side is the error. A \<open>nil\<close>
  that the code distinguishes from an empty value is an \<open>option\<close>. A slice or map read that
  Go would abort on is a value of \<open>may_panic\<close>.
\<close>

named_theorems codec_simps "encoding and decoding of fixed-width byte fields"
named_theorems str_simps "the functions of package strings that the code calls"

type_synonym byte = "8 word"
type_synonym bytes = "byte list"
type_synonym u32 = "32 word"
type_synonym u64 = "64 word"
type_synonym err = string
type_synonym 'a res = "err + 'a"

datatype 'a may_panic = Panic | Return 'a

text \<open>\<open>fmt.Errorf("msg: %w", err)\<close>.\<close>

definition wrap_err :: "string \<Rightarrow> err \<Rightarrow> err" where
  "wrap_err msg e = msg @ '': '' @ e"

fun is_ok :: "'e + 'a \<Rightarrow> bool" where
  "is_ok (Inl e) = False"
| "is_ok (Inr x) = True"

lemma is_ok_iff: "is_ok r \<longleftrightarrow> (\<exists>x. r = Inr x)"
  by (cases r) auto

text \<open>
  A long chain of \<open>if err != nil { return nil, ... }\<close>: continue with the value, or give up with the
  error, wrapped in the message where \<open>in_ctx\<close> says so.
\<close>

named_theorems res_simps "when a chain of fallible steps succeeds"

definition bind_res :: "'a res \<Rightarrow> ('a \<Rightarrow> 'b res) \<Rightarrow> 'b res" where
  "bind_res r f = (case r of Inl e \<Rightarrow> Inl e | Inr x \<Rightarrow> f x)"

definition in_ctx :: "string \<Rightarrow> 'a res \<Rightarrow> 'a res" where
  "in_ctx msg r = (case r of Inl e \<Rightarrow> Inl (wrap_err msg e) | Inr x \<Rightarrow> Inr x)"

lemma bind_res_simps [simp]:
  "bind_res (Inl e) f = Inl e"
  "bind_res (Inr x) f = f x"
  by (simp_all add: bind_res_def)

lemma in_ctx_simps [simp]:
  "in_ctx msg (Inl e) = Inl (wrap_err msg e)"
  "in_ctx msg (Inr x) = Inr x"
  by (simp_all add: in_ctx_def)

lemma bind_res_ok [res_simps]: "bind_res r f = Inr y \<longleftrightarrow> (\<exists>x. r = Inr x \<and> f x = Inr y)"
  by (cases r) simp_all

lemma in_ctx_ok [res_simps]: "in_ctx msg r = Inr x \<longleftrightarrow> r = Inr x"
  by (cases r) simp_all

text \<open>The same where a step may also panic.\<close>

definition bind_pr :: "'a res may_panic \<Rightarrow> ('a \<Rightarrow> 'b res may_panic) \<Rightarrow> 'b res may_panic" where
  "bind_pr m f = (case m of Panic \<Rightarrow> Panic | Return (Inl e) \<Rightarrow> Return (Inl e) | Return (Inr x) \<Rightarrow> f x)"

definition no_err :: "'a may_panic \<Rightarrow> 'a res may_panic" where
  "no_err m = (case m of Panic \<Rightarrow> Panic | Return x \<Rightarrow> Return (Inr x))"

lemma bind_pr_simps [simp]:
  "bind_pr Panic f = Panic"
  "bind_pr (Return (Inl e)) f = Return (Inl e)"
  "bind_pr (Return (Inr x)) f = f x"
  "no_err Panic = Panic"
  "no_err (Return a) = Return (Inr a)"
  by (simp_all add: bind_pr_def no_err_def)

lemma bind_pr_ok [res_simps]:
  "bind_pr m f = Return (Inr y) \<longleftrightarrow> (\<exists>x. m = Return (Inr x) \<and> f x = Return (Inr y))"
  by (auto simp: bind_pr_def split: may_panic.splits sum.splits)

lemma no_err_ok [res_simps]: "no_err m = Return (Inr x) \<longleftrightarrow> m = Return x"
  by (auto simp: no_err_def split: may_panic.splits)

text \<open>
  Where a caller cannot see the difference, a panic is an error: the HTTP server of Party A answers
  both with status 500 (\<open>middleware.Recoverer\<close>).
\<close>

definition panic_err :: err where "panic_err = ''panic''"

fun recovered :: "'a res may_panic \<Rightarrow> 'a res" where
  "recovered Panic = Inl panic_err"
| "recovered (Return r) = r"

lemma recovered_ok [res_simps]: "recovered r = Inr x \<longleftrightarrow> r = Return (Inr x)"
  by (cases r) simp_all

subsection \<open>Package strings\<close>

definition has_prefix :: "string \<Rightarrow> string \<Rightarrow> bool" where
  "has_prefix s p \<longleftrightarrow> take (length p) s = p"

definition trim_prefix :: "string \<Rightarrow> string \<Rightarrow> string" where
  "trim_prefix s p = (if has_prefix s p then drop (length p) s else s)"

definition has_suffix :: "string \<Rightarrow> string \<Rightarrow> bool" where
  "has_suffix s p \<longleftrightarrow> length p \<le> length s \<and> drop (length s - length p) s = p"

definition trim_suffix :: "string \<Rightarrow> string \<Rightarrow> string" where
  "trim_suffix s p = (if has_suffix s p then take (length s - length p) s else s)"

text \<open>\<open>strings.Index\<close>: the first position at which the substring starts.\<close>

fun str_index :: "string \<Rightarrow> string \<Rightarrow> nat option" where
  "str_index [] p = (if p = [] then Some 0 else None)"
| "str_index (c # s) p =
     (if has_prefix (c # s) p then Some 0 else map_option Suc (str_index s p))"

definition str_contains :: "string \<Rightarrow> string \<Rightarrow> bool" where
  "str_contains s p \<longleftrightarrow> str_index s p \<noteq> None"

text \<open>\<open>strings.Split(s, sep)\<close> for a one-byte separator: empty pieces are kept.\<close>

fun split_on :: "char \<Rightarrow> string \<Rightarrow> string list" where
  "split_on c [] = [[]]"
| "split_on c (x # xs) =
     (if x = c then [] # split_on c xs
      else (case split_on c xs of [] \<Rightarrow> [[x]] | p # ps \<Rightarrow> (x # p) # ps))"

lemma split_on_nonempty [simp]: "split_on c s \<noteq> []"
  by (induction s) (auto split: list.splits)

lemma split_on_no_sep: "c \<notin> set s \<Longrightarrow> split_on c s = [s]"
  by (induction s) auto

lemma split_on_append_sep:
  "c \<notin> set p \<Longrightarrow> split_on c (p @ c # s) = p # split_on c s"
  by (induction p) auto

fun str_join :: "string \<Rightarrow> string list \<Rightarrow> string" where
  "str_join sep [] = []"
| "str_join sep [s] = s"
| "str_join sep (s # t # ss) = s @ sep @ str_join sep (t # ss)"

text \<open>
  \<open>strings.ToLower\<close> on ASCII; a byte above 127 is left alone (addresses, names and paths
  are ASCII).
\<close>

definition char_lower :: "char \<Rightarrow> char" where
  "char_lower c = (if 65 \<le> (of_char c :: nat) \<and> (of_char c :: nat) \<le> 90
     then char_of (of_char c + 32 :: nat) else c)"

definition to_lower :: "string \<Rightarrow> string" where
  "to_lower s = map char_lower s"

lemma char_lower_idem [simp]: "char_lower (char_lower c) = char_lower c"
  by (auto simp: char_lower_def)

lemma to_lower_idem [simp]: "to_lower (to_lower s) = to_lower s"
  by (simp add: to_lower_def)

definition is_space :: "char \<Rightarrow> bool" where
  "is_space c \<longleftrightarrow> (of_char c :: nat) \<in> {9, 10, 11, 12, 13, 32}"

definition trim_left :: "(char \<Rightarrow> bool) \<Rightarrow> string \<Rightarrow> string" where
  "trim_left p s = dropWhile p s"

definition trim_right :: "(char \<Rightarrow> bool) \<Rightarrow> string \<Rightarrow> string" where
  "trim_right p s = rev (dropWhile p (rev s))"

definition trim_space :: "string \<Rightarrow> string" where
  "trim_space s = trim_right is_space (trim_left is_space s)"

lemmas [str_simps] = has_prefix_def trim_prefix_def has_suffix_def trim_suffix_def

lemma has_prefix_append [simp]: "has_prefix (p @ s) p"
  by (simp add: has_prefix_def)

lemma has_prefix_iff: "has_prefix s p \<longleftrightarrow> (\<exists>t. s = p @ t)"
  by (metis append_eq_conv_conj append_take_drop_id has_prefix_def)

lemma trim_prefix_append [simp]: "trim_prefix (p @ s) p = s"
  by (simp add: trim_prefix_def)

subsection \<open>Decimal numbers\<close>

definition is_digit :: "char \<Rightarrow> bool" where
  "is_digit c \<longleftrightarrow> 48 \<le> (of_char c :: nat) \<and> (of_char c :: nat) \<le> 57"

definition digit_val :: "char \<Rightarrow> nat" where
  "digit_val c = of_char c - 48"

definition digit_char :: "nat \<Rightarrow> char" where
  "digit_char d = char_of (48 + d)"

fun dec_val :: "nat \<Rightarrow> string \<Rightarrow> nat" where
  "dec_val acc [] = acc"
| "dec_val acc (c # cs) = dec_val (acc * 10 + digit_val c) cs"

definition parse_dec :: "string \<Rightarrow> nat option" where
  "parse_dec s = (if s \<noteq> [] \<and> list_all is_digit s then Some (dec_val 0 s) else None)"

text \<open>\<open>strconv.ParseUint(s, 10, bits)\<close>, with the messages of package strconv.\<close>

definition parse_uint :: "nat \<Rightarrow> string \<Rightarrow> nat res" where
  "parse_uint bits s =
     (case parse_dec s of
        None \<Rightarrow> Inl ''invalid syntax''
      | Some n \<Rightarrow> if n < 2 ^ bits then Inr n else Inl ''value out of range'')"

text \<open>\<open>(*big.Int).SetString(s, 10)\<close>: an optional sign, then digits.\<close>

definition parse_bigint :: "string \<Rightarrow> int option" where
  "parse_bigint s =
     (case s of
        [] \<Rightarrow> None
      | c # cs \<Rightarrow>
          if c = CHR ''-'' then map_option (\<lambda>n. - int n) (parse_dec cs)
          else if c = CHR ''+'' then map_option int (parse_dec cs)
          else map_option int (parse_dec s))"

text \<open>\<open>strconv.ParseInt(s, 10, bits)\<close>.\<close>

definition parse_int :: "nat \<Rightarrow> string \<Rightarrow> int res" where
  "parse_int bits s =
     (case parse_bigint s of
        None \<Rightarrow> Inl ''invalid syntax''
      | Some i \<Rightarrow> if - (2 ^ (bits - 1)) \<le> i \<and> i < 2 ^ (bits - 1) then Inr i
          else Inl ''value out of range'')"

function nat_dec :: "nat \<Rightarrow> string" where
  "nat_dec n = (if n < 10 then [digit_char n] else nat_dec (n div 10) @ [digit_char (n mod 10)])"
  by pat_completeness auto
termination
  by (relation "measure id") auto

declare nat_dec.simps [simp del]

definition int_dec :: "int \<Rightarrow> string" where
  "int_dec i = (if i < 0 then CHR ''-'' # nat_dec (nat (- i)) else nat_dec (nat i))"

lemma of_char_digit_char: "d < 10 \<Longrightarrow> (of_char (digit_char d) :: nat) = 48 + d"
  by (simp add: digit_char_def of_char_of)

lemma is_digit_digit_char [simp]: "d < 10 \<Longrightarrow> is_digit (digit_char d)"
  by (simp add: is_digit_def of_char_digit_char)

lemma digit_val_digit_char [simp]: "d < 10 \<Longrightarrow> digit_val (digit_char d) = d"
  by (simp add: digit_val_def of_char_digit_char)

lemma dec_val_append: "dec_val acc (xs @ ys) = dec_val (dec_val acc xs) ys"
  by (induction xs arbitrary: acc) auto

lemma nat_dec_digits: "list_all is_digit (nat_dec n)"
proof (induction n rule: nat_dec.induct)
  case (1 n)
  then show ?case by (cases "n < 10") (simp_all add: nat_dec.simps [of n])
qed

lemma nat_dec_nonempty [simp]: "nat_dec n \<noteq> []"
  by (subst nat_dec.simps) simp

lemma dec_val_nat_dec: "dec_val 0 (nat_dec n) = n"
proof (induction n rule: nat_dec.induct)
  case (1 n)
  then show ?case
    by (cases "n < 10") (simp_all add: nat_dec.simps [of n] dec_val_append)
qed

lemma parse_dec_nat_dec [simp]: "parse_dec (nat_dec n) = Some n"
  by (simp add: parse_dec_def nat_dec_digits dec_val_nat_dec)

lemma hd_nat_dec_digit: "is_digit (hd (nat_dec n))"
  using nat_dec_digits [of n] nat_dec_nonempty [of n] by (cases "nat_dec n") auto

lemma not_is_digit_sign [simp]: "\<not> is_digit CHR ''-''" "\<not> is_digit CHR ''+''"
  by (simp_all add: is_digit_def)

lemma parse_bigint_int_dec [simp]: "parse_bigint (int_dec i) = Some i"
proof (cases "i < 0")
  case True
  then show ?thesis by (simp add: parse_bigint_def int_dec_def)
next
  case False
  obtain c cs where n: "nat_dec (nat i) = c # cs"
    using nat_dec_nonempty by (meson list.exhaust)
  then have "is_digit c" using hd_nat_dec_digit [of "nat i"] by simp
  then have "c \<noteq> CHR ''-''" and "c \<noteq> CHR ''+''" by auto
  moreover have "parse_dec (c # cs) = Some (nat i)"
    by (simp add: n [symmetric])
  ultimately show ?thesis using False by (simp add: parse_bigint_def int_dec_def n)
qed

subsection \<open>Strings as bytes\<close>

definition str_bytes :: "string \<Rightarrow> bytes" where
  "str_bytes s = map (\<lambda>c. of_char c) s"

definition bytes_str :: "bytes \<Rightarrow> string" where
  "bytes_str b = map (\<lambda>w. char_of (unat w)) b"

lemma unat_of_char_byte: "unat (of_char c :: byte) = (of_char c :: nat)"
proof -
  have "(of_char c :: nat) < 256" using nat_of_char_less_256 [of c] .
  moreover have "(of_char c :: byte) = word_of_nat (of_char c)"
    by (simp add: of_nat_of_char)
  ultimately show ?thesis by (simp add: unat_of_nat)
qed

lemma bytes_str_str_bytes [simp]: "bytes_str (str_bytes s) = s"
  by (induction s) (simp_all add: bytes_str_def str_bytes_def unat_of_char_byte)

lemma str_bytes_bytes_str [simp]: "str_bytes (bytes_str b) = b"
proof -
  have "(of_char (char_of (unat w) :: char) :: byte) = w" for w :: byte
  proof -
    have "unat w < 256" using unsigned_less [of w, where ?'a = nat] by simp
    then show ?thesis by (simp add: word_unat_eq_iff unat_of_char_byte of_char_of)
  qed
  then show ?thesis by (induction b) (simp_all add: str_bytes_def bytes_str_def)
qed

subsection \<open>Big-endian numbers\<close>

text \<open>\<open>new(big.Int).SetBytes(b)\<close>, and \<open>binary.BigEndian.Uint32\<close>/\<open>Uint64\<close>.\<close>

fun be_nat :: "bytes \<Rightarrow> nat" where
  "be_nat [] = 0"
| "be_nat (b # bs) = unat b * 256 ^ length bs + be_nat bs"

text \<open>The low \<open>k\<close> bytes of a number, most significant first: \<open>binary.BigEndian.PutUint32\<close>.\<close>

fun be_put :: "nat \<Rightarrow> nat \<Rightarrow> bytes" where
  "be_put 0 n = []"
| "be_put (Suc k) n = be_put k (n div 256) @ [word_of_nat n]"

text \<open>\<open>(*big.Int).Bytes()\<close>: the shortest big-endian form, empty for zero.\<close>

function nat_bytes :: "nat \<Rightarrow> bytes" where
  "nat_bytes n = (if n = 0 then [] else nat_bytes (n div 256) @ [word_of_nat n])"
  by pat_completeness auto
termination
  by (relation "measure id") auto

declare nat_bytes.simps [simp del]

lemma length_be_put [simp, codec_simps]: "length (be_put k n) = k"
  by (induction k arbitrary: n) auto

lemma unat_byte_of_nat [codec_simps]: "unat (word_of_nat n :: byte) = n mod 256"
  by (simp add: unat_of_nat)

lemma be_nat_snoc: "be_nat (bs @ [b]) = be_nat bs * 256 + unat b"
  by (induction bs) (auto simp: algebra_simps)

lemma be_nat_be_put [codec_simps]: "be_nat (be_put k n) = n mod 256 ^ k"
proof (induction k arbitrary: n)
  case 0
  then show ?case by simp
next
  case (Suc k)
  have "n mod 256 ^ Suc k = (n div 256) mod 256 ^ k * 256 + n mod 256"
    by (simp add: mod_mult2_eq)
  with Suc show ?case by (simp add: be_nat_snoc unat_byte_of_nat)
qed

lemma be_nat_less: "be_nat bs < 256 ^ length bs"
proof (induction bs)
  case Nil
  then show ?case by simp
next
  case (Cons b bs)
  have "unat b < 256" using unsigned_less [of b, where ?'a = nat] by simp
  then have le: "(unat b + 1) * 256 ^ length bs \<le> 256 * 256 ^ length bs"
    by (intro mult_right_mono) auto
  have "be_nat (b # bs) < (unat b + 1) * 256 ^ length bs"
    using Cons by (simp add: algebra_simps)
  also note le
  finally show ?case by simp
qed

lemma be_put_be_nat [codec_simps]: "be_put (length bs) (be_nat bs) = bs"
proof (induction bs rule: rev_induct)
  case Nil
  then show ?case by simp
next
  case (snoc b bs)
  have b: "unat b < 256" using unsigned_less [of b, where ?'a = nat] by simp
  then have "(be_nat bs * 256 + unat b) div 256 = be_nat bs" by simp
  moreover have "(word_of_nat (be_nat bs * 256 + unat b) :: byte) = b"
    using b by (simp only: word_unat_eq_iff unat_byte_of_nat) simp
  ultimately show ?case using snoc by (simp add: be_nat_snoc)
qed

lemma be_nat_nat_bytes [codec_simps]: "be_nat (nat_bytes n) = n"
proof (induction n rule: nat_bytes.induct)
  case (1 n)
  then show ?case
    by (cases "n = 0")
      (simp_all add: nat_bytes.simps [of n] nat_bytes.simps [of 0] be_nat_snoc unat_byte_of_nat)
qed

lemma length_nat_bytes_le: "n < 256 ^ k \<Longrightarrow> length (nat_bytes n) \<le> k"
proof (induction n arbitrary: k rule: nat_bytes.induct)
  case (1 n)
  show ?case
  proof (cases "n = 0")
    case True
    then show ?thesis by (simp add: nat_bytes.simps)
  next
    case False
    then obtain k' where k: "k = Suc k'" using "1.prems" by (cases k) auto
    then have "n div 256 < 256 ^ k'" using "1.prems" by (simp add: less_mult_imp_div_less)
    with 1 False k show ?thesis by (simp add: nat_bytes.simps [of n])
  qed
qed

lemma be_nat_zeros: "be_nat (replicate k 0 @ bs) = be_nat bs"
  by (induction k) auto

lemma be_nat_inj: "length xs = length ys \<Longrightarrow> be_nat xs = be_nat ys \<Longrightarrow> xs = ys"
  by (metis be_put_be_nat)

text \<open>
  \<open>copy(buf[k-len(b):k], b)\<close> into a zeroed buffer of \<open>k\<close> bytes, with \<open>b = n.Bytes()\<close>: the slice
  expression panics when \<open>b\<close> is longer than \<open>k\<close>.
\<close>

definition left_pad :: "nat \<Rightarrow> bytes \<Rightarrow> bytes may_panic" where
  "left_pad k b = (if length b \<le> k then Return (replicate (k - length b) 0 @ b) else Panic)"

lemma left_pad_nat_bytes: "n < 256 ^ k \<Longrightarrow> left_pad k (nat_bytes n) = Return (be_put k n)"
proof -
  assume n: "n < 256 ^ k"
  then have l: "length (nat_bytes n) \<le> k" by (rule length_nat_bytes_le)
  have "be_nat (replicate (k - length (nat_bytes n)) 0 @ nat_bytes n) = be_nat (be_put k n)"
    using n by (simp add: be_nat_zeros be_nat_nat_bytes be_nat_be_put)
  then have "replicate (k - length (nat_bytes n)) 0 @ nat_bytes n = be_put k n"
    by (rule be_nat_inj [rotated]) (use l in simp)
  then show ?thesis using l by (simp add: left_pad_def)
qed

end
