(* ===== verification/Encodings.thy ===== *)
theory Encodings
  imports Prelude "HOL-Library.Countable"
begin

section \<open>The text encodings the services exchange: base64, hexadecimal and JSON\<close>

text \<open>
  Packages \<open>encoding/base64\<close> (\<open>StdEncoding\<close>), \<open>encoding/hex\<close> and \<open>encoding/json\<close> as the code
  uses them. JSON is modelled as documents, not as text: a payload is \<open>Some\<close> document, or \<open>None\<close>
  for bytes that are no JSON text. Decoding a struct follows \<open>json.Unmarshal\<close>: field names match
  without regard to case, later keys win, \<open>null\<close> leaves the field alone, unknown keys are ignored.
\<close>

subsection \<open>Hexadecimal\<close>

definition hex_digit :: "nat \<Rightarrow> char" where
  "hex_digit d = char_of (if d < 10 then 48 + d else 87 + d)"

definition hex_val :: "char \<Rightarrow> nat option" where
  "hex_val c = (let n = (of_char c :: nat) in
     if 48 \<le> n \<and> n \<le> 57 then Some (n - 48)
     else if 97 \<le> n \<and> n \<le> 102 then Some (n - 87)
     else if 65 \<le> n \<and> n \<le> 70 then Some (n - 55)
     else None)"

fun hex_encode :: "bytes \<Rightarrow> string" where
  "hex_encode [] = []"
| "hex_encode (b # bs) = hex_digit (unat b div 16) # hex_digit (unat b mod 16) # hex_encode bs"

definition hex_err :: err where "hex_err = ''encoding/hex: invalid byte''"
definition hex_odd :: err where "hex_odd = ''encoding/hex: odd length hex string''"

fun hex_decode :: "string \<Rightarrow> bytes res" where
  "hex_decode [] = Inr []"
| "hex_decode [c] = (case hex_val c of None \<Rightarrow> Inl hex_err | Some v \<Rightarrow> Inl hex_odd)"
| "hex_decode (c # d # s) =
     (case hex_val c of
        None \<Rightarrow> Inl hex_err
      | Some h \<Rightarrow> (case hex_val d of
          None \<Rightarrow> Inl hex_err
        | Some l \<Rightarrow> (case hex_decode s of
            Inl e \<Rightarrow> Inl e
          | Inr bs \<Rightarrow> Inr (word_of_nat (16 * h + l) # bs))))"

lemma hex_val_digit [simp]: "d < 16 \<Longrightarrow> hex_val (hex_digit d) = Some d"
  by (simp add: hex_val_def hex_digit_def Let_def of_char_of)

lemma unat_byte_less: "unat (b :: byte) < 256"
  using unsigned_less [of b, where ?'a = nat] by simp

lemma hex_decode_encode [simp]: "hex_decode (hex_encode bs) = Inr bs"
proof (induction bs)
  case Nil
  then show ?case by simp
next
  case (Cons b bs)
  have "unat b div 16 < 16" using unat_byte_less [of b] by simp
  moreover have "(word_of_nat (16 * (unat b div 16) + unat b mod 16) :: byte) = b" by simp
  ultimately show ?case using Cons by simp
qed

lemma length_hex_encode [simp]: "length (hex_encode bs) = 2 * length bs"
  by (induction bs) auto

subsection \<open>Base64\<close>

definition b64_char :: "nat \<Rightarrow> char" where
  "b64_char d = char_of (if d < 26 then 65 + d else if d < 52 then 71 + d
     else if d < 62 then d - 4 else if d = 62 then 43 else 47)"

definition b64_val :: "char \<Rightarrow> nat option" where
  "b64_val c = (let n = (of_char c :: nat) in
     if 65 \<le> n \<and> n \<le> 90 then Some (n - 65)
     else if 97 \<le> n \<and> n \<le> 122 then Some (n - 71)
     else if 48 \<le> n \<and> n \<le> 57 then Some (n + 4)
     else if n = 43 then Some 62 else if n = 47 then Some 63 else None)"

definition pad_char :: char where "pad_char = CHR ''=''"

fun b64_encode :: "bytes \<Rightarrow> string" where
  "b64_encode [] = []"
| "b64_encode [a] =
     (let n = unat a in [b64_char (n div 4), b64_char (n mod 4 * 16), pad_char, pad_char])"
| "b64_encode [a, b] =
     (let n = unat a * 256 + unat b in
      [b64_char (n div 1024), b64_char (n div 16 mod 64), b64_char (n mod 16 * 4), pad_char])"
| "b64_encode (a # b # c # s) =
     (let n = (unat a * 256 + unat b) * 256 + unat c in
      b64_char (n div 262144) # b64_char (n div 4096 mod 64) # b64_char (n div 64 mod 64) #
      b64_char (n mod 64) # b64_encode s)"

definition b64_err :: err where "b64_err = ''illegal base64 data''"

text \<open>Quanta of four characters; only the last may be padded. Newlines are skipped first.\<close>

fun b64_quanta :: "string \<Rightarrow> bytes res" where
  "b64_quanta [] = Inr []"
| "b64_quanta (a # b # c # d # s) =
     (case (b64_val a, b64_val b) of
        (Some p, Some q) \<Rightarrow>
          (if s = [] \<and> d = pad_char \<and> c = pad_char then Inr [word_of_nat (p * 4 + q div 16)]
           else case b64_val c of
             None \<Rightarrow> Inl b64_err
           | Some r \<Rightarrow>
               if s = [] \<and> d = pad_char
               then Inr (be_put 2 ((p * 4096 + q * 64 + r) div 4))
               else (case b64_val d of
                   None \<Rightarrow> Inl b64_err
                 | Some t \<Rightarrow> (case b64_quanta s of
                     Inl e \<Rightarrow> Inl e
                   | Inr bs \<Rightarrow> Inr (be_put 3 (((p * 64 + q) * 64 + r) * 64 + t) @ bs))))
      | _ \<Rightarrow> Inl b64_err)"
| "b64_quanta s = Inl b64_err"

definition b64_decode :: "string \<Rightarrow> bytes res" where
  "b64_decode s = b64_quanta (filter (\<lambda>c. (of_char c :: nat) \<noteq> 10 \<and> (of_char c :: nat) \<noteq> 13) s)"

lemma b64_code:
  "d < 64 \<Longrightarrow> (of_char (b64_char d) :: nat) = (if d < 26 then 65 + d else if d < 52 then 71 + d
     else if d < 62 then d - 4 else if d = 62 then 43 else 47)"
  by (simp add: b64_char_def of_char_of)

lemma b64_val_char [simp]: "d < 64 \<Longrightarrow> b64_val (b64_char d) = Some d"
  unfolding b64_val_def Let_def by (simp add: b64_code, arith)

lemma b64_char_not_pad [simp]: "d < 64 \<Longrightarrow> b64_char d \<noteq> pad_char"
proof
  assume "d < 64" and "b64_char d = pad_char"
  then have "b64_val pad_char = Some d" using b64_val_char by metis
  then show False by (simp add: b64_val_def pad_char_def Let_def)
qed

lemma b64_char_kept: "d < 64 \<Longrightarrow>
    (of_char (b64_char d) :: nat) \<noteq> 10 \<and> (of_char (b64_char d) :: nat) \<noteq> 13"
  by (simp add: b64_code, arith)

lemma be_put_2: "be_put 2 (unat (a :: byte) * 256 + unat (b :: byte)) = [a, b]"
  using be_put_be_nat [of "[a, b]"] by (simp add: numeral_2_eq_2)

lemma be_put_3: "be_put 3 ((unat (a :: byte) * 256 + unat (b :: byte)) * 256 + unat (c :: byte))
    = [a, b, c]"
  using be_put_be_nat [of "[a, b, c]"] by (simp add: numeral_3_eq_3 algebra_simps)

lemma be_put_3n: "be_put 3 (65536 * unat (a :: byte) + unat (b :: byte) * 256 + unat (c :: byte))
    = [a, b, c]"
proof -
  have "65536 * unat a + unat b * 256 + unat c = (unat a * 256 + unat b) * 256 + unat c" by simp
  then show ?thesis by (simp only: be_put_3)
qed

lemma quantum_2: "(n div 1024 * 4096 + n div 16 mod 64 * 64 + n mod 16 * 4) div 4 = (n :: nat)"
proof -
  have "n div 1024 * 64 + n div 16 mod 64 = n div 16"
    using div_mult_mod_eq [of "n div 16" 64] by (simp add: div_mult2_eq [symmetric])
  then have "n div 1024 * 4096 + n div 16 mod 64 * 64 = n div 16 * 64" by linarith
  moreover have "n div 16 * 64 + n mod 16 * 4 = n * 4"
    using div_mult_mod_eq [of n 16] by linarith
  ultimately show ?thesis by simp
qed

lemma quantum_3:
  "((n div 262144 * 64 + n div 4096 mod 64) * 64 + n div 64 mod 64) * 64 + n mod 64 = (n :: nat)"
proof -
  have "n div 262144 * 64 + n div 4096 mod 64 = n div 4096"
    using div_mult_mod_eq [of "n div 4096" 64] by (simp add: div_mult2_eq [symmetric])
  moreover have "n div 4096 * 64 + n div 64 mod 64 = n div 64"
    using div_mult_mod_eq [of "n div 64" 64] by (simp add: div_mult2_eq [symmetric])
  ultimately show ?thesis using div_mult_mod_eq [of n 64] by simp
qed

lemma b64_quanta_encode: "b64_quanta (b64_encode bs) = Inr bs"
proof (induction bs rule: b64_encode.induct)
  case (2 a)
  have "unat a < 256" by (rule unat_byte_less)
  moreover have "unat a mod 4 * 16 < 64" by simp
  ultimately show ?case by (simp add: Let_def)
next
  case (3 a b)
  let ?n = "unat a * 256 + unat b"
  have "unat a < 256" and "unat b < 256" by (rule unat_byte_less)+
  then have "?n div 1024 < 64" by simp
  moreover have "?n mod 16 * 4 < 64" by simp
  moreover have "(?n div 1024 * 4096 + ?n div 16 mod 64 * 64 + ?n mod 16 * 4) div 4 = ?n"
    by (rule quantum_2)
  ultimately show ?case by (simp only: b64_encode.simps Let_def b64_quanta.simps) (simp add: be_put_2)
next
  case (4 a b c s)
  let ?n = "(unat a * 256 + unat b) * 256 + unat c"
  have "unat a < 256" and "unat b < 256" and "unat c < 256" by (rule unat_byte_less)+
  then have "?n div 262144 < 64" by simp
  moreover have "((?n div 262144 * 64 + ?n div 4096 mod 64) * 64 + ?n div 64 mod 64) * 64
      + ?n mod 64 = ?n" by (rule quantum_3)
  ultimately show ?case using 4
    by (simp only: b64_encode.simps Let_def b64_quanta.simps)
      (simp add: be_put_3n)
qed simp

lemma b64_encode_kept:
  "filter (\<lambda>c. (of_char c :: nat) \<noteq> 10 \<and> (of_char c :: nat) \<noteq> 13) (b64_encode bs) = b64_encode bs"
proof -
  have "\<forall>c \<in> set (b64_encode bs). (of_char c :: nat) \<noteq> 10 \<and> (of_char c :: nat) \<noteq> 13"
  proof (induction bs rule: b64_encode.induct)
    case (2 a)
    then show ?case using unat_byte_less [of a]
      by (simp add: Let_def b64_char_kept pad_char_def)
  next
    case (3 a b)
    have "unat a * 256 + unat b < 65536" using unat_byte_less [of a] unat_byte_less [of b] by simp
    then show ?case by (simp add: Let_def b64_char_kept pad_char_def)
  next
    case (4 a b c s)
    have "(unat a * 256 + unat b) * 256 + unat c < 16777216"
      using unat_byte_less [of a] unat_byte_less [of b] unat_byte_less [of c] by simp
    then show ?case using 4 by (simp add: Let_def b64_char_kept pad_char_def)
  qed simp
  then show ?thesis by (simp add: filter_id_conv)
qed

lemma b64_decode_encode [simp]: "b64_decode (b64_encode bs) = Inr bs"
  by (simp add: b64_decode_def b64_encode_kept b64_quanta_encode)

subsection \<open>JSON documents\<close>

datatype json =
  JNull
| JBool bool
| JNum rat
| JStr string
| JArr "json list"
| JObj "(string \<times> json) list"

type_synonym doc = "json option"
type_synonym fields = "(string \<times> json) list"

definition json_syntax_err :: err where "json_syntax_err = ''invalid JSON''"
definition json_type_err :: err where "json_type_err = ''json: cannot unmarshal value''"

text \<open>What a JSON value does to a Go variable holding \<open>old\<close>.\<close>

fun dec_string :: "string \<Rightarrow> json \<Rightarrow> string res" where
  "dec_string old JNull = Inr old"
| "dec_string old (JStr s) = Inr s"
| "dec_string old _ = Inl json_type_err"

fun dec_bool :: "bool \<Rightarrow> json \<Rightarrow> bool res" where
  "dec_bool old JNull = Inr old"
| "dec_bool old (JBool b) = Inr b"
| "dec_bool old _ = Inl json_type_err"

fun dec_float :: "rat \<Rightarrow> json \<Rightarrow> rat res" where
  "dec_float old JNull = Inr old"
| "dec_float old (JNum q) = Inr q"
| "dec_float old _ = Inl json_type_err"

text \<open>
  An unsigned integer of the given width. Numbers are values here, so a literal such as \<open>1.0\<close>, which
  Go refuses for an integer, counts as \<open>1\<close>.
\<close>

fun dec_uint :: "nat \<Rightarrow> nat \<Rightarrow> json \<Rightarrow> nat res" where
  "dec_uint bits old JNull = Inr old"
| "dec_uint bits old (JNum q) =
     (if 0 \<le> q \<and> q < 2 ^ bits \<and> of_int \<lfloor>q\<rfloor> = q then Inr (nat \<lfloor>q\<rfloor>) else Inl json_type_err)"
| "dec_uint bits old _ = Inl json_type_err"

fun dec_list :: "('a \<Rightarrow> json \<Rightarrow> 'a res) \<Rightarrow> 'a \<Rightarrow> json list \<Rightarrow> 'a list res" where
  "dec_list d z [] = Inr []"
| "dec_list d z (v # vs) =
     (case d z v of
        Inl e \<Rightarrow> Inl e
      | Inr x \<Rightarrow> (case dec_list d z vs of Inl e \<Rightarrow> Inl e | Inr xs \<Rightarrow> Inr (x # xs)))"

text \<open>A \<open>[]string\<close>, where \<open>nil\<close> is not the empty slice.\<close>

fun dec_strings :: "string list option \<Rightarrow> json \<Rightarrow> string list option res" where
  "dec_strings old JNull = Inr None"
| "dec_strings old (JArr vs) =
     (case dec_list dec_string [] vs of Inl e \<Rightarrow> Inl e | Inr ss \<Rightarrow> Inr (Some ss))"
| "dec_strings old _ = Inl json_type_err"

text \<open>A \<open>[]byte\<close>: base64 text, or an array of numbers.\<close>

fun dec_bytes :: "bytes \<Rightarrow> json \<Rightarrow> bytes res" where
  "dec_bytes old JNull = Inr []"
| "dec_bytes old (JStr s) = b64_decode s"
| "dec_bytes old (JArr vs) =
     (case dec_list (dec_uint 8) 0 vs of Inl e \<Rightarrow> Inl e | Inr ns \<Rightarrow> Inr (map word_of_nat ns))"
| "dec_bytes old _ = Inl json_type_err"

text \<open>The value a field ends with: every key that names it is applied in turn.\<close>

fun dec_field :: "('a \<Rightarrow> json \<Rightarrow> 'a res) \<Rightarrow> string \<Rightarrow> 'a \<Rightarrow> fields \<Rightarrow> 'a res" where
  "dec_field d name x [] = Inr x"
| "dec_field d name x ((k, v) # fs) =
     (if to_lower k = to_lower name
      then (case d x v of Inl e \<Rightarrow> Inl e | Inr y \<Rightarrow> dec_field d name y fs)
      else dec_field d name x fs)"

abbreviation "str_field \<equiv> dec_field dec_string"

fun unmarshal :: "(fields \<Rightarrow> 'a res) \<Rightarrow> doc \<Rightarrow> 'a res" where
  "unmarshal dec None = Inl json_syntax_err"
| "unmarshal dec (Some (JObj fs)) = dec fs"
| "unmarshal dec (Some JNull) = dec []"
| "unmarshal dec (Some _) = Inl json_type_err"

text \<open>
  A struct inside a struct, a slice, and a pointer: \<open>null\<close> clears the slice and the pointer and leaves
  a struct alone; a key met twice decodes into what the first one left.
\<close>

definition dec_struct :: "('a \<Rightarrow> fields \<Rightarrow> 'a res) \<Rightarrow> 'a \<Rightarrow> json \<Rightarrow> 'a res" where
  "dec_struct dec old v =
     (case v of JNull \<Rightarrow> Inr old | JObj fs \<Rightarrow> dec old fs | _ \<Rightarrow> Inl json_type_err)"

definition dec_array :: "('a \<Rightarrow> json \<Rightarrow> 'a res) \<Rightarrow> 'a \<Rightarrow> 'a list \<Rightarrow> json \<Rightarrow> 'a list res" where
  "dec_array d z old v =
     (case v of JNull \<Rightarrow> Inr [] | JArr xs \<Rightarrow> dec_list d z xs | _ \<Rightarrow> Inl json_type_err)"

fun dec_ptr :: "('a \<Rightarrow> json \<Rightarrow> 'a res) \<Rightarrow> 'a \<Rightarrow> 'a option \<Rightarrow> json \<Rightarrow> 'a option res" where
  "dec_ptr d new old JNull = Inr None"
| "dec_ptr d new old v = bind_res (d (case old of None \<Rightarrow> new | Some x \<Rightarrow> x) v) (\<lambda>x. Inr (Some x))"

definition enc_strings :: "string list option \<Rightarrow> json" where
  "enc_strings ss = (case ss of None \<Rightarrow> JNull | Some xs \<Rightarrow> JArr (map JStr xs))"

text \<open>A field tagged \<open>omitempty\<close>.\<close>

definition omitempty :: "string \<Rightarrow> string \<Rightarrow> fields" where
  "omitempty name s = (if s = [] then [] else [(name, JStr s)])"

lemma dec_list_strings [simp]: "dec_list dec_string [] (map JStr ss) = Inr ss"
  by (induction ss) auto

lemma dec_uint_num [simp]: "n < 2 ^ bits \<Longrightarrow> dec_uint bits old (JNum (of_nat n)) = Inr n"
proof -
  assume "n < 2 ^ bits"
  then have "(of_nat n :: rat) < of_nat (2 ^ bits)" by (simp only: of_nat_less_iff)
  then show ?thesis by simp
qed

lemma dec_field_append:
  "dec_field d name x (fs @ gs) =
     (case dec_field d name x fs of Inl e \<Rightarrow> Inl e | Inr y \<Rightarrow> dec_field d name y gs)"
  by (induction d name x fs rule: dec_field.induct) (auto split: sum.splits)

lemma str_field_omitempty:
  "str_field name [] (omitempty k s) = Inr (if to_lower k = to_lower name then s else [])"
  by (simp add: omitempty_def)

subsection \<open>HTTP\<close>

text \<open>A request, and the status and body that come back, or an error.\<close>

record http_request =
  hr_Method :: string
  hr_URL :: string
  hr_Headers :: "(string \<times> string) list"
  hr_Body :: doc

type_synonym http = "http_request \<Rightarrow> (nat \<times> string) res"

subsection \<open>Numbered documents\<close>

text \<open>
  A printer of documents with its parser, by numbering the documents: an instance of what the
  theorems that print JSON assume of printer and parser.
\<close>

instance json :: countable
  by countable_datatype

definition numbered_print :: "doc \<Rightarrow> bytes" where
  "numbered_print d = nat_bytes (to_nat d)"

definition numbered_parse :: "bytes \<Rightarrow> doc" where
  "numbered_parse b = from_nat (be_nat b)"

lemma numbered_roundtrip [simp]: "numbered_parse (numbered_print d) = d"
  by (simp add: numbered_parse_def numbered_print_def be_nat_nat_bytes)

end
