(* ===== verification/Tss.thy ===== *)
theory Tss
  imports Encodings "HOL-Library.List_Lexorder" "HOL-Library.Multiset"
begin

section \<open>Threshold signing sessions (internal/tss)\<close>

text \<open>
  The types of \<open>tss.go\<close>, party ordering, the envelope of protocol messages and their routing
  (\<open>dkg.go\<close>), the loops that drive key generation, signing and resharing, and the functions that
  open such a session. The cryptographic protocol itself is the library tss-lib: a party of it is
  an abstract state of type \<open>'pt\<close> with its \<open>UpdateFromBytes\<close>, the ordering of party ids is the
  argument \<open>SortPartyIDs\<close>, its save data is an abstract type with its JSON form. The
  \<open>select\<close> of a loop is modelled by the list of events it receives; a loop whose events run out
  is still waiting (\<open>None\<close>).
\<close>

type_synonym Curve = string

definition CurveSecp256k1 :: Curve where "CurveSecp256k1 = ''secp256k1''"
definition CurveEd25519 :: Curve where "CurveEd25519 = ''ed25519''"

lemma curves_differ [simp]: "CurveSecp256k1 \<noteq> CurveEd25519" "CurveEd25519 \<noteq> CurveSecp256k1"
  by (simp_all add: CurveSecp256k1_def CurveEd25519_def)

record PartyID =
  pid_ID :: string
  pid_Index :: int

record KeyShare =
  ks_Curve :: Curve
  ks_PartyID :: PartyID
  ks_Share :: bytes
  ks_PublicKey :: bytes
  ks_ChainCode :: bytes

record DerivedKey =
  dk_Curve :: Curve
  dk_DerivationPath :: string
  dk_Share :: bytes
  dk_PublicKey :: bytes
  dk_Address :: string

record SignRequest =
  sq_DerivationPath :: string
  sq_Message :: bytes
  sq_Curve :: Curve

record Signature =
  sig_R :: nat
  sig_S :: nat
  sig_V :: byte
  sig_Bytes :: bytes

record IncomingMessage =
  im_From :: PartyID
  im_Payload :: doc

record TSSError =
  te_Code :: string
  te_Message :: string
  te_Cause :: "err option"

definition Error :: "TSSError \<Rightarrow> err" where
  "Error e = (case te_Cause e of
     None \<Rightarrow> te_Message e
   | Some c \<Rightarrow> te_Message e @ '': '' @ c)"

definition WithCause :: "TSSError \<Rightarrow> err \<Rightarrow> TSSError" where
  "WithCause e c = \<lparr>te_Code = te_Code e, te_Message = te_Message e, te_Cause = Some c\<rparr>"

definition ErrInvalidPublicKey :: TSSError where
  "ErrInvalidPublicKey = \<lparr>te_Code = ''INVALID_PUBLIC_KEY'',
     te_Message = ''invalid public key format'', te_Cause = None\<rparr>"

definition ErrDKGFailed :: TSSError where
  "ErrDKGFailed = \<lparr>te_Code = ''DKG_FAILED'',
     te_Message = ''distributed key generation failed'', te_Cause = None\<rparr>"

definition ErrSigningFailed :: TSSError where
  "ErrSigningFailed = \<lparr>te_Code = ''SIGNING_FAILED'',
     te_Message = ''threshold signing failed'', te_Cause = None\<rparr>"

definition ErrDerivationFailed :: TSSError where
  "ErrDerivationFailed = \<lparr>te_Code = ''DERIVATION_FAILED'',
     te_Message = ''key derivation failed'', te_Cause = None\<rparr>"

definition ErrResharingFailed :: TSSError where
  "ErrResharingFailed = \<lparr>te_Code = ''RESHARING_FAILED'',
     te_Message = ''key resharing failed'', te_Cause = None\<rparr>"

abbreviation fail_with :: "TSSError \<Rightarrow> err \<Rightarrow> 'a res" where
  "fail_with e c \<equiv> Inl (Error (WithCause e c))"

text \<open>\<open>ECDSAPublicKey\<close>: the coordinates of an uncompressed point.\<close>

definition ECDSAPublicKey :: "bytes \<Rightarrow> (nat \<times> nat) res" where
  "ECDSAPublicKey b =
     (if length b \<noteq> 65 \<or> b ! 0 \<noteq> 0x04 then Inl (Error ErrInvalidPublicKey)
      else Inr (be_nat (take 32 (drop 1 b)), be_nat (take 32 (drop 33 b))))"

subsection \<open>Party ids\<close>

text \<open>A \<open>tss.PartyID\<close> of the library.\<close>

record lib_party =
  lp_Id :: string
  lp_Moniker :: string
  lp_Key :: nat
  lp_Index :: int

definition NewPartyID :: "string \<Rightarrow> string \<Rightarrow> nat \<Rightarrow> lib_party" where
  "NewPartyID i m k = \<lparr>lp_Id = i, lp_Moniker = m, lp_Key = k, lp_Index = - 1\<rparr>"

definition makeSortedPartyIDs ::
  "(lib_party list \<Rightarrow> lib_party list) \<Rightarrow> PartyID list \<Rightarrow> lib_party list" where
  "makeSortedPartyIDs SortPartyIDs parties =
     SortPartyIDs (map (\<lambda>p. NewPartyID (pid_ID p) (''party-'' @ int_dec (pid_Index p))
         (be_nat (str_bytes (pid_ID p))))
       (sort_key (\<lambda>p. str_bytes (pid_ID p)) parties))"

definition findPartyID :: "lib_party list \<Rightarrow> string \<Rightarrow> lib_party option" where
  "findPartyID ids i = find (\<lambda>p. lp_Id p = i) ids"

text \<open>\<open>mergeSortedPartyIDs\<close>: first occurrences, then the library's order.\<close>

fun merge_seen :: "string list \<Rightarrow> lib_party list \<Rightarrow> lib_party list" where
  "merge_seen seen [] = []"
| "merge_seen seen (p # ps) =
     (if lp_Id p \<in> set seen then merge_seen seen ps
      else p # merge_seen (lp_Id p # seen) ps)"

definition mergeSortedPartyIDs :: "(lib_party list \<Rightarrow> lib_party list) \<Rightarrow>
    lib_party list \<Rightarrow> lib_party list \<Rightarrow> lib_party list" where
  "mergeSortedPartyIDs SortPartyIDs a b = SortPartyIDs (merge_seen [] (a @ b))"

lemma merge_seen_ids:
  "lp_Id ` set (merge_seen seen ps) = lp_Id ` set ps - set seen"
  by (induction seen ps rule: merge_seen.induct) auto

lemma merge_seen_distinct: "distinct (map lp_Id (merge_seen seen ps))"
  by (induction seen ps rule: merge_seen.induct) (auto simp: merge_seen_ids)

subsection \<open>The envelope of a protocol message\<close>

record wireMessage =
  wm_From :: string
  wm_IsBroadcast :: bool
  wm_Payload :: bytes

definition enc_wire :: "wireMessage \<Rightarrow> doc" where
  "enc_wire w = Some (JObj [(''from'', JStr (wm_From w)), (''isBroadcast'', JBool (wm_IsBroadcast w)),
     (''payload'', JStr (b64_encode (wm_Payload w)))])"

definition dec_wire :: "doc \<Rightarrow> wireMessage res" where
  "dec_wire = unmarshal (\<lambda>fs.
     case str_field ''from'' [] fs of
       Inl e \<Rightarrow> Inl e
     | Inr f \<Rightarrow> (case dec_field dec_bool ''isBroadcast'' False fs of
         Inl e \<Rightarrow> Inl e
       | Inr b \<Rightarrow> (case dec_field dec_bytes ''payload'' [] fs of
           Inl e \<Rightarrow> Inl e
         | Inr p \<Rightarrow> Inr \<lparr>wm_From = f, wm_IsBroadcast = b, wm_Payload = p\<rparr>)))"

lemma dec_wire_enc_wire [simp]: "dec_wire (enc_wire w) = Inr w"
  by (simp add: dec_wire_def enc_wire_def to_lower_def char_lower_def)

text \<open>A message the library hands out: sender, receivers, broadcast flag, serialised form.\<close>

record out_msg =
  om_From :: string
  om_IsBroadcast :: bool
  om_To :: "lib_party list"
  om_WireBytes :: "bytes res"

text \<open>
  \<open>router.Send\<close> is the argument \<open>send\<close>, which changes a state \<open>'r\<close>; the first failure ends the
  routing.
\<close>

type_synonym 'r send = "PartyID \<Rightarrow> doc \<Rightarrow> 'r \<Rightarrow> err option \<times> 'r"

fun send_each :: "'r send \<Rightarrow> doc \<Rightarrow> lib_party list \<Rightarrow> 'r \<Rightarrow> err option \<times> 'r" where
  "send_each send d [] r = (None, r)"
| "send_each send d (p # ps) r =
     (case send \<lparr>pid_ID = lp_Id p, pid_Index = lp_Index p\<rparr> d r of
        (Some e, r1) \<Rightarrow> (Some (wrap_err (''send to '' @ lp_Id p) e), r1)
      | (None, r1) \<Rightarrow> send_each send d ps r1)"

definition routeMessage :: "'r send \<Rightarrow> out_msg \<Rightarrow> lib_party list \<Rightarrow> 'r \<Rightarrow> err option \<times> 'r" where
  "routeMessage send msg sortedIDs r =
     (case om_WireBytes msg of
        Inl e \<Rightarrow> (Some (wrap_err ''wire bytes'' e), r)
      | Inr b \<Rightarrow>
          let data = enc_wire \<lparr>wm_From = om_From msg, wm_IsBroadcast = om_IsBroadcast msg,
                        wm_Payload = b\<rparr>
          in if om_IsBroadcast msg
             then send_each send data (filter (\<lambda>p. lp_Id p \<noteq> om_From msg) sortedIDs) r
             else send_each send data (om_To msg) r)"

text \<open>\<open>UpdateFromBytes\<close> of the library's party.\<close>

type_synonym 'pt update = "bytes \<Rightarrow> lib_party \<Rightarrow> bool \<Rightarrow> 'pt \<Rightarrow> err option \<times> 'pt"

definition handleIncoming ::
  "'pt update \<Rightarrow> doc \<Rightarrow> lib_party list \<Rightarrow> 'pt \<Rightarrow> err option \<times> 'pt" where
  "handleIncoming update payload sortedIDs pt =
     (case dec_wire payload of
        Inl e \<Rightarrow> (Some (wrap_err ''unmarshal wire message'' e), pt)
      | Inr w \<Rightarrow> (case findPartyID sortedIDs (wm_From w) of
            None \<Rightarrow> (Some (''unknown sender: '' @ wm_From w), pt)
          | Some from \<Rightarrow> (case update (wm_Payload w) from (wm_IsBroadcast w) pt of
                (Some e, pt1) \<Rightarrow> (Some (wrap_err ''update from bytes'' e), pt1)
              | (None, pt1) \<Rightarrow> (None, pt1))))"

subsection \<open>The loops of a session\<close>

text \<open>What a \<open>select\<close> of a loop can receive; \<open>Incoming None\<close> is a closed channel.\<close>

datatype 'save loop_event =
  CtxDone err
| LibErr string
| RouteErr err
| Incoming "doc option"
| Outgoing out_msg
| Saved 'save

type_synonym 'a verdict = "'a res may_panic option"

text \<open>
  The goroutine that routes outgoing messages next to a loop; its first error is what the loop
  receives as \<open>RouteErr\<close>.
\<close>

fun route_all :: "'r send \<Rightarrow> lib_party list \<Rightarrow> out_msg list \<Rightarrow> 'r \<Rightarrow> err option \<times> 'r" where
  "route_all send ids [] r = (None, r)"
| "route_all send ids (m # ms) r =
     (case routeMessage send m ids r of
        (Some e, r1) \<Rightarrow> (Some e, r1)
      | (None, r1) \<Rightarrow> route_all send ids ms r1)"

text \<open>
  The loop of key generation and of signing: they differ in the error they wrap and in what they
  make of the saved result.
\<close>

fun session_loop :: "TSSError \<Rightarrow> 'pt update \<Rightarrow> lib_party list \<Rightarrow> ('save \<Rightarrow> 'a res may_panic) \<Rightarrow>
    'save loop_event list \<Rightarrow> 'pt \<Rightarrow> 'a verdict \<times> 'pt" where
  "session_loop E update ids finish [] pt = (None, pt)"
| "session_loop E update ids finish (ev # evs) pt =
     (case ev of
        CtxDone e \<Rightarrow> (Some (Return (fail_with E e)), pt)
      | LibErr e \<Rightarrow> (Some (Return (fail_with E (wrap_err ''tss error'' e))), pt)
      | RouteErr e \<Rightarrow> (Some (Return (fail_with E (wrap_err ''route error'' e))), pt)
      | Incoming None \<Rightarrow> (Some (Return (fail_with E ''incoming channel closed'')), pt)
      | Incoming (Some d) \<Rightarrow>
          (case handleIncoming update d ids pt of
             (Some e, pt1) \<Rightarrow> (Some (Return (fail_with E e)), pt1)
           | (None, pt1) \<Rightarrow> session_loop E update ids finish evs pt1)
      | Outgoing m \<Rightarrow> session_loop E update ids finish evs pt
      | Saved s \<Rightarrow> (Some (finish s), pt))"

text \<open>What the code needs of a type of save data, whose public point is set.\<close>

record 'save save_ops =
  so_marshal :: "'save \<Rightarrow> bytes res"
  so_unmarshal :: "bytes \<Rightarrow> 'save res"
  so_pub :: "'save \<Rightarrow> nat \<times> nat"

text \<open>\<open>elliptic.Marshal\<close> on a 256-bit curve.\<close>

definition elliptic_Marshal :: "nat \<times> nat \<Rightarrow> bytes" where
  "elliptic_Marshal p = 0x04 # be_put 32 (fst p) @ be_put 32 (snd p)"

definition marshalECDSAKeyShare :: "(bytes \<Rightarrow> bytes) \<Rightarrow> 'save save_ops \<Rightarrow> Curve \<Rightarrow> lib_party \<Rightarrow>
    'save \<Rightarrow> KeyShare res" where
  "marshalECDSAKeyShare sha256 ops curve p save =
     (case so_marshal ops save of
        Inl e \<Rightarrow> fail_with ErrDKGFailed (wrap_err ''marshal save data'' e)
      | Inr shareData \<Rightarrow>
          let pub = elliptic_Marshal (so_pub ops save) in
          Inr \<lparr>ks_Curve = curve, ks_PartyID = \<lparr>pid_ID = lp_Id p, pid_Index = lp_Index p\<rparr>,
               ks_Share = shareData, ks_PublicKey = pub, ks_ChainCode = sha256 pub\<rparr>)"

text \<open>
  \<open>edwardsPointToEd25519PubKey\<close> (derivation.go): y little-endian, the low bit of x in the top bit
  of the last byte. A y of more than 32 bytes would index past the buffer.
\<close>

definition edwardsPointToEd25519PubKey :: "nat \<times> nat \<Rightarrow> bytes may_panic" where
  "edwardsPointToEd25519PubKey p =
     (let yb = nat_bytes (snd p) in
      if length yb \<le> 32
      then (let pk = rev yb @ replicate (32 - length yb) 0 in
        Return (if odd (fst p) then pk[31 := or (pk ! 31) 0x80] else pk))
      else Panic)"

definition marshalEdDSAKeyShare :: "(bytes \<Rightarrow> bytes) \<Rightarrow> 'save save_ops \<Rightarrow> lib_party \<Rightarrow>
    'save \<Rightarrow> KeyShare res may_panic" where
  "marshalEdDSAKeyShare sha256 ops p save =
     (case so_marshal ops save of
        Inl e \<Rightarrow> Return (fail_with ErrDKGFailed (wrap_err ''marshal save data'' e))
      | Inr shareData \<Rightarrow>
          (case edwardsPointToEd25519PubKey (so_pub ops save) of
             Panic \<Rightarrow> Panic
           | Return pub \<Rightarrow>
               Return (Inr \<lparr>ks_Curve = CurveEd25519,
                 ks_PartyID = \<lparr>pid_ID = lp_Id p, pid_Index = lp_Index p\<rparr>,
                 ks_Share = shareData, ks_PublicKey = pub, ks_ChainCode = sha256 pub\<rparr>)))"

definition runDKGLoop :: "(bytes \<Rightarrow> bytes) \<Rightarrow> 'save save_ops \<Rightarrow> 'pt update \<Rightarrow> Curve \<Rightarrow> lib_party \<Rightarrow>
    lib_party list \<Rightarrow> 'save loop_event list \<Rightarrow> 'pt \<Rightarrow> KeyShare verdict \<times> 'pt" where
  "runDKGLoop sha256 ops update curve me ids evs pt =
     session_loop ErrDKGFailed update ids
       (\<lambda>s. Return (marshalECDSAKeyShare sha256 ops curve me s)) evs pt"

definition runEdDSADKGLoop :: "(bytes \<Rightarrow> bytes) \<Rightarrow> 'save save_ops \<Rightarrow> 'pt update \<Rightarrow> lib_party \<Rightarrow>
    lib_party list \<Rightarrow> 'save loop_event list \<Rightarrow> 'pt \<Rightarrow> KeyShare verdict \<times> 'pt" where
  "runEdDSADKGLoop sha256 ops update me ids evs pt =
     session_loop ErrDKGFailed update ids (marshalEdDSAKeyShare sha256 ops me) evs pt"

text \<open>The library's signature data, and the code's form of it.\<close>

record SignatureData =
  sd_R :: bytes
  sd_S :: bytes
  sd_Signature :: bytes
  sd_SignatureRecovery :: bytes

definition convertSignature :: "SignatureData \<Rightarrow> Signature" where
  "convertSignature d = \<lparr>sig_R = be_nat (sd_R d), sig_S = be_nat (sd_S d),
     sig_V = (if 0 < length (sd_SignatureRecovery d) then sd_SignatureRecovery d ! 0 else 0),
     sig_Bytes = sd_Signature d\<rparr>"

definition runSignLoop :: "'pt update \<Rightarrow> lib_party list \<Rightarrow> SignatureData loop_event list \<Rightarrow> 'pt \<Rightarrow>
    Signature verdict \<times> 'pt" where
  "runSignLoop update ids evs pt =
     session_loop ErrSigningFailed update ids (\<lambda>d. Return (Inr (convertSignature d))) evs pt"

subsection \<open>Opening a session\<close>

text \<open>
  The parameters a session of the library is opened with; \<open>pa_Input\<close> is what the constructor gets
  besides them (pre-parameters, the message and the share).
\<close>

record 'i params =
  pa_Curve :: Curve
  pa_Parties :: "lib_party list"
  pa_This :: lib_party
  pa_Count :: nat
  pa_Threshold :: int
  pa_Input :: 'i

text \<open>\<open>threshold\<close> of a protocol object: 0 stands for all parties but one.\<close>

definition effective_threshold :: "int \<Rightarrow> PartyID list \<Rightarrow> int" where
  "effective_threshold t parties = (if t = 0 then int (length parties) - 1 else t)"

definition dkgECDSA_params :: "(lib_party list \<Rightarrow> lib_party list) \<Rightarrow>
    (PartyID \<Rightarrow> 'pre res) option \<Rightarrow> 'pre res \<Rightarrow> PartyID \<Rightarrow> PartyID list \<Rightarrow> int \<Rightarrow>
    'pre params res" where
  "dkgECDSA_params S GetPreParams generated me parties t =
     (let sortedIDs = makeSortedPartyIDs S parties in
      case findPartyID sortedIDs (pid_ID me) of
        None \<Rightarrow> fail_with ErrDKGFailed (''party '' @ pid_ID me @ '' not found in party list'')
      | Some this \<Rightarrow>
          (case (case GetPreParams of
                   Some g \<Rightarrow> map_sum (wrap_err ''get pre-params'') id (g me)
                 | None \<Rightarrow> map_sum (wrap_err ''generate pre-params'') id generated) of
             Inl e \<Rightarrow> fail_with ErrDKGFailed e
           | Inr pre \<Rightarrow> Inr \<lparr>pa_Curve = CurveSecp256k1, pa_Parties = sortedIDs, pa_This = this,
               pa_Count = length sortedIDs, pa_Threshold = t, pa_Input = pre\<rparr>))"

definition dkgEdDSA_params :: "(lib_party list \<Rightarrow> lib_party list) \<Rightarrow> PartyID \<Rightarrow> PartyID list \<Rightarrow> int \<Rightarrow>
    unit params res" where
  "dkgEdDSA_params S me parties t =
     (let sortedIDs = makeSortedPartyIDs S parties in
      case findPartyID sortedIDs (pid_ID me) of
        None \<Rightarrow> fail_with ErrDKGFailed (''party '' @ pid_ID me @ '' not found in party list'')
      | Some this \<Rightarrow> Inr \<lparr>pa_Curve = CurveEd25519, pa_Parties = sortedIDs, pa_This = this,
          pa_Count = length sortedIDs, pa_Threshold = t, pa_Input = ()\<rparr>)"

text \<open>
  \<open>DKG\<close>: \<open>newE\<close>, \<open>newX\<close> are the library's \<open>NewLocalParty\<close> for the two schemes, and the events are
  what each loop receives.
\<close>

definition DKG :: "(lib_party list \<Rightarrow> lib_party list) \<Rightarrow> (bytes \<Rightarrow> bytes) \<Rightarrow>
    'se save_ops \<Rightarrow> 'sx save_ops \<Rightarrow> 'pt update \<Rightarrow> ('pre params \<Rightarrow> 'pt) \<Rightarrow> (unit params \<Rightarrow> 'pt) \<Rightarrow>
    (PartyID \<Rightarrow> 'pre res) option \<Rightarrow> 'pre res \<Rightarrow> 'se loop_event list \<Rightarrow> 'sx loop_event list \<Rightarrow>
    int \<Rightarrow> Curve \<Rightarrow> PartyID \<Rightarrow> PartyID list \<Rightarrow> KeyShare verdict" where
  "DKG S sha256 opsE opsX update newE newX getPre generated evE evX t0 curve me parties =
     (let t = effective_threshold t0 parties in
      if curve = CurveSecp256k1 then
        (case dkgECDSA_params S getPre generated me parties t of
           Inl e \<Rightarrow> Some (Return (Inl e))
         | Inr p \<Rightarrow> fst (runDKGLoop sha256 opsE update CurveSecp256k1 (pa_This p) (pa_Parties p)
             evE (newE p)))
      else if curve = CurveEd25519 then
        (case dkgEdDSA_params S me parties t of
           Inl e \<Rightarrow> Some (Return (Inl e))
         | Inr p \<Rightarrow> fst (runEdDSADKGLoop sha256 opsX update (pa_This p) (pa_Parties p) evX (newX p)))
      else Some (Return (fail_with ErrDKGFailed (''unsupported curve: '' @ curve))))"

text \<open>
  \<open>signECDSA\<close> and \<open>signEdDSA\<close>: they differ in the curve and the type of the save data. The message
  is handed to the library as a number.
\<close>

definition sign_params :: "(lib_party list \<Rightarrow> lib_party list) \<Rightarrow> 'save save_ops \<Rightarrow> Curve \<Rightarrow> bytes \<Rightarrow>
    bytes \<Rightarrow> PartyID \<Rightarrow> PartyID list \<Rightarrow> int \<Rightarrow> (nat \<times> 'save) params res" where
  "sign_params S ops curve message keyShareData me parties t =
     (case so_unmarshal ops keyShareData of
        Inl e \<Rightarrow> fail_with ErrSigningFailed (wrap_err ''unmarshal key share'' e)
      | Inr save \<Rightarrow>
          let sortedIDs = makeSortedPartyIDs S parties in
          (case findPartyID sortedIDs (pid_ID me) of
             None \<Rightarrow> fail_with ErrSigningFailed (''party '' @ pid_ID me @ '' not found'')
           | Some this \<Rightarrow> Inr \<lparr>pa_Curve = curve, pa_Parties = sortedIDs, pa_This = this,
               pa_Count = length sortedIDs, pa_Threshold = t,
               pa_Input = (be_nat message, save)\<rparr>))"

definition Sign :: "(lib_party list \<Rightarrow> lib_party list) \<Rightarrow> 'se save_ops \<Rightarrow> 'sx save_ops \<Rightarrow>
    'pt update \<Rightarrow> ((nat \<times> 'se) params \<Rightarrow> 'pt) \<Rightarrow> ((nat \<times> 'sx) params \<Rightarrow> 'pt) \<Rightarrow>
    SignatureData loop_event list \<Rightarrow> int \<Rightarrow> SignRequest \<Rightarrow> bytes \<Rightarrow> PartyID \<Rightarrow> PartyID list \<Rightarrow>
    Signature verdict" where
  "Sign S opsE opsX update newE newX evs t0 req keyShareData me parties =
     (let t = effective_threshold t0 parties in
      if sq_Curve req = CurveSecp256k1 then
        (case sign_params S opsE CurveSecp256k1 (sq_Message req) keyShareData me parties t of
           Inl e \<Rightarrow> Some (Return (Inl e))
         | Inr p \<Rightarrow> fst (runSignLoop update (pa_Parties p) evs (newE p)))
      else if sq_Curve req = CurveEd25519 then
        (case sign_params S opsX CurveEd25519 (sq_Message req) keyShareData me parties t of
           Inl e \<Rightarrow> Some (Return (Inl e))
         | Inr p \<Rightarrow> fst (runSignLoop update (pa_Parties p) evs (newX p)))
      else Some (Return (fail_with ErrSigningFailed (''unsupported curve: '' @ sq_Curve req))))"

subsection \<open>Resharing\<close>

text \<open>
  The two reshare functions differ in the curve and the save data. The party joins with its old
  share, or, when it is only in the new committee, with the empty save data of the library
  (\<open>fresh n\<close>). \<open>oldShare = None\<close> is the nil pointer such a party may pass.
\<close>

record 'save reshare_params =
  rp_Curve :: Curve
  rp_Old :: "lib_party list"
  rp_New :: "lib_party list"
  rp_This :: lib_party
  rp_OldThreshold :: int
  rp_NewThreshold :: int
  rp_Save :: 'save

definition reshare_params :: "(lib_party list \<Rightarrow> lib_party list) \<Rightarrow> 'save save_ops \<Rightarrow>
    (nat \<Rightarrow> 'save) \<Rightarrow> Curve \<Rightarrow> KeyShare option \<Rightarrow> PartyID \<Rightarrow> PartyID list \<Rightarrow> PartyID list \<Rightarrow> int \<Rightarrow>
    'save reshare_params res may_panic" where
  "reshare_params S ops fresh curve oldShare me oldParties newParties t =
     (let oldIDs = makeSortedPartyIDs S oldParties;
          newIDs = makeSortedPartyIDs S newParties;
          mk = (\<lambda>this save. \<lparr>rp_Curve = curve, rp_Old = oldIDs, rp_New = newIDs, rp_This = this,
                 rp_OldThreshold = int (length oldParties) - 1, rp_NewThreshold = t,
                 rp_Save = save\<rparr>)
      in case (findPartyID oldIDs (pid_ID me), findPartyID newIDs (pid_ID me)) of
           (None, None) \<Rightarrow> Return (fail_with ErrResharingFailed
             (''party '' @ pid_ID me @ '' not in old or new committee''))
         | (Some this, _) \<Rightarrow>
             (case oldShare of
                None \<Rightarrow> Panic
              | Some ks \<Rightarrow> (case so_unmarshal ops (ks_Share ks) of
                    Inl e \<Rightarrow> Return (fail_with ErrResharingFailed
                      (wrap_err ''unmarshal old share'' e))
                  | Inr save \<Rightarrow> Return (Inr (mk this save))))
         | (None, Some this) \<Rightarrow> Return (Inr (mk this (fresh (length newIDs)))))"

text \<open>The reshare loops route outgoing messages themselves.\<close>

fun reshare_loop :: "'r send \<Rightarrow> 'pt update \<Rightarrow> lib_party list \<Rightarrow> ('save \<Rightarrow> KeyShare res may_panic) \<Rightarrow>
    'save loop_event list \<Rightarrow> 'pt \<Rightarrow> 'r \<Rightarrow> KeyShare verdict \<times> 'pt \<times> 'r" where
  "reshare_loop send update ids finish [] pt r = (None, pt, r)"
| "reshare_loop send update ids finish (ev # evs) pt r =
     (case ev of
        CtxDone e \<Rightarrow> (Some (Return (fail_with ErrResharingFailed e)), pt, r)
      | LibErr e \<Rightarrow>
          (Some (Return (fail_with ErrResharingFailed (wrap_err ''tss error'' e))), pt, r)
      | RouteErr e \<Rightarrow> reshare_loop send update ids finish evs pt r
      | Outgoing m \<Rightarrow>
          (case routeMessage send m ids r of
             (Some e, r1) \<Rightarrow> (Some (Return (fail_with ErrResharingFailed e)), pt, r1)
           | (None, r1) \<Rightarrow> reshare_loop send update ids finish evs pt r1)
      | Incoming None \<Rightarrow>
          (Some (Return (fail_with ErrResharingFailed ''incoming channel closed'')), pt, r)
      | Incoming (Some d) \<Rightarrow>
          (case handleIncoming update d ids pt of
             (Some e, pt1) \<Rightarrow> (Some (Return (fail_with ErrResharingFailed e)), pt1, r)
           | (None, pt1) \<Rightarrow> reshare_loop send update ids finish evs pt1 r)
      | Saved s \<Rightarrow> (Some (finish s), pt, r))"

definition reshareECDSA_finish :: "(bytes \<Rightarrow> bytes) \<Rightarrow> 'save save_ops \<Rightarrow> KeyShare option \<Rightarrow>
    lib_party \<Rightarrow> 'save \<Rightarrow> KeyShare res may_panic" where
  "reshareECDSA_finish sha256 ops oldShare me save =
     (case oldShare of
        None \<Rightarrow> Panic
      | Some old \<Rightarrow>
          (case marshalECDSAKeyShare sha256 ops (ks_Curve old) me save of
             Inl e \<Rightarrow> Return (fail_with ErrResharingFailed e)
           | Inr ks \<Rightarrow> Return (Inr (ks\<lparr>ks_ChainCode := ks_ChainCode old\<rparr>))))"

definition reshareEdDSA_finish :: "(bytes \<Rightarrow> bytes) \<Rightarrow> 'save save_ops \<Rightarrow> KeyShare option \<Rightarrow>
    lib_party \<Rightarrow> 'save \<Rightarrow> KeyShare res may_panic" where
  "reshareEdDSA_finish sha256 ops oldShare me save =
     (case marshalEdDSAKeyShare sha256 ops me save of
        Panic \<Rightarrow> Panic
      | Return (Inl e) \<Rightarrow> Return (fail_with ErrResharingFailed e)
      | Return (Inr ks) \<Rightarrow>
          (case oldShare of
             None \<Rightarrow> Panic
           | Some old \<Rightarrow> Return (Inr (ks\<lparr>ks_ChainCode := ks_ChainCode old\<rparr>))))"

definition reshareECDSA :: "(lib_party list \<Rightarrow> lib_party list) \<Rightarrow> (bytes \<Rightarrow> bytes) \<Rightarrow>
    'save save_ops \<Rightarrow> (nat \<Rightarrow> 'save) \<Rightarrow> ('save reshare_params \<Rightarrow> 'pt) \<Rightarrow> 'r send \<Rightarrow> 'pt update \<Rightarrow>
    'save loop_event list \<Rightarrow> 'r \<Rightarrow> KeyShare option \<Rightarrow> PartyID \<Rightarrow> PartyID list \<Rightarrow> PartyID list \<Rightarrow> int \<Rightarrow>
    KeyShare verdict" where
  "reshareECDSA S sha256 ops fresh newLocalParty send update evs r oldShare me oldP newP t =
     (case reshare_params S ops fresh CurveSecp256k1 oldShare me oldP newP t of
        Panic \<Rightarrow> Some Panic
      | Return (Inl e) \<Rightarrow> Some (Return (Inl e))
      | Return (Inr p) \<Rightarrow>
          fst (reshare_loop send update (mergeSortedPartyIDs S (rp_Old p) (rp_New p))
            (reshareECDSA_finish sha256 ops oldShare (rp_This p)) evs (newLocalParty p) r))"

definition reshareEdDSA :: "(lib_party list \<Rightarrow> lib_party list) \<Rightarrow> (bytes \<Rightarrow> bytes) \<Rightarrow>
    'save save_ops \<Rightarrow> (nat \<Rightarrow> 'save) \<Rightarrow> ('save reshare_params \<Rightarrow> 'pt) \<Rightarrow> 'r send \<Rightarrow> 'pt update \<Rightarrow>
    'save loop_event list \<Rightarrow> 'r \<Rightarrow> KeyShare option \<Rightarrow> PartyID \<Rightarrow> PartyID list \<Rightarrow> PartyID list \<Rightarrow> int \<Rightarrow>
    KeyShare verdict" where
  "reshareEdDSA S sha256 ops fresh newLocalParty send update evs r oldShare me oldP newP t =
     (case reshare_params S ops fresh CurveEd25519 oldShare me oldP newP t of
        Panic \<Rightarrow> Some Panic
      | Return (Inl e) \<Rightarrow> Some (Return (Inl e))
      | Return (Inr p) \<Rightarrow>
          fst (reshare_loop send update (mergeSortedPartyIDs S (rp_Old p) (rp_New p))
            (reshareEdDSA_finish sha256 ops oldShare (rp_This p)) evs (newLocalParty p) r))"

text \<open>\<open>Reshare\<close>: the dispatch, with the default threshold taken over the new committee.\<close>

definition Reshare :: "int \<Rightarrow> Curve \<Rightarrow> PartyID list \<Rightarrow> (int \<Rightarrow> KeyShare verdict) \<Rightarrow>
    (int \<Rightarrow> KeyShare verdict) \<Rightarrow> KeyShare verdict" where
  "Reshare t0 curve newParties ecdsa eddsa =
     (let t = effective_threshold t0 newParties in
      if curve = CurveSecp256k1 then ecdsa t
      else if curve = CurveEd25519 then eddsa t
      else Some (Return (fail_with ErrResharingFailed (''unsupported curve: '' @ curve))))"

subsection \<open>What the sessions promise\<close>

lemma makeSorted_perm:
  assumes "distinct (map pid_ID ps)" and "mset ps = mset qs"
  shows "makeSortedPartyIDs S ps = makeSortedPartyIDs S qs"
proof -
  let ?k = "\<lambda>p. str_bytes (pid_ID p)"
  have inj: "inj_on ?k (set ps)"
  proof (rule inj_onI)
    fix x y assume "x \<in> set ps" "y \<in> set ps" "?k x = ?k y"
    then have "pid_ID x = pid_ID y" by (metis bytes_str_str_bytes)
    then show "x = y" using assms(1) \<open>x \<in> set ps\<close> \<open>y \<in> set ps\<close>
      by (simp add: distinct_map inj_on_def)
  qed
  have s: "set ps = set qs" using assms(2) by (rule mset_eq_setD)
  have "distinct ps" using assms(1) by (simp add: distinct_map)
  then have "distinct qs" using assms(2) by (metis mset_eq_imp_distinct_iff)
  with \<open>distinct ps\<close> have "sort_key ?k ps = sort_key ?k qs"
    using inj s by (intro map_sorted_distinct_set_unique [where f = ?k]) (simp_all add: distinct_map)
  then show ?thesis by (simp add: makeSortedPartyIDs_def)
qed


lemma session_loop_saved:
  assumes "session_loop E update ids finish evs pt = (Some (Return (Inr a)), pt')"
  shows "\<exists>pre s rest. evs = pre @ Saved s # rest \<and> finish s = Return (Inr a) \<and>
    (\<forall>e \<in> set pre. (\<exists>d. e = Incoming (Some d)) \<or> (\<exists>m. e = Outgoing m))"
  using assms
proof (induction evs arbitrary: pt)
  case Nil
  then show ?case by simp
next
  case (Cons ev evs)
  have step: ?case if lp: "session_loop E update ids finish evs pt1 = (Some (Return (Inr a)), pt')"
    and kind: "(\<exists>d. ev = Incoming (Some d)) \<or> (\<exists>m. ev = Outgoing m)" for pt1
  proof -
    obtain pre s rest where "evs = pre @ Saved s # rest" "finish s = Return (Inr a)"
      "\<forall>e \<in> set pre. (\<exists>d. e = Incoming (Some d)) \<or> (\<exists>m. e = Outgoing m)"
      using Cons.IH [OF lp] by blast
    then show ?thesis using kind by (intro exI [of _ "ev # pre"]) auto
  qed
  show ?case
  proof (cases ev)
    case (Incoming d)
    then obtain x pt1 where "d = Some x" "handleIncoming update x ids pt = (None, pt1)"
      using Cons.prems by (auto split: option.splits prod.splits)
    then show ?thesis using Incoming Cons.prems step [of pt1] by auto
  next
    case (Outgoing m)
    then show ?thesis using Cons.prems step [of pt] by auto
  next
    case (Saved s)
    then show ?thesis using Cons.prems by (intro exI [of _ "[]"]) auto
  qed (use Cons.prems in auto)
qed

definition log_send :: "(PartyID \<times> doc) list send" where
  "log_send p d r = (None, r @ [(p, d)])"

lemma send_each_log:
  "send_each log_send d ps r =
     (None, r @ map (\<lambda>p. (\<lparr>pid_ID = lp_Id p, pid_Index = lp_Index p\<rparr>, d)) ps)"
  by (induction ps arbitrary: r) (simp_all add: log_send_def)

lemma find_distinct:
  "distinct (map lp_Id ids) \<Longrightarrow> p \<in> set ids \<Longrightarrow> findPartyID ids (lp_Id p) = Some p"
  by (induction ids) (auto simp: findPartyID_def)

text \<open>
  Both parties compute the same ordered committee: listing the parties in another order gives
  the same sorted ids, whatever the library's own ordering does, as long as no id occurs twice.
  Shares, evaluation points and the peer context therefore refer to the same indices on both
  sides.
\<close>

theorem makeSortedPartyIDs_order_independent:
  assumes "distinct (map pid_ID ps)" and "mset ps = mset qs"
  shows "makeSortedPartyIDs SortPartyIDs ps = makeSortedPartyIDs SortPartyIDs qs"
  using assms by (rule makeSorted_perm)

theorem makeSortedPartyIDs_order_independent_witness:
  "makeSortedPartyIDs (\<lambda>x. x) [\<lparr>pid_ID = ''party-b'', pid_Index = 1\<rparr>, \<lparr>pid_ID = ''party-a'', pid_Index = 0\<rparr>]
   = makeSortedPartyIDs (\<lambda>x. x) [\<lparr>pid_ID = ''party-a'', pid_Index = 0\<rparr>, \<lparr>pid_ID = ''party-b'', pid_Index = 1\<rparr>]"
  by (rule makeSortedPartyIDs_order_independent) simp_all

text \<open>
  A protocol message reaches its receivers unchanged: what \<open>routeMessage\<close> sends for a
  broadcast goes once to every party but the sender, in order, and a receiver's \<open>handleIncoming\<close>
  hands exactly the library's bytes, attributed to the real sender and with its broadcast flag, to
  its own party.
\<close>

theorem broadcast_delivered:
  assumes "om_WireBytes msg = Inr b" and "om_IsBroadcast msg"
    and "distinct (map lp_Id ids)" and "from \<in> set ids" and "lp_Id from = om_From msg"
  shows "\<exists>d. routeMessage log_send msg ids [] =
      (None, map (\<lambda>p. (\<lparr>pid_ID = lp_Id p, pid_Index = lp_Index p\<rparr>, d))
        (filter (\<lambda>p. p \<noteq> from) ids)) \<and>
    handleIncoming update d ids pt =
      (case update b from True pt of
         (Some e, pt1) \<Rightarrow> (Some (wrap_err ''update from bytes'' e), pt1)
       | (None, pt1) \<Rightarrow> (None, pt1))"
proof -
  have "filter (\<lambda>p. lp_Id p \<noteq> om_From msg) ids = filter (\<lambda>p. p \<noteq> from) ids"
    using assms(3-5) by (intro filter_cong) (auto simp: distinct_map inj_on_def)
  moreover have "findPartyID ids (om_From msg) = Some from"
    using find_distinct [OF assms(3,4)] assms(5) by simp
  ultimately show ?thesis using assms(1,2)
    by (intro exI [of _ "enc_wire \<lparr>wm_From = om_From msg, wm_IsBroadcast = True, wm_Payload = b\<rparr>"])
      (auto simp: routeMessage_def send_each_log handleIncoming_def split: prod.splits option.splits)
qed

definition demo_party :: "string \<Rightarrow> nat \<Rightarrow> lib_party" where
  "demo_party i k = \<lparr>lp_Id = i, lp_Moniker = [], lp_Key = k, lp_Index = int k\<rparr>"

definition demo_update :: "bytes update" where
  "demo_update b p bc pt = (None, pt @ b)"

theorem broadcast_delivered_witness:
  "\<exists>d. routeMessage log_send \<lparr>om_From = ''a'', om_IsBroadcast = True, om_To = [],
       om_WireBytes = Inr [7, 8]\<rparr> [demo_party ''a'' 0, demo_party ''b'' 1] [] =
      (None, [(\<lparr>pid_ID = ''b'', pid_Index = 1\<rparr>, d)]) \<and>
     handleIncoming demo_update d [demo_party ''a'' 0, demo_party ''b'' 1] [] = (None, [7, 8])"
  using broadcast_delivered [of "\<lparr>om_From = ''a'', om_IsBroadcast = True, om_To = [],
       om_WireBytes = Inr [7, 8]\<rparr>" "[7, 8]" "[demo_party ''a'' 0, demo_party ''b'' 1]"
       "demo_party ''a'' 0" demo_update "[]"]
  by (simp add: demo_party_def demo_update_def)

text \<open>
  A signing session yields a signature only when the library's party finished: every event
  before that was a message accepted by the party or one it sent, and the signature is the
  library's, converted. A cancelled context, a library or routing error, a closed channel, a
  malformed message and a message of an unknown sender each end the session with an error instead.
\<close>

theorem signature_only_from_library:
  assumes "runSignLoop update ids evs pt = (Some (Return (Inr sig)), pt')"
  shows "\<exists>pre d rest. evs = pre @ Saved d # rest \<and> sig = convertSignature d \<and>
    (\<forall>e \<in> set pre. (\<exists>x. e = Incoming (Some x)) \<or> (\<exists>m. e = Outgoing m))"
  using session_loop_saved [OF assms [unfolded runSignLoop_def]] by auto

theorem signature_only_from_library_witness:
  "\<exists>pre d rest.
    [Incoming (Some (enc_wire \<lparr>wm_From = ''a'', wm_IsBroadcast = True, wm_Payload = [1]\<rparr>)),
     Saved \<lparr>sd_R = [1], sd_S = [2], sd_Signature = [1, 2], sd_SignatureRecovery = []\<rparr>] =
      pre @ Saved d # rest \<and>
    \<lparr>sig_R = 1, sig_S = 2, sig_V = 0, sig_Bytes = [1, 2]\<rparr> = convertSignature d \<and>
    (\<forall>e \<in> set pre. (\<exists>x. e = Incoming (Some x)) \<or> (\<exists>m. e = Outgoing m))"
proof (rule signature_only_from_library)
  show "runSignLoop demo_update [demo_party ''a'' 0]
    [Incoming (Some (enc_wire \<lparr>wm_From = ''a'', wm_IsBroadcast = True, wm_Payload = [1]\<rparr>)),
     Saved \<lparr>sd_R = [1], sd_S = [2], sd_Signature = [1, 2], sd_SignatureRecovery = []\<rparr>] [] =
    (Some (Return (Inr \<lparr>sig_R = 1, sig_S = 2, sig_V = 0, sig_Bytes = [1, 2]\<rparr>)), [1])"
    by (simp add: runSignLoop_def handleIncoming_def findPartyID_def demo_party_def demo_update_def
        convertSignature_def)
qed

text \<open>
  An EdDSA session does not sign a message that begins with a zero byte: the message is handed
  to the library as a number, so the session of \<open>0 # m\<close> is the session of \<open>m\<close>, and a verifier of
  the original bytes rejects the signature.
\<close>

theorem eddsa_leading_zero_lost:
  "sign_params S ops CurveEd25519 (0 # m) ks me parties t =
     sign_params S ops CurveEd25519 m ks me parties t"
  by (auto simp: sign_params_def Let_def split: sum.splits option.splits)

lemma reshare_loop_chain:
  assumes "reshare_loop send update ids finish evs pt r = (Some (Return (Inr ks)), x)"
  shows "\<exists>s. Saved s \<in> set evs \<and> finish s = Return (Inr ks)"
  using assms
proof (induction evs arbitrary: pt r)
  case Nil
  then show ?case by simp
next
  case (Cons ev evs)
  then show ?case
    by (cases ev) (auto split: option.splits prod.splits)
qed

text \<open>
  C39. Resharing keeps the chain code: a share that resharing returns on secp256k1 or ed25519 has
  the chain code of the old share that went in.
\<close>

theorem reshare_keeps_chain_code:
  assumes "reshareECDSA S sha256 ops fresh new send update evs r (Some old) me oldP newP t =
      Some (Return (Inr ks)) \<or>
    reshareEdDSA S sha256 ops fresh newX send update evs r (Some old) me oldP newP t =
      Some (Return (Inr ks))"
  shows "ks_ChainCode ks = ks_ChainCode old"
proof -
  have fin: "ks_ChainCode ks = ks_ChainCode old"
    if "finish s = Return (Inr ks)" "finish = reshareECDSA_finish sha256 ops (Some old) p \<or>
      finish = reshareEdDSA_finish sha256 ops (Some old) p" for finish s p
    using that
    by (auto simp: reshareECDSA_finish_def reshareEdDSA_finish_def
        split: sum.splits may_panic.splits)
  have "\<exists>finish s p. finish s = Return (Inr ks) \<and>
    (finish = reshareECDSA_finish sha256 ops (Some old) p \<or>
     finish = reshareEdDSA_finish sha256 ops (Some old) p)"
    using assms
    by (auto simp: reshareECDSA_def reshareEdDSA_def fst_def split: may_panic.splits sum.splits
        prod.splits dest!: reshare_loop_chain)
  then show ?thesis using fin by blast
qed

definition demo_share :: KeyShare where
  "demo_share = \<lparr>ks_Curve = CurveSecp256k1, ks_PartyID = \<lparr>pid_ID = ''a'', pid_Index = 0\<rparr>,
     ks_Share = [1], ks_PublicKey = [4], ks_ChainCode = [9]\<rparr>"

definition demo_ops :: "bytes save_ops" where
  "demo_ops = \<lparr>so_marshal = Inr, so_unmarshal = Inr, so_pub = (\<lambda>s. (be_nat s, 0))\<rparr>"

theorem reshare_keeps_chain_code_witness:
  "\<exists>ks. reshareECDSA (\<lambda>x. x) (\<lambda>b. [0]) demo_ops (\<lambda>n. []) (\<lambda>p. []) log_send demo_update [Saved [5]]
      [] (Some demo_share) \<lparr>pid_ID = ''a'', pid_Index = 0\<rparr> [\<lparr>pid_ID = ''a'', pid_Index = 0\<rparr>]
      [\<lparr>pid_ID = ''a'', pid_Index = 0\<rparr>] 1 = Some (Return (Inr ks)) \<and> ks_ChainCode ks = [9]"
proof -
  let ?p = "\<lparr>pid_ID = ''a'', pid_Index = 0\<rparr>"
  let ?r = "reshareECDSA (\<lambda>x. x) (\<lambda>b. [0]) demo_ops (\<lambda>n. []) (\<lambda>p. []) log_send demo_update [Saved [5]]
      [] (Some demo_share) ?p [?p] [?p] 1"
  have "\<exists>ks. ?r = Some (Return (Inr ks))"
    by (simp add: reshareECDSA_def reshare_params_def reshareECDSA_finish_def Let_def
        makeSortedPartyIDs_def findPartyID_def NewPartyID_def demo_ops_def demo_share_def
        marshalECDSAKeyShare_def)
  then obtain ks where "?r = Some (Return (Inr ks))" by blast
  moreover from this have "ks_ChainCode ks = ks_ChainCode demo_share"
    by (rule reshare_keeps_chain_code [OF disjI1])
  ultimately show ?thesis by (simp add: demo_share_def)
qed

text \<open>
  A party that is only in the new committee cannot finish a reshare: it has no old share, and
  once the library is done the code reads the chain code of that missing share and panics.
\<close>

theorem new_party_reshare_panics:
  assumes "findPartyID (makeSortedPartyIDs S oldP) (pid_ID me) = None"
    and "findPartyID (makeSortedPartyIDs S newP) (pid_ID me) = Some this"
  shows "reshareECDSA S sha256 ops fresh new send update [Saved s] r None me oldP newP t = Some Panic"
  using assms by (simp add: reshareECDSA_def reshare_params_def reshareECDSA_finish_def Let_def)

theorem new_party_reshare_panics_witness:
  "reshareECDSA (\<lambda>x. x) (\<lambda>b. b)
     \<lparr>so_marshal = (\<lambda>s. Inr []), so_unmarshal = (\<lambda>b. Inr ()), so_pub = (\<lambda>s. (0, 0))\<rparr> (\<lambda>n. ())
     (\<lambda>p. []) log_send demo_update [Saved ()] [] None
     \<lparr>pid_ID = ''c'', pid_Index = 0\<rparr> [\<lparr>pid_ID = ''a'', pid_Index = 0\<rparr>]
     [\<lparr>pid_ID = ''c'', pid_Index = 0\<rparr>] 1 = Some Panic"
  by (rule new_party_reshare_panics)
    (simp_all add: makeSortedPartyIDs_def findPartyID_def NewPartyID_def)

end
