(* ===== verification/Derivation.thy ===== *)
theory Derivation
  imports Tss
begin

section \<open>Hierarchical derivation of key shares (internal/tss/derivation.go)\<close>

text \<open>
  \<open>parsePath\<close> and the derivation of a child share from a master share, \<open>deriveECDSA\<close> and
  \<open>deriveEdDSA\<close>, with the loop over the path indices written as the code has it. The curve
  arithmetic of tss-lib is a record of functions on affine coordinates, HMAC-SHA-512 an argument;
  \<open>ec_laws\<close> states what is assumed of the curve: it is a group generated by the base point.
\<close>

subsection \<open>Paths\<close>

text \<open>\<open>%q\<close> of a printable string without quotes.\<close>

definition go_quote :: "string \<Rightarrow> string" where
  "go_quote s = CHR 0x22 # s @ [CHR 0x22]"

definition num_error :: "string \<Rightarrow> err \<Rightarrow> err" where
  "num_error s e = wrap_err (''strconv.ParseUint: parsing '' @ go_quote s) e"

definition hardenedOffset :: u32 where "hardenedOffset = 0x80000000"

definition is_hardened :: "string \<Rightarrow> bool" where
  "is_hardened part \<longleftrightarrow> part \<noteq> [] \<and> last part \<in> {CHR 0x27, CHR ''h'', CHR ''H''}"

definition parse_component :: "string \<Rightarrow> u32 res" where
  "parse_component part0 =
     (let hardened = is_hardened part0;
          part = (if hardened then butlast part0 else part0)
      in case parse_uint 31 part of
           Inl e \<Rightarrow> Inl (wrap_err (''invalid path component '' @ go_quote part) (num_error part e))
         | Inr n \<Rightarrow> Inr (word_of_nat n + (if hardened then hardenedOffset else 0)))"

fun parse_parts :: "string list \<Rightarrow> u32 list res" where
  "parse_parts [] = Inr []"
| "parse_parts (p # ps) =
     (if p = [] then parse_parts ps
      else (case parse_component p of
          Inl e \<Rightarrow> Inl e
        | Inr i \<Rightarrow> (case parse_parts ps of Inl e \<Rightarrow> Inl e | Inr is \<Rightarrow> Inr (i # is))))"

definition parsePath :: "string \<Rightarrow> u32 list res" where
  "parsePath path0 =
     (let path = trim_prefix path0 ''m/'' in
      if path = [] then Inl ''empty derivation path''
      else parse_parts (split_on CHR ''/'' path))"

text \<open>The canonical text of a path, for stating what \<open>parsePath\<close> accepts.\<close>

definition show_index :: "u32 \<Rightarrow> string" where
  "show_index i = (if unat i < 2 ^ 31 then nat_dec (unat i)
     else nat_dec (unat i - 2 ^ 31) @ [CHR 0x27])"

definition show_path :: "u32 list \<Rightarrow> string" where
  "show_path is = ''m/'' @ str_join ''/'' (map show_index is)"

lemma digit_not [simp]: "\<not> is_digit CHR 0x27" "\<not> is_digit CHR ''h''" "\<not> is_digit CHR ''H''"
    "\<not> is_digit CHR ''/''"
  by (simp_all add: is_digit_def)

lemma last_nat_dec_digit: "is_digit (last (nat_dec n))"
  using nat_dec_digits [of n] nat_dec_nonempty [of n] by (simp add: list_all_iff)

lemma not_hardened_nat_dec [simp]: "\<not> is_hardened (nat_dec n)"
  using last_nat_dec_digit [of n] by (auto simp: is_hardened_def)

lemma unat_u32_less: "unat (i :: u32) < 2 ^ 32"
  using unsigned_less [of i, where ?'a = nat] by simp

lemma parse_component_show: "parse_component (show_index i) = Inr i"
proof (cases "unat i < 2 ^ 31")
  case True
  then show ?thesis
    by (simp add: parse_component_def show_index_def Let_def parse_uint_def)
next
  case False
  have lt: "unat i - 2 ^ 31 < 2 ^ 31" using unat_u32_less [of i] by simp
  have h: "is_hardened (nat_dec (unat i - 2 ^ 31) @ [CHR 0x27])"
    by (simp add: is_hardened_def)
  have "(word_of_nat (unat i - 2 ^ 31) + hardenedOffset :: u32) = i"
  proof -
    have "(word_of_nat (unat i - 2 ^ 31) + hardenedOffset :: u32)
        = word_of_nat ((unat i - 2 ^ 31) + 2 ^ 31)" by (simp add: hardenedOffset_def)
    also have "\<dots> = word_of_nat (unat i)" using False by (intro arg_cong [of _ _ word_of_nat]) simp
    finally show ?thesis by simp
  qed
  then show ?thesis using False lt h
    by (simp add: parse_component_def show_index_def Let_def parse_uint_def)
qed

lemma show_index_no_slash: "CHR ''/'' \<notin> set (show_index i)" "show_index i \<noteq> []"
proof -
  have "CHR ''/'' \<notin> set (nat_dec n)" for n
    using nat_dec_digits [of n] by (auto simp: list_all_iff)
  then show "CHR ''/'' \<notin> set (show_index i)" "show_index i \<noteq> []"
    by (auto simp: show_index_def)
qed

lemma split_on_join:
  "ss \<noteq> [] \<Longrightarrow> \<forall>s \<in> set ss. c \<notin> set s \<Longrightarrow> split_on c (str_join [c] ss) = ss"
proof (induction "[c]" ss rule: str_join.induct)
  case (2 s)
  then show ?case by (simp add: split_on_no_sep)
next
  case (3 s t ss)
  then show ?case using split_on_append_sep [of c s "str_join [c] (t # ss)"] by simp
qed simp

lemma parse_parts_show: "parse_parts (map show_index is) = Inr is"
  by (induction "is") (auto simp: show_index_no_slash parse_component_show)

lemma parsePath_canonical:
  assumes "is \<noteq> []"
  shows "parsePath (show_path is) = Inr is"
proof -
  have ne: "str_join ''/'' (map show_index is) \<noteq> []"
    using assms show_index_no_slash(2) by (cases "is" rule: remdups_adj.cases) auto
  have "split_on CHR ''/'' (str_join ''/'' (map show_index is)) = map show_index is"
    using assms by (intro split_on_join) (auto simp: show_index_no_slash)
  then show ?thesis using ne
    by (simp add: parsePath_def show_path_def Let_def parse_parts_show trim_prefix_def has_prefix_def)
qed

text \<open>
  Every non-empty list of indices has a text that \<open>parsePath\<close> reads back, hardened indices
  (from 2^31) marked with an apostrophe: no index is lost, wrapped or confused with another.
\<close>

theorem parsePath_show:
  assumes "is \<noteq> []"
  shows "parsePath (show_path is) = Inr is"
  using assms by (rule parsePath_canonical)

theorem parsePath_show_witness:
  "parsePath (show_path [0x8000002C, 0, 5]) = Inr [0x8000002C, 0, 5]"
  by (simp add: parsePath_show)

subsection \<open>The curve\<close>

type_synonym point = "nat \<times> nat"

text \<open>
  What the code calls of \<open>elliptic.Curve\<close> and of \<open>crypto.NewECPoint\<close> (which checks that the point
  is on the curve).
\<close>

record ec =
  ec_N :: nat
  ec_Add :: "point \<Rightarrow> point \<Rightarrow> point"
  ec_ScalarBaseMult :: "bytes \<Rightarrow> point"
  ec_check :: "point \<Rightarrow> err option"

definition NewECPoint :: "ec \<Rightarrow> point \<Rightarrow> point res" where
  "NewECPoint c p = (case ec_check c p of None \<Rightarrow> Inr p | Some e \<Rightarrow> Inl e)"

text \<open>\<open>pt, _ := NewECPoint(...)\<close>: a rejected point becomes the nil pointer.\<close>

definition point_or_nil :: "ec \<Rightarrow> point \<Rightarrow> point option" where
  "point_or_nil c p = (case NewECPoint c p of Inl e \<Rightarrow> None | Inr q \<Rightarrow> Some q)"

text \<open>
  The group laws: \<open>smul k\<close> is the \<open>k\<close>-th multiple of the base point, with coordinates of at most
  32 bytes.
\<close>

definition ec_laws :: "ec \<Rightarrow> (nat \<Rightarrow> point) \<Rightarrow> bool" where
  "ec_laws c smul \<longleftrightarrow> 0 < ec_N c \<and> ec_N c \<le> 256 ^ 32 \<and>
     (\<forall>a b. ec_Add c (smul a) (smul b) = smul (a + b)) \<and>
     (\<forall>b. ec_ScalarBaseMult c b = smul (be_nat b)) \<and>
     (\<forall>a. smul (a mod ec_N c) = smul a) \<and>
     (\<forall>a. fst (smul a) < 256 ^ 32 \<and> snd (smul a) < 256 ^ 32)"

lemma smul_add_mod: "ec_laws c smul \<Longrightarrow> smul ((a + b) mod ec_N c) = ec_Add c (smul a) (smul b)"
  by (simp add: ec_laws_def)

lemma smul_mod: "ec_laws c smul \<Longrightarrow> smul (a mod ec_N c) = smul a"
  by (simp add: ec_laws_def)

text \<open>
  \<open>compressPublicKey\<close>: a parity byte, then x in the last bytes; 33 bytes of x would overwrite the
  parity byte and more would panic.
\<close>

definition compressPublicKey :: "point \<Rightarrow> bytes may_panic" where
  "compressPublicKey p =
     (let buf = (if even (snd p) then 0x02 else 0x03) # replicate 32 0;
          xb = nat_bytes (fst p)
      in if length xb \<le> 33 then Return (take (33 - length xb) buf @ xb) else Panic)"

lemma compressPublicKey_normal:
  assumes "fst p < 256 ^ 32"
  shows "compressPublicKey p = Return ((if even (snd p) then 0x02 else 0x03) # be_put 32 (fst p))"
proof -
  let ?xb = "nat_bytes (fst p)"
  have l: "length ?xb \<le> 32" using assms by (rule length_nat_bytes_le)
  then have "33 - length ?xb = Suc (32 - length ?xb)" by simp
  moreover have "replicate (32 - length ?xb) 0 @ ?xb = be_put 32 (fst p)"
    using left_pad_nat_bytes [OF assms] l by (simp add: left_pad_def)
  ultimately show ?thesis using l by (simp add: compressPublicKey_def Let_def min_def)
qed

subsection \<open>The derivation loops\<close>

text \<open>
  The save data of a party, the fields the derivation reads and writes: the secret share, every
  party's public share (nil where absent) and the public key (\<open>ECDSAPub\<close> or \<open>EDDSAPub\<close>); \<open>'x\<close> is
  the rest of it.
\<close>

record 'x save_data =
  sv_Xi :: nat
  sv_BigXj :: "point option list"
  sv_Pub :: point
  sv_rest :: 'x

record hd =
  hd_Pub :: point
  hd_ChainCode :: bytes
  hd_Xi :: nat
  hd_BigXj :: "point option list"

definition shift_points :: "ec \<Rightarrow> point \<Rightarrow> point option list \<Rightarrow> point option list" where
  "shift_points c g ps = map (\<lambda>p. case p of None \<Rightarrow> None | Some q \<Rightarrow> point_or_nil c (ec_Add c q g)) ps"

definition ecdsa_step :: "ec \<Rightarrow> (bytes \<Rightarrow> bytes \<Rightarrow> bytes) \<Rightarrow> u32 \<Rightarrow> hd \<Rightarrow> hd res may_panic" where
  "ecdsa_step c hmac idx st =
     (case compressPublicKey (hd_Pub st) of
        Panic \<Rightarrow> Panic
      | Return compressed \<Rightarrow>
          let il_ir = hmac (hd_ChainCode st) (compressed @ be_put 4 (unat idx));
              il = take 32 il_ir;
              ir = drop 32 il_ir;
              ilInt = be_nat il;
              n = ec_N c
          in if n \<le> ilInt
             then Return (fail_with ErrDerivationFailed
               (''derived key >= curve order at index '' @ nat_dec (unat idx)))
             else let g = ec_ScalarBaseMult c il in
               Return (Inr \<lparr>hd_Pub = ec_Add c (hd_Pub st) g, hd_ChainCode = ir,
                 hd_Xi = (hd_Xi st + ilInt) mod n, hd_BigXj = shift_points c g (hd_BigXj st)\<rparr>))"

text \<open>On ed25519 the left half of the MAC is reduced instead of rejected.\<close>

definition eddsa_step :: "ec \<Rightarrow> (bytes \<Rightarrow> bytes \<Rightarrow> bytes) \<Rightarrow> u32 \<Rightarrow> hd \<Rightarrow> hd res may_panic" where
  "eddsa_step c hmac idx st =
     (case compressPublicKey (hd_Pub st) of
        Panic \<Rightarrow> Panic
      | Return compressed \<Rightarrow>
          let il_ir = hmac (hd_ChainCode st) (compressed @ be_put 4 (unat idx));
              il = take 32 il_ir;
              ir = drop 32 il_ir;
              n = ec_N c;
              ilInt = be_nat il mod n
          in (case left_pad 32 (nat_bytes ilInt) of
                Panic \<Rightarrow> Panic
              | Return ilBytes \<Rightarrow>
                  let g = ec_ScalarBaseMult c ilBytes in
                  Return (Inr \<lparr>hd_Pub = ec_Add c (hd_Pub st) g, hd_ChainCode = ir,
                    hd_Xi = (hd_Xi st + ilInt) mod n, hd_BigXj = shift_points c g (hd_BigXj st)\<rparr>)))"

fun derive_loop :: "(u32 \<Rightarrow> 'a \<Rightarrow> 'a res may_panic) \<Rightarrow> u32 list \<Rightarrow> 'a \<Rightarrow> 'a res may_panic" where
  "derive_loop step [] st = Return (Inr st)"
| "derive_loop step (i # is) st =
     (case step i st of
        Panic \<Rightarrow> Panic
      | Return (Inl e) \<Rightarrow> Return (Inl e)
      | Return (Inr st1) \<Rightarrow> derive_loop step is st1)"

text \<open>The state before the first index; a public share that is no curve point becomes nil.\<close>

definition hd_start :: "ec \<Rightarrow> 'x save_data \<Rightarrow> bytes \<Rightarrow> hd" where
  "hd_start c save chain = \<lparr>hd_Pub = sv_Pub save, hd_ChainCode = chain, hd_Xi = sv_Xi save,
     hd_BigXj = map (\<lambda>p. case p of None \<Rightarrow> None | Some q \<Rightarrow> point_or_nil c q) (sv_BigXj save)\<rparr>"

text \<open>The save data of the child and the key it belongs to.\<close>

definition derived_key :: "ec \<Rightarrow> 'x save_data save_ops \<Rightarrow> KeyShare \<Rightarrow> string \<Rightarrow> 'x save_data \<Rightarrow> hd \<Rightarrow>
    bytes \<Rightarrow> DerivedKey res" where
  "derived_key c ops master path save st pubKeyBytes =
     (case NewECPoint c (hd_Pub st) of
        Inl e \<Rightarrow> fail_with ErrDerivationFailed (wrap_err ''create derived public key point'' e)
      | Inr pub \<Rightarrow>
          (case so_marshal ops (save\<lparr>sv_Xi := hd_Xi st, sv_BigXj := hd_BigXj st, sv_Pub := pub\<rparr>) of
             Inl e \<Rightarrow> fail_with ErrDerivationFailed (wrap_err ''marshal derived share'' e)
           | Inr share \<Rightarrow> Inr \<lparr>dk_Curve = ks_Curve master, dk_DerivationPath = path,
               dk_Share = share, dk_PublicKey = pubKeyBytes, dk_Address = []\<rparr>))"

definition deriveECDSA :: "ec \<Rightarrow> (bytes \<Rightarrow> bytes \<Rightarrow> bytes) \<Rightarrow> 'x save_data save_ops \<Rightarrow> KeyShare \<Rightarrow>
    string \<Rightarrow> u32 list \<Rightarrow> DerivedKey res may_panic" where
  "deriveECDSA c hmac ops master path indices =
     (case so_unmarshal ops (ks_Share master) of
        Inl e \<Rightarrow> Return (fail_with ErrDerivationFailed (wrap_err ''unmarshal share'' e))
      | Inr save \<Rightarrow>
          (case derive_loop (ecdsa_step c hmac) indices (hd_start c save (ks_ChainCode master)) of
             Panic \<Rightarrow> Panic
           | Return (Inl e) \<Rightarrow> Return (Inl e)
           | Return (Inr st) \<Rightarrow>
               (case (left_pad 32 (nat_bytes (fst (hd_Pub st))), left_pad 32 (nat_bytes (snd (hd_Pub st)))) of
                  (Return x, Return y) \<Rightarrow>
                    Return (derived_key c ops master path save st (0x04 # x @ y))
                | _ \<Rightarrow> Panic)))"

definition deriveEdDSA :: "ec \<Rightarrow> (bytes \<Rightarrow> bytes \<Rightarrow> bytes) \<Rightarrow> 'x save_data save_ops \<Rightarrow> KeyShare \<Rightarrow>
    string \<Rightarrow> u32 list \<Rightarrow> DerivedKey res may_panic" where
  "deriveEdDSA c hmac ops master path indices =
     (case so_unmarshal ops (ks_Share master) of
        Inl e \<Rightarrow> Return (fail_with ErrDerivationFailed (wrap_err ''unmarshal share'' e))
      | Inr save \<Rightarrow>
          (case derive_loop (eddsa_step c hmac) indices (hd_start c save (ks_ChainCode master)) of
             Panic \<Rightarrow> Panic
           | Return (Inl e) \<Rightarrow> Return (Inl e)
           | Return (Inr st) \<Rightarrow>
               (case edwardsPointToEd25519PubKey (hd_Pub st) of
                  Panic \<Rightarrow> Panic
                | Return pub \<Rightarrow> Return (derived_key c ops master path save st pub))))"

definition DeriveKey :: "ec \<Rightarrow> ec \<Rightarrow> (bytes \<Rightarrow> bytes \<Rightarrow> bytes) \<Rightarrow> 'x save_data save_ops \<Rightarrow>
    'y save_data save_ops \<Rightarrow> KeyShare \<Rightarrow> string \<Rightarrow> DerivedKey res may_panic" where
  "DeriveKey s256 edwards hmac opsE opsX master path =
     (case parsePath path of
        Inl e \<Rightarrow> Return (fail_with ErrDerivationFailed e)
      | Inr indices \<Rightarrow>
          if ks_Curve master = CurveSecp256k1 then deriveECDSA s256 hmac opsE master path indices
          else if ks_Curve master = CurveEd25519 then deriveEdDSA edwards hmac opsX master path indices
          else Return (fail_with ErrDerivationFailed
            (''derivation not supported for curve '' @ ks_Curve master)))"

subsection \<open>What one step depends on\<close>

text \<open>
  Both steps take a number, a point and a chain code from the public key and the chain code alone
  (the tweak) and apply them to the secret share and to the public values. \<open>path_shift\<close> is the
  total of the tweaks along a path.
\<close>

type_synonym tweak = "(nat \<times> point \<times> bytes) res may_panic"

definition ecdsa_tweak :: "ec \<Rightarrow> (bytes \<Rightarrow> bytes \<Rightarrow> bytes) \<Rightarrow> u32 \<Rightarrow> point \<Rightarrow> bytes \<Rightarrow> tweak" where
  "ecdsa_tweak c hmac i pub chain =
     (case compressPublicKey pub of
        Panic \<Rightarrow> Panic
      | Return b \<Rightarrow>
          let m = hmac chain (b @ be_put 4 (unat i)); d = be_nat (take 32 m) in
          if ec_N c \<le> d
          then Return (fail_with ErrDerivationFailed
            (''derived key >= curve order at index '' @ nat_dec (unat i)))
          else Return (Inr (d, ec_ScalarBaseMult c (take 32 m), drop 32 m)))"

definition eddsa_tweak :: "ec \<Rightarrow> (bytes \<Rightarrow> bytes \<Rightarrow> bytes) \<Rightarrow> u32 \<Rightarrow> point \<Rightarrow> bytes \<Rightarrow> tweak" where
  "eddsa_tweak c hmac i pub chain =
     (case compressPublicKey pub of
        Panic \<Rightarrow> Panic
      | Return b \<Rightarrow>
          let m = hmac chain (b @ be_put 4 (unat i)); d = be_nat (take 32 m) mod ec_N c in
          (case left_pad 32 (nat_bytes d) of
             Panic \<Rightarrow> Panic
           | Return l \<Rightarrow> Return (Inr (d, ec_ScalarBaseMult c l, drop 32 m))))"

fun path_shift :: "ec \<Rightarrow> (u32 \<Rightarrow> point \<Rightarrow> bytes \<Rightarrow> tweak) \<Rightarrow> u32 list \<Rightarrow> point \<Rightarrow> bytes \<Rightarrow> tweak" where
  "path_shift c tw [] pub chain = Return (Inr (0, pub, chain))"
| "path_shift c tw (i # is) pub chain =
     (case tw i pub chain of
        Panic \<Rightarrow> Panic
      | Return (Inl e) \<Rightarrow> Return (Inl e)
      | Return (Inr (d, g, ir)) \<Rightarrow>
          (case path_shift c tw is (ec_Add c pub g) ir of
             Panic \<Rightarrow> Panic
           | Return (Inl e) \<Rightarrow> Return (Inl e)
           | Return (Inr (d', p, ch)) \<Rightarrow> Return (Inr (d + d', p, ch))))"

locale share_derivation =
  fixes c :: ec
    and step :: "u32 \<Rightarrow> hd \<Rightarrow> hd res may_panic"
    and tw :: "u32 \<Rightarrow> point \<Rightarrow> bytes \<Rightarrow> tweak"
  assumes step_tweak: "step i st =
    (case tw i (hd_Pub st) (hd_ChainCode st) of
       Panic \<Rightarrow> Panic
     | Return (Inl e) \<Rightarrow> Return (Inl e)
     | Return (Inr (d, g, ir)) \<Rightarrow>
         Return (Inr \<lparr>hd_Pub = ec_Add c (hd_Pub st) g, hd_ChainCode = ir,
           hd_Xi = (hd_Xi st + d) mod ec_N c, hd_BigXj = shift_points c g (hd_BigXj st)\<rparr>))"
begin

lemma loop_panic:
  "derive_loop step is st = Panic \<longleftrightarrow> path_shift c tw is (hd_Pub st) (hd_ChainCode st) = Panic"
  by (induction "is" arbitrary: st)
    (auto simp: step_tweak split: may_panic.splits sum.splits prod.splits)

lemma loop_error:
  "derive_loop step is st = Return (Inl e) \<longleftrightarrow>
     path_shift c tw is (hd_Pub st) (hd_ChainCode st) = Return (Inl e)"
  by (induction "is" arbitrary: st)
    (auto simp: step_tweak split: may_panic.splits sum.splits prod.splits)

lemma loop_shift:
  "path_shift c tw is (hd_Pub st) (hd_ChainCode st) = Return (Inr (d, p, ch)) \<Longrightarrow>
     \<exists>st'. derive_loop step is st = Return (Inr st') \<and> hd_Pub st' = p \<and> hd_ChainCode st' = ch \<and>
       hd_Xi st' mod ec_N c = (hd_Xi st + d) mod ec_N c"
proof (induction "is" arbitrary: st d)
  case Nil
  then show ?case by simp
next
  case (Cons i "is")
  obtain d1 g ir d2 where tw: "tw i (hd_Pub st) (hd_ChainCode st) = Return (Inr (d1, g, ir))"
    and rest: "path_shift c tw is (ec_Add c (hd_Pub st) g) ir = Return (Inr (d2, p, ch))"
    and d: "d = d1 + d2"
    using Cons.prems by (auto split: may_panic.splits sum.splits prod.splits)
  let ?st = "\<lparr>hd_Pub = ec_Add c (hd_Pub st) g, hd_ChainCode = ir,
    hd_Xi = (hd_Xi st + d1) mod ec_N c, hd_BigXj = shift_points c g (hd_BigXj st)\<rparr>"
  have s: "step i st = Return (Inr ?st)" by (simp add: step_tweak tw)
  obtain st' where "derive_loop step is ?st = Return (Inr st')" "hd_Pub st' = p"
    "hd_ChainCode st' = ch" "hd_Xi st' mod ec_N c = (hd_Xi ?st + d2) mod ec_N c"
    using Cons.IH [of ?st d2] rest by auto
  then show ?case by (simp add: s d mod_simps add.assoc)
qed

end

interpretation ecdsa: share_derivation c "ecdsa_step c hmac" "ecdsa_tweak c hmac" for c hmac
  by unfold_locales
    (auto simp: ecdsa_step_def ecdsa_tweak_def Let_def split: may_panic.splits)

interpretation eddsa: share_derivation c "eddsa_step c hmac" "eddsa_tweak c hmac" for c hmac
  by unfold_locales
    (auto simp: eddsa_step_def eddsa_tweak_def Let_def split: may_panic.splits)

text \<open>Under the group laws the point of a tweak is the multiple its number names.\<close>

definition tweak_in_group :: "(nat \<Rightarrow> point) \<Rightarrow> (u32 \<Rightarrow> point \<Rightarrow> bytes \<Rightarrow> tweak) \<Rightarrow> bool" where
  "tweak_in_group smul tw \<longleftrightarrow>
     (\<forall>i pub chain d g ir. tw i pub chain = Return (Inr (d, g, ir)) \<longrightarrow> g = smul d)"

lemma ecdsa_tweak_in_group: "ec_laws c smul \<Longrightarrow> tweak_in_group smul (ecdsa_tweak c hmac)"
  by (auto simp: tweak_in_group_def ecdsa_tweak_def Let_def ec_laws_def
      split: may_panic.splits if_splits)

lemma eddsa_tweak_in_group:
  assumes "ec_laws c smul"
  shows "tweak_in_group smul (eddsa_tweak c hmac)"
proof -
  have N: "0 < ec_N c" "ec_N c \<le> 256 ^ 32" using assms by (auto simp: ec_laws_def)
  have p: "left_pad 32 (nat_bytes (k mod ec_N c)) = Return (be_put 32 (k mod ec_N c))" for k
  proof (rule left_pad_nat_bytes)
    show "k mod ec_N c < 256 ^ 32" using N mod_less_divisor [of "ec_N c" k] by linarith
  qed
  have b: "be_nat (be_put 32 (k mod ec_N c)) = k mod ec_N c" for k
  proof -
    have "k mod ec_N c < 256 ^ 32" using N mod_less_divisor [of "ec_N c" k] by linarith
    then show ?thesis by (simp add: be_nat_be_put)
  qed
  have base: "\<forall>b. ec_ScalarBaseMult c b = smul (be_nat b)" using assms by (simp add: ec_laws_def)
  show ?thesis
    by (auto simp: tweak_in_group_def eddsa_tweak_def Let_def p b base
        split: may_panic.splits)
qed

lemma path_shift_point:
  assumes "ec_laws c smul" and "tweak_in_group smul tw"
    and "path_shift c tw is (smul k) chain = Return (Inr (d, p, ch))"
  shows "p = smul (k + d)"
  using assms(3)
proof (induction "is" arbitrary: k chain d)
  case Nil
  then show ?case by simp
next
  case (Cons i "is")
  then obtain d1 g ir d2 where tw: "tw i (smul k) chain = Return (Inr (d1, g, ir))"
    and rest: "path_shift c tw is (ec_Add c (smul k) g) ir = Return (Inr (d2, p, ch))"
    and d: "d = d1 + d2"
    by (auto split: may_panic.splits sum.splits prod.splits)
  have "g = smul d1" using assms(2) tw unfolding tweak_in_group_def by blast
  then have "ec_Add c (smul k) g = smul (k + d1)" using assms(1) by (simp add: ec_laws_def)
  with Cons.IH [of "k + d1" ir d2] rest show ?case by (simp add: d add.assoc)
qed

context share_derivation
begin

lemma length_loop_points:
  "derive_loop step is st = Return (Inr st') \<Longrightarrow> length (hd_BigXj st') = length (hd_BigXj st)"
  by (induction "is" arbitrary: st)
    (fastforce simp: step_tweak shift_points_def split: may_panic.splits sum.splits prod.splits)+

lemma loop_nil:
  "derive_loop step is st = Return (Inr st') \<Longrightarrow> j < length (hd_BigXj st) \<Longrightarrow>
     hd_BigXj st ! j = None \<Longrightarrow> hd_BigXj st' ! j = None"
proof (induction "is" arbitrary: st)
  case (Cons i "is")
  then obtain s2 where s2: "step i st = Return (Inr s2)" "derive_loop step is s2 = Return (Inr st')"
    by (auto split: may_panic.splits sum.splits)
  have "j < length (hd_BigXj s2) \<and> hd_BigXj s2 ! j = None"
    using s2(1) Cons.prems(2,3)
    by (auto simp: step_tweak shift_points_def split: may_panic.splits sum.splits prod.splits)
  then show ?case using Cons.IH s2(2) by blast
qed simp

lemma loop_points:
  assumes "ec_laws c smul" and "tweak_in_group smul tw"
    and "hd_Pub st = smul k"
    and "path_shift c tw is (hd_Pub st) (hd_ChainCode st) = Return (Inr (d, p, ch))"
    and "derive_loop step is st = Return (Inr st')"
    and "j < length (hd_BigXj st)" and "hd_BigXj st ! j = Some (smul x)"
    and "hd_BigXj st' ! j = Some q"
  shows "q = smul (x + d)"
  using assms(3-)
proof (induction "is" arbitrary: st k d x)
  case Nil
  then show ?case by simp
next
  case (Cons i "is")
  obtain d1 g ir d2 where tw: "tw i (hd_Pub st) (hd_ChainCode st) = Return (Inr (d1, g, ir))"
    and rest: "path_shift c tw is (ec_Add c (hd_Pub st) g) ir = Return (Inr (d2, p, ch))"
    and d: "d = d1 + d2"
    using Cons.prems(2) by (auto split: may_panic.splits sum.splits prod.splits)
  have g: "g = smul d1" using assms(2) tw unfolding tweak_in_group_def by blast
  have add: "\<And>a b. ec_Add c (smul a) (smul b) = smul (a + b)"
    using assms(1) by (simp add: ec_laws_def)
  let ?st = "\<lparr>hd_Pub = ec_Add c (hd_Pub st) g, hd_ChainCode = ir,
    hd_Xi = (hd_Xi st + d1) mod ec_N c, hd_BigXj = shift_points c g (hd_BigXj st)\<rparr>"
  have s: "step i st = Return (Inr ?st)" by (simp add: step_tweak tw)
  then have l: "derive_loop step is ?st = Return (Inr st')" using Cons.prems(3) by simp
  have pub: "hd_Pub ?st = smul (k + d1)" using Cons.prems(1) by (simp add: g add)
  have bj: "hd_BigXj ?st ! j = point_or_nil c (smul (x + d1))"
    using Cons.prems(4,5) by (simp add: shift_points_def g add)
  show ?case
  proof (cases "point_or_nil c (smul (x + d1))")
    case (Some r)
    then have "r = smul (x + d1)"
      by (auto simp: point_or_nil_def NewECPoint_def split: option.splits sum.splits)
    then show ?thesis
      using Cons.IH [of ?st "k + d1" d2 "x + d1"] pub rest l bj Some Cons.prems(4,6)
      by (simp add: shift_points_def d add.assoc)
  next
    case None
    then have "hd_BigXj st' ! j = None"
      using loop_nil [OF l, of j] bj Cons.prems(4) by (simp add: shift_points_def)
    then show ?thesis using Cons.prems(6) by simp
  qed
qed

lemma both_parties:
  assumes "ec_laws c smul" and "tweak_in_group smul tw"
    and "hd_Pub sa = smul k" and "hd_Pub sb = smul k" and "hd_ChainCode sa = hd_ChainCode sb"
    and la: "derive_loop step is sa = Return (Inr sta)"
  shows "\<exists>d stb. derive_loop step is sb = Return (Inr stb) \<and>
    hd_Pub sta = smul (k + d) \<and> hd_Pub stb = smul (k + d) \<and>
    hd_Xi sta mod ec_N c = (hd_Xi sa + d) mod ec_N c \<and>
    hd_Xi stb mod ec_N c = (hd_Xi sb + d) mod ec_N c \<and>
    (\<forall>j x q. j < length (hd_BigXj sa) \<longrightarrow> hd_BigXj sa ! j = Some (smul x) \<longrightarrow>
       hd_BigXj sta ! j = Some q \<longrightarrow> q = smul (x + d))"
proof -
  have "path_shift c tw is (smul k) (hd_ChainCode sa) \<noteq> Panic"
    "path_shift c tw is (smul k) (hd_ChainCode sa) \<noteq> Return (Inl e)" for e
    using la loop_panic [of "is" sa] loop_error [of "is" sa e] assms(3) by auto
  then obtain d p cc where ps: "path_shift c tw is (smul k) (hd_ChainCode sa)
      = Return (Inr (d, p, cc))"
    by (metis may_panic.exhaust sum.exhaust prod_cases3)
  have p: "p = smul (k + d)" using path_shift_point [OF assms(1,2) ps] .
  have "hd_Pub sta = smul (k + d)" "hd_Xi sta mod ec_N c = (hd_Xi sa + d) mod ec_N c"
    using loop_shift [of "is" sa d p cc] ps assms(3) la p by auto
  moreover obtain stb where "derive_loop step is sb = Return (Inr stb)"
    "hd_Pub stb = smul (k + d)" "hd_Xi stb mod ec_N c = (hd_Xi sb + d) mod ec_N c"
    using loop_shift [of "is" sb d p cc] ps assms(4,5) p by auto
  moreover have "q = smul (x + d)" if "j < length (hd_BigXj sa)" "hd_BigXj sa ! j = Some (smul x)"
    "hd_BigXj sta ! j = Some q" for j x q
    using loop_points [OF assms(1,2,3) _ la that(1,2,3)] ps assms(3) by simp
  ultimately show ?thesis by blast
qed

end

subsection \<open>What derivation promises\<close>

text \<open>
  Two shares of the secret \<open>k\<close>: with the reconstruction coefficients \<open>la\<close>, \<open>lb\<close> of the two parties
  (which sum to 1, as those of a polynomial of degree one do) they give \<open>k\<close>, and both parties hold
  the public key of \<open>k\<close>.
\<close>

definition shares_of :: "ec \<Rightarrow> (nat \<Rightarrow> point) \<Rightarrow> nat \<Rightarrow> nat \<Rightarrow> nat \<Rightarrow> 'x save_data \<Rightarrow> 'x save_data \<Rightarrow> bool"
  where "shares_of c smul la lb k a b \<longleftrightarrow>
     sv_Pub a = smul k \<and> sv_Pub b = smul k \<and>
     (la + lb) mod ec_N c = 1 mod ec_N c \<and>
     (la * sv_Xi a + lb * sv_Xi b) mod ec_N c = k mod ec_N c"

lemma shifted_reconstruct:
  fixes N :: nat
  assumes "(la + lb) mod N = 1 mod N" and "(la * xa + lb * xb) mod N = k mod N"
    and "xa' mod N = (xa + d) mod N" and "xb' mod N = (xb + d) mod N"
  shows "(la * xa' + lb * xb') mod N = (k + d) mod N"
proof -
  have "(la * xa' + lb * xb') mod N = (la * (xa + d) + lb * (xb + d)) mod N"
    by (intro mod_add_cong mod_mult_cong assms refl)
  also have "la * (xa + d) + lb * (xb + d) = (la * xa + lb * xb) + (la + lb) * d"
    by (simp add: algebra_simps)
  also have "\<dots> mod N = (k + 1 * d) mod N"
    by (intro mod_add_cong mod_mult_cong assms refl)
  finally show ?thesis by simp
qed

lemma coords_pad:
  assumes "ec_laws c smul"
  shows "left_pad 32 (nat_bytes (fst (smul a))) = Return (be_put 32 (fst (smul a)))"
    and "left_pad 32 (nat_bytes (snd (smul a))) = Return (be_put 32 (snd (smul a)))"
  using assms by (auto simp: ec_laws_def intro!: left_pad_nat_bytes)

text \<open>The two finished states give shares of the shifted secret, and public shares to match.\<close>

definition child_of :: "'x save_data \<Rightarrow> hd \<Rightarrow> 'x save_data" where
  "child_of s st = s\<lparr>sv_Xi := hd_Xi st, sv_BigXj := hd_BigXj st, sv_Pub := hd_Pub st\<rparr>"

lemma shares_of_children:
  assumes "shares_of c smul la lb k a b"
    and "hd_Pub sta = smul (k + d)" and "hd_Pub stb = smul (k + d)"
    and "hd_Xi sta mod ec_N c = (sv_Xi a + d) mod ec_N c"
    and "hd_Xi stb mod ec_N c = (sv_Xi b + d) mod ec_N c"
  shows "shares_of c smul la lb (k + d) (child_of a sta) (child_of b stb)"
  using assms shifted_reconstruct [OF _ _ assms(4,5)] by (simp add: shares_of_def child_of_def)

lemma start_points:
  assumes "j < length (sv_BigXj a)" and "sv_BigXj a ! j = Some (smul x)"
  shows "hd_BigXj (hd_start c a ch) ! j \<in> {None, Some (smul x)}"
  using assms by (auto simp: hd_start_def point_or_nil_def NewECPoint_def split: option.splits)

text \<open>The public shares of the child are those of the secret shares moved by the same offset.\<close>

definition points_shifted :: "(nat \<Rightarrow> point) \<Rightarrow> nat \<Rightarrow> 'x save_data \<Rightarrow> 'x save_data \<Rightarrow> bool" where
  "points_shifted smul d a a' \<longleftrightarrow>
     (\<forall>j x q. j < length (sv_BigXj a) \<longrightarrow> sv_BigXj a ! j = Some (smul x) \<longrightarrow>
        sv_BigXj a' ! j = Some q \<longrightarrow> q = smul (x + d))"

context share_derivation
begin

text \<open>The parts of a derivation the two curves share, from the start states to the children.\<close>

lemma children_agree:
  assumes laws: "ec_laws c smul" and tg: "tweak_in_group smul tw"
    and sh: "shares_of c smul la lb k a b"
    and la: "derive_loop step is (hd_start c a ch) = Return (Inr sta)"
  shows "\<exists>d stb. derive_loop step is (hd_start c b ch) = Return (Inr stb) \<and>
    hd_Pub sta = smul (k + d) \<and> hd_Pub stb = smul (k + d) \<and>
    shares_of c smul la lb (k + d) (child_of a sta) (child_of b stb) \<and>
    points_shifted smul d a (child_of a sta)"
proof -
  let ?sa = "hd_start c a ch" and ?sb = "hd_start c b ch"
  have pubs: "hd_Pub ?sa = smul k" "hd_Pub ?sb = smul k" "hd_ChainCode ?sa = hd_ChainCode ?sb"
    using sh by (simp_all add: hd_start_def shares_of_def)
  obtain d stb where lb: "derive_loop step is ?sb = Return (Inr stb)"
    and ab: "hd_Pub sta = smul (k + d)" "hd_Pub stb = smul (k + d)"
      "hd_Xi sta mod ec_N c = (hd_Xi ?sa + d) mod ec_N c"
      "hd_Xi stb mod ec_N c = (hd_Xi ?sb + d) mod ec_N c"
    and pts: "\<And>j x q. j < length (hd_BigXj ?sa) \<Longrightarrow> hd_BigXj ?sa ! j = Some (smul x) \<Longrightarrow>
       hd_BigXj sta ! j = Some q \<Longrightarrow> q = smul (x + d)"
    using both_parties [OF laws tg pubs la] by blast
  have "q = smul (x + d)" if j: "j < length (sv_BigXj a)" and x: "sv_BigXj a ! j = Some (smul x)"
    and q: "hd_BigXj sta ! j = Some q" for j x q
  proof -
    have lj: "j < length (hd_BigXj ?sa)" using j by (simp add: hd_start_def)
    have "hd_BigXj ?sa ! j \<noteq> None"
    proof
      assume "hd_BigXj ?sa ! j = None"
      from loop_nil [OF la lj this] q show False by simp
    qed
    then have "hd_BigXj ?sa ! j = Some (smul x)" using start_points [of j a smul x c ch] j x by auto
    then show ?thesis using pts [OF lj _ q] by blast
  qed
  then have "points_shifted smul d a (child_of a sta)"
    by (simp add: points_shifted_def child_of_def)
  then show ?thesis
    using lb ab shares_of_children [OF sh ab(1,2)] by (auto simp: hd_start_def)
qed

end

lemma derived_key_child:
  "derived_key c ops master path save st pub = Inr d \<Longrightarrow>
     dk_PublicKey d = pub \<and> so_marshal ops (child_of save st) = Inr (dk_Share d) \<and>
     ec_check c (hd_Pub st) = None"
  by (auto simp: derived_key_def NewECPoint_def child_of_def split: sum.splits option.splits)

lemma derived_key_exists:
  assumes "\<forall>s. is_ok (so_marshal ops s)" and "ec_check c (hd_Pub st) = None"
  shows "\<exists>d. derived_key c ops master path save st pub = Inr d"
proof -
  obtain sh where "so_marshal ops (child_of save st) = Inr sh"
    using assms(1) by (metis is_ok_iff)
  then show ?thesis using assms(2) by (simp add: derived_key_def NewECPoint_def child_of_def)
qed

text \<open>
  C11. Deriving a child key on the two parties' master shares is deriving it on the shared secret.
  If Party A's derivation on secp256k1 succeeds, so does Party B's along the same path, both report
  the same public key, the uncompressed point of \<open>k + d\<close>, the two derived secret shares are shares
  of exactly \<open>k + d\<close> with the reconstruction coefficients of the masters, and every public share
  moves by the same \<open>d\<close>. So a signature made with the derived shares verifies under the derived
  public key.
\<close>

theorem deriveECDSA_consistent:
  assumes laws: "ec_laws c smul"
    and ua: "so_unmarshal ops (ks_Share A) = Inr a" and ub: "so_unmarshal ops (ks_Share B) = Inr b"
    and sh: "shares_of c smul la lb k a b" and ch: "ks_ChainCode A = ks_ChainCode B"
    and mar: "\<forall>s. is_ok (so_marshal ops s)"
    and A: "deriveECDSA c hmac ops A path is = Return (Inr dA)"
  shows "\<exists>dB a' b' d. deriveECDSA c hmac ops B path is = Return (Inr dB) \<and>
    dk_PublicKey dA = elliptic_Marshal (smul (k + d)) \<and> dk_PublicKey dB = dk_PublicKey dA \<and>
    so_marshal ops a' = Inr (dk_Share dA) \<and> so_marshal ops b' = Inr (dk_Share dB) \<and>
    shares_of c smul la lb (k + d) a' b' \<and> points_shifted smul d a a'"
proof -
  obtain sta where la: "derive_loop (ecdsa_step c hmac) is (hd_start c a (ks_ChainCode A))
      = Return (Inr sta)"
    using A ua by (auto simp: deriveECDSA_def split: may_panic.splits sum.splits)
  obtain d stb where lb: "derive_loop (ecdsa_step c hmac) is (hd_start c b (ks_ChainCode A))
      = Return (Inr stb)"
    and pub: "hd_Pub sta = smul (k + d)" "hd_Pub stb = smul (k + d)"
    and ok: "shares_of c smul la lb (k + d) (child_of a sta) (child_of b stb)"
      "points_shifted smul d a (child_of a sta)"
    using ecdsa.children_agree [OF laws ecdsa_tweak_in_group [OF laws] sh la] by blast
  let ?pk = "elliptic_Marshal (smul (k + d))"
  note pads = coords_pad [OF laws, of "k + d"]
  have dA: "derived_key c ops A path a sta ?pk = Inr dA"
    using A ua la pub pads by (simp add: deriveECDSA_def elliptic_Marshal_def)
  note kA = derived_key_child [OF dA]
  obtain dB where dB: "derived_key c ops B path b stb ?pk = Inr dB"
    using derived_key_exists [OF mar] kA pub by metis
  have "deriveECDSA c hmac ops B path is = Return (Inr dB)"
    using ub lb pub dB pads ch by (simp add: deriveECDSA_def elliptic_Marshal_def)
  then show ?thesis using kA derived_key_child [OF dB] ok
    by (intro exI [of _ dB] exI [of _ "child_of a sta"] exI [of _ "child_of b stb"] exI [of _ d])
      simp
qed

text \<open>
  C12. The same holds on ed25519, where the left half of the MAC is reduced modulo the group order
  instead of being rejected: both parties' derivations succeed together with one public key, the
  ed25519 encoding of the point of \<open>k + d\<close>, and the derived shares are shares of \<open>k + d\<close>.
\<close>

theorem deriveEdDSA_consistent:
  assumes laws: "ec_laws c smul"
    and ua: "so_unmarshal ops (ks_Share A) = Inr a" and ub: "so_unmarshal ops (ks_Share B) = Inr b"
    and sh: "shares_of c smul la lb k a b" and ch: "ks_ChainCode A = ks_ChainCode B"
    and mar: "\<forall>s. is_ok (so_marshal ops s)"
    and A: "deriveEdDSA c hmac ops A path is = Return (Inr dA)"
  shows "\<exists>dB a' b' d. deriveEdDSA c hmac ops B path is = Return (Inr dB) \<and>
    edwardsPointToEd25519PubKey (smul (k + d)) = Return (dk_PublicKey dA) \<and>
    dk_PublicKey dB = dk_PublicKey dA \<and>
    so_marshal ops a' = Inr (dk_Share dA) \<and> so_marshal ops b' = Inr (dk_Share dB) \<and>
    shares_of c smul la lb (k + d) a' b' \<and> points_shifted smul d a a'"
proof -
  obtain sta where la: "derive_loop (eddsa_step c hmac) is (hd_start c a (ks_ChainCode A))
      = Return (Inr sta)"
    using A ua by (auto simp: deriveEdDSA_def split: may_panic.splits sum.splits)
  obtain d stb where lb: "derive_loop (eddsa_step c hmac) is (hd_start c b (ks_ChainCode A))
      = Return (Inr stb)"
    and pub: "hd_Pub sta = smul (k + d)" "hd_Pub stb = smul (k + d)"
    and ok: "shares_of c smul la lb (k + d) (child_of a sta) (child_of b stb)"
      "points_shifted smul d a (child_of a sta)"
    using eddsa.children_agree [OF laws eddsa_tweak_in_group [OF laws] sh la] by blast
  obtain pk where pk: "edwardsPointToEd25519PubKey (smul (k + d)) = Return pk"
    and dA: "derived_key c ops A path a sta pk = Inr dA"
    using A ua la pub by (auto simp: deriveEdDSA_def split: may_panic.splits)
  note kA = derived_key_child [OF dA]
  obtain dB where dB: "derived_key c ops B path b stb pk = Inr dB"
    using derived_key_exists [OF mar] kA pub by metis
  have "deriveEdDSA c hmac ops B path is = Return (Inr dB)"
    using ub lb pub dB pk ch by (simp add: deriveEdDSA_def)
  then show ?thesis using kA derived_key_child [OF dB] ok pk
    by (intro exI [of _ dB] exI [of _ "child_of a sta"] exI [of _ "child_of b stb"] exI [of _ d])
      simp
qed

subsection \<open>A small group to try the derivation on\<close>

text \<open>
  The integers modulo 7 as a curve, with the two shares 4 and 3 of the secret 5 at the evaluation
  points 1 and 2 (so the coefficients are 2 and -1, and 2*4 - 3 = 5), and a fixed MAC.
\<close>

definition mod7 :: "nat \<Rightarrow> point" where "mod7 k = (k mod 7, 0)"

definition toy_ec :: ec where
  "toy_ec = \<lparr>ec_N = 7, ec_Add = (\<lambda>p q. mod7 (fst p + fst q)),
     ec_ScalarBaseMult = (\<lambda>b. mod7 (be_nat b)), ec_check = (\<lambda>p. None)\<rparr>"

lemma toy_laws: "ec_laws toy_ec mod7"
proof -
  have "k mod 7 < (256 :: nat) ^ 32" for k
    using mod_less_divisor [of 7 k] by (rule less_trans) simp_all
  then show ?thesis
    by (auto simp: ec_laws_def toy_ec_def mod7_def mod_simps)
qed

definition toy_hmac :: "bytes \<Rightarrow> bytes \<Rightarrow> bytes" where
  "toy_hmac k m = replicate 31 0 @ [word_of_nat (length m mod 5)] @ k"

definition toy_save :: "nat \<Rightarrow> unit save_data" where
  "toy_save x = \<lparr>sv_Xi = x, sv_BigXj = [Some (mod7 4), Some (mod7 3)], sv_Pub = mod7 5,
     sv_rest = ()\<rparr>"

definition toy_ops :: "unit save_data save_ops" where
  "toy_ops = \<lparr>so_marshal = (\<lambda>s. Inr [word_of_nat (sv_Xi s)]),
     so_unmarshal = (\<lambda>b. Inr (toy_save (be_nat b))), so_pub = sv_Pub\<rparr>"

definition toy_master :: "Curve \<Rightarrow> byte \<Rightarrow> KeyShare" where
  "toy_master curve x = \<lparr>ks_Curve = curve, ks_PartyID = \<lparr>pid_ID = ''party-a'', pid_Index = 0\<rparr>,
     ks_Share = [x], ks_PublicKey = [], ks_ChainCode = [9]\<rparr>"

lemma toy_shares: "shares_of toy_ec mod7 2 6 5 (toy_save 4) (toy_save 3)"
  by (simp add: shares_of_def toy_save_def toy_ec_def)

lemma toy_marshals: "\<forall>s. is_ok (so_marshal toy_ops s)"
  by (simp add: toy_ops_def)

lemma toy_unmarshal: "so_unmarshal toy_ops (ks_Share (toy_master curve 4)) = Inr (toy_save 4)"
    "so_unmarshal toy_ops (ks_Share (toy_master curve 3)) = Inr (toy_save 3)"
  by (simp_all add: toy_ops_def toy_master_def)

lemma toy_chain: "ks_ChainCode (toy_master curve x) = ks_ChainCode (toy_master curve y)"
  by (simp add: toy_master_def)

lemma toy_compress: "compressPublicKey (mod7 k) = Return (0x02 # be_put 32 (k mod 7))"
proof -
  have "k mod 7 < (256 :: nat) ^ 32"
    using mod_less_divisor [of 7 k] by (rule less_trans) simp_all
  then show ?thesis using compressPublicKey_normal [of "mod7 k"] by (simp add: mod7_def)
qed

lemma toy_mac: "take 32 (toy_hmac k (0x02 # be_put 32 x @ be_put 4 i)) = replicate 31 0 @ [2]"
  by (simp add: toy_hmac_def)

lemma toy_ecdsa_A:
  "\<exists>dA. deriveECDSA toy_ec toy_hmac toy_ops (toy_master CurveSecp256k1 4) ''m/0'' [0] =
     Return (Inr dA)"
proof -
  let ?st = "hd_start toy_ec (toy_save 4) [9]"
  have "be_nat (replicate 31 0 @ [2]) = 2" by (simp only: be_nat_zeros) simp
  then obtain st where s: "ecdsa_step toy_ec toy_hmac 0 ?st = Return (Inr st)"
    and p: "hd_Pub st = mod7 7"
    by (simp add: ecdsa_step_def hd_start_def toy_save_def toy_compress toy_mac Let_def toy_ec_def)
      (simp add: mod7_def)
  obtain dA where "derived_key toy_ec toy_ops (toy_master CurveSecp256k1 4) ''m/0'' (toy_save 4) st
      (0x04 # be_put 32 (fst (mod7 7)) @ be_put 32 (snd (mod7 7))) = Inr dA"
    using derived_key_exists [OF toy_marshals] by (metis ec.select_convs(4) toy_ec_def)
  then show ?thesis
    using s p toy_unmarshal(1) [of CurveSecp256k1] coords_pad [OF toy_laws, of 7]
    by (simp add: deriveECDSA_def toy_master_def)
qed

theorem deriveECDSA_consistent_witness:
  "\<exists>dA dB a' b' d.
    deriveECDSA toy_ec toy_hmac toy_ops (toy_master CurveSecp256k1 4) ''m/0'' [0] = Return (Inr dA) \<and>
    deriveECDSA toy_ec toy_hmac toy_ops (toy_master CurveSecp256k1 3) ''m/0'' [0] = Return (Inr dB) \<and>
    dk_PublicKey dA = elliptic_Marshal (mod7 (5 + d)) \<and> dk_PublicKey dB = dk_PublicKey dA \<and>
    shares_of toy_ec mod7 2 6 (5 + d) (a' :: unit save_data) b'"
  using toy_ecdsa_A deriveECDSA_consistent [OF toy_laws toy_unmarshal toy_shares toy_chain toy_marshals]
  by blast

lemma toy_eddsa_A:
  "\<exists>dA. deriveEdDSA toy_ec toy_hmac toy_ops (toy_master CurveEd25519 4) ''m/0'' [0] =
     Return (Inr dA)"
proof -
  let ?st = "hd_start toy_ec (toy_save 4) [9]"
  have b: "be_nat (replicate 31 0 @ [2]) = 2" by (simp only: be_nat_zeros) simp
  have l: "left_pad 32 (nat_bytes 2) = Return (be_put 32 2)" by (rule left_pad_nat_bytes) simp
  obtain st where s: "eddsa_step toy_ec toy_hmac 0 ?st = Return (Inr st)"
    and p: "hd_Pub st = mod7 7"
    by (simp add: eddsa_step_def hd_start_def toy_save_def toy_compress toy_mac Let_def toy_ec_def b l
        be_nat_be_put)
      (simp add: mod7_def)
  have "edwardsPointToEd25519PubKey (mod7 7) = Return (replicate 32 0)"
    by (simp add: edwardsPointToEd25519PubKey_def mod7_def nat_bytes.simps Let_def)
  moreover obtain dA where "derived_key toy_ec toy_ops (toy_master CurveEd25519 4) ''m/0''
      (toy_save 4) st (replicate 32 0) = Inr dA"
    using derived_key_exists [OF toy_marshals] by (metis ec.select_convs(4) toy_ec_def)
  ultimately show ?thesis
    using s p toy_unmarshal(1) [of CurveEd25519]
    by (simp add: deriveEdDSA_def toy_master_def)
qed

theorem deriveEdDSA_consistent_witness:
  "\<exists>dA dB a' b' d.
    deriveEdDSA toy_ec toy_hmac toy_ops (toy_master CurveEd25519 4) ''m/0'' [0] = Return (Inr dA) \<and>
    deriveEdDSA toy_ec toy_hmac toy_ops (toy_master CurveEd25519 3) ''m/0'' [0] = Return (Inr dB) \<and>
    edwardsPointToEd25519PubKey (mod7 (5 + d)) = Return (dk_PublicKey dA) \<and>
    dk_PublicKey dB = dk_PublicKey dA \<and>
    shares_of toy_ec mod7 2 6 (5 + d) (a' :: unit save_data) b'"
  using toy_eddsa_A deriveEdDSA_consistent [OF toy_laws toy_unmarshal toy_shares toy_chain toy_marshals]
  by blast

end
