(* ===== verification/Vm.thy ===== *)
theory Vm
  imports Derivation
begin

section \<open>The chain adapters' interface (internal/vm/adapter.go)\<close>

text \<open>
  The requests and transactions all chains share, the interface \<open>Adapter\<close> as a record of functions,
  and the registry that picks an adapter by the coin type of a derivation path.
\<close>

record SolanaAccountMeta =
  sam_Pubkey :: string
  sam_IsSigner :: bool
  sam_IsWritable :: bool

record SolanaInstruction =
  si_ProgramID :: string
  si_Accounts :: "SolanaAccountMeta list"
  si_Data :: string

text \<open>\<open>Args\<close>, a Go map, is a list of its entries.\<close>

record TxRequest =
  tq_From :: string
  tq_To :: "string list"
  tq_Value :: string
  tq_Data :: bytes
  tq_DerivationPath :: string
  tq_Prefix :: string
  tq_Denom :: string
  tq_ChainID :: string
  tq_AccountNumber :: u64
  tq_Sequence :: u64
  tq_Fee :: string
  tq_Gas :: u64
  tq_Memo :: string
  tq_PubKey :: bytes
  tq_GasLimit :: u64
  tq_GasPrice :: string
  tq_Nonce :: u64
  tq_AutoNonce :: bool
  tq_RpcURL :: string
  tq_Mint :: string
  tq_Instructions :: "SolanaInstruction list"
  tq_Program :: string
  tq_Method :: string
  tq_Args :: "(string \<times> string) list"

record UnsignedTx =
  ut_RawBytes :: bytes
  ut_Hash :: bytes
  ut_To :: "string list"
  ut_Value :: string
  ut_Data :: string
  ut_ExtraSignerKeys :: "bytes list"

record DecodedTx =
  dt_From :: string
  dt_To :: "string list"
  dt_Value :: string
  dt_Data :: string
  dt_Method :: string
  dt_Args :: "(string \<times> string) list"
  dt_ChainID :: string
  dt_GasLimit :: u64

definition empty_decoded :: DecodedTx where
  "empty_decoded = \<lparr>dt_From = [], dt_To = [], dt_Value = [], dt_Data = [], dt_Method = [],
     dt_Args = [], dt_ChainID = [], dt_GasLimit = 0\<rparr>"

text \<open>The options of \<open>DeriveAddress\<close> come down to the bech32 prefix; the last one given wins.\<close>

definition ApplyDeriveOpts :: "string list \<Rightarrow> string" where
  "ApplyDeriveOpts prefixes = (if prefixes = [] then [] else last prefixes)"

record adapter =
  ad_Name :: string
  ad_Curve :: Curve
  ad_DeriveAddress :: "bytes \<Rightarrow> string list \<Rightarrow> string res"
  ad_BuildUnsignedTx :: "TxRequest \<Rightarrow> UnsignedTx res"
  ad_ExtractSignableBytes :: "bytes \<Rightarrow> bytes res"
  ad_AssembleSignedTx :: "bytes \<Rightarrow> Signature \<Rightarrow> bytes res"
  ad_DecodeTx :: "bytes \<Rightarrow> DecodedTx res"

subsection \<open>The registry\<close>

type_synonym registry = "string \<rightharpoonup> adapter"

definition NewRegistry :: registry where "NewRegistry = Map.empty"

fun Register :: "string list \<Rightarrow> adapter \<Rightarrow> registry \<Rightarrow> registry" where
  "Register [] a r = r"
| "Register (p # ps) a r = Register ps a (r(p \<mapsto> a))"

text \<open>\<open>splitPath\<close>: the pieces between slashes, without the empty ones.\<close>

fun split_path_loop :: "string \<Rightarrow> string \<Rightarrow> string list" where
  "split_path_loop current [] = (if current \<noteq> [] then [current] else [])"
| "split_path_loop current (c # cs) =
     (if c = CHR ''/''
      then (if current \<noteq> [] then [current] else []) @ split_path_loop [] cs
      else split_path_loop (current @ [c]) cs)"

definition splitPath :: "string \<Rightarrow> string list" where
  "splitPath path = split_path_loop [] path"

definition extractCoinType :: "string \<Rightarrow> string" where
  "extractCoinType path =
     (let parts = splitPath path in
      if length parts < 3 then []
      else let ct = parts ! 2 in
        if ct \<noteq> [] \<and> last ct = CHR 0x27 then butlast ct else ct)"

definition ForPath :: "registry \<Rightarrow> string \<Rightarrow> adapter option" where
  "ForPath r path =
     (let coinType = extractCoinType path in if coinType = [] then None else r coinType)"

lemma Register_lookup: "Register ps a r k = (if k \<in> set ps then Some a else r k)"
  by (induction ps arbitrary: r) auto

lemma split_path_loop_eq:
  "split_path_loop cur s = filter (\<lambda>p. p \<noteq> [])
     (case split_on CHR ''/'' s of [] \<Rightarrow> [cur] | p # ps \<Rightarrow> (cur @ p) # ps)"
  by (induction cur s rule: split_path_loop.induct) (auto split: list.splits)

lemma splitPath_eq: "splitPath s = filter (\<lambda>p. p \<noteq> []) (split_on CHR ''/'' s)"
  using split_on_nonempty [of "CHR ''/''" s]
  by (auto simp: splitPath_def split_path_loop_eq split: list.splits)

lemma splitPath_show: "is \<noteq> [] \<Longrightarrow> splitPath (show_path is) = ''m'' # map show_index is"
proof -
  assume ne: "is \<noteq> []"
  have "show_path is = str_join ''/'' (''m'' # map show_index is)"
    using ne by (cases "is") (simp_all add: show_path_def)
  moreover have "split_on CHR ''/'' (str_join ''/'' (''m'' # map show_index is)) = ''m'' # map show_index is"
    by (rule split_on_join) (auto simp: show_index_no_slash)
  moreover have "filter (\<lambda>p. p \<noteq> []) (map show_index is) = map show_index is"
    by (simp add: filter_id_conv show_index_no_slash)
  ultimately show ?thesis by (simp add: splitPath_eq)
qed

text \<open>
  A derivation path selects its chain by the number of its second index, hardened or not: for
  the canonical text of every path with at least two indices, the adapter found is the one
  registered under that number. Registering replaces earlier adapters of the same coin type and no
  others.
\<close>

theorem ForPath_by_coin_type:
  assumes "2 \<le> length is"
  shows "ForPath (Register ps a r) (show_path is) =
    (if nat_dec (unat (is ! 1) mod 2 ^ 31) \<in> set ps then Some a
     else r (nat_dec (unat (is ! 1) mod 2 ^ 31)))"
proof -
  have ne: "is \<noteq> []" using assms by auto
  have "splitPath (show_path is) ! 2 = show_index (is ! 1)"
    using assms by (simp add: splitPath_show [OF ne] numeral_2_eq_2)
  moreover have "length (splitPath (show_path is)) = Suc (length is)"
    by (simp add: splitPath_show [OF ne])
  moreover have "(if show_index i \<noteq> [] \<and> last (show_index i) = CHR 0x27
      then butlast (show_index i) else show_index i) = nat_dec (unat i mod 2 ^ 31)" for i :: u32
  proof (cases "unat i < 2 ^ 31")
    case True
    then show ?thesis
      using last_nat_dec_digit [of "unat i"] by (auto simp: show_index_def)
  next
    case False
    have "unat i mod 2 ^ 31 = unat i - 2 ^ 31"
      using False unat_u32_less [of i] by (simp add: mod_if)
    then show ?thesis using False by (simp add: show_index_def)
  qed
  ultimately have "extractCoinType (show_path is) = nat_dec (unat (is ! 1) mod 2 ^ 31)"
    using assms by (simp add: extractCoinType_def Let_def)
  then show ?thesis by (simp add: ForPath_def Let_def Register_lookup)
qed

definition dummy_adapter :: "Curve \<Rightarrow> adapter" where
  "dummy_adapter c = \<lparr>ad_Name = ''dummy'', ad_Curve = c, ad_DeriveAddress = (\<lambda>b p. Inl []),
     ad_BuildUnsignedTx = (\<lambda>r. Inl []), ad_ExtractSignableBytes = (\<lambda>b. Inr b),
     ad_AssembleSignedTx = (\<lambda>b s. Inl []), ad_DecodeTx = (\<lambda>b. Inl [])\<rparr>"

theorem ForPath_by_coin_type_witness:
  "ForPath (Register [nat_dec 60] (dummy_adapter CurveSecp256k1) NewRegistry)
     (show_path [0x8000002C, 0x8000003C, 0x80000000]) = Some (dummy_adapter CurveSecp256k1)"
  by (subst ForPath_by_coin_type) simp_all

text \<open>
  The two path readers disagree on hardened marks: a path written with \<open>h\<close> is the same path to
  the key derivation, yet the registry does not find its chain, so a Solana path in that spelling is
  not recognised as one.
\<close>

theorem coin_type_h_not_recognised:
  "parsePath ''m/44h/501h/0h'' = Inr [0x8000002C, 0x800001F5, 0x80000000] \<and>
   parsePath (''m/44'' @ [CHR 0x27] @ ''/501'' @ [CHR 0x27] @ ''/0'' @ [CHR 0x27]) =
     parsePath ''m/44h/501h/0h'' \<and>
   extractCoinType ''m/44h/501h/0h'' = ''501h'' \<and>
   extractCoinType (''m/44'' @ [CHR 0x27] @ ''/501'' @ [CHR 0x27] @ ''/0'' @ [CHR 0x27]) = ''501''"
  by (simp add: parsePath_def trim_prefix_def has_prefix_def parse_component_def is_hardened_def
      parse_uint_def parse_dec_def is_digit_def digit_val_def hardenedOffset_def Let_def
      extractCoinType_def splitPath_def)

end
