(* ===== verification/SolanaRpc.thy ===== *)
theory SolanaRpc
  imports Vm
begin

section \<open>Solana: the library, addresses and RPC calls (internal/vm/solana/solana.go)\<close>

text \<open>
  What the adapter uses of solana-go, as the record \<open>sol\<close>: base58 text, program addresses,
  transactions with their public fields (the compiled instructions are an abstract rest) and their
  codec, and ed25519. Then the calls to an RPC node: the check of its URL against private networks,
  the fetch of a blockhash, the detection of the token program.
\<close>

type_synonym pubkey = bytes

record AccountMeta =
  am_PublicKey :: pubkey
  am_IsSigner :: bool
  am_IsWritable :: bool

record Instruction =
  ix_ProgramID :: pubkey
  ix_Accounts :: "AccountMeta list"
  ix_Data :: bytes

record 'r SolMessage =
  mg_NumRequiredSignatures :: byte
  mg_AccountKeys :: "pubkey list"
  mg_RecentBlockhash :: bytes
  mg_Rest :: 'r

record 'r SolTx =
  st_Signatures :: "bytes list"
  st_Message :: "'r SolMessage"

text \<open>
  Base58 readers give \<open>None\<close> where their \<open>Must\<close> variants panic. The accessor that reads the public
  key out of a private one is applied to keys of the full 64 bytes, as the ones generated or
  parsed here are; on a shorter slice it panics, which is not modelled.
\<close>

record 'r sol =
  so_PublicKeyFromBase58 :: "string \<Rightarrow> pubkey option"
  so_String :: "pubkey \<Rightarrow> string"
  so_HashFromBase58 :: "string \<Rightarrow> bytes option"
  so_FindProgramAddress :: "bytes list \<Rightarrow> pubkey \<Rightarrow> (pubkey \<times> byte) res"
  so_NewTransaction :: "Instruction list \<Rightarrow> bytes \<Rightarrow> pubkey \<Rightarrow> 'r SolTx res"
  so_NewTransfer :: "u64 \<Rightarrow> pubkey \<Rightarrow> pubkey \<Rightarrow> Instruction"
  so_MarshalMessage :: "'r SolMessage \<Rightarrow> bytes res"
  so_MarshalTx :: "'r SolTx \<Rightarrow> bytes res"
  so_TransactionFromBytes :: "bytes \<Rightarrow> 'r SolTx res"
  so_Sign :: "bytes \<Rightarrow> bytes \<Rightarrow> bytes"
  so_Public :: "bytes \<Rightarrow> pubkey"
  so_Sum256 :: "bytes \<Rightarrow> bytes"
  so_zlib :: "bytes \<Rightarrow> (bytes \<times> err option) res"
  so_SystemProgramID :: pubkey
  so_TokenProgramID :: pubkey
  so_Token2022ProgramID :: pubkey
  so_SPLAssociatedTokenAccountProgramID :: pubkey
  so_SysVarRentPubkey :: pubkey
  so_SysVarClockPubkey :: pubkey

definition must :: "'a option \<Rightarrow> 'a may_panic" where
  "must x = (case x of None \<Rightarrow> Panic | Some a \<Rightarrow> Return a)"

lemma must_ok [res_simps]: "must x = Return a \<longleftrightarrow> x = Some a"
  by (simp add: must_def split: option.splits)

definition MustPublicKeyFromBase58 :: "'r sol \<Rightarrow> string \<Rightarrow> pubkey may_panic" where
  "MustPublicKeyFromBase58 S s = must (so_PublicKeyFromBase58 S s)"

definition sol_DeriveAddress :: "'r sol \<Rightarrow> bytes \<Rightarrow> string list \<Rightarrow> string res" where
  "sol_DeriveAddress S pubKey opts =
     (if length pubKey \<noteq> 32
      then Inl (''solana: expected 32-byte ed25519 public key, got '' @ nat_dec (length pubKey) @ '' bytes'')
      else Inr (so_String S pubKey))"

definition findATA :: "'r sol \<Rightarrow> pubkey \<Rightarrow> pubkey \<Rightarrow> pubkey \<Rightarrow> (pubkey \<times> byte) res" where
  "findATA S wallet mint tokenProgramID =
     so_FindProgramAddress S [wallet, tokenProgramID, mint] (so_SPLAssociatedTokenAccountProgramID S)"

subsection \<open>Addresses an RPC URL may not resolve to\<close>

text \<open>
  \<open>net.IP\<close> is four or sixteen bytes; \<open>To4\<close> turns a mapped address into four. A network is an address
  with the number of its leading bits that count, as \<open>net.ParseCIDR\<close> reads it; \<open>Contains\<close> compares
  these bits of addresses of one length.
\<close>

definition To4 :: "bytes \<Rightarrow> bytes option" where
  "To4 ip =
     (if length ip = 4 then Some ip
      else if length ip = 16 \<and> take 10 ip = replicate 10 0 \<and> ip ! 10 = 0xFF \<and> ip ! 11 = 0xFF
      then Some (drop 12 ip) else None)"

fun mask_eq :: "nat \<Rightarrow> bytes \<Rightarrow> bytes \<Rightarrow> bool" where
  "mask_eq bits [] [] = True"
| "mask_eq bits (a # as) (b # bs) =
     (if 8 \<le> bits then a = b \<and> mask_eq (bits - 8) as bs
      else unat a div 2 ^ (8 - bits) = unat b div 2 ^ (8 - bits))"
| "mask_eq bits _ _ = False"

definition network_contains :: "bytes \<times> nat \<Rightarrow> bytes \<Rightarrow> bool" where
  "network_contains network ip =
     (let x = (case To4 ip of Some y \<Rightarrow> y | None \<Rightarrow> ip) in
      length x = length (fst network) \<and> mask_eq (snd network) (fst network) x)"

definition privateRanges :: "(bytes \<times> nat) list" where
  "privateRanges =
     [([0, 0, 0, 0], 8), ([127, 0, 0, 0], 8), ([10, 0, 0, 0], 8), ([172, 16, 0, 0], 12),
      ([192, 168, 0, 0], 16), ([169, 254, 0, 0], 16), (replicate 15 0 @ [1], 128),
      (0xFC # replicate 15 0, 7), ([0xFE, 0x80] @ replicate 14 0, 10), (replicate 16 0, 128)]"

definition isPrivateIP :: "bytes \<Rightarrow> bool" where
  "isPrivateIP ip = list_ex (\<lambda>network. network_contains network ip) privateRanges"

text \<open>
  The network as the code sees it: HTTP, the JSON reader of bodies, name resolution, the parts of a
  URL (scheme and host name), the reader of IP texts, and the switch for local nodes.
\<close>

record rpc_net =
  nt_http :: http
  nt_parse :: "string \<Rightarrow> doc"
  nt_LookupHost :: "string \<Rightarrow> string list res"
  nt_ParseURL :: "string \<Rightarrow> (string \<times> string) res"
  nt_ParseIP :: "string \<Rightarrow> bytes option"
  nt_allowLocalRPC :: bool

fun check_ips :: "rpc_net \<Rightarrow> string \<Rightarrow> string list \<Rightarrow> unit res" where
  "check_ips N host [] = Inr ()"
| "check_ips N host (ipStr # ips) =
     (case nt_ParseIP N ipStr of
        None \<Rightarrow> Inl (''invalid IP '' @ go_quote ipStr)
      | Some ip \<Rightarrow>
          if isPrivateIP ip
          then Inl (''blocked: '' @ go_quote host @ '' resolves to private/reserved IP '' @ ipStr)
          else check_ips N host ips)"

definition validateRPCURL :: "rpc_net \<Rightarrow> string \<Rightarrow> unit res" where
  "validateRPCURL N rawURL =
     bind_res (in_ctx ''invalid URL'' (nt_ParseURL N rawURL)) (\<lambda>(scheme, host).
       if scheme \<noteq> ''http'' \<and> scheme \<noteq> ''https''
       then Inl (''scheme must be http or https, got '' @ go_quote scheme)
       else if host = [] then Inl ''empty hostname''
       else bind_res (in_ctx (''DNS resolution failed for '' @ go_quote host) (nt_LookupHost N host))
         (check_ips N host))"

subsection \<open>RPC calls\<close>

definition json_rpc :: "string \<Rightarrow> json list \<Rightarrow> doc" where
  "json_rpc method params = Some (JObj [(''jsonrpc'', JStr ''2.0''), (''id'', JNum 1),
     (''method'', JStr method), (''params'', JArr params)])"

text \<open>A POST whose answer is read up to a limit; the status is not looked at.\<close>

definition rpc_post :: "rpc_net \<Rightarrow> string \<Rightarrow> doc \<Rightarrow> nat \<Rightarrow> string res" where
  "rpc_post N rpcURL body limit =
     bind_res (nt_http N \<lparr>hr_Method = ''POST'', hr_URL = rpcURL,
         hr_Headers = [(''Content-Type'', ''application/json'')], hr_Body = body\<rparr>)
       (\<lambda>(status, text). Inr (take limit text))"

text \<open>The blockhash response: result.value.blockhash, and error.message.\<close>

definition dec_blockhash :: "doc \<Rightarrow> (string \<times> string option) res" where
  "dec_blockhash = unmarshal (\<lambda>fs.
     bind_res (dec_field (dec_struct (\<lambda>h fs1.
         dec_field (dec_struct (\<lambda>h fs2. str_field ''blockhash'' h fs2)) ''value'' h fs1)) ''result'' [] fs)
       (\<lambda>h. bind_res (dec_field (dec_ptr (dec_struct (\<lambda>m fs1. str_field ''message'' m fs1)) []) ''error''
         None fs) (\<lambda>e. Inr (h, e))))"

definition FetchRecentBlockhash :: "rpc_net \<Rightarrow> string \<Rightarrow> string res" where
  "FetchRecentBlockhash N rpcURL =
     bind_res (if nt_allowLocalRPC N then Inr () else in_ctx ''solana rpc'' (validateRPCURL N rpcURL)) (\<lambda>_.
     bind_res (in_ctx ''solana rpc: request failed'' (rpc_post N rpcURL
       (json_rpc ''getLatestBlockhash'' [JObj [(''commitment'', JStr ''finalized'')]]) 4096)) (\<lambda>body.
     bind_res (in_ctx ''solana rpc: parse response'' (dec_blockhash (nt_parse N body))) (\<lambda>(hash, e).
       case e of
         Some message \<Rightarrow> Inl (''solana rpc: '' @ message)
       | None \<Rightarrow> if hash = [] then Inl ''solana rpc: empty blockhash in response'' else Inr hash)))"

definition dec_owner :: "doc \<Rightarrow> string option res" where
  "dec_owner = unmarshal (\<lambda>fs.
     dec_field (dec_struct (\<lambda>v fs1. dec_field (dec_ptr (dec_struct (\<lambda>ow fs2. str_field ''owner'' ow fs2)) [])
       ''value'' v fs1)) ''result'' None fs)"

definition detectTokenProgram :: "'r sol \<Rightarrow> rpc_net \<Rightarrow> string \<Rightarrow> pubkey \<Rightarrow> pubkey res" where
  "detectTokenProgram S N rpcURL mint =
     bind_res (in_ctx ''request failed'' (rpc_post N rpcURL (json_rpc ''getAccountInfo''
       [JStr (so_String S mint), JObj [(''encoding'', JStr ''jsonParsed'')]]) 8192)) (\<lambda>body.
     bind_res (in_ctx ''parse response'' (dec_owner (nt_parse N body))) (\<lambda>value.
       case value of
         None \<Rightarrow> Inl (''mint account not found: '' @ so_String S mint)
       | Some owner \<Rightarrow> Inr (if owner = so_String S (so_Token2022ProgramID S)
           then so_Token2022ProgramID S else so_TokenProgramID S)))"

subsection \<open>What the URL check promises\<close>

text \<open>Private IPv4 addresses, by their first two bytes, and private IPv6 addresses.\<close>

definition private_v4 :: "nat \<Rightarrow> nat \<Rightarrow> bool" where
  "private_v4 a b \<longleftrightarrow> a = 0 \<or> a = 10 \<or> a = 127 \<or> a = 172 \<and> b \<in> {16..31} \<or>
     a = 192 \<and> b = 168 \<or> a = 169 \<and> b = 254"

definition private_v6 :: "bytes \<Rightarrow> bool" where
  "private_v6 ip \<longleftrightarrow> be_nat ip \<le> 1 \<or> unat (ip ! 0) div 2 = 126 \<or>
     ip ! 0 = 0xFE \<and> unat (ip ! 1) div 64 = 2"

lemma mask_eq_full: "length a = length b \<Longrightarrow> 8 * length a \<le> n \<Longrightarrow> mask_eq n a b \<longleftrightarrow> a = b"
  by (induction n a b rule: mask_eq.induct) auto

lemma To4_length: "To4 ip = Some x \<Longrightarrow> length x = 4"
  by (auto simp: To4_def split: if_splits)

lemma private_four:
  assumes "length x = 4"
  shows "list_ex (\<lambda>nw. length x = length (fst nw) \<and> mask_eq (snd nw) (fst nw) x) privateRanges \<longleftrightarrow>
    private_v4 (unat (x ! 0)) (unat (x ! 1))"
proof -
  obtain a b c d where x: "x = [a, b, c, d]"
    using assms by (auto simp: numeral_eq_Suc length_Suc_conv)
  have "unat a < 256" "unat b < 256" "unat c div 256 = 0"
    using unat_byte_less by (simp_all add: unat_byte_less)
  then show ?thesis
    unfolding x privateRanges_def private_v4_def
    by (auto simp: word_unat_eq_iff)
qed

lemma be_nat_le_1:
  "be_nat ip \<le> 1 \<longleftrightarrow> length ip = 0 \<or> ip = replicate (length ip) 0 \<or> ip = replicate (length ip - 1) 0 @ [1]"
proof (induction ip)
  case (Cons b bs)
  have pos: "256 ^ length bs \<ge> (1 :: nat)" by simp
  show ?case
  proof (cases "bs = []")
    case True
    then show ?thesis
      using unat_byte_less [of b]
      by (auto simp: word_unat_eq_iff le_Suc_eq)
  next
    case False
    then have big: "256 ^ length bs \<ge> (256 :: nat)"
      by (metis One_nat_def Suc_leI length_greater_0_conv power_increasing power_one_right
          one_le_numeral)
    have "b = 0" if "be_nat (b # bs) \<le> 1"
    proof (rule ccontr)
      assume "b \<noteq> 0"
      then have "1 \<le> unat b" by (simp add: unat_gt_0 Suc_leI)
      then have "256 \<le> unat b * 256 ^ length bs" using big mult_le_mono [of 1 "unat b" 256 "256 ^ length bs"] by simp
      then show False using that by simp
    qed
    then show ?thesis using Cons False by (cases bs) auto
  qed
qed simp

lemma private_sixteen:
  assumes "length x = 16"
  shows "list_ex (\<lambda>nw. length x = length (fst nw) \<and> mask_eq (snd nw) (fst nw) x) privateRanges \<longleftrightarrow>
    private_v6 x"
proof -
  obtain a b c where x: "x = a # b # c" "length c = 14"
    using assms by (auto simp: numeral_eq_Suc length_Suc_conv)
  have r: "replicate 15 0 = 0 # replicate 14 (0 :: byte)" "replicate 16 0 = 0 # 0 # replicate 14 (0 :: byte)"
    by (simp_all add: numeral_eq_Suc)
  have m: "mask_eq 7 (0xFC # replicate 15 0) x \<longleftrightarrow> 126 = unat a div 2"
    "mask_eq 10 ([0xFE, 0x80] @ replicate 14 0) x \<longleftrightarrow> 0xFE = a \<and> 2 = unat b div 64"
    by (simp_all add: x(1))
  have "mask_eq 128 (replicate 15 0 @ [1]) x \<longleftrightarrow> x = replicate 15 0 @ [1]"
    "mask_eq 128 (replicate 16 0) x \<longleftrightarrow> x = replicate 16 0"
    using mask_eq_full [of "replicate 15 0 @ [1]" x 128] mask_eq_full [of "replicate 16 0" x 128] assms
    by auto
  then show ?thesis
    using m x be_nat_le_1 [of x] assms by (auto simp: privateRanges_def private_v6_def)
qed

text \<open>
  C34. The check of an RPC node's address is the numeric rule: an IPv4 address, or one mapped into
  IPv6, is refused exactly when it is in 0/8, 10/8, 127/8, 172.16/12, 192.168/16 or 169.254/16; another
  IPv6 address exactly when it is :: or ::1 or in fc00::/7 or fe80::/10; for every one of the \<open>2^128\<close>
  addresses.
\<close>

theorem isPrivateIP_exact:
  "isPrivateIP ip =
    (case To4 ip of
       Some x \<Rightarrow> private_v4 (unat (x ! 0)) (unat (x ! 1))
     | None \<Rightarrow> length ip = 16 \<and> private_v6 ip)"
proof (cases "To4 ip")
  case (Some x)
  then show ?thesis
    using private_four [OF To4_length [OF Some]] by (simp add: isPrivateIP_def network_contains_def)
next
  case None
  then have "length ip \<noteq> 4" by (simp add: To4_def split: if_splits)
  moreover have "\<not> list_ex (\<lambda>nw. length ip = length (fst nw) \<and> mask_eq (snd nw) (fst nw) ip) privateRanges"
    if "length ip \<noteq> 4" "length ip \<noteq> 16"
    using that by (auto simp: privateRanges_def)
  ultimately show ?thesis
    using None private_sixteen [of ip]
    by (cases "length ip = 16") (simp_all add: isPrivateIP_def network_contains_def)
qed

definition public_target :: "rpc_net \<Rightarrow> string \<Rightarrow> bool" where
  "public_target N url \<longleftrightarrow> (\<exists>scheme host ips. nt_ParseURL N url = Inr (scheme, host) \<and>
     scheme \<in> {''http'', ''https''} \<and> host \<noteq> [] \<and> nt_LookupHost N host = Inr ips \<and>
     (\<forall>s \<in> set ips. \<exists>ip. nt_ParseIP N s = Some ip \<and> \<not> isPrivateIP ip))"

lemma check_ips_ok: "check_ips N host ips = Inr u \<longleftrightarrow>
    (\<forall>s \<in> set ips. \<exists>ip. nt_ParseIP N s = Some ip \<and> \<not> isPrivateIP ip)"
  by (induction N host ips rule: check_ips.induct) (auto split: option.splits)

lemma validateRPCURL_ok: "validateRPCURL N url = Inr u \<longleftrightarrow> public_target N url"
  by (auto simp: validateRPCURL_def public_target_def res_simps check_ips_ok split: if_splits)

text \<open>
  A blockhash is asked only of a public node: unless local nodes are allowed, either the URL is
  http or https and every address its host resolved to when it was checked is public, or no request
  is made at all, so the result is the same error whatever the network would answer.
\<close>

theorem blockhash_request_guarded:
  "nt_allowLocalRPC N \<or> public_target N url \<or>
   (\<exists>e. \<forall>h. FetchRecentBlockhash (N\<lparr>nt_http := h\<rparr>) url = Inl e)"
proof (cases "validateRPCURL N url")
  case (Inl e)
  have "check_ips (N\<lparr>nt_http := h\<rparr>) host ips = check_ips N host ips" for h host ips
    by (induction ips) (simp_all split: option.splits)
  then have "check_ips (N\<lparr>nt_http := h\<rparr>) host = check_ips N host" for h host by blast
  then have "validateRPCURL (N\<lparr>nt_http := h\<rparr>) url = Inl e" for h
    using Inl by (simp add: validateRPCURL_def cong: if_cong)
  then have "\<not> nt_allowLocalRPC N \<Longrightarrow> FetchRecentBlockhash (N\<lparr>nt_http := h\<rparr>) url =
      Inl (wrap_err ''solana rpc'' e)" for h
    by (simp add: FetchRecentBlockhash_def)
  then show ?thesis by blast
next
  case (Inr u)
  then show ?thesis by (simp add: validateRPCURL_ok)
qed

text \<open>
  The other calls to a node are not checked: the token program of a mint is asked of any URL, also one
  the check refuses.
\<close>

lemma token_program_unguarded:
  assumes "nt_http N \<lparr>hr_Method = ''POST'', hr_URL = url,
      hr_Headers = [(''Content-Type'', ''application/json'')],
      hr_Body = json_rpc ''getAccountInfo'' [JStr (so_String S mint), JObj [(''encoding'', JStr ''jsonParsed'')]]\<rparr>
      = Inr (status, body)"
    and "dec_owner (nt_parse N (take 8192 body)) = Inr (Some owner)"
  shows "\<exists>p. detectTokenProgram S (N\<lparr>nt_ParseURL := (\<lambda>u. Inl e), nt_allowLocalRPC := False\<rparr>) url mint = Inr p"
  using assms by (simp add: detectTokenProgram_def rpc_post_def)

subsection \<open>A small library at which the hypotheses hold\<close>

text \<open>
  Keys are their text padded to 32 bytes, a program address is the seeds and the program cut to 32
  bytes, and a transaction is printed as a numbered document.
\<close>

definition pad32 :: "bytes \<Rightarrow> bytes" where "pad32 b = take 32 (b @ replicate 32 0)"

definition toy_strs :: "bytes list \<Rightarrow> json" where "toy_strs bs = JArr (map (\<lambda>b. JStr (bytes_str b)) bs)"

definition toy_message :: "unit SolMessage \<Rightarrow> json" where
  "toy_message m = JArr [JNum (of_nat (unat (mg_NumRequiredSignatures m))),
     toy_strs (mg_AccountKeys m), JStr (bytes_str (mg_RecentBlockhash m))]"

definition toy_tx :: "unit SolTx \<Rightarrow> doc" where
  "toy_tx t = Some (JArr [toy_strs (st_Signatures t), toy_message (st_Message t)])"

definition toy_unstrs :: "json list \<Rightarrow> bytes list" where
  "toy_unstrs vs = map (\<lambda>v. case v of JStr s \<Rightarrow> str_bytes s | _ \<Rightarrow> []) vs"

fun toy_untx :: "doc \<Rightarrow> unit SolTx res" where
  "toy_untx (Some (JArr [JArr sigs, JArr [JNum n, JArr keys, JStr h]])) =
     Inr \<lparr>st_Signatures = toy_unstrs sigs, st_Message = \<lparr>mg_NumRequiredSignatures = word_of_int \<lfloor>n\<rfloor>,
       mg_AccountKeys = toy_unstrs keys, mg_RecentBlockhash = str_bytes h, mg_Rest = ()\<rparr>\<rparr>"
| "toy_untx d = Inl ''no transaction''"

lemma toy_untx_tx: "toy_untx (toy_tx t) = Inr t"
proof -
  have "toy_unstrs (map (\<lambda>b. JStr (bytes_str b)) bs) = bs" for bs
    by (induction bs) (simp_all add: toy_unstrs_def)
  moreover have "word_of_int \<lfloor>unsigned w :: rat\<rfloor> = w" for w :: byte
    by (metis floor_of_int of_int_uint word_of_int_uint)
  ultimately show ?thesis
    by (cases t) (cases "st_Message t", simp add: toy_tx_def toy_message_def toy_strs_def)
qed

definition toy_sol :: "unit sol" where
  "toy_sol = \<lparr>so_PublicKeyFromBase58 = (\<lambda>s. if s = [] then None else Some (pad32 (str_bytes s))),
     so_String = (\<lambda>b. hex_encode b), so_HashFromBase58 = (\<lambda>s. Some (pad32 (str_bytes s))),
     so_FindProgramAddress = (\<lambda>seeds p. if \<forall>s \<in> set seeds. length s \<le> 32
        then Inr (pad32 (concat seeds @ p), 255) else Inl ''max seed length exceeded''),
     so_NewTransaction = (\<lambda>ixs h payer. Inr \<lparr>st_Signatures = [], st_Message =
        \<lparr>mg_NumRequiredSignatures = 1,
         mg_AccountKeys = payer # concat (map (\<lambda>ix. map am_PublicKey (ix_Accounts ix)) ixs),
         mg_RecentBlockhash = h, mg_Rest = ()\<rparr>\<rparr>),
     so_NewTransfer = (\<lambda>amount f t. \<lparr>ix_ProgramID = pad32 [], ix_Accounts =
        [\<lparr>am_PublicKey = t, am_IsSigner = False, am_IsWritable = True\<rparr>],
        ix_Data = be_put 8 (unat amount)\<rparr>),
     so_MarshalMessage = (\<lambda>m. Inr (numbered_print (Some (toy_message m)))),
     so_MarshalTx = (\<lambda>t. Inr (numbered_print (toy_tx t))),
     so_TransactionFromBytes = (\<lambda>b. toy_untx (numbered_parse b)),
     so_Sign = (\<lambda>k m. pad32 k @ pad32 m), so_Public = pad32, so_Sum256 = pad32,
     so_zlib = (\<lambda>b. if b = [] then Inl ''unexpected EOF'' else Inr (b @ b, None)),
     so_SystemProgramID = pad32 [1], so_TokenProgramID = pad32 [2],
     so_Token2022ProgramID = pad32 [3], so_SPLAssociatedTokenAccountProgramID = pad32 [4],
     so_SysVarRentPubkey = pad32 [5], so_SysVarClockPubkey = pad32 [6]\<rparr>"

lemma toy_base58:
  "so_PublicKeyFromBase58 toy_sol s = (if s = [] then None else Some (pad32 (str_bytes s)))"
  by (simp add: toy_sol_def)

end
