(* ===== verification/Idl.thy ===== *)
theory Idl
  imports SolanaRpc
begin

section \<open>Anchor interface descriptions (internal/vm/solana/idl.go)\<close>

text \<open>
  The IDL of a Solana program: its types, the two JSON formats it comes in, and how it is fetched from
  the chain and cached. A type is the variant the code leaves populated; a description with no type,
  or with the empty name, is \<open>TPrimitive []\<close>. zlib and SHA-256 are arguments of the record \<open>sol\<close>.
\<close>

subsection \<open>Types\<close>

datatype IDLType =
  TPrimitive string
| TOption IDLType
| TVec IDLType
| TDefined string
| TArray IDLType int

record IDLField =
  if_Name :: string
  if_Type :: IDLType

record IDLTypeDef =
  it_Name :: string
  it_Fields :: "IDLField list"

record IDLSeed =
  sd_Kind :: string
  sd_Value :: bytes
  sd_Path :: string

record IDLSeedRef =
  sr_Kind :: string
  sr_Value :: bytes
  sr_Path :: string

record IDLPDA =
  pd_Seeds :: "IDLSeed list"
  pd_Program :: "IDLSeedRef option"

record IDLAccount =
  ia_Name :: string
  ia_Writable :: bool
  ia_Signer :: bool
  ia_Address :: string
  ia_PDA :: "IDLPDA option"

record IDLInstruction =
  ii_Name :: string
  ii_Discriminator :: bytes
  ii_Accounts :: "IDLAccount list"
  ii_Args :: "IDLField list"

record AnchorIDL =
  al_Name :: string
  al_Instructions :: "IDLInstruction list"
  al_Types :: "IDLTypeDef list"

text \<open>\<open>toSnakeCase\<close> on ASCII names.\<close>

definition is_upper :: "char \<Rightarrow> bool" where
  "is_upper c \<longleftrightarrow> 65 \<le> (of_char c :: nat) \<and> (of_char c :: nat) \<le> 90"

fun snake_loop :: "bool \<Rightarrow> string \<Rightarrow> string" where
  "snake_loop first [] = []"
| "snake_loop first (c # cs) =
     (if is_upper c then (if first then [] else ''_'') @ char_lower c # snake_loop False cs
      else c # snake_loop False cs)"

definition toSnakeCase :: "string \<Rightarrow> string" where
  "toSnakeCase s = snake_loop True s"

definition anchorDiscriminator :: "'r sol \<Rightarrow> string \<Rightarrow> bytes" where
  "anchorDiscriminator S name = take 8 (so_Sum256 S (str_bytes (''global:'' @ toSnakeCase name)))"

subsection \<open>Decoding\<close>

text \<open>
  \<open>UnmarshalJSON\<close> of a type: a string is a primitive; of an object the first of option, vec, defined
  and array that is there decides. Keys of a Go map are exact, and the last of equal keys counts.
\<close>

definition raw_field :: "string \<Rightarrow> fields \<Rightarrow> json option" where
  "raw_field name fs = map_of (rev fs) name"

lemma raw_field_size: "raw_field name fs = Some v \<Longrightarrow> size v < size (JObj fs)"
proof -
  assume "raw_field name fs = Some v"
  then have "(name, v) \<in> set fs" using map_of_SomeD [of "rev fs" name v] by (simp add: raw_field_def)
  then have "size v < Suc (size_list (size_prod (\<lambda>x. 0) size) fs)"
    by (induction fs) auto
  then show ?thesis by simp
qed

lemma raw_array_size: "raw_field name fs = Some (JArr (v # vs)) \<Longrightarrow> size v < size (JObj fs)"
  by (drule raw_field_size) simp

definition idl_type_err :: err where "idl_type_err = ''invalid IDL type''"

definition dec_defined :: "json \<Rightarrow> string res" where
  "dec_defined v =
     (case dec_string [] v of Inr name \<Rightarrow> Inr name
      | Inl e \<Rightarrow> dec_struct (str_field ''name'') [] v)"

definition dec_length :: "json \<Rightarrow> int res" where
  "dec_length v =
     (case v of
        JNull \<Rightarrow> Inr 0
      | JNum q \<Rightarrow> if of_int \<lfloor>q\<rfloor> = q \<and> - (2 ^ 63) \<le> q \<and> q < 2 ^ 63 then Inr \<lfloor>q\<rfloor> else Inl json_type_err
      | _ \<Rightarrow> Inl json_type_err)"

function dec_IDLType :: "json \<Rightarrow> IDLType res" where
  "dec_IDLType JNull = Inr (TPrimitive [])"
| "dec_IDLType (JStr s) = Inr (TPrimitive s)"
| "dec_IDLType (JBool b) = Inl idl_type_err"
| "dec_IDLType (JNum q) = Inl idl_type_err"
| "dec_IDLType (JArr vs) = Inl idl_type_err"
| "dec_IDLType (JObj fs) =
     (case raw_field ''option'' fs of
        Some v \<Rightarrow> (case dec_IDLType v of Inl e \<Rightarrow> Inl e | Inr t \<Rightarrow> Inr (TOption t))
      | None \<Rightarrow> (case raw_field ''vec'' fs of
          Some v \<Rightarrow> (case dec_IDLType v of Inl e \<Rightarrow> Inl e | Inr t \<Rightarrow> Inr (TVec t))
        | None \<Rightarrow> (case raw_field ''defined'' fs of
            Some v \<Rightarrow> (case dec_defined v of Inl e \<Rightarrow> Inl e | Inr n \<Rightarrow> Inr (TDefined n))
          | None \<Rightarrow> (case raw_field ''array'' fs of
              Some (JArr [v, n]) \<Rightarrow> (case dec_IDLType v of
                  Inl e \<Rightarrow> Inl e
                | Inr t \<Rightarrow> (case dec_length n of Inl e \<Rightarrow> Inl e | Inr len \<Rightarrow> Inr (TArray t len)))
            | Some JNull \<Rightarrow> Inl ''invalid array type''
            | Some (JArr vs) \<Rightarrow> Inl ''invalid array type''
            | Some v \<Rightarrow> Inl json_type_err
            | None \<Rightarrow> Inl idl_type_err))))"
  by pat_completeness auto
termination
  by (relation "measure size") (auto dest: raw_field_size raw_array_size simp del: json.size)

subsection \<open>The two formats\<close>

definition empty_type :: IDLType where "empty_type = TPrimitive []"

definition dec_rawField :: "IDLField \<Rightarrow> fields \<Rightarrow> IDLField res" where
  "dec_rawField old fs =
     bind_res (str_field ''name'' (if_Name old) fs) (\<lambda>n.
     bind_res (dec_field (\<lambda>t v. dec_IDLType v) ''type'' (if_Type old) fs) (\<lambda>t.
       Inr \<lparr>if_Name = n, if_Type = t\<rparr>))"

abbreviation "dec_rawFields \<equiv> dec_array (dec_struct dec_rawField) \<lparr>if_Name = [], if_Type = empty_type\<rparr>"

text \<open>\<open>rawTypeDef\<close>: name, kind and fields.\<close>

type_synonym rawTypeDef = "string \<times> string \<times> IDLField list"

definition dec_rawTypeDef :: "rawTypeDef \<Rightarrow> fields \<Rightarrow> rawTypeDef res" where
  "dec_rawTypeDef old fs =
     (case old of (n0, k0, fs0) \<Rightarrow>
       bind_res (str_field ''name'' n0 fs) (\<lambda>n.
       bind_res (dec_field (dec_struct (\<lambda>kf gs.
           bind_res (str_field ''kind'' (fst kf) gs) (\<lambda>k.
           bind_res (dec_field dec_rawFields ''fields'' (snd kf) gs) (\<lambda>flds. Inr (k, flds)))))
         ''type'' (k0, fs0) fs) (\<lambda>(k, flds). Inr (n, k, flds))))"

abbreviation "dec_rawTypeDefs \<equiv> dec_array (dec_struct dec_rawTypeDef) ([], [], [])"

definition idl_types :: "rawTypeDef list \<Rightarrow> IDLTypeDef list" where
  "idl_types raws = map (\<lambda>(n, k, flds). \<lparr>it_Name = n, it_Fields = flds\<rparr>)
     (filter (\<lambda>(n, k, flds). k = ''struct'' \<and> flds \<noteq> []) raws)"

text \<open>\<open>rawSeedNew\<close> keeps its value as it stands, which may be missing.\<close>

record rawSeedNew =
  rn_Kind :: string
  rn_Value :: "json option"
  rn_Path :: string

record rawPDANew =
  rp_Seeds :: "rawSeedNew list"
  rp_Program :: "json option"

record rawAccountNew =
  ra_Name :: string
  ra_Writable :: bool
  ra_Signer :: bool
  ra_Address :: string
  ra_PDA :: "rawPDANew option"

fun dec_raw :: "json option \<Rightarrow> json \<Rightarrow> json option res" where
  "dec_raw old v = Inr (Some v)"

fun dec_raw_ptr :: "json option \<Rightarrow> json \<Rightarrow> json option res" where
  "dec_raw_ptr old JNull = Inr None"
| "dec_raw_ptr old v = Inr (Some v)"

definition dec_rawSeedNew :: "rawSeedNew \<Rightarrow> fields \<Rightarrow> rawSeedNew res" where
  "dec_rawSeedNew old fs =
     bind_res (str_field ''kind'' (rn_Kind old) fs) (\<lambda>k.
     bind_res (dec_field dec_raw ''value'' (rn_Value old) fs) (\<lambda>v.
     bind_res (str_field ''path'' (rn_Path old) fs) (\<lambda>p.
       Inr \<lparr>rn_Kind = k, rn_Value = v, rn_Path = p\<rparr>)))"

definition dec_rawPDANew :: "rawPDANew \<Rightarrow> fields \<Rightarrow> rawPDANew res" where
  "dec_rawPDANew old fs =
     bind_res (dec_field (dec_array (dec_struct dec_rawSeedNew)
         \<lparr>rn_Kind = [], rn_Value = None, rn_Path = []\<rparr>) ''seeds'' (rp_Seeds old) fs) (\<lambda>s.
     bind_res (dec_field dec_raw_ptr ''program'' (rp_Program old) fs) (\<lambda>p.
       Inr \<lparr>rp_Seeds = s, rp_Program = p\<rparr>))"

definition dec_rawAccountNew :: "rawAccountNew \<Rightarrow> fields \<Rightarrow> rawAccountNew res" where
  "dec_rawAccountNew old fs =
     bind_res (str_field ''name'' (ra_Name old) fs) (\<lambda>n.
     bind_res (dec_field dec_bool ''writable'' (ra_Writable old) fs) (\<lambda>w.
     bind_res (dec_field dec_bool ''signer'' (ra_Signer old) fs) (\<lambda>s.
     bind_res (str_field ''address'' (ra_Address old) fs) (\<lambda>a.
     bind_res (dec_field (dec_ptr (dec_struct dec_rawPDANew) \<lparr>rp_Seeds = [], rp_Program = None\<rparr>)
         ''pda'' (ra_PDA old) fs) (\<lambda>p.
       Inr \<lparr>ra_Name = n, ra_Writable = w, ra_Signer = s, ra_Address = a, ra_PDA = p\<rparr>)))))"

text \<open>
  \<open>parsePDANew\<close>. A constant seed is read as a byte slice first, so a string that happens to be base64
  text counts as what it encodes.
\<close>

definition parse_seed :: "rawSeedNew \<Rightarrow> IDLSeed" where
  "parse_seed rs =
     \<lparr>sd_Kind = rn_Kind rs,
      sd_Value = (if rn_Kind rs = ''const'' then
          (case rn_Value rs of
             None \<Rightarrow> []
           | Some v \<Rightarrow> (case dec_bytes [] v of
               Inr b \<Rightarrow> b
             | Inl e \<Rightarrow> (case dec_string [] v of Inr s \<Rightarrow> str_bytes s | Inl e \<Rightarrow> [])))
        else []),
      sd_Path = (if rn_Kind rs = ''account'' \<and> rn_Path rs = [] then
          (case rn_Value rs of
             None \<Rightarrow> []
           | Some v \<Rightarrow> (case dec_string [] v of Inr s \<Rightarrow> s | Inl e \<Rightarrow> []))
        else rn_Path rs)\<rparr>"

definition parse_program :: "json \<Rightarrow> IDLSeedRef option" where
  "parse_program raw =
     (case dec_struct dec_rawSeedNew \<lparr>rn_Kind = [], rn_Value = None, rn_Path = []\<rparr> raw of
        Inl e \<Rightarrow> None
      | Inr p \<Rightarrow> Some \<lparr>sr_Kind = rn_Kind p,
          sr_Value = (if rn_Kind p = ''const'' then
              (case rn_Value p of
                 None \<Rightarrow> []
               | Some v \<Rightarrow> (case dec_bytes [] v of Inr b \<Rightarrow> b | Inl e \<Rightarrow> []))
            else []),
          sr_Path = rn_Path p\<rparr>)"

definition parsePDANew :: "rawPDANew \<Rightarrow> IDLPDA" where
  "parsePDANew raw = \<lparr>pd_Seeds = map parse_seed (rp_Seeds raw),
     pd_Program = (case rp_Program raw of None \<Rightarrow> None | Some p \<Rightarrow> parse_program p)\<rparr>"

definition account_new :: "rawAccountNew \<Rightarrow> IDLAccount" where
  "account_new ra = \<lparr>ia_Name = ra_Name ra, ia_Writable = ra_Writable ra, ia_Signer = ra_Signer ra,
     ia_Address = ra_Address ra, ia_PDA = map_option parsePDANew (ra_PDA ra)\<rparr>"

type_synonym rawIxNew = "string \<times> bytes \<times> rawAccountNew list \<times> IDLField list"

definition dec_rawIxNew :: "rawIxNew \<Rightarrow> fields \<Rightarrow> rawIxNew res" where
  "dec_rawIxNew old fs =
     (case old of (n0, d0, a0, g0) \<Rightarrow>
       bind_res (str_field ''name'' n0 fs) (\<lambda>n.
       bind_res (dec_field dec_bytes ''discriminator'' d0 fs) (\<lambda>d.
       bind_res (dec_field (dec_array (dec_struct dec_rawAccountNew) \<lparr>ra_Name = [],
           ra_Writable = False, ra_Signer = False, ra_Address = [], ra_PDA = None\<rparr>)
         ''accounts'' a0 fs) (\<lambda>a.
       bind_res (dec_field dec_rawFields ''args'' g0 fs) (\<lambda>g. Inr (n, d, a, g))))))"

definition instruction_new :: "'r sol \<Rightarrow> rawIxNew \<Rightarrow> IDLInstruction" where
  "instruction_new S rix =
     (case rix of (n, d, a, g) \<Rightarrow>
       \<lparr>ii_Name = n, ii_Discriminator = (if d = [] then anchorDiscriminator S n else d),
        ii_Accounts = map account_new a, ii_Args = g\<rparr>)"

definition parseIDLNew :: "'r sol \<Rightarrow> doc \<Rightarrow> AnchorIDL res" where
  "parseIDLNew S data = in_ctx ''parse new IDL'' (unmarshal (\<lambda>fs.
     bind_res (str_field ''address'' [] fs) (\<lambda>_.
     bind_res (dec_field (dec_struct (\<lambda>n gs. str_field ''name'' n gs)) ''metadata'' [] fs) (\<lambda>name.
     bind_res (dec_field (dec_array (dec_struct dec_rawIxNew) ([], [], [], [])) ''instructions'' [] fs)
       (\<lambda>ixs.
     bind_res (dec_field dec_rawTypeDefs ''types'' [] fs) (\<lambda>types.
     bind_res (dec_field dec_rawTypeDefs ''accounts'' [] fs) (\<lambda>accounts.
       Inr \<lparr>al_Name = name, al_Instructions = map (instruction_new S) ixs,
         al_Types = idl_types (types @ accounts)\<rparr>)))))) data)"

definition dec_rawAccountOld :: "IDLAccount \<Rightarrow> fields \<Rightarrow> IDLAccount res" where
  "dec_rawAccountOld old fs =
     bind_res (str_field ''name'' (ia_Name old) fs) (\<lambda>n.
     bind_res (dec_field dec_bool ''isMut'' (ia_Writable old) fs) (\<lambda>w.
     bind_res (dec_field dec_bool ''isSigner'' (ia_Signer old) fs) (\<lambda>s.
       Inr \<lparr>ia_Name = n, ia_Writable = w, ia_Signer = s, ia_Address = [], ia_PDA = None\<rparr>)))"

type_synonym rawIxOld = "string \<times> IDLAccount list \<times> IDLField list"

definition dec_rawIxOld :: "rawIxOld \<Rightarrow> fields \<Rightarrow> rawIxOld res" where
  "dec_rawIxOld old fs =
     (case old of (n0, a0, g0) \<Rightarrow>
       bind_res (str_field ''name'' n0 fs) (\<lambda>n.
       bind_res (dec_field (dec_array (dec_struct dec_rawAccountOld) \<lparr>ia_Name = [],
           ia_Writable = False, ia_Signer = False, ia_Address = [], ia_PDA = None\<rparr>)
         ''accounts'' a0 fs) (\<lambda>a.
       bind_res (dec_field dec_rawFields ''args'' g0 fs) (\<lambda>g. Inr (n, a, g)))))"

definition parseIDLOld :: "'r sol \<Rightarrow> doc \<Rightarrow> AnchorIDL res" where
  "parseIDLOld S data = in_ctx ''parse old IDL'' (unmarshal (\<lambda>fs.
     bind_res (str_field ''name'' [] fs) (\<lambda>name.
     bind_res (str_field ''version'' [] fs) (\<lambda>_.
     bind_res (dec_field (dec_array (dec_struct dec_rawIxOld) ([], [], [])) ''instructions'' [] fs) (\<lambda>ixs.
     bind_res (dec_field dec_rawTypeDefs ''types'' [] fs) (\<lambda>types.
     bind_res (dec_field dec_rawTypeDefs ''accounts'' [] fs) (\<lambda>accounts.
       Inr \<lparr>al_Name = name,
         al_Instructions = map (\<lambda>(n, a, g). \<lparr>ii_Name = n, ii_Discriminator = anchorDiscriminator S n,
           ii_Accounts = a, ii_Args = g\<rparr>) ixs,
         al_Types = idl_types (types @ accounts)\<rparr>)))))) data)"

definition parseIDL :: "'r sol \<Rightarrow> doc \<Rightarrow> AnchorIDL res" where
  "parseIDL S data =
     bind_res (in_ctx ''probe IDL format'' (unmarshal (\<lambda>fs.
         bind_res (dec_field dec_raw_ptr ''metadata'' None fs) (\<lambda>m.
         bind_res (str_field ''version'' [] fs) (\<lambda>_. Inr m))) data))
       (\<lambda>metadata. if metadata \<noteq> None then parseIDLNew S data else parseIDLOld S data)"

subsection \<open>Fetching\<close>

text \<open>\<open>io.ReadAll\<close> of a limited reader: an error behind the limit is not seen.\<close>

definition read_limited :: "nat \<Rightarrow> bytes \<times> err option \<Rightarrow> bytes res" where
  "read_limited limit stream =
     (if limit \<le> length (fst stream) then Inr (take limit (fst stream))
      else (case snd stream of None \<Rightarrow> Inr (fst stream) | Some e \<Rightarrow> Inl e))"

definition idl_limit :: nat where "idl_limit = 2 * 2 ^ 20"

definition decompressIDL :: "'r sol \<Rightarrow> bytes \<Rightarrow> byte \<Rightarrow> bytes res" where
  "decompressIDL S data compression =
     (if compression = 0 then Inr data
      else if compression = 1 then
        bind_res (in_ctx ''zlib open'' (so_zlib S data)) (read_limited idl_limit)
      else (case so_zlib S data of
          Inl e \<Rightarrow> Inr data
        | Inr r \<Rightarrow> (case read_limited idl_limit r of Inl e \<Rightarrow> Inr data | Inr b \<Rightarrow> Inr b)))"

definition le_value :: "bytes \<Rightarrow> nat" where "le_value b = be_nat (rev b)"

text \<open>The account response: result.value.data and error.message.\<close>

definition dec_account :: "doc \<Rightarrow> (string list option \<times> string option) res" where
  "dec_account = unmarshal (\<lambda>fs.
     bind_res (dec_field (dec_struct (\<lambda>v fs1. dec_field (dec_ptr (dec_struct (\<lambda>d fs2.
         dec_field (dec_array dec_string []) ''data'' d fs2)) []) ''value'' v fs1)) ''result'' None fs)
       (\<lambda>v. bind_res (dec_field (dec_ptr (dec_struct (\<lambda>m fs1. str_field ''message'' m fs1)) []) ''error''
         None fs) (\<lambda>e. Inr (v, e))))"

definition fetchAccountDataRaw :: "rpc_net \<Rightarrow> string \<Rightarrow> string \<Rightarrow> bytes res" where
  "fetchAccountDataRaw N rpcURL address =
     bind_res (rpc_post N rpcURL (json_rpc ''getAccountInfo''
       [JStr address, JObj [(''encoding'', JStr ''base64'')]]) (2 ^ 20)) (\<lambda>body.
     bind_res (in_ctx ''parse RPC response'' (dec_account (nt_parse N body))) (\<lambda>(value, e).
       case e of
         Some message \<Rightarrow> Inl (''RPC error: '' @ message)
       | None \<Rightarrow> (case value of
           Some (d # ds) \<Rightarrow> b64_decode d
         | _ \<Rightarrow> Inl (''account not found: '' @ address))))"

text \<open>The payload of an account: \<open>header\<close> bytes, the last four of which are its length.\<close>

definition account_payload :: "string \<Rightarrow> nat \<Rightarrow> bytes \<Rightarrow> bytes res" where
  "account_payload name header accountData =
     (let dataLen = le_value (take 4 (drop (header - 4) accountData)); payload = drop header accountData in
      if length payload mod 2 ^ 32 < dataLen
      then Inl (name @ '' truncated: want '' @ nat_dec dataLen @ '', have '' @ nat_dec (length payload))
      else Inr (take dataLen payload))"

definition metadataHeaderSize :: nat where
  "metadataHeaderSize = 8 + 1 + 32 + 32 + 1 + 1 + 1 + 1 + 4"

definition programMetadataID :: "'r sol \<Rightarrow> pubkey may_panic" where
  "programMetadataID S = MustPublicKeyFromBase58 S ''pmetaypqG6SiB47xMigYVMAkuHDWeSDXcv3zzDrmcht''"

definition fetchIDLFromMetadata :: "'r sol \<Rightarrow> rpc_net \<Rightarrow> pubkey \<Rightarrow> string \<Rightarrow> pubkey \<Rightarrow> AnchorIDL res" where
  "fetchIDLFromMetadata S N metadataID rpcURL programID =
     bind_res (in_ctx ''compute metadata PDA''
       (so_FindProgramAddress S [programID, str_bytes ''idl''] metadataID)) (\<lambda>(idlAddr, _).
     bind_res (fetchAccountDataRaw N rpcURL (so_String S idlAddr)) (\<lambda>accountData.
       if length accountData < metadataHeaderSize
       then Inl (''metadata account too short: '' @ nat_dec (length accountData) @ '' bytes'')
       else let compression = accountData ! (8 + 1 + 32 + 32 + 1) in
         bind_res (account_payload ''metadata'' metadataHeaderSize accountData) (\<lambda>payload.
         bind_res (decompressIDL S payload compression) (\<lambda>idlJSON.
           parseIDL S (nt_parse N (bytes_str idlJSON))))))"

definition fetchIDLLegacy :: "'r sol \<Rightarrow> rpc_net \<Rightarrow> string \<Rightarrow> pubkey \<Rightarrow> AnchorIDL res" where
  "fetchIDLLegacy S N rpcURL programID =
     bind_res (in_ctx ''compute program signer'' (so_FindProgramAddress S [] programID))
       (\<lambda>(programSigner, _).
     let idlAddr = so_Sum256 S (programSigner @ str_bytes ''anchor:idl'' @ programID) in
     bind_res (fetchAccountDataRaw N rpcURL (so_String S idlAddr)) (\<lambda>accountData.
       if length accountData < 44
       then Inl (''legacy IDL account too short: '' @ nat_dec (length accountData) @ '' bytes'')
       else bind_res (account_payload ''legacy IDL'' 44 accountData) (\<lambda>payload.
         parseIDL S (nt_parse N (bytes_str
           (case decompressIDL S payload 1 of Inl e \<Rightarrow> payload | Inr idlJSON \<Rightarrow> idlJSON))))))"

type_synonym idl_cache = "string \<rightharpoonup> AnchorIDL"

definition FetchIDL :: "'r sol \<Rightarrow> rpc_net \<Rightarrow> pubkey \<Rightarrow> string \<Rightarrow> pubkey \<Rightarrow> idl_cache \<Rightarrow>
    AnchorIDL res \<times> idl_cache" where
  "FetchIDL S N metadataID rpcURL programID cache =
     (let key = so_String S programID in
      case cache key of
        Some idl \<Rightarrow> (Inr idl, cache)
      | None \<Rightarrow> (case fetchIDLFromMetadata S N metadataID rpcURL programID of
          Inr idl \<Rightarrow> (Inr idl, cache(key \<mapsto> idl))
        | Inl e \<Rightarrow> (case fetchIDLLegacy S N rpcURL programID of
            Inr idl \<Rightarrow> (Inr idl, cache(key \<mapsto> idl))
          | Inl e \<Rightarrow> (Inl (''IDL not found for program '' @ key @
              '': tried Program Metadata PDA and legacy create_with_seed''), cache))))"

subsection \<open>What reading an IDL promises\<close>

text \<open>The two formats written out, for interfaces both can express.\<close>

fun enc_IDLType :: "IDLType \<Rightarrow> json" where
  "enc_IDLType (TPrimitive s) = JStr s"
| "enc_IDLType (TOption t) = JObj [(''option'', enc_IDLType t)]"
| "enc_IDLType (TVec t) = JObj [(''vec'', enc_IDLType t)]"
| "enc_IDLType (TDefined n) = JObj [(''defined'', JObj [(''name'', JStr n)])]"
| "enc_IDLType (TArray t n) = JObj [(''array'', JArr [enc_IDLType t, JNum (of_int n)])]"

fun sized :: "IDLType \<Rightarrow> bool" where
  "sized (TOption t) = sized t"
| "sized (TVec t) = sized t"
| "sized (TArray t n) = (sized t \<and> - (2 ^ 63) \<le> n \<and> n < 2 ^ 63)"
| "sized t = True"

lemma dec_length_int: "- (2 ^ 63) \<le> n \<Longrightarrow> n < 2 ^ 63 \<Longrightarrow> dec_length (JNum (of_int n)) = Inr n"
proof -
  assume "- (2 ^ 63) \<le> n" and "n < 2 ^ 63"
  then have "(of_int (- (2 ^ 63)) :: rat) \<le> of_int n" and "(of_int n :: rat) < of_int (2 ^ 63)"
    by (simp_all only: of_int_le_iff of_int_less_iff)
  then show ?thesis by (simp add: dec_length_def)
qed

lemma dec_enc_IDLType: "sized t \<Longrightarrow> dec_IDLType (enc_IDLType t) = Inr t"
  by (induction t) (simp_all add: raw_field_def dec_defined_def dec_struct_def dec_length_int)

lemma dec_list_map: "(\<And>x. x \<in> set xs \<Longrightarrow> d z (f x) = Inr x) \<Longrightarrow> dec_list d z (map f xs) = Inr xs"
  by (induction xs) auto

definition enc_field :: "IDLField \<Rightarrow> json" where
  "enc_field f = JObj [(''name'', JStr (if_Name f)), (''type'', enc_IDLType (if_Type f))]"

definition enc_typedef :: "IDLTypeDef \<Rightarrow> json" where
  "enc_typedef td = JObj [(''name'', JStr (it_Name td)),
     (''type'', JObj [(''kind'', JStr ''struct''), (''fields'', JArr (map enc_field (it_Fields td)))])]"

definition enc_account_old :: "IDLAccount \<Rightarrow> json" where
  "enc_account_old a = JObj [(''name'', JStr (ia_Name a)), (''isMut'', JBool (ia_Writable a)),
     (''isSigner'', JBool (ia_Signer a))]"

definition enc_account_new :: "IDLAccount \<Rightarrow> json" where
  "enc_account_new a = JObj [(''name'', JStr (ia_Name a)), (''writable'', JBool (ia_Writable a)),
     (''signer'', JBool (ia_Signer a))]"

definition enc_instruction :: "(IDLAccount \<Rightarrow> json) \<Rightarrow> IDLInstruction \<Rightarrow> json" where
  "enc_instruction ea ix = JObj [(''name'', JStr (ii_Name ix)), (''accounts'', JArr (map ea (ii_Accounts ix))),
     (''args'', JArr (map enc_field (ii_Args ix)))]"

definition enc_IDL_old :: "AnchorIDL \<Rightarrow> doc" where
  "enc_IDL_old idl = Some (JObj [(''version'', JStr ''0.1.0''), (''name'', JStr (al_Name idl)),
     (''instructions'', JArr (map (enc_instruction enc_account_old) (al_Instructions idl))),
     (''types'', JArr (map enc_typedef (al_Types idl)))])"

definition enc_IDL_new :: "AnchorIDL \<Rightarrow> doc" where
  "enc_IDL_new idl = Some (JObj [(''metadata'', JObj [(''name'', JStr (al_Name idl))]),
     (''instructions'', JArr (map (enc_instruction enc_account_new) (al_Instructions idl))),
     (''types'', JArr (map enc_typedef (al_Types idl)))])"

text \<open>Structs have fields, arrays a length that fits, accounts no address and no derivation.\<close>

definition plain_IDL :: "'r sol \<Rightarrow> AnchorIDL \<Rightarrow> bool" where
  "plain_IDL S idl \<longleftrightarrow>
     (\<forall>td \<in> set (al_Types idl). it_Fields td \<noteq> [] \<and> (\<forall>f \<in> set (it_Fields td). sized (if_Type f))) \<and>
     (\<forall>ix \<in> set (al_Instructions idl). ii_Discriminator ix = anchorDiscriminator S (ii_Name ix) \<and>
        (\<forall>f \<in> set (ii_Args ix). sized (if_Type f)) \<and>
        (\<forall>a \<in> set (ii_Accounts ix). ia_Address a = [] \<and> ia_PDA a = None))"

named_theorems idl_simps

lemmas [idl_simps] = to_lower_def char_lower_def dec_struct_def dec_array_def

lemma dec_enc_field [idl_simps]:
  "sized (if_Type f) \<Longrightarrow> dec_rawField old (case enc_field f of JObj fs \<Rightarrow> fs) = Inr f"
  by (simp add: dec_rawField_def enc_field_def dec_enc_IDLType idl_simps)

lemma dec_enc_fields: "\<forall>f \<in> set flds. sized (if_Type f) \<Longrightarrow>
    dec_list (dec_struct dec_rawField) z (map enc_field flds) = Inr flds"
  by (rule dec_list_map) (simp add: dec_rawField_def enc_field_def dec_enc_IDLType idl_simps)

lemma dec_enc_typedefs:
  assumes "\<forall>td \<in> set tds. \<forall>f \<in> set (it_Fields td). sized (if_Type f)"
  shows "dec_list (dec_struct dec_rawTypeDef) ([], [], []) (map enc_typedef tds) =
    Inr (map (\<lambda>td. (it_Name td, ''struct'', it_Fields td)) tds)"
  using assms
  by (induction tds) (simp_all add: dec_rawTypeDef_def enc_typedef_def dec_enc_fields idl_simps)

lemma idl_types_structs:
  "\<forall>td \<in> set tds. it_Fields td \<noteq> [] \<Longrightarrow>
    idl_types (map (\<lambda>td. (it_Name td, ''struct'', it_Fields td)) tds) = tds"
  by (induction tds) (auto simp: idl_types_def)

lemma dec_enc_accounts_old:
  assumes "\<forall>a \<in> set as. ia_Address a = [] \<and> ia_PDA a = None"
  shows "dec_list (dec_struct dec_rawAccountOld) z (map enc_account_old as) = Inr as"
  by (rule dec_list_map) (use assms in \<open>auto simp: dec_rawAccountOld_def enc_account_old_def idl_simps\<close>)

lemma dec_enc_accounts_new:
  assumes "\<forall>a \<in> set as. ia_Address a = [] \<and> ia_PDA a = None"
  shows "\<exists>ras. dec_list (dec_struct dec_rawAccountNew) \<lparr>ra_Name = [], ra_Writable = False,
      ra_Signer = False, ra_Address = [], ra_PDA = None\<rparr> (map enc_account_new as) = Inr ras \<and>
    map account_new ras = as"
  using assms
  by (induction as) (auto simp: dec_rawAccountNew_def enc_account_new_def account_new_def idl_simps)

lemma parseIDL_old:
  assumes "plain_IDL S idl"
  shows "parseIDL S (enc_IDL_old idl) = Inr idl"
proof -
  have ixs: "\<exists>raws. dec_list (dec_struct dec_rawIxOld) ([], [], [])
      (map (enc_instruction enc_account_old) ixs) = Inr raws \<and>
      map (\<lambda>(n, a, g). \<lparr>ii_Name = n, ii_Discriminator = anchorDiscriminator S n,
        ii_Accounts = a, ii_Args = g\<rparr>) raws = ixs"
    if "set ixs \<subseteq> set (al_Instructions idl)" for ixs
    using that
  proof (induction ixs)
    case (Cons ix ixs)
    then have "ii_Discriminator ix = anchorDiscriminator S (ii_Name ix)"
      "\<forall>f \<in> set (ii_Args ix). sized (if_Type f)"
      "\<forall>a \<in> set (ii_Accounts ix). ia_Address a = [] \<and> ia_PDA a = None"
      using assms by (auto simp: plain_IDL_def)
    then show ?case
      using Cons by (auto simp: dec_rawIxOld_def enc_instruction_def dec_enc_fields
          dec_enc_accounts_old idl_simps)
  qed simp
  have "\<forall>td \<in> set (al_Types idl). it_Fields td \<noteq> []"
    "\<forall>td \<in> set (al_Types idl). \<forall>f \<in> set (it_Fields td). sized (if_Type f)"
    using assms by (auto simp: plain_IDL_def)
  then show ?thesis
    using ixs [of "al_Instructions idl"]
    by (auto simp: parseIDL_def parseIDLOld_def enc_IDL_old_def dec_enc_typedefs idl_types_structs
        idl_simps)
qed

lemma parseIDL_new:
  assumes "plain_IDL S idl"
  shows "parseIDL S (enc_IDL_new idl) = Inr idl"
proof -
  have ixs: "\<exists>raws. dec_list (dec_struct dec_rawIxNew) ([], [], [], [])
      (map (enc_instruction enc_account_new) ixs) = Inr raws \<and> map (instruction_new S) raws = ixs"
    if "set ixs \<subseteq> set (al_Instructions idl)" for ixs
    using that
  proof (induction ixs)
    case (Cons ix ixs)
    then have ix: "ii_Discriminator ix = anchorDiscriminator S (ii_Name ix)"
      "\<forall>f \<in> set (ii_Args ix). sized (if_Type f)"
      "\<forall>a \<in> set (ii_Accounts ix). ia_Address a = [] \<and> ia_PDA a = None"
      using assms by (auto simp: plain_IDL_def)
    obtain ras where "dec_list (dec_struct dec_rawAccountNew) \<lparr>ra_Name = [], ra_Writable = False,
        ra_Signer = False, ra_Address = [], ra_PDA = None\<rparr> (map enc_account_new (ii_Accounts ix)) = Inr ras"
      "map account_new ras = ii_Accounts ix"
      using dec_enc_accounts_new [OF ix(3)] by blast
    then show ?case
      using Cons ix(1,2) by (auto simp: dec_rawIxNew_def enc_instruction_def instruction_new_def
          dec_enc_fields idl_simps)
  qed simp
  have "\<forall>td \<in> set (al_Types idl). it_Fields td \<noteq> []"
    "\<forall>td \<in> set (al_Types idl). \<forall>f \<in> set (it_Fields td). sized (if_Type f)"
    using assms by (auto simp: plain_IDL_def)
  then show ?thesis
    using ixs [of "al_Instructions idl"]
    by (auto simp: parseIDL_def parseIDLNew_def enc_IDL_new_def dec_enc_typedefs idl_types_structs
        idl_simps)
qed

text \<open>
  The format of an IDL does not matter: an interface that both formats can express is read back
  exactly, with every nested type, from its old form and from its new form.
\<close>

theorem parseIDL_formats_agree:
  assumes "plain_IDL S idl"
  shows "parseIDL S (enc_IDL_old idl) = Inr idl \<and> parseIDL S (enc_IDL_new idl) = Inr idl"
  using parseIDL_old [OF assms] parseIDL_new [OF assms] by simp

definition sample_IDL :: AnchorIDL where
  "sample_IDL = \<lparr>al_Name = ''vault'', al_Instructions = [\<lparr>ii_Name = ''stake'',
     ii_Discriminator = anchorDiscriminator toy_sol ''stake'',
     ii_Accounts = [\<lparr>ia_Name = ''user'', ia_Writable = True, ia_Signer = True, ia_Address = [],
       ia_PDA = None\<rparr>],
     ii_Args = [\<lparr>if_Name = ''amount'', if_Type = TOption (TArray (TPrimitive ''u8'') 4)\<rparr>]\<rparr>],
     al_Types = []\<rparr>"

theorem parseIDL_formats_agree_witness:
  "parseIDL toy_sol (enc_IDL_old sample_IDL) = Inr sample_IDL \<and>
   parseIDL toy_sol (enc_IDL_new sample_IDL) = Inr sample_IDL"
  by (rule parseIDL_formats_agree) (simp add: plain_IDL_def sample_IDL_def)

text \<open>
  The first node asked for a program's interface decides it for all: once an IDL is cached, every
  later request gets it, whatever node the request names and whatever that node would answer.
\<close>

theorem idl_first_node_wins:
  assumes "FetchIDL S N1 m url1 program cache = (Inr idl, cache1)"
  shows "FetchIDL S N2 m url2 program cache1 = (Inr idl, cache1)"
  using assms by (auto simp: FetchIDL_def Let_def split: option.splits sum.splits)

text \<open>A node that serves the sample interface uncompressed, and one that serves nothing.\<close>

definition idl_account :: bytes where
  "idl_account = replicate 77 0 @ [2, 0, 0, 0] @ [7, 7]"

definition serving_net :: rpc_net where
  "serving_net = \<lparr>nt_http = (\<lambda>r. Inr (200, ''account'')),
     nt_parse = (\<lambda>s. if s = ''account'' then Some (JObj [(''result'', JObj [(''value'', JObj
         [(''data'', JArr [JStr (b64_encode idl_account)])])])])
       else enc_IDL_new sample_IDL),
     nt_LookupHost = (\<lambda>h. Inl []), nt_ParseURL = (\<lambda>u. Inl []), nt_ParseIP = (\<lambda>s. None),
     nt_allowLocalRPC = False\<rparr>"

definition silent_net :: rpc_net where
  "silent_net = serving_net\<lparr>nt_http := (\<lambda>r. Inl ''connection refused'')\<rparr>"

lemma serving_net_account: "fetchAccountDataRaw serving_net url a = Inr idl_account"
  by (simp add: fetchAccountDataRaw_def rpc_post_def serving_net_def dec_account_def idl_simps)

lemma serving_net_idl:
  "FetchIDL toy_sol serving_net m url program Map.empty =
     (Inr sample_IDL, [so_String toy_sol program \<mapsto> sample_IDL])"
  if "length program = 32"
proof -
  have "so_FindProgramAddress toy_sol [program, str_bytes ''idl''] m =
      Inr (pad32 (program @ str_bytes ''idl'' @ m), 255)"
    using that by (simp add: toy_sol_def str_bytes_def)
  moreover have "account_payload ''metadata'' metadataHeaderSize idl_account = Inr [7, 7]"
    "\<not> length idl_account < metadataHeaderSize" "idl_account ! (8 + 1 + 32 + 32 + 1) = 0"
    by (simp_all add: account_payload_def metadataHeaderSize_def idl_account_def le_value_def nth_append)
  moreover have "nt_parse serving_net (bytes_str [7, 7]) = enc_IDL_new sample_IDL"
    by (simp add: serving_net_def bytes_str_def)
  moreover have "parseIDL toy_sol (enc_IDL_new sample_IDL) = Inr sample_IDL"
    by (rule parseIDL_new) (simp add: plain_IDL_def sample_IDL_def)
  ultimately show ?thesis
    by (simp add: FetchIDL_def fetchIDLFromMetadata_def serving_net_account decompressIDL_def Let_def)
qed

theorem idl_first_node_wins_witness:
  "fst (FetchIDL toy_sol silent_net (pad32 [9]) ''http://other'' (pad32 [8])
     [so_String toy_sol (pad32 [8]) \<mapsto> sample_IDL]) = Inr sample_IDL"
proof -
  have "length (pad32 [8]) = 32" by (simp add: pad32_def)
  from idl_first_node_wins [OF serving_net_idl [OF this]] show ?thesis by simp
qed

text \<open>
  A compressed IDL cannot blow up: what is decompressed has at most 2 MiB or the length of the
  data, whatever the data claims to expand to.
\<close>

theorem decompress_bounded:
  assumes "decompressIDL S data compression = Inr out"
  shows "length out \<le> max (2 * 2 ^ 20) (length data)"
proof -
  have "length b \<le> idl_limit" if "read_limited idl_limit r = Inr b" for r b
    using that by (auto simp: read_limited_def split: if_splits option.splits)
  then show ?thesis
    using assms by (fastforce simp: decompressIDL_def res_simps idl_limit_def
        split: if_splits sum.splits)
qed

theorem decompress_bounded_witness: "length ([5, 6, 5, 6] :: bytes) \<le> max (2 * 2 ^ 20) 2"
proof -
  have "decompressIDL toy_sol [5, 6] 1 = Inr [5, 6, 5, 6]"
    by (simp add: decompressIDL_def toy_sol_def read_limited_def idl_limit_def)
  from decompress_bounded [OF this] show ?thesis by simp
qed

text \<open>A constant seed given as a string that is base64 text counts as the bytes it encodes.\<close>

lemma string_seed_read_as_base64:
  "sd_Value (parse_seed \<lparr>rn_Kind = ''const'', rn_Value = Some (JStr ''pool''), rn_Path = []\<rparr>) =
     [0xA6, 0x8A, 0x25] \<and>
   sd_Value (parse_seed \<lparr>rn_Kind = ''const'', rn_Value = Some (JStr ''vault''), rn_Path = []\<rparr>) =
     str_bytes ''vault''"
proof -
  have "be_put 3 n = [word_of_nat (n div 256 div 256), word_of_nat (n div 256), word_of_nat n]" for n
    by (simp add: numeral_3_eq_3)
  then show ?thesis
    by (simp add: parse_seed_def b64_decode_def b64_val_def pad_char_def Let_def str_bytes_def)
qed

end
