(* ===== verification/Anchor.thy ===== *)
theory Anchor
  imports Idl "HOL-Library.AList"
begin

section \<open>Building Anchor instructions (internal/vm/solana/anchor.go)\<close>

text \<open>
  How the accounts of a program call are resolved, how its arguments are serialised in Borsh, and how
  the instruction data is put together. A Go map the code ranges over is the list of its entries, and
  \<open>orders\<close> says in which order a loop meets them. Borsh types refer to each other by name; the
  serialiser takes as fuel the number of nested calls the stack has room for, and without fuel left
  the process dies, which is a \<open>Panic\<close>.
\<close>

record orders =
  od_pubkeys :: "(string \<times> pubkey) list \<Rightarrow> (string \<times> pubkey) list"
  od_bumps :: "(string \<times> byte) list \<Rightarrow> (string \<times> byte) list"
  od_args :: "(string \<times> string) list \<Rightarrow> (string \<times> string) list"

definition map_orders :: "orders \<Rightarrow> bool" where
  "map_orders R \<longleftrightarrow> (\<forall>xs. set (od_pubkeys R xs) = set xs) \<and> (\<forall>xs. set (od_bumps R xs) = set xs) \<and>
     (\<forall>xs. set (od_args R xs) = set xs)"

text \<open>The first entry whose name, in snake case, is the given one.\<close>

definition find_snake :: "string \<Rightarrow> (string \<times> 'a) list \<Rightarrow> 'a option" where
  "find_snake name entries = map_option snd (find (\<lambda>(k, v). toSnakeCase k = name) entries)"

subsection \<open>Stored accounts\<close>

type_synonym program_accounts = "string \<rightharpoonup> pubkey"

definition programAccountKey :: "string \<Rightarrow> string \<Rightarrow> string \<Rightarrow> string" where
  "programAccountKey programID mint accountName =
     programID @ '':'' @ mint @ '':'' @ toSnakeCase accountName"

definition storeProgramAccount :: "string \<Rightarrow> string \<Rightarrow> string \<Rightarrow> pubkey \<Rightarrow> program_accounts \<Rightarrow>
    program_accounts" where
  "storeProgramAccount programID mint accountName pubkey accs =
     accs(programAccountKey programID mint accountName \<mapsto> pubkey)"

definition lookupProgramAccount :: "string \<Rightarrow> string \<Rightarrow> string \<Rightarrow> program_accounts \<Rightarrow> pubkey option" where
  "lookupProgramAccount programID mint accountName accs = accs (programAccountKey programID mint accountName)"

definition knownPrograms :: "'r sol \<Rightarrow> string \<Rightarrow> pubkey option" where
  "knownPrograms S name =
     map_of [(''system_program'', so_SystemProgramID S), (''systemProgram'', so_SystemProgramID S),
       (''token_program'', so_TokenProgramID S), (''tokenProgram'', so_TokenProgramID S),
       (''associated_token_program'', so_SPLAssociatedTokenAccountProgramID S),
       (''associatedTokenProgram'', so_SPLAssociatedTokenAccountProgramID S),
       (''rent'', so_SysVarRentPubkey S), (''clock'', so_SysVarClockPubkey S)] name"

subsection \<open>Borsh\<close>

definition le_put :: "nat \<Rightarrow> nat \<Rightarrow> bytes" where "le_put k n = rev (be_put k n)"

text \<open>
  \<open>(*big.Int).Uint64\<close> and \<open>Int64\<close>: the low 64 bits of the absolute value, negated for a negative
  number by the second.
\<close>

definition big_Uint64 :: "int \<Rightarrow> nat" where "big_Uint64 n = nat \<bar>n\<bar> mod 2 ^ 64"

definition big_Int64 :: "int \<Rightarrow> u64" where
  "big_Int64 n = (if n < 0 then - word_of_nat (big_Uint64 n) else word_of_nat (big_Uint64 n))"

definition fillLE :: "nat \<Rightarrow> int \<Rightarrow> bytes" where
  "fillLE k n = (let b = nat_bytes (nat \<bar>n\<bar>) in take k (rev b) @ replicate (k - length b) 0)"

definition hexDigit :: "char \<Rightarrow> byte" where
  "hexDigit ch =
     (let c = (of_char ch :: nat) in
      if 48 \<le> c \<and> c \<le> 57 then word_of_nat (c - 48)
      else if 97 \<le> c \<and> c \<le> 102 then word_of_nat (c - 97 + 10)
      else if 65 \<le> c \<and> c \<le> 70 then word_of_nat (c - 65 + 10)
      else 0xFF)"

fun hex_pairs :: "nat \<Rightarrow> string \<Rightarrow> bytes res" where
  "hex_pairs i (c # d # s) =
     (let high = hexDigit c; low = hexDigit d in
      if high = 0xFF \<or> low = 0xFF then Inl (''invalid hex byte at position '' @ nat_dec i)
      else bind_res (hex_pairs (i + 2) s) (\<lambda>bs. Inr (word_of_nat (16 * unat high + unat low) # bs)))"
| "hex_pairs i s = Inr []"

definition hexDecodeBytes :: "string \<Rightarrow> bytes res" where
  "hexDecodeBytes s0 =
     (let s = (if has_prefix s0 ''0x'' then drop 2 s0 else s0);
          s = (if length s mod 2 \<noteq> 0 then CHR ''0'' # s else s)
      in hex_pairs 0 s)"

definition unsigned_width :: "string \<Rightarrow> nat option" where
  "unsigned_width prim = map_of [(''u8'', 1), (''u16'', 2), (''u32'', 4), (''u64'', 8)] prim"

definition signed_width :: "string \<Rightarrow> nat option" where
  "signed_width prim = map_of [(''i8'', 1), (''i16'', 2), (''i32'', 4), (''i64'', 8)] prim"

definition serializePrimitive :: "'r sol \<Rightarrow> string \<Rightarrow> string \<Rightarrow> bytes res may_panic" where
  "serializePrimitive S val prim =
     (let number = (\<lambda>f. Return (case parse_bigint val of
            None \<Rightarrow> Inl (''invalid '' @ prim @ '': '' @ val) | Some n \<Rightarrow> Inr (f n))) in
      case unsigned_width prim of
        Some k \<Rightarrow> number (\<lambda>n. le_put k (big_Uint64 n))
      | None \<Rightarrow> (case signed_width prim of
          Some k \<Rightarrow> number (\<lambda>n. le_put k (unat (big_Int64 n)))
        | None \<Rightarrow>
          if prim = ''u128'' then number (fillLE 16)
          else if prim = ''bool'' then Return (Inr [if val = ''true'' \<or> val = ''1'' then 1 else 0])
          else if prim = ''string'' then Return (Inr (le_put 4 (length val) @ str_bytes val))
          else if prim = ''publicKey'' \<or> prim = ''pubkey'' then no_err (MustPublicKeyFromBase58 S val)
          else if prim = ''bytes'' then Return (hexDecodeBytes val)
          else Return (Inl (''unsupported primitive type '' @ go_quote prim))))"

text \<open>An argument by its name, or by its name in snake case.\<close>

definition arg_value :: "orders \<Rightarrow> (string \<times> string) list \<Rightarrow> string \<Rightarrow> string option" where
  "arg_value R args name =
     (case map_of args name of
        Some v \<Rightarrow> Some v
      | None \<Rightarrow> find_snake (toSnakeCase name) (od_args R args))"

text \<open>
  \<open>serializeBorshValue\<close> and \<open>serializeBorshArgs\<close>. A struct gets the value as its first field and
  nothing else. \<open>None\<close> means that the stack has overflowed.
\<close>

definition then_run :: "'a res may_panic option \<Rightarrow> ('a \<Rightarrow> 'b res may_panic option) \<Rightarrow>
    'b res may_panic option" where
  "then_run r f =
     (case r of
        None \<Rightarrow> None
      | Some Panic \<Rightarrow> Some Panic
      | Some (Return (Inl e)) \<Rightarrow> Some (Return (Inl e))
      | Some (Return (Inr x)) \<Rightarrow> f x)"

definition ctx_run :: "string \<Rightarrow> 'a res may_panic option \<Rightarrow> 'a res may_panic option" where
  "ctx_run msg r =
     (case r of Some (Return x) \<Rightarrow> Some (Return (in_ctx msg x)) | _ \<Rightarrow> r)"

function serializeBorshValue :: "'r sol \<Rightarrow> orders \<Rightarrow> IDLTypeDef list \<Rightarrow> nat \<Rightarrow> string \<Rightarrow> IDLType \<Rightarrow>
    bytes res may_panic option"
and serializeBorshArgs :: "'r sol \<Rightarrow> orders \<Rightarrow> IDLTypeDef list \<Rightarrow> nat \<Rightarrow> IDLField list \<Rightarrow>
    (string \<times> string) list \<Rightarrow> bytes res may_panic option" where
  "serializeBorshValue S R types 0 val ty = None"
| "serializeBorshValue S R types (Suc fuel) val ty =
     (case ty of
        TPrimitive prim \<Rightarrow>
          if prim \<noteq> [] then Some (serializePrimitive S val prim)
          else Some (Return (Inl ''unsupported type for serialization''))
      | TOption inner \<Rightarrow>
          if val = [] \<or> val = ''null'' \<or> val = ''none'' then Some (Return (Inr [0]))
          else then_run (serializeBorshValue S R types fuel val inner) (\<lambda>b. Some (Return (Inr (1 # b))))
      | TDefined name \<Rightarrow>
          if name = [] then Some (Return (Inl ''unsupported type for serialization''))
          else (case find (\<lambda>td. it_Name td = name) types of
              None \<Rightarrow> Some (Return (Inl (''unknown type '' @ go_quote name)))
            | Some td \<Rightarrow> (case it_Fields td of
                [] \<Rightarrow> Some Panic
              | f # fs \<Rightarrow> serializeBorshArgs S R types fuel (f # fs) [(if_Name f, val)]))
      | _ \<Rightarrow> Some (Return (Inl ''unsupported type for serialization'')))"
| "serializeBorshArgs S R types fuel [] args = Some (Return (Inr []))"
| "serializeBorshArgs S R types fuel (f # fs) args =
     (case arg_value R args (if_Name f) of
        None \<Rightarrow> Some (Return (Inl (''missing arg '' @ go_quote (if_Name f))))
      | Some val \<Rightarrow>
          then_run (ctx_run (''arg '' @ go_quote (if_Name f)) (serializeBorshValue S R types fuel val (if_Type f)))
            (\<lambda>b. then_run (serializeBorshArgs S R types fuel fs args) (\<lambda>bs. Some (Return (Inr (b @ bs))))))"
  by pat_completeness auto
termination
  by (relation "measures [\<lambda>x. case x of Inl (S, R, types, fuel, v) \<Rightarrow> 2 * fuel | Inr (S, R, types, fuel, v) \<Rightarrow> 2 * fuel + 1,
      \<lambda>x. case x of Inl y \<Rightarrow> 0 | Inr (S, R, types, fuel, fs, args) \<Rightarrow> length fs]") auto

subsection \<open>Accounts\<close>

record ataResolution =
  at_ata :: pubkey
  at_owner :: pubkey
  at_mint :: pubkey
  at_tokenProg :: pubkey

text \<open>What stays the same while the accounts of one instruction are resolved.\<close>

record call_ctx =
  cx_rpcURL :: string
  cx_programID :: pubkey
  cx_signer :: pubkey
  cx_mint :: "pubkey option"
  cx_args :: "(string \<times> string) list"
  cx_mintStr :: string
  cx_accounts :: program_accounts

text \<open>The entry of exactly that name, or the first met whose snake case is \<open>snake\<close>.\<close>

definition resolved_as :: "orders \<Rightarrow> (string \<times> pubkey) list \<Rightarrow> string \<Rightarrow> string \<Rightarrow> pubkey option" where
  "resolved_as R resolved name snake =
     (case map_of resolved name of Some pk \<Rightarrow> Some pk | None \<Rightarrow> find_snake snake (od_pubkeys R resolved))"

definition seed_bytes :: "'r sol \<Rightarrow> orders \<Rightarrow> call_ctx \<Rightarrow> (string \<times> pubkey) list \<Rightarrow> IDLSeed \<Rightarrow> bytes res" where
  "seed_bytes S R cx resolved s =
     (if sd_Kind s = ''const'' then Inr (sd_Value s)
      else if sd_Kind s = ''account'' then
        let ref = sd_Path s; refSnake = toSnakeCase ref in
        if refSnake = ''mint'' \<or> refSnake = ''token_mint''
        then (case cx_mint cx of
            None \<Rightarrow> Inl ''PDA seed references mint but no mint provided'' | Some m \<Rightarrow> Inr m)
        else (case resolved_as R resolved ref refSnake of
            Some pk \<Rightarrow> Inr pk
          | None \<Rightarrow> (case knownPrograms S ref of
              Some pk \<Rightarrow> Inr pk
            | None \<Rightarrow> Inl (''PDA seed references unresolved account '' @ go_quote ref)))
      else if sd_Kind s = ''arg'' then
        (case arg_value R (cx_args cx) (sd_Path s) of
           None \<Rightarrow> Inl (''PDA seed references unknown arg '' @ go_quote (sd_Path s))
         | Some v \<Rightarrow> Inr (str_bytes v))
      else Inl (''unknown PDA seed kind '' @ go_quote (sd_Kind s)))"

fun seeds_bytes :: "'r sol \<Rightarrow> orders \<Rightarrow> call_ctx \<Rightarrow> (string \<times> pubkey) list \<Rightarrow> IDLSeed list \<Rightarrow>
    bytes list res" where
  "seeds_bytes S R cx resolved [] = Inr []"
| "seeds_bytes S R cx resolved (s # ss) =
     bind_res (seed_bytes S R cx resolved s) (\<lambda>b.
     bind_res (seeds_bytes S R cx resolved ss) (\<lambda>bs. Inr (b # bs)))"

definition pda_program :: "'r sol \<Rightarrow> pubkey \<Rightarrow> (string \<times> pubkey) list \<Rightarrow> IDLSeedRef option \<Rightarrow> pubkey" where
  "pda_program S programID resolved ref =
     (case ref of
        None \<Rightarrow> programID
      | Some p \<Rightarrow>
          if sr_Kind p = ''const'' then (if length (sr_Value p) = 32 then sr_Value p else programID)
          else if sr_Kind p = ''account'' then
            (case map_of resolved (sr_Path p) of
               Some pk \<Rightarrow> pk
             | None \<Rightarrow> (case knownPrograms S (sr_Path p) of Some pk \<Rightarrow> pk | None \<Rightarrow> programID))
          else programID)"

definition derivePDA :: "'r sol \<Rightarrow> orders \<Rightarrow> call_ctx \<Rightarrow> (string \<times> pubkey) list \<Rightarrow> IDLPDA \<Rightarrow>
    (pubkey \<times> byte) res" where
  "derivePDA S R cx resolved pda =
     bind_res (seeds_bytes S R cx resolved (pd_Seeds pda)) (\<lambda>seeds.
       in_ctx ''FindProgramAddress'' (so_FindProgramAddress S seeds
         (pda_program S (cx_programID cx) resolved (pd_Program pda))))"

text \<open>The first derivation that succeeds.\<close>

fun first_pda :: "'r sol \<Rightarrow> pubkey \<Rightarrow> bytes list list \<Rightarrow> (pubkey \<times> byte) option" where
  "first_pda S programID [] = None"
| "first_pda S programID (seeds # rest) =
     (case so_FindProgramAddress S seeds programID of
        Inr r \<Rightarrow> Some r | Inl e \<Rightarrow> first_pda S programID rest)"

definition common_seeds :: "string \<Rightarrow> pubkey \<Rightarrow> pubkey option \<Rightarrow> bytes list list" where
  "common_seeds nameSnake signer mint =
     (case mint of None \<Rightarrow> [] | Some m \<Rightarrow> [[str_bytes nameSnake, m]]) @
     [[str_bytes nameSnake, signer], [str_bytes nameSnake]]"

definition isProbablyPDA :: "'r sol \<Rightarrow> string \<Rightarrow> pubkey \<Rightarrow> pubkey \<Rightarrow> pubkey option \<Rightarrow> bool" where
  "isProbablyPDA S nameSnake programID signer mint =
     (first_pda S programID (common_seeds nameSnake signer mint) \<noteq> None)"

definition isTokenAccountName :: "string \<Rightarrow> bool" where
  "isTokenAccountName snake \<longleftrightarrow> str_contains snake ''token_account'' \<or> has_suffix snake ''_ata'' \<or>
     has_suffix snake ''_token''"

definition inferTokenOwner :: "orders \<Rightarrow> string \<Rightarrow> pubkey \<Rightarrow> (string \<times> pubkey) list \<Rightarrow> pubkey" where
  "inferTokenOwner R nameSnake signer resolved =
     (let base = trim_suffix (trim_suffix (trim_suffix nameSnake ''_token_account'') ''_ata'') ''_token'' in
      if base \<in> {''user'', ''authority'', ''signer'', ''payer'', nameSnake} then signer
      else (case resolved_as R resolved base base of Some pk \<Rightarrow> pk | None \<Rightarrow> signer))"

definition token_program_for :: "'r sol \<Rightarrow> rpc_net \<Rightarrow> call_ctx \<Rightarrow> (string \<times> pubkey) list \<Rightarrow> pubkey \<Rightarrow> pubkey" where
  "token_program_for S N cx resolved mint =
     (case map_of resolved ''token_program'' of
        Some tp \<Rightarrow> tp
      | None \<Rightarrow> (case map_of resolved ''tokenProgram'' of
          Some tp \<Rightarrow> tp
        | None \<Rightarrow>
            if cx_rpcURL cx \<noteq> []
            then (case detectTokenProgram S N (cx_rpcURL cx) mint of
                Inr tp \<Rightarrow> tp | Inl e \<Rightarrow> so_TokenProgramID S)
            else so_TokenProgramID S))"

definition authority_pda :: "'r sol \<Rightarrow> orders \<Rightarrow> call_ctx \<Rightarrow> (string \<times> pubkey) list \<Rightarrow> string \<Rightarrow>
    (pubkey \<times> byte) option" where
  "authority_pda S R cx resolved nameSnake =
     (if has_suffix nameSnake ''_authority'' then
        let baseName = trim_suffix nameSnake ''_authority'' in
        case resolved_as R resolved baseName baseName of
          None \<Rightarrow> None
        | Some basePK \<Rightarrow> first_pda S (cx_programID cx) [[str_bytes baseName, basePK], [basePK]]
      else None)"

type_synonym resolution = "pubkey \<times> byte \<times> ataResolution option"

definition resolveOneAccount :: "'r sol \<Rightarrow> rpc_net \<Rightarrow> orders \<Rightarrow> call_ctx \<Rightarrow> (string \<times> pubkey) list \<Rightarrow>
    IDLAccount \<Rightarrow> resolution res may_panic" where
  "resolveOneAccount S N R cx resolved acc =
     (let nameSnake = toSnakeCase (ia_Name acc); found = (\<lambda>pk. Return (Inr (pk, 0, None))) in
      if ia_Address acc \<noteq> [] then
        bind_pr (no_err (MustPublicKeyFromBase58 S (ia_Address acc))) found
      else if ia_Signer acc then found (cx_signer cx)
      else (case knownPrograms S (ia_Name acc) of
        Some pk \<Rightarrow> found pk
      | None \<Rightarrow>
        if (nameSnake = ''mint'' \<or> nameSnake = ''token_mint'') \<and> cx_mint cx \<noteq> None
        then found (the (cx_mint cx))
        else (case ia_PDA acc of
          Some pda \<Rightarrow> Return (bind_res (derivePDA S R cx resolved pda) (\<lambda>(pk, bump). Inr (pk, bump, None)))
        | None \<Rightarrow>
          if cx_mint cx \<noteq> None \<and> isTokenAccountName nameSnake then
            let mint = the (cx_mint cx); owner = inferTokenOwner R nameSnake (cx_signer cx) resolved;
                tokenProg = token_program_for S N cx resolved mint in
            Return (bind_res (in_ctx ''derive ATA'' (findATA S owner mint tokenProg)) (\<lambda>(ata, bump).
              Inr (ata, bump, Some \<lparr>at_ata = ata, at_owner = owner, at_mint = mint,
                at_tokenProg = tokenProg\<rparr>)))
          else (case authority_pda S R cx resolved nameSnake of
            Some (pk, bump) \<Rightarrow> Return (Inr (pk, bump, None))
          | None \<Rightarrow>
            (case first_pda S (cx_programID cx) (common_seeds nameSnake (cx_signer cx) (cx_mint cx)) of
              Some (pk, bump) \<Rightarrow> Return (Inr (pk, bump, None))
            | None \<Rightarrow>
              (case lookupProgramAccount (so_String S (cx_programID cx)) (cx_mintStr cx) (ia_Name acc)
                  (cx_accounts cx) of
                Some pk \<Rightarrow> found pk
              | None \<Rightarrow> Return (Inl ''no resolution strategy'')))))))"

record resolve_state =
  rv_resolved :: "(string \<times> pubkey) list"
  rv_bumps :: "(string \<times> byte) list"
  rv_atas :: "ataResolution list"

fun fixed_addresses :: "'r sol \<Rightarrow> IDLAccount list \<Rightarrow> (string \<times> pubkey) list \<Rightarrow>
    (string \<times> pubkey) list may_panic" where
  "fixed_addresses S [] resolved = Return resolved"
| "fixed_addresses S (acc # accs) resolved =
     (if ia_Address acc \<noteq> [] \<and> map_of resolved (ia_Name acc) = None
      then (case MustPublicKeyFromBase58 S (ia_Address acc) of
          Panic \<Rightarrow> Panic
        | Return pk \<Rightarrow> fixed_addresses S accs (AList.update (ia_Name acc) pk resolved))
      else fixed_addresses S accs resolved)"

text \<open>One pass over the accounts; only the last one gives up at an account it cannot resolve.\<close>

fun resolve_pass :: "'r sol \<Rightarrow> rpc_net \<Rightarrow> orders \<Rightarrow> call_ctx \<Rightarrow> bool \<Rightarrow> IDLAccount list \<Rightarrow> resolve_state \<Rightarrow>
    resolve_state res may_panic" where
  "resolve_pass S N R cx final [] st = Return (Inr st)"
| "resolve_pass S N R cx final (acc # accs) st =
     (if map_of (rv_resolved st) (ia_Name acc) \<noteq> None then resolve_pass S N R cx final accs st
      else (case resolveOneAccount S N R cx (rv_resolved st) acc of
          Panic \<Rightarrow> Panic
        | Return (Inl e) \<Rightarrow>
            if final then Return (Inl (wrap_err (''account '' @ go_quote (ia_Name acc)) e))
            else resolve_pass S N R cx final accs st
        | Return (Inr (pk, bump, ata)) \<Rightarrow>
            resolve_pass S N R cx final accs
              \<lparr>rv_resolved = AList.update (ia_Name acc) pk (rv_resolved st),
               rv_bumps = (if 0 < unat bump then AList.update (ia_Name acc) bump (rv_bumps st)
                 else rv_bumps st),
               rv_atas = rv_atas st @ (case ata of None \<Rightarrow> [] | Some a \<Rightarrow> [a])\<rparr>))"

fun account_metas :: "IDLAccount list \<Rightarrow> (string \<times> pubkey) list \<Rightarrow> AccountMeta list res" where
  "account_metas [] resolved = Inr []"
| "account_metas (acc # accs) resolved =
     (case map_of resolved (ia_Name acc) of
        None \<Rightarrow> Inl (''account '' @ go_quote (ia_Name acc) @ '' could not be resolved'')
      | Some pk \<Rightarrow> bind_res (account_metas accs resolved) (\<lambda>ms.
          Inr (\<lparr>am_PublicKey = pk, am_IsSigner = ia_Signer acc, am_IsWritable = ia_Writable acc\<rparr> # ms)))"

definition resolveAccountsWithEphemeral :: "'r sol \<Rightarrow> rpc_net \<Rightarrow> orders \<Rightarrow> call_ctx \<Rightarrow> IDLInstruction \<Rightarrow>
    (string \<times> pubkey) list \<Rightarrow>
    (AccountMeta list \<times> (string \<times> byte) list \<times> ataResolution list) res may_panic" where
  "resolveAccountsWithEphemeral S N R cx ix ephemeralPubs =
     (let accs = ii_Accounts ix in
      bind_pr (no_err (fixed_addresses S accs ephemeralPubs)) (\<lambda>resolved.
      bind_pr (resolve_pass S N R cx False accs \<lparr>rv_resolved = resolved, rv_bumps = [], rv_atas = []\<rparr>)
        (\<lambda>st1. bind_pr (resolve_pass S N R cx False accs st1)
        (\<lambda>st2. bind_pr (resolve_pass S N R cx False accs st2)
        (\<lambda>st3. bind_pr (resolve_pass S N R cx True accs st3)
        (\<lambda>st. bind_pr (Return (account_metas accs (rv_resolved st)))
        (\<lambda>ms. Return (Inr (ms, rv_bumps st, rv_atas st)))))))))"

subsection \<open>Instructions\<close>

definition findBump :: "orders \<Rightarrow> string \<Rightarrow> (string \<times> byte) list \<Rightarrow> byte option" where
  "findBump R argNameSnake bumps =
     (let base = trim_suffix argNameSnake ''_bump'';
          specific = (if base \<noteq> argNameSnake then
              (case map_of bumps base of Some b \<Rightarrow> Some b | None \<Rightarrow> find_snake base (od_bumps R bumps))
            else None)
      in case specific of
           Some b \<Rightarrow> Some b
         | None \<Rightarrow> if argNameSnake = ''bump''
             then (case od_bumps R bumps of [] \<Rightarrow> None | (n, b) # rest \<Rightarrow> Some b) else None)"

fun merge_bumps :: "orders \<Rightarrow> IDLField list \<Rightarrow> (string \<times> byte) list \<Rightarrow> (string \<times> string) list \<Rightarrow>
    (string \<times> string) list" where
  "merge_bumps R [] bumps args = args"
| "merge_bumps R (f # fs) bumps args =
     (let nameSnake = toSnakeCase (if_Name f) in
      if map_of args (if_Name f) \<noteq> None \<or> (\<exists>(k, v) \<in> set args. toSnakeCase k = nameSnake)
      then merge_bumps R fs bumps args
      else if if_Type f = TPrimitive ''u8'' \<and> str_contains nameSnake ''bump''
      then (case findBump R nameSnake bumps of
          None \<Rightarrow> merge_bumps R fs bumps args
        | Some b \<Rightarrow> merge_bumps R fs bumps (AList.update (if_Name f) (nat_dec (unat b)) args))
      else merge_bumps R fs bumps args)"

definition payer_name :: "string \<Rightarrow> bool" where
  "payer_name nameSnake \<longleftrightarrow> nameSnake \<in> {''authority'', ''user'', ''payer'', ''signer'', ''owner'', ''initializer''}"

definition needs_ephemeral :: "'r sol \<Rightarrow> call_ctx \<Rightarrow> IDLAccount \<Rightarrow> bool" where
  "needs_ephemeral S cx acc \<longleftrightarrow> ia_Signer acc \<and> ia_Address acc = [] \<and>
     \<not> payer_name (toSnakeCase (ia_Name acc)) \<and> ia_PDA acc = None \<and>
     \<not> isProbablyPDA S (toSnakeCase (ia_Name acc)) (cx_programID cx) (cx_signer cx) (cx_mint cx)"

text \<open>\<open>gen\<close> is the outcome of \<open>ed25519.GenerateKey\<close> for an account: public and private key.\<close>

fun ephemeral_keys :: "'r sol \<Rightarrow> call_ctx \<Rightarrow> (string \<Rightarrow> (bytes \<times> bytes) res) \<Rightarrow> IDLAccount list \<Rightarrow>
    (string \<times> bytes \<times> bytes) list \<Rightarrow> (string \<times> bytes \<times> bytes) list res" where
  "ephemeral_keys S cx gen [] keys = Inr keys"
| "ephemeral_keys S cx gen (acc # accs) keys =
     (if needs_ephemeral S cx acc
      then bind_res (in_ctx (''generate ephemeral keypair for '' @ go_quote (ia_Name acc)) (gen (ia_Name acc)))
        (\<lambda>k. ephemeral_keys S cx gen accs (AList.update (ia_Name acc) k keys))
      else ephemeral_keys S cx gen accs keys)"

record AnchorResult =
  an_Instructions :: "Instruction list"
  an_ExtraSigners :: "bytes list"

definition create_ata :: "'r sol \<Rightarrow> pubkey \<Rightarrow> ataResolution \<Rightarrow> Instruction" where
  "create_ata S signer a =
     (let meta = (\<lambda>pk s w. \<lparr>am_PublicKey = pk, am_IsSigner = s, am_IsWritable = w\<rparr>) in
      \<lparr>ix_ProgramID = so_SPLAssociatedTokenAccountProgramID S,
       ix_Accounts = [meta signer True True, meta (at_ata a) False True, meta (at_owner a) False False,
         meta (at_mint a) False False, meta (so_SystemProgramID S) False False,
         meta (at_tokenProg a) False False],
       ix_Data = [1]\<rparr>)"

definition find_instruction :: "AnchorIDL \<Rightarrow> string \<Rightarrow> IDLInstruction res" where
  "find_instruction idl method =
     (case find (\<lambda>ix. ii_Name ix = method \<or> toSnakeCase (ii_Name ix) = toSnakeCase method)
        (al_Instructions idl) of
        Some ix \<Rightarrow> Inr ix
      | None \<Rightarrow> Inl (''instruction '' @ go_quote method @ '' not found in IDL (available: '' @
          str_join '', '' (map ii_Name (al_Instructions idl)) @ '')''))"

definition overflowed :: "'a res may_panic option \<Rightarrow> 'a res may_panic" where
  "overflowed r = (case r of None \<Rightarrow> Panic | Some x \<Rightarrow> x)"

definition store_ephemeral :: "'r sol \<Rightarrow> call_ctx \<Rightarrow> (string \<times> bytes \<times> bytes) list \<Rightarrow> program_accounts" where
  "store_ephemeral S cx keys =
     fold (\<lambda>(name, pub, priv). storeProgramAccount (so_String S (cx_programID cx)) (cx_mintStr cx) name pub)
       keys (cx_accounts cx)"

definition BuildAnchorInstructions :: "'r sol \<Rightarrow> rpc_net \<Rightarrow> orders \<Rightarrow> nat \<Rightarrow>
    (string \<Rightarrow> (bytes \<times> bytes) res) \<Rightarrow> call_ctx \<Rightarrow> AnchorIDL \<Rightarrow> string \<Rightarrow>
    (AnchorResult \<times> program_accounts) res may_panic" where
  "BuildAnchorInstructions S N R fuel gen cx idl method =
     bind_pr (Return (find_instruction idl method)) (\<lambda>ixDef.
     bind_pr (Return (ephemeral_keys S cx gen (ii_Accounts ixDef) [])) (\<lambda>keys.
     bind_pr (case resolveAccountsWithEphemeral S N R cx ixDef (map (\<lambda>(n, pub, priv). (n, pub)) keys) of
         Panic \<Rightarrow> Panic | Return r \<Rightarrow> Return (in_ctx ''resolve accounts'' r)) (\<lambda>(accounts, bumps, atas).
     bind_pr (overflowed (ctx_run ''serialize args'' (serializeBorshArgs S R (al_Types idl) fuel
         (ii_Args ixDef) (merge_bumps R (ii_Args ixDef) bumps (cx_args cx))))) (\<lambda>argBytes.
       Return (Inr (\<lparr>an_Instructions = map (create_ata S (cx_signer cx)) atas @
           [\<lparr>ix_ProgramID = cx_programID cx, ix_Accounts = accounts,
             ix_Data = ii_Discriminator ixDef @ argBytes\<rparr>],
         an_ExtraSigners = map (\<lambda>(n, pub, priv). priv) keys\<rparr>, store_ephemeral S cx keys))))))"

text \<open>The two tables that live as long as the process.\<close>

record anchor_state =
  as_idls :: idl_cache
  as_accounts :: program_accounts

definition BuildAnchorTx :: "'r sol \<Rightarrow> rpc_net \<Rightarrow> orders \<Rightarrow> nat \<Rightarrow> (string \<Rightarrow> (bytes \<times> bytes) res) \<Rightarrow> pubkey \<Rightarrow>
    TxRequest \<Rightarrow> pubkey \<Rightarrow> anchor_state \<Rightarrow> AnchorResult res may_panic \<times> anchor_state" where
  "BuildAnchorTx S N R fuel gen metadataID req signer st =
     (case MustPublicKeyFromBase58 S (tq_Program req) of
        Panic \<Rightarrow> (Panic, st)
      | Return programID \<Rightarrow>
          let (fetched, cache) = FetchIDL S N metadataID (tq_RpcURL req) programID (as_idls st);
              st1 = st\<lparr>as_idls := cache\<rparr>;
              built = bind_pr (Return (in_ctx (''fetch IDL for '' @ tq_Program req) fetched)) (\<lambda>idl.
                bind_pr (if tq_Mint req = [] then Return (Inr None)
                    else bind_pr (no_err (MustPublicKeyFromBase58 S (tq_Mint req))) (\<lambda>m. Return (Inr (Some m))))
                  (\<lambda>mint. BuildAnchorInstructions S N R fuel gen
                    \<lparr>cx_rpcURL = tq_RpcURL req, cx_programID = programID, cx_signer = signer,
                     cx_mint = mint, cx_args = tq_Args req,
                     cx_mintStr = (case mint of None \<Rightarrow> [] | Some m \<Rightarrow> so_String S m),
                     cx_accounts = as_accounts st1\<rparr> idl (tq_Method req)))
          in (case built of
                Return (Inr (result, accounts)) \<Rightarrow> (Return (Inr result), st1\<lparr>as_accounts := accounts\<rparr>)
              | Return (Inl e) \<Rightarrow> (Return (Inl e), st1)
              | Panic \<Rightarrow> (Panic, st1)))"

subsection \<open>The array behind the discriminator\<close>

text \<open>
  \<open>append\<close> writes into the array of its first argument when there is room. The discriminator of a
  cached instruction is a slice of eight bytes on the 32 bytes of a hash, so there is room for 24 bytes
  of arguments, and every call of the instruction writes into the same array.
\<close>

record slice =
  sl_array :: nat
  sl_len :: nat
  sl_cap :: nat

type_synonym arrays = "nat \<Rightarrow> bytes"

definition slice_bytes :: "arrays \<Rightarrow> slice \<Rightarrow> bytes" where
  "slice_bytes h s = take (sl_len s) (h (sl_array s))"

definition go_append :: "nat \<Rightarrow> slice \<Rightarrow> bytes \<Rightarrow> arrays \<Rightarrow> slice \<times> arrays" where
  "go_append fresh s b h =
     (let n = sl_len s + length b; old = h (sl_array s) in
      if n \<le> sl_cap s
      then (s\<lparr>sl_len := n\<rparr>, h(sl_array s := take (sl_len s) old @ b @ drop n old))
      else (\<lparr>sl_array = fresh, sl_len = n, sl_cap = n\<rparr>, h(fresh := take (sl_len s) old @ b)))"

definition discriminator_slice :: "nat \<Rightarrow> slice" where
  "discriminator_slice a = \<lparr>sl_array = a, sl_len = 8, sl_cap = 32\<rparr>"

definition instruction_data :: "nat \<Rightarrow> nat \<Rightarrow> bytes \<Rightarrow> arrays \<Rightarrow> slice \<times> arrays" where
  "instruction_data fresh a argBytes h = go_append fresh (discriminator_slice a) argBytes h"

subsection \<open>What building an instruction promises\<close>

text \<open>
  Two calls of one cached instruction share their data: when a second call is prepared before the
  first transaction has been serialised, and both have at most 24 bytes of arguments, the data of the
  first instruction becomes that of the second.
\<close>

theorem concurrent_calls_share_data:
  assumes "length (h a) = 32" and "length args1 = length args2" and "length args1 \<le> 24"
    and "instruction_data f1 a args1 h = (d1, h1)" and "instruction_data f2 a args2 h1 = (d2, h2)"
  shows "slice_bytes h1 d1 = take 8 (h a) @ args1 \<and> slice_bytes h2 d1 = take 8 (h a) @ args2"
  using assms by (auto simp: instruction_data_def go_append_def discriminator_slice_def slice_bytes_def
      Let_def min_def)

theorem concurrent_calls_share_data_witness:
  "\<exists>d1 h1. instruction_data 1 0 [5] (\<lambda>x. replicate 32 0) = (d1, h1) \<and>
     slice_bytes h1 d1 = replicate 8 0 @ [5] \<and>
     slice_bytes (snd (instruction_data 2 0 [6] h1)) d1 = replicate 8 0 @ [6]"
proof -
  obtain d1 h1 where 1: "instruction_data 1 0 [5] (\<lambda>x. replicate 32 0) = (d1, h1)" by fastforce
  obtain d2 h2 where 2: "instruction_data 2 0 [6] h1 = (d2, h2)" by fastforce
  show ?thesis
    using 1 2 concurrent_calls_share_data [OF _ _ _ 1 2] by auto
qed

text \<open>With more arguments than fit, the data is in an array of its own.\<close>

lemma long_arguments_own_data:
  assumes "24 < length args" and "fresh \<noteq> a"
  shows "instruction_data fresh a args h = (d, h') \<Longrightarrow> h' a = h a \<and> slice_bytes h' d = take 8 (h a) @ args"
  using assms by (auto simp: instruction_data_def go_append_def discriminator_slice_def slice_bytes_def
      Let_def min_def)

subsubsection \<open>Numbers\<close>

lemma le_nat_le_put: "le_value (le_put k n) = n mod 256 ^ k"
  by (simp add: le_value_def le_put_def be_nat_be_put)

lemma fillLE_le_put: "fillLE k n = le_put k (nat \<bar>n\<bar>)"
proof -
  have "take k (rev b) @ replicate (k - length b) 0 = rev (be_put k (be_nat b))" for b
  proof (cases "length b \<le> k")
    case True
    then have "be_nat (replicate (k - length b) 0 @ b) = be_nat b" by (simp add: be_nat_zeros)
    then have "be_put k (be_nat b) = replicate (k - length b) 0 @ b"
      using True be_put_be_nat [of "replicate (k - length b) 0 @ b"] by simp
    then show ?thesis using True by simp
  next
    case False
    define c where "c = drop (length b - k) b"
    have b: "b = take (length b - k) b @ c" "length c = k" using False by (simp_all add: c_def)
    have "be_nat (xs @ c) mod 256 ^ length c = be_nat c" for xs
    proof (induction xs)
      case Nil
      then show ?case using be_nat_less [of c] by simp
    next
      case (Cons x xs)
      have "(256 :: nat) ^ (length xs + length c) mod 256 ^ length c = 0"
        by (simp add: power_add)
      then have "unat x * 256 ^ (length xs + length c) mod 256 ^ length c = 0"
        by (metis mod_mult_right_eq mult_0_right mod_0)
      then show ?case using Cons by (metis append_Cons add_0 be_nat.simps(2) length_append mod_add_left_eq)
    qed
    from this [of "take (length b - k) b"] have "be_nat b mod 256 ^ k = be_nat c" using b by simp
    moreover have "be_put k m = be_put k (m mod 256 ^ k)" for m
      by (rule be_nat_inj) (simp_all add: be_nat_be_put)
    ultimately have "be_put k (be_nat b) = c" using be_put_be_nat [of c] b(2) by metis
    then show ?thesis using False by (simp add: c_def take_rev)
  qed
  from this [of "nat_bytes (nat \<bar>n\<bar>)"] show ?thesis
    by (simp add: fillLE_def le_put_def Let_def be_nat_nat_bytes)
qed

text \<open>
  C36. An unsigned argument is written as what is left of it in its width: the bytes of a u8 to u64 or
  u128 read, in little endian, as the absolute value modulo the width, so an amount that does not fit,
  or is negative, is silently another amount.
\<close>

theorem borsh_unsigned_wraps:
  assumes "parse_bigint val = Some n"
    and "(prim, k) \<in> {(''u8'', 1), (''u16'', 2), (''u32'', 4), (''u64'', 8), (''u128'', 16)}"
  shows "\<exists>b. serializePrimitive S val prim = Return (Inr b) \<and> length b = k \<and>
    le_value b = nat \<bar>n\<bar> mod 256 ^ k"
proof -
  have m: "big_Uint64 n mod 256 ^ j = nat \<bar>n\<bar> mod 256 ^ j" if "j \<in> {1, 2, 4, 8}" for j
  proof -
    have "(256 :: nat) ^ j dvd 2 ^ 64" using that by auto
    then show ?thesis by (simp only: big_Uint64_def mod_mod_cancel)
  qed
  have w: "big_Uint64 n mod 256 = nat \<bar>n\<bar> mod 256" "big_Uint64 n mod 65536 = nat \<bar>n\<bar> mod 65536"
    "big_Uint64 n mod 4294967296 = nat \<bar>n\<bar> mod 4294967296"
    "big_Uint64 n mod 18446744073709551616 = nat \<bar>n\<bar> mod 18446744073709551616"
    using m [of 1] m [of 2] m [of 4] m [of 8] by simp_all
  have "length (le_put j m) = j" for j m by (simp add: le_put_def)
  then show ?thesis
    using assms(2)
    by (elim insertE emptyE; clarsimp simp: serializePrimitive_def unsigned_width_def
        signed_width_def Let_def assms(1) fillLE_le_put le_nat_le_put w simp del: One_nat_def)
qed

theorem borsh_unsigned_wraps_witness:
  "\<exists>b. serializePrimitive toy_sol ''257'' ''u8'' = Return (Inr b) \<and> le_value b = 1"
proof -
  have "parse_bigint ''257'' = Some 257"
    by (simp add: parse_bigint_def parse_dec_def is_digit_def digit_val_def)
  from borsh_unsigned_wraps [OF this, of "''u8''" 1 toy_sol] show ?thesis by auto
qed

subsubsection \<open>Termination of the serialiser\<close>

lemma then_run_Some: "then_run r f = Some x \<Longrightarrow> \<exists>y. r = Some y"
  by (cases r) (auto simp: then_run_def)

lemma ctx_run_None [simp]: "ctx_run msg r = None \<longleftrightarrow> r = None"
  by (auto simp: ctx_run_def split: option.splits may_panic.splits)

lemma ctx_run_simps [simp]: "ctx_run msg None = None"
  by (simp add: ctx_run_def)

lemma then_run_None: "then_run r f = None \<longleftrightarrow>
    r = None \<or> (\<exists>x. r = Some (Return (Inr x)) \<and> f x = None)"
  by (auto simp: then_run_def split: option.splits may_panic.splits sum.splits)

text \<open>More fuel does not change a result.\<close>

lemma borsh_more_fuel:
  "serializeBorshValue S R types n val ty = Some r \<Longrightarrow> n \<le> m \<Longrightarrow>
     serializeBorshValue S R types m val ty = Some r"
  "serializeBorshArgs S R types n fs args = Some r' \<Longrightarrow> n \<le> m \<Longrightarrow>
     serializeBorshArgs S R types m fs args = Some r'"
proof (induction S R types n val ty and S R types n fs args
    arbitrary: m r and m r' rule: serializeBorshValue_serializeBorshArgs.induct)
  case (2 S R types fuel val ty)
  obtain m' where m: "m = Suc m'" "fuel \<le> m'" using 2(4) by (cases m) auto
  show ?case
  proof (cases ty)
    case (TOption inner)
    show ?thesis
    proof (cases "val = [] \<or> val = ''null'' \<or> val = ''none''")
      case False
      then obtain y where y: "serializeBorshValue S R types fuel val inner = Some y"
        using 2(3) TOption by (auto dest: then_run_Some)
      have "serializeBorshValue S R types m' val inner = Some y"
        by (rule 2(1) [OF TOption False y m(2)])
      then show ?thesis using 2(3) y TOption False by (simp add: m(1))
    qed (use 2(3) m TOption in auto)
  next
    case (TDefined name)
    show ?thesis
    proof (cases "name \<noteq> [] \<and> (\<exists>td f fs'. find (\<lambda>td. it_Name td = name) types = Some td \<and>
        it_Fields td = f # fs')")
      case True
      then obtain td f fs' where td: "name \<noteq> []" "find (\<lambda>td. it_Name td = name) types = Some td"
        "it_Fields td = f # fs'" by blast
      have "serializeBorshArgs S R types m' (f # fs') [(if_Name f, val)] = Some r"
        using 2(2) [OF TDefined _ td(2,3) _ m(2)] 2(3) TDefined td by simp
      then show ?thesis using td TDefined by (simp add: m(1))
    qed (use 2(3) m TDefined in \<open>auto split: option.splits list.splits if_splits\<close>)
  qed (use 2(3) m in auto)
next
  case (4 S R types fuel f fs args)
  show ?case
  proof (cases "arg_value R args (if_Name f)")
    case (Some val)
    let ?c = "ctx_run (''arg '' @ go_quote (if_Name f))"
    have "serializeBorshValue S R types fuel val (if_Type f) \<noteq> None"
      using 4(3) Some by (intro notI) (simp add: then_run_def)
    then obtain y where y: "serializeBorshValue S R types fuel val (if_Type f) = Some y" by blast
    have v: "serializeBorshValue S R types m val (if_Type f) = Some y"
      by (rule 4(1) [OF Some y 4(4)])
    show ?thesis
    proof (cases "\<exists>b. ?c (Some y) = Some (Return (Inr b))")
      case True
      then obtain b where b: "?c (Some y) = Some (Return (Inr b))" by blast
      have "\<exists>z. serializeBorshArgs S R types fuel fs args = Some z"
        using 4(3) Some y b by (auto simp: then_run_def split: option.splits)
      then obtain z where z: "serializeBorshArgs S R types fuel fs args = Some z" by blast
      have "serializeBorshArgs S R types m fs args = Some z"
        by (rule 4(2) [OF Some z 4(4)])
      then show ?thesis using 4(3) Some y v z by simp
    next
      case False
      then show ?thesis using 4(3) Some y v
        by (cases "?c (Some y)") (auto simp: then_run_def split: may_panic.splits sum.splits)
    qed
  qed (use 4(3) in simp)
qed auto

text \<open>Types are acyclic when they can be ranked so that every field refers to lower ranks only.\<close>

fun refers :: "IDLType \<Rightarrow> string set" where
  "refers (TOption t) = refers t"
| "refers (TDefined n) = {n}"
| "refers t = {}"

lemma finite_refers [simp]: "finite (refers t)"
  by (induction t) auto

definition ranked :: "(string \<Rightarrow> nat) \<Rightarrow> IDLTypeDef list \<Rightarrow> bool" where
  "ranked rank types \<longleftrightarrow> (\<forall>td \<in> set types. \<forall>f \<in> set (it_Fields td). \<forall>n \<in> refers (if_Type f).
     rank n < rank (it_Name td))"

text \<open>How many options are around the rest of a type.\<close>

fun option_depth :: "IDLType \<Rightarrow> nat" where
  "option_depth (TOption t) = Suc (option_depth t)"
| "option_depth t = 0"

definition shallow :: "nat \<Rightarrow> IDLField list \<Rightarrow> bool" where
  "shallow d fs \<longleftrightarrow> (\<forall>f \<in> set fs. option_depth (if_Type f) \<le> d)"

lemma borsh_args_enough:
  assumes "\<And>f v. f \<in> set fs \<Longrightarrow> serializeBorshValue S R types n v (if_Type f) \<noteq> None"
  shows "serializeBorshArgs S R types n fs args \<noteq> None"
  using assms by (induction fs) (auto simp: then_run_None simp del: not_None_eq split: option.splits)

text \<open>Every struct on the way down costs one level, and so does every option around its fields.\<close>

lemma borsh_value_enough:
  assumes "ranked rank types" and "\<forall>td \<in> set types. shallow d (it_Fields td)"
    and "\<forall>n \<in> refers ty. rank n < k" and "Suc (option_depth ty) + k * Suc d \<le> n"
  shows "serializeBorshValue S R types n val ty \<noteq> None"
  using assms(3,4)
proof (induction k arbitrary: ty n val rule: less_induct)
  case (less k)
  from less.prems show ?case
  proof (induction ty arbitrary: n val)
    case (TOption t)
    then obtain n' where "n = Suc n'" by (cases n) auto
    then show ?case using TOption by (simp add: then_run_None del: not_None_eq)
  next
    case (TDefined name)
    then obtain n' where n': "n = Suc n'" "k * Suc d \<le> n'" by (cases n) auto
    have k: "rank name < k" using TDefined by simp
    show ?case
    proof (cases "find (\<lambda>td. it_Name td = name) types")
      case None
      then show ?thesis by (simp add: n')
    next
      case (Some td)
      then have td: "td \<in> set types" "it_Name td = name" by (auto simp: find_Some_iff)
      have "Suc (rank name) * Suc d \<le> n'" using mult_le_mono1 [of "Suc (rank name)" k "Suc d"] k n'(2) by simp
      then have "serializeBorshValue S R types n' v (if_Type f) \<noteq> None" if "f \<in> set (it_Fields td)" for f v
        using less.IH [OF k, of "if_Type f" n' v] assms(1,2) td that
        by (fastforce simp: ranked_def shallow_def)
      from borsh_args_enough [of "it_Fields td" S R types n', OF this]
      show ?thesis using Some by (auto simp: n' split: list.splits)
    qed
  qed (case_tac n; simp)+
qed

text \<open>
  C35. Serialising the arguments of a call ends, for every value the caller passes, when the structs of
  the interface do not contain themselves: if they have ranks that fall from a struct to those its fields
  name, the arguments name structs of ranks below \<open>k\<close>, and no type has more than \<open>d\<close> options around it, then
  a stack of \<open>(k + 1) (d + 1)\<close> nested calls suffices, and a deeper one gives the same result.
\<close>

theorem borsh_terminates:
  assumes "ranked rank types" and "\<forall>td \<in> set types. shallow d (it_Fields td)" and "shallow d fs"
    and "\<forall>f \<in> set fs. \<forall>n \<in> refers (if_Type f). rank n < k"
  shows "\<exists>r. \<forall>m \<ge> Suc k * Suc d. serializeBorshArgs S R types m fs args = Some r"
proof -
  have "serializeBorshValue S R types (Suc k * Suc d) v (if_Type f) \<noteq> None" if "f \<in> set fs" for f v
    by (rule borsh_value_enough [OF assms(1,2)]) (use assms(3,4) that in \<open>auto simp: shallow_def\<close>)
  from borsh_args_enough [of fs S R types, OF this]
  obtain r where "serializeBorshArgs S R types (Suc k * Suc d) fs args = Some r" by fastforce
  then show ?thesis using borsh_more_fuel(2) by blast
qed

text \<open>
  A struct whose first field is the struct itself, which the chain or the node may serve, never
  ends: no stack is deep enough for an argument of that type, so the process dies.
\<close>

theorem self_reference_overflows:
  assumes "find (\<lambda>td. it_Name td = name) types = Some td" and "it_Fields td = f # rest"
    and "if_Type f = TDefined name" and "name \<noteq> []"
  shows "serializeBorshValue S R types fuel val (TDefined name) = None"
proof (induction fuel arbitrary: val)
  case (Suc fuel)
  then show ?case using assms by (simp add: arg_value_def then_run_None)
qed simp

definition loop_type :: IDLTypeDef where
  "loop_type = \<lparr>it_Name = ''Node'', it_Fields = [\<lparr>if_Name = ''next'', if_Type = TDefined ''Node''\<rparr>]\<rparr>"

theorem self_reference_overflows_witness:
  "serializeBorshValue toy_sol (\<lparr>od_pubkeys = id, od_bumps = id, od_args = id\<rparr>) [loop_type] 1000 ''1''
     (TDefined ''Node'') = None"
  by (rule self_reference_overflows [where td = loop_type and f = "hd (it_Fields loop_type)" and rest = "[]"])
    (simp_all add: loop_type_def)

definition list_orders :: orders where
  "list_orders = \<lparr>od_pubkeys = id, od_bumps = id, od_args = id\<rparr>"

definition config_type :: IDLTypeDef where
  "config_type = \<lparr>it_Name = ''Config'', it_Fields = [\<lparr>if_Name = ''fee'', if_Type = TPrimitive ''u8''\<rparr>]\<rparr>"

theorem borsh_terminates_witness:
  "\<exists>r. \<forall>m \<ge> Suc 1 * Suc 1. serializeBorshArgs toy_sol list_orders [config_type] m
     [\<lparr>if_Name = ''config'', if_Type = TOption (TDefined ''Config'')\<rparr>] [(''config'', ''9'')] = Some r"
proof -
  let ?fs = "[\<lparr>if_Name = ''config'', if_Type = TOption (TDefined ''Config'')\<rparr>]"
  have "ranked (\<lambda>n. 0) [config_type]" "\<forall>td \<in> set [config_type]. shallow 1 (it_Fields td)" "shallow 1 ?fs"
    "\<forall>f \<in> set ?fs. \<forall>n \<in> refers (if_Type f). (\<lambda>n. 0) n < (1 :: nat)"
    by (simp_all add: ranked_def config_type_def shallow_def)
  from borsh_terminates [OF this, of toy_sol list_orders "[(''config'', ''9'')]"]
  show ?thesis .
qed

subsubsection \<open>Which accounts a call touches\<close>

definition good_key :: "'r sol \<Rightarrow> call_ctx \<Rightarrow> (string \<times> pubkey) list \<Rightarrow> IDLAccount \<Rightarrow> pubkey \<Rightarrow> bool" where
  "good_key S cx pubs acc pk \<longleftrightarrow>
     (ia_Address acc \<noteq> [] \<longrightarrow> so_PublicKeyFromBase58 S (ia_Address acc) = Some pk) \<and>
     (ia_Address acc = [] \<and> ia_Signer acc \<and> ia_Name acc \<notin> fst ` set pubs \<longrightarrow> pk = cx_signer cx)"

definition good_keys :: "'r sol \<Rightarrow> call_ctx \<Rightarrow> (string \<times> pubkey) list \<Rightarrow> IDLAccount list \<Rightarrow>
    (string \<times> pubkey) list \<Rightarrow> bool" where
  "good_keys S cx pubs accs resolved \<longleftrightarrow>
     (\<forall>acc \<in> set accs. \<forall>pk. map_of resolved (ia_Name acc) = Some pk \<longrightarrow> good_key S cx pubs acc pk)"

lemma good_keys_update:
  assumes "good_keys S cx pubs accs resolved" and "distinct (map ia_Name accs)"
    and "acc \<in> set accs" and "good_key S cx pubs acc pk"
  shows "good_keys S cx pubs accs (AList.update (ia_Name acc) pk resolved)"
proof -
  have "acc' = acc" if "acc' \<in> set accs" "ia_Name acc' = ia_Name acc" for acc'
    using assms(2,3) that by (auto simp: distinct_map inj_on_def)
  then show ?thesis using assms(1,4) by (auto simp: good_keys_def update_conv')
qed

lemma resolveOneAccount_good:
  "resolveOneAccount S N R cx resolved acc = Return (Inr (pk, bump, ata)) \<Longrightarrow> good_key S cx pubs acc pk"
  by (auto simp: resolveOneAccount_def good_key_def MustPublicKeyFromBase58_def Let_def res_simps
      split: if_splits)

lemma fixed_addresses_good:
  assumes "fixed_addresses S accs' resolved = Return resolved'" and "set accs' \<subseteq> set accs"
    and "good_keys S cx pubs accs resolved" and "distinct (map ia_Name accs)"
  shows "good_keys S cx pubs accs resolved'"
  using assms(1-3)
proof (induction S accs' resolved rule: fixed_addresses.induct)
  case (2 S acc accs' resolved)
  show ?case
  proof (cases "ia_Address acc \<noteq> [] \<and> map_of resolved (ia_Name acc) = None")
    case True
    then obtain pk where pk: "MustPublicKeyFromBase58 S (ia_Address acc) = Return pk"
      using 2(3) by (auto split: may_panic.splits)
    then have "good_key S cx pubs acc pk"
      using True by (simp add: good_key_def MustPublicKeyFromBase58_def res_simps)
    then have "good_keys S cx pubs accs (AList.update (ia_Name acc) pk resolved)"
      using 2(4,5) assms(4) by (intro good_keys_update) auto
    then show ?thesis using 2(1) [OF True pk] 2(3,4) True pk by auto
  next
    case False
    then show ?thesis using 2(2) [OF False] 2(3-5) by auto
  qed
qed simp

lemma resolve_pass_good:
  assumes "resolve_pass S N R cx final accs' st = Return (Inr st')" and "set accs' \<subseteq> set accs"
    and "good_keys S cx pubs accs (rv_resolved st)" and "distinct (map ia_Name accs)"
  shows "good_keys S cx pubs accs (rv_resolved st')"
  using assms(1-3)
proof (induction accs' arbitrary: st)
  case (Cons acc accs')
  show ?case
  proof (cases "map_of (rv_resolved st) (ia_Name acc)")
    case (Some pk)
    then show ?thesis using Cons by auto
  next
    case None
    show ?thesis
    proof (cases "resolveOneAccount S N R cx (rv_resolved st) acc")
      case (Return r)
      show ?thesis
      proof (cases r)
        case (Inl e)
        then show ?thesis using Cons None Return by (auto split: if_splits)
      next
        case (Inr k)
        obtain pk bump ata where k: "k = (pk, bump, ata)" by (cases k)
        have "good_keys S cx pubs accs (AList.update (ia_Name acc) pk (rv_resolved st))"
          by (rule good_keys_update [OF Cons.prems(3) assms(4)])
            (use Cons.prems(2) Return Inr k resolveOneAccount_good in auto)
        moreover obtain st1 where "resolve_pass S N R cx final accs' st1 = Return (Inr st')"
          "rv_resolved st1 = AList.update (ia_Name acc) pk (rv_resolved st)"
          using Cons.prems(1) None Return Inr k by simp
        ultimately show ?thesis using Cons.IH [of st1] Cons.prems(2) by simp
      qed
    qed (use Cons.prems(1) None in simp)
  qed
qed simp

lemma account_metas_exact:
  assumes "account_metas accs resolved = Inr ms"
  shows "list_all2 (\<lambda>acc m. map_of resolved (ia_Name acc) = Some (am_PublicKey m) \<and>
    am_IsSigner m = ia_Signer acc \<and> am_IsWritable m = ia_Writable acc) accs ms"
  using assms by (induction accs arbitrary: ms) (auto simp: res_simps split: option.splits)

text \<open>
  The instruction names the accounts of the interface and no others: one per account of the IDL,
  in its order and with its flags; an account with a fixed address is that address, and an account
  that must sign, and got no key of its own, is the payer.
\<close>

theorem resolved_accounts_exact:
  assumes "resolveAccountsWithEphemeral S N R cx ix pubs = Return (Inr (ms, bumps, atas))"
    and "distinct (map ia_Name (ii_Accounts ix))"
    and "\<forall>acc \<in> set (ii_Accounts ix). ia_Address acc \<noteq> [] \<longrightarrow> ia_Name acc \<notin> fst ` set pubs"
  shows "list_all2 (\<lambda>acc m. am_IsSigner m = ia_Signer acc \<and> am_IsWritable m = ia_Writable acc \<and>
    (if ia_Address acc \<noteq> [] then so_PublicKeyFromBase58 S (ia_Address acc) = Some (am_PublicKey m)
     else ia_Signer acc \<and> ia_Name acc \<notin> fst ` set pubs \<longrightarrow> am_PublicKey m = cx_signer cx))
    (ii_Accounts ix) ms"
proof -
  let ?good = "good_keys S cx pubs (ii_Accounts ix)"
  obtain resolved st1 st2 st3 st where steps:
    "fixed_addresses S (ii_Accounts ix) pubs = Return resolved"
    "resolve_pass S N R cx False (ii_Accounts ix)
      \<lparr>rv_resolved = resolved, rv_bumps = [], rv_atas = []\<rparr> = Return (Inr st1)"
    "resolve_pass S N R cx False (ii_Accounts ix) st1 = Return (Inr st2)"
    "resolve_pass S N R cx False (ii_Accounts ix) st2 = Return (Inr st3)"
    "resolve_pass S N R cx True (ii_Accounts ix) st3 = Return (Inr st)"
    "account_metas (ii_Accounts ix) (rv_resolved st) = Inr ms"
    using assms(1) by (auto simp: resolveAccountsWithEphemeral_def res_simps Let_def)
  have "?good pubs"
  proof -
    have "n \<in> fst ` set pubs" if "map_of pubs n = Some pk" for n pk
      using that by (force dest: map_of_SomeD)
    then show ?thesis using assms(3) by (auto simp: good_keys_def good_key_def)
  qed
  then have "?good resolved" using fixed_addresses_good [OF steps(1)] assms(2) by blast
  then have "?good (rv_resolved st1)" using resolve_pass_good [OF steps(2)] assms(2) by auto
  then have "?good (rv_resolved st2)" using resolve_pass_good [OF steps(3)] assms(2) by auto
  then have "?good (rv_resolved st3)" using resolve_pass_good [OF steps(4)] assms(2) by auto
  then have "?good (rv_resolved st)" using resolve_pass_good [OF steps(5)] assms(2) by auto
  then have "good_key S cx pubs acc pk"
    if "acc \<in> set (ii_Accounts ix)" "map_of (rv_resolved st) (ia_Name acc) = Some pk" for acc pk
    using that by (simp add: good_keys_def)
  then show ?thesis
    using account_metas_exact [OF steps(6)]
    by (auto simp: good_key_def elim!: list.rel_mono_strong)
qed

text \<open>
  Extra signers never arise where program addresses can be derived: when every seed of at most 32
  bytes gives a program address, as it does except with negligible probability, no key pair is
  generated for accounts with names that short, so a new account that has to sign is given the payer's
  own address.
\<close>

theorem no_extra_signers:
  assumes "\<forall>s. length s \<le> 32 \<longrightarrow> is_ok (so_FindProgramAddress S [s] (cx_programID cx))"
    and "\<forall>acc \<in> set accs. length (toSnakeCase (ia_Name acc)) \<le> 32"
  shows "ephemeral_keys S cx gen accs keys = Inr keys"
  using assms(2)
proof (induction accs)
  case (Cons acc accs)
  have "is_ok (so_FindProgramAddress S [str_bytes (toSnakeCase (ia_Name acc))] (cx_programID cx))"
    using assms(1) Cons.prems by (simp add: str_bytes_def)
  then have "\<not> needs_ephemeral S cx acc"
    by (auto simp: needs_ephemeral_def isProbablyPDA_def common_seeds_def is_ok_iff
        split: option.splits sum.splits)
  then show ?case using Cons by simp
qed simp

definition sample_ctx :: call_ctx where
  "sample_ctx = \<lparr>cx_rpcURL = [], cx_programID = pad32 [8], cx_signer = pad32 [9], cx_mint = None,
     cx_args = [], cx_mintStr = [], cx_accounts = Map.empty\<rparr>"

theorem no_extra_signers_witness:
  "ephemeral_keys toy_sol sample_ctx (\<lambda>n. Inl ''no entropy'')
     [\<lparr>ia_Name = ''newVault'', ia_Writable = True, ia_Signer = True, ia_Address = [], ia_PDA = None\<rparr>]
     [] = Inr []"
  by (rule no_extra_signers)
    (simp_all add: toy_sol_def toSnakeCase_def is_upper_def char_lower_def)

definition sample_instruction :: IDLInstruction where
  "sample_instruction = \<lparr>ii_Name = ''stake'', ii_Discriminator = [1],
     ii_Accounts = [\<lparr>ia_Name = ''user'', ia_Writable = True, ia_Signer = True, ia_Address = [],
         ia_PDA = None\<rparr>,
       \<lparr>ia_Name = ''oracle'', ia_Writable = False, ia_Signer = False, ia_Address = ''XY'',
         ia_PDA = None\<rparr>],
     ii_Args = []\<rparr>"

theorem resolved_accounts_exact_witness:
  "\<exists>ms. resolveAccountsWithEphemeral toy_sol silent_net list_orders sample_ctx sample_instruction [] =
       Return (Inr (ms, [], [])) \<and>
     map am_PublicKey ms = [pad32 [9], pad32 (str_bytes ''XY'')]"
proof -
  let ?ix = sample_instruction
  obtain ms where ms: "resolveAccountsWithEphemeral toy_sol silent_net list_orders sample_ctx ?ix [] =
      Return (Inr (ms, [], []))"
    by (simp add: resolveAccountsWithEphemeral_def sample_instruction_def resolveOneAccount_def
        MustPublicKeyFromBase58_def must_def toy_base58 Let_def)
  have "list_all2 (\<lambda>acc m. am_IsSigner m = ia_Signer acc \<and> am_IsWritable m = ia_Writable acc \<and>
      (if ia_Address acc \<noteq> [] then so_PublicKeyFromBase58 toy_sol (ia_Address acc) = Some (am_PublicKey m)
       else ia_Signer acc \<and> ia_Name acc \<notin> fst ` set ([] :: (string \<times> pubkey) list) \<longrightarrow>
         am_PublicKey m = cx_signer sample_ctx)) (ii_Accounts ?ix) ms"
    by (rule resolved_accounts_exact [OF ms]) (simp_all add: sample_instruction_def)
  then obtain m1 m2 where "ms = [m1, m2]" "am_PublicKey m1 = cx_signer sample_ctx"
    "so_PublicKeyFromBase58 toy_sol ''XY'' = Some (am_PublicKey m2)"
    by (auto simp: sample_instruction_def list_all2_Cons1)
  then have "map am_PublicKey ms = [pad32 [9], pad32 (str_bytes ''XY'')]"
    by (simp add: sample_ctx_def toy_base58)
  with ms show ?thesis by (intro exI [of _ ms]) simp
qed

end
