(* ===== verification/Solana.thy ===== *)
theory Solana
  imports Anchor
begin

section \<open>The Solana adapter (internal/vm/solana/solana.go)\<close>

text \<open>
  Building transactions in the three modes (program call, raw instructions, transfer), the bytes to
  sign, the blockhash put in at the last moment, the placement of signatures, and what is read from a
  transaction. Base58 readers that panic are \<open>Panic\<close>; the state is that of the program call tables.
\<close>

subsection \<open>Building\<close>

text \<open>\<open>fmt.Sscanf(s, "%d", &amount)\<close>: blanks, then digits; what follows them is not looked at.\<close>

definition is_blank :: "char \<Rightarrow> bool" where
  "is_blank c \<longleftrightarrow> (of_char c :: nat) \<in> {9, 11, 12, 13, 32}"

definition scan_uint64 :: "string \<Rightarrow> u64 res" where
  "scan_uint64 s =
     (let t = dropWhile is_blank s; digits = takeWhile is_digit t in
      if t = [] then Inl ''unexpected EOF''
      else if (of_char (hd t) :: nat) = 10 then Inl ''unexpected newline''
      else if digits = [] then Inl ''expected integer''
      else bind_res (parse_uint 64 digits) (\<lambda>n. Inr (word_of_nat n)))"

fun raw_accounts :: "'r sol \<Rightarrow> SolanaAccountMeta list \<Rightarrow> AccountMeta list may_panic" where
  "raw_accounts S [] = Return []"
| "raw_accounts S (a # as) =
     (case MustPublicKeyFromBase58 S (sam_Pubkey a) of
        Panic \<Rightarrow> Panic
      | Return pk \<Rightarrow> (case raw_accounts S as of
          Panic \<Rightarrow> Panic
        | Return ms \<Rightarrow> Return (\<lparr>am_PublicKey = pk, am_IsSigner = sam_IsSigner a,
            am_IsWritable = sam_IsWritable a\<rparr> # ms)))"

fun raw_instructions :: "'r sol \<Rightarrow> nat \<Rightarrow> SolanaInstruction list \<Rightarrow> Instruction list res may_panic" where
  "raw_instructions S i [] = Return (Inr [])"
| "raw_instructions S i (ix # ixs) =
     bind_pr (no_err (MustPublicKeyFromBase58 S (si_ProgramID ix))) (\<lambda>programID.
     bind_pr (no_err (raw_accounts S (si_Accounts ix))) (\<lambda>accounts.
     bind_pr (Return (in_ctx (''solana: instruction['' @ nat_dec i @ ''] invalid base64 data'')
       (b64_decode (si_Data ix)))) (\<lambda>data.
     bind_pr (raw_instructions S (Suc i) ixs) (\<lambda>rest.
       Return (Inr (\<lparr>ix_ProgramID = programID, ix_Accounts = accounts, ix_Data = data\<rparr> # rest))))))"

definition spl_transfer :: "'r sol \<Rightarrow> pubkey \<Rightarrow> pubkey \<Rightarrow> pubkey \<Rightarrow> pubkey \<Rightarrow> pubkey \<Rightarrow> pubkey \<Rightarrow> u64 \<Rightarrow>
    Instruction list" where
  "spl_transfer S sender to mint tokenProgramID fromATA toATA amount =
     [create_ata S sender \<lparr>at_ata = toATA, at_owner = to, at_mint = mint, at_tokenProg = tokenProgramID\<rparr>,
      \<lparr>ix_ProgramID = tokenProgramID,
       ix_Accounts = [\<lparr>am_PublicKey = fromATA, am_IsSigner = False, am_IsWritable = True\<rparr>,
         \<lparr>am_PublicKey = toATA, am_IsSigner = False, am_IsWritable = True\<rparr>,
         \<lparr>am_PublicKey = sender, am_IsSigner = True, am_IsWritable = False\<rparr>],
       ix_Data = 3 # le_put 8 (unat amount)\<rparr>]"

definition transfer_instructions :: "'r sol \<Rightarrow> rpc_net \<Rightarrow> TxRequest \<Rightarrow> pubkey \<Rightarrow> Instruction list res may_panic" where
  "transfer_instructions S N req sender =
     (if tq_To req = [] then Return (Inl ''solana: at least one recipient required'')
      else bind_pr (no_err (MustPublicKeyFromBase58 S (hd (tq_To req)))) (\<lambda>to.
        bind_pr (Return (if tq_Value req = [] then Inr 0
            else in_ctx (''solana: invalid value '' @ go_quote (tq_Value req)) (scan_uint64 (tq_Value req))))
          (\<lambda>amount.
        if tq_Mint req \<noteq> [] then
          bind_pr (no_err (MustPublicKeyFromBase58 S (tq_Mint req))) (\<lambda>mint.
          bind_pr (Return (if tq_RpcURL req = [] then Inr (so_TokenProgramID S)
              else in_ctx ''solana: detect token program'' (detectTokenProgram S N (tq_RpcURL req) mint)))
            (\<lambda>tokenProgramID.
          bind_pr (Return (in_ctx ''solana: find from ATA'' (findATA S sender mint tokenProgramID)))
            (\<lambda>(fromATA, _).
          bind_pr (Return (in_ctx ''solana: find to ATA'' (findATA S to mint tokenProgramID)))
            (\<lambda>(toATA, _).
            Return (Inr (spl_transfer S sender to mint tokenProgramID fromATA toATA amount))))))
        else Return (Inr [so_NewTransfer S amount sender to]))))"

definition finish_tx :: "'r sol \<Rightarrow> TxRequest \<Rightarrow> pubkey \<Rightarrow> Instruction list \<Rightarrow> bytes list \<Rightarrow> UnsignedTx res" where
  "finish_tx S req sender instructions extraSigners =
     bind_res (in_ctx ''solana: build tx'' (so_NewTransaction S instructions (replicate 32 0) sender)) (\<lambda>tx.
     bind_res (in_ctx ''solana: serialize message'' (so_MarshalMessage S (st_Message tx))) (\<lambda>msgBytes.
     bind_res (in_ctx ''solana: serialize tx'' (so_MarshalTx S tx)) (\<lambda>rawBytes.
       Inr \<lparr>ut_RawBytes = rawBytes, ut_Hash = msgBytes, ut_To = tq_To req, ut_Value = tq_Value req,
         ut_Data = [], ut_ExtraSignerKeys = extraSigners\<rparr>)))"

record solana_env =
  sv_net :: rpc_net
  sv_orders :: orders
  sv_stack :: nat
  sv_GenerateKey :: "string \<Rightarrow> (bytes \<times> bytes) res"
  sv_metadataID :: pubkey

definition sol_BuildUnsignedTx :: "'r sol \<Rightarrow> solana_env \<Rightarrow> TxRequest \<Rightarrow> anchor_state \<Rightarrow>
    UnsignedTx res may_panic \<times> anchor_state" where
  "sol_BuildUnsignedTx S V req st =
     (case MustPublicKeyFromBase58 S (tq_From req) of
        Panic \<Rightarrow> (Panic, st)
      | Return sender \<Rightarrow>
          if tq_Program req \<noteq> [] \<and> tq_Method req \<noteq> [] then
            let (built, st') = BuildAnchorTx S (sv_net V) (sv_orders V) (sv_stack V) (sv_GenerateKey V)
                  (sv_metadataID V) req sender st
            in (bind_pr (case built of Panic \<Rightarrow> Panic | Return r \<Rightarrow> Return (in_ctx ''solana: anchor'' r))
                 (\<lambda>result. Return (finish_tx S req sender (an_Instructions result) (an_ExtraSigners result))), st')
          else
            (bind_pr (if tq_Instructions req \<noteq> [] then raw_instructions S 0 (tq_Instructions req)
                else transfer_instructions S (sv_net V) req sender)
               (\<lambda>instructions. Return (finish_tx S req sender instructions [])), st))"

subsection \<open>Signing and reading\<close>

definition sol_ExtractSignableBytes :: "'r sol \<Rightarrow> bytes \<Rightarrow> bytes res" where
  "sol_ExtractSignableBytes S unsignedTx =
     bind_res (in_ctx ''solana: decode tx'' (so_TransactionFromBytes S unsignedTx)) (\<lambda>tx.
       in_ctx ''solana: serialize message'' (so_MarshalMessage S (st_Message tx)))"

text \<open>The first account with that key among those that sign, the payer apart.\<close>

definition signer_index :: "pubkey list \<Rightarrow> nat \<Rightarrow> pubkey \<Rightarrow> nat option" where
  "signer_index keys numSigs pk = find (\<lambda>i. keys ! i = pk \<and> 0 < i \<and> i < numSigs) [0..<length keys]"

fun place_extra :: "'r sol \<Rightarrow> pubkey list \<Rightarrow> nat \<Rightarrow> bytes \<Rightarrow> bytes list \<Rightarrow> bytes list \<Rightarrow> bytes list" where
  "place_extra S keys numSigs msg [] sigs = sigs"
| "place_extra S keys numSigs msg (priv # privs) sigs =
     place_extra S keys numSigs msg privs
       (case signer_index keys numSigs (so_Public S priv) of
          None \<Rightarrow> sigs | Some i \<Rightarrow> sigs[i := so_Sign S priv msg])"

definition AssembleSignedTxWithExtra :: "'r sol \<Rightarrow> bytes \<Rightarrow> Signature \<Rightarrow> bytes list \<Rightarrow> bytes res" where
  "AssembleSignedTxWithExtra S unsignedTx sig extraKeys =
     bind_res (in_ctx ''solana: decode tx'' (so_TransactionFromBytes S unsignedTx)) (\<lambda>tx.
       if length (sig_Bytes sig) \<noteq> 64
       then Inl (''solana: expected 64-byte ed25519 signature, got '' @ nat_dec (length (sig_Bytes sig)))
       else
         let m = st_Message tx;
             numSigs = max 1 (unat (mg_NumRequiredSignatures m));
             sigs = (replicate numSigs (replicate 64 0))[0 := sig_Bytes sig] in
         bind_res (if extraKeys = [] then Inr sigs
             else bind_res (in_ctx ''solana: serialize message for extra signers'' (so_MarshalMessage S m))
               (\<lambda>msg. Inr (place_extra S (mg_AccountKeys m) numSigs msg extraKeys sigs)))
           (\<lambda>sigs. in_ctx ''solana: serialize signed tx'' (so_MarshalTx S (tx\<lparr>st_Signatures := sigs\<rparr>))))"

definition sol_AssembleSignedTx :: "'r sol \<Rightarrow> bytes \<Rightarrow> Signature \<Rightarrow> bytes res" where
  "sol_AssembleSignedTx S unsignedTx sig = AssembleSignedTxWithExtra S unsignedTx sig []"

record txEnvelope =
  te_Type :: string
  te_From :: string
  te_To :: string
  te_Amount :: nat
  te_Mint :: string
  te_RecentHash :: string

definition dec_txEnvelope :: "doc \<Rightarrow> txEnvelope res" where
  "dec_txEnvelope = unmarshal (\<lambda>fs.
     bind_res (str_field ''type'' [] fs) (\<lambda>ty.
     bind_res (str_field ''from'' [] fs) (\<lambda>frm.
     bind_res (str_field ''to'' [] fs) (\<lambda>to.
     bind_res (dec_field (dec_uint 64) ''amount'' 0 fs) (\<lambda>amount.
     bind_res (str_field ''mint'' [] fs) (\<lambda>mint.
     bind_res (str_field ''recentHash'' [] fs) (\<lambda>h.
       Inr \<lparr>te_Type = ty, te_From = frm, te_To = to, te_Amount = amount, te_Mint = mint,
         te_RecentHash = h\<rparr>)))))))"

definition sol_DecodeTx :: "'r sol \<Rightarrow> (string \<Rightarrow> doc) \<Rightarrow> bytes \<Rightarrow> DecodedTx res" where
  "sol_DecodeTx S parse txBytes =
     (case so_TransactionFromBytes S txBytes of
        Inl e \<Rightarrow> (case dec_txEnvelope (parse (bytes_str txBytes)) of
            Inr env \<Rightarrow> Inr (empty_decoded\<lparr>dt_From := te_From env, dt_To := [te_To env],
              dt_Value := nat_dec (te_Amount env)\<rparr>)
          | Inl _ \<Rightarrow> Inl (wrap_err ''solana: decode tx'' e))
      | Inr tx \<Rightarrow>
          let keys = mg_AccountKeys (st_Message tx) in
          Inr (empty_decoded\<lparr>dt_From := (case keys of [] \<Rightarrow> [] | k # ks \<Rightarrow> so_String S k),
            dt_To := (case keys of k # k2 # ks \<Rightarrow> [so_String S k2] | _ \<Rightarrow> [])\<rparr>))"

definition InjectBlockhash :: "'r sol \<Rightarrow> bytes \<Rightarrow> string \<Rightarrow> bytes res may_panic" where
  "InjectBlockhash S unsignedTx blockhash =
     bind_pr (Return (in_ctx ''solana: decode tx for blockhash injection'' (so_TransactionFromBytes S unsignedTx)))
       (\<lambda>tx. bind_pr (no_err (must (so_HashFromBase58 S blockhash))) (\<lambda>h.
         Return (in_ctx ''solana: re-serialize tx'' (so_MarshalTx S
           (tx\<lparr>st_Message := (st_Message tx)\<lparr>mg_RecentBlockhash := h\<rparr>\<rparr>)))))"

text \<open>The adapter with its tables in state \<open>st\<close>.\<close>

definition solana_adapter :: "'r sol \<Rightarrow> solana_env \<Rightarrow> anchor_state \<Rightarrow> adapter" where
  "solana_adapter S V st =
     \<lparr>ad_Name = ''solana'', ad_Curve = CurveEd25519, ad_DeriveAddress = sol_DeriveAddress S,
      ad_BuildUnsignedTx = (\<lambda>req. recovered (fst (sol_BuildUnsignedTx S V req st))),
      ad_ExtractSignableBytes = sol_ExtractSignableBytes S,
      ad_AssembleSignedTx = sol_AssembleSignedTx S,
      ad_DecodeTx = sol_DecodeTx S (nt_parse (sv_net V))\<rparr>"

subsection \<open>What the adapter promises\<close>

text \<open>solana-go reads back the transactions it wrote.\<close>

definition sol_laws :: "'r sol \<Rightarrow> bool" where
  "sol_laws S \<longleftrightarrow> (\<forall>t b. so_MarshalTx S t = Inr b \<longrightarrow> so_TransactionFromBytes S b = Inr t)"

lemma read_back: "sol_laws S \<Longrightarrow> so_MarshalTx S t = Inr b \<Longrightarrow> so_TransactionFromBytes S b = Inr t"
  by (simp add: sol_laws_def)

lemma built_by_finish:
  assumes "sol_BuildUnsignedTx S V req st = (Return (Inr u), st')"
  obtains sender ixs extra where "so_PublicKeyFromBase58 S (tq_From req) = Some sender"
    "finish_tx S req sender ixs extra = Inr u"
  using assms unfolding sol_BuildUnsignedTx_def MustPublicKeyFromBase58_def
  by (auto simp: res_simps must_def split: may_panic.splits option.splits prod.splits if_splits)

text \<open>
  A Solana transaction hashes the same on both sides, in each of the three modes: the signable
  bytes extracted from the raw bytes of a transaction the adapter built are the message it reports;
  and the transaction is the library's, with the sender as payer and no blockhash yet.
\<close>

theorem sol_build_faithful:
  assumes "sol_laws S" and "sol_BuildUnsignedTx S V req st = (Return (Inr u), st')"
  shows "sol_ExtractSignableBytes S (ut_RawBytes u) = Inr (ut_Hash u) \<and>
    (\<exists>sender ixs tx. so_PublicKeyFromBase58 S (tq_From req) = Some sender \<and>
      so_NewTransaction S ixs (replicate 32 0) sender = Inr tx \<and>
      so_TransactionFromBytes S (ut_RawBytes u) = Inr tx)"
proof -
  obtain sender ixs extra where s: "so_PublicKeyFromBase58 S (tq_From req) = Some sender"
    "finish_tx S req sender ixs extra = Inr u"
    by (rule built_by_finish [OF assms(2)])
  then obtain tx where tx: "so_NewTransaction S ixs (replicate 32 0) sender = Inr tx"
    "so_MarshalMessage S (st_Message tx) = Inr (ut_Hash u)" "so_MarshalTx S tx = Inr (ut_RawBytes u)"
    by (auto simp: finish_tx_def res_simps)
  have "so_TransactionFromBytes S (ut_RawBytes u) = Inr tx"
    by (rule read_back [OF assms(1) tx(3)])
  then show ?thesis using s(1) tx by (auto simp: sol_ExtractSignableBytes_def)
qed

text \<open>
  Putting the blockhash in changes nothing else: the transaction that is signed differs from the
  one that was reviewed in its blockhash only, so it is shown to Party B as the same.
\<close>

theorem inject_changes_blockhash_only:
  assumes "sol_laws S" and "InjectBlockhash S raw hash = Return (Inr raw')"
  shows "\<exists>tx h. so_TransactionFromBytes S raw = Inr tx \<and> so_HashFromBase58 S hash = Some h \<and>
    so_TransactionFromBytes S raw' = Inr (tx\<lparr>st_Message := (st_Message tx)\<lparr>mg_RecentBlockhash := h\<rparr>\<rparr>) \<and>
    sol_DecodeTx S parse raw' = sol_DecodeTx S parse raw"
proof -
  obtain tx h where tx: "so_TransactionFromBytes S raw = Inr tx" "so_HashFromBase58 S hash = Some h"
    "so_MarshalTx S (tx\<lparr>st_Message := (st_Message tx)\<lparr>mg_RecentBlockhash := h\<rparr>\<rparr>) = Inr raw'"
    using assms(2) by (auto simp: InjectBlockhash_def res_simps)
  then have "so_TransactionFromBytes S raw' =
      Inr (tx\<lparr>st_Message := (st_Message tx)\<lparr>mg_RecentBlockhash := h\<rparr>\<rparr>)"
    by (intro read_back [OF assms(1)])
  then show ?thesis using tx(1,2) by (auto simp: sol_DecodeTx_def Let_def)
qed

text \<open>
  What Party B is shown of a Solana transaction does not depend on what it does: a transaction with
  any other instructions and amounts on the same accounts is decoded to the same sender and receiver,
  and to no amount.
\<close>

theorem sol_decode_ignores_instructions:
  assumes "sol_laws S" and "so_MarshalTx S tx = Inr raw"
    and "so_MarshalTx S (tx\<lparr>st_Message := (st_Message tx)\<lparr>mg_Rest := rest\<rparr>\<rparr>) = Inr raw'"
  shows "sol_DecodeTx S parse raw' = sol_DecodeTx S parse raw \<and>
    (\<exists>d. sol_DecodeTx S parse raw = Inr d \<and> dt_Value d = [] \<and>
      (\<forall>k ks. mg_AccountKeys (st_Message tx) = k # ks \<longrightarrow>
        dt_To d = (if ks = [] then [] else [so_String S (hd ks)])))"
  using read_back [OF assms(1,2)] read_back [OF assms(1,3)]
  by (auto simp: sol_DecodeTx_def Let_def empty_decoded_def split: list.splits)

lemma length_place_extra: "length (place_extra S keys n msg privs sigs) = length sigs"
  by (induction S keys n msg privs sigs rule: place_extra.induct) (simp_all split: option.splits)

lemma place_extra_zero: "0 < length sigs \<Longrightarrow> place_extra S keys n msg privs sigs ! 0 = sigs ! 0"
proof (induction S keys n msg privs sigs rule: place_extra.induct)
  case (2 S keys n msg priv privs sigs)
  have "0 < i" if "signer_index keys n pk = Some i" for pk i
    using that by (auto simp: signer_index_def find_Some_iff)
  then show ?case using 2 by (auto split: option.splits)
qed simp

text \<open>
  C29. The threshold signature lands in the payer's slot and the message is untouched: an assembled
  transaction is the unsigned one with one signature per required signer, the first of them the
  given 64 bytes whatever extra keys there are.
\<close>

theorem assembled_signature_first:
  assumes "sol_laws S" and "AssembleSignedTxWithExtra S raw sig extra = Inr final_raw"
  shows "\<exists>tx stx. so_TransactionFromBytes S raw = Inr tx \<and> so_TransactionFromBytes S final_raw = Inr stx \<and>
    st_Message stx = st_Message tx \<and> length (sig_Bytes sig) = 64 \<and>
    length (st_Signatures stx) = max 1 (unat (mg_NumRequiredSignatures (st_Message tx))) \<and>
    st_Signatures stx ! 0 = sig_Bytes sig"
proof -
  obtain tx sigs where tx: "so_TransactionFromBytes S raw = Inr tx" "length (sig_Bytes sig) = 64"
    "so_MarshalTx S (tx\<lparr>st_Signatures := sigs\<rparr>) = Inr final_raw"
    "length sigs = max 1 (unat (mg_NumRequiredSignatures (st_Message tx)))" "sigs ! 0 = sig_Bytes sig"
    using assms(2)
    by (auto simp: AssembleSignedTxWithExtra_def res_simps Let_def length_place_extra place_extra_zero
        split: if_splits)
  then show ?thesis using read_back [OF assms(1) tx(3)] by auto
qed

text \<open>An amount is cut at the first character that is not a digit.\<close>

lemma amount_cut: "scan_uint64 ''1.5'' = Inr 1"
  by (simp add: scan_uint64_def is_blank_def is_digit_def parse_uint_def parse_dec_def digit_val_def)

subsection \<open>A small library at which the hypotheses hold\<close>

lemma toy_sol_laws: "sol_laws toy_sol"
  by (auto simp: sol_laws_def toy_sol_def toy_untx_tx)

definition sample_env :: solana_env where
  "sample_env = \<lparr>sv_net = silent_net, sv_orders = list_orders, sv_stack = 100,
     sv_GenerateKey = (\<lambda>n. Inl ''no entropy''), sv_metadataID = pad32 [7]\<rparr>"

definition sol_sample_request :: TxRequest where
  "sol_sample_request = \<lparr>tq_From = ''A'', tq_To = [''B''], tq_Value = ''5'', tq_Data = [],
     tq_DerivationPath = [], tq_Prefix = [], tq_Denom = [], tq_ChainID = [], tq_AccountNumber = 0,
     tq_Sequence = 0, tq_Fee = [], tq_Gas = 0, tq_Memo = [], tq_PubKey = [], tq_GasLimit = 0,
     tq_GasPrice = [], tq_Nonce = 0, tq_AutoNonce = False, tq_RpcURL = [], tq_Mint = [],
     tq_Instructions = [], tq_Program = [], tq_Method = [], tq_Args = []\<rparr>"

definition sol_sample_tx :: "unit SolTx" where
  "sol_sample_tx = \<lparr>st_Signatures = [], st_Message = \<lparr>mg_NumRequiredSignatures = 1,
     mg_AccountKeys = [pad32 (str_bytes ''A''), pad32 (str_bytes ''B'')],
     mg_RecentBlockhash = replicate 32 0, mg_Rest = ()\<rparr>\<rparr>"

definition sol_sample_raw :: bytes where "sol_sample_raw = numbered_print (toy_tx sol_sample_tx)"

lemma toy_marshal: "so_MarshalTx toy_sol t = Inr (numbered_print (toy_tx t))"
  by (simp add: toy_sol_def)

lemma sample_raw_marshal: "so_MarshalTx toy_sol sol_sample_tx = Inr sol_sample_raw"
  by (simp add: sol_sample_raw_def toy_sol_def)

lemma sample_raw_read: "so_TransactionFromBytes toy_sol sol_sample_raw = Inr sol_sample_tx"
  by (rule read_back [OF toy_sol_laws sample_raw_marshal])

lemma sol_sample_build:
  "sol_BuildUnsignedTx toy_sol sample_env sol_sample_request st =
     (Return (Inr \<lparr>ut_RawBytes = sol_sample_raw, ut_Hash = numbered_print (Some (toy_message (st_Message sol_sample_tx))),
       ut_To = [''B''], ut_Value = ''5'', ut_Data = [], ut_ExtraSignerKeys = []\<rparr>), st)"
proof -
  have "scan_uint64 ''5'' = Inr 5"
    by (simp add: scan_uint64_def is_blank_def is_digit_def parse_uint_def parse_dec_def digit_val_def)
  moreover have "so_NewTransaction toy_sol [so_NewTransfer toy_sol 5 (pad32 (str_bytes ''A''))
      (pad32 (str_bytes ''B''))] (replicate 32 0) (pad32 (str_bytes ''A'')) = Inr sol_sample_tx"
    by (simp add: toy_sol_def sol_sample_tx_def)
  moreover have "so_MarshalMessage toy_sol m = Inr (numbered_print (Some (toy_message m)))" for m
    by (simp add: toy_sol_def)
  ultimately show ?thesis
    by (simp add: sol_BuildUnsignedTx_def sol_sample_request_def MustPublicKeyFromBase58_def must_def
        toy_base58 transfer_instructions_def finish_tx_def sample_raw_marshal)
qed

theorem sol_build_faithful_witness:
  "sol_ExtractSignableBytes toy_sol sol_sample_raw =
     Inr (numbered_print (Some (toy_message (st_Message sol_sample_tx))))"
  using sol_build_faithful [OF toy_sol_laws sol_sample_build] by simp

theorem inject_changes_blockhash_only_witness:
  "\<exists>raw'. InjectBlockhash toy_sol sol_sample_raw ''H'' = Return (Inr raw') \<and>
     sol_DecodeTx toy_sol (\<lambda>s. None) raw' = sol_DecodeTx toy_sol (\<lambda>s. None) sol_sample_raw"
proof -
  have "so_HashFromBase58 toy_sol ''H'' = Some (pad32 (str_bytes ''H''))" by (simp add: toy_sol_def)
  then obtain raw' where raw': "InjectBlockhash toy_sol sol_sample_raw ''H'' = Return (Inr raw')"
    by (simp add: InjectBlockhash_def sample_raw_read must_def toy_marshal)
  from inject_changes_blockhash_only [OF toy_sol_laws raw'] show ?thesis
    using raw' by metis
qed

theorem sol_decode_ignores_instructions_witness:
  "\<exists>d. sol_DecodeTx toy_sol (\<lambda>s. None) sol_sample_raw = Inr d \<and> dt_Value d = []"
proof -
  have "sol_sample_tx\<lparr>st_Message := (st_Message sol_sample_tx)\<lparr>mg_Rest := ()\<rparr>\<rparr> = sol_sample_tx" by simp
  then have "so_MarshalTx toy_sol (sol_sample_tx\<lparr>st_Message := (st_Message sol_sample_tx)\<lparr>mg_Rest := ()\<rparr>\<rparr>) =
      Inr sol_sample_raw"
    by (simp only: sample_raw_marshal)
  from sol_decode_ignores_instructions [OF toy_sol_laws sample_raw_marshal this] show ?thesis
    by blast
qed

theorem assembled_signature_first_witness:
  "\<exists>out stx. AssembleSignedTxWithExtra toy_sol sol_sample_raw \<lparr>sig_R = 0, sig_S = 0, sig_V = 0,
       sig_Bytes = replicate 64 7\<rparr> [] = Inr out \<and>
     so_TransactionFromBytes toy_sol out = Inr stx \<and> st_Signatures stx ! 0 = replicate 64 7"
proof -
  let ?sig = "\<lparr>sig_R = 0, sig_S = 0, sig_V = 0, sig_Bytes = replicate 64 7\<rparr> :: Signature"
  obtain out where out: "AssembleSignedTxWithExtra toy_sol sol_sample_raw ?sig [] = Inr out"
    by (simp add: AssembleSignedTxWithExtra_def sample_raw_read Let_def toy_marshal)
  from assembled_signature_first [OF toy_sol_laws out] out show ?thesis by auto
qed

end
