(* ===== verification/Wire.thy ===== *)
theory Wire
  imports Prelude
begin

section \<open>The framed wire protocol (internal/transport/protocol.go)\<close>

text \<open>
  \<open>Message\<close>, its thirteen message types, and \<open>WriteMessage\<close>/\<open>ReadMessage\<close> over an abstract
  byte stream. The payload type of a message is a parameter: \<^typ>\<open>bytes\<close> on the wire, a JSON value
  in the services. The locale \<open>byte_stream\<close> states what the framing relies on of
  \<open>io.Writer\<close> and \<open>io.ReadFull\<close>; a connection buffer is its model here.
\<close>

record 'p message =
  m_type :: byte
  m_id :: u64
  m_payload :: 'p

definition MsgTSSRound :: byte where "MsgTSSRound = 0x01"
definition MsgDKGRound :: byte where "MsgDKGRound = 0x02"
definition MsgReshare :: byte where "MsgReshare = 0x03"
definition MsgSignRequest :: byte where "MsgSignRequest = 0x10"
definition MsgSignResponse :: byte where "MsgSignResponse = 0x11"
definition MsgDeriveReq :: byte where "MsgDeriveReq = 0x12"
definition MsgDeriveResp :: byte where "MsgDeriveResp = 0x13"
definition MsgTxStatusReq :: byte where "MsgTxStatusReq = 0x14"
definition MsgTxStatusResp :: byte where "MsgTxStatusResp = 0x15"
definition MsgSignApproved :: byte where "MsgSignApproved = 0x16"
definition MsgSignReady :: byte where "MsgSignReady = 0x17"
definition MsgHealthCheck :: byte where "MsgHealthCheck = 0x20"
definition MsgHealthResp :: byte where "MsgHealthResp = 0x21"

lemmas msg_type_defs = MsgTSSRound_def MsgDKGRound_def MsgReshare_def MsgSignRequest_def
  MsgSignResponse_def MsgDeriveReq_def MsgDeriveResp_def MsgTxStatusReq_def MsgTxStatusResp_def
  MsgSignApproved_def MsgSignReady_def MsgHealthCheck_def MsgHealthResp_def

definition MaxMessageSize :: nat where
  "MaxMessageSize = 16 * 1024 * 1024"

definition too_large :: "nat \<Rightarrow> err" where
  "too_large n = ''message too large: '' @ nat_dec n @ '' > '' @ nat_dec MaxMessageSize"

text \<open>The 13-byte header: \<open>[1 byte type][8 bytes ID][4 bytes payload length]\<close>.\<close>

definition frame_header :: "bytes message \<Rightarrow> bytes" where
  "frame_header m =
     m_type m # be_put 8 (unat (m_id m)) @ be_put 4 (length (m_payload m))"

definition WriteMessage ::
  "(bytes \<Rightarrow> 's \<Rightarrow> err option \<times> 's) \<Rightarrow> bytes message \<Rightarrow> 's \<Rightarrow> err option \<times> 's" where
  "WriteMessage wr m s =
     (if MaxMessageSize < length (m_payload m) then (Some (too_large (length (m_payload m))), s)
      else (case wr (frame_header m) s of
          (Some e, s1) \<Rightarrow> (Some (wrap_err ''write header'' e), s1)
        | (None, s1) \<Rightarrow>
            if 0 < length (m_payload m)
            then (case wr (m_payload m) s1 of
                (Some e, s2) \<Rightarrow> (Some (wrap_err ''write payload'' e), s2)
              | (None, s2) \<Rightarrow> (None, s2))
            else (None, s1)))"

definition ReadMessage ::
  "(nat \<Rightarrow> 's \<Rightarrow> bytes res \<times> 's) \<Rightarrow> 's \<Rightarrow> bytes message res \<times> 's" where
  "ReadMessage rd s =
     (case rd 13 s of
        (Inl e, s1) \<Rightarrow> (Inl (wrap_err ''read header'' e), s1)
      | (Inr header, s1) \<Rightarrow>
          let ty = header ! 0;
              ident = word_of_nat (be_nat (take 8 (drop 1 header)));
              payloadLen = be_nat (take 4 (drop 9 header))
          in if MaxMessageSize < payloadLen then (Inl (too_large payloadLen), s1)
             else if 0 < payloadLen
             then (case rd payloadLen s1 of
                 (Inl e, s2) \<Rightarrow> (Inl (wrap_err ''read payload'' e), s2)
               | (Inr p, s2) \<Rightarrow> (Inr \<lparr>m_type = ty, m_id = ident, m_payload = p\<rparr>, s2))
             else (Inr \<lparr>m_type = ty, m_id = ident, m_payload = []\<rparr>, s1))"

subsection \<open>The stream the framing runs over\<close>

locale byte_stream =
  fixes wr :: "bytes \<Rightarrow> 's \<Rightarrow> err option \<times> 's"
    and rd :: "nat \<Rightarrow> 's \<Rightarrow> bytes res \<times> 's"
    and content :: "'s \<Rightarrow> bytes"
  assumes wr_ok: "wr b s = (None, s') \<Longrightarrow> content s' = content s @ b"
    and rd_ok: "rd n s = (Inr b, s') \<Longrightarrow> length b = n \<and> content s = b @ content s'"
    and rd_enough: "n \<le> length (content s) \<Longrightarrow> \<exists>b s'. rd n s = (Inr b, s')"

text \<open>A well-formed message is one the writer accepts; its frame is the header and the payload.\<close>

definition wf_message :: "bytes message \<Rightarrow> bool" where
  "wf_message m \<longleftrightarrow> length (m_payload m) \<le> MaxMessageSize"

definition frame :: "bytes message \<Rightarrow> bytes" where
  "frame m = frame_header m @ m_payload m"

lemma length_frame_header [simp, codec_simps]: "length (frame_header m) = 13"
  by (simp add: frame_header_def)

lemma header_fields [codec_simps]:
  "frame_header m ! 0 = m_type m"
  "take 8 (drop 1 (frame_header m)) = be_put 8 (unat (m_id m))"
  "take 4 (drop 9 (frame_header m)) = be_put 4 (length (m_payload m))"
  by (simp_all add: frame_header_def)

lemma header_id [codec_simps]: "(word_of_nat (be_nat (be_put 8 (unat (i :: u64)))) :: u64) = i"
proof -
  have "unat i < 2 ^ 64" using unsigned_less [of i, where ?'a = nat] by simp
  then show ?thesis by (simp add: be_nat_be_put)
qed

lemma header_len [codec_simps]:
  "wf_message m \<Longrightarrow> be_nat (be_put 4 (length (m_payload m))) = length (m_payload m)"
  by (simp add: be_nat_be_put wf_message_def MaxMessageSize_def)

text \<open>A 13-byte block with an admissible length field is the header of the message it names.\<close>

lemma frame_header_of_block:
  assumes "length h = 13" and "be_nat (take 4 (drop 9 h)) = length p"
  shows "frame_header \<lparr>m_type = h ! 0, m_id = word_of_nat (be_nat (take 8 (drop 1 h))),
           m_payload = p\<rparr> = h"
proof -
  let ?i = "take 8 (drop 1 h)" and ?l = "take 4 (drop 9 h)"
  have li: "length ?i = 8" and ll: "length ?l = 4" using assms(1) by simp_all
  have "be_nat ?i < 256 ^ 8" using be_nat_less [of ?i] li by simp
  then have "unat (word_of_nat (be_nat ?i) :: u64) = be_nat ?i"
    by (simp add: unat_of_nat)
  then have i: "be_put 8 (unat (word_of_nat (be_nat ?i) :: u64)) = ?i"
    using be_put_be_nat [of ?i] li by simp
  have l: "be_put 4 (length p) = ?l"
    using be_put_be_nat [of ?l] ll assms(2) by simp
  have "h = h ! 0 # drop 1 h" using assms(1) by (cases h) auto
  also have "drop 1 h = ?i @ drop 9 h"
    using append_take_drop_id [of 8 "drop 1 h"] by simp
  also have "drop 9 h = ?l" using assms(1) by simp
  finally show ?thesis by (simp add: frame_header_def i [unfolded One_nat_def] l)
qed

context byte_stream
begin

lemma write_frame:
  assumes "WriteMessage wr m s = (None, s')"
  shows "wf_message m \<and> content s' = content s @ frame m"
  using assms
  by (auto simp: WriteMessage_def wf_message_def frame_def not_less dest!: wr_ok
      split: if_splits prod.splits option.splits)

lemma read_sound:
  assumes "ReadMessage rd s = (Inr m, s')"
  shows "wf_message m \<and> content s = frame m @ content s'"
proof -
  obtain h s1 where h: "rd 13 s = (Inr h, s1)"
    using assms by (auto simp: ReadMessage_def split: prod.splits sum.splits)
  from rd_ok [OF this] have lh: "length h = 13" and cs: "content s = h @ content s1" by auto
  let ?n = "be_nat (take 4 (drop 9 h))"
  have le: "?n \<le> MaxMessageSize"
    using assms h by (auto simp: ReadMessage_def Let_def split: if_splits)
  show ?thesis
  proof (cases "0 < ?n")
    case True
    then obtain p s2 where p: "rd ?n s1 = (Inr p, s2)" and
      m: "m = \<lparr>m_type = h ! 0, m_id = word_of_nat (be_nat (take 8 (drop 1 h))), m_payload = p\<rparr>"
      and s': "s' = s2"
      using assms h le
      by (auto simp: ReadMessage_def Let_def split: if_splits prod.splits sum.splits)
    from rd_ok [OF p] have lp: "length p = ?n" and c1: "content s1 = p @ content s2" by auto
    have "frame_header m = h" unfolding m by (rule frame_header_of_block) (simp_all add: lh lp)
    then show ?thesis using le lp c1 cs m s' by (simp add: wf_message_def frame_def)
  next
    case False
    then have m: "m = \<lparr>m_type = h ! 0, m_id = word_of_nat (be_nat (take 8 (drop 1 h))),
        m_payload = []\<rparr>" and s': "s' = s1"
      using assms h le by (auto simp: ReadMessage_def Let_def split: if_splits)
    have "frame_header m = h"
      unfolding m by (rule frame_header_of_block) (use False lh in simp_all)
    then show ?thesis using cs m s' by (simp add: wf_message_def frame_def)
  qed
qed

lemma read_complete:
  assumes "wf_message m" and "content s = frame m @ rest"
  shows "\<exists>s'. ReadMessage rd s = (Inr m, s') \<and> content s' = rest"
proof -
  have "13 \<le> length (content s)" using assms(2) by (simp add: frame_def)
  then obtain h s1 where h: "rd 13 s = (Inr h, s1)" using rd_enough by blast
  have hh: "h = frame_header m" and c1: "content s1 = m_payload m @ rest"
    using rd_ok [OF h] assms(2) append_eq_append_conv [of h "frame_header m" "content s1"
      "m_payload m @ rest"] by (simp_all add: frame_def)
  note f = header_fields header_id header_len [OF assms(1)]
  have le: "\<not> MaxMessageSize < length (m_payload m)"
    using assms(1) by (simp add: wf_message_def)
  show ?thesis
  proof (cases "m_payload m = []")
    case True
    then show ?thesis using h hh c1 le f
      by (simp add: ReadMessage_def Let_def del: drop_append take_append)
  next
    case False
    then obtain p s2 where p: "rd (length (m_payload m)) s1 = (Inr p, s2)"
      using rd_enough [of "length (m_payload m)" s1] c1 by auto
    then have "p = m_payload m" and "content s2 = rest"
      using rd_ok [OF p] c1 append_eq_append_conv [of p "m_payload m" "content s2" rest]
      by simp_all
    then show ?thesis using False h hh p le f
      by (simp add: ReadMessage_def Let_def)
  qed
qed

end

subsection \<open>A connection as a byte buffer\<close>

text \<open>
  The bytes in flight on one direction of a connection. \<open>io.ReadFull\<close> reports \<open>EOF\<close> when nothing is
  left and \<open>unexpected EOF\<close> when the stream ends inside the block, which it has consumed.
\<close>

definition buf_write :: "bytes \<Rightarrow> bytes \<Rightarrow> err option \<times> bytes" where
  "buf_write b s = (None, s @ b)"

definition read_full :: "nat \<Rightarrow> bytes \<Rightarrow> bytes res \<times> bytes" where
  "read_full n s =
     (if n \<le> length s then (Inr (take n s), drop n s)
      else if s = [] then (Inl ''EOF'', []) else (Inl ''unexpected EOF'', []))"

interpretation buf: byte_stream buf_write read_full "\<lambda>s. s"
  by unfold_locales (auto simp: buf_write_def read_full_def split: if_splits)

fun write_all :: "bytes message list \<Rightarrow> bytes \<Rightarrow> err option \<times> bytes" where
  "write_all [] s = (None, s)"
| "write_all (m # ms) s =
     (case WriteMessage buf_write m s of
        (Some e, s1) \<Rightarrow> (Some e, s1)
      | (None, s1) \<Rightarrow> write_all ms s1)"

text \<open>The read loops of the client and the server: frame after frame until one fails.\<close>

fun read_n :: "nat \<Rightarrow> bytes \<Rightarrow> bytes message list res \<times> bytes" where
  "read_n 0 s = (Inr [], s)"
| "read_n (Suc n) s =
     (case ReadMessage read_full s of
        (Inl e, s1) \<Rightarrow> (Inl e, s1)
      | (Inr m, s1) \<Rightarrow>
          (case read_n n s1 of
             (Inl e, s2) \<Rightarrow> (Inl e, s2)
           | (Inr ms, s2) \<Rightarrow> (Inr (m # ms), s2)))"

lemma buf_write_message: "wf_message m \<Longrightarrow> WriteMessage buf_write m s = (None, s @ frame m)"
  by (auto simp: WriteMessage_def wf_message_def frame_def buf_write_def)

lemma write_all_frames:
  "list_all wf_message ms \<Longrightarrow> write_all ms s = (None, s @ concat (map frame ms))"
  by (induction ms arbitrary: s) (auto simp: buf_write_message)

lemma read_frame: "wf_message m \<Longrightarrow> ReadMessage read_full (frame m @ s) = (Inr m, s)"
  using buf.read_complete [of m "frame m @ s" s] by auto

lemma read_n_frames:
  "list_all wf_message ms \<Longrightarrow> read_n (length ms) (concat (map frame ms) @ s) = (Inr ms, s)"
  by (induction ms) (auto simp: read_frame)

text \<open>
  C38. Framing is exact: reading a frame off the stream succeeds with message \<open>m\<close> leaving
  \<open>rest\<close> precisely when the stream is the frame of \<open>m\<close> followed by \<open>rest\<close> and the payload is
  within 16 MiB. So decoding is the inverse of encoding, encoding is unambiguous, and no frame
  with an oversized length field is ever accepted.
\<close>

theorem ReadMessage_iff:
  "ReadMessage read_full s = (Inr m, rest) \<longleftrightarrow> wf_message m \<and> s = frame m @ rest"
  using buf.read_sound [of s m rest] read_frame [of m rest] by blast

text \<open>
  A peer that writes a sequence of messages and a peer that reads as many frames off the
  same connection agree on the sequence, whatever follows it on the stream: no message is split,
  merged or reordered by the framing.
\<close>

theorem stream_roundtrip:
  assumes "list_all wf_message ms"
  shows "write_all ms [] = (None, concat (map frame ms)) \<and>
    read_n (length ms) (snd (write_all ms []) @ later) = (Inr ms, later)"
  using assms by (simp add: write_all_frames read_n_frames)

theorem stream_roundtrip_witness:
  "read_n 2 (snd (write_all [\<lparr>m_type = MsgSignRequest, m_id = 7, m_payload = [1, 2]\<rparr>,
      \<lparr>m_type = MsgTSSRound, m_id = 0, m_payload = []\<rparr>] []) @ [9]) =
     (Inr [\<lparr>m_type = MsgSignRequest, m_id = 7, m_payload = [1, 2]\<rparr>,
      \<lparr>m_type = MsgTSSRound, m_id = 0, m_payload = []\<rparr>], [9])"
proof -
  let ?ms = "[\<lparr>m_type = MsgSignRequest, m_id = 7, m_payload = [1, 2]\<rparr>,
      \<lparr>m_type = MsgTSSRound, m_id = 0, m_payload = []\<rparr>] :: bytes message list"
  have "list_all wf_message ?ms" by (simp add: wf_message_def MaxMessageSize_def)
  from conjunct2 [OF stream_roundtrip [OF this, of "[9]"]] show ?thesis
    by (simp only: list.size numeral_2_eq_2 add_0_right add_Suc_right One_nat_def append_Nil2)
qed

text \<open>
  A connection that ends inside a frame yields an error and never a message: every proper
  prefix of a frame is rejected, so a truncated sign request cannot be acted on.
\<close>

theorem truncated_frame_rejected:
  assumes "wf_message m" and "k < length (frame m)"
  shows "\<exists>e s'. ReadMessage read_full (take k (frame m)) = (Inl e, s')"
proof -
  obtain r s' where r: "ReadMessage read_full (take k (frame m)) = (r, s')"
    by (cases "ReadMessage read_full (take k (frame m))")
  show ?thesis
  proof (cases r)
    case (Inl e)
    then show ?thesis using r by auto
  next
    case (Inr m')
    with r have t: "wf_message m'" "take k (frame m) = frame m' @ s'"
      using ReadMessage_iff [of "take k (frame m)" m' s'] by auto
    then have "frame m = frame m' @ s' @ drop k (frame m)"
      by (metis append.assoc append_take_drop_id)
    then have "ReadMessage read_full (frame m) = (Inr m', s' @ drop k (frame m))"
      using t(1) read_frame by metis
    moreover have "ReadMessage read_full (frame m) = (Inr m, [])"
      using read_frame [OF assms(1), of "[]"] by simp
    ultimately show ?thesis using assms(2) by simp
  qed
qed

theorem truncated_frame_rejected_witness:
  "\<exists>e s'. ReadMessage read_full (take 14
     (frame \<lparr>m_type = MsgSignReady, m_id = 3, m_payload = [5, 6]\<rparr>)) = (Inl e, s')"
  by (rule truncated_frame_rejected) (simp_all add: wf_message_def MaxMessageSize_def frame_def)

end
