(* ===== verification/Payloads.thy ===== *)
theory Payloads
  imports Wire Encodings
begin

section \<open>The JSON payloads of application messages (internal/transport/protocol.go)\<close>

text \<open>
  The five payload structs with what \<open>json.Marshal\<close> makes of them and what \<open>json.Unmarshal\<close>
  accepts. The lemmas show that every payload is read back as it was sent.
\<close>

record SignRequestPayload =
  rq_To :: "string list option"
  rq_Value :: string
  rq_Data :: string
  rq_DerivationPath :: string
  rq_UnsignedTx :: string
  rq_SignableBytes :: string

record SignResponsePayload =
  rs_Decision :: string
  rs_Reason :: string
  rs_TxID :: string

record SignApprovedPayload =
  sa_TxID :: string
  sa_DerivationPath :: string

record SignReadyPayload =
  sy_TxID :: string
  sy_SignableBytes :: string

record TxStatusResponsePayload =
  ts_TxID :: string
  ts_Status :: string
  ts_Reason :: string
  ts_SignedTx :: string

text \<open>A nil slice of receivers behaves as the empty one except where it is printed or stored.\<close>

definition opt_list :: "'a list option \<Rightarrow> 'a list" where
  "opt_list xs = (case xs of None \<Rightarrow> [] | Some ys \<Rightarrow> ys)"

definition enc_SignRequest :: "SignRequestPayload \<Rightarrow> doc" where
  "enc_SignRequest p = Some (JObj ((''to'', enc_strings (rq_To p)) # omitempty ''value'' (rq_Value p) @
     omitempty ''data'' (rq_Data p) @
     [(''derivationPath'', JStr (rq_DerivationPath p)), (''unsignedTx'', JStr (rq_UnsignedTx p)),
      (''signableBytes'', JStr (rq_SignableBytes p))]))"

definition dec_SignRequest :: "doc \<Rightarrow> SignRequestPayload res" where
  "dec_SignRequest = unmarshal (\<lambda>fs.
     case dec_field dec_strings ''to'' None fs of Inl e \<Rightarrow> Inl e | Inr to \<Rightarrow>
     (case str_field ''value'' [] fs of Inl e \<Rightarrow> Inl e | Inr value \<Rightarrow>
     (case str_field ''data'' [] fs of Inl e \<Rightarrow> Inl e | Inr data \<Rightarrow>
     (case str_field ''derivationPath'' [] fs of Inl e \<Rightarrow> Inl e | Inr path \<Rightarrow>
     (case str_field ''unsignedTx'' [] fs of Inl e \<Rightarrow> Inl e | Inr utx \<Rightarrow>
     (case str_field ''signableBytes'' [] fs of Inl e \<Rightarrow> Inl e | Inr sb \<Rightarrow>
       Inr \<lparr>rq_To = to, rq_Value = value, rq_Data = data, rq_DerivationPath = path,
         rq_UnsignedTx = utx, rq_SignableBytes = sb\<rparr>))))))"

definition enc_SignResponse :: "SignResponsePayload \<Rightarrow> doc" where
  "enc_SignResponse p = Some (JObj ([(''decision'', JStr (rs_Decision p)),
     (''reason'', JStr (rs_Reason p))] @ omitempty ''txId'' (rs_TxID p)))"

definition dec_SignResponse :: "doc \<Rightarrow> SignResponsePayload res" where
  "dec_SignResponse = unmarshal (\<lambda>fs.
     case str_field ''decision'' [] fs of Inl e \<Rightarrow> Inl e | Inr d \<Rightarrow>
     (case str_field ''reason'' [] fs of Inl e \<Rightarrow> Inl e | Inr r \<Rightarrow>
     (case str_field ''txId'' [] fs of Inl e \<Rightarrow> Inl e | Inr t \<Rightarrow>
       Inr \<lparr>rs_Decision = d, rs_Reason = r, rs_TxID = t\<rparr>)))"

definition enc_SignApproved :: "SignApprovedPayload \<Rightarrow> doc" where
  "enc_SignApproved p = Some (JObj [(''txId'', JStr (sa_TxID p)),
     (''derivationPath'', JStr (sa_DerivationPath p))])"

definition dec_SignApproved :: "doc \<Rightarrow> SignApprovedPayload res" where
  "dec_SignApproved = unmarshal (\<lambda>fs.
     case str_field ''txId'' [] fs of Inl e \<Rightarrow> Inl e | Inr t \<Rightarrow>
     (case str_field ''derivationPath'' [] fs of Inl e \<Rightarrow> Inl e | Inr p \<Rightarrow>
       Inr \<lparr>sa_TxID = t, sa_DerivationPath = p\<rparr>))"

definition enc_SignReady :: "SignReadyPayload \<Rightarrow> doc" where
  "enc_SignReady p = Some (JObj [(''txId'', JStr (sy_TxID p)),
     (''signableBytes'', JStr (sy_SignableBytes p))])"

definition dec_SignReady :: "doc \<Rightarrow> SignReadyPayload res" where
  "dec_SignReady = unmarshal (\<lambda>fs.
     case str_field ''txId'' [] fs of Inl e \<Rightarrow> Inl e | Inr t \<Rightarrow>
     (case str_field ''signableBytes'' [] fs of Inl e \<Rightarrow> Inl e | Inr s \<Rightarrow>
       Inr \<lparr>sy_TxID = t, sy_SignableBytes = s\<rparr>))"

definition enc_TxStatusResponse :: "TxStatusResponsePayload \<Rightarrow> doc" where
  "enc_TxStatusResponse p = Some (JObj ([(''txId'', JStr (ts_TxID p)),
     (''status'', JStr (ts_Status p))] @ omitempty ''reason'' (ts_Reason p) @
     omitempty ''signedTx'' (ts_SignedTx p)))"

definition dec_TxStatusResponse :: "doc \<Rightarrow> TxStatusResponsePayload res" where
  "dec_TxStatusResponse = unmarshal (\<lambda>fs.
     case str_field ''txId'' [] fs of Inl e \<Rightarrow> Inl e | Inr t \<Rightarrow>
     (case str_field ''status'' [] fs of Inl e \<Rightarrow> Inl e | Inr s \<Rightarrow>
     (case str_field ''reason'' [] fs of Inl e \<Rightarrow> Inl e | Inr r \<Rightarrow>
     (case str_field ''signedTx'' [] fs of Inl e \<Rightarrow> Inl e | Inr x \<Rightarrow>
       Inr \<lparr>ts_TxID = t, ts_Status = s, ts_Reason = r, ts_SignedTx = x\<rparr>))))"

named_theorems payload_simps "what decoding an encoded field yields"

lemmas [payload_simps] = to_lower_def char_lower_def omitempty_def dec_field_append

lemma dec_strings_enc [simp]: "dec_strings old (enc_strings ss) = Inr ss"
  by (cases ss) (simp_all add: enc_strings_def)

lemma dec_enc_SignRequest [simp]: "dec_SignRequest (enc_SignRequest p) = Inr p"
  by (simp add: dec_SignRequest_def enc_SignRequest_def payload_simps)

lemma dec_enc_SignResponse [simp]: "dec_SignResponse (enc_SignResponse p) = Inr p"
  by (simp add: dec_SignResponse_def enc_SignResponse_def payload_simps)

lemma dec_enc_SignApproved [simp]: "dec_SignApproved (enc_SignApproved p) = Inr p"
  by (simp add: dec_SignApproved_def enc_SignApproved_def payload_simps)

lemma dec_enc_SignReady [simp]: "dec_SignReady (enc_SignReady p) = Inr p"
  by (simp add: dec_SignReady_def enc_SignReady_def payload_simps)

lemma dec_enc_TxStatusResponse [simp]: "dec_TxStatusResponse (enc_TxStatusResponse p) = Inr p"
  by (simp add: dec_TxStatusResponse_def enc_TxStatusResponse_def payload_simps)

text \<open>
  Payloads survive the wire: each of the five application payloads is decoded by the receiver
  exactly as the sender encoded it, empty optional fields and a missing list of receivers included.
\<close>

theorem payload_roundtrip:
  "dec_SignRequest (enc_SignRequest a) = Inr a \<and> dec_SignResponse (enc_SignResponse b) = Inr b \<and>
   dec_SignApproved (enc_SignApproved c) = Inr c \<and> dec_SignReady (enc_SignReady d) = Inr d \<and>
   dec_TxStatusResponse (enc_TxStatusResponse e) = Inr e"
  by simp

end
