(* ===== verification/Store.thy ===== *)
theory Store
  imports Tss
begin

section \<open>Persistence (internal/store)\<close>

text \<open>
  The records of \<open>store.go\<close> and the operations of \<open>PostgresStore\<close>. A table is the list of its rows
  in insertion order, with the primary key in the row; the locale \<open>keyed_table\<close> states what the
  operations rely on of \<open>INSERT ... ON CONFLICT\<close>, \<open>SELECT\<close> and \<open>DELETE\<close> by primary key, and each
  table of the schema interprets it. Every statement may fail in the database: the argument \<open>db\<close>
  is \<open>Some\<close> error then and the state is unchanged. AES-256-GCM is the pair \<open>seal\<close>, \<open>open\<close> of the
  argument \<open>aead\<close>; a nonce is what the random source delivered. Times are numbers.
\<close>

subsection \<open>Tables\<close>

fun upsert :: "('v \<Rightarrow> 'k) \<Rightarrow> ('v \<Rightarrow> 'v \<Rightarrow> 'v) \<Rightarrow> 'v \<Rightarrow> 'v list \<Rightarrow> 'v list" where
  "upsert key merge v [] = [v]"
| "upsert key merge v (r # rs) =
     (if key r = key v then merge v r # rs else r # upsert key merge v rs)"

definition select :: "('v \<Rightarrow> 'k) \<Rightarrow> 'k \<Rightarrow> 'v list \<Rightarrow> 'v option" where
  "select key k t = find (\<lambda>r. key r = k) t"

definition delete :: "('v \<Rightarrow> 'k) \<Rightarrow> 'k \<Rightarrow> 'v list \<Rightarrow> 'v list" where
  "delete key k t = filter (\<lambda>r. key r \<noteq> k) t"

definition update :: "('v \<Rightarrow> 'k) \<Rightarrow> 'k \<Rightarrow> ('v \<Rightarrow> 'v) \<Rightarrow> 'v list \<Rightarrow> 'v list" where
  "update key k f t = map (\<lambda>r. if key r = k then f r else r) t"

definition wf_table :: "('v \<Rightarrow> 'k) \<Rightarrow> 'v list \<Rightarrow> bool" where
  "wf_table key t \<longleftrightarrow> distinct (map key t)"

locale keyed_table =
  fixes key :: "'v \<Rightarrow> 'k"
    and get :: "'k \<Rightarrow> 't \<Rightarrow> 'v option"
    and put :: "'v \<Rightarrow> 't \<Rightarrow> 't"
    and del :: "'k \<Rightarrow> 't \<Rightarrow> 't"
    and merge :: "'v \<Rightarrow> 'v \<Rightarrow> 'v"
    and wf :: "'t \<Rightarrow> bool"
  assumes merge_key: "key (merge v r) = key r"
    and get_key: "get k t = Some r \<Longrightarrow> key r = k"
    and get_put: "get k (put v t) =
      (if k = key v then Some (case get k t of None \<Rightarrow> v | Some r \<Rightarrow> merge v r) else get k t)"
    and get_del: "get k (del k' t) = (if k = k' then None else get k t)"
    and wf_put: "wf t \<Longrightarrow> wf (put v t)"
    and wf_del: "wf t \<Longrightarrow> wf (del k t)"
begin

lemma get_put_same: "get (key v) (put v t) \<noteq> None"
  by (simp add: get_put)

lemma get_put_other: "k \<noteq> key v \<Longrightarrow> get k (put v t) = get k t"
  by (simp add: get_put)

lemma get_put_fresh: "get (key v) t = None \<Longrightarrow> get (key v) (put v t) = Some v"
  by (simp add: get_put)

lemma put_after_del: "get (key v) (put v (del (key v) t)) = Some v"
  by (simp add: get_put get_del)

lemma get_put_put:
  "key v = key w \<Longrightarrow> get (key w) (put w (put v t)) =
     Some (merge w (case get (key v) t of None \<Rightarrow> v | Some r \<Rightarrow> merge v r))"
  by (simp add: get_put)

end

lemma find_upsert:
  assumes "\<And>v r. key (merge v r) = key r"
  shows "select key k (upsert key merge v t) =
    (if k = key v then Some (case select key k t of None \<Rightarrow> v | Some r \<Rightarrow> merge v r)
     else select key k t)"
  by (induction t) (auto simp: select_def assms)

lemma select_delete: "select key k (delete key k' t) = (if k = k' then None else select key k t)"
  by (induction t) (auto simp: select_def delete_def)

lemma keys_upsert:
  assumes "\<And>v r. key (merge v r) = key r"
  shows "key ` set (upsert key merge v t) = insert (key v) (key ` set t)"
  by (induction t) (auto simp: assms)

lemma wf_upsert:
  assumes "\<And>v r. key (merge v r) = key r" and "wf_table key t"
  shows "wf_table key (upsert key merge v t)"
  using assms(2)
proof (induction t)
  case Nil
  then show ?case by (simp add: wf_table_def)
next
  case (Cons r t)
  have "key r \<notin> key ` set (upsert key merge v t)" if "key r \<noteq> key v"
    using that Cons.prems keys_upsert [of key merge v t, OF assms(1)] by (auto simp: wf_table_def)
  then show ?case using Cons assms(1) by (auto simp: wf_table_def)
qed

lemma wf_delete: "wf_table key t \<Longrightarrow> wf_table key (delete key k t)"
  by (auto simp: wf_table_def delete_def distinct_map_filter)

lemma select_update:
  assumes "\<And>r. key (f r) = key r"
  shows "select key k (update key k' f t) =
    (if k = k' then map_option f (select key k t) else select key k t)"
  by (induction t) (auto simp: select_def update_def assms)

lemma wf_update:
  assumes "\<And>r. key (f r) = key r" and "wf_table key t"
  shows "wf_table key (update key k f t)"
proof -
  have "map key (update key k f t) = map key t" by (simp add: update_def assms(1))
  then show ?thesis using assms(2) by (simp add: wf_table_def)
qed

lemma list_table_laws:
  assumes "\<And>v r. key (merge v r) = key r"
  shows "keyed_table key (select key) (upsert key merge) (delete key) merge (wf_table key)"
proof
  fix k t and r :: 'a
  assume "select key k t = Some r"
  then show "key r = k" by (auto simp: select_def find_Some_iff)
qed (use assms in \<open>auto simp: find_upsert select_delete wf_upsert wf_delete\<close>)

subsection \<open>The records\<close>

record DerivedKeyRecord =
  dr_DerivationPath :: string
  dr_Curve :: Curve
  dr_PublicKey :: bytes
  dr_Address :: string
  dr_Label :: string
  dr_Share :: bytes
  dr_CreatedAt :: int

type_synonym TxStatus = string

definition TxStatusPending :: TxStatus where "TxStatusPending = ''pending_review''"
definition TxStatusApproved :: TxStatus where "TxStatusApproved = ''approved''"
definition TxStatusRejected :: TxStatus where "TxStatusRejected = ''rejected''"
definition TxStatusSigned :: TxStatus where "TxStatusSigned = ''signed''"

lemmas tx_status_defs = TxStatusPending_def TxStatusApproved_def TxStatusRejected_def
  TxStatusSigned_def

text \<open>\<open>To\<close> and the two byte columns may be nil.\<close>

record TxRecord =
  tr_ID :: string
  tr_DerivationPath :: string
  tr_To :: "string list option"
  tr_Value :: string
  tr_Data :: string
  tr_UnsignedTx :: "bytes option"
  tr_SignedTx :: "bytes option"
  tr_Status :: TxStatus
  tr_Reason :: string
  tr_CreatedAt :: int
  tr_UpdatedAt :: int

record TxFilter =
  tf_Status :: "TxStatus option"
  tf_DerivationPath :: "string option"
  tf_Limit :: int
  tf_Offset :: int

record WhitelistEntry =
  we_Address :: string
  we_Label :: string
  we_AddedAt :: int

record db =
  db_master :: "KeyShare list"
  db_keys :: "DerivedKeyRecord list"
  db_txs :: "TxRecord list"
  db_whitelist :: "WhitelistEntry list"

definition db_empty :: db where
  "db_empty = \<lparr>db_master = [], db_keys = [], db_txs = [], db_whitelist = []\<rparr>"

definition wf_db :: "db \<Rightarrow> bool" where
  "wf_db d \<longleftrightarrow> wf_table ks_Curve (db_master d) \<and> wf_table dr_DerivationPath (db_keys d) \<and>
     wf_table tr_ID (db_txs d) \<and> wf_table we_Address (db_whitelist d)"

text \<open>The \<open>ON CONFLICT ... DO UPDATE SET\<close> clauses: the new row and the row in the table.\<close>

definition merge_master :: "KeyShare \<Rightarrow> KeyShare \<Rightarrow> KeyShare" where
  "merge_master v r = r\<lparr>ks_PartyID := ks_PartyID v, ks_Share := ks_Share v,
     ks_PublicKey := ks_PublicKey v, ks_ChainCode := ks_ChainCode v\<rparr>"

definition merge_key :: "DerivedKeyRecord \<Rightarrow> DerivedKeyRecord \<Rightarrow> DerivedKeyRecord" where
  "merge_key v r = r\<lparr>dr_PublicKey := dr_PublicKey v, dr_Address := dr_Address v,
     dr_Label := dr_Label v, dr_Share := dr_Share v\<rparr>"

definition merge_tx :: "TxRecord \<Rightarrow> TxRecord \<Rightarrow> TxRecord" where
  "merge_tx v r = r\<lparr>tr_Status := tr_Status v, tr_SignedTx := tr_SignedTx v,
     tr_Reason := tr_Reason v, tr_UpdatedAt := tr_UpdatedAt v\<rparr>"

definition merge_whitelist :: "WhitelistEntry \<Rightarrow> WhitelistEntry \<Rightarrow> WhitelistEntry" where
  "merge_whitelist v r = r\<lparr>we_Label := we_Label v\<rparr>"

interpretation master_table: keyed_table ks_Curve "select ks_Curve" "upsert ks_Curve merge_master"
    "delete ks_Curve" merge_master "wf_table ks_Curve"
  by (rule list_table_laws) (simp add: merge_master_def)

interpretation key_table: keyed_table dr_DerivationPath "select dr_DerivationPath"
    "upsert dr_DerivationPath merge_key" "delete dr_DerivationPath" merge_key
    "wf_table dr_DerivationPath"
  by (rule list_table_laws) (simp add: merge_key_def)

interpretation tx_table: keyed_table tr_ID "select tr_ID" "upsert tr_ID merge_tx" "delete tr_ID"
    merge_tx "wf_table tr_ID"
  by (rule list_table_laws) (simp add: merge_tx_def)

interpretation whitelist_table: keyed_table we_Address "select we_Address"
    "upsert we_Address merge_whitelist" "delete we_Address" merge_whitelist "wf_table we_Address"
  by (rule list_table_laws) (simp add: merge_whitelist_def)

subsection \<open>Encryption of shares\<close>

text \<open>\<open>seal key nonce plaintext\<close> and \<open>open key nonce ciphertext\<close>, for a 32-byte key and a 12-byte nonce.\<close>

record aead =
  ae_seal :: "bytes \<Rightarrow> bytes \<Rightarrow> bytes \<Rightarrow> bytes"
  ae_open :: "bytes \<Rightarrow> bytes \<Rightarrow> bytes \<Rightarrow> bytes res"

definition NonceSize :: nat where "NonceSize = 12"

text \<open>What AES-GCM documents: opening with the same key and nonce gives the plaintext back.\<close>

definition aead_laws :: "aead \<Rightarrow> bytes \<Rightarrow> bool" where
  "aead_laws A key \<longleftrightarrow>
     (\<forall>n p. length n = NonceSize \<longrightarrow> ae_open A key n (ae_seal A key n p) = Inr p)"

text \<open>\<open>pbkdf2\<close> gets passphrase, salt, iterations and key length.\<close>

definition deriveKey :: "(bytes \<Rightarrow> bytes \<Rightarrow> nat \<Rightarrow> nat \<Rightarrow> bytes) \<Rightarrow> string \<Rightarrow> bytes" where
  "deriveKey pbkdf2 passphrase =
     pbkdf2 (str_bytes passphrase) (str_bytes ''crypto-claw-v1'') 600000 32"

text \<open>\<open>nonce\<close> is the outcome of reading the random source.\<close>

definition encrypt :: "aead \<Rightarrow> bytes \<Rightarrow> bytes res \<Rightarrow> bytes \<Rightarrow> bytes res" where
  "encrypt A encKey nonce plaintext =
     (case nonce of Inl e \<Rightarrow> Inl e | Inr n \<Rightarrow> Inr (n @ ae_seal A encKey n plaintext))"

definition decrypt :: "aead \<Rightarrow> bytes \<Rightarrow> bytes \<Rightarrow> bytes res" where
  "decrypt A encKey ciphertext =
     (if length ciphertext < NonceSize then Inl ''ciphertext too short''
      else ae_open A encKey (take NonceSize ciphertext) (drop NonceSize ciphertext))"

lemma decrypt_encrypt:
  assumes "aead_laws A k" and "length n = NonceSize" and "encrypt A k (Inr n) p = Inr c"
  shows "decrypt A k c = Inr p"
  using assms by (auto simp: encrypt_def decrypt_def aead_laws_def)

subsection \<open>Key shares and derived keys\<close>

type_synonym dbres = "err option"

definition no_rows :: err where "no_rows = ''no rows in result set''"

definition SaveMasterShare :: "aead \<Rightarrow> bytes \<Rightarrow> bytes res \<Rightarrow> dbres \<Rightarrow> KeyShare \<Rightarrow> db \<Rightarrow>
    err option \<times> db" where
  "SaveMasterShare A encKey nonce dbr share d =
     (case encrypt A encKey nonce (ks_Share share) of
        Inl e \<Rightarrow> (Some (wrap_err ''encrypt share'' e), d)
      | Inr c \<Rightarrow> (case dbr of
          Some e \<Rightarrow> (Some e, d)
        | None \<Rightarrow> (None, d\<lparr>db_master :=
            upsert ks_Curve merge_master (share\<lparr>ks_Share := c\<rparr>) (db_master d)\<rparr>)))"

definition GetMasterShare :: "aead \<Rightarrow> bytes \<Rightarrow> dbres \<Rightarrow> Curve \<Rightarrow> db \<Rightarrow> KeyShare res" where
  "GetMasterShare A encKey dbr curve d =
     (case (case dbr of Some e \<Rightarrow> Inl e | None \<Rightarrow>
              (case select ks_Curve curve (db_master d) of None \<Rightarrow> Inl no_rows | Some r \<Rightarrow> Inr r)) of
        Inl e \<Rightarrow> Inl (wrap_err ''get master share'' e)
      | Inr r \<Rightarrow> (case decrypt A encKey (ks_Share r) of
          Inl e \<Rightarrow> Inl (wrap_err ''decrypt share'' e)
        | Inr share \<Rightarrow> Inr \<lparr>ks_Curve = curve, ks_PartyID = ks_PartyID r, ks_Share = share,
            ks_PublicKey = ks_PublicKey r, ks_ChainCode = ks_ChainCode r\<rparr>))"

definition SaveDerivedKey :: "aead \<Rightarrow> bytes \<Rightarrow> bytes res \<Rightarrow> dbres \<Rightarrow> DerivedKeyRecord \<Rightarrow> db \<Rightarrow>
    err option \<times> db" where
  "SaveDerivedKey A encKey nonce dbr key d =
     (case encrypt A encKey nonce (dr_Share key) of
        Inl e \<Rightarrow> (Some (wrap_err ''encrypt derived key share'' e), d)
      | Inr c \<Rightarrow> (case dbr of
          Some e \<Rightarrow> (Some e, d)
        | None \<Rightarrow> (None, d\<lparr>db_keys :=
            upsert dr_DerivationPath merge_key (key\<lparr>dr_Share := c\<rparr>) (db_keys d)\<rparr>)))"

definition GetDerivedKey :: "aead \<Rightarrow> bytes \<Rightarrow> dbres \<Rightarrow> string \<Rightarrow> db \<Rightarrow> DerivedKeyRecord res" where
  "GetDerivedKey A encKey dbr path d =
     (case (case dbr of Some e \<Rightarrow> Inl e | None \<Rightarrow>
              (case select dr_DerivationPath path (db_keys d) of
                 None \<Rightarrow> Inl no_rows | Some r \<Rightarrow> Inr r)) of
        Inl e \<Rightarrow> Inl (wrap_err ''get derived key'' e)
      | Inr r \<Rightarrow> (case decrypt A encKey (dr_Share r) of
          Inl e \<Rightarrow> Inl (wrap_err ''decrypt derived key share'' e)
        | Inr share \<Rightarrow> Inr (r\<lparr>dr_DerivationPath := path, dr_Share := share\<rparr>)))"

fun decrypt_rows :: "aead \<Rightarrow> bytes \<Rightarrow> DerivedKeyRecord list \<Rightarrow> DerivedKeyRecord list res" where
  "decrypt_rows A encKey [] = Inr []"
| "decrypt_rows A encKey (r # rs) =
     (case decrypt A encKey (dr_Share r) of
        Inl e \<Rightarrow> Inl (wrap_err ''decrypt derived key'' e)
      | Inr share \<Rightarrow> (case decrypt_rows A encKey rs of
          Inl e \<Rightarrow> Inl e
        | Inr ks \<Rightarrow> Inr (r\<lparr>dr_Share := share\<rparr> # ks)))"

text \<open>\<open>ORDER BY created_at\<close>; rows of the same time may come in any order, here in insertion order.\<close>

definition ListDerivedKeys :: "aead \<Rightarrow> bytes \<Rightarrow> dbres \<Rightarrow> db \<Rightarrow> DerivedKeyRecord list res" where
  "ListDerivedKeys A encKey dbr d =
     (case dbr of
        Some e \<Rightarrow> Inl (wrap_err ''list derived keys'' e)
      | None \<Rightarrow> decrypt_rows A encKey (sort_key dr_CreatedAt (db_keys d)))"

definition UpdateLabel :: "dbres \<Rightarrow> string \<Rightarrow> string \<Rightarrow> db \<Rightarrow> err option \<times> db" where
  "UpdateLabel dbr path label d =
     (case dbr of
        Some e \<Rightarrow> (Some e, d)
      | None \<Rightarrow>
          if select dr_DerivationPath path (db_keys d) = None
          then (Some (''derived key not found: '' @ path), d)
          else (None, d\<lparr>db_keys :=
            update dr_DerivationPath path (\<lambda>r. r\<lparr>dr_Label := label\<rparr>) (db_keys d)\<rparr>))"

definition ClearDerivedKeys :: "dbres \<Rightarrow> db \<Rightarrow> err option \<times> db" where
  "ClearDerivedKeys dbr d =
     (case dbr of Some e \<Rightarrow> (Some e, d) | None \<Rightarrow> (None, d\<lparr>db_keys := []\<rparr>))"

subsection \<open>Transactions\<close>

definition not_null_err :: err where
  "not_null_err = ''null value in column to_addrs violates not-null constraint''"

definition SaveTx :: "dbres \<Rightarrow> TxRecord \<Rightarrow> db \<Rightarrow> err option \<times> db" where
  "SaveTx dbr tx d =
     (case dbr of
        Some e \<Rightarrow> (Some e, d)
      | None \<Rightarrow>
          if tr_To tx = None then (Some not_null_err, d)
          else (None, d\<lparr>db_txs := upsert tr_ID merge_tx tx (db_txs d)\<rparr>))"

definition GetTx :: "dbres \<Rightarrow> string \<Rightarrow> db \<Rightarrow> TxRecord res" where
  "GetTx dbr txID d =
     (case dbr of
        Some e \<Rightarrow> Inl (wrap_err ''get transaction'' e)
      | None \<Rightarrow> (case select tr_ID txID (db_txs d) of
          None \<Rightarrow> Inl (wrap_err ''get transaction'' no_rows)
        | Some tx \<Rightarrow> Inr tx))"

text \<open>\<open>now\<close> is the database clock.\<close>

definition UpdateTxStatus :: "dbres \<Rightarrow> int \<Rightarrow> string \<Rightarrow> TxStatus \<Rightarrow> bytes option \<Rightarrow> db \<Rightarrow>
    err option \<times> db" where
  "UpdateTxStatus dbr now txID status signedTx d =
     (case dbr of
        Some e \<Rightarrow> (Some e, d)
      | None \<Rightarrow>
          if select tr_ID txID (db_txs d) = None
          then (Some (''transaction not found: '' @ txID), d)
          else (None, d\<lparr>db_txs := update tr_ID txID
            (\<lambda>r. r\<lparr>tr_Status := status, tr_SignedTx := signedTx, tr_UpdatedAt := now\<rparr>)
            (db_txs d)\<rparr>))"

definition ListTxs :: "dbres \<Rightarrow> TxFilter \<Rightarrow> db \<Rightarrow> TxRecord list res" where
  "ListTxs dbr filt d =
     (case dbr of
        Some e \<Rightarrow> Inl (wrap_err ''list transactions'' e)
      | None \<Rightarrow>
          let rows = filter (\<lambda>r. case tf_Status filt of None \<Rightarrow> True | Some s \<Rightarrow> tr_Status r = s) (db_txs d);
              rows = filter (\<lambda>r. case tf_DerivationPath filt of None \<Rightarrow> True
                                 | Some p \<Rightarrow> tr_DerivationPath r = p) rows;
              rows = sort_key (\<lambda>r. - tr_CreatedAt r) rows;
              rows = (if 0 < tf_Offset filt then drop (nat (tf_Offset filt)) rows else rows)
          in Inr (if 0 < tf_Limit filt then take (nat (tf_Limit filt)) rows else rows))"

definition DeleteTx :: "dbres \<Rightarrow> string \<Rightarrow> db \<Rightarrow> err option \<times> db" where
  "DeleteTx dbr txID d =
     (case dbr of
        Some e \<Rightarrow> (Some e, d)
      | None \<Rightarrow>
          if select tr_ID txID (db_txs d) = None
          then (Some (''transaction not found: '' @ txID), d)
          else (None, d\<lparr>db_txs := delete tr_ID txID (db_txs d)\<rparr>))"

subsection \<open>The whitelist\<close>

definition AddWhitelistEntry :: "dbres \<Rightarrow> WhitelistEntry \<Rightarrow> db \<Rightarrow> err option \<times> db" where
  "AddWhitelistEntry dbr entry d =
     (case dbr of
        Some e \<Rightarrow> (Some e, d)
      | None \<Rightarrow> (None, d\<lparr>db_whitelist := upsert we_Address merge_whitelist
          (entry\<lparr>we_Address := to_lower (we_Address entry)\<rparr>) (db_whitelist d)\<rparr>))"

definition RemoveWhitelistEntry :: "dbres \<Rightarrow> string \<Rightarrow> db \<Rightarrow> err option \<times> db" where
  "RemoveWhitelistEntry dbr address d =
     (case dbr of
        Some e \<Rightarrow> (Some e, d)
      | None \<Rightarrow> (None, d\<lparr>db_whitelist := delete we_Address (to_lower address) (db_whitelist d)\<rparr>))"

definition IsWhitelisted :: "dbres \<Rightarrow> string \<Rightarrow> db \<Rightarrow> bool res" where
  "IsWhitelisted dbr address d =
     (case dbr of
        Some e \<Rightarrow> Inl e
      | None \<Rightarrow> Inr (select we_Address (to_lower address) (db_whitelist d) \<noteq> None))"

definition GetWhitelistEntry :: "dbres \<Rightarrow> string \<Rightarrow> db \<Rightarrow> WhitelistEntry res" where
  "GetWhitelistEntry dbr address d =
     (case dbr of
        Some e \<Rightarrow> Inl e
      | None \<Rightarrow> (case select we_Address (to_lower address) (db_whitelist d) of
          None \<Rightarrow> Inl no_rows | Some e \<Rightarrow> Inr e))"

definition ListWhitelist :: "dbres \<Rightarrow> db \<Rightarrow> WhitelistEntry list res" where
  "ListWhitelist dbr d =
     (case dbr of Some e \<Rightarrow> Inl e | None \<Rightarrow> Inr (sort_key we_AddedAt (db_whitelist d)))"

lemmas write_ops = SaveMasterShare_def SaveDerivedKey_def UpdateLabel_def ClearDerivedKeys_def
  SaveTx_def UpdateTxStatus_def DeleteTx_def AddWhitelistEntry_def RemoveWhitelistEntry_def

subsection \<open>What the store promises\<close>

text \<open>The statements a server can issue, whatever their outcome.\<close>

inductive db_step :: "aead \<Rightarrow> bytes \<Rightarrow> db \<Rightarrow> db \<Rightarrow> bool" for A key where
  "db_step A key d (snd (SaveMasterShare A key nonce dbr share d))"
| "db_step A key d (snd (SaveDerivedKey A key nonce dbr rec d))"
| "db_step A key d (snd (UpdateLabel dbr path label d))"
| "db_step A key d (snd (ClearDerivedKeys dbr d))"
| "db_step A key d (snd (SaveTx dbr tx d))"
| "db_step A key d (snd (UpdateTxStatus dbr now txID status stx d))"
| "db_step A key d (snd (DeleteTx dbr txID d))"
| "db_step A key d (snd (AddWhitelistEntry dbr entry d))"
| "db_step A key d (snd (RemoveWhitelistEntry dbr address d))"

inductive db_reach :: "aead \<Rightarrow> bytes \<Rightarrow> db \<Rightarrow> bool" for A key where
  db_reach_empty: "db_reach A key db_empty"
| db_reach_step: "db_reach A key d \<Longrightarrow> db_step A key d d' \<Longrightarrow> db_reach A key d'"

definition db_inv :: "db \<Rightarrow> bool" where
  "db_inv d \<longleftrightarrow> wf_db d \<and> (\<forall>e \<in> set (db_whitelist d). to_lower (we_Address e) = we_Address e) \<and>
     (\<forall>t \<in> set (db_txs d). tr_To t \<noteq> None)"

lemma set_upsert: "set (upsert key merge v t) \<subseteq> insert v (merge v ` set t \<union> set t)"
  by (induction t) auto

lemma db_step_inv: "db_step A key d d' \<Longrightarrow> db_inv d \<Longrightarrow> db_inv d'"
proof (induction rule: db_step.induct)
  case (5 d dbr tx)
  have "tr_To t \<noteq> None" if "t \<in> set (upsert tr_ID merge_tx tx (db_txs d))" "tr_To tx \<noteq> None"
    "\<forall>t \<in> set (db_txs d). tr_To t \<noteq> None" for t
    using set_upsert [of tr_ID merge_tx tx "db_txs d"] that by (auto simp: merge_tx_def)
  with 5 show ?case
    by (auto simp: db_inv_def wf_db_def write_ops tx_table.wf_put split: option.splits)
next
  case (8 d dbr entry)
  let ?e = "entry\<lparr>we_Address := to_lower (we_Address entry)\<rparr>"
  have "to_lower (we_Address x) = we_Address x"
    if "x \<in> set (upsert we_Address merge_whitelist ?e (db_whitelist d))"
    "\<forall>e \<in> set (db_whitelist d). to_lower (we_Address e) = we_Address e" for x
    using set_upsert [of we_Address merge_whitelist ?e "db_whitelist d"] that
    by (auto simp: merge_whitelist_def)
  with 8 show ?case
    by (auto simp: db_inv_def wf_db_def write_ops whitelist_table.wf_put split: option.splits)
next
  case (6 d dbr now txID status stx)
  have "tr_To t \<noteq> None"
    if "t \<in> set (update tr_ID txID (\<lambda>r. r\<lparr>tr_Status := status, tr_SignedTx := stx,
      tr_UpdatedAt := now\<rparr>) (db_txs d))" "\<forall>t \<in> set (db_txs d). tr_To t \<noteq> None" for t
    using that by (auto simp: update_def)
  with 6 show ?case
    by (auto simp: db_inv_def wf_db_def write_ops wf_update split: option.splits)
next
  case (3 d dbr path label)
  then show ?case
    by (auto simp: db_inv_def wf_db_def write_ops wf_update split: option.splits)
qed (auto simp: db_inv_def wf_db_def write_ops master_table.wf_put key_table.wf_put wf_delete
      wf_table_def [of _ "[]"] delete_def [of we_Address] delete_def [of tr_ID]
      intro: wf_delete [unfolded delete_def] split: option.splits sum.splits)

lemma db_reach_inv: "db_reach A key d \<Longrightarrow> db_inv d"
proof (induction rule: db_reach.induct)
  case db_reach_empty
  then show ?case by (simp add: db_inv_def wf_db_def db_empty_def wf_table_def)
qed (rule db_step_inv)

text \<open>
  C33. The database stays well formed under every sequence of statements, failed ones included: no
  table holds two rows with one primary key, every whitelist row is stored in lower case (so the
  case-insensitive lookups are complete), and every transaction has its list of receivers.
\<close>

theorem database_invariant:
  assumes "db_reach A key d"
  shows "wf_db d \<and> (\<forall>e \<in> set (db_whitelist d). to_lower (we_Address e) = we_Address e) \<and>
    (\<forall>t \<in> set (db_txs d). tr_To t \<noteq> None)"
  using db_reach_inv [OF assms] by (simp add: db_inv_def)

definition toy_aead :: aead where
  "toy_aead = \<lparr>ae_seal = (\<lambda>k n p. p @ [7]), ae_open = (\<lambda>k n c. Inr (butlast c))\<rparr>"

lemma toy_aead_laws: "aead_laws toy_aead k"
  by (simp add: aead_laws_def toy_aead_def)

definition toy_entry :: WhitelistEntry where
  "toy_entry = \<lparr>we_Address = ''0xAB'', we_Label = ''treasury'', we_AddedAt = 1\<rparr>"

theorem database_invariant_witness:
  "wf_db (snd (AddWhitelistEntry None toy_entry db_empty)) \<and>
   map we_Address (db_whitelist (snd (AddWhitelistEntry None toy_entry db_empty))) = [to_lower ''0xAB'']"
proof -
  let ?d = "snd (AddWhitelistEntry None toy_entry db_empty)"
  have "db_reach toy_aead [] ?d"
    by (blast intro: db_reach_empty db_reach_step db_step.intros)
  from database_invariant [OF this] have "wf_db ?d" by blast
  then show ?thesis
    by (simp add: AddWhitelistEntry_def db_empty_def toy_entry_def)
qed

text \<open>The whitelist as a set of addresses in lower case, and what a command does to it.\<close>

datatype wl_command = WAdd WhitelistEntry | WRemove string

fun wl_run :: "wl_command list \<Rightarrow> db \<Rightarrow> db" where
  "wl_run [] d = d"
| "wl_run (WAdd e # cs) d = wl_run cs (snd (AddWhitelistEntry None e d))"
| "wl_run (WRemove a # cs) d = wl_run cs (snd (RemoveWhitelistEntry None a d))"

fun wl_spec :: "wl_command list \<Rightarrow> string set \<Rightarrow> string set" where
  "wl_spec [] S = S"
| "wl_spec (WAdd e # cs) S = wl_spec cs (insert (to_lower (we_Address e)) S)"
| "wl_spec (WRemove a # cs) S = wl_spec cs (S - {to_lower a})"

definition wl_abs :: "db \<Rightarrow> string set" where
  "wl_abs d = we_Address ` set (db_whitelist d)"

lemma select_some_iff: "select key k t \<noteq> None \<longleftrightarrow> k \<in> key ` set t"
  by (induction t) (auto simp: select_def)

lemma wl_abs_add: "wl_abs (snd (AddWhitelistEntry None e d)) = insert (to_lower (we_Address e)) (wl_abs d)"
  by (simp add: wl_abs_def AddWhitelistEntry_def merge_whitelist_def keys_upsert)

lemma wl_abs_remove: "wl_abs (snd (RemoveWhitelistEntry None a d)) = wl_abs d - {to_lower a}"
  by (auto simp: wl_abs_def RemoveWhitelistEntry_def delete_def)

lemma wl_abs_run: "wl_abs (wl_run cs d) = wl_spec cs (wl_abs d)"
  by (induction cs d rule: wl_run.induct) (simp_all add: wl_abs_add wl_abs_remove)

lemma IsWhitelisted_abs: "IsWhitelisted None a d = Inr (to_lower a \<in> wl_abs d)"
  by (simp add: IsWhitelisted_def select_some_iff wl_abs_def del: not_None_eq)

text \<open>
  The whitelist table implements a set of addresses without regard to case: after any sequence
  of additions and removals an address is reported as whitelisted exactly when, in lower case, it
  was added after it was last removed. An address approved in one spelling is approved in all, and a
  removed address is gone in every spelling.
\<close>

theorem whitelist_refines_set:
  "IsWhitelisted None a (wl_run cs d) = Inr (to_lower a \<in> wl_spec cs (wl_abs d))"
  by (simp add: IsWhitelisted_abs wl_abs_run)

text \<open>
  A key share survives storage: whatever was stored before, reading back the share just saved
  for a curve gives the same share, public key, chain code and party, provided the cipher opens what
  it sealed; and shares of other curves are untouched.
\<close>

theorem master_share_roundtrip:
  assumes "aead_laws A k" and "length n = NonceSize"
    and "SaveMasterShare A k (Inr n) None share d = (None, d')"
  shows "GetMasterShare A k None (ks_Curve share) d' = Inr share \<and>
    (\<forall>c. c \<noteq> ks_Curve share \<longrightarrow> GetMasterShare A k None c d' = GetMasterShare A k None c d)"
proof -
  let ?row = "share\<lparr>ks_Share := n @ ae_seal A k n (ks_Share share)\<rparr>"
  have d': "d' = d\<lparr>db_master := upsert ks_Curve merge_master ?row (db_master d)\<rparr>"
    using assms(3) by (auto simp: SaveMasterShare_def encrypt_def)
  have dec: "decrypt A k (n @ ae_seal A k n (ks_Share share)) = Inr (ks_Share share)"
    using decrypt_encrypt [OF assms(1,2)] by (simp add: encrypt_def)
  obtain r where r: "select ks_Curve (ks_Curve share) (db_master d') = Some r"
    "ks_Share r = n @ ae_seal A k n (ks_Share share)" "ks_PartyID r = ks_PartyID share"
    "ks_PublicKey r = ks_PublicKey share" "ks_ChainCode r = ks_ChainCode share"
    using master_table.get_put [of "ks_Curve share" ?row "db_master d"]
    by (auto simp: d' merge_master_def split: option.splits)
  have "GetMasterShare A k None c d' = GetMasterShare A k None c d" if "c \<noteq> ks_Curve share" for c
    using master_table.get_put_other [of c ?row "db_master d"] that
    by (simp add: GetMasterShare_def d')
  then show ?thesis using r dec by (simp add: GetMasterShare_def)
qed

theorem master_share_roundtrip_witness:
  "GetMasterShare toy_aead [1] None CurveSecp256k1
     (snd (SaveMasterShare toy_aead [1] (Inr (replicate 12 0)) None demo_share db_empty)) =
   Inr demo_share"
proof -
  let ?n = "replicate 12 0 :: bytes"
  have "SaveMasterShare toy_aead [1] (Inr ?n) None demo_share db_empty =
      (None, snd (SaveMasterShare toy_aead [1] (Inr ?n) None demo_share db_empty))"
    by (simp add: SaveMasterShare_def encrypt_def)
  from master_share_roundtrip [OF toy_aead_laws _ this] show ?thesis
    by (simp add: NonceSize_def demo_share_def)
qed

text \<open>
  Writing a transaction's status touches only that transaction: afterwards it has the given
  status and signature and all its other fields as before, and every other transaction is unchanged.
  An unknown transaction is reported and nothing is written. A nil signature erases a stored one.
\<close>

theorem UpdateTxStatus_exact:
  "case GetTx None txID d of
     Inr tx \<Rightarrow>
       (\<exists>d'. UpdateTxStatus None now txID status stx d = (None, d') \<and>
         GetTx None txID d' = Inr (tx\<lparr>tr_Status := status, tr_SignedTx := stx, tr_UpdatedAt := now\<rparr>) \<and>
         (\<forall>x. x = txID \<or> GetTx None x d' = GetTx None x d))
   | Inl e \<Rightarrow> UpdateTxStatus None now txID status stx d = (Some (''transaction not found: '' @ txID), d)"
  by (auto simp: GetTx_def UpdateTxStatus_def select_update split: option.splits)

end
