(* ===== verification/PartyA.thy ===== *)
theory PartyA
  imports Solana Payloads Store
begin

section \<open>The Party A service (internal/partya/service.go, escalation.go)\<close>

text \<open>
  Party A derives keys, builds transactions, asks Party B for a decision, takes part in the signing and
  keeps the transactions that wait for a human. The queue is a Go map of pointers, so it is modelled
  with its heap. The request to Party B is an argument \<open>rpc\<close> (a message to its reply, or an error), and
  so is the run of the signing protocol; a panic in a request is the value \<open>Panic\<close>.
\<close>

subsection \<open>The escalation queue\<close>

record PendingTx =
  pt_TxID :: string
  pt_Status :: TxStatus
  pt_Reason :: string
  pt_UnsignedTx :: bytes
  pt_SignedTx :: "bytes option"
  pt_RpcURL :: string
  pt_ExtraSignerKeys :: "bytes list"

record EscalationQueue =
  eq_pending :: "string \<rightharpoonup> nat"
  eq_heap :: "nat \<Rightarrow> PendingTx"
  eq_next :: nat

definition zero_pending :: PendingTx where
  "zero_pending = \<lparr>pt_TxID = [], pt_Status = [], pt_Reason = [], pt_UnsignedTx = [],
     pt_SignedTx = None, pt_RpcURL = [], pt_ExtraSignerKeys = []\<rparr>"

definition NewEscalationQueue :: EscalationQueue where
  "NewEscalationQueue = \<lparr>eq_pending = Map.empty, eq_heap = (\<lambda>a. zero_pending), eq_next = 0\<rparr>"

definition queue_put :: "string \<Rightarrow> PendingTx \<Rightarrow> EscalationQueue \<Rightarrow> EscalationQueue" where
  "queue_put txID p q = q\<lparr>eq_pending := (eq_pending q)(txID \<mapsto> eq_next q),
     eq_heap := (eq_heap q)(eq_next q := p), eq_next := Suc (eq_next q)\<rparr>"

definition queue_Add :: "string \<Rightarrow> string \<Rightarrow> bytes \<Rightarrow> string \<Rightarrow> bytes list \<Rightarrow> EscalationQueue \<Rightarrow>
    EscalationQueue" where
  "queue_Add txID reason unsignedTx rpcURL extraSignerKeys q =
     queue_put txID \<lparr>pt_TxID = txID, pt_Status = TxStatusPending, pt_Reason = reason,
       pt_UnsignedTx = unsignedTx, pt_SignedTx = None, pt_RpcURL = rpcURL,
       pt_ExtraSignerKeys = extraSignerKeys\<rparr> q"

text \<open>\<open>Get\<close> gives the pointer; what it points at is read later.\<close>

definition queue_Get :: "string \<Rightarrow> EscalationQueue \<Rightarrow> nat option" where
  "queue_Get txID q = eq_pending q txID"

definition set_status :: "TxStatus \<Rightarrow> bytes option \<Rightarrow> PendingTx \<Rightarrow> PendingTx" where
  "set_status status signedTx p =
     p\<lparr>pt_Status := status, pt_SignedTx := (if signedTx \<noteq> None then signedTx else pt_SignedTx p)\<rparr>"

definition queue_Update :: "string \<Rightarrow> TxStatus \<Rightarrow> bytes option \<Rightarrow> EscalationQueue \<Rightarrow>
    bool \<times> EscalationQueue" where
  "queue_Update txID status signedTx q =
     (case eq_pending q txID of
        None \<Rightarrow> (False, q)
      | Some a \<Rightarrow> (True, q\<lparr>eq_heap := (eq_heap q)(a := set_status status signedTx (eq_heap q a))\<rparr>))"

definition queue_Delete :: "string \<Rightarrow> EscalationQueue \<Rightarrow> EscalationQueue" where
  "queue_Delete txID q = q\<lparr>eq_pending := (eq_pending q)(txID := None)\<rparr>"

text \<open>\<open>List\<close> in the order in which the loop over the map meets the given ids.\<close>

definition queue_List :: "string list \<Rightarrow> EscalationQueue \<Rightarrow> nat list" where
  "queue_List order q = List.map_filter (eq_pending q) order"

subsubsection \<open>The queue is a map\<close>

locale status_map =
  fixes lookup :: "'k \<Rightarrow> 'q \<Rightarrow> 'v option"
    and put :: "'k \<Rightarrow> 'v \<Rightarrow> 'q \<Rightarrow> 'q"
    and upd :: "'k \<Rightarrow> ('v \<Rightarrow> 'v) \<Rightarrow> 'q \<Rightarrow> 'q"
    and del :: "'k \<Rightarrow> 'q \<Rightarrow> 'q"
    and inv :: "'q \<Rightarrow> bool"
  assumes lookup_put: "inv q \<Longrightarrow> lookup k (put k' v q) = (if k = k' then Some v else lookup k q)"
    and lookup_upd: "inv q \<Longrightarrow>
      lookup k (upd k' f q) = (if k = k' then map_option f (lookup k q) else lookup k q)"
    and lookup_del: "inv q \<Longrightarrow> lookup k (del k' q) = (if k = k' then None else lookup k q)"
    and inv_put: "inv q \<Longrightarrow> inv (put k v q)"
    and inv_upd: "inv q \<Longrightarrow> inv (upd k f q)"
    and inv_del: "inv q \<Longrightarrow> inv (del k q)"
begin

lemma upd_absent: "inv q \<Longrightarrow> lookup k q = None \<Longrightarrow> lookup k' (upd k f q) = lookup k' q"
  by (simp add: lookup_upd)

lemma upd_put: "inv q \<Longrightarrow> lookup k (upd k f (put k v q)) = Some (f v)"
  by (simp add: lookup_upd lookup_put inv_put)

lemma del_upd: "inv q \<Longrightarrow> lookup k' (del k (upd k f q)) = lookup k' (del k q)"
  by (simp add: lookup_del lookup_upd inv_upd)

end

definition queue_lookup :: "string \<Rightarrow> EscalationQueue \<Rightarrow> PendingTx option" where
  "queue_lookup txID q = map_option (eq_heap q) (eq_pending q txID)"

definition queue_modify :: "string \<Rightarrow> (PendingTx \<Rightarrow> PendingTx) \<Rightarrow> EscalationQueue \<Rightarrow> EscalationQueue" where
  "queue_modify txID f q =
     (case eq_pending q txID of
        None \<Rightarrow> q
      | Some a \<Rightarrow> q\<lparr>eq_heap := (eq_heap q)(a := f (eq_heap q a))\<rparr>)"

text \<open>No two entries share an object, and new objects are new.\<close>

definition queue_inv :: "EscalationQueue \<Rightarrow> bool" where
  "queue_inv q \<longleftrightarrow> (\<forall>x y a. eq_pending q x = Some a \<longrightarrow> eq_pending q y = Some a \<longrightarrow> x = y) \<and>
     (\<forall>x a. eq_pending q x = Some a \<longrightarrow> a < eq_next q)"

interpretation queue: status_map queue_lookup queue_put queue_modify queue_Delete queue_inv
proof
  fix q :: EscalationQueue and k k' v f
  assume inv: "queue_inv q"
  then have fresh: "eq_pending q x \<noteq> Some (eq_next q)" for x by (auto simp: queue_inv_def)
  show "queue_lookup k (queue_put k' v q) = (if k = k' then Some v else queue_lookup k q)"
    using fresh [of k] by (auto simp: queue_lookup_def queue_put_def split: option.splits)
      (cases "eq_pending q k"; simp)
  show "queue_lookup k (queue_modify k' f q) =
      (if k = k' then map_option f (queue_lookup k q) else queue_lookup k q)"
    using inv by (cases "eq_pending q k"; cases "eq_pending q k'")
      (auto simp: queue_lookup_def queue_modify_def queue_inv_def)
  show "queue_lookup k (queue_Delete k' q) = (if k = k' then None else queue_lookup k q)"
    by (simp add: queue_lookup_def queue_Delete_def)
  show "queue_inv (queue_put k v q)"
    using inv fresh by (auto simp: queue_inv_def queue_put_def intro: less_SucI split: if_splits)
  show "queue_inv (queue_modify k f q)"
    using inv by (auto simp: queue_inv_def queue_modify_def split: option.splits)
  show "queue_inv (queue_Delete k q)"
    using inv by (auto simp: queue_inv_def queue_Delete_def split: if_splits)
qed

lemma queue_Update_modify:
  "queue_Update txID status stx q =
     (queue_lookup txID q \<noteq> None, queue_modify txID (set_status status stx) q)"
  by (simp add: queue_Update_def queue_modify_def queue_lookup_def split: option.splits)

lemma queue_inv_new: "queue_inv NewEscalationQueue"
  by (simp add: queue_inv_def NewEscalationQueue_def)

text \<open>What a client does with the queue, on the model and on a plain map.\<close>

datatype queue_command =
  QAdd string string bytes string "bytes list"
| QUpdate string TxStatus "bytes option"
| QDelete string

fun queue_run :: "queue_command list \<Rightarrow> EscalationQueue \<Rightarrow> EscalationQueue" where
  "queue_run [] q = q"
| "queue_run (QAdd i r u url ks # cs) q = queue_run cs (queue_Add i r u url ks q)"
| "queue_run (QUpdate i st stx # cs) q = queue_run cs (snd (queue_Update i st stx q))"
| "queue_run (QDelete i # cs) q = queue_run cs (queue_Delete i q)"

fun map_run :: "queue_command list \<Rightarrow> (string \<rightharpoonup> PendingTx) \<Rightarrow> (string \<rightharpoonup> PendingTx)" where
  "map_run [] m = m"
| "map_run (QAdd i r u url ks # cs) m = map_run cs (m(i \<mapsto> \<lparr>pt_TxID = i, pt_Status = TxStatusPending,
     pt_Reason = r, pt_UnsignedTx = u, pt_SignedTx = None, pt_RpcURL = url, pt_ExtraSignerKeys = ks\<rparr>))"
| "map_run (QUpdate i st stx # cs) m = map_run cs (m(i := map_option (set_status st stx) (m i)))"
| "map_run (QDelete i # cs) m = map_run cs (m(i := None))"

lemma queue_ops_lookup:
  assumes "queue_inv q"
  shows "(\<lambda>k. queue_lookup k (queue_Add i r u url ks q)) = (\<lambda>k. queue_lookup k q)(i \<mapsto> \<lparr>pt_TxID = i,
      pt_Status = TxStatusPending, pt_Reason = r, pt_UnsignedTx = u, pt_SignedTx = None,
      pt_RpcURL = url, pt_ExtraSignerKeys = ks\<rparr>)"
    and "(\<lambda>k. queue_lookup k (snd (queue_Update i st stx q))) =
      (\<lambda>k. queue_lookup k q)(i := map_option (set_status st stx) (queue_lookup i q))"
    and "(\<lambda>k. queue_lookup k (queue_Delete i q)) = (\<lambda>k. queue_lookup k q)(i := None)"
  by (auto simp: queue_Add_def queue.lookup_put [OF assms] queue_Update_modify
      queue.lookup_upd [OF assms] queue.lookup_del [OF assms])

lemma queue_ops_inv:
  assumes "queue_inv q"
  shows "queue_inv (queue_Add i r u url ks q)" "queue_inv (snd (queue_Update i st stx q))"
    "queue_inv (queue_Delete i q)"
  using assms by (simp_all add: queue_Add_def queue_Update_modify queue.inv_put queue.inv_upd queue.inv_del)

lemma queue_run_map:
  "queue_inv q \<Longrightarrow> (\<lambda>k. queue_lookup k (queue_run cs q)) = map_run cs (\<lambda>k. queue_lookup k q)"
  by (induction cs q rule: queue_run.induct) (simp_all add: queue_ops_lookup queue_ops_inv)

text \<open>
  C32. The queue with its shared objects behaves as a plain map from transaction ids: after any sequence
  of additions, status updates and deletions, looking a transaction up gives what the map gives, so no
  update ever reaches another transaction's entry, and one on an unknown id changes nothing.
\<close>

theorem queue_refines_map:
  "(\<lambda>k. queue_lookup k (queue_run cs NewEscalationQueue)) = map_run cs Map.empty"
proof -
  have "(\<lambda>k. queue_lookup k NewEscalationQueue) = Map.empty"
    by (simp add: queue_lookup_def NewEscalationQueue_def)
  then show ?thesis using queue_run_map [OF queue_inv_new, of cs] by simp
qed

subsection \<open>The service\<close>

datatype astmt =
  AGetMaster | AGetDerivedKey | ASaveDerivedKey | ASaveTx | AUpdateTx | AGetTx | ADeleteTx
| AListDerivedKeys | AUpdateLabel

type_synonym aoutcomes = "astmt \<Rightarrow> dbres"

text \<open>
  What does not change: the adapters (Solana's with its tables as they are), the cipher and its key,
  derivation, the Solana library and the network.
\<close>

record 'r aenv =
  pv_registry :: registry
  pv_aead :: aead
  pv_encKey :: bytes
  pv_DeriveKey :: "KeyShare \<Rightarrow> string \<Rightarrow> DerivedKey res"
  pv_sol :: "'r sol"
  pv_net :: rpc_net

type_synonym send_receive = "doc message \<Rightarrow> doc message res"
type_synonym tss_sign = "SignRequest \<Rightarrow> bytes \<Rightarrow> PartyID \<Rightarrow> PartyID list \<Rightarrow> Signature res"

record partya =
  pa_db :: db
  pa_queue :: EscalationQueue
  pa_msgCounter :: u64

definition partya_New :: "db \<Rightarrow> partya" where
  "partya_New d = \<lparr>pa_db = d, pa_queue = NewEscalationQueue, pa_msgCounter = 0\<rparr>"

definition nextMsgID :: "partya \<Rightarrow> u64 \<times> partya" where
  "nextMsgID s = (pa_msgCounter s + 1, s\<lparr>pa_msgCounter := pa_msgCounter s + 1\<rparr>)"

definition ask :: "send_receive \<Rightarrow> byte \<Rightarrow> doc \<Rightarrow> partya \<Rightarrow> doc message res \<times> partya" where
  "ask rpc ty payload s =
     (let (i, s') = nextMsgID s in (rpc \<lparr>m_type = ty, m_id = i, m_payload = payload\<rparr>, s'))"

definition hex0x :: "bytes \<Rightarrow> string" where "hex0x b = ''0x'' @ hex_encode b"

subsubsection \<open>Deriving\<close>

record DeriveResult =
  de_Address :: string
  de_PublicKey :: string

definition string_doc :: "string \<Rightarrow> string \<Rightarrow> doc" where
  "string_doc name s = Some (JObj [(name, JStr s)])"

text \<open>The reply of Party B is ignored, an error included.\<close>

definition Derive :: "'r aenv \<Rightarrow> aoutcomes \<Rightarrow> bytes res \<Rightarrow> int \<Rightarrow> send_receive \<Rightarrow> string \<Rightarrow> string \<Rightarrow>
    string \<Rightarrow> partya \<Rightarrow> DeriveResult res \<times> partya" where
  "Derive E out nonce now rpc path label bech_prefix s =
     (case ForPath (pv_registry E) path of
        None \<Rightarrow> (Inl (''no adapter registered for path '' @ path), s)
      | Some ad \<Rightarrow>
          (case bind_res (in_ctx ''get master share''
                (GetMasterShare (pv_aead E) (pv_encKey E) (out AGetMaster) (ad_Curve ad) (pa_db s))) (\<lambda>share.
              bind_res (in_ctx ''derive key'' (pv_DeriveKey E share path)) (\<lambda>derived.
              bind_res (in_ctx ''derive address'' (ad_DeriveAddress ad (dk_PublicKey derived)
                  (if bech_prefix = [] then [] else [bech_prefix]))) (\<lambda>address. Inr (derived, address)))) of
            Inl e \<Rightarrow> (Inl e, s)
          | Inr (derived, address) \<Rightarrow>
              (case SaveDerivedKey (pv_aead E) (pv_encKey E) nonce (out ASaveDerivedKey)
                  \<lparr>dr_DerivationPath = path, dr_Curve = ad_Curve ad, dr_PublicKey = dk_PublicKey derived,
                   dr_Address = address, dr_Label = label, dr_Share = dk_Share derived,
                   dr_CreatedAt = now\<rparr> (pa_db s) of
                (Some e, d) \<Rightarrow> (Inl (wrap_err ''save derived key'' e), s\<lparr>pa_db := d\<rparr>)
              | (None, d) \<Rightarrow>
                  (Inr \<lparr>de_Address = address, de_PublicKey = hex0x (dk_PublicKey derived)\<rparr>,
                   snd (ask rpc MsgDeriveReq (string_doc ''derivationPath'' path) (s\<lparr>pa_db := d\<rparr>))))))"

subsubsection \<open>Signing\<close>

record TxSignRequest =
  sg_DerivationPath :: string
  sg_To :: "string list option"
  sg_Value :: string
  sg_Data :: bytes
  sg_ChainID :: string
  sg_GasLimit :: u64
  sg_GasPrice :: string
  sg_Nonce :: u64
  sg_RpcURL :: string
  sg_Mint :: string
  sg_Instructions :: "SolanaInstruction list"
  sg_Program :: string
  sg_Method :: string
  sg_Args :: "(string \<times> string) list"
  sg_Prefix :: string
  sg_Denom :: string
  sg_AccountNumber :: u64
  sg_Sequence :: u64
  sg_Fee :: string
  sg_Gas :: u64
  sg_Memo :: string

record SignResult =
  sr_TxID :: string
  sr_Status :: string
  sr_SignedTx :: string
  sr_Reason :: string

definition tx_request :: "TxSignRequest \<Rightarrow> DerivedKeyRecord \<Rightarrow> TxRequest" where
  "tx_request req dk =
     \<lparr>tq_From = dr_Address dk, tq_To = opt_list (sg_To req), tq_Value = sg_Value req,
      tq_Data = sg_Data req, tq_DerivationPath = sg_DerivationPath req, tq_Prefix = sg_Prefix req,
      tq_Denom = sg_Denom req, tq_ChainID = sg_ChainID req, tq_AccountNumber = sg_AccountNumber req,
      tq_Sequence = sg_Sequence req, tq_Fee = sg_Fee req, tq_Gas = sg_Gas req, tq_Memo = sg_Memo req,
      tq_PubKey = dr_PublicKey dk, tq_GasLimit = sg_GasLimit req, tq_GasPrice = sg_GasPrice req,
      tq_Nonce = sg_Nonce req, tq_AutoNonce = False, tq_RpcURL = sg_RpcURL req,
      tq_Mint = sg_Mint req, tq_Instructions = sg_Instructions req, tq_Program = sg_Program req,
      tq_Method = sg_Method req, tq_Args = sg_Args req\<rparr>"

definition sign_payload :: "TxSignRequest \<Rightarrow> UnsignedTx \<Rightarrow> bytes \<Rightarrow> SignRequestPayload" where
  "sign_payload req u signableBytes =
     \<lparr>rq_To = sg_To req, rq_Value = sg_Value req, rq_Data = hex_encode (sg_Data req),
      rq_DerivationPath = sg_DerivationPath req, rq_UnsignedTx = b64_encode (ut_RawBytes u),
      rq_SignableBytes = b64_encode signableBytes\<rparr>"

text \<open>What \<open>Sign\<close> does before it asks Party B.\<close>

definition sign_prepare :: "'r aenv \<Rightarrow> aoutcomes \<Rightarrow> TxSignRequest \<Rightarrow> partya \<Rightarrow>
    (adapter \<times> DerivedKeyRecord \<times> UnsignedTx \<times> bytes) res" where
  "sign_prepare E out req s =
     (case ForPath (pv_registry E) (sg_DerivationPath req) of
        None \<Rightarrow> Inl (''no adapter registered for path '' @ sg_DerivationPath req)
      | Some ad \<Rightarrow>
          bind_res (in_ctx ''get derived key'' (GetDerivedKey (pv_aead E) (pv_encKey E)
            (out AGetDerivedKey) (sg_DerivationPath req) (pa_db s))) (\<lambda>dk.
          bind_res (in_ctx ''build unsigned tx'' (ad_BuildUnsignedTx ad (tx_request req dk))) (\<lambda>u.
          bind_res (in_ctx ''extract signable bytes'' (ad_ExtractSignableBytes ad (ut_RawBytes u)))
            (\<lambda>signable. Inr (ad, dk, u, signable)))))"

text \<open>The transaction as it is signed: with a fresh blockhash on Solana when a node is named.\<close>

definition final_tx :: "'r aenv \<Rightarrow> adapter \<Rightarrow> bytes \<Rightarrow> string \<Rightarrow> bytes res may_panic" where
  "final_tx E ad raw rpcURL =
     (if rpcURL \<noteq> [] \<and> ad_Name ad = ''solana''
      then bind_pr (Return (in_ctx ''fetch recent blockhash'' (FetchRecentBlockhash (pv_net E) rpcURL)))
        (\<lambda>blockhash. (case InjectBlockhash (pv_sol E) raw blockhash of
            Panic \<Rightarrow> Panic | Return r \<Rightarrow> Return (in_ctx ''inject blockhash'' r)))
      else Return (Inr raw))"

definition pid_a :: PartyID where "pid_a = \<lparr>pid_ID = ''party-a'', pid_Index = 0\<rparr>"
definition pid_b :: PartyID where "pid_b = \<lparr>pid_ID = ''party-b'', pid_Index = 1\<rparr>"

definition assemble :: "'r aenv \<Rightarrow> adapter \<Rightarrow> bytes \<Rightarrow> bytes list \<Rightarrow> Signature \<Rightarrow> bytes res" where
  "assemble E ad raw extra sig = in_ctx ''assemble signed tx''
     (if extra \<noteq> [] \<and> ad_Name ad = ''solana'' then AssembleSignedTxWithExtra (pv_sol E) raw sig extra
      else ad_AssembleSignedTx ad raw sig)"

definition runTSSSigning :: "'r aenv \<Rightarrow> send_receive \<Rightarrow> tss_sign \<Rightarrow> adapter \<Rightarrow> DerivedKeyRecord \<Rightarrow> bytes \<Rightarrow>
    bytes list \<Rightarrow> string \<Rightarrow> string \<Rightarrow> partya \<Rightarrow> bytes res may_panic \<times> partya" where
  "runTSSSigning E rpc tss ad dk raw0 extra rpcURL txID s =
     (case final_tx E ad raw0 rpcURL of
        Panic \<Rightarrow> (Panic, s)
      | Return (Inl e) \<Rightarrow> (Return (Inl e), s)
      | Return (Inr raw) \<Rightarrow>
          (case in_ctx ''extract signable bytes'' (ad_ExtractSignableBytes ad raw) of
             Inl e \<Rightarrow> (Return (Inl e), s)
           | Inr signable \<Rightarrow>
               (case ask rpc MsgSignReady (enc_SignReady \<lparr>sy_TxID = txID,
                   sy_SignableBytes = b64_encode signable\<rparr>) s of
                  (Inl e, s1) \<Rightarrow> (Return (Inl (wrap_err ''send sign-ready to Party B'' e)), s1)
                | (Inr reply, s1) \<Rightarrow>
                    (Return (bind_res (in_ctx ''TSS sign'' (tss \<lparr>sq_DerivationPath = dr_DerivationPath dk,
                         sq_Message = signable, sq_Curve = dr_Curve dk\<rparr> (dr_Share dk) pid_a [pid_a, pid_b]))
                       (assemble E ad raw extra)), s1))))"

definition pending_record :: "int \<Rightarrow> TxSignRequest \<Rightarrow> UnsignedTx \<Rightarrow> SignResponsePayload \<Rightarrow> TxRecord" where
  "pending_record now req u resp =
     \<lparr>tr_ID = rs_TxID resp, tr_DerivationPath = sg_DerivationPath req,
      tr_To = Some (opt_list (sg_To req)), tr_Value = sg_Value req, tr_Data = [],
      tr_UnsignedTx = Some (ut_RawBytes u), tr_SignedTx = None, tr_Status = TxStatusPending,
      tr_Reason = rs_Reason resp, tr_CreatedAt = now, tr_UpdatedAt = now\<rparr>"

definition sign_escalated :: "aoutcomes \<Rightarrow> int \<Rightarrow> TxSignRequest \<Rightarrow> UnsignedTx \<Rightarrow> SignResponsePayload \<Rightarrow>
    partya \<Rightarrow> SignResult res \<times> partya" where
  "sign_escalated out now req u resp s =
     (let s1 = s\<lparr>pa_queue := queue_Add (rs_TxID resp) (rs_Reason resp) (ut_RawBytes u) (sg_RpcURL req)
            (ut_ExtraSignerKeys u) (pa_queue s)\<rparr>
      in case SaveTx (out ASaveTx) (pending_record now req u resp) (pa_db s1) of
           (Some e, d) \<Rightarrow> (Inl (wrap_err ''save pending tx'' e), s1\<lparr>pa_db := d\<rparr>)
         | (None, d) \<Rightarrow> (Inr \<lparr>sr_TxID = rs_TxID resp, sr_Status = ''pending_review'', sr_SignedTx = [],
             sr_Reason = rs_Reason resp\<rparr>, s1\<lparr>pa_db := d\<rparr>))"

definition sign_decided :: "'r aenv \<Rightarrow> aoutcomes \<Rightarrow> int \<Rightarrow> send_receive \<Rightarrow> tss_sign \<Rightarrow> TxSignRequest \<Rightarrow>
    adapter \<Rightarrow> DerivedKeyRecord \<Rightarrow> UnsignedTx \<Rightarrow> SignResponsePayload \<Rightarrow> partya \<Rightarrow>
    SignResult res may_panic \<times> partya" where
  "sign_decided E out now rpc tss req ad dk u resp s =
     (if rs_Decision resp = ''approve'' then
        (case runTSSSigning E rpc tss ad dk (ut_RawBytes u) (ut_ExtraSignerKeys u) (sg_RpcURL req)
            (rs_TxID resp) s of
           (Panic, s1) \<Rightarrow> (Panic, s1)
         | (Return r, s1) \<Rightarrow> (Return (bind_res (in_ctx ''TSS signing'' r) (\<lambda>signedTx.
             Inr \<lparr>sr_TxID = [], sr_Status = ''signed'', sr_SignedTx = hex0x signedTx,
               sr_Reason = rs_Reason resp\<rparr>)), s1))
      else if rs_Decision resp = ''reject'' then
        (Return (Inr \<lparr>sr_TxID = [], sr_Status = ''rejected'', sr_SignedTx = [],
           sr_Reason = rs_Reason resp\<rparr>), s)
      else if rs_Decision resp = ''escalate'' then
        (let (r, s1) = sign_escalated out now req u resp s in (Return r, s1))
      else (Return (Inl (''unknown decision: '' @ rs_Decision resp)), s))"

definition Sign :: "'r aenv \<Rightarrow> aoutcomes \<Rightarrow> int \<Rightarrow> send_receive \<Rightarrow> tss_sign \<Rightarrow> TxSignRequest \<Rightarrow> partya \<Rightarrow>
    SignResult res may_panic \<times> partya" where
  "Sign E out now rpc tss req s =
     (case sign_prepare E out req s of
        Inl e \<Rightarrow> (Return (Inl e), s)
      | Inr (ad, dk, u, signable) \<Rightarrow>
          (case ask rpc MsgSignRequest (enc_SignRequest (sign_payload req u signable)) s of
             (Inl e, s1) \<Rightarrow> (Return (Inl (wrap_err ''send sign request'' e)), s1)
           | (Inr reply, s1) \<Rightarrow>
               (case dec_SignResponse (m_payload reply) of
                  Inl e \<Rightarrow> (Return (Inl (wrap_err ''unmarshal sign response'' e)), s1)
                | Inr resp \<Rightarrow> sign_decided E out now rpc tss req ad dk u resp s1)))"

subsubsection \<open>The approval pushed by Party B\<close>

definition update_queue :: "string \<Rightarrow> TxStatus \<Rightarrow> bytes option \<Rightarrow> partya \<Rightarrow> partya" where
  "update_queue txID status signedTx s =
     s\<lparr>pa_queue := snd (queue_Update txID status signedTx (pa_queue s))\<rparr>"

text \<open>What \<open>HandleSignApproved\<close> looks up: nothing, a reason to reject, or what it signs.\<close>

datatype approved_lookup = NotQueued | CannotSign | CanSign adapter DerivedKeyRecord PendingTx

definition approved_lookup :: "'r aenv \<Rightarrow> aoutcomes \<Rightarrow> string \<Rightarrow> string \<Rightarrow> partya \<Rightarrow> approved_lookup" where
  "approved_lookup E out txID path s =
     (case queue_Get txID (pa_queue s) of
        None \<Rightarrow> NotQueued
      | Some a \<Rightarrow> (case ForPath (pv_registry E) path of
          None \<Rightarrow> CannotSign
        | Some ad \<Rightarrow> (case GetDerivedKey (pv_aead E) (pv_encKey E) (out AGetDerivedKey) path (pa_db s) of
            Inl e \<Rightarrow> CannotSign
          | Inr dk \<Rightarrow> CanSign ad dk (eq_heap (pa_queue s) a))))"

definition approved_done :: "aoutcomes \<Rightarrow> int \<Rightarrow> string \<Rightarrow> bytes res \<Rightarrow> partya \<Rightarrow> partya" where
  "approved_done out now txID r s =
     (case r of
        Inl e \<Rightarrow> update_queue txID TxStatusRejected None s
      | Inr signedTx \<Rightarrow>
          let s1 = update_queue txID TxStatusSigned (Some signedTx) s in
          s1\<lparr>pa_db := snd (UpdateTxStatus (out AUpdateTx) now txID TxStatusSigned (Some signedTx) (pa_db s1))\<rparr>)"

text \<open>It runs in a goroutine of its own, so a panic there ends the process.\<close>

definition HandleSignApproved :: "'r aenv \<Rightarrow> aoutcomes \<Rightarrow> int \<Rightarrow> send_receive \<Rightarrow> tss_sign \<Rightarrow> string \<Rightarrow>
    string \<Rightarrow> partya \<Rightarrow> partya may_panic" where
  "HandleSignApproved E out now rpc tss txID path s =
     (case approved_lookup E out txID path s of
        NotQueued \<Rightarrow> Return s
      | CannotSign \<Rightarrow> Return (update_queue txID TxStatusRejected None s)
      | CanSign ad dk p \<Rightarrow>
          (case runTSSSigning E rpc tss ad dk (pt_UnsignedTx p) (pt_ExtraSignerKeys p) (pt_RpcURL p) txID s of
             (Panic, s1) \<Rightarrow> Panic
           | (Return r, s1) \<Rightarrow> Return (approved_done out now txID r s1)))"

text \<open>The handler of pushed messages in the main program: which approval it starts.\<close>

definition push_handler :: "doc message \<Rightarrow> SignApprovedPayload option" where
  "push_handler msg =
     (if m_type msg = MsgSignApproved then
        (case dec_SignApproved (m_payload msg) of Inl e \<Rightarrow> None | Inr payload \<Rightarrow> Some payload)
      else None)"

subsubsection \<open>Status\<close>

definition opt_hex0x :: "bytes option \<Rightarrow> string" where
  "opt_hex0x b = (case b of None \<Rightarrow> [] | Some x \<Rightarrow> hex0x x)"

text \<open>
  The error of \<open>DecodeString\<close> is dropped, so a text that is no base64 counts as the bytes decoded before
  the fault; a padded group ends it.
\<close>

fun b64_upto :: "string \<Rightarrow> bytes" where
  "b64_upto (a # b # c # d # s) =
     (case (b64_val a, b64_val b) of
        (Some p, Some q) \<Rightarrow>
          (if c = pad_char \<and> d = pad_char then [word_of_nat (p * 4 + q div 16)]
           else (case b64_val c of
             None \<Rightarrow> []
           | Some r \<Rightarrow>
               if d = pad_char then be_put 2 ((p * 4096 + q * 64 + r) div 4)
               else (case b64_val d of
                   None \<Rightarrow> []
                 | Some t \<Rightarrow> be_put 3 (((p * 64 + q) * 64 + r) * 64 + t) @ b64_upto s)))
      | _ \<Rightarrow> [])"
| "b64_upto s = []"

definition reply_signedTx :: "string \<Rightarrow> bytes option" where
  "reply_signedTx s = (if s = [] then None
     else Some (b64_upto (filter (\<lambda>c. (of_char c :: nat) \<noteq> 10 \<and> (of_char c :: nat) \<noteq> 13) s)))"

text \<open>\<open>queryPartyBTxStatus\<close> once the reply is there.\<close>

definition status_reply :: "string \<Rightarrow> doc message res \<Rightarrow> partya \<Rightarrow> SignResult option \<times> partya" where
  "status_reply txID reply s =
     (case reply of
        Inl e \<Rightarrow> (None, s)
      | Inr m \<Rightarrow> (case dec_TxStatusResponse (m_payload m) of
          Inl e \<Rightarrow> (None, s)
        | Inr r \<Rightarrow>
            if ts_Status r = ''unknown'' then (None, s)
            else
              let signedTx = reply_signedTx (ts_SignedTx r);
                  s1 = update_queue txID (ts_Status r) signedTx s in
              (Some \<lparr>sr_TxID = txID, sr_Status = ts_Status r, sr_SignedTx = opt_hex0x signedTx,
                 sr_Reason = ts_Reason r\<rparr>,
               if signedTx \<noteq> None \<and> ts_Status r = TxStatusSigned
               then s1\<lparr>pa_queue := queue_Delete txID (pa_queue s1)\<rparr> else s1)))"

definition queryPartyBTxStatus :: "send_receive \<Rightarrow> string \<Rightarrow> partya \<Rightarrow> SignResult option \<times> partya" where
  "queryPartyBTxStatus rpc txID s =
     (let (reply, s1) = ask rpc MsgTxStatusReq (string_doc ''txId'' txID) s in status_reply txID reply s1)"

text \<open>The answer from the object the queue pointed at.\<close>

definition status_of_object :: "string \<Rightarrow> nat \<Rightarrow> partya \<Rightarrow> SignResult \<times> partya" where
  "status_of_object txID a s =
     (let p = eq_heap (pa_queue s) a in
      (\<lparr>sr_TxID = txID, sr_Status = pt_Status p, sr_SignedTx = opt_hex0x (pt_SignedTx p),
         sr_Reason = pt_Reason p\<rparr>,
       if pt_SignedTx p \<noteq> None \<and> pt_Status p = TxStatusSigned
       then s\<lparr>pa_queue := queue_Delete txID (pa_queue s)\<rparr> else s))"

definition status_of_store :: "aoutcomes \<Rightarrow> string \<Rightarrow> partya \<Rightarrow> SignResult res \<times> partya" where
  "status_of_store out txID s =
     (case GetTx (out AGetTx) txID (pa_db s) of
        Inl e \<Rightarrow> (Inl (wrap_err ''get tx'' e), s)
      | Inr tx \<Rightarrow>
          (Inr \<lparr>sr_TxID = tr_ID tx, sr_Status = tr_Status tx, sr_SignedTx = opt_hex0x (tr_SignedTx tx),
             sr_Reason = tr_Reason tx\<rparr>,
           if tr_SignedTx tx \<noteq> None \<and> tr_Status tx = TxStatusSigned
           then s\<lparr>pa_db := snd (DeleteTx (out ADeleteTx) txID (pa_db s))\<rparr> else s))"

definition GetSignStatus :: "aoutcomes \<Rightarrow> send_receive \<Rightarrow> string \<Rightarrow> partya \<Rightarrow> SignResult res \<times> partya" where
  "GetSignStatus out rpc txID s =
     (case queue_Get txID (pa_queue s) of
        None \<Rightarrow> status_of_store out txID s
      | Some a \<Rightarrow>
          (let (updated, s1) = (if pt_Status (eq_heap (pa_queue s) a) = TxStatusPending
                 then queryPartyBTxStatus rpc txID s else (None, s))
           in case updated of
                Some r \<Rightarrow> (Inr r, s1)
              | None \<Rightarrow> (let (r, s2) = status_of_object txID a s1 in (Inr r, s2))))"

subsubsection \<open>Keys and health\<close>

record KeyInfo =
  ki_DerivationPath :: string
  ki_Address :: string
  ki_PubKey :: string
  ki_Label :: string

definition ListKeys :: "'r aenv \<Rightarrow> aoutcomes \<Rightarrow> partya \<Rightarrow> KeyInfo list res" where
  "ListKeys E out s =
     bind_res (in_ctx ''list derived keys'' (ListDerivedKeys (pv_aead E) (pv_encKey E)
       (out AListDerivedKeys) (pa_db s))) (\<lambda>records. Inr (map (\<lambda>r.
         \<lparr>ki_DerivationPath = dr_DerivationPath r, ki_Address = dr_Address r,
          ki_PubKey = hex0x (dr_PublicKey r), ki_Label = dr_Label r\<rparr>) records))"

record HealthStatus =
  he_Status :: string
  he_SecureServerConnected :: bool

text \<open>The message has no payload.\<close>

definition Health :: "send_receive \<Rightarrow> partya \<Rightarrow> HealthStatus \<times> partya" where
  "Health rpc s =
     (let (reply, s1) = ask rpc MsgHealthCheck None s in
      (\<lparr>he_Status = ''ok'', he_SecureServerConnected = is_ok reply\<rparr>, s1))"

subsection \<open>What the service promises\<close>

lemma b64_upto_quanta: "b64_quanta s = Inr b \<Longrightarrow> b64_upto s = b"
proof (induction s arbitrary: b rule: b64_quanta.induct)
  case (2 p q r t s)
  then show ?case
    by (auto split: option.splits if_splits sum.splits) (simp_all add: pad_char_def b64_val_def)
qed auto

lemma reply_signedTx_encode: "reply_signedTx (b64_encode b) = (if b = [] then None else Some b)"
proof -
  have "b64_encode b = [] \<longleftrightarrow> b = []" by (cases b rule: b64_encode.cases) (simp_all add: Let_def)
  then show ?thesis
    by (simp add: reply_signedTx_def b64_encode_kept b64_upto_quanta [OF b64_quanta_encode])
qed

named_theorems partya_simps

lemma ask_simps [partya_simps]:
  "pa_db (snd (ask rpc ty p s)) = pa_db s"
  "pa_queue (snd (ask rpc ty p s)) = pa_queue s"
  by (simp_all add: ask_def nextMsgID_def)

lemma ask_frame: "ask rpc ty p s = (r, s') \<Longrightarrow> pa_db s' = pa_db s \<and> pa_queue s' = pa_queue s"
  by (metis ask_simps snd_conv)

lemma runTSSSigning_frame:
  "runTSSSigning E rpc tss ad dk raw extra url txID s = (r, s') \<Longrightarrow>
     pa_db s' = pa_db s \<and> pa_queue s' = pa_queue s"
  by (auto simp: runTSSSigning_def dest: ask_frame
      split: may_panic.splits sum.splits prod.splits)

text \<open>What a finished signing run stands for.\<close>

definition signed_by_both :: "'r aenv \<Rightarrow> send_receive \<Rightarrow> tss_sign \<Rightarrow> adapter \<Rightarrow> DerivedKeyRecord \<Rightarrow> bytes \<Rightarrow>
    bytes list \<Rightarrow> string \<Rightarrow> string \<Rightarrow> u64 \<Rightarrow> bytes \<Rightarrow> bool" where
  "signed_by_both E rpc tss ad dk raw0 extra url txID i signedTx \<longleftrightarrow>
     (\<exists>raw signable sig. final_tx E ad raw0 url = Return (Inr raw) \<and>
        ad_ExtractSignableBytes ad raw = Inr signable \<and>
        is_ok (rpc \<lparr>m_type = MsgSignReady, m_id = i, m_payload = enc_SignReady \<lparr>sy_TxID = txID,
          sy_SignableBytes = b64_encode signable\<rparr>\<rparr>) \<and>
        tss \<lparr>sq_DerivationPath = dr_DerivationPath dk, sq_Message = signable, sq_Curve = dr_Curve dk\<rparr>
          (dr_Share dk) pid_a [pid_a, pid_b] = Inr sig \<and>
        assemble E ad raw extra sig = Inr signedTx)"

lemma runTSSSigning_ok:
  "runTSSSigning E rpc tss ad dk raw extra url txID s = (Return (Inr signedTx), s') \<Longrightarrow>
     signed_by_both E rpc tss ad dk raw extra url txID (pa_msgCounter s + 1) signedTx"
  unfolding runTSSSigning_def signed_by_both_def
  by (auto simp: ask_def nextMsgID_def res_simps is_ok_iff split: may_panic.splits sum.splits)

text \<open>The answers of \<open>Sign\<close>, by the decision of Party B.\<close>

definition sign_answer :: "'r aenv \<Rightarrow> send_receive \<Rightarrow> tss_sign \<Rightarrow> TxSignRequest \<Rightarrow> adapter \<Rightarrow>
    DerivedKeyRecord \<Rightarrow> UnsignedTx \<Rightarrow> SignResponsePayload \<Rightarrow> partya \<Rightarrow> SignResult \<Rightarrow> partya \<Rightarrow> bool" where
  "sign_answer E rpc tss req ad dk u resp s r s' \<longleftrightarrow>
     sr_Reason r = rs_Reason resp \<and>
     (rs_Decision resp = ''approve'' \<and> sr_Status r = ''signed'' \<and>
        pa_db s' = pa_db s \<and> pa_queue s' = pa_queue s \<and>
        (\<exists>signedTx. sr_SignedTx r = hex0x signedTx \<and> signed_by_both E rpc tss ad dk (ut_RawBytes u)
          (ut_ExtraSignerKeys u) (sg_RpcURL req) (rs_TxID resp) (pa_msgCounter s + 2) signedTx) \<or>
      rs_Decision resp = ''reject'' \<and> sr_Status r = ''rejected'' \<and> sr_SignedTx r = [] \<and>
        pa_db s' = pa_db s \<and> pa_queue s' = pa_queue s \<or>
      rs_Decision resp = ''escalate'' \<and> sr_Status r = ''pending_review'' \<and> sr_SignedTx r = [] \<and>
        sr_TxID r = rs_TxID resp \<and>
        (\<exists>p. queue_lookup (rs_TxID resp) (pa_queue s') = Some p \<and> pt_UnsignedTx p = ut_RawBytes u \<and>
          pt_Status p = TxStatusPending \<and> pt_SignedTx p = None) \<and>
        (\<exists>tx. GetTx None (rs_TxID resp) (pa_db s') = Inr tx \<and> tr_Status tx = TxStatusPending))"

lemma sign_escalated_ok:
  assumes "sign_escalated out now req u resp s = (Inr r, s')"
  shows "r = \<lparr>sr_TxID = rs_TxID resp, sr_Status = ''pending_review'', sr_SignedTx = [],
      sr_Reason = rs_Reason resp\<rparr>"
    and "\<exists>p. queue_lookup (rs_TxID resp) (pa_queue s') = Some p \<and> pt_UnsignedTx p = ut_RawBytes u \<and>
      pt_Status p = TxStatusPending \<and> pt_SignedTx p = None"
    and "\<exists>tx. GetTx None (rs_TxID resp) (pa_db s') = Inr tx \<and> tr_Status tx = TxStatusPending"
  using assms
  by (auto simp: sign_escalated_def Let_def SaveTx_def GetTx_def tx_table.get_put pending_record_def
      merge_tx_def queue_lookup_def queue_Add_def queue_put_def split: option.splits prod.splits)

text \<open>
  C4. Party A does what Party B decided: a request that ends well was answered by Party B; it is signed
  only if Party B approved, and then the result is assembled from a signature of the protocol over
  exactly the bytes extracted from the final transaction and announced to Party B; a rejection changes
  nothing; an escalation queues and stores the transaction as pending, with its unsigned bytes.
\<close>

theorem Sign_follows_decision:
  assumes "Sign E out now rpc tss req s = (Return (Inr r), s')"
  shows "\<exists>ad dk u signable reply resp. sign_prepare E out req s = Inr (ad, dk, u, signable) \<and>
    rpc \<lparr>m_type = MsgSignRequest, m_id = pa_msgCounter s + 1,
      m_payload = enc_SignRequest (sign_payload req u signable)\<rparr> = Inr reply \<and>
    dec_SignResponse (m_payload reply) = Inr resp \<and> sign_answer E rpc tss req ad dk u resp s r s'"
proof -
  obtain ad dk u signable where prep: "sign_prepare E out req s = Inr (ad, dk, u, signable)"
    using assms by (auto simp: Sign_def split: sum.splits prod.splits)
  let ?msg = "\<lparr>m_type = MsgSignRequest, m_id = pa_msgCounter s + 1,
    m_payload = enc_SignRequest (sign_payload req u signable)\<rparr>"
  let ?s1 = "s\<lparr>pa_msgCounter := pa_msgCounter s + 1\<rparr>"
  obtain reply resp where reply: "rpc ?msg = Inr reply" "dec_SignResponse (m_payload reply) = Inr resp"
    "sign_decided E out now rpc tss req ad dk u resp ?s1 = (Return (Inr r), s')"
    using assms prep by (auto simp: Sign_def ask_def nextMsgID_def split: sum.splits)
  have "sign_answer E rpc tss req ad dk u resp s r s'"
  proof (cases "rs_Decision resp = ''approve''")
    case True
    obtain signedTx where run: "runTSSSigning E rpc tss ad dk (ut_RawBytes u) (ut_ExtraSignerKeys u)
        (sg_RpcURL req) (rs_TxID resp) ?s1 = (Return (Inr signedTx), s')"
      and r: "r = \<lparr>sr_TxID = [], sr_Status = ''signed'', sr_SignedTx = hex0x signedTx,
        sr_Reason = rs_Reason resp\<rparr>"
      using reply(3) True
      by (auto simp: sign_decided_def res_simps split: prod.splits may_panic.splits)
    show ?thesis
      using runTSSSigning_ok [OF run] runTSSSigning_frame [OF run] True r
      by (auto simp: sign_answer_def algebra_simps)
  next
    case False
    then show ?thesis
      using reply(3) sign_escalated_ok [of out now req u resp ?s1 r s']
      by (auto simp: sign_decided_def sign_answer_def split: if_splits prod.splits)
  qed
  then show ?thesis using prep reply(1,2) by blast
qed

end
