(* ===== verification/Llm.thy ===== *)
theory Llm
  imports Vm Store Payloads
begin

section \<open>Calldata decoding and the language model (analyzer/abi.go, llm.go)\<close>

text \<open>
  The result type of the analyzer, the ABI resolver with its cache, and the client that asks a
  language model for a classification. HTTP is an argument: a request record to the status and
  body, or an error. The ABI library, and the parser of JSON texts \<open>parse\<close>, are arguments as well.
  Confidence values are rationals.
\<close>

subsection \<open>Types\<close>

type_synonym Action = string

definition ActionApprove :: Action where "ActionApprove = ''approve''"
definition ActionReject :: Action where "ActionReject = ''reject''"
definition ActionEscalate :: Action where "ActionEscalate = ''escalate''"

lemma actions_differ [simp]:
  "ActionApprove \<noteq> ActionReject" "ActionReject \<noteq> ActionApprove"
  "ActionApprove \<noteq> ActionEscalate" "ActionEscalate \<noteq> ActionApprove"
  "ActionReject \<noteq> ActionEscalate" "ActionEscalate \<noteq> ActionReject"
  by (simp_all add: ActionApprove_def ActionReject_def ActionEscalate_def)

record Decision =
  dn_Action :: Action
  dn_Reason :: string
  dn_Confidence :: rat

text \<open>\<open>Args\<close>, a Go map, is the list of its entries in the order a loop meets them, values printed.\<close>

record DecodedCall =
  dc_MethodName :: string
  dc_Args :: "(string \<times> string) list"
  dc_Verified :: bool

record AnalysisResult =
  ar_Decision :: Decision
  ar_DecodedTx :: "DecodedTx option"
  ar_DecodedCall :: "DecodedCall option"
  ar_Whitelisted :: bool
  ar_WhitelistLabel :: string
  ar_SignableBytesOK :: bool
  ar_FieldMismatches :: "string list"
  ar_Warnings :: "string list"
  ar_Summary :: string

definition nl :: string where "nl = [CHR 0x0A]"

subsection \<open>The ABI resolver\<close>

record ('abi, 'm) abi_lib =
  al_JSON :: "string \<Rightarrow> 'abi res"
  al_MethodById :: "'abi \<Rightarrow> bytes \<Rightarrow> 'm res"
  al_Name :: "'m \<Rightarrow> string"
  al_UnpackIntoMap :: "'m \<Rightarrow> bytes \<Rightarrow> (string \<times> string) list res"

record 'abi cachedABI =
  ca_abi :: 'abi
  ca_fetchedAt :: int
  ca_verified :: bool

type_synonym 'abi abi_cache = "string \<rightharpoonup> 'abi cachedABI"

definition hexToBytes :: "string \<Rightarrow> bytes res" where
  "hexToBytes s = hex_decode (trim_prefix (trim_prefix s ''0x'') ''0X'')"

record etherscanResponse =
  es_Status :: string
  es_Message :: string
  es_Result :: string

definition dec_etherscan :: "doc \<Rightarrow> etherscanResponse res" where
  "dec_etherscan = unmarshal (\<lambda>fs.
     case str_field ''status'' [] fs of Inl e \<Rightarrow> Inl e | Inr s \<Rightarrow>
     (case str_field ''message'' [] fs of Inl e \<Rightarrow> Inl e | Inr m \<Rightarrow>
     (case str_field ''result'' [] fs of Inl e \<Rightarrow> Inl e | Inr r \<Rightarrow>
       Inr \<lparr>es_Status = s, es_Message = m, es_Result = r\<rparr>)))"

text \<open>\<open>keys\<close> lists the explorer keys in the order the loop over the map meets them.\<close>

definition fetchABIFromExplorer :: "http \<Rightarrow> (string \<Rightarrow> doc) \<Rightarrow> string list \<Rightarrow> string \<Rightarrow> string res" where
  "fetchABIFromExplorer h parse keys addr =
     (let apiKey = (case keys of [] \<Rightarrow> [] | k # ks \<Rightarrow> k);
          url = ''https://api.etherscan.io/api?module=contract&action=getabi&address='' @ addr @
                ''&apikey='' @ apiKey
      in case h \<lparr>hr_Method = ''GET'', hr_URL = url, hr_Headers = [], hr_Body = None\<rparr> of
           Inl e \<Rightarrow> Inl (wrap_err ''fetch ABI'' e)
         | Inr (status, body) \<Rightarrow> (case dec_etherscan (parse body) of
             Inl e \<Rightarrow> Inl (wrap_err ''parse response'' e)
           | Inr r \<Rightarrow> if es_Status r \<noteq> ''1'' then Inl (''explorer API error: '' @ es_Message r)
                      else Inr (es_Result r)))"

definition cache_ttl :: int where "cache_ttl = 24 * 3600 * 10 ^ 9"

definition getABI :: "('abi, 'm) abi_lib \<Rightarrow> http \<Rightarrow> (string \<Rightarrow> doc) \<Rightarrow> string list \<Rightarrow> int \<Rightarrow> string \<Rightarrow>
    'abi abi_cache \<Rightarrow> ('abi \<times> bool) res \<times> 'abi abi_cache" where
  "getABI L h parse keys now addr0 cache =
     (let addr = to_lower addr0;
          fetch = (case fetchABIFromExplorer h parse keys addr of
              Inl e \<Rightarrow> (Inl e, cache)
            | Inr js \<Rightarrow> (case al_JSON L js of
                Inl e \<Rightarrow> (Inl (wrap_err ''parse ABI JSON'' e), cache)
              | Inr parsed \<Rightarrow> (Inr (parsed, True),
                  cache(addr \<mapsto> \<lparr>ca_abi = parsed, ca_fetchedAt = now, ca_verified = True\<rparr>))))
      in case cache addr of
           Some c \<Rightarrow> if now - ca_fetchedAt c < cache_ttl
             then (Inr (ca_abi c, ca_verified c), cache) else fetch
         | None \<Rightarrow> fetch)"

definition DecodeCalldata :: "('abi, 'm) abi_lib \<Rightarrow> http \<Rightarrow> (string \<Rightarrow> doc) \<Rightarrow> string list \<Rightarrow> int \<Rightarrow>
    string \<Rightarrow> string \<Rightarrow> 'abi abi_cache \<Rightarrow> DecodedCall res \<times> 'abi abi_cache" where
  "DecodeCalldata L h parse keys now contractAddr hexData cache =
     (case hexToBytes hexData of
        Inl e \<Rightarrow> (Inl (wrap_err ''decode hex'' e), cache)
      | Inr data \<Rightarrow>
          if length data < 4
          then (Inl (''calldata too short: '' @ nat_dec (length data) @ '' bytes''), cache)
          else (case getABI L h parse keys now contractAddr cache of
              (Inl e, c1) \<Rightarrow> (Inl (wrap_err (''fetch ABI for '' @ contractAddr) e), c1)
            | (Inr (contractABI, verified), c1) \<Rightarrow>
                (case al_MethodById L contractABI (take 4 data) of
                   Inl e \<Rightarrow> (Inl (wrap_err (''unknown method selector '' @
                     hex_encode (take 4 data)) e), c1)
                 | Inr m \<Rightarrow> (case al_UnpackIntoMap L m (drop 4 data) of
                     Inl e \<Rightarrow> (Inl (wrap_err ''unpack args'' e), c1)
                   | Inr args \<Rightarrow> (Inr \<lparr>dc_MethodName = al_Name L m, dc_Args = args,
                       dc_Verified = verified\<rparr>, c1)))))"

subsection \<open>The language model client\<close>

record LLMConfig =
  lc_Provider :: string
  lc_APIKey :: string
  lc_Endpoint :: string
  lc_Model :: string

record llmClassification =
  cl_Classification :: string
  cl_Confidence :: rat
  cl_Reasoning :: string

definition bullets :: "string list \<Rightarrow> string" where
  "bullets xs = concat (map (\<lambda>m. ''- '' @ m @ nl) xs)"

text \<open>The fixed text of the prompt; a percent sign stands for a double quotation mark.\<close>

definition prompt_line :: "string \<Rightarrow> string" where
  "prompt_line s = map (\<lambda>c. if c = CHR ''%'' then CHR 0x22 else c) s @ nl"

definition prompt_intro :: string where
  "prompt_intro =
     prompt_line ''You are a blockchain transaction security analyzer for an MPC-TSS signing service.'' @
     prompt_line ''Analyze this transaction and determine if it is safe to co-sign.'' @ nl @
     prompt_line ''=== TRANSACTION DETAILS (decoded from raw unsigned tx) ===''"

definition prompt_instructions :: string where
  "prompt_instructions = nl @
     prompt_line ''=== INSTRUCTIONS ==='' @
     prompt_line ''Based on the decoded transaction data above, classify this transaction.'' @
     prompt_line ''Consider:'' @
     prompt_line ''- Is the destination a known protocol or an unknown address?'' @
     prompt_line ''- Does the function call make sense for the stated purpose?'' @
     prompt_line ''- Is the value reasonable?'' @
     prompt_line ''- Are there any signs of a malicious or phishing transaction?'' @
     prompt_line ''- Is the contract verified?'' @
     prompt_line ''- Are there field mismatches between what was claimed and what the tx actually does?'' @
     nl @
     prompt_line ''Respond ONLY with this JSON (no markdown, no explanation outside the JSON):'' @
     prompt_line ''{'' @
     prompt_line ''  %classification%: %safe% | %suspicious% | %malicious%,'' @
     prompt_line ''  %confidence%: 0.0 to 1.0,'' @
     prompt_line ''  %reasoning%: %brief explanation%'' @ ''}''"

definition buildRichPrompt :: "AnalysisResult \<Rightarrow> string" where
  "buildRichPrompt r =
     prompt_intro @ ar_Summary r @
     (if ar_FieldMismatches r \<noteq> []
      then nl @ ''=== WARNINGS ==='' @ nl @ bullets (ar_FieldMismatches r) else []) @
     (if ar_Warnings r \<noteq> []
      then nl @ ''=== ADDITIONAL WARNINGS ==='' @ nl @ bullets (ar_Warnings r) else []) @
     prompt_instructions"

definition system_prompt :: string where
  "system_prompt =
     ''You are a blockchain transaction security analyzer. Respond only with JSON.''"

definition chat_message :: "string \<Rightarrow> string \<Rightarrow> json" where
  "chat_message role content = JObj [(''role'', JStr role), (''content'', JStr content)]"

definition openAIRequest :: "string \<Rightarrow> string \<Rightarrow> doc" where
  "openAIRequest model prompt = Some (JObj [(''model'', JStr model),
     (''messages'', JArr [chat_message ''system'' system_prompt, chat_message ''user'' prompt]),
     (''temperature'', JNum (1 / 10))])"

definition anthropicRequest :: "string \<Rightarrow> string \<Rightarrow> doc" where
  "anthropicRequest model prompt = Some (JObj [(''model'', JStr model),
     (''max_tokens'', JNum 1024), (''system'', JStr system_prompt),
     (''messages'', JArr [chat_message ''user'' prompt])])"

definition llm_endpoint :: "LLMConfig \<Rightarrow> string res" where
  "llm_endpoint cfg =
     (if lc_Provider cfg = ''openai'' then
        Inr (if lc_Endpoint cfg \<noteq> [] then lc_Endpoint cfg
             else ''https://api.openai.com/v1/chat/completions'')
      else if lc_Provider cfg = ''anthropic'' then
        Inr (if lc_Endpoint cfg \<noteq> [] then lc_Endpoint cfg
             else ''https://api.anthropic.com/v1/messages'')
      else if lc_Provider cfg = ''local'' then
        (if lc_Endpoint cfg = [] then Inl ''local LLM endpoint not configured''
         else Inr (if \<not> str_contains (lc_Endpoint cfg) ''/v1/'' \<and>
                      \<not> str_contains (lc_Endpoint cfg) ''/api/''
                   then trim_right (\<lambda>c. c = CHR ''/'') (lc_Endpoint cfg) @ ''/v1/chat/completions''
                   else lc_Endpoint cfg))
      else Inl (''unsupported LLM provider: '' @ lc_Provider cfg))"

definition llm_headers :: "LLMConfig \<Rightarrow> (string \<times> string) list" where
  "llm_headers cfg = (''Content-Type'', ''application/json'') #
     (if lc_Provider cfg = ''openai'' then [(''Authorization'', ''Bearer '' @ lc_APIKey cfg)]
      else if lc_Provider cfg = ''anthropic''
      then [(''x-api-key'', lc_APIKey cfg), (''anthropic-version'', ''2023-06-01'')]
      else [])"

definition truncate_to :: "string \<Rightarrow> nat \<Rightarrow> string" where
  "truncate_to s maxLen = (if length s \<le> maxLen then s else take maxLen s @ ''...'')"

text \<open>\<open>extractJSON\<close>: what a markdown code fence encloses, if there is one.\<close>

definition fence :: string where "fence = [CHR 0x60, CHR 0x60, CHR 0x60]"

definition cut_at_fence :: "string \<Rightarrow> string" where
  "cut_at_fence s = (case str_index s fence of None \<Rightarrow> s | Some e \<Rightarrow> take e s)"

definition extractJSON :: "string \<Rightarrow> string" where
  "extractJSON s0 =
     (let s = trim_space s0 in
      trim_space
        (case str_index s (fence @ ''json'') of
           Some idx \<Rightarrow> cut_at_fence (drop (idx + 7) s)
         | None \<Rightarrow> (case str_index s fence of
               Some idx \<Rightarrow> cut_at_fence (drop (idx + 3) s)
             | None \<Rightarrow> s)))"

definition dec_classification :: "doc \<Rightarrow> llmClassification res" where
  "dec_classification = unmarshal (\<lambda>fs.
     case str_field ''classification'' [] fs of Inl e \<Rightarrow> Inl e | Inr c \<Rightarrow>
     (case dec_field dec_float ''confidence'' 0 fs of Inl e \<Rightarrow> Inl e | Inr q \<Rightarrow>
     (case str_field ''reasoning'' [] fs of Inl e \<Rightarrow> Inl e | Inr r \<Rightarrow>
       Inr \<lparr>cl_Classification = c, cl_Confidence = q, cl_Reasoning = r\<rparr>)))"

text \<open>\<open>openAIMessage\<close>: the role is decoded too, the content is what is used.\<close>

definition dec_openAIMessage :: "string \<Rightarrow> fields \<Rightarrow> string res" where
  "dec_openAIMessage old fs =
     (case str_field ''role'' [] fs of Inl e \<Rightarrow> Inl e | Inr r \<Rightarrow> str_field ''content'' old fs)"

definition dec_openAI :: "doc \<Rightarrow> string list res" where
  "dec_openAI = unmarshal (dec_field (dec_array (dec_struct
     (dec_field (dec_struct dec_openAIMessage) ''message'')) []) ''choices'' [])"

definition dec_anthropic :: "doc \<Rightarrow> string list res" where
  "dec_anthropic = unmarshal (dec_field (dec_array (dec_struct (str_field ''text'')) [])
     ''content'' [])"

definition parseResponse :: "LLMConfig \<Rightarrow> (string \<Rightarrow> doc) \<Rightarrow> string \<Rightarrow> llmClassification res" where
  "parseResponse cfg parse body =
     (case (if lc_Provider cfg = ''openai'' \<or> lc_Provider cfg = ''local'' then
              (case dec_openAI (parse body) of
                 Inl e \<Rightarrow> Inl (wrap_err ''parse OpenAI response'' e)
               | Inr [] \<Rightarrow> Inl ''no choices in OpenAI response''
               | Inr (c # cs) \<Rightarrow> Inr c)
            else if lc_Provider cfg = ''anthropic'' then
              (case dec_anthropic (parse body) of
                 Inl e \<Rightarrow> Inl (wrap_err ''parse Anthropic response'' e)
               | Inr [] \<Rightarrow> Inl ''no content in Anthropic response''
               | Inr (c # cs) \<Rightarrow> Inr c)
            else Inr []) of
        Inl e \<Rightarrow> Inl e
      | Inr content0 \<Rightarrow>
          let content = extractJSON content0 in
          (case dec_classification (parse content) of
             Inl e \<Rightarrow> Inl (wrap_err ''parse classification JSON'' e @ '' (content: '' @
               truncate_to content 200 @ '')'')
           | Inr c \<Rightarrow> Inr c))"

definition callLLM :: "LLMConfig \<Rightarrow> http \<Rightarrow> (string \<Rightarrow> doc) \<Rightarrow> string \<Rightarrow> llmClassification res" where
  "callLLM cfg h parse prompt =
     (case llm_endpoint cfg of
        Inl e \<Rightarrow> Inl e
      | Inr endpoint \<Rightarrow>
          let body = (if lc_Provider cfg = ''anthropic'' then anthropicRequest (lc_Model cfg) prompt
                      else openAIRequest (lc_Model cfg) prompt)
          in (case h \<lparr>hr_Method = ''POST'', hr_URL = endpoint, hr_Headers = llm_headers cfg,
                    hr_Body = body\<rparr> of
                Inl e \<Rightarrow> Inl (wrap_err ''LLM request failed'' e)
              | Inr (status, text) \<Rightarrow>
                  if status \<noteq> 200
                  then Inl (''LLM returned status '' @ nat_dec status @ '': '' @ truncate_to text 200)
                  else parseResponse cfg parse text))"

definition classificationToDecision :: "llmClassification \<Rightarrow> Decision" where
  "classificationToDecision c =
     (if cl_Classification c = ''malicious''
      then \<lparr>dn_Action = ActionReject, dn_Reason = cl_Reasoning c, dn_Confidence = cl_Confidence c\<rparr>
      else if cl_Classification c = ''safe'' \<and> 8 / 10 \<le> cl_Confidence c
      then \<lparr>dn_Action = ActionApprove, dn_Reason = cl_Reasoning c, dn_Confidence = cl_Confidence c\<rparr>
      else \<lparr>dn_Action = ActionEscalate, dn_Reason = cl_Reasoning c,
             dn_Confidence = cl_Confidence c\<rparr>)"

definition AnalyzeRich :: "LLMConfig \<Rightarrow> http \<Rightarrow> (string \<Rightarrow> doc) \<Rightarrow> AnalysisResult \<Rightarrow> Decision res" where
  "AnalyzeRich cfg h parse result =
     (case callLLM cfg h parse (buildRichPrompt result) of
        Inl e \<Rightarrow> Inl e
      | Inr c \<Rightarrow> Inr (classificationToDecision c))"

subsection \<open>What the client promises\<close>

lemma str_index_skip:
  "c \<notin> set p \<Longrightarrow> str_index (p @ c # r) (c # cs) = map_option (\<lambda>i. length p + i) (str_index (c # r) (c # cs))"
proof (induction p)
  case Nil
  then show ?case by (cases "str_index (c # r) (c # cs)") simp_all
next
  case (Cons x p)
  then have "\<not> has_prefix (x # p @ c # r) (c # cs)" by (auto simp: has_prefix_def)
  then show ?case using Cons by (simp add: option.map_comp comp_def)
qed

lemma rev_dropWhile_id: "s \<noteq> [] \<Longrightarrow> \<not> P (last s) \<Longrightarrow> rev (dropWhile P (rev s)) = s"
  by (cases s rule: rev_cases) simp_all

lemma trim_space_id:
  "s \<noteq> [] \<Longrightarrow> \<not> is_space (hd s) \<Longrightarrow> \<not> is_space (last s) \<Longrightarrow> trim_space s = s"
  using rev_dropWhile_id [of s is_space]
  by (cases s) (simp_all add: trim_space_def trim_left_def trim_right_def)

lemma trim_space_nl: "s \<noteq> [] \<Longrightarrow> \<not> is_space (hd s) \<Longrightarrow> \<not> is_space (last s) \<Longrightarrow>
    trim_space (nl @ s @ nl) = s"
proof -
  assume s: "s \<noteq> []" "\<not> is_space (hd s)" "\<not> is_space (last s)"
  have n: "is_space (CHR 0x0A)" by (simp add: is_space_def)
  have "trim_left is_space (nl @ s @ nl) = s @ nl"
    using s n by (cases s) (auto simp: trim_left_def nl_def)
  moreover have "trim_right is_space (s @ nl) = s"
    using s n rev_dropWhile_id [of s is_space] by (simp add: trim_right_def nl_def)
  ultimately show ?thesis by (simp add: trim_space_def)
qed

text \<open>
  A model that wraps its JSON in a markdown code fence is understood as if it had not: the fenced
  text is extracted exactly, with or without the language tag, for any text without backticks.
\<close>

theorem extractJSON_fenced:
  assumes "s \<noteq> []" and "\<not> is_space (hd s)" and "\<not> is_space (last s)" and "CHR 0x60 \<notin> set s"
  shows "extractJSON (fence @ ''json'' @ nl @ s @ nl @ fence) = s \<and>
    extractJSON (fence @ nl @ s @ nl @ fence) = s \<and> extractJSON s = s"
proof -
  have nf: "CHR 0x60 \<notin> set (nl @ s @ nl)" using assms(4) by (simp add: nl_def)
  have cut: "cut_at_fence (nl @ s @ nl @ fence) = nl @ s @ nl"
    using str_index_skip [OF nf, of "[CHR 0x60, CHR 0x60]" "[CHR 0x60, CHR 0x60]"]
    by (simp add: cut_at_fence_def fence_def has_prefix_def)
  have bt: "\<not> is_space CHR 0x60" by (simp add: is_space_def)
  have t1: "trim_space (fence @ ''json'' @ nl @ s @ nl @ fence) = fence @ ''json'' @ nl @ s @ nl @ fence"
    by (rule trim_space_id) (simp_all add: fence_def bt)
  have t2: "trim_space (fence @ nl @ s @ nl @ fence) = fence @ nl @ s @ nl @ fence"
    by (rule trim_space_id) (simp_all add: fence_def bt)
  have none: "str_index u (CHR 0x60 # v) = None" if "CHR 0x60 \<notin> set u" for u v
    using that by (induction u) (auto simp: has_prefix_def)
  have a: "extractJSON (fence @ ''json'' @ nl @ s @ nl @ fence) = s"
    using t1 cut trim_space_nl [OF assms(1-3)]
    by (simp add: extractJSON_def fence_def has_prefix_def Let_def)
  have j: "str_index (fence @ nl @ s @ nl @ fence) (fence @ ''json'') = None"
  proof -
    have "str_index (nl @ s @ nl @ fence) (fence @ ''json'') = None"
      using str_index_skip [OF nf, of "[CHR 0x60, CHR 0x60]" "[CHR 0x60, CHR 0x60] @ ''json''"]
      by (simp add: fence_def has_prefix_def)
    then show ?thesis by (simp add: fence_def has_prefix_def nl_def)
  qed
  have f0: "str_index (fence @ u) fence = Some 0" for u by (simp add: fence_def has_prefix_def)
  have b: "extractJSON (fence @ nl @ s @ nl @ fence) = s"
    using t2 cut j f0 trim_space_nl [OF assms(1-3)]
    by (simp add: extractJSON_def Let_def) (simp add: fence_def)
  have c: "extractJSON s = s"
    using none [OF assms(4)] trim_space_id [OF assms(1-3)]
    by (simp add: extractJSON_def fence_def Let_def)
  show ?thesis using a b c by blast
qed

theorem extractJSON_fenced_witness:
  "extractJSON (fence @ ''json'' @ nl @ ''{}'' @ nl @ fence) = ''{}'' \<and>
   extractJSON (fence @ nl @ ''{}'' @ nl @ fence) = ''{}'' \<and> extractJSON ''{}'' = ''{}''"
  by (rule extractJSON_fenced) (simp_all add: is_space_def)

end
