(* ===== verification/Analyzer.thy ===== *)
theory Analyzer
  imports Llm
begin

section \<open>The transaction analyzer (internal/partyb/analyzer/analyzer.go)\<close>

text \<open>
  \<open>Analyze\<close>: decode the unsigned transaction, compare the signable bytes, check the whitelist and
  the fixed rules, summarise, and ask the language model if there is one. What it calls is the
  record \<open>analyzer\<close>: the adapter registry, the whitelist, the ABI resolver at its current cache, the
  language model, and the formatting of a big float. Confidences are rational numbers in place of floats,
  and texts are lower-cased as ASCII.
\<close>

record analyzer =
  an_vmReg :: "registry option"
  an_whitelist :: "((string \<Rightarrow> bool res) \<times> (string \<Rightarrow> WhitelistEntry res)) option"
  an_abi :: "string \<Rightarrow> string \<Rightarrow> DecodedCall res"
  an_llm :: "(AnalysisResult \<Rightarrow> Decision res) option"
  an_formatEth :: "int \<Rightarrow> string"

record AnalyzerConfig =
  ac_LLM :: LLMConfig
  ac_AutoMode :: bool
  ac_DisableAI :: bool
  ac_ExplorerAPIs :: "(string \<times> string) list"
  ac_Whitelist :: "(string \<times> string) list"

text \<open>\<open>New\<close>: there is a language model unless it is disabled or has no provider.\<close>

definition New :: "AnalyzerConfig \<Rightarrow> registry option \<Rightarrow>
    ((string \<Rightarrow> bool res) \<times> (string \<Rightarrow> WhitelistEntry res)) option \<Rightarrow> http \<Rightarrow> (string \<Rightarrow> doc) \<Rightarrow>
    (string \<Rightarrow> string \<Rightarrow> DecodedCall res) \<Rightarrow> (int \<Rightarrow> string) \<Rightarrow> analyzer" where
  "New cfg reg wl h parse abi fmt =
     \<lparr>an_vmReg = reg, an_whitelist = wl, an_abi = abi,
      an_llm = (if \<not> ac_DisableAI cfg \<and> lc_Provider (ac_LLM cfg) \<noteq> []
                then Some (AnalyzeRich (ac_LLM cfg) h parse) else None),
      an_formatEth = fmt\<rparr>"

subsection \<open>Checks\<close>

definition decide :: "Action \<Rightarrow> string \<Rightarrow> rat \<Rightarrow> Decision" where
  "decide a r c = \<lparr>dn_Action = a, dn_Reason = r, dn_Confidence = c\<rparr>"

definition zero_address :: string where
  "zero_address = ''0x0000000000000000000000000000000000000000''"

definition high_value_threshold :: int where
  "high_value_threshold = 100 * 10 ^ 18"

definition deterministicChecks :: "string list \<Rightarrow> string \<Rightarrow> Decision option" where
  "deterministicChecks to value =
     (if to = [] then Some (decide ActionReject ''no recipient addresses specified'' 1)
      else if \<exists>addr \<in> set to. to_lower addr = zero_address
      then Some (decide ActionReject ''transaction targets zero address'' 1)
      else if value \<noteq> [] then
        (case parse_bigint value of
           None \<Rightarrow> Some (decide ActionReject ''invalid value field'' 1)
         | Some val \<Rightarrow> if high_value_threshold < val
             then Some (decide ActionEscalate (''high-value transfer: '' @ int_dec val @ '' wei'') (9 / 10))
             else None)
      else None)"

definition quote_char :: string where "quote_char = [CHR 0x27]"

definition verifyFields :: "SignRequestPayload \<Rightarrow> DecodedTx \<Rightarrow> string list" where
  "verifyFields req decoded =
     (case (dt_To decoded, opt_list (rq_To req)) of
        (d # ds, c # cs) \<Rightarrow>
          if to_lower c \<noteq> to_lower d
          then [quote_char @ ''to'' @ quote_char @ '' mismatch: claimed '' @ to_lower c @ '', actual '' @
            to_lower d] else []
      | _ \<Rightarrow> []) @
     (if dt_Value decoded \<noteq> [] \<and> rq_Value req \<noteq> [] \<and> dt_Value decoded \<noteq> rq_Value req
      then [quote_char @ ''value'' @ quote_char @ '' mismatch: claimed '' @ rq_Value req @ '', actual '' @
        dt_Value decoded] else [])"

fun bytesEqual :: "bytes \<Rightarrow> bytes \<Rightarrow> bool" where
  "bytesEqual [] [] = True"
| "bytesEqual (a # as) (b # bs) = (a = b \<and> bytesEqual as bs)"
| "bytesEqual _ _ = False"

lemma bytesEqual_iff [simp]: "bytesEqual a b \<longleftrightarrow> a = b"
  by (induction a b rule: bytesEqual.induct) auto

subsection \<open>The summary\<close>

definition identifyChain :: "string \<Rightarrow> string" where
  "identifyChain path =
     (if str_contains path (''/60'' @ quote_char) \<or> str_contains path ''/60/'' then ''EVM (Ethereum)''
      else if str_contains path (''/501'' @ quote_char) \<or> str_contains path ''/501/'' then ''Solana''
      else if str_contains path (''/118'' @ quote_char) \<or> str_contains path ''/118/'' then ''Cosmos''
      else ''unknown'')"

definition formatValue :: "(int \<Rightarrow> string) \<Rightarrow> string \<Rightarrow> string \<Rightarrow> string" where
  "formatValue formatEth weiStr chain =
     (if \<not> str_contains chain ''EVM'' then []
      else (case parse_bigint weiStr of
          None \<Rightarrow> []
        | Some val \<Rightarrow> if val = 0 then [] else formatEth val @ '' ETH''))"

definition call_lines :: "DecodedCall option \<Rightarrow> string \<Rightarrow> string" where
  "call_lines call data =
     (case call of
        Some c \<Rightarrow> ''Method: '' @ dc_MethodName c @ nl @
          (if dc_Verified c then ''Contract: verified'' else ''Contract: unverified'') @ nl @
          concat (map (\<lambda>(name, val). ''  '' @ name @ '': '' @ val @ nl) (dc_Args c))
      | None \<Rightarrow>
          if data \<noteq> []
          then (if 10 \<le> length data then ''Function selector: '' @ take 10 data @ nl else []) @
               ''Contract call (ABI not available)'' @ nl
          else [])"

definition decoded_lines :: "DecodedTx option \<Rightarrow> string" where
  "decoded_lines decoded =
     (case decoded of
        None \<Rightarrow> []
      | Some d \<Rightarrow>
          (if 0 < unat (dt_GasLimit d) then ''Gas limit: '' @ nat_dec (unat (dt_GasLimit d)) @ nl
           else []) @
          (if dt_ChainID d \<noteq> [] then ''Chain ID: '' @ dt_ChainID d @ nl else []))"

definition buildSummary :: "(int \<Rightarrow> string) \<Rightarrow> string list \<Rightarrow> string \<Rightarrow> string \<Rightarrow> string \<Rightarrow>
    DecodedTx option \<Rightarrow> DecodedCall option \<Rightarrow> bool \<Rightarrow> string \<Rightarrow> string" where
  "buildSummary formatEth to value data path decoded call whitelisted label =
     (let chain = identifyChain path; human = formatValue formatEth value chain in
      ''Chain: '' @ chain @ nl @
      (if to \<noteq> [] then ''To: '' @ str_join '', '' to @ nl else []) @
      (if value \<noteq> [] then ''Value: '' @ value @
         (if human \<noteq> [] then '' ('' @ human @ '')'' else []) @ nl else []) @
      call_lines call data @ decoded_lines decoded @
      (if whitelisted
       then ''Whitelist: YES ('' @ (if label = [] then ''known address'' else label) @ '')'' @ nl
       else ''Whitelist: NO'' @ nl))"

subsection \<open>Analyze\<close>

definition result0 :: AnalysisResult where
  "result0 = \<lparr>ar_Decision = decide [] [] 0, ar_DecodedTx = None, ar_DecodedCall = None,
     ar_Whitelisted = False, ar_WhitelistLabel = [], ar_SignableBytesOK = True,
     ar_FieldMismatches = [], ar_Warnings = [], ar_Summary = []\<rparr>"

abbreviation warn :: "string \<Rightarrow> AnalysisResult \<Rightarrow> AnalysisResult" where
  "warn w r \<equiv> r\<lparr>ar_Warnings := ar_Warnings r @ [w]\<rparr>"

text \<open>Steps 1 and 2: decode with the adapter, then compare the signable bytes.\<close>

definition decode_step :: "adapter \<Rightarrow> bytes \<Rightarrow> AnalysisResult \<Rightarrow> AnalysisResult" where
  "decode_step ad raw r =
     (case ad_DecodeTx ad raw of
        Inl e \<Rightarrow> warn (''failed to decode tx: '' @ e) r
      | Inr d \<Rightarrow> r\<lparr>ar_DecodedTx := Some d\<rparr>)"

definition signable_step :: "adapter \<Rightarrow> bytes \<Rightarrow> string \<Rightarrow> AnalysisResult \<Rightarrow> AnalysisResult" where
  "signable_step ad raw claimed r =
     (case ad_ExtractSignableBytes ad raw of
        Inl e \<Rightarrow> warn (''failed to recompute signable bytes: '' @ e) r
      | Inr recomputed \<Rightarrow> (case b64_decode claimed of
          Inl e \<Rightarrow> warn (''failed to decode claimed signable bytes: '' @ e) r
        | Inr c \<Rightarrow> if bytesEqual recomputed c then r else r\<lparr>ar_SignableBytesOK := False\<rparr>))"

definition inspect :: "analyzer \<Rightarrow> SignRequestPayload \<Rightarrow> AnalysisResult" where
  "inspect A req =
     (case b64_decode (rq_UnsignedTx req) of
        Inl e \<Rightarrow> warn (''failed to decode unsigned tx base64: '' @ e) result0
      | Inr raw \<Rightarrow> (case an_vmReg A of
          None \<Rightarrow> result0
        | Some reg \<Rightarrow> (case ForPath reg (rq_DerivationPath req) of
            None \<Rightarrow> warn (''no VM adapter for derivation path: '' @ rq_DerivationPath req) result0
          | Some ad \<Rightarrow> signable_step ad raw (rq_SignableBytes req) (decode_step ad raw result0))))"

text \<open>Step 3.\<close>

definition compare_fields :: "SignRequestPayload \<Rightarrow> AnalysisResult \<Rightarrow> AnalysisResult" where
  "compare_fields req r =
     (case ar_DecodedTx r of
        None \<Rightarrow> r
      | Some d \<Rightarrow> let ms = verifyFields req d in
          r\<lparr>ar_FieldMismatches := ms, ar_Warnings := ar_Warnings r @ ms\<rparr>)"

text \<open>The fields the later checks use: decoded where the decoder gave one, else claimed.\<close>

definition effectiveTo :: "SignRequestPayload \<Rightarrow> DecodedTx option \<Rightarrow> string list" where
  "effectiveTo req d =
     (case d of Some t \<Rightarrow> if dt_To t \<noteq> [] then dt_To t else opt_list (rq_To req)
              | None \<Rightarrow> opt_list (rq_To req))"

definition effectiveValue :: "SignRequestPayload \<Rightarrow> DecodedTx option \<Rightarrow> string" where
  "effectiveValue req d =
     (case d of Some t \<Rightarrow> if dt_Value t \<noteq> [] then dt_Value t else rq_Value req | None \<Rightarrow> rq_Value req)"

definition effectiveData :: "SignRequestPayload \<Rightarrow> DecodedTx option \<Rightarrow> string" where
  "effectiveData req d =
     (case d of Some t \<Rightarrow> if dt_Data t \<noteq> [] then dt_Data t else rq_Data req | None \<Rightarrow> rq_Data req)"

text \<open>Step 4: the first receiver found on the whitelist settles it.\<close>

fun check_whitelist :: "(string \<Rightarrow> bool res) \<times> (string \<Rightarrow> WhitelistEntry res) \<Rightarrow> string list \<Rightarrow>
    AnalysisResult \<Rightarrow> AnalysisResult" where
  "check_whitelist wl [] r = r"
| "check_whitelist wl (addr # addrs) r =
     (if fst wl addr = Inr True
      then r\<lparr>ar_Whitelisted := True,
             ar_WhitelistLabel := (case snd wl addr of Inr e \<Rightarrow> we_Label e | Inl _ \<Rightarrow> ar_WhitelistLabel r)\<rparr>
      else check_whitelist wl addrs r)"

text \<open>Step 8: the decision without further checks.\<close>

definition final_decision :: "analyzer \<Rightarrow> AnalysisResult \<Rightarrow> AnalysisResult" where
  "final_decision A r =
     (case an_llm A of
        Some llm \<Rightarrow> (case llm r of
            Inl e \<Rightarrow> (warn (''LLM analysis unavailable: '' @ e) r)\<lparr>ar_Decision :=
              (if ar_Whitelisted r then decide ActionApprove ''whitelisted address (LLM unavailable)'' (9 / 10)
               else decide ActionEscalate ''LLM unavailable, manual review needed'' 0)\<rparr>
          | Inr d \<Rightarrow> r\<lparr>ar_Decision := d\<rparr>)
      | None \<Rightarrow> r\<lparr>ar_Decision :=
          (if ar_Whitelisted r then decide ActionApprove ''whitelisted address'' (9 / 10)
           else decide ActionEscalate ''manual review required (AI disabled)'' 0)\<rparr>)"

definition mismatch_decision :: Decision where
  "mismatch_decision = decide ActionReject
     (''signable bytes mismatch: unsigned tx does not match claimed hash '' @ [CHR 0xE2, CHR 0x80, CHR 0x94] @
       '' possible tampering'') 1"

definition Analyze :: "analyzer \<Rightarrow> SignRequestPayload \<Rightarrow> AnalysisResult" where
  "Analyze A req =
     (let r1 = compare_fields req (inspect A req) in
      if \<not> ar_SignableBytesOK r1
      then r1\<lparr>ar_Decision := mismatch_decision,
              ar_Summary := ''REJECTED: Signable bytes from Party A do not match the unsigned transaction.''\<rparr>
      else
        let to = effectiveTo req (ar_DecodedTx r1);
            value = effectiveValue req (ar_DecodedTx r1);
            data = effectiveData req (ar_DecodedTx r1);
            r2 = (case an_whitelist A of None \<Rightarrow> r1 | Some wl \<Rightarrow> check_whitelist wl to r1)
        in (case deterministicChecks to value of
              Some d \<Rightarrow> r2\<lparr>ar_Decision := d, ar_Summary := dn_Reason d\<rparr>
            | None \<Rightarrow>
                let r3 = (if data \<noteq> [] \<and> to \<noteq> []
                          then (case an_abi A (hd to) data of
                              Inl e \<Rightarrow> r2 | Inr dc \<Rightarrow> r2\<lparr>ar_DecodedCall := Some dc\<rparr>)
                          else r2);
                    r4 = r3\<lparr>ar_Summary := buildSummary (an_formatEth A) to value data
                           (rq_DerivationPath req) (ar_DecodedTx r3) (ar_DecodedCall r3)
                           (ar_Whitelisted r3) (ar_WhitelistLabel r3)\<rparr>
                in final_decision A r4))"

subsection \<open>What the analyzer promises\<close>

text \<open>The bytes of the unsigned transaction and the chain's adapter, where both exist.\<close>

definition decodable :: "analyzer \<Rightarrow> SignRequestPayload \<Rightarrow> (adapter \<times> bytes) option" where
  "decodable A req =
     (case b64_decode (rq_UnsignedTx req) of
        Inl e \<Rightarrow> None
      | Inr raw \<Rightarrow> (case an_vmReg A of
          None \<Rightarrow> None
        | Some reg \<Rightarrow> (case ForPath reg (rq_DerivationPath req) of
            None \<Rightarrow> None | Some ad \<Rightarrow> Some (ad, raw))))"

text \<open>The chain reads other signable bytes from the transaction than the request claims.\<close>

definition tampered :: "analyzer \<Rightarrow> SignRequestPayload \<Rightarrow> bool" where
  "tampered A req =
     (case decodable A req of
        None \<Rightarrow> False
      | Some (ad, raw) \<Rightarrow>
          (case (ad_ExtractSignableBytes ad raw, b64_decode (rq_SignableBytes req)) of
             (Inr x, Inr c) \<Rightarrow> x \<noteq> c | _ \<Rightarrow> False))"

definition decoded_tx :: "analyzer \<Rightarrow> SignRequestPayload \<Rightarrow> DecodedTx option" where
  "decoded_tx A req =
     (case decodable A req of
        None \<Rightarrow> None
      | Some (ad, raw) \<Rightarrow> (case ad_DecodeTx ad raw of Inl e \<Rightarrow> None | Inr d \<Rightarrow> Some d))"

definition receivers :: "analyzer \<Rightarrow> SignRequestPayload \<Rightarrow> string list" where
  "receivers A req = effectiveTo req (decoded_tx A req)"

definition amount :: "analyzer \<Rightarrow> SignRequestPayload \<Rightarrow> string" where
  "amount A req = effectiveValue req (decoded_tx A req)"

definition known_receiver :: "analyzer \<Rightarrow> string list \<Rightarrow> bool" where
  "known_receiver A to =
     (case an_whitelist A of None \<Rightarrow> False | Some wl \<Rightarrow> \<exists>a \<in> set to. fst wl a = Inr True)"

named_theorems analyzer_simps

lemma compare_fields_simps [analyzer_simps]:
  "ar_SignableBytesOK (compare_fields req r) = ar_SignableBytesOK r"
  "ar_DecodedTx (compare_fields req r) = ar_DecodedTx r"
  "ar_Whitelisted (compare_fields req r) = ar_Whitelisted r"
  by (simp_all add: compare_fields_def Let_def split: option.splits)

lemma inspect_simps [analyzer_simps]:
  "ar_SignableBytesOK (inspect A req) = (\<not> tampered A req)"
  "ar_DecodedTx (inspect A req) = decoded_tx A req"
  "ar_Whitelisted (inspect A req) = False"
  by (auto simp: inspect_def tampered_def decoded_tx_def decodable_def signable_step_def
      decode_step_def result0_def split: sum.splits option.splits)

lemma check_whitelist_simps [analyzer_simps]:
  "ar_SignableBytesOK (check_whitelist wl to r) = ar_SignableBytesOK r"
  "ar_DecodedTx (check_whitelist wl to r) = ar_DecodedTx r"
  "ar_Whitelisted (check_whitelist wl to r) =
     (ar_Whitelisted r \<or> (\<exists>a \<in> set to. fst wl a = Inr True))"
  by (induction wl to r rule: check_whitelist.induct) auto

lemma final_decision_cases [analyzer_simps]:
  "ar_Whitelisted (final_decision A r) = ar_Whitelisted r"
  "ar_Decision (final_decision A r) =
     (case an_llm A of
        Some llm \<Rightarrow> (case llm r of
            Inl e \<Rightarrow> (if ar_Whitelisted r
              then decide ActionApprove ''whitelisted address (LLM unavailable)'' (9 / 10)
              else decide ActionEscalate ''LLM unavailable, manual review needed'' 0)
          | Inr d \<Rightarrow> d)
      | None \<Rightarrow> (if ar_Whitelisted r then decide ActionApprove ''whitelisted address'' (9 / 10)
          else decide ActionEscalate ''manual review required (AI disabled)'' 0))"
  by (auto simp: final_decision_def split: option.splits sum.splits)

lemma decide_action [simp]: "dn_Action (decide a r c) = a"
  by (simp add: decide_def)

text \<open>What \<open>Analyze\<close> hands to the language model when it comes to that.\<close>

definition prepared :: "analyzer \<Rightarrow> SignRequestPayload \<Rightarrow> AnalysisResult" where
  "prepared A req =
     (let to = receivers A req; value = amount A req;
          data = effectiveData req (decoded_tx A req);
          r1 = compare_fields req (inspect A req);
          r2 = (case an_whitelist A of None \<Rightarrow> r1 | Some wl \<Rightarrow> check_whitelist wl to r1);
          r3 = (if data \<noteq> [] \<and> to \<noteq> []
                then (case an_abi A (hd to) data of
                    Inl e \<Rightarrow> r2 | Inr dc \<Rightarrow> r2\<lparr>ar_DecodedCall := Some dc\<rparr>)
                else r2)
      in r3\<lparr>ar_Summary := buildSummary (an_formatEth A) to value data (rq_DerivationPath req)
              (ar_DecodedTx r3) (ar_DecodedCall r3) (ar_Whitelisted r3) (ar_WhitelistLabel r3)\<rparr>)"

lemma prepared_whitelisted [analyzer_simps]:
  "ar_Whitelisted (prepared A req) = known_receiver A (receivers A req)"
  by (auto simp: prepared_def Let_def known_receiver_def analyzer_simps
      split: option.splits sum.splits)

lemma Analyze_eq:
  "ar_Decision (Analyze A req) =
     (if tampered A req then mismatch_decision
      else case deterministicChecks (receivers A req) (amount A req) of
          Some d \<Rightarrow> d | None \<Rightarrow> ar_Decision (final_decision A (prepared A req)))"
  "ar_Whitelisted (Analyze A req) =
     (\<not> tampered A req \<and> known_receiver A (receivers A req))"
  by (auto simp: Analyze_def Let_def analyzer_simps receivers_def amount_def known_receiver_def
      prepared_def split: option.splits sum.splits)

lemma deterministicChecks_None:
  "deterministicChecks to value = None \<longleftrightarrow>
     to \<noteq> [] \<and> (\<forall>a \<in> set to. to_lower a \<noteq> zero_address) \<and>
     (value = [] \<or> (\<exists>v. parse_bigint value = Some v \<and> v \<le> high_value_threshold))"
  by (auto simp: deterministicChecks_def split: option.splits)

lemma deterministicChecks_never_approves:
  "deterministicChecks to value = Some d \<Longrightarrow> dn_Action d \<noteq> ActionApprove"
  by (auto simp: deterministicChecks_def split: option.splits if_splits)

lemma classification_approves:
  "dn_Action (classificationToDecision c) = ActionApprove \<longleftrightarrow>
     cl_Classification c = ''safe'' \<and> 8 / 10 \<le> cl_Confidence c"
  by (auto simp: classificationToDecision_def)

text \<open>
  C7. The bytes to be signed are bound to the transaction: where the request's transaction decodes,
  its path has an adapter and the adapter reads signable bytes from it, a request that is not
  rejected claims exactly those bytes (or claims text that is no base64 at all). Any other claim is
  rejected as tampering, whatever whitelist and language model say.
\<close>

theorem Analyze_binds_signable_bytes:
  assumes "b64_decode (rq_UnsignedTx req) = Inr raw" "an_vmReg A = Some reg"
    and "ForPath reg (rq_DerivationPath req) = Some ad" "ad_ExtractSignableBytes ad raw = Inr bytes"
    and "ar_Decision (Analyze A req) \<noteq> mismatch_decision"
  shows "b64_decode (rq_SignableBytes req) = Inr bytes \<or>
    (\<exists>e. b64_decode (rq_SignableBytes req) = Inl e)"
proof -
  have "decodable A req = Some (ad, raw)"
    using assms(1-3) by (simp add: decodable_def)
  then have "tampered A req = (\<exists>c. b64_decode (rq_SignableBytes req) = Inr c \<and> bytes \<noteq> c)"
    using assms(4) by (simp add: tampered_def split: sum.splits)
  moreover have "\<not> tampered A req"
    using assms(5) by (auto simp: Analyze_eq)
  ultimately show ?thesis by (cases "b64_decode (rq_SignableBytes req)") auto
qed

text \<open>
  C2. A request is approved only when no check speaks against it: the signable bytes are not
  known to differ, there is a receiver, none is the zero address, the amount is absent or a decimal
  of at most 100 ether, and either the model classed the transaction as safe with confidence at
  least 0.8, or a receiver is whitelisted and the model is off or failed.
\<close>

theorem Analyze_approves_only_if:
  assumes "A = New cfg reg wl h parse abi fmt"
    and "dn_Action (ar_Decision (Analyze A req)) = ActionApprove"
  shows "\<not> tampered A req \<and> receivers A req \<noteq> [] \<and>
    (\<forall>a \<in> set (receivers A req). to_lower a \<noteq> zero_address) \<and>
    (amount A req = [] \<or> (\<exists>v. parse_bigint (amount A req) = Some v \<and> v \<le> high_value_threshold)) \<and>
    (if \<not> ac_DisableAI cfg \<and> lc_Provider (ac_LLM cfg) \<noteq> []
     then (case callLLM (ac_LLM cfg) h parse (buildRichPrompt (prepared A req)) of
         Inl e \<Rightarrow> known_receiver A (receivers A req)
       | Inr c \<Rightarrow> cl_Classification c = ''safe'' \<and> 8 / 10 \<le> cl_Confidence c)
     else known_receiver A (receivers A req))"
proof -
  have nt: "\<not> tampered A req"
    using assms(2) by (auto simp: Analyze_eq mismatch_decision_def)
  have det: "deterministicChecks (receivers A req) (amount A req) = None"
    using assms(2) nt deterministicChecks_never_approves
    by (auto simp: Analyze_eq split: option.splits)
  have fin: "dn_Action (ar_Decision (final_decision A (prepared A req))) = ActionApprove"
    using assms(2) nt det by (simp add: Analyze_eq)
  have llm: "an_llm A = (if \<not> ac_DisableAI cfg \<and> lc_Provider (ac_LLM cfg) \<noteq> []
      then Some (AnalyzeRich (ac_LLM cfg) h parse) else None)"
    by (simp add: assms(1) New_def)
  have "if \<not> ac_DisableAI cfg \<and> lc_Provider (ac_LLM cfg) \<noteq> []
     then (case callLLM (ac_LLM cfg) h parse (buildRichPrompt (prepared A req)) of
         Inl e \<Rightarrow> known_receiver A (receivers A req)
       | Inr c \<Rightarrow> cl_Classification c = ''safe'' \<and> 8 / 10 \<le> cl_Confidence c)
     else known_receiver A (receivers A req)"
    using fin by (auto simp: analyzer_simps llm AnalyzeRich_def classification_approves
        split: sum.splits if_splits)
  then show ?thesis using nt det[unfolded deterministicChecks_None] by blast
qed

text \<open>
  Without a language model the decision is a function of five facts: tampered bytes, a missing or
  zero receiver and an unreadable amount reject; more than 100 ether escalates; then a whitelisted
  receiver approves and everything else escalates.
\<close>

theorem Analyze_without_model:
  assumes "an_llm A = None"
  shows "dn_Action (ar_Decision (Analyze A req)) =
    (if tampered A req \<or> receivers A req = [] \<or>
        (\<exists>a \<in> set (receivers A req). to_lower a = zero_address) \<or>
        (amount A req \<noteq> [] \<and> parse_bigint (amount A req) = None)
     then ActionReject
     else if \<exists>v. amount A req \<noteq> [] \<and> parse_bigint (amount A req) = Some v \<and> high_value_threshold < v
     then ActionEscalate
     else if known_receiver A (receivers A req) then ActionApprove
     else ActionEscalate)"
proof (cases "tampered A req")
  case True
  then show ?thesis by (simp add: Analyze_eq mismatch_decision_def)
next
  case False
  have "dn_Action (ar_Decision (Analyze A req)) =
    (case deterministicChecks (receivers A req) (amount A req) of
       Some d \<Rightarrow> dn_Action d
     | None \<Rightarrow> if known_receiver A (receivers A req) then ActionApprove else ActionEscalate)"
    using False assms by (simp add: Analyze_eq analyzer_simps split: option.splits)
  then show ?thesis
    using False by (simp add: deterministicChecks_def split: option.splits)
qed

subsection \<open>Concrete analyses\<close>

text \<open>An adapter whose transactions are their own signable bytes and decode to one receiver.\<close>

definition echo_adapter :: adapter where
  "echo_adapter = (dummy_adapter CurveSecp256k1)
     \<lparr>ad_DecodeTx := (\<lambda>b. if b = [] then Inl ''empty'' else Inr (empty_decoded\<lparr>dt_To := [''0xab''], dt_Value := ''5''\<rparr>))\<rparr>"

definition sample_config :: AnalyzerConfig where
  "sample_config = \<lparr>ac_LLM = \<lparr>lc_Provider = [], lc_APIKey = [], lc_Endpoint = [], lc_Model = []\<rparr>,
     ac_AutoMode = True, ac_DisableAI = True, ac_ExplorerAPIs = [], ac_Whitelist = []\<rparr>"

definition sample_analyzer :: analyzer where
  "sample_analyzer = New sample_config (Some (Register [''60''] echo_adapter NewRegistry))
     (Some (\<lambda>a. Inr (a = ''0xab''), \<lambda>a. Inl ''none'')) (\<lambda>r. Inl ''offline'') (\<lambda>s. None)
     (\<lambda>a d. Inl ''no abi'') (\<lambda>v. [])"

definition sample_request :: "string \<Rightarrow> string \<Rightarrow> SignRequestPayload" where
  "sample_request tx claim = \<lparr>rq_To = Some [''0xab''], rq_Value = ''5'', rq_Data = [],
     rq_DerivationPath = ''m/44/60/0/0/0'', rq_UnsignedTx = tx, rq_SignableBytes = claim\<rparr>"

definition sample_tx :: string where "sample_tx = b64_encode [1]"

lemma sample_tx_bytes [simp]: "b64_decode sample_tx = Inr [1]"
  by (simp only: sample_tx_def b64_decode_encode)

lemma sample_path: "extractCoinType ''m/44/60/0/0/0'' = ''60''"
  by (simp add: extractCoinType_def Let_def splitPath_def)

lemma sample_simps [analyzer_simps]:
  "an_vmReg sample_analyzer = Some (Register [''60''] echo_adapter NewRegistry)"
  "an_whitelist sample_analyzer = Some (\<lambda>a. Inr (a = ''0xab''), \<lambda>a. Inl ''none'')"
  "an_llm sample_analyzer = None"
  by (simp_all add: sample_analyzer_def New_def sample_config_def)

lemma sample_decodable: "decodable sample_analyzer (sample_request sample_tx claim) =
    Some (echo_adapter, [1])"
  by (simp add: decodable_def analyzer_simps sample_request_def ForPath_def sample_path)

lemma sample_request_facts:
  "\<not> tampered sample_analyzer (sample_request sample_tx sample_tx)"
  "receivers sample_analyzer (sample_request sample_tx c) = [''0xab'']"
  "amount sample_analyzer (sample_request sample_tx c) = ''5''"
  unfolding tampered_def receivers_def amount_def decoded_tx_def sample_decodable
  by (simp_all add: sample_request_def echo_adapter_def dummy_adapter_def effectiveTo_def
      effectiveValue_def)

lemma sample_known: "known_receiver sample_analyzer [''0xab'']"
  by (simp add: known_receiver_def analyzer_simps)

lemma five: "parse_bigint ''5'' = Some 5"
  by (simp add: parse_bigint_def parse_dec_def is_digit_def digit_val_def)

theorem Analyze_binds_signable_bytes_witness:
  "b64_decode (rq_SignableBytes (sample_request sample_tx sample_tx)) = Inr [1]"
proof -
  have "ar_Decision (Analyze sample_analyzer (sample_request sample_tx sample_tx))
      \<noteq> mismatch_decision"
    by (simp add: Analyze_eq sample_request_facts deterministicChecks_def five zero_address_def
        high_value_threshold_def analyzer_simps sample_known mismatch_decision_def decide_def
        to_lower_def char_lower_def)
  then have "b64_decode (rq_SignableBytes (sample_request sample_tx sample_tx)) = Inr [1] \<or>
     (\<exists>e. b64_decode (rq_SignableBytes (sample_request sample_tx sample_tx)) = Inl e)"
    by (intro Analyze_binds_signable_bytes [where raw = "[1]" and ad = echo_adapter
          and reg = "Register [''60''] echo_adapter NewRegistry" and A = sample_analyzer])
      (simp_all add: sample_request_def analyzer_simps ForPath_def sample_path echo_adapter_def dummy_adapter_def)
  then show ?thesis by (simp add: sample_request_def)
qed

theorem Analyze_without_model_witness:
  "dn_Action (ar_Decision (Analyze sample_analyzer (sample_request sample_tx sample_tx)))
     = ActionApprove"
  by (subst Analyze_without_model)
    (simp_all add: analyzer_simps sample_request_facts sample_known five high_value_threshold_def
      zero_address_def to_lower_def char_lower_def)

lemma sample_approved:
  "dn_Action (ar_Decision (Analyze sample_analyzer (sample_request sample_tx sample_tx)))
     = ActionApprove"
  by (simp add: Analyze_eq sample_request_facts deterministicChecks_def five zero_address_def
      high_value_threshold_def analyzer_simps sample_known to_lower_def char_lower_def)

theorem Analyze_approves_only_if_witness:
  "known_receiver sample_analyzer
     (receivers sample_analyzer (sample_request sample_tx sample_tx))"
  using Analyze_approves_only_if [OF sample_analyzer_def sample_approved]
  by (simp add: sample_config_def)

text \<open>
  Where the analysis is weaker than it looks. A transaction that is no base64 is judged by the
  fields the sender claims, and approved when the claimed receiver is whitelisted; so is one no
  adapter can decode. One whitelisted receiver among several is enough.
\<close>

lemma undecodable_transaction_approved:
  "b64_decode ''!'' = Inl e \<Longrightarrow>
   dn_Action (ar_Decision (Analyze sample_analyzer (sample_request ''!'' c))) = ActionApprove"
  by (simp add: Analyze_eq tampered_def receivers_def amount_def decoded_tx_def decodable_def
      sample_request_def effectiveTo_def effectiveValue_def deterministicChecks_def five
      zero_address_def high_value_threshold_def analyzer_simps sample_known to_lower_def
      char_lower_def opt_list_def)

lemma one_known_receiver_suffices:
  "an_llm A = None \<Longrightarrow> \<not> tampered A req \<Longrightarrow>
   deterministicChecks (receivers A req) (amount A req) = None \<Longrightarrow>
   an_whitelist A = Some wl \<Longrightarrow> a \<in> set (receivers A req) \<Longrightarrow> fst wl a = Inr True \<Longrightarrow>
   dn_Action (ar_Decision (Analyze A req)) = ActionApprove"
  by (auto simp: Analyze_eq analyzer_simps known_receiver_def)

end
