(* ===== verification/Approval.thy ===== *)
theory Approval
  imports PartyA Analyzer
begin

section \<open>Party A's goroutines together (internal/partya)\<close>

text \<open>
  The HTTP server runs each request in a goroutine of its own, and so does the main program each
  approval that Party B pushes. They share the queue and the database; between the points at which a
  goroutine waits for Party B the others may act. A task is a goroutine that waits; a step is what
  happens between two waits; the theorems hold of every interleaving. A panic in an approval ends the
  process, so it is not a step.
\<close>

datatype atask =
  Asking TxSignRequest adapter DerivedKeyRecord UnsignedTx
| Approving string adapter DerivedKeyRecord PendingTx
| Polling string nat

record asystem =
  as_svc :: partya
  as_tasks :: "atask list"

text \<open>
  What an observer sees: a transaction queued with its unsigned bytes; a signing run after an approval,
  with the bytes it started from and its outcome; an answer to a status request.
\<close>

datatype aevent =
  Escalated string bytes
| SignedApproved string bytes "bytes res"
| Told SignResult
| Quiet

definition answer_event :: "UnsignedTx \<Rightarrow> SignResponsePayload \<Rightarrow> aevent" where
  "answer_event u resp =
     (if rs_Decision resp = ''escalate'' then Escalated (rs_TxID resp) (ut_RawBytes u) else Quiet)"

inductive a_step :: "'r aenv \<Rightarrow> asystem \<Rightarrow> aevent \<Rightarrow> asystem \<Rightarrow> bool" for E where
  Asks: "sign_prepare E out req (as_svc a) = Inr (ad, dk, u, signable) \<Longrightarrow>
    a_step E a Quiet \<lparr>as_svc = snd (nextMsgID (as_svc a)), as_tasks = Asking req ad dk u # as_tasks a\<rparr>"
| Is_answered: "Asking req ad dk u \<in> set (as_tasks a) \<Longrightarrow>
    sign_decided E out now rpc tss req ad dk u resp (as_svc a) = (Return r, s') \<Longrightarrow>
    a_step E a (answer_event u resp)
      \<lparr>as_svc = s', as_tasks = remove1 (Asking req ad dk u) (as_tasks a)\<rparr>"
| Is_pushed: "push_handler msg = Some payload \<Longrightarrow>
    approved_lookup E out (sa_TxID payload) (sa_DerivationPath payload) (as_svc a) = CanSign ad dk p \<Longrightarrow>
    a_step E a Quiet (a\<lparr>as_tasks := Approving (sa_TxID payload) ad dk p # as_tasks a\<rparr>)"
| Push_fails: "push_handler msg = Some payload \<Longrightarrow>
    approved_lookup E out (sa_TxID payload) (sa_DerivationPath payload) (as_svc a) = CannotSign \<Longrightarrow>
    a_step E a Quiet
      (a\<lparr>as_svc := update_queue (sa_TxID payload) TxStatusRejected None (as_svc a)\<rparr>)"
| Signs: "Approving txID ad dk p \<in> set (as_tasks a) \<Longrightarrow>
    runTSSSigning E rpc tss ad dk (pt_UnsignedTx p) (pt_ExtraSignerKeys p) (pt_RpcURL p) txID (as_svc a) =
      (Return r, s1) \<Longrightarrow>
    a_step E a (SignedApproved txID (pt_UnsignedTx p) r)
      \<lparr>as_svc = approved_done out now txID r s1, as_tasks = remove1 (Approving txID ad dk p) (as_tasks a)\<rparr>"
| Polls: "queue_Get txID (pa_queue (as_svc a)) = Some i \<Longrightarrow>
    pt_Status (eq_heap (pa_queue (as_svc a)) i) = TxStatusPending \<Longrightarrow>
    a_step E a Quiet \<lparr>as_svc = snd (nextMsgID (as_svc a)), as_tasks = Polling txID i # as_tasks a\<rparr>"
| Poll_answered: "Polling txID i \<in> set (as_tasks a) \<Longrightarrow>
    status_reply txID reply (as_svc a) = (Some r, s') \<Longrightarrow>
    a_step E a (Told r) \<lparr>as_svc = s', as_tasks = remove1 (Polling txID i) (as_tasks a)\<rparr>"
| Poll_failed: "Polling txID i \<in> set (as_tasks a) \<Longrightarrow>
    status_reply txID reply (as_svc a) = (None, s1) \<Longrightarrow> status_of_object txID i s1 = (r, s') \<Longrightarrow>
    a_step E a (Told r) \<lparr>as_svc = s', as_tasks = remove1 (Polling txID i) (as_tasks a)\<rparr>"
| Reads_queue: "queue_Get txID (pa_queue (as_svc a)) = Some i \<Longrightarrow>
    pt_Status (eq_heap (pa_queue (as_svc a)) i) \<noteq> TxStatusPending \<Longrightarrow>
    status_of_object txID i (as_svc a) = (r, s') \<Longrightarrow> a_step E a (Told r) (a\<lparr>as_svc := s'\<rparr>)"
| Reads_store: "queue_Get txID (pa_queue (as_svc a)) = None \<Longrightarrow>
    status_of_store out txID (as_svc a) = (Inr r, s') \<Longrightarrow> a_step E a (Told r) (a\<lparr>as_svc := s'\<rparr>)"
| Derives: "Derive E out nonce now rpc path label bech (as_svc a) = (r, s') \<Longrightarrow>
    a_step E a Quiet (a\<lparr>as_svc := s'\<rparr>)"

inductive_cases a_stepE: "a_step E a e a'"

text \<open>Runs of a new service, the newest event first.\<close>

inductive a_run :: "'r aenv \<Rightarrow> aevent list \<Rightarrow> asystem \<Rightarrow> bool" for E where
  A_start: "a_run E [] \<lparr>as_svc = partya_New d, as_tasks = []\<rparr>"
| A_next: "a_run E tr a \<Longrightarrow> a_step E a e a' \<Longrightarrow> a_run E (e # tr) a'"

subsection \<open>The steps on the queue\<close>

lemma queue_Add_lookup:
  "queue_inv q \<Longrightarrow> queue_lookup k (queue_Add i r u url ks q) =
     (if k = i then Some \<lparr>pt_TxID = i, pt_Status = TxStatusPending, pt_Reason = r, pt_UnsignedTx = u,
        pt_SignedTx = None, pt_RpcURL = url, pt_ExtraSignerKeys = ks\<rparr> else queue_lookup k q)"
  by (simp add: queue_Add_def queue.lookup_put)

lemma update_queue_lookup:
  "queue_inv (pa_queue s) \<Longrightarrow> queue_lookup k (pa_queue (update_queue txID st stx s)) =
     (if k = txID then map_option (set_status st stx) (queue_lookup k (pa_queue s))
      else queue_lookup k (pa_queue s))"
  by (simp add: update_queue_def queue_Update_modify queue.lookup_upd)

lemma update_queue_inv:
  "queue_inv (pa_queue s) \<Longrightarrow> queue_inv (pa_queue (update_queue txID st stx s))"
  by (simp add: update_queue_def queue_ops_inv)

lemma set_status_keeps [simp]:
  "pt_TxID (set_status st stx p) = pt_TxID p" "pt_UnsignedTx (set_status st stx p) = pt_UnsignedTx p"
  by (simp_all add: set_status_def)

lemma in_remove1: "x \<in> set (remove1 t xs) \<Longrightarrow> x \<in> set xs"
  using set_remove1_subset by fastforce

text \<open>Entries come from additions: every other operation keeps what an entry is for.\<close>

definition keeps_entries :: "partya \<Rightarrow> partya \<Rightarrow> bool" where
  "keeps_entries s s' \<longleftrightarrow> (queue_inv (pa_queue s) \<longrightarrow> queue_inv (pa_queue s') \<and>
     (\<forall>k p'. queue_lookup k (pa_queue s') = Some p' \<longrightarrow>
       (\<exists>p. queue_lookup k (pa_queue s) = Some p \<and> pt_TxID p' = pt_TxID p \<and>
         pt_UnsignedTx p' = pt_UnsignedTx p)))"

lemma keeps_entries_same: "pa_queue s' = pa_queue s \<Longrightarrow> keeps_entries s s'"
  by (simp add: keeps_entries_def)

lemma keeps_entries_refl: "keeps_entries s s"
  by (simp add: keeps_entries_same)

lemma keeps_entries_trans: "keeps_entries s s1 \<Longrightarrow> keeps_entries s1 s2 \<Longrightarrow> keeps_entries s s2"
  unfolding keeps_entries_def by metis

lemma keeps_entries_update: "keeps_entries s (update_queue txID st stx s)"
  by (auto simp: keeps_entries_def update_queue_inv update_queue_lookup split: if_splits)

lemma keeps_entries_delete: "keeps_entries s (s\<lparr>pa_queue := queue_Delete txID (pa_queue s)\<rparr>)"
  by (auto simp: keeps_entries_def queue_ops_inv queue.lookup_del split: if_splits)

lemmas keeps_entries_intros = keeps_entries_same keeps_entries_update keeps_entries_delete
  keeps_entries_trans [OF keeps_entries_update keeps_entries_delete]

lemma keeps_approved_done: "keeps_entries s (approved_done out now txID r s)"
proof (cases r)
  case (Inl e)
  then show ?thesis by (simp add: approved_done_def keeps_entries_update)
next
  case (Inr x)
  have "pa_queue (approved_done out now txID r s) =
      pa_queue (update_queue txID TxStatusSigned (Some x) s)"
    by (simp add: approved_done_def Inr Let_def)
  then show ?thesis by (metis keeps_entries_same keeps_entries_trans keeps_entries_update)
qed

lemma keeps_status_reply: "status_reply txID reply s = (r, s') \<Longrightarrow> keeps_entries s s'"
  by (auto simp: status_reply_def Let_def split: sum.splits if_splits
      intro: keeps_entries_intros)

lemma keeps_status_of_object: "status_of_object txID i s = (r, s') \<Longrightarrow> keeps_entries s s'"
  by (auto simp: status_of_object_def Let_def split: if_splits intro: keeps_entries_intros)

lemma keeps_poll_failed:
  "status_reply txID reply s = (None, s1) \<Longrightarrow> status_of_object txID i s1 = (r, s') \<Longrightarrow>
     keeps_entries s s'"
  using keeps_status_reply keeps_status_of_object keeps_entries_trans by metis

lemma keeps_status_of_store: "status_of_store out txID s = (r, s') \<Longrightarrow> keeps_entries s s'"
  by (auto simp: status_of_store_def split: sum.splits if_splits intro: keeps_entries_intros)

lemma keeps_nextMsgID: "keeps_entries s (snd (nextMsgID s))"
  by (simp add: nextMsgID_def keeps_entries_same)

lemma keeps_Derive: "Derive E out nonce now rpc path label bech s = (r, s') \<Longrightarrow> keeps_entries s s'"
  by (auto simp: Derive_def partya_simps intro!: keeps_entries_same
      split: option.splits sum.splits prod.splits)

lemma keeps_sign_decided:
  assumes "sign_decided E out now rpc tss req ad dk u resp s = (x, s')"
    and "rs_Decision resp \<noteq> ''escalate''"
  shows "keeps_entries s s'"
  using assms
  by (auto simp: sign_decided_def dest: runTSSSigning_frame intro!: keeps_entries_same
      split: if_splits prod.splits may_panic.splits)

lemma sign_decided_escalates:
  assumes "sign_decided E out now rpc tss req ad dk u resp s = (x, s')"
    and "rs_Decision resp = ''escalate''" and "queue_inv (pa_queue s)"
  shows "queue_inv (pa_queue s') \<and> queue_lookup k (pa_queue s') =
    (if k = rs_TxID resp then Some \<lparr>pt_TxID = k, pt_Status = TxStatusPending,
       pt_Reason = rs_Reason resp, pt_UnsignedTx = ut_RawBytes u, pt_SignedTx = None,
       pt_RpcURL = sg_RpcURL req, pt_ExtraSignerKeys = ut_ExtraSignerKeys u\<rparr>
     else queue_lookup k (pa_queue s))"
  using assms
  by (auto simp: sign_decided_def sign_escalated_def Let_def queue_ops_inv queue_Add_lookup
      split: prod.splits option.splits)

subsection \<open>What is signed after an approval\<close>

definition was_escalated :: "aevent list \<Rightarrow> string \<Rightarrow> PendingTx \<Rightarrow> bool" where
  "was_escalated tr txID p \<longleftrightarrow> pt_TxID p = txID \<and> Escalated txID (pt_UnsignedTx p) \<in> set tr"

definition a_inv :: "aevent list \<Rightarrow> asystem \<Rightarrow> bool" where
  "a_inv tr a \<longleftrightarrow> queue_inv (pa_queue (as_svc a)) \<and>
     (\<forall>k p. queue_lookup k (pa_queue (as_svc a)) = Some p \<longrightarrow> was_escalated tr k p) \<and>
     (\<forall>k ad dk p. Approving k ad dk p \<in> set (as_tasks a) \<longrightarrow> was_escalated tr k p)"

lemma a_inv_start: "a_inv [] \<lparr>as_svc = partya_New d, as_tasks = []\<rparr>"
  by (simp add: a_inv_def partya_New_def queue_inv_new) (simp add: queue_lookup_def NewEscalationQueue_def)

lemma was_escalated_more: "was_escalated tr k p \<Longrightarrow> was_escalated (e # tr) k p"
  by (simp add: was_escalated_def)

lemma a_inv_keeps:
  assumes "a_inv tr a" and "keeps_entries (as_svc a) (as_svc a')"
    and "\<And>k ad dk p. Approving k ad dk p \<in> set (as_tasks a') \<Longrightarrow>
      Approving k ad dk p \<in> set (as_tasks a) \<or> queue_lookup k (pa_queue (as_svc a)) = Some p"
  shows "a_inv (e # tr) a'"
proof -
  have q: "queue_inv (pa_queue (as_svc a))" using assms(1) by (simp add: a_inv_def)
  have "was_escalated (e # tr) k p'" if p': "queue_lookup k (pa_queue (as_svc a')) = Some p'" for k p'
  proof -
    obtain p where "queue_lookup k (pa_queue (as_svc a)) = Some p" "pt_TxID p' = pt_TxID p"
      "pt_UnsignedTx p' = pt_UnsignedTx p"
      using assms(2) q p' unfolding keeps_entries_def by metis
    moreover from this(1) have "was_escalated tr k p" using assms(1) by (simp add: a_inv_def)
    ultimately show ?thesis by (simp add: was_escalated_def)
  qed
  moreover have "was_escalated (e # tr) k p" if "Approving k ad dk p \<in> set (as_tasks a')" for k ad dk p
    using assms(1) assms(3) [OF that] was_escalated_more unfolding a_inv_def by metis
  ultimately show ?thesis using assms(2) q by (simp add: a_inv_def keeps_entries_def)
qed

lemma a_inv_answered:
  assumes "a_inv tr a" "sign_decided E out now rpc tss req ad dk u resp (as_svc a) = (x, s')"
  shows "a_inv (answer_event u resp # tr) \<lparr>as_svc = s', as_tasks = remove1 t (as_tasks a)\<rparr>"
proof (cases "rs_Decision resp = ''escalate''")
  case True
  have q: "queue_inv (pa_queue (as_svc a))" using assms(1) by (simp add: a_inv_def)
  note esc = sign_decided_escalates [OF assms(2) True q]
  show ?thesis
    using assms(1) esc by (auto simp: a_inv_def was_escalated_def answer_event_def True
        dest: in_remove1 split: if_splits)
next
  case False
  show ?thesis
    by (rule a_inv_keeps [OF assms(1)]) (use keeps_sign_decided [OF assms(2) False] in
        \<open>auto dest: in_remove1\<close>)
qed

lemma approved_lookup_queued:
  "approved_lookup E out txID path s = CanSign ad dk p \<Longrightarrow> queue_lookup txID (pa_queue s) = Some p"
  by (auto simp: approved_lookup_def queue_Get_def queue_lookup_def split: option.splits sum.splits)

lemma a_step_inv: "a_step E a e a' \<Longrightarrow> a_inv tr a \<Longrightarrow> a_inv (e # tr) a'"
proof (erule a_step.cases, goal_cases)
  case 2
  then show ?case by (simp add: a_inv_answered)
next
  case (5 txID ad dk p a rpc tss r s1 out now)
  have "keeps_entries (as_svc a) (approved_done out now txID r s1)"
    using runTSSSigning_frame [OF 5(6)] keeps_approved_done keeps_entries_same keeps_entries_trans
    by metis
  with 5 show ?case by (auto intro!: a_inv_keeps dest: in_remove1)
qed (auto intro!: a_inv_keeps keeps_nextMsgID keeps_entries_refl keeps_entries_update
    dest: keeps_status_reply keeps_poll_failed keeps_status_of_object keeps_status_of_store keeps_Derive
      keeps_entries_trans in_remove1 approved_lookup_queued)

lemma a_run_inv: "a_run E tr a \<Longrightarrow> a_inv tr a"
  by (induction rule: a_run.induct) (simp_all add: a_inv_start a_step_inv)

lemma a_step_signs:
  "a_step E a (SignedApproved txID raw r) a' \<Longrightarrow>
     \<exists>ad dk p. Approving txID ad dk p \<in> set (as_tasks a) \<and> raw = pt_UnsignedTx p"
  by (erule a_step.cases) (auto simp: answer_event_def split: if_splits)

text \<open>
  C3. What Party A signs after an approval is what was escalated: in every interleaving of requests,
  status polls, approvals and derivations, a signing run for an approved transaction starts from
  exactly the unsigned bytes that were queued under its id earlier, whatever Party B's messages say.
\<close>

theorem approved_signs_escalated:
  assumes "a_run E tr a" and "tr = later @ SignedApproved txID raw r # earlier"
  shows "Escalated txID raw \<in> set earlier"
  using assms
proof (induction arbitrary: later rule: a_run.induct)
  case (A_next tr a e a')
  show ?case
  proof (cases later)
    case Nil
    then have "e = SignedApproved txID raw r" "earlier = tr" using A_next.prems by auto
    moreover from this A_next.hyps(2) obtain ad dk p
      where "Approving txID ad dk p \<in> set (as_tasks a)" "raw = pt_UnsignedTx p"
      by (metis a_step_signs)
    ultimately show ?thesis
      using a_run_inv [OF A_next.hyps(1)] by (auto simp: a_inv_def was_escalated_def)
  next
    case (Cons x xs)
    then show ?thesis using A_next.prems by (intro A_next.IH [of xs]) simp
  qed
qed simp

subsection \<open>One approval\<close>

lemma runTSSSigning_cases:
  assumes "runTSSSigning E rpc tss ad dk raw extra url txID s = (Return r, s')"
  shows "(\<exists>e. r = Inl e) \<or> (\<exists>signedTx. r = Inr signedTx \<and>
    signed_by_both E rpc tss ad dk raw extra url txID (pa_msgCounter s + 1) signedTx)"
  using assms runTSSSigning_ok [of E rpc tss ad dk raw extra url txID s _ s'] by (cases r) auto

text \<open>
  C31. An approval settles its transaction and no other: the entry ends signed, with a transaction
  assembled from a signature over its escalated bytes, and the row of the store is updated to match, or
  it ends rejected and the store keeps the row as it was.
\<close>

theorem HandleSignApproved_effect:
  assumes "queue_inv (pa_queue s)" and "HandleSignApproved E out now rpc tss txID path s = Return s'"
  shows "(\<forall>k. k \<noteq> txID \<longrightarrow> queue_lookup k (pa_queue s') = queue_lookup k (pa_queue s)) \<and>
    (case queue_lookup txID (pa_queue s) of
       None \<Rightarrow> s' = s
     | Some p \<Rightarrow>
         (\<exists>ad dk signedTx. approved_lookup E out txID path s = CanSign ad dk p \<and>
            signed_by_both E rpc tss ad dk (pt_UnsignedTx p) (pt_ExtraSignerKeys p) (pt_RpcURL p) txID
              (pa_msgCounter s + 1) signedTx \<and>
            queue_lookup txID (pa_queue s') =
              Some (p\<lparr>pt_Status := TxStatusSigned, pt_SignedTx := Some signedTx\<rparr>) \<and>
            pa_db s' = snd (UpdateTxStatus (out AUpdateTx) now txID TxStatusSigned (Some signedTx) (pa_db s))) \<or>
         queue_lookup txID (pa_queue s') = Some (p\<lparr>pt_Status := TxStatusRejected\<rparr>) \<and> pa_db s' = pa_db s)"
proof (cases "approved_lookup E out txID path s")
  case NotQueued
  then have "queue_lookup txID (pa_queue s) = None" "s' = s"
    using assms(2) by (auto simp: HandleSignApproved_def approved_lookup_def queue_Get_def
        queue_lookup_def split: option.splits sum.splits)
  then show ?thesis by simp
next
  case CannotSign
  then obtain p where "queue_lookup txID (pa_queue s) = Some p"
    by (auto simp: approved_lookup_def queue_Get_def queue_lookup_def split: option.splits sum.splits)
  moreover have "s' = update_queue txID TxStatusRejected None s"
    using assms(2) CannotSign by (simp add: HandleSignApproved_def)
  ultimately show ?thesis
    using update_queue_lookup [OF assms(1)] by (simp add: set_status_def) (simp add: update_queue_def)
next
  case (CanSign ad dk p)
  note p = approved_lookup_queued [OF CanSign]
  obtain r s1 where run: "runTSSSigning E rpc tss ad dk (pt_UnsignedTx p) (pt_ExtraSignerKeys p)
      (pt_RpcURL p) txID s = (Return r, s1)" and s': "s' = approved_done out now txID r s1"
    using assms(2) CanSign
    by (auto simp: HandleSignApproved_def split: prod.splits may_panic.splits)
  have same: "pa_db s1 = pa_db s" "pa_queue s1 = pa_queue s" using runTSSSigning_frame [OF run] by auto
  then have look: "queue_lookup k (pa_queue (update_queue txID st stx s1)) =
      (if k = txID then map_option (set_status st stx) (queue_lookup k (pa_queue s))
       else queue_lookup k (pa_queue s))" for k st stx
    using update_queue_lookup [of s1] assms(1) by simp
  have d: "pa_db (update_queue txID st stx s1) = pa_db s" for st stx
    by (simp add: update_queue_def same)
  from runTSSSigning_cases [OF run] show ?thesis
    using CanSign p d look
    by (auto simp: s' approved_done_def Let_def set_status_def)
qed

text \<open>
  An approval can end the process: outside the adapters, whose panics count as errors here, the
  signing goroutine panics exactly when the node's blockhash for a queued Solana transaction is a text
  that is no base58 of 32 bytes.
\<close>

theorem approval_panics_iff:
  "HandleSignApproved E out now rpc tss txID path s = Panic \<longleftrightarrow>
     (\<exists>ad dk p h tx. approved_lookup E out txID path s = CanSign ad dk p \<and>
        ad_Name ad = ''solana'' \<and> pt_RpcURL p \<noteq> [] \<and>
        FetchRecentBlockhash (pv_net E) (pt_RpcURL p) = Inr h \<and>
        so_TransactionFromBytes (pv_sol E) (pt_UnsignedTx p) = Inr tx \<and>
        so_HashFromBase58 (pv_sol E) h = None)"
proof -
  have "fst (runTSSSigning E rpc tss ad dk raw extra url txID s) = Panic \<longleftrightarrow>
      final_tx E ad raw url = Panic" for ad dk raw extra url
    by (auto simp: runTSSSigning_def split: may_panic.splits sum.splits prod.splits)
  moreover have "final_tx E ad raw url = Panic \<longleftrightarrow> ad_Name ad = ''solana'' \<and> url \<noteq> [] \<and>
      (\<exists>h tx. FetchRecentBlockhash (pv_net E) url = Inr h \<and>
        so_TransactionFromBytes (pv_sol E) raw = Inr tx \<and> so_HashFromBase58 (pv_sol E) h = None)"
    for ad raw url
    by (cases "FetchRecentBlockhash (pv_net E) url"; cases "so_TransactionFromBytes (pv_sol E) raw")
      (auto simp: final_tx_def InjectBlockhash_def in_ctx_def must_def split: option.splits)
  ultimately show ?thesis
    by (auto simp: HandleSignApproved_def split: approved_lookup.splits prod.splits may_panic.splits)
      (metis fst_conv may_panic.distinct)+
qed

subsection \<open>Fetching a signed transaction\<close>

definition signed_answer :: "string \<Rightarrow> bytes \<Rightarrow> SignResult \<Rightarrow> bool" where
  "signed_answer txID signedTx r \<longleftrightarrow>
     sr_TxID r = txID \<and> sr_Status r = ''signed'' \<and> sr_SignedTx r = hex0x signedTx"

lemma GetSignStatus_queued:
  assumes "queue_lookup txID (pa_queue s) = Some p" "pt_Status p = TxStatusSigned"
    "pt_SignedTx p = Some signedTx"
  shows "GetSignStatus out rpc txID s =
    (Inr \<lparr>sr_TxID = txID, sr_Status = TxStatusSigned, sr_SignedTx = hex0x signedTx,
       sr_Reason = pt_Reason p\<rparr>, s\<lparr>pa_queue := queue_Delete txID (pa_queue s)\<rparr>)"
  using assms
  by (auto simp: GetSignStatus_def queue_Get_def queue_lookup_def status_of_object_def Let_def
      opt_hex0x_def tx_status_defs)

lemma GetSignStatus_stored:
  assumes "queue_lookup txID (pa_queue s) = None" "GetTx (out AGetTx) txID (pa_db s) = Inr tx"
    "tr_Status tx = TxStatusSigned" "tr_SignedTx tx = Some signedTx"
  shows "GetSignStatus out rpc txID s =
    (Inr \<lparr>sr_TxID = tr_ID tx, sr_Status = TxStatusSigned, sr_SignedTx = hex0x signedTx,
       sr_Reason = tr_Reason tx\<rparr>, s\<lparr>pa_db := snd (DeleteTx (out ADeleteTx) txID (pa_db s))\<rparr>)"
  using assms
  by (simp add: GetSignStatus_def queue_Get_def queue_lookup_def status_of_store_def opt_hex0x_def)

text \<open>
  A signed transaction is handed out twice: after an approval the entry of the queue answers the
  first request and is deleted, the row of the store answers the second and is deleted, and only the
  third finds nothing.
\<close>

theorem signed_tx_served_twice:
  assumes "queue_lookup txID (pa_queue s) = Some p" "queue_inv (pa_queue s)"
    and "pt_Status p = TxStatusSigned" "pt_SignedTx p = Some signedTx"
    and "GetTx None txID (pa_db s) = Inr tx" "tr_ID tx = txID" "tr_Status tx = TxStatusSigned"
    "tr_SignedTx tx = Some signedTx"
  shows "\<exists>r1 s1 r2 s2 e s3. GetSignStatus (\<lambda>x. None) rpc txID s = (Inr r1, s1) \<and>
    GetSignStatus (\<lambda>x. None) rpc txID s1 = (Inr r2, s2) \<and>
    GetSignStatus (\<lambda>x. None) rpc txID s2 = (Inl e, s3) \<and>
    signed_answer txID signedTx r1 \<and> signed_answer txID signedTx r2"
proof -
  define s1 where "s1 = s\<lparr>pa_queue := queue_Delete txID (pa_queue s)\<rparr>"
  define s2 where "s2 = s1\<lparr>pa_db := snd (DeleteTx None txID (pa_db s1))\<rparr>"
  have gone: "queue_lookup txID (pa_queue s1) = None"
    using queue.lookup_del [OF assms(2)] by (simp add: s1_def)
  have row: "select tr_ID txID (db_txs (pa_db s)) = Some tx"
    using assms(5) by (auto simp: GetTx_def split: option.splits)
  have "GetSignStatus (\<lambda>x. None) rpc txID s2 =
      (Inl (wrap_err ''get tx'' (wrap_err ''get transaction'' no_rows)), s2)"
    using gone row
    by (simp add: s2_def s1_def GetSignStatus_def queue_Get_def queue_lookup_def status_of_store_def
        GetTx_def DeleteTx_def tx_table.get_del)
  moreover have "GetSignStatus (\<lambda>x. None) rpc txID s1 =
      (Inr \<lparr>sr_TxID = tr_ID tx, sr_Status = TxStatusSigned, sr_SignedTx = hex0x signedTx,
         sr_Reason = tr_Reason tx\<rparr>, s2)"
    using GetSignStatus_stored [of txID s1 "\<lambda>x. None" tx signedTx rpc] gone assms(5-8)
    by (simp add: s2_def) (simp add: s1_def)
  moreover note GetSignStatus_queued [OF assms(1,3,4), of "\<lambda>x. None" rpc, folded s1_def]
  ultimately show ?thesis using assms(6) by (auto simp: signed_answer_def tx_status_defs)
qed

text \<open>The three shapes of a result.\<close>

lemma Sign_result_typed:
  assumes "Sign E out now rpc tss req s = (Return (Inr r), s')"
  shows "(sr_Status r = ''signed'' \<and> (\<exists>signedTx. sr_SignedTx r = hex0x signedTx) \<and> sr_TxID r = []) \<or>
    (sr_Status r = ''rejected'' \<and> sr_SignedTx r = [] \<and> sr_TxID r = []) \<or>
    (sr_Status r = ''pending_review'' \<and> sr_SignedTx r = [] \<and>
      (\<exists>p. queue_lookup (sr_TxID r) (pa_queue s') = Some p \<and> pt_TxID p = sr_TxID r))"
  using assms
  by (auto simp: Sign_def sign_decided_def sign_escalated_def Let_def res_simps queue_Add_def
      queue_put_def queue_lookup_def
      split: sum.splits prod.splits if_splits may_panic.splits option.splits)

subsection \<open>A desk at which the hypotheses hold\<close>

definition desk_adapter :: adapter where
  "desk_adapter = echo_adapter
     \<lparr>ad_BuildUnsignedTx := (\<lambda>r. Inr \<lparr>ut_RawBytes = [1], ut_Hash = [1], ut_To = tq_To r,
        ut_Value = tq_Value r, ut_Data = [], ut_ExtraSignerKeys = []\<rparr>),
      ad_AssembleSignedTx := (\<lambda>b g. Inr (b @ sig_Bytes g))\<rparr>"

definition desk_env :: "unit aenv" where
  "desk_env = \<lparr>pv_registry = Register [''60''] desk_adapter NewRegistry, pv_aead = toy_aead,
     pv_encKey = [1], pv_DeriveKey = (\<lambda>k p. Inl ''none''), pv_sol = toy_sol, pv_net = silent_net\<rparr>"

definition desk_key :: DerivedKeyRecord where
  "desk_key = \<lparr>dr_DerivationPath = ''m/44/60/0/0/0'', dr_Curve = CurveSecp256k1, dr_PublicKey = [],
     dr_Address = [], dr_Label = [], dr_Share = [1], dr_CreatedAt = 0\<rparr>"

definition desk_db :: db where
  "desk_db = db_empty\<lparr>db_keys := [desk_key\<lparr>dr_Share := replicate 12 0 @ [1, 7]\<rparr>]\<rparr>"

definition desk_request :: TxSignRequest where
  "desk_request = \<lparr>sg_DerivationPath = ''m/44/60/0/0/0'', sg_To = Some [''0xab''], sg_Value = ''5'',
     sg_Data = [], sg_ChainID = [], sg_GasLimit = 0, sg_GasPrice = [], sg_Nonce = 0, sg_RpcURL = [],
     sg_Mint = [], sg_Instructions = [], sg_Program = [], sg_Method = [], sg_Args = [],
     sg_Prefix = [], sg_Denom = [], sg_AccountNumber = 0, sg_Sequence = 0, sg_Fee = [], sg_Gas = 0,
     sg_Memo = []\<rparr>"

definition desk_response :: SignResponsePayload where
  "desk_response = \<lparr>rs_Decision = ''escalate'', rs_Reason = ''review'', rs_TxID = ''t1''\<rparr>"

definition desk_rpc :: send_receive where
  "desk_rpc m = Inr (m\<lparr>m_payload := enc_SignResponse desk_response\<rparr>)"

definition desk_tss :: tss_sign where
  "desk_tss q share me ps = Inr \<lparr>sig_R = 1, sig_S = 2, sig_V = 0, sig_Bytes = [5]\<rparr>"

abbreviation no_fault :: aoutcomes where "no_fault \<equiv> (\<lambda>x. None)"

definition desk_tx :: UnsignedTx where
  "desk_tx = \<lparr>ut_RawBytes = [1], ut_Hash = [1], ut_To = [''0xab''], ut_Value = ''5'', ut_Data = [],
     ut_ExtraSignerKeys = []\<rparr>"

lemma desk_path: "ForPath (pv_registry desk_env) ''m/44/60/0/0/0'' = Some desk_adapter"
  by (simp add: desk_env_def ForPath_def sample_path)

lemma desk_GetDerivedKey:
  "db_keys d = db_keys desk_db \<Longrightarrow>
     GetDerivedKey (pv_aead desk_env) (pv_encKey desk_env) None ''m/44/60/0/0/0'' d = Inr desk_key"
  by (simp add: GetDerivedKey_def desk_db_def select_def desk_key_def decrypt_def desk_env_def
      toy_aead_def NonceSize_def numeral_eq_Suc)

lemma desk_prepare:
  "sign_prepare desk_env no_fault desk_request (partya_New desk_db) =
     Inr (desk_adapter, desk_key, desk_tx, [1])"
proof -
  have "sg_DerivationPath desk_request = ''m/44/60/0/0/0''" by (simp add: desk_request_def)
  moreover have "ad_BuildUnsignedTx desk_adapter (tx_request desk_request desk_key) = Inr desk_tx"
    by (simp add: desk_adapter_def tx_request_def desk_request_def opt_list_def desk_tx_def)
  moreover have "ad_ExtractSignableBytes desk_adapter b = Inr b" for b
    by (simp add: desk_adapter_def echo_adapter_def dummy_adapter_def)
  ultimately show ?thesis
    by (simp add: sign_prepare_def desk_path desk_GetDerivedKey partya_New_def in_ctx_def desk_tx_def)
qed

definition desk_queued :: partya where
  "desk_queued = snd (sign_escalated no_fault 1 desk_request desk_tx desk_response
     (snd (nextMsgID (partya_New desk_db))))"

lemma desk_escalates:
  "sign_escalated no_fault 1 desk_request desk_tx desk_response (snd (nextMsgID (partya_New desk_db))) =
     (Inr \<lparr>sr_TxID = ''t1'', sr_Status = ''pending_review'', sr_SignedTx = [], sr_Reason = ''review''\<rparr>,
      desk_queued)"
  by (simp add: desk_queued_def sign_escalated_def Let_def SaveTx_def pending_record_def
      desk_response_def)

lemma desk_Sign:
  "Sign desk_env no_fault 1 desk_rpc desk_tss desk_request (partya_New desk_db) =
     (Return (Inr \<lparr>sr_TxID = ''t1'', sr_Status = ''pending_review'', sr_SignedTx = [],
        sr_Reason = ''review''\<rparr>), desk_queued)"
proof -
  have "sign_decided desk_env no_fault 1 desk_rpc desk_tss desk_request desk_adapter desk_key desk_tx
      desk_response (snd (nextMsgID (partya_New desk_db))) =
    (Return (Inr \<lparr>sr_TxID = ''t1'', sr_Status = ''pending_review'', sr_SignedTx = [],
        sr_Reason = ''review''\<rparr>), desk_queued)"
    unfolding sign_decided_def desk_escalates by (simp add: desk_response_def)
  moreover have "ask desk_rpc ty p s = (Inr \<lparr>m_type = ty, m_id = fst (nextMsgID s),
      m_payload = enc_SignResponse desk_response\<rparr>, snd (nextMsgID s))" for ty p s
    by (simp add: ask_def desk_rpc_def split: prod.splits)
  ultimately show ?thesis by (simp add: Sign_def desk_prepare)
qed

theorem Sign_follows_decision_witness:
  "\<exists>p. queue_lookup ''t1'' (pa_queue desk_queued) = Some p \<and> pt_UnsignedTx p = [1]"
  using Sign_follows_decision [OF desk_Sign] desk_prepare
  by (auto simp: sign_answer_def desk_tx_def)

definition desk_pending :: PendingTx where
  "desk_pending = \<lparr>pt_TxID = ''t1'', pt_Status = TxStatusPending, pt_Reason = ''review'',
     pt_UnsignedTx = [1], pt_SignedTx = None, pt_RpcURL = [], pt_ExtraSignerKeys = []\<rparr>"

lemma desk_queued_facts:
  "queue_lookup ''t1'' (pa_queue desk_queued) = Some desk_pending"
  "queue_inv (pa_queue desk_queued)"
  "db_keys (pa_db desk_queued) = db_keys desk_db"
  "select tr_ID ''t1'' (db_txs (pa_db desk_queued)) \<noteq> None"
proof -
  have q: "pa_queue desk_queued = queue_Add ''t1'' ''review'' [1] [] [] NewEscalationQueue"
    by (simp add: desk_queued_def sign_escalated_def Let_def SaveTx_def pending_record_def
        desk_response_def desk_tx_def desk_request_def nextMsgID_def partya_New_def)
  show "queue_lookup ''t1'' (pa_queue desk_queued) = Some desk_pending"
    "queue_inv (pa_queue desk_queued)"
    by (simp_all add: q queue_Add_lookup queue_inv_new queue_ops_inv desk_pending_def)
  show "db_keys (pa_db desk_queued) = db_keys desk_db"
    "select tr_ID ''t1'' (db_txs (pa_db desk_queued)) \<noteq> None"
    by (simp_all add: desk_queued_def sign_escalated_def Let_def SaveTx_def pending_record_def
        desk_response_def desk_tx_def desk_request_def nextMsgID_def partya_New_def tx_table.get_put)
qed

lemma desk_lookup:
  "approved_lookup desk_env no_fault ''t1'' ''m/44/60/0/0/0'' desk_queued =
     CanSign desk_adapter desk_key desk_pending"
  using desk_queued_facts(1)
  by (auto simp: approved_lookup_def desk_path desk_GetDerivedKey desk_queued_facts(3)
      queue_Get_def queue_lookup_def)

lemma desk_run:
  "runTSSSigning desk_env desk_rpc desk_tss desk_adapter desk_key [1] [] [] ''t1'' s =
     (Return (Inr [1, 5]), snd (nextMsgID s))"
  by (simp add: runTSSSigning_def final_tx_def desk_adapter_def echo_adapter_def dummy_adapter_def
      ask_def desk_rpc_def desk_tss_def assemble_def in_ctx_def split: prod.splits)

definition desk_signed :: partya where
  "desk_signed = approved_done no_fault 2 ''t1'' (Inr [1, 5]) (snd (nextMsgID desk_queued))"

lemma desk_approved:
  "HandleSignApproved desk_env no_fault 2 desk_rpc desk_tss ''t1'' ''m/44/60/0/0/0'' desk_queued =
     Return desk_signed"
  by (simp add: HandleSignApproved_def desk_lookup desk_pending_def desk_run desk_signed_def)

theorem HandleSignApproved_effect_witness:
  "pt_Status (the (queue_lookup ''t1'' (pa_queue desk_signed))) \<in> {TxStatusSigned, TxStatusRejected}"
  using HandleSignApproved_effect [OF desk_queued_facts(2) desk_approved] desk_queued_facts(1)
  by auto

lemma desk_signed_facts:
  "queue_lookup ''t1'' (pa_queue desk_signed) =
     Some (desk_pending\<lparr>pt_Status := TxStatusSigned, pt_SignedTx := Some [1, 5]\<rparr>)"
  "queue_inv (pa_queue desk_signed)"
  "\<exists>tx. GetTx None ''t1'' (pa_db desk_signed) = Inr tx \<and> tr_ID tx = ''t1'' \<and>
     tr_Status tx = TxStatusSigned \<and> tr_SignedTx tx = Some [1, 5]"
proof -
  let ?s = "snd (nextMsgID desk_queued)"
  have same: "pa_queue ?s = pa_queue desk_queued" "pa_db ?s = pa_db desk_queued"
    by (simp_all add: nextMsgID_def)
  then have q: "pa_queue desk_signed = pa_queue (update_queue ''t1'' TxStatusSigned (Some [1, 5]) ?s)"
    and d: "pa_db desk_signed = snd (UpdateTxStatus None 2 ''t1'' TxStatusSigned (Some [1, 5])
      (pa_db desk_queued))"
    by (simp_all add: desk_signed_def approved_done_def Let_def update_queue_def)
  show "queue_lookup ''t1'' (pa_queue desk_signed) =
      Some (desk_pending\<lparr>pt_Status := TxStatusSigned, pt_SignedTx := Some [1, 5]\<rparr>)"
    "queue_inv (pa_queue desk_signed)"
    using update_queue_lookup [of ?s] update_queue_inv [of ?s] desk_queued_facts(1,2)
    by (simp_all add: q same set_status_def)
  obtain tx where tx: "select tr_ID ''t1'' (db_txs (pa_db desk_queued)) = Some tx"
    using desk_queued_facts(4) by blast
  then have "tr_ID tx = ''t1''" by (rule tx_table.get_key)
  with tx show "\<exists>tx. GetTx None ''t1'' (pa_db desk_signed) = Inr tx \<and> tr_ID tx = ''t1'' \<and>
      tr_Status tx = TxStatusSigned \<and> tr_SignedTx tx = Some [1, 5]"
    by (simp add: d UpdateTxStatus_def GetTx_def select_update)
qed

theorem signed_tx_served_twice_witness:
  "\<exists>r1 s1 r2. GetSignStatus no_fault desk_rpc ''t1'' desk_signed = (Inr r1, s1) \<and>
     fst (GetSignStatus no_fault desk_rpc ''t1'' s1) = Inr r2 \<and>
     signed_answer ''t1'' [1, 5] r1 \<and> signed_answer ''t1'' [1, 5] r2"
proof -
  obtain tx where tx: "GetTx None ''t1'' (pa_db desk_signed) = Inr tx" "tr_ID tx = ''t1''"
    "tr_Status tx = TxStatusSigned" "tr_SignedTx tx = Some [1, 5]"
    using desk_signed_facts(3) by blast
  show ?thesis
    using signed_tx_served_twice [OF desk_signed_facts(1,2) _ _ tx, of desk_rpc] by fastforce
qed

definition desk_trace :: "aevent list" where
  "desk_trace = [SignedApproved ''t1'' [1] (Inr [1, 5]), Quiet, Escalated ''t1'' [1], Quiet]"

lemma desk_trace_run: "\<exists>a. a_run desk_env desk_trace a"
proof -
  let ?a0 = "\<lparr>as_svc = partya_New desk_db, as_tasks = []\<rparr>"
  let ?ask = "Asking desk_request desk_adapter desk_key desk_tx"
  let ?a1 = "\<lparr>as_svc = snd (nextMsgID (partya_New desk_db)), as_tasks = [?ask]\<rparr>"
  let ?a2 = "\<lparr>as_svc = desk_queued, as_tasks = []\<rparr>"
  let ?sign = "Approving ''t1'' desk_adapter desk_key desk_pending"
  let ?a3 = "\<lparr>as_svc = desk_queued, as_tasks = [?sign]\<rparr>"
  have s1: "a_step desk_env ?a0 Quiet ?a1"
    using Asks [where a = ?a0 and E = desk_env and out = no_fault] desk_prepare by simp
  have "sign_decided desk_env no_fault 1 desk_rpc desk_tss desk_request desk_adapter desk_key desk_tx
      desk_response (as_svc ?a1) = (Return (Inr \<lparr>sr_TxID = ''t1'', sr_Status = ''pending_review'',
        sr_SignedTx = [], sr_Reason = ''review''\<rparr>), desk_queued)"
    unfolding sign_decided_def asystem.simps desk_escalates by (simp add: desk_response_def)
  from Is_answered [OF _ this]
  have s2: "a_step desk_env ?a1 (Escalated ''t1'' [1]) ?a2"
    by (simp add: answer_event_def desk_response_def desk_tx_def)
  let ?msg = "\<lparr>m_type = MsgSignApproved, m_id = 0, m_payload = enc_SignApproved
    \<lparr>sa_TxID = ''t1'', sa_DerivationPath = ''m/44/60/0/0/0''\<rparr>\<rparr>"
  have "push_handler ?msg = Some \<lparr>sa_TxID = ''t1'', sa_DerivationPath = ''m/44/60/0/0/0''\<rparr>"
    by (simp add: push_handler_def)
  from Is_pushed [OF this, where a = ?a2 and out = no_fault] desk_lookup
  have s3: "a_step desk_env ?a2 Quiet ?a3" by simp
  have "runTSSSigning desk_env desk_rpc desk_tss desk_adapter desk_key (pt_UnsignedTx desk_pending)
      (pt_ExtraSignerKeys desk_pending) (pt_RpcURL desk_pending) ''t1'' (as_svc ?a3) =
    (Return (Inr [1, 5]), snd (nextMsgID desk_queued))"
    by (simp add: desk_pending_def desk_run)
  from Signs [OF _ this, where out = no_fault and now = 2]
  have "\<exists>a4. a_step desk_env ?a3 (SignedApproved ''t1'' (pt_UnsignedTx desk_pending) (Inr [1, 5])) a4"
    by (intro exI) simp
  then obtain a4
    where s4: "a_step desk_env ?a3 (SignedApproved ''t1'' (pt_UnsignedTx desk_pending) (Inr [1, 5])) a4" ..
  have "a_run desk_env desk_trace a4"
    unfolding desk_trace_def using s4
    by (intro A_next [OF A_next [OF A_next [OF A_next [OF A_start s1] s2] s3]])
      (simp add: desk_pending_def)
  then show ?thesis ..
qed

theorem approved_signs_escalated_witness: "Escalated ''t1'' [1] \<in> set [Quiet, Escalated ''t1'' [1], Quiet]"
proof -
  obtain a where run: "a_run desk_env desk_trace a" using desk_trace_run ..
  show ?thesis
    by (rule approved_signs_escalated [OF run, where later = "[]" and r = "Inr [1, 5]"])
      (simp add: desk_trace_def)
qed

end
