(* ===== verification/Api.thy ===== *)
theory Api
  imports Approval "HOL-Library.AList" "HOL-Library.List_Lexorder" "HOL-Library.Char_ord"
begin

section \<open>Party A's HTTP interface (internal/partya/api.go)\<close>

text \<open>
  Each handler is a function from the request to the response and the new state of the service. A
  body is what the JSON decoder makes of its first value. A panic in a handler is caught by the
  router's \<open>Recoverer\<close>, which answers 500. The documentation page is a constant and left out.
\<close>

unbundle bit_operations_syntax

subsection \<open>Hexadecimal text\<close>

definition hexVal :: "char \<Rightarrow> byte" where
  "hexVal c = (let n = (of_char c :: nat) in
     if 48 \<le> n \<and> n \<le> 57 then word_of_nat (n - 48)
     else if 97 \<le> n \<and> n \<le> 102 then word_of_nat (n - 97 + 10)
     else if 65 \<le> n \<and> n \<le> 70 then word_of_nat (n - 65 + 10)
     else 0xFF)"

text \<open>The loop reads two characters at a time; past the end of the text it panics.\<close>

fun hexDecode :: "string \<Rightarrow> bytes res may_panic" where
  "hexDecode [] = Return (Inr [])"
| "hexDecode [c] = Panic"
| "hexDecode (c # d # s) =
     (if hexVal c = 0xFF \<or> hexVal d = 0xFF then Return (Inl ''json: Unmarshal(nil)'')
      else bind_pr (hexDecode s) (\<lambda>b. Return (Inr ((push_bit 4 (hexVal c) OR hexVal d) # b))))"

subsection \<open>Responses\<close>

record http_response =
  hp_Status :: nat
  hp_Body :: doc

definition writeJSON :: "nat \<Rightarrow> json \<Rightarrow> http_response" where
  "writeJSON status v = \<lparr>hp_Status = status, hp_Body = Some v\<rparr>"

definition writeError :: "nat \<Rightarrow> string \<Rightarrow> http_response" where
  "writeError status msg = writeJSON status (JObj [(''error'', JStr msg)])"

definition recoverer :: "http_response may_panic \<Rightarrow> http_response" where
  "recoverer r = (case r of Panic \<Rightarrow> \<lparr>hp_Status = 500, hp_Body = None\<rparr> | Return x \<Rightarrow> x)"

subsection \<open>Deriving\<close>

record deriveRequest =
  vq_DerivationPath :: string
  vq_Label :: string
  vq_Prefix :: string

definition dec_deriveRequest :: "doc \<Rightarrow> deriveRequest res" where
  "dec_deriveRequest = unmarshal (\<lambda>fs.
     bind_res (str_field ''derivationPath'' [] fs) (\<lambda>path.
     bind_res (str_field ''label'' [] fs) (\<lambda>label.
     bind_res (str_field ''prefix'' [] fs) (\<lambda>bech.
       Inr \<lparr>vq_DerivationPath = path, vq_Label = label, vq_Prefix = bech\<rparr>))))"

definition enc_DeriveResult :: "DeriveResult \<Rightarrow> json" where
  "enc_DeriveResult r = JObj [(''address'', JStr (de_Address r)), (''pubKey'', JStr (de_PublicKey r))]"

definition handleDerive :: "'r aenv \<Rightarrow> aoutcomes \<Rightarrow> bytes res \<Rightarrow> int \<Rightarrow> send_receive \<Rightarrow> doc \<Rightarrow> partya \<Rightarrow>
    http_response \<times> partya" where
  "handleDerive E out nonce now rpc body s =
     (case dec_deriveRequest body of
        Inl e \<Rightarrow> (writeError 400 ''invalid request body'', s)
      | Inr req \<Rightarrow>
          if vq_DerivationPath req = [] then (writeError 400 ''derivationPath is required'', s)
          else (case Derive E out nonce now rpc (vq_DerivationPath req) (vq_Label req) (vq_Prefix req) s of
              (Inl e, s') \<Rightarrow> (writeError 500 e, s')
            | (Inr r, s') \<Rightarrow> (writeJSON 200 (enc_DeriveResult r), s')))"

subsection \<open>Signing\<close>

record signAPIRequest =
  aq_DerivationPath :: string
  aq_To :: "string list option"
  aq_Value :: string
  aq_Data :: string
  aq_ChainID :: string
  aq_GasLimit :: u64
  aq_GasPrice :: string
  aq_Nonce :: u64
  aq_RpcURL :: string
  aq_Mint :: string
  aq_Instructions :: "SolanaInstruction list"
  aq_Program :: string
  aq_Method :: string
  aq_Args :: "(string \<times> string) list"
  aq_Prefix :: string
  aq_Denom :: string
  aq_AccountNumber :: u64
  aq_Sequence :: u64
  aq_Fee :: string
  aq_Gas :: u64
  aq_Memo :: string

definition dec_AccountMeta :: "SolanaAccountMeta \<Rightarrow> fields \<Rightarrow> SolanaAccountMeta res" where
  "dec_AccountMeta old fs =
     bind_res (str_field ''pubkey'' (sam_Pubkey old) fs) (\<lambda>k.
     bind_res (dec_field dec_bool ''isSigner'' (sam_IsSigner old) fs) (\<lambda>g.
     bind_res (dec_field dec_bool ''isWritable'' (sam_IsWritable old) fs) (\<lambda>w.
       Inr \<lparr>sam_Pubkey = k, sam_IsSigner = g, sam_IsWritable = w\<rparr>)))"

definition dec_Instruction :: "SolanaInstruction \<Rightarrow> fields \<Rightarrow> SolanaInstruction res" where
  "dec_Instruction old fs =
     bind_res (str_field ''programId'' (si_ProgramID old) fs) (\<lambda>p.
     bind_res (dec_field (dec_array (dec_struct dec_AccountMeta)
       \<lparr>sam_Pubkey = [], sam_IsSigner = False, sam_IsWritable = False\<rparr>) ''accounts'' (si_Accounts old) fs) (\<lambda>a.
     bind_res (str_field ''data'' (si_Data old) fs) (\<lambda>d.
       Inr \<lparr>si_ProgramID = p, si_Accounts = a, si_Data = d\<rparr>)))"

text \<open>A \<open>map[string]string\<close>: the entries are added to the map that is there; \<open>null\<close> clears it.\<close>

fun dec_entries :: "(string \<times> string) list \<Rightarrow> fields \<Rightarrow> (string \<times> string) list res" where
  "dec_entries m [] = Inr m"
| "dec_entries m ((k, v) # fs) =
     bind_res (dec_string [] v) (\<lambda>x. dec_entries (AList.update k x m) fs)"

definition dec_string_map :: "(string \<times> string) list \<Rightarrow> json \<Rightarrow> (string \<times> string) list res" where
  "dec_string_map old v =
     (case v of JNull \<Rightarrow> Inr [] | JObj fs \<Rightarrow> dec_entries old fs | _ \<Rightarrow> Inl json_type_err)"

definition u64_field :: "string \<Rightarrow> fields \<Rightarrow> u64 res" where
  "u64_field name fs = bind_res (dec_field (dec_uint 64) name 0 fs) (\<lambda>n. Inr (word_of_nat n))"

definition dec_signAPIRequest :: "doc \<Rightarrow> signAPIRequest res" where
  "dec_signAPIRequest = unmarshal (\<lambda>fs.
     bind_res (str_field ''derivationPath'' [] fs) (\<lambda>path.
     bind_res (dec_field dec_strings ''to'' None fs) (\<lambda>to.
     bind_res (str_field ''value'' [] fs) (\<lambda>v.
     bind_res (str_field ''data'' [] fs) (\<lambda>data.
     bind_res (str_field ''chainId'' [] fs) (\<lambda>chainId.
     bind_res (u64_field ''gasLimit'' fs) (\<lambda>gasLimit.
     bind_res (str_field ''gasPrice'' [] fs) (\<lambda>gasPrice.
     bind_res (u64_field ''nonce'' fs) (\<lambda>nonce.
     bind_res (str_field ''rpcUrl'' [] fs) (\<lambda>rpcUrl.
     bind_res (str_field ''mint'' [] fs) (\<lambda>mint.
     bind_res (dec_field (dec_array (dec_struct dec_Instruction)
       \<lparr>si_ProgramID = [], si_Accounts = [], si_Data = []\<rparr>) ''instructions'' [] fs) (\<lambda>instructions.
     bind_res (str_field ''program'' [] fs) (\<lambda>prog.
     bind_res (str_field ''method'' [] fs) (\<lambda>meth.
     bind_res (dec_field dec_string_map ''args'' [] fs) (\<lambda>args.
     bind_res (str_field ''prefix'' [] fs) (\<lambda>bech.
     bind_res (str_field ''denom'' [] fs) (\<lambda>denom.
     bind_res (u64_field ''accountNumber'' fs) (\<lambda>accountNumber.
     bind_res (u64_field ''sequence'' fs) (\<lambda>seq.
     bind_res (str_field ''fee'' [] fs) (\<lambda>fee.
     bind_res (u64_field ''gas'' fs) (\<lambda>gas.
     bind_res (str_field ''memo'' [] fs) (\<lambda>memo.
       Inr \<lparr>aq_DerivationPath = path, aq_To = to, aq_Value = v, aq_Data = data, aq_ChainID = chainId,
         aq_GasLimit = gasLimit, aq_GasPrice = gasPrice, aq_Nonce = nonce, aq_RpcURL = rpcUrl,
         aq_Mint = mint, aq_Instructions = instructions, aq_Program = prog, aq_Method = meth,
         aq_Args = args, aq_Prefix = bech, aq_Denom = denom, aq_AccountNumber = accountNumber,
         aq_Sequence = seq, aq_Fee = fee, aq_Gas = gas, aq_Memo = memo\<rparr>))))))))))))))))))))))"

definition request_data :: "string \<Rightarrow> bytes res may_panic" where
  "request_data hexData =
     (if hexData = [] then Return (Inr [])
      else hexDecode (if take 2 hexData = ''0x'' then drop 2 hexData else hexData))"

definition sign_request :: "signAPIRequest \<Rightarrow> bytes \<Rightarrow> TxSignRequest" where
  "sign_request req data =
     \<lparr>sg_DerivationPath = aq_DerivationPath req, sg_To = aq_To req, sg_Value = aq_Value req,
      sg_Data = data, sg_ChainID = aq_ChainID req, sg_GasLimit = aq_GasLimit req,
      sg_GasPrice = aq_GasPrice req, sg_Nonce = aq_Nonce req, sg_RpcURL = aq_RpcURL req,
      sg_Mint = aq_Mint req, sg_Instructions = aq_Instructions req, sg_Program = aq_Program req,
      sg_Method = aq_Method req, sg_Args = aq_Args req, sg_Prefix = aq_Prefix req,
      sg_Denom = aq_Denom req, sg_AccountNumber = aq_AccountNumber req, sg_Sequence = aq_Sequence req,
      sg_Fee = aq_Fee req, sg_Gas = aq_Gas req, sg_Memo = aq_Memo req\<rparr>"

definition enc_SignResult :: "SignResult \<Rightarrow> json" where
  "enc_SignResult r = JObj (omitempty ''txId'' (sr_TxID r) @ [(''status'', JStr (sr_Status r))] @
     omitempty ''signedTx'' (sr_SignedTx r) @ omitempty ''reason'' (sr_Reason r))"

text \<open>The request as the handler hands it to the service, or the response that refuses it.\<close>

definition parse_sign :: "doc \<Rightarrow> (http_response + TxSignRequest) may_panic" where
  "parse_sign body =
     (case dec_signAPIRequest body of
        Inl e \<Rightarrow> Return (Inl (writeError 400 ''invalid request body''))
      | Inr req \<Rightarrow>
          if aq_DerivationPath req = [] then Return (Inl (writeError 400 ''derivationPath is required''))
          else if opt_list (aq_To req) = [] \<and> aq_Instructions req = [] \<and> aq_Program req = []
          then Return (Inl (writeError 400 ''to, instructions, or program required''))
          else (case request_data (aq_Data req) of
              Panic \<Rightarrow> Panic
            | Return (Inl e) \<Rightarrow> Return (Inl (writeError 400 ''invalid hex data''))
            | Return (Inr data) \<Rightarrow> Return (Inr (sign_request req data))))"

definition handleSign :: "'r aenv \<Rightarrow> aoutcomes \<Rightarrow> int \<Rightarrow> send_receive \<Rightarrow> tss_sign \<Rightarrow> doc \<Rightarrow> partya \<Rightarrow>
    http_response may_panic \<times> partya" where
  "handleSign E out now rpc tss body s =
     (case parse_sign body of
        Panic \<Rightarrow> (Panic, s)
      | Return (Inl resp) \<Rightarrow> (Return resp, s)
      | Return (Inr req) \<Rightarrow>
          (case Sign E out now rpc tss req s of
             (Panic, s') \<Rightarrow> (Panic, s')
           | (Return (Inl e), s') \<Rightarrow> (Return (writeError 500 e), s')
           | (Return (Inr r), s') \<Rightarrow>
               (Return (writeJSON (if sr_Status r = ''pending_review'' then 202 else 200)
                  (enc_SignResult r)), s')))"

subsection \<open>The other endpoints\<close>

definition handleGetSignStatus :: "aoutcomes \<Rightarrow> send_receive \<Rightarrow> string \<Rightarrow> partya \<Rightarrow>
    http_response \<times> partya" where
  "handleGetSignStatus out rpc txID s =
     (if txID = [] then (writeError 400 ''txId is required'', s)
      else (case GetSignStatus out rpc txID s of
          (Inl e, s') \<Rightarrow> (writeError 404 ''transaction not found'', s')
        | (Inr r, s') \<Rightarrow> (writeJSON 200 (enc_SignResult r), s')))"

definition enc_KeyInfo :: "KeyInfo \<Rightarrow> json" where
  "enc_KeyInfo k = JObj [(''address'', JStr (ki_Address k)), (''pubKey'', JStr (ki_PubKey k)),
     (''label'', JStr (ki_Label k))]"

text \<open>A Go map is printed with its keys in order.\<close>

definition keys_map :: "KeyInfo list \<Rightarrow> string \<rightharpoonup> KeyInfo" where
  "keys_map ks = map_of (rev (map (\<lambda>k. (ki_DerivationPath k, k)) ks))"

definition enc_keys :: "KeyInfo list \<Rightarrow> json" where
  "enc_keys ks = JObj [(''keys'', JObj (map (\<lambda>p. (p, enc_KeyInfo (the (keys_map ks p))))
     (sorted_list_of_set (ki_DerivationPath ` set ks))))]"

definition handleListKeys :: "'r aenv \<Rightarrow> aoutcomes \<Rightarrow> partya \<Rightarrow> http_response" where
  "handleListKeys E out s =
     (case ListKeys E out s of
        Inl e \<Rightarrow> writeError 500 e
      | Inr keys \<Rightarrow> writeJSON 200 (enc_keys keys))"

definition dec_updateLabelRequest :: "doc \<Rightarrow> string res" where
  "dec_updateLabelRequest = unmarshal (str_field ''label'' [])"

definition handleUpdateLabel :: "aoutcomes \<Rightarrow> string \<Rightarrow> doc \<Rightarrow> partya \<Rightarrow> http_response \<times> partya" where
  "handleUpdateLabel out path body s =
     (if path = [] then (writeError 400 ''path is required'', s)
      else (case dec_updateLabelRequest body of
          Inl e \<Rightarrow> (writeError 400 ''invalid request body'', s)
        | Inr label \<Rightarrow>
            (case UpdateLabel (out AUpdateLabel) path label (pa_db s) of
               (Some e, d) \<Rightarrow> (writeError 500 e, s\<lparr>pa_db := d\<rparr>)
             | (None, d) \<Rightarrow> (writeJSON 200 (JObj [(''ok'', JBool True)]), s\<lparr>pa_db := d\<rparr>))))"

definition enc_HealthStatus :: "HealthStatus \<Rightarrow> json" where
  "enc_HealthStatus h = JObj [(''status'', JStr (he_Status h)),
     (''secureServerConnected'', JBool (he_SecureServerConnected h))]"

definition handleHealth :: "send_receive \<Rightarrow> partya \<Rightarrow> http_response \<times> partya" where
  "handleHealth rpc s =
     (let (health, s') = Health rpc s in
      (writeJSON (if he_Status health \<noteq> ''ok'' then 503 else 200) (enc_HealthStatus health), s'))"

subsection \<open>What the interface promises\<close>

lemma hex_val_less: "hex_val c = Some v \<Longrightarrow> v < 16"
  by (auto simp: hex_val_def Let_def split: if_splits)

lemma hexVal_eq: "hexVal c = (case hex_val c of None \<Rightarrow> 0xFF | Some v \<Rightarrow> word_of_nat v)"
  by (auto simp: hexVal_def hex_val_def Let_def intro!: arg_cong [of _ _ word_of_nat])

lemma nibble_not_ff: "v < 16 \<Longrightarrow> (word_of_nat v :: byte) \<noteq> 0xFF"
  by (simp add: word_unat_eq_iff unat_of_nat)

lemma hexVal_ff: "hexVal c = 0xFF \<longleftrightarrow> hex_val c = None"
  using nibble_not_ff hex_val_less by (auto simp: hexVal_eq split: option.splits)

lemma nibbles: "h < 16 \<Longrightarrow> l < 16 \<Longrightarrow>
  push_bit 4 (word_of_nat h :: byte) OR word_of_nat l = word_of_nat (16 * h + l)"
proof -
  assume h: "h < 16" and l: "l < 16"
  have high: "\<not> bit l n" if "4 \<le> n" for n
  proof -
    have "(2 :: nat) ^ 4 \<le> 2 ^ n" using that by (rule power_increasing) simp
    then have "l div 2 ^ n = 0" using l by simp
    then show ?thesis by (simp add: bit_iff_odd)
  qed
  have "push_bit 4 (word_of_nat h :: byte) OR word_of_nat l = push_bit 4 (word_of_nat h) + word_of_nat l"
    by (rule disjunctive_add [symmetric]) (use high in \<open>auto simp: bit_simps\<close>)
  then show ?thesis by (simp add: push_bit_eq_mult)
qed

text \<open>
  The hexadecimal reader of the signing endpoint is the standard one, except at a text of odd
  length: there it panics once the pairs before the last character are read, and the client gets a bare
  500 in place of the message for bad data.
\<close>

theorem hexDecode_exact:
  "hexDecode s = (if odd (length s) \<and> is_ok (hex_decode (butlast s)) then Panic
     else Return (case hex_decode s of Inl e \<Rightarrow> Inl ''json: Unmarshal(nil)'' | Inr b \<Rightarrow> Inr b))"
proof (induction s rule: hexDecode.induct)
  case (3 c d s)
  show ?case
  proof (cases "hex_val c = None \<or> hex_val d = None")
    case True
    then show ?thesis by (cases s) (auto simp: hexVal_ff split: option.splits)
  next
    case False
    then obtain h l where hl: "hex_val c = Some h" "hex_val d = Some l" by auto
    have "push_bit 4 (hexVal c) OR hexVal d = word_of_nat (16 * h + l)"
      using hl nibbles [of h l] hex_val_less by (simp add: hexVal_eq)
    then show ?thesis
      using 3 hl by (cases s) (auto simp: hexVal_ff split: option.splits sum.splits)
  qed
qed (simp_all split: option.splits)

definition error_body :: "string \<Rightarrow> doc" where
  "error_body msg = Some (JObj [(''error'', JStr msg)])"

lemma writeError_shape [simp]:
  "hp_Status (writeError status msg) = status" "hp_Body (writeError status msg) = error_body msg"
  by (simp_all add: writeError_def writeJSON_def error_body_def)

text \<open>
  C30. Every answer of the signing endpoint has one of five shapes. 202: a transaction pending review,
  which then is in the queue under the id of the answer. 200: a signed one with its bytes, or a rejected one,
  and neither has an id. 400: a message in a JSON error, for a request that was refused before anything
  happened. 500: a message in a JSON error. And 500 with no body at all, for a handler that panicked.
\<close>

theorem sign_response_typed:
  "case handleSign E out now rpc tss body s of (x, s') \<Rightarrow>
     (hp_Status (recoverer x) = 202 \<and> (\<exists>r p. hp_Body (recoverer x) = Some (enc_SignResult r) \<and>
        sr_Status r = ''pending_review'' \<and> sr_SignedTx r = [] \<and>
        queue_lookup (sr_TxID r) (pa_queue s') = Some p \<and> pt_TxID p = sr_TxID r)) \<or>
     (hp_Status (recoverer x) = 200 \<and> (\<exists>r. hp_Body (recoverer x) = Some (enc_SignResult r) \<and>
        sr_TxID r = [] \<and> (sr_Status r = ''signed'' \<and> (\<exists>t. sr_SignedTx r = hex0x t) \<or>
          sr_Status r = ''rejected'' \<and> sr_SignedTx r = []))) \<or>
     (hp_Status (recoverer x) = 400 \<and> (\<exists>msg. hp_Body (recoverer x) = error_body msg) \<and> s' = s) \<or>
     (hp_Status (recoverer x) = 500 \<and>
        (if x = Panic then hp_Body (recoverer x) = None
         else \<exists>msg. hp_Body (recoverer x) = error_body msg))"
proof (cases "parse_sign body")
  case Panic
  then show ?thesis by (simp add: handleSign_def recoverer_def)
next
  case (Return v)
  show ?thesis
  proof (cases v)
    case (Inl resp)
    then have "\<exists>msg. resp = writeError 400 msg"
      using Return by (auto simp: parse_sign_def split: sum.splits if_splits may_panic.splits)
    then show ?thesis using Return Inl by (auto simp: handleSign_def recoverer_def)
  next
    case (Inr req)
    obtain y s' where y: "Sign E out now rpc tss req s = (y, s')" by force
    show ?thesis
    proof (cases "\<exists>r. y = Return (Inr r)")
      case True
      then obtain r where r: "y = Return (Inr r)" ..
      have h: "handleSign E out now rpc tss body s = (Return (writeJSON
          (if sr_Status r = ''pending_review'' then 202 else 200) (enc_SignResult r)), s')"
        using Return Inr y r by (simp add: handleSign_def)
      show ?thesis
        using Sign_result_typed [OF y [unfolded r]]
        by (auto simp: h recoverer_def writeJSON_def)
    next
      case False
      then show ?thesis using Return Inr y
        by (auto simp: handleSign_def recoverer_def split: may_panic.splits sum.splits)
    qed
  qed
qed

lemma insort_key_map: "(\<And>x. f (g x) = f x) \<Longrightarrow> insort_key f (g x) (map g ys) = map g (insort_key f x ys)"
  by (induction ys) auto

lemma sort_key_map: "(\<And>x. f (g x) = f x) \<Longrightarrow> sort_key f (map g xs) = map g (sort_key f xs)"
  by (induction xs) (auto simp: insort_key_map)

lemma decrypt_rows_relabel:
  assumes "decrypt_rows A k rs = Inr ds"
  shows "decrypt_rows A k (map (\<lambda>r. if dr_DerivationPath r = path then r\<lparr>dr_Label := label\<rparr> else r) rs) =
    Inr (map (\<lambda>r. if dr_DerivationPath r = path then r\<lparr>dr_Label := label\<rparr> else r) ds)"
  using assms by (induction rs arbitrary: ds) (auto split: sum.splits)

text \<open>
  A label that is set is the label that is listed: after an update that was answered with success, the
  list of keys is the one before with the label of that path replaced, and nothing else changed.
\<close>

theorem label_update_listed:
  assumes "handleUpdateLabel out path body s = (resp, s')" "hp_Status resp = 200"
    and "ListKeys E out2 s = Inr ks"
  shows "\<exists>label. dec_updateLabelRequest body = Inr label \<and>
    ListKeys E out2 s' = Inr (map (\<lambda>k. if ki_DerivationPath k = path then k\<lparr>ki_Label := label\<rparr> else k) ks) \<and>
    pa_queue s' = pa_queue s"
proof -
  let ?set = "\<lambda>label r. if dr_DerivationPath r = path then r\<lparr>dr_Label := label\<rparr> else r"
  obtain label where l: "dec_updateLabelRequest body = Inr label"
    and s': "s' = s\<lparr>pa_db := (pa_db s)\<lparr>db_keys := map (?set label) (db_keys (pa_db s))\<rparr>\<rparr>"
    using assms(1,2)
    by (auto simp: handleUpdateLabel_def UpdateLabel_def writeError_def writeJSON_def update_def
        split: if_splits sum.splits option.splits prod.splits)
  obtain ds where ds: "out2 AListDerivedKeys = None"
    "decrypt_rows (pv_aead E) (pv_encKey E) (sort_key dr_CreatedAt (db_keys (pa_db s))) = Inr ds"
    and ks: "ks = map (\<lambda>r. \<lparr>ki_DerivationPath = dr_DerivationPath r, ki_Address = dr_Address r,
      ki_PubKey = hex0x (dr_PublicKey r), ki_Label = dr_Label r\<rparr>) ds"
    using assms(3) by (auto simp: ListKeys_def res_simps ListDerivedKeys_def split: option.splits)
  have "sort_key dr_CreatedAt (map (?set label) (db_keys (pa_db s))) =
      map (?set label) (sort_key dr_CreatedAt (db_keys (pa_db s)))"
    by (rule sort_key_map) simp
  then have "decrypt_rows (pv_aead E) (pv_encKey E)
      (sort_key dr_CreatedAt (map (?set label) (db_keys (pa_db s)))) = Inr (map (?set label) ds)"
    using decrypt_rows_relabel [OF ds(2), of path label] by simp
  then show ?thesis
    using l ds(1) by (simp add: s' ListKeys_def ListDerivedKeys_def in_ctx_def ks)
qed

text \<open>What a derivation that ends well has derived and stored, at a new path or over an older key.\<close>

definition derived_from :: "'r aenv \<Rightarrow> aoutcomes \<Rightarrow> db \<Rightarrow> string \<Rightarrow> adapter \<Rightarrow> DerivedKey \<Rightarrow> bool" where
  "derived_from E out d path ad derived \<longleftrightarrow> ForPath (pv_registry E) path = Some ad \<and>
     (\<exists>share. GetMasterShare (pv_aead E) (pv_encKey E) (out AGetMaster) (ad_Curve ad) d = Inr share \<and>
        pv_DeriveKey E share path = Inr derived)"

lemma Derive_stores:
  assumes "aead_laws (pv_aead E) (pv_encKey E)" "length n = NonceSize"
    and "Derive E out (Inr n) now rpc path label bech s = (Inr r, s')"
  shows "\<exists>ad derived k. derived_from E out (pa_db s) path ad derived \<and>
    GetDerivedKey (pv_aead E) (pv_encKey E) None path (pa_db s') = Inr k \<and>
    dr_Share k = dk_Share derived \<and> dr_PublicKey k = dk_PublicKey derived \<and> dr_Label k = label \<and>
    dr_Address k = de_Address r \<and> de_PublicKey r = hex0x (dk_PublicKey derived) \<and>
    ad_DeriveAddress ad (dk_PublicKey derived) (if bech = [] then [] else [bech]) = Inr (de_Address r) \<and>
    (\<forall>p. p \<noteq> path \<longrightarrow> select dr_DerivationPath p (db_keys (pa_db s')) =
       select dr_DerivationPath p (db_keys (pa_db s)))"
proof -
  obtain ad and derived :: DerivedKey and d where ad: "derived_from E out (pa_db s) path ad derived"
    and addr: "ad_DeriveAddress ad (dk_PublicKey derived) (if bech = [] then [] else [bech]) = Inr (de_Address r)"
    and pk: "de_PublicKey r = hex0x (dk_PublicKey derived)"
    and save: "SaveDerivedKey (pv_aead E) (pv_encKey E) (Inr n) (out ASaveDerivedKey)
      \<lparr>dr_DerivationPath = path, dr_Curve = ad_Curve ad, dr_PublicKey = dk_PublicKey derived,
       dr_Address = de_Address r, dr_Label = label, dr_Share = dk_Share derived,
       dr_CreatedAt = now\<rparr> (pa_db s) = (None, d)"
    and s': "pa_db s' = d"
    using assms(3)
    by (auto simp: Derive_def derived_from_def res_simps partya_simps split: option.splits sum.splits prod.splits)
  obtain c where c: "encrypt (pv_aead E) (pv_encKey E) (Inr n) (dk_Share derived) = Inr c"
    and d: "d = (pa_db s)\<lparr>db_keys := upsert dr_DerivationPath merge_key \<lparr>dr_DerivationPath = path,
       dr_Curve = ad_Curve ad, dr_PublicKey = dk_PublicKey derived, dr_Address = de_Address r,
       dr_Label = label, dr_Share = c, dr_CreatedAt = now\<rparr> (db_keys (pa_db s))\<rparr>"
    using save by (auto simp: SaveDerivedKey_def split: sum.splits option.splits)
  have dec: "decrypt (pv_aead E) (pv_encKey E) c = Inr (dk_Share derived)"
    by (rule decrypt_encrypt [OF assms(1,2) c])
  obtain k where "GetDerivedKey (pv_aead E) (pv_encKey E) None path (pa_db s') = Inr k"
    "dr_Share k = dk_Share derived" "dr_PublicKey k = dk_PublicKey derived" "dr_Label k = label"
    "dr_Address k = de_Address r"
    using dec by (cases "select dr_DerivationPath path (db_keys (pa_db s))")
      (simp_all add: GetDerivedKey_def s' d key_table.get_put merge_key_def)
  moreover have "\<forall>p. p \<noteq> path \<longrightarrow> select dr_DerivationPath p (db_keys (pa_db s')) =
      select dr_DerivationPath p (db_keys (pa_db s))"
    by (simp add: s' d key_table.get_put)
  ultimately show ?thesis using ad addr pk by blast
qed

text \<open>
  C37. A derived key is there to sign with: after a derivation was answered with success, whether the path
  was new or had a key before, the key stored for the path is the one derived from the master share of the
  path's chain: its decrypted share and its public key are the derived ones, the answer has that public key and
  the address of it, the stored address is that of the answer, and the label is that of the request. The
  keys of other paths are untouched.
\<close>

theorem derived_key_usable:
  assumes "aead_laws (pv_aead E) (pv_encKey E)" "length n = NonceSize"
    and "handleDerive E out (Inr n) now rpc body s = (resp, s')" "hp_Status resp = 200"
    and "dec_deriveRequest body = Inr req"
  shows "\<exists>r ad derived k. hp_Body resp = Some (enc_DeriveResult r) \<and>
    derived_from E out (pa_db s) (vq_DerivationPath req) ad derived \<and>
    GetDerivedKey (pv_aead E) (pv_encKey E) None (vq_DerivationPath req) (pa_db s') = Inr k \<and>
    dr_Share k = dk_Share derived \<and> dr_PublicKey k = dk_PublicKey derived \<and>
    de_PublicKey r = hex0x (dk_PublicKey derived) \<and> dr_Address k = de_Address r \<and>
    ad_DeriveAddress ad (dk_PublicKey derived) (if vq_Prefix req = [] then [] else [vq_Prefix req]) =
      Inr (de_Address r) \<and>
    dr_Label k = vq_Label req \<and>
    (\<forall>p. p \<noteq> vq_DerivationPath req \<longrightarrow> select dr_DerivationPath p (db_keys (pa_db s')) =
       select dr_DerivationPath p (db_keys (pa_db s)))"
proof -
  obtain r where r: "Derive E out (Inr n) now rpc (vq_DerivationPath req) (vq_Label req) (vq_Prefix req) s =
      (Inr r, s')" "hp_Body resp = Some (enc_DeriveResult r)"
    using assms(3-5) by (auto simp: handleDerive_def writeJSON_def
        split: if_splits sum.splits prod.splits)
  from Derive_stores [OF assms(1,2) r(1)] r(2) show ?thesis by blast
qed

subsection \<open>Requests at which the hypotheses hold\<close>

definition label_body :: doc where
  "label_body = Some (JObj [(''label'', JStr ''cold'')])"

lemma desk_ListKeys:
  "ListKeys desk_env no_fault (partya_New desk_db) = Inr [\<lparr>ki_DerivationPath = ''m/44/60/0/0/0'',
     ki_Address = [], ki_PubKey = ''0x'', ki_Label = []\<rparr>]"
  by (simp add: ListKeys_def ListDerivedKeys_def partya_New_def desk_db_def desk_env_def decrypt_def
      toy_aead_def NonceSize_def desk_key_def hex0x_def in_ctx_def numeral_eq_Suc)

theorem label_update_listed_witness:
  "\<exists>ks. ListKeys desk_env no_fault (snd (handleUpdateLabel no_fault ''m/44/60/0/0/0'' label_body
     (partya_New desk_db))) = Inr ks \<and> map ki_Label ks = [''cold'']"
proof -
  obtain resp s' where h: "handleUpdateLabel no_fault ''m/44/60/0/0/0'' label_body (partya_New desk_db) =
      (resp, s')" by force
  have l: "dec_updateLabelRequest label_body = Inr ''cold''"
    by (simp add: dec_updateLabelRequest_def label_body_def to_lower_def char_lower_def)
  then have "hp_Status resp = 200"
    using h by (auto simp: handleUpdateLabel_def UpdateLabel_def partya_New_def desk_db_def select_def
        desk_key_def writeJSON_def)
  from label_update_listed [OF h this desk_ListKeys] l h show ?thesis by auto
qed

definition derive_desk :: "unit aenv" where
  "derive_desk = desk_env\<lparr>pv_registry := Register [''60'']
     (desk_adapter\<lparr>ad_DeriveAddress := (\<lambda>b p. Inr ''0xfeed'')\<rparr>) NewRegistry,
     pv_DeriveKey := (\<lambda>k p. Inr \<lparr>dk_Curve = CurveSecp256k1, dk_DerivationPath = p,
        dk_Share = [8], dk_PublicKey = [3], dk_Address = []\<rparr>)\<rparr>"

definition derive_body :: doc where
  "derive_body = Some (JObj [(''derivationPath'', JStr ''m/44/60/0/0/0''), (''label'', JStr ''hot'')])"

definition derive_start :: partya where
  "derive_start = partya_New (desk_db\<lparr>db_master := [\<lparr>ks_Curve = CurveSecp256k1,
     ks_PartyID = pid_a, ks_Share = replicate 12 0 @ [1, 7], ks_PublicKey = [], ks_ChainCode = []\<rparr>]\<rparr>)"

theorem derived_key_usable_witness:
  "\<exists>resp s' k. handleDerive derive_desk no_fault (Inr (replicate 12 0)) 5 desk_rpc derive_body derive_start =
       (resp, s') \<and> GetDerivedKey (pv_aead derive_desk) (pv_encKey derive_desk) None ''m/44/60/0/0/0''
       (pa_db s') = Inr k \<and> dr_Label k = ''hot'' \<and> dr_Share k = [8]"
proof -
  let ?req = "\<lparr>vq_DerivationPath = ''m/44/60/0/0/0'', vq_Label = ''hot'', vq_Prefix = []\<rparr>"
  have req: "dec_deriveRequest derive_body = Inr ?req"
    by (simp add: dec_deriveRequest_def derive_body_def to_lower_def char_lower_def)
  obtain resp s' where h: "handleDerive derive_desk no_fault (Inr (replicate 12 0)) 5 desk_rpc derive_body
      derive_start = (resp, s')" by force
  have laws: "aead_laws (pv_aead derive_desk) (pv_encKey derive_desk)"
    by (simp add: derive_desk_def desk_env_def toy_aead_laws)
  have path: "ForPath (pv_registry derive_desk) ''m/44/60/0/0/0'' =
      Some (desk_adapter\<lparr>ad_DeriveAddress := (\<lambda>b p. Inr ''0xfeed'')\<rparr>)"
    by (simp add: derive_desk_def ForPath_def sample_path)
  have share: "\<exists>k. GetMasterShare (pv_aead derive_desk) (pv_encKey derive_desk) None CurveSecp256k1
      (pa_db derive_start) = Inr k"
    by (simp add: GetMasterShare_def derive_start_def partya_New_def select_def derive_desk_def
        desk_env_def decrypt_def toy_aead_def NonceSize_def numeral_eq_Suc)
  have "ad_Curve desk_adapter = CurveSecp256k1"
    by (simp add: desk_adapter_def echo_adapter_def dummy_adapter_def)
  moreover have "pv_DeriveKey derive_desk k p = Inr \<lparr>dk_Curve = CurveSecp256k1, dk_DerivationPath = p,
      dk_Share = [8], dk_PublicKey = [3], dk_Address = []\<rparr>" for k p
    by (simp add: derive_desk_def)
  ultimately have "hp_Status resp = 200"
    using h share
    by (auto simp: handleDerive_def req Derive_def path in_ctx_def SaveDerivedKey_def encrypt_def
        writeJSON_def)
  from derived_key_usable [OF laws _ h this req]
  obtain ad and derived :: DerivedKey and k where "derived_from derive_desk no_fault (pa_db derive_start) ''m/44/60/0/0/0'' ad derived"
    "GetDerivedKey (pv_aead derive_desk) (pv_encKey derive_desk) None ''m/44/60/0/0/0'' (pa_db s') = Inr k"
    "dr_Share k = dk_Share derived" "dr_Label k = ''hot''"
    by (auto simp: NonceSize_def)
  moreover from this(1) have "dk_Share derived = [8]"
    by (auto simp: derived_from_def derive_desk_def)
  ultimately show ?thesis using h by auto
qed

end
