(* ===== verification/Telegram.thy ===== *)
theory Telegram
  imports Analyzer
begin

section \<open>The Telegram bot of Party B (internal/partyb/telegram)\<close>

text \<open>
  What the bot sends and what it does with a button press or a text. Sending is a list of API calls
  in order, whose outcomes are an argument; the two callbacks into the service are further effects
  of a button press. User and chat identifiers are 64-bit.
\<close>

type_synonym user_id = "64 word"

record button =
  bn_Text :: string
  bn_Data :: string

datatype api_call =
  SendMessage user_id string string "button list"
| EditMessage user_id int string string "button list"
| AnswerCallback string string
| SetMyCommands "(string \<times> string) list"

datatype effect =
  Api api_call
| OnWhitelist string
| OnDecision string bool

record Bot =
  bt_authorizedUserID :: user_id
  bt_autoMode :: bool
  bt_onDecision :: bool
  bt_onWhitelist :: bool

record TelegramConfig =
  tg_BotToken :: string
  tg_AuthorizedUserID :: user_id
  tg_EscalationTimeout :: int

text \<open>\<open>api\<close> is the outcome of creating the client. The flags tell whether a callback is set.\<close>

definition telegram_New :: "err option \<Rightarrow> TelegramConfig \<Rightarrow> Bot res" where
  "telegram_New api cfg =
     (case api of
        Some e \<Rightarrow> Inl (wrap_err ''create telegram bot'' e)
      | None \<Rightarrow> Inr \<lparr>bt_authorizedUserID = tg_AuthorizedUserID cfg, bt_autoMode = False,
          bt_onDecision = False, bt_onWhitelist = False\<rparr>)"

definition SetDecisionCallback :: "Bot \<Rightarrow> Bot" where
  "SetDecisionCallback b = b\<lparr>bt_onDecision := True\<rparr>"

definition SetWhitelistCallback :: "Bot \<Rightarrow> Bot" where
  "SetWhitelistCallback b = b\<lparr>bt_onWhitelist := True\<rparr>"

definition SetAutoMode :: "bool \<Rightarrow> Bot \<Rightarrow> Bot" where
  "SetAutoMode auto b = b\<lparr>bt_autoMode := auto\<rparr>"

definition AutoMode :: "Bot \<Rightarrow> bool" where
  "AutoMode b = bt_autoMode b"

definition registerCommands :: "effect list" where
  "registerCommands = [Api (SetMyCommands [(''settings'', ''Configure auto/manual mode'')])]"

definition isAuthorized :: "Bot \<Rightarrow> user_id \<Rightarrow> bool" where
  "isAuthorized b u \<longleftrightarrow> u = bt_authorizedUserID b"

subsection \<open>Texts\<close>

definition escape_char :: "char \<Rightarrow> string" where
  "escape_char c =
     (if c = CHR 0x60 then [CHR 0x27] else if c = CHR ''*'' then []
      else if c = CHR ''_'' then '' '' else if c = CHR ''['' \<or> c = CHR ''{'' then ''(''
      else if c = CHR '']'' \<or> c = CHR ''}'' then '')'' else [c])"

definition escapeMD :: "string \<Rightarrow> string" where
  "escapeMD s = concat (map escape_char s)"

definition code_quote :: "string \<Rightarrow> string" where
  "code_quote s = [CHR 0x60] @ s @ [CHR 0x60]"

text \<open>\<open>pct\<close> formats a confidence as a whole percentage.\<close>

definition formatReviewNotification :: "(rat \<Rightarrow> string) \<Rightarrow> string \<Rightarrow> AnalysisResult \<Rightarrow> string" where
  "formatReviewNotification pct txID result =
     ''*Transaction Review Required*'' @ nl @ nl @
     ''*TX ID:* '' @ code_quote txID @ nl @ nl @
     ''*Decoded from unsigned TX:*'' @ nl @ escapeMD (ar_Summary result) @ nl @
     (if ar_Warnings result \<noteq> []
      then nl @ ''*Warnings:*'' @ nl @
        concat (map (\<lambda>w. ''- '' @ escapeMD w @ nl) (ar_Warnings result))
      else []) @
     nl @ ''*Verdict:* '' @ escapeMD (dn_Reason (ar_Decision result)) @ '' (confidence: '' @
     pct (dn_Confidence (ar_Decision result) * 100) @ ''%)'' @ nl"

definition formatAutoApprovedNotification :: "string \<Rightarrow> AnalysisResult \<Rightarrow> string" where
  "formatAutoApprovedNotification txID result =
     ''*Transaction Auto-Approved*'' @ nl @ nl @
     ''*TX ID:* '' @ code_quote txID @ nl @ nl @ escapeMD (ar_Summary result) @
     (if ar_WhitelistLabel result \<noteq> []
      then nl @ ''Whitelisted: '' @ escapeMD (ar_WhitelistLabel result) @ nl else [])"

definition toggleLabel :: "string \<Rightarrow> string" where
  "toggleLabel current = (if current = ''Auto'' then ''Manual'' else ''Auto'')"

subsection \<open>Notifications\<close>

definition review_message :: "(rat \<Rightarrow> string) \<Rightarrow> Bot \<Rightarrow> string \<Rightarrow> AnalysisResult \<Rightarrow> api_call" where
  "review_message pct b txID result =
     SendMessage (bt_authorizedUserID b) (formatReviewNotification pct txID result) ''Markdown''
       [\<lparr>bn_Text = ''Approve'', bn_Data = ''approve:'' @ txID\<rparr>,
        \<lparr>bn_Text = ''Approve & Whitelist'', bn_Data = ''whitelist:'' @ txID\<rparr>,
        \<lparr>bn_Text = ''Reject'', bn_Data = ''reject:'' @ txID\<rparr>]"

text \<open>Both notifications return what the API answered.\<close>

definition NotifyForReview :: "(api_call \<Rightarrow> err option) \<Rightarrow> (rat \<Rightarrow> string) \<Rightarrow> Bot \<Rightarrow> string \<Rightarrow>
    AnalysisResult \<Rightarrow> err option" where
  "NotifyForReview api pct b txID result = api (review_message pct b txID result)"

definition NotifyAutoApproved :: "(api_call \<Rightarrow> err option) \<Rightarrow> Bot \<Rightarrow> string \<Rightarrow> AnalysisResult \<Rightarrow>
    err option" where
  "NotifyAutoApproved api b txID result =
     api (SendMessage (bt_authorizedUserID b) (formatAutoApprovedNotification txID result)
       ''Markdown'' [])"

definition settings_text :: "string \<Rightarrow> string" where
  "settings_text mode =
     ''*Settings*'' @ nl @ ''Current mode: *'' @ mode @ ''*'' @ nl @ nl @
     ''*Auto* - Transactions to whitelisted addresses are signed automatically. '' @
     ''You get a notification but no action needed. Unknown addresses still require your approval.'' @
     nl @ nl @ ''*Manual* - Every transaction requires your explicit approval before signing.''"

definition settings_mode :: "Bot \<Rightarrow> string" where
  "settings_mode b = (if bt_autoMode b then ''Auto'' else ''Manual'')"

definition settings_buttons :: "Bot \<Rightarrow> button list" where
  "settings_buttons b =
     [\<lparr>bn_Text = ''Toggle to '' @ toggleLabel (settings_mode b),
       bn_Data = (if bt_autoMode b then ''settings:manual'' else ''settings:auto'')\<rparr>]"

definition SendSettingsMenu :: "user_id \<Rightarrow> Bot \<Rightarrow> effect list" where
  "SendSettingsMenu chatID b =
     [Api (SendMessage chatID (settings_text (settings_mode b)) ''Markdown'' (settings_buttons b))]"

subsection \<open>Incoming updates\<close>

record Message =
  ms_From :: user_id
  ms_Chat :: user_id
  ms_MessageID :: int
  ms_Text :: string

record CallbackQuery =
  cq_ID :: string
  cq_From :: user_id
  cq_Data :: string
  cq_Message :: "Message option"

definition editSettingsMessage :: "Message option \<Rightarrow> Bot \<Rightarrow> effect list" where
  "editSettingsMessage msg b =
     (case msg of
        None \<Rightarrow> []
      | Some m \<Rightarrow> [Api (EditMessage (ms_Chat m) (ms_MessageID m) (settings_text (settings_mode b))
          ''Markdown'' (settings_buttons b))])"

definition handleTxDecision :: "CallbackQuery \<Rightarrow> string \<Rightarrow> bool \<Rightarrow> bool \<Rightarrow> Bot \<Rightarrow> effect list" where
  "handleTxDecision query txID approved whitelist b =
     (let action = (if approved \<and> whitelist then ''Approved & Whitelisted''
                    else if approved then ''Approved'' else ''Rejected'') in
      [Api (AnswerCallback (cq_ID query) action)] @
      (case cq_Message query of
         None \<Rightarrow> []
       | Some m \<Rightarrow> [Api (EditMessage (ms_Chat m) (ms_MessageID m)
           (ms_Text m @ nl @ nl @ ''*Decision: '' @ action @ ''*'') ''Markdown'' [])]) @
      (if whitelist \<and> bt_onWhitelist b then [OnWhitelist txID] else []) @
      (if bt_onDecision b then [OnDecision txID approved] else []))"

definition handleCallback :: "CallbackQuery \<Rightarrow> Bot \<Rightarrow> effect list \<times> Bot" where
  "handleCallback query b =
     (if \<not> isAuthorized b (cq_From query)
      then ([Api (AnswerCallback (cq_ID query) ''Unauthorized'')], b)
      else let data = cq_Data query in
        if has_prefix data ''approve:''
        then (handleTxDecision query (trim_prefix data ''approve:'') True False b, b)
        else if has_prefix data ''whitelist:''
        then (handleTxDecision query (trim_prefix data ''whitelist:'') True True b, b)
        else if has_prefix data ''reject:''
        then (handleTxDecision query (trim_prefix data ''reject:'') False False b, b)
        else if data = ''settings:auto''
        then (let b' = SetAutoMode True b in
          (Api (AnswerCallback (cq_ID query) ''Switched to Auto mode'') #
             editSettingsMessage (cq_Message query) b', b'))
        else if data = ''settings:manual''
        then (let b' = SetAutoMode False b in
          (Api (AnswerCallback (cq_ID query) ''Switched to Manual mode'') #
             editSettingsMessage (cq_Message query) b', b'))
        else ([Api (AnswerCallback (cq_ID query) ''Unknown action'')], b))"

definition handleMessage :: "Message \<Rightarrow> Bot \<Rightarrow> effect list" where
  "handleMessage msg b =
     (if \<not> isAuthorized b (ms_From msg) then []
      else if ms_Text msg = ''/start''
      then [Api (SendMessage (ms_Chat msg) (''Crypto Claw Party B bot active.'' @ nl @ nl @
        ''Commands:'' @ nl @ ''/settings - Configure mode'') [] [])]
      else if ms_Text msg = ''/settings'' then SendSettingsMenu (ms_Chat msg) b
      else [Api (SendMessage (ms_Chat msg) ''Unknown command. Use /settings to configure.'' [] [])])"

text \<open>One round of the update loop: a callback query goes first, then a message.\<close>

definition handle_update :: "CallbackQuery option \<Rightarrow> Message option \<Rightarrow> Bot \<Rightarrow> effect list \<times> Bot" where
  "handle_update query msg b =
     (case query of
        Some q \<Rightarrow> handleCallback q b
      | None \<Rightarrow> (case msg of Some m \<Rightarrow> (handleMessage m b, b) | None \<Rightarrow> ([], b)))"

subsection \<open>What the bot promises\<close>

lemma decisions_of_press:
  "OnDecision t ok \<in> set (handleTxDecision q txID a w b) \<longleftrightarrow> bt_onDecision b \<and> t = txID \<and> ok = a"
  by (auto simp: handleTxDecision_def Let_def split: option.splits)

lemma no_decision_in_settings [simp]: "OnDecision t ok \<notin> set (editSettingsMessage m b)"
  by (auto simp: editSettingsMessage_def split: option.splits)

lemma effects_keep_callbacks [simp]:
  "bt_onDecision (snd (handleCallback q b)) = bt_onDecision b"
  "bt_authorizedUserID (snd (handleCallback q b)) = bt_authorizedUserID b"
  by (simp_all add: handleCallback_def SetAutoMode_def Let_def)

lemma press_decides:
  assumes "bt_onDecision b"
  shows "OnDecision txID ok \<in> set (fst (handle_update query msg b)) \<longleftrightarrow>
    (\<exists>q. query = Some q \<and> cq_From q = bt_authorizedUserID b \<and>
      (if ok then cq_Data q = ''approve:'' @ txID \<or> cq_Data q = ''whitelist:'' @ txID
       else cq_Data q = ''reject:'' @ txID))"
proof -
  have no_msg: "OnDecision txID ok \<notin> set (handleMessage m b)" for m
    by (simp add: handleMessage_def SendSettingsMenu_def)
  have "OnDecision txID ok \<in> set (fst (handleCallback q b)) \<longleftrightarrow>
      cq_From q = bt_authorizedUserID b \<and>
      (if ok then cq_Data q = ''approve:'' @ txID \<or> cq_Data q = ''whitelist:'' @ txID
       else cq_Data q = ''reject:'' @ txID)" for q
    using assms
    by (auto simp: handleCallback_def Let_def decisions_of_press isAuthorized_def has_prefix_iff
        trim_prefix_append [of "''approve:''", simplified]
        trim_prefix_append [of "''whitelist:''", simplified]
        trim_prefix_append [of "''reject:''", simplified])
  then show ?thesis
    by (auto simp: handle_update_def no_msg split: option.splits)
qed

lemma press_sets_mode:
  "bt_autoMode (snd (handle_update query msg b)) \<noteq> bt_autoMode b \<Longrightarrow>
   \<exists>q. query = Some q \<and> cq_From q = bt_authorizedUserID b \<and>
     cq_Data q = (if bt_autoMode b then ''settings:manual'' else ''settings:auto'')"
  by (auto simp: handle_update_def handleCallback_def Let_def isAuthorized_def SetAutoMode_def
      split: option.splits if_splits)

text \<open>
  C26. Only the authorised user decides, and only about the transaction on the button: an update
  leads to the decision \<open>ok\<close> for \<open>txID\<close> exactly when it is a button press by that user carrying
  \<open>approve:txID\<close> or \<open>whitelist:txID\<close> (to approve) or \<open>reject:txID\<close> (to reject). Messages and other
  users' presses decide nothing, and nothing but that user's settings buttons changes the mode.
\<close>

theorem only_authorised_user_decides:
  assumes "bt_onDecision b"
  shows "(OnDecision txID ok \<in> set (fst (handle_update query msg b)) \<longleftrightarrow>
      (\<exists>q. query = Some q \<and> cq_From q = bt_authorizedUserID b \<and>
        (if ok then cq_Data q = ''approve:'' @ txID \<or> cq_Data q = ''whitelist:'' @ txID
         else cq_Data q = ''reject:'' @ txID))) \<and>
    (bt_autoMode (snd (handle_update query msg b)) \<noteq> bt_autoMode b \<longrightarrow>
      (\<exists>q. query = Some q \<and> cq_From q = bt_authorizedUserID b \<and>
        cq_Data q = (if bt_autoMode b then ''settings:manual'' else ''settings:auto'')))"
  using press_decides [OF assms] press_sets_mode by blast

definition sample_bot :: Bot where
  "sample_bot = \<lparr>bt_authorizedUserID = 7, bt_autoMode = False, bt_onDecision = True,
     bt_onWhitelist = True\<rparr>"

theorem only_authorised_user_decides_witness:
  "OnDecision ''t1'' True \<in> set (fst (handle_update (Some \<lparr>cq_ID = ''c'', cq_From = 7,
     cq_Data = ''approve:t1'', cq_Message = None\<rparr>) None sample_bot)) \<and>
   OnDecision ''t1'' True \<notin> set (fst (handle_update (Some \<lparr>cq_ID = ''c'', cq_From = 8,
     cq_Data = ''approve:t1'', cq_Message = None\<rparr>) None sample_bot))"
proof -
  have "bt_onDecision sample_bot" by (simp add: sample_bot_def)
  note only_authorised_user_decides [OF this, of "''t1''" True]
  then show ?thesis by (simp add: sample_bot_def)
qed

text \<open>
  What a transaction carries into a notification cannot open a Markdown entity, so it cannot break
  the message or forge a part of it.
\<close>

lemma escapeMD_safe:
  "set (escapeMD s) \<inter> {CHR 0x60, CHR ''*'', CHR ''_'', CHR ''['', CHR '']'', CHR ''{'', CHR ''}''} = {}"
  by (induction s) (auto simp: escapeMD_def escape_char_def split: if_splits)

lemma escapeMD_idem: "escapeMD (escapeMD s) = escapeMD s"
proof -
  have "set t \<inter> {CHR 0x60, CHR ''*'', CHR ''_'', CHR ''['', CHR '']'', CHR ''{'', CHR ''}''} = {} \<Longrightarrow>
      escapeMD t = t" for t
    by (induction t) (auto simp: escapeMD_def escape_char_def)
  then show ?thesis using escapeMD_safe by blast
qed

end
