(* ===== verification/Config.thy ===== *)
theory Config
  imports Api Telegram
begin

section \<open>The configuration file\<close>

text \<open>
  \<open>internal/config/config.go\<close>: the configuration of both parties, its JSON form, loading and saving,
  and the database's connection string; and the two functions of package \<open>filepath\<close> the code uses.
  A file system is a map from paths to contents, and the printer and parser of JSON text are
  arguments. A Go map is an association list with distinct keys, which is printed by key.
\<close>

subsection \<open>Package filepath\<close>

text \<open>\<open>Clean\<close> goes through the elements with the ones kept so far, last first.\<close>

definition clean_elem :: "bool \<Rightarrow> string \<Rightarrow> string list \<Rightarrow> string list" where
  "clean_elem rooted e kept =
     (if e = [] \<or> e = ''.'' then kept
      else if e = ''..'' then
        (case kept of
           [] \<Rightarrow> if rooted then [] else [e]
         | k # ks \<Rightarrow> if k = ''..'' then e # kept else ks)
      else e # kept)"

definition path_clean :: "string \<Rightarrow> string" where
  "path_clean path =
     (let rooted = has_prefix path ''/'';
          body = str_join ''/'' (rev (fold (clean_elem rooted) (split_on (CHR ''/'') path) [])) in
      if rooted then ''/'' @ body else if body = [] then ''.'' else body)"

definition path_join :: "string list \<Rightarrow> string" where
  "path_join elems =
     (case dropWhile (\<lambda>e. e = []) elems of [] \<Rightarrow> [] | es \<Rightarrow> path_clean (str_join ''/'' es))"

definition path_dir :: "string \<Rightarrow> string" where
  "path_dir path = path_clean (rev (dropWhile (\<lambda>c. c \<noteq> CHR ''/'') (rev path)))"

subsection \<open>The configuration\<close>

record DatabaseConfig =
  db_Host :: string
  db_Port :: int
  db_User :: string
  db_Password :: string
  db_DBName :: string
  db_SSLMode :: string

record APIConfig =
  ap_ListenAddr :: string
  ap_WebDir :: string

record TransportConfig =
  tp_RemoteAddr :: string
  tp_ListenAddr :: string
  tp_CertFile :: string
  tp_KeyFile :: string
  tp_CACertFile :: string

record Config =
  cf_Party :: string
  cf_DataDir :: string
  cf_Database :: DatabaseConfig
  cf_API :: APIConfig
  cf_Transport :: TransportConfig
  cf_Analyzer :: AnalyzerConfig
  cf_Telegram :: TelegramConfig

definition DSN :: "DatabaseConfig \<Rightarrow> string" where
  "DSN d = ''postgres://'' @ db_User d @ '':'' @ db_Password d @ ''@'' @ db_Host d @ '':'' @
     int_dec (db_Port d) @ ''/'' @ db_DBName d @ ''?sslmode='' @ db_SSLMode d"

text \<open>The zero values the decoder starts from.\<close>

definition no_database :: DatabaseConfig where
  "no_database = \<lparr>db_Host = [], db_Port = 0, db_User = [], db_Password = [], db_DBName = [],
     db_SSLMode = []\<rparr>"

definition no_api :: APIConfig where
  "no_api = \<lparr>ap_ListenAddr = [], ap_WebDir = []\<rparr>"

definition no_transport :: TransportConfig where
  "no_transport = \<lparr>tp_RemoteAddr = [], tp_ListenAddr = [], tp_CertFile = [], tp_KeyFile = [],
     tp_CACertFile = []\<rparr>"

definition no_llm :: LLMConfig where
  "no_llm = \<lparr>lc_Provider = [], lc_APIKey = [], lc_Endpoint = [], lc_Model = []\<rparr>"

definition no_analyzer :: AnalyzerConfig where
  "no_analyzer = \<lparr>ac_LLM = no_llm, ac_AutoMode = False, ac_DisableAI = False, ac_ExplorerAPIs = [],
     ac_Whitelist = []\<rparr>"

definition no_telegram :: TelegramConfig where
  "no_telegram = \<lparr>tg_BotToken = [], tg_AuthorizedUserID = 0, tg_EscalationTimeout = 0\<rparr>"

subsection \<open>Its JSON form\<close>

text \<open>A signed 64-bit integer, where \<open>1.0\<close> counts as \<open>1\<close> as for the unsigned ones.\<close>

fun dec_int :: "int \<Rightarrow> json \<Rightarrow> int res" where
  "dec_int old JNull = Inr old"
| "dec_int old (JNum q) =
     (if - (2 ^ 63) \<le> q \<and> q < 2 ^ 63 \<and> of_int \<lfloor>q\<rfloor> = q then Inr \<lfloor>q\<rfloor> else Inl json_type_err)"
| "dec_int old _ = Inl json_type_err"

abbreviation "int_field \<equiv> dec_field dec_int"
abbreviation "bool_field \<equiv> dec_field dec_bool"

definition enc_int :: "int \<Rightarrow> json" where
  "enc_int i = JNum (of_int i)"

definition enc_DatabaseConfig :: "DatabaseConfig \<Rightarrow> json" where
  "enc_DatabaseConfig d = JObj [(''host'', JStr (db_Host d)), (''port'', enc_int (db_Port d)),
     (''user'', JStr (db_User d)), (''password'', JStr (db_Password d)),
     (''dbName'', JStr (db_DBName d)), (''sslMode'', JStr (db_SSLMode d))]"

definition dec_DatabaseConfig :: "DatabaseConfig \<Rightarrow> fields \<Rightarrow> DatabaseConfig res" where
  "dec_DatabaseConfig old fs =
     bind_res (str_field ''host'' (db_Host old) fs) (\<lambda>host.
     bind_res (int_field ''port'' (db_Port old) fs) (\<lambda>port.
     bind_res (str_field ''user'' (db_User old) fs) (\<lambda>user.
     bind_res (str_field ''password'' (db_Password old) fs) (\<lambda>password.
     bind_res (str_field ''dbName'' (db_DBName old) fs) (\<lambda>name.
     bind_res (str_field ''sslMode'' (db_SSLMode old) fs) (\<lambda>mode.
       Inr \<lparr>db_Host = host, db_Port = port, db_User = user, db_Password = password,
         db_DBName = name, db_SSLMode = mode\<rparr>))))))"

definition enc_APIConfig :: "APIConfig \<Rightarrow> json" where
  "enc_APIConfig a =
     JObj [(''listenAddr'', JStr (ap_ListenAddr a)), (''webDir'', JStr (ap_WebDir a))]"

definition dec_APIConfig :: "APIConfig \<Rightarrow> fields \<Rightarrow> APIConfig res" where
  "dec_APIConfig old fs =
     bind_res (str_field ''listenAddr'' (ap_ListenAddr old) fs) (\<lambda>addr.
     bind_res (str_field ''webDir'' (ap_WebDir old) fs) (\<lambda>dir.
       Inr \<lparr>ap_ListenAddr = addr, ap_WebDir = dir\<rparr>))"

definition enc_TransportConfig :: "TransportConfig \<Rightarrow> json" where
  "enc_TransportConfig t = JObj (
     omitempty ''remoteAddr'' (tp_RemoteAddr t) @ omitempty ''listenAddr'' (tp_ListenAddr t) @
     [(''certFile'', JStr (tp_CertFile t)), (''keyFile'', JStr (tp_KeyFile t)),
      (''caCertFile'', JStr (tp_CACertFile t))])"

definition dec_TransportConfig :: "TransportConfig \<Rightarrow> fields \<Rightarrow> TransportConfig res" where
  "dec_TransportConfig old fs =
     bind_res (str_field ''remoteAddr'' (tp_RemoteAddr old) fs) (\<lambda>remote.
     bind_res (str_field ''listenAddr'' (tp_ListenAddr old) fs) (\<lambda>listen.
     bind_res (str_field ''certFile'' (tp_CertFile old) fs) (\<lambda>cert.
     bind_res (str_field ''keyFile'' (tp_KeyFile old) fs) (\<lambda>key.
     bind_res (str_field ''caCertFile'' (tp_CACertFile old) fs) (\<lambda>ca.
       Inr \<lparr>tp_RemoteAddr = remote, tp_ListenAddr = listen, tp_CertFile = cert, tp_KeyFile = key,
         tp_CACertFile = ca\<rparr>)))))"

definition enc_LLMConfig :: "LLMConfig \<Rightarrow> json" where
  "enc_LLMConfig l = JObj ([(''provider'', JStr (lc_Provider l))] @
     omitempty ''apiKey'' (lc_APIKey l) @ omitempty ''endpoint'' (lc_Endpoint l) @
     [(''model'', JStr (lc_Model l))])"

definition dec_LLMConfig :: "LLMConfig \<Rightarrow> fields \<Rightarrow> LLMConfig res" where
  "dec_LLMConfig old fs =
     bind_res (str_field ''provider'' (lc_Provider old) fs) (\<lambda>provider.
     bind_res (str_field ''apiKey'' (lc_APIKey old) fs) (\<lambda>key.
     bind_res (str_field ''endpoint'' (lc_Endpoint old) fs) (\<lambda>endpoint.
     bind_res (str_field ''model'' (lc_Model old) fs) (\<lambda>model.
       Inr \<lparr>lc_Provider = provider, lc_APIKey = key, lc_Endpoint = endpoint, lc_Model = model\<rparr>))))"

text \<open>A \<open>WhitelistSeed\<close> is the pair of its address and label.\<close>

definition enc_WhitelistSeed :: "string \<times> string \<Rightarrow> json" where
  "enc_WhitelistSeed w = JObj ([(''address'', JStr (fst w))] @ omitempty ''label'' (snd w))"

definition dec_WhitelistSeed :: "string \<times> string \<Rightarrow> fields \<Rightarrow> (string \<times> string) res" where
  "dec_WhitelistSeed old fs =
     bind_res (str_field ''address'' (fst old) fs) (\<lambda>addr.
     bind_res (str_field ''label'' (snd old) fs) (\<lambda>label. Inr (addr, label)))"

definition enc_AnalyzerConfig :: "AnalyzerConfig \<Rightarrow> json" where
  "enc_AnalyzerConfig a = JObj (
     [(''llm'', enc_LLMConfig (ac_LLM a)), (''autoMode'', JBool (ac_AutoMode a))] @
     (if ac_DisableAI a then [(''disableAI'', JBool True)] else []) @
     (if ac_ExplorerAPIs a = [] then []
      else [(''explorerApis'', JObj (map (\<lambda>(k, v). (k, JStr v)) (sort_key fst (ac_ExplorerAPIs a))))]) @
     (if ac_Whitelist a = [] then []
      else [(''whitelist'', JArr (map enc_WhitelistSeed (ac_Whitelist a)))]))"

definition dec_AnalyzerConfig :: "AnalyzerConfig \<Rightarrow> fields \<Rightarrow> AnalyzerConfig res" where
  "dec_AnalyzerConfig old fs =
     bind_res (dec_field (dec_struct dec_LLMConfig) ''llm'' (ac_LLM old) fs) (\<lambda>llm.
     bind_res (bool_field ''autoMode'' (ac_AutoMode old) fs) (\<lambda>auto.
     bind_res (bool_field ''disableAI'' (ac_DisableAI old) fs) (\<lambda>disable.
     bind_res (dec_field dec_string_map ''explorerApis'' (ac_ExplorerAPIs old) fs) (\<lambda>apis.
     bind_res (dec_field (dec_array (dec_struct dec_WhitelistSeed) ([], [])) ''whitelist''
       (ac_Whitelist old) fs) (\<lambda>seeds.
       Inr \<lparr>ac_LLM = llm, ac_AutoMode = auto, ac_DisableAI = disable, ac_ExplorerAPIs = apis,
         ac_Whitelist = seeds\<rparr>)))))"

definition enc_TelegramConfig :: "TelegramConfig \<Rightarrow> json" where
  "enc_TelegramConfig t = JObj [(''botToken'', JStr (tg_BotToken t)),
     (''authorizedUserId'', enc_int (sint (tg_AuthorizedUserID t))),
     (''escalationTimeout'', enc_int (tg_EscalationTimeout t))]"

definition dec_TelegramConfig :: "TelegramConfig \<Rightarrow> fields \<Rightarrow> TelegramConfig res" where
  "dec_TelegramConfig old fs =
     bind_res (str_field ''botToken'' (tg_BotToken old) fs) (\<lambda>token.
     bind_res (int_field ''authorizedUserId'' (sint (tg_AuthorizedUserID old)) fs) (\<lambda>user.
     bind_res (int_field ''escalationTimeout'' (tg_EscalationTimeout old) fs) (\<lambda>timeout.
       Inr \<lparr>tg_BotToken = token, tg_AuthorizedUserID = word_of_int user,
         tg_EscalationTimeout = timeout\<rparr>)))"

text \<open>\<open>omitempty\<close> has no effect on a struct.\<close>

definition enc_Config :: "Config \<Rightarrow> doc" where
  "enc_Config c = Some (JObj [(''party'', JStr (cf_Party c)), (''dataDir'', JStr (cf_DataDir c)),
     (''database'', enc_DatabaseConfig (cf_Database c)), (''api'', enc_APIConfig (cf_API c)),
     (''transport'', enc_TransportConfig (cf_Transport c)),
     (''analyzer'', enc_AnalyzerConfig (cf_Analyzer c)),
     (''telegram'', enc_TelegramConfig (cf_Telegram c))])"

definition dec_Config :: "doc \<Rightarrow> Config res" where
  "dec_Config = unmarshal (\<lambda>fs.
     bind_res (str_field ''party'' [] fs) (\<lambda>party.
     bind_res (str_field ''dataDir'' [] fs) (\<lambda>dir.
     bind_res (dec_field (dec_struct dec_DatabaseConfig) ''database'' no_database fs) (\<lambda>db.
     bind_res (dec_field (dec_struct dec_APIConfig) ''api'' no_api fs) (\<lambda>api.
     bind_res (dec_field (dec_struct dec_TransportConfig) ''transport'' no_transport fs) (\<lambda>transport.
     bind_res (dec_field (dec_struct dec_AnalyzerConfig) ''analyzer'' no_analyzer fs) (\<lambda>analyzer.
     bind_res (dec_field (dec_struct dec_TelegramConfig) ''telegram'' no_telegram fs) (\<lambda>telegram.
       Inr \<lparr>cf_Party = party, cf_DataDir = dir, cf_Database = db, cf_API = api,
         cf_Transport = transport, cf_Analyzer = analyzer, cf_Telegram = telegram\<rparr>))))))))"

subsection \<open>Loading and saving\<close>

type_synonym files = "string \<rightharpoonup> bytes"

definition no_file :: err where "no_file = ''no such file or directory''"

definition ReadFile :: "files \<Rightarrow> string \<Rightarrow> bytes res" where
  "ReadFile fs path = (case fs path of None \<Rightarrow> Inl no_file | Some data \<Rightarrow> Inr data)"

definition Load :: "(bytes \<Rightarrow> doc) \<Rightarrow> files \<Rightarrow> string \<Rightarrow> Config res" where
  "Load parse fs path =
     bind_res (in_ctx ''read config'' (ReadFile fs path)) (\<lambda>data.
     bind_res (in_ctx ''parse config'' (dec_Config (parse data))) (\<lambda>cfg.
       Inr (if cf_DataDir cfg = [] then cfg\<lparr>cf_DataDir := path_dir path\<rparr> else cfg)))"

text \<open>\<open>wr\<close> is the outcome of writing the file.\<close>

definition Save :: "(doc \<Rightarrow> bytes) \<Rightarrow> err option \<Rightarrow> string \<Rightarrow> Config \<Rightarrow> files \<Rightarrow> err option \<times> files" where
  "Save print wr path cfg fs =
     (case wr of Some e \<Rightarrow> (Some e, fs) | None \<Rightarrow> (None, fs(path \<mapsto> print (enc_Config cfg))))"

subsection \<open>What is saved is loaded\<close>

text \<open>
  The values that have a JSON form that is read back: 64-bit integers, and the map in the order in
  which it is printed, which is a choice of representation only.
\<close>

definition fits64 :: "int \<Rightarrow> bool" where
  "fits64 i \<longleftrightarrow> - (2 ^ 63) \<le> i \<and> i < 2 ^ 63"

definition wf_config :: "Config \<Rightarrow> bool" where
  "wf_config c \<longleftrightarrow> fits64 (db_Port (cf_Database c)) \<and> fits64 (tg_EscalationTimeout (cf_Telegram c)) \<and>
     sorted (map fst (ac_ExplorerAPIs (cf_Analyzer c))) \<and>
     distinct (map fst (ac_ExplorerAPIs (cf_Analyzer c)))"

lemma dec_enc_int [simp]: "fits64 i \<Longrightarrow> dec_int old (enc_int i) = Inr i"
proof -
  assume "fits64 i"
  then have "of_int (- (2 ^ 63)) \<le> (of_int i :: rat)" "(of_int i :: rat) < of_int (2 ^ 63)"
    by (simp_all only: fits64_def of_int_le_iff of_int_less_iff)
  then show ?thesis by (simp add: enc_int_def)
qed

lemma fits64_sint [simp]: "fits64 (sint (w :: 64 word))"
  using sint_range_size [of w] by (simp add: fits64_def word_size)

lemma dec_entries_distinct:
  assumes "distinct (map fst (m @ kvs))"
  shows "dec_entries m (map (\<lambda>(k, v). (k, JStr v)) kvs) = Inr (m @ kvs)"
  using assms
proof (induction kvs arbitrary: m)
  case (Cons kv kvs)
  obtain k v where kv: "kv = (k, v)" by force
  have "k \<notin> fst ` set m" using Cons.prems by (auto simp: kv)
  then have "AList.update k v m = m @ [(k, v)]" by (induction m) auto
  then show ?case using Cons.IH [of "m @ [(k, v)]"] Cons.prems by (simp add: kv)
qed simp

lemma dec_struct_JObj: "dec_struct d old (JObj fs) = d old fs"
  by (simp add: dec_struct_def)

lemma dec_whitelist_seeds [simp]:
  "dec_list (dec_struct dec_WhitelistSeed) ([], []) (map enc_WhitelistSeed ws) = Inr ws"
  by (induction ws) (auto simp: enc_WhitelistSeed_def dec_WhitelistSeed_def dec_struct_JObj payload_simps)

lemma dec_enc_LLMConfig [simp]:
  "dec_struct dec_LLMConfig no_llm (enc_LLMConfig l) = Inr l"
  by (simp add: enc_LLMConfig_def dec_LLMConfig_def dec_struct_JObj no_llm_def payload_simps)

lemma dec_enc_DatabaseConfig [simp]:
  "fits64 (db_Port d) \<Longrightarrow> dec_struct dec_DatabaseConfig no_database (enc_DatabaseConfig d) = Inr d"
  by (simp add: enc_DatabaseConfig_def dec_DatabaseConfig_def dec_struct_JObj no_database_def payload_simps)

lemma dec_enc_APIConfig [simp]:
  "dec_struct dec_APIConfig no_api (enc_APIConfig a) = Inr a"
  by (simp add: enc_APIConfig_def dec_APIConfig_def dec_struct_JObj no_api_def payload_simps)

lemma dec_enc_TransportConfig [simp]:
  "dec_struct dec_TransportConfig no_transport (enc_TransportConfig t) = Inr t"
  by (simp add: enc_TransportConfig_def dec_TransportConfig_def dec_struct_JObj no_transport_def payload_simps)

lemma dec_enc_TelegramConfig [simp]:
  "fits64 (tg_EscalationTimeout t) \<Longrightarrow>
   dec_struct dec_TelegramConfig no_telegram (enc_TelegramConfig t) = Inr t"
  by (simp add: enc_TelegramConfig_def dec_TelegramConfig_def dec_struct_JObj no_telegram_def payload_simps)

lemma dec_enc_AnalyzerConfig [simp]:
  assumes "sorted (map fst (ac_ExplorerAPIs a))" "distinct (map fst (ac_ExplorerAPIs a))"
  shows "dec_struct dec_AnalyzerConfig no_analyzer (enc_AnalyzerConfig a) = Inr a"
  using assms dec_entries_distinct [of "[]" "ac_ExplorerAPIs a"]
  by (simp add: enc_AnalyzerConfig_def dec_AnalyzerConfig_def dec_struct_JObj no_analyzer_def
      dec_string_map_def dec_array_def sorted_sort_id sort_key_id_if_sorted payload_simps)

lemma dec_enc_Config: "wf_config c \<Longrightarrow> dec_Config (enc_Config c) = Inr c"
  by (simp add: wf_config_def enc_Config_def dec_Config_def payload_simps)

text \<open>
  A configuration that was saved without error is loaded as it was, an empty data directory being
  replaced by the directory of the file; and a failed save leaves every file as it was.
\<close>

theorem config_roundtrip:
  assumes "\<And>d. parse (print d) = d" and "wf_config cfg"
  shows "Load parse (snd (Save print None path cfg fs)) path =
      Inr (if cf_DataDir cfg = [] then cfg\<lparr>cf_DataDir := path_dir path\<rparr> else cfg)"
    and "Save print (Some e) path cfg fs = (Some e, fs)"
    and "path' \<noteq> path \<Longrightarrow>
      Load parse (snd (Save print wr path cfg fs)) path' = Load parse fs path'"
  using assms
  by (simp_all add: Load_def Save_def ReadFile_def dec_enc_Config split: option.split)

subsection \<open>The connection string\<close>

lemma cut_unique:
  "c \<notin> set a \<Longrightarrow> c \<notin> set b \<Longrightarrow> a @ c # s = b @ c # t \<longleftrightarrow> a = b \<and> s = t"
proof (induction a arbitrary: b)
  case Nil
  then show ?case by (cases b) auto
next
  case (Cons x a)
  then show ?case by (cases b) auto
qed

lemma int_dec_chars: "c \<in> set (int_dec i) \<Longrightarrow> c = CHR ''-'' \<or> is_digit c"
  using nat_dec_digits by (auto simp: int_dec_def list_all_iff split: if_splits)

lemma slash_not_in_int_dec: "CHR ''/'' \<notin> set (int_dec i)"
  using int_dec_chars [of "CHR ''/''" i] by (auto simp: is_digit_def)

lemma int_dec_inject [simp]: "int_dec i = int_dec j \<longleftrightarrow> i = j"
  by (metis parse_bigint_int_dec option.inject)

definition plain_database :: "DatabaseConfig \<Rightarrow> bool" where
  "plain_database d \<longleftrightarrow> CHR '':'' \<notin> set (db_User d) \<and> CHR ''@'' \<notin> set (db_Password d) \<and>
     CHR '':'' \<notin> set (db_Host d) \<and> CHR ''?'' \<notin> set (db_DBName d)"

text \<open>
  The connection string determines the database it was made for only among configurations without
  separators in their fields: nothing is escaped, so an at sign can belong to the password or the host.
\<close>

theorem DSN_determines:
  shows "plain_database d \<Longrightarrow> plain_database d' \<Longrightarrow> DSN d = DSN d' \<longleftrightarrow> d = d'"
    and "DSN \<lparr>db_Host = h, db_Port = p, db_User = u, db_Password = x @ ''@'' @ y, db_DBName = n,
           db_SSLMode = m\<rparr> =
         DSN \<lparr>db_Host = y @ ''@'' @ h, db_Port = p, db_User = u, db_Password = x, db_DBName = n,
           db_SSLMode = m\<rparr>"
proof -
  assume "plain_database d" "plain_database d'"
  then show "DSN d = DSN d' \<longleftrightarrow> d = d'"
    by (cases d; cases d') (auto simp: DSN_def plain_database_def cut_unique slash_not_in_int_dec)
qed (simp add: DSN_def)

end
