(* ===== verification/Dealer.thy ===== *)
theory Dealer
  imports Derivation
begin

section \<open>Splitting a known key (internal/tss/dealer.go)\<close>

text \<open>
  \<open>shamirSplit\<close> with its evaluation loop, and \<open>DealerSetupECDSA\<close>/\<open>DealerSetupEdDSA\<close>, which build
  every party's save data from a private key. \<open>rand.Int\<close> is the list \<open>draws\<close> of its outcomes.
  The lemmas show that the loop evaluates a polynomial modulo the group order, that enough shares
  give the secret back, that one share alone is consistent with every secret, and that what the
  dealer builds is a pair of shares in the sense \<open>Derivation\<close> needs.
\<close>

subsection \<open>Shamir's scheme\<close>

fun draw_coeffs :: "nat \<Rightarrow> nat res list \<Rightarrow> nat list res" where
  "draw_coeffs 0 draws = Inr []"
| "draw_coeffs (Suc t) [] = Inl ''generate random coefficient''"
| "draw_coeffs (Suc t) (d # ds) =
     (case d of
        Inl e \<Rightarrow> Inl (wrap_err ''generate random coefficient'' e)
      | Inr c \<Rightarrow> (case draw_coeffs t ds of Inl e \<Rightarrow> Inl e | Inr cs \<Rightarrow> Inr (c # cs)))"

text \<open>The inner loop, with the running value \<open>xi\<close> and power \<open>kPower\<close>.\<close>

fun shamir_eval :: "nat \<Rightarrow> nat \<Rightarrow> nat list \<Rightarrow> nat \<Rightarrow> nat \<Rightarrow> nat" where
  "shamir_eval modulus k [] xi kPower = xi"
| "shamir_eval modulus k (c # cs) xi kPower =
     shamir_eval modulus k cs ((xi + (c * kPower) mod modulus) mod modulus)
       ((kPower * k) mod modulus)"

text \<open>A negative threshold makes \<open>make\<close> panic.\<close>

definition shamirSplit :: "nat res list \<Rightarrow> nat \<Rightarrow> nat list \<Rightarrow> int \<Rightarrow> nat \<Rightarrow> nat list res may_panic" where
  "shamirSplit draws secret shareIDs threshold modulus =
     (if threshold < 0 then Panic
      else (case draw_coeffs (nat threshold) draws of
          Inl e \<Rightarrow> Return (Inl e)
        | Inr coeffs \<Rightarrow>
            Return (Inr (map (\<lambda>k. shamir_eval modulus k coeffs secret k) shareIDs))))"

text \<open>The polynomial the loop evaluates.\<close>

fun poly_from :: "nat \<Rightarrow> nat list \<Rightarrow> nat \<Rightarrow> nat" where
  "poly_from j [] k = 0"
| "poly_from j (c # cs) k = c * k ^ j + poly_from (Suc j) cs k"

lemma shamir_eval_poly:
  assumes "kp mod m = k ^ j mod m"
  shows "shamir_eval m k cs x kp mod m = (x + poly_from j cs k) mod m"
  using assms
proof (induction cs arbitrary: x kp j)
  case Nil
  then show ?case by simp
next
  case (Cons c cs)
  have "((kp * k) mod m) mod m = k ^ Suc j mod m"
    using mod_mult_cong [OF Cons.prems refl, of k] by (simp add: mult.commute)
  then have "shamir_eval m k (c # cs) x kp mod m
      = ((x + (c * kp) mod m) mod m + poly_from (Suc j) cs k) mod m"
    using Cons.IH [of "(kp * k) mod m" "Suc j"] by simp
  also have "\<dots> = (x + c * kp + poly_from (Suc j) cs k) mod m" by (simp add: mod_simps)
  also have "\<dots> = (x + c * k ^ j + poly_from (Suc j) cs k) mod m"
    by (intro mod_add_cong mod_mult_cong Cons.prems refl)
  finally show ?case by (simp add: add.assoc)
qed

lemma shamir_eval_poly1: "shamir_eval m k cs x k mod m = (x + poly_from 1 cs k) mod m"
  by (rule shamir_eval_poly) simp

lemma length_draw_coeffs: "draw_coeffs t draws = Inr cs \<Longrightarrow> length cs = t"
  by (induction t draws arbitrary: cs rule: draw_coeffs.induct) (auto split: sum.splits)

subsection \<open>Reconstruction\<close>

text \<open>A weighted sum of the shares, with one coefficient per party.\<close>

fun wsum :: "nat list \<Rightarrow> nat list \<Rightarrow> nat" where
  "wsum (l # ls) (x # xs) = l * x + wsum ls xs"
| "wsum ls xs = 0"

text \<open>
  Coefficients that interpolate at 0 through the evaluation points \<open>ks\<close> for degree at most \<open>t\<close>
  (the Lagrange coefficients do).
\<close>

definition interpolates :: "nat \<Rightarrow> nat list \<Rightarrow> nat list \<Rightarrow> nat \<Rightarrow> bool" where
  "interpolates m ls ks t \<longleftrightarrow> length ls = length ks \<and> wsum ls (replicate (length ks) 1) mod m = 1 mod m \<and>
     (\<forall>j. 1 \<le> j \<and> j \<le> t \<longrightarrow> wsum ls (map (\<lambda>k. k ^ j) ks) mod m = 0)"

lemma wsum_add: "wsum ls (map (\<lambda>k. f k + g k) ks) = wsum ls (map f ks) + wsum ls (map g ks)"
proof (induction ls arbitrary: ks)
  case (Cons l ls)
  then show ?case by (cases ks) (simp_all add: algebra_simps)
qed simp

lemma wsum_scale: "wsum ls (map (\<lambda>k. c * f k) ks) = c * wsum ls (map f ks)"
proof (induction ls arbitrary: ks)
  case (Cons l ls)
  then show ?case by (cases ks) (simp_all add: algebra_simps)
qed simp

lemma wsum_mod: "(\<And>k. k \<in> set ks \<Longrightarrow> f k mod m = g k mod m) \<Longrightarrow>
    wsum ls (map f ks) mod m = wsum ls (map g ks) mod m"
proof (induction ls arbitrary: ks)
  case (Cons l ls)
  show ?case
  proof (cases ks)
    case (Cons k ks')
    with Cons.prems Cons.IH [of ks'] show ?thesis
      by (simp, intro mod_add_cong mod_mult_cong) auto
  qed simp
qed simp

lemma wsum_const: "wsum ls (map (\<lambda>k. c) ks) = c * wsum ls (replicate (length ks) 1)"
  using wsum_scale [of ls c "\<lambda>k. 1" ks] by (simp add: map_replicate_const)

lemma wsum_poly:
  "(\<And>i. j \<le> i \<Longrightarrow> i < j + length cs \<Longrightarrow> wsum ls (map (\<lambda>k. k ^ i) ks) mod m = 0) \<Longrightarrow>
     wsum ls (map (poly_from j cs) ks) mod m = 0"
proof (induction cs arbitrary: j)
  case Nil
  then show ?case by (simp add: wsum_const [where c = 0])
next
  case (Cons c cs)
  have a: "wsum ls (map (poly_from (Suc j) cs) ks) mod m = 0"
    by (rule Cons.IH) (use Cons.prems in auto)
  have b: "wsum ls (map (\<lambda>k. k ^ j) ks) mod m = 0" using Cons.prems [of j] by simp
  have "poly_from j (c # cs) = (\<lambda>k. c * k ^ j + poly_from (Suc j) cs k)" by (rule ext) simp
  then have "wsum ls (map (poly_from j (c # cs)) ks)
      = c * wsum ls (map (\<lambda>k. k ^ j) ks) + wsum ls (map (poly_from (Suc j) cs) ks)"
    by (simp add: wsum_add wsum_scale)
  moreover have "(c * wsum ls (map (\<lambda>k. k ^ j) ks) + wsum ls (map (poly_from (Suc j) cs) ks)) mod m
      = (c * 0 + 0) mod m"
    by (intro mod_add_cong mod_mult_cong refl) (use a b in simp_all)
  ultimately show ?case by (simp only: mult_0_right add_0_left mod_0)
qed

lemma shamirSplit_sum:
  assumes "shamirSplit draws secret ks t m = Return (Inr shares)"
    and "interpolates m ls ks (nat t)"
  shows "wsum ls shares mod m = secret mod m"
proof -
  obtain cs where cs: "draw_coeffs (nat t) draws = Inr cs"
    and sh: "shares = map (\<lambda>k. shamir_eval m k cs secret k) ks"
    using assms(1) by (auto simp: shamirSplit_def split: if_splits sum.splits)
  have "wsum ls shares mod m = wsum ls (map (\<lambda>k. secret + poly_from 1 cs k) ks) mod m"
    unfolding sh by (intro wsum_mod) (rule shamir_eval_poly1)
  also have "wsum ls (map (\<lambda>k. secret + poly_from 1 cs k) ks)
      = secret * wsum ls (replicate (length ks) 1) + wsum ls (map (poly_from 1 cs) ks)"
    by (simp only: wsum_add [of ls "\<lambda>k. secret" "poly_from 1 cs"] wsum_const)
  also have "\<dots> mod m = (secret * 1 + 0) mod m"
  proof (intro mod_add_cong mod_mult_cong refl)
    show "wsum ls (replicate (length ks) 1) mod m = 1 mod m"
      using assms(2) by (simp add: interpolates_def)
    have "wsum ls (map (poly_from 1 cs) ks) mod m = 0"
      using assms(2) length_draw_coeffs [OF cs] by (intro wsum_poly) (auto simp: interpolates_def)
    then show "wsum ls (map (poly_from 1 cs) ks) mod m = 0 mod m" by simp
  qed
  finally show ?thesis by simp
qed

text \<open>
  C13. Any set of shares whose coefficients interpolate through their evaluation points gives the
  secret back: the weighted sum of what \<open>shamirSplit\<close> returns is the private key modulo the group
  order, for every threshold, whatever coefficients were drawn.
\<close>

theorem shamirSplit_reconstructs:
  assumes "shamirSplit draws secret ks t m = Return (Inr shares)"
    and "interpolates m ls ks (nat t)"
  shows "wsum ls shares mod m = secret mod m"
  using assms by (rule shamirSplit_sum)

theorem shamirSplit_reconstructs_witness:
  "wsum [2, 6] [1, 4] mod 7 = (5 :: nat) mod 7"
proof (rule shamirSplit_reconstructs)
  show "shamirSplit [Inr 3] 5 [1, 2] 1 7 = Return (Inr [1, 4])"
    by (simp add: shamirSplit_def)
  have "j = 1" if "1 \<le> j" "j \<le> nat 1" for j using that by simp
  then show "interpolates 7 [2, 6] [1, 2] (nat 1)" by (auto simp: interpolates_def)
qed

subsection \<open>Secrecy of one share\<close>

lemma inverse_mod:
  assumes "coprime k m" and "1 < (m :: nat)"
  shows "\<exists>u. (u * k) mod m = 1"
proof -
  have "k \<noteq> 0" using assms by (cases "k = 0") auto
  then obtain x y where "k * x = m * y + gcd k m" using bezout_nat by blast
  then have "x * k = 1 + y * m" using assms by (simp add: coprime_iff_gcd_eq_1 mult.commute)
  then have "(x * k) mod m = 1" using assms(2) by (simp del: One_nat_def)
  then show ?thesis by blast
qed

lemma solve_linear:
  assumes "coprime k m" and "1 < (m :: nat)"
  shows "\<exists>c < m. (a + c * k) mod m = b mod m"
proof -
  obtain u where u: "(u * k) mod m = 1" using inverse_mod [OF assms] by blast
  obtain e where e: "(a + e) mod m = b mod m"
  proof
    have "a mod m \<le> m" using assms(2) by (simp add: less_imp_le)
    have "(a + (b + (m - a mod m))) mod m = (a mod m + (b + (m - a mod m))) mod m"
      by (simp add: mod_simps)
    also have "a mod m + (b + (m - a mod m)) = b + m" using \<open>a mod m \<le> m\<close> by simp
    finally show "(a + (b + (m - a mod m))) mod m = b mod m" by simp
  qed
  let ?c = "(e * u) mod m"
  have "(a + ?c * k) mod m = (a + e * (u * k)) mod m"
    by (metis (no_types) mod_add_right_eq mod_mult_left_eq mult.assoc)
  also have "\<dots> = (a + e * 1) mod m"
    by (intro mod_add_cong mod_mult_cong refl) (use u assms(2) in simp)
  finally have "(a + ?c * k) mod m = b mod m" using e by simp
  moreover have "?c < m" using assms(2) by simp
  ultimately show ?thesis by blast
qed

text \<open>
  C14. One share tells nothing about the key: for two parties (threshold 1), whatever share a party
  got and whatever other secret one guesses, some coefficient the dealer could have drawn explains
  that share, as long as the party's evaluation point is invertible modulo the group order. Neither
  server alone can therefore recover or bias a guess of the private key from its share.
\<close>

theorem single_share_hides_secret:
  assumes "shamirSplit draws secret ks 1 m = Return (Inr shares)"
    and "i < length ks" and "coprime (ks ! i) m" and "1 < m"
  shows "\<exists>c < m. \<exists>shares'. shamirSplit [Inr c] guess ks 1 m = Return (Inr shares') \<and>
    shares' ! i = shares ! i"
proof -
  obtain cs where cs: "draw_coeffs 1 draws = Inr cs"
    and sh: "shares = map (\<lambda>k. shamir_eval m k cs secret k) ks"
    using assms(1) by (auto simp: shamirSplit_def split: if_splits sum.splits)
  obtain d where d: "cs = [d]" using length_draw_coeffs [OF cs] by (cases cs) auto
  obtain c where c: "c < m" "(guess + c * ks ! i) mod m = (secret + d * ks ! i) mod m"
    using solve_linear [OF assms(3,4)] by blast
  have "shamirSplit [Inr c] guess ks 1 m
      = Return (Inr (map (\<lambda>k. shamir_eval m k [c] guess k) ks))"
    by (simp add: shamirSplit_def)
  moreover have "map (\<lambda>k. shamir_eval m k [c] guess k) ks ! i = shares ! i"
    using assms(2) c(2) by (simp add: sh d mod_simps)
  ultimately show ?thesis using c(1) by blast
qed

theorem single_share_hides_secret_witness:
  "\<exists>c < 7. \<exists>shares'. shamirSplit [Inr c] 6 [1, 2] 1 7 = Return (Inr shares') \<and>
    shares' ! 0 = [1, 4] ! 0"
proof (rule single_share_hides_secret)
  show "shamirSplit [Inr 3] 5 [1, 2] 1 7 = Return (Inr [1, 4 :: nat])"
    by (simp add: shamirSplit_def)
qed simp_all

subsection \<open>The dealer\<close>

text \<open>The pre-parameters of a party, and the save data besides what derivation touches.\<close>

record 'pk preparams =
  pp_NTildei :: nat
  pp_H1i :: nat
  pp_H2i :: nat
  pp_PaillierPK :: 'pk

record 'pk dealt =
  dl_PreParams :: "'pk preparams option"
  dl_ShareID :: nat
  dl_Ks :: "nat list"
  dl_NTildej :: "nat list"
  dl_H1j :: "nat list"
  dl_H2j :: "nat list"
  dl_PaillierPKs :: "'pk list"

text \<open>\<open>BigXj[i] = shares[i] * G\<close>, with the index in the error.\<close>

fun public_shares :: "ec \<Rightarrow> nat \<Rightarrow> nat list \<Rightarrow> point list res" where
  "public_shares c i [] = Inr []"
| "public_shares c i (x # xs) =
     (case NewECPoint c (ec_ScalarBaseMult c (nat_bytes x)) of
        Inl e \<Rightarrow> Inl (wrap_err (''compute BigXj['' @ nat_dec i @ '']'') e)
      | Inr p \<Rightarrow> (case public_shares c (Suc i) xs of Inl e \<Rightarrow> Inl e | Inr ps \<Rightarrow> Inr (p # ps)))"

fun marshal_all :: "'s save_ops \<Rightarrow> nat \<Rightarrow> (lib_party \<times> 's) list \<Rightarrow> Curve \<Rightarrow> bytes \<Rightarrow> bytes \<Rightarrow>
    KeyShare list res" where
  "marshal_all ops i [] curve pub chain = Inr []"
| "marshal_all ops i ((p, s) # rest) curve pub chain =
     (case so_marshal ops s of
        Inl e \<Rightarrow> Inl (wrap_err (''marshal save data for party '' @ nat_dec i) e)
      | Inr b \<Rightarrow> (case marshal_all ops (Suc i) rest curve pub chain of
          Inl e \<Rightarrow> Inl e
        | Inr kss \<Rightarrow> Inr (\<lparr>ks_Curve = curve,
            ks_PartyID = \<lparr>pid_ID = lp_Id p, pid_Index = lp_Index p\<rparr>, ks_Share = b,
            ks_PublicKey = pub, ks_ChainCode = chain\<rparr> # kss)))"

text \<open>
  The save data of party \<open>i\<close> of the sorted committee. The fields of the pre-parameters are those of
  index \<open>i\<close> too: the code pairs them by position.
\<close>

definition ecdsa_saves :: "'pk preparams list \<Rightarrow> nat list \<Rightarrow> nat list \<Rightarrow> point list \<Rightarrow> point \<Rightarrow>
    'pk dealt save_data list" where
  "ecdsa_saves pps shareIDs shares bigXj pub =
     map (\<lambda>i. \<lparr>sv_Xi = shares ! i, sv_BigXj = map Some bigXj, sv_Pub = pub,
       sv_rest = \<lparr>dl_PreParams = Some (pps ! i), dl_ShareID = shareIDs ! i, dl_Ks = shareIDs,
         dl_NTildej = map pp_NTildei pps, dl_H1j = map pp_H1i pps, dl_H2j = map pp_H2i pps,
         dl_PaillierPKs = map pp_PaillierPK pps\<rparr>\<rparr>) [0..<length shares]"

definition DealerSetupECDSA :: "(lib_party list \<Rightarrow> lib_party list) \<Rightarrow> ec \<Rightarrow>
    'pk dealt save_data save_ops \<Rightarrow> nat res list \<Rightarrow> nat \<Rightarrow> bytes \<Rightarrow> bytes \<Rightarrow> PartyID list \<Rightarrow>
    'pk preparams list \<Rightarrow> KeyShare list res may_panic" where
  "DealerSetupECDSA S c ops draws privateKey pubKeyBytes chainCode parties pps =
     (if length parties \<noteq> length pps
      then Return (Inl ''parties and preParams length mismatch'')
      else
        let sortedIDs = makeSortedPartyIDs S parties;
            shareIDs = map lp_Key sortedIDs
        in (case shamirSplit draws privateKey shareIDs (int (length parties) - 1) (ec_N c) of
              Panic \<Rightarrow> Panic
            | Return (Inl e) \<Rightarrow> Return (Inl (wrap_err ''shamir split'' e))
            | Return (Inr shares) \<Rightarrow>
                (case public_shares c 0 shares of
                   Inl e \<Rightarrow> Return (Inl e)
                 | Inr bigXj \<Rightarrow>
                     if length pubKeyBytes < 65 then Panic
                     else
                       (case NewECPoint c (be_nat (take 32 (drop 1 pubKeyBytes)),
                            be_nat (take 32 (drop 33 pubKeyBytes))) of
                          Inl e \<Rightarrow> Return (Inl (wrap_err ''construct ECDSA pub point'' e))
                        | Inr pub \<Rightarrow>
                            Return (marshal_all ops 0
                              (zip sortedIDs (ecdsa_saves pps shareIDs shares bigXj pub))
                              CurveSecp256k1 pubKeyBytes chainCode)))))"

definition eddsa_saves :: "nat list \<Rightarrow> nat list \<Rightarrow> point list \<Rightarrow> point \<Rightarrow>
    'pk dealt save_data list" where
  "eddsa_saves shareIDs shares bigXj pub =
     map (\<lambda>i. \<lparr>sv_Xi = shares ! i, sv_BigXj = map Some bigXj, sv_Pub = pub,
       sv_rest = \<lparr>dl_PreParams = None, dl_ShareID = shareIDs ! i, dl_Ks = shareIDs,
         dl_NTildej = [], dl_H1j = [], dl_H2j = [], dl_PaillierPKs = []\<rparr>\<rparr>) [0..<length shares]"

definition DealerSetupEdDSA :: "(lib_party list \<Rightarrow> lib_party list) \<Rightarrow> ec \<Rightarrow>
    'pk dealt save_data save_ops \<Rightarrow> nat res list \<Rightarrow> nat \<Rightarrow> bytes \<Rightarrow> bytes \<Rightarrow> PartyID list \<Rightarrow>
    KeyShare list res may_panic" where
  "DealerSetupEdDSA S c ops draws signingScalar pubKeyBytes chainCode parties =
     (let sortedIDs = makeSortedPartyIDs S parties;
          shareIDs = map lp_Key sortedIDs
      in case shamirSplit draws signingScalar shareIDs (int (length parties) - 1) (ec_N c) of
           Panic \<Rightarrow> Panic
         | Return (Inl e) \<Rightarrow> Return (Inl (wrap_err ''shamir split'' e))
         | Return (Inr shares) \<Rightarrow>
             (case public_shares c 0 shares of
                Inl e \<Rightarrow> Return (Inl e)
              | Inr bigXj \<Rightarrow>
                  (case NewECPoint c (ec_ScalarBaseMult c (nat_bytes signingScalar)) of
                     Inl e \<Rightarrow> Return (Inl (wrap_err ''construct EdDSA pub point'' e))
                   | Inr pub \<Rightarrow>
                       Return (marshal_all ops 0
                         (zip sortedIDs (eddsa_saves shareIDs shares bigXj pub))
                         CurveEd25519 pubKeyBytes chainCode))))"

lemma public_shares_smul:
  "ec_laws c smul \<Longrightarrow> public_shares c i xs = Inr ps \<Longrightarrow> ps = map smul xs"
proof (induction xs arbitrary: i ps)
  case (Cons x xs)
  then show ?case
    by (auto simp: NewECPoint_def ec_laws_def be_nat_nat_bytes split: sum.splits option.splits)
qed simp

lemma marshal_all_two:
  assumes "marshal_all ops i [(p, a), (q, b)] curve pub chain = Inr kss"
  shows "\<exists>ka kb. kss = [ka, kb] \<and> so_marshal ops a = Inr (ks_Share ka) \<and>
    so_marshal ops b = Inr (ks_Share kb) \<and> ks_ChainCode ka = chain \<and> ks_ChainCode kb = chain \<and>
    ks_PublicKey ka = pub \<and> ks_PublicKey kb = pub \<and> ks_Curve ka = curve \<and> ks_Curve kb = curve"
  using assms by (auto split: sum.splits)

lemma decode_elliptic_Marshal:
  assumes "ec_laws c smul"
  shows "(be_nat (take 32 (drop 1 (elliptic_Marshal (smul k)))),
      be_nat (take 32 (drop 33 (elliptic_Marshal (smul k))))) = smul k"
    and "length (elliptic_Marshal (smul k)) = 65"
  using assms by (simp_all add: elliptic_Marshal_def be_nat_be_put ec_laws_def prod_eq_iff)

lemma two_element_list: "length xs = 2 \<Longrightarrow> \<exists>a b. xs = [a, b]"
  by (auto simp: numeral_2_eq_2 length_Suc_conv)

text \<open>The two save data of a two-party split, for any way of building them from the shares.\<close>

lemma dealt_shares_of:
  assumes laws: "ec_laws c smul"
    and sp: "shamirSplit draws key [ka, kb] 1 (ec_N c) = Return (Inr [x, y])"
    and ip: "interpolates (ec_N c) [la, lb] [ka, kb] 1"
    and a: "sv_Xi a = x" "sv_Pub a = smul key" and b: "sv_Xi b = y" "sv_Pub b = smul key"
  shows "shares_of c smul la lb key a b"
proof -
  have "wsum [la, lb] [x, y] mod ec_N c = key mod ec_N c"
    using shamirSplit_sum [OF sp, of "[la, lb]"] ip by (simp del: wsum.simps)
  then show ?thesis using ip a b by (simp add: shares_of_def interpolates_def)
qed

lemma two_shares:
  assumes "shamirSplit draws key ks t m = Return (Inr shares)" and "length ks = 2"
  shows "\<exists>x y. shares = [x, y]"
  using assms by (intro two_element_list) (auto simp: shamirSplit_def split: if_splits sum.splits)

text \<open>
  The dealer hands out a sound two-party sharing: when it splits a key whose public key it was
  given, the two save data are shares of that key with the coefficients that interpolate the two
  party ids, both carry the same public key, and the public shares in them are the points of the two
  secret shares. This is the hypothesis of consistent derivation, so keys imported from a mnemonic
  derive and sign like keys generated together.
\<close>

theorem DealerSetupECDSA_shares:
  assumes laws: "ec_laws c smul"
    and D: "DealerSetupECDSA S c ops draws key (elliptic_Marshal (smul key)) chain parties pps =
      Return (Inr kss)"
    and len: "length parties = 2" and ids: "makeSortedPartyIDs S parties = [p, q]"
    and ip: "interpolates (ec_N c) [la, lb] [lp_Key p, lp_Key q] 1"
  shows "\<exists>kA kB a b. kss = [kA, kB] \<and> so_marshal ops a = Inr (ks_Share kA) \<and>
    so_marshal ops b = Inr (ks_Share kB) \<and> ks_ChainCode kA = chain \<and> ks_ChainCode kB = chain \<and>
    ks_PublicKey kA = elliptic_Marshal (smul key) \<and> ks_PublicKey kB = elliptic_Marshal (smul key) \<and>
    shares_of c smul la lb key a b \<and>
    sv_BigXj a = [Some (smul (sv_Xi a)), Some (smul (sv_Xi b))] \<and> sv_BigXj b = sv_BigXj a"
proof -
  let ?ks = "[lp_Key p, lp_Key q]"
  obtain shares bigXj pub where
    sp: "shamirSplit draws key ?ks (int (length parties) - 1) (ec_N c) = Return (Inr shares)"
    and bx: "public_shares c 0 shares = Inr bigXj"
    and pub: "NewECPoint c (smul key) = Inr pub"
    and ma: "marshal_all ops 0 (zip [p, q] (ecdsa_saves pps ?ks shares bigXj pub)) CurveSecp256k1
      (elliptic_Marshal (smul key)) chain = Inr kss"
    using D decode_elliptic_Marshal [OF laws, of key]
    by (auto simp: DealerSetupECDSA_def Let_def ids
        split: if_splits may_panic.splits sum.splits)
  have pub': "pub = smul key" using pub by (auto simp: NewECPoint_def split: option.splits)
  obtain x y where xy: "shares = [x, y]" using two_shares [OF sp] by auto
  have big: "bigXj = [smul x, smul y]" using public_shares_smul [OF laws bx] by (simp add: xy)
  have sp1: "shamirSplit draws key ?ks 1 (ec_N c) = Return (Inr [x, y])"
    using sp len xy by simp
  obtain a b where ab: "ecdsa_saves pps ?ks shares bigXj pub = [a, b]"
    "sv_Xi a = x" "sv_Pub a = smul key" "sv_Xi b = y" "sv_Pub b = smul key"
    "sv_BigXj a = [Some (smul x), Some (smul y)]" "sv_BigXj b = sv_BigXj a"
    by (simp add: ecdsa_saves_def xy pub' big upt_rec)
  have "shares_of c smul la lb key a b"
    using dealt_shares_of [OF laws sp1 ip ab(2-5)] .
  moreover have "\<exists>ka kb. kss = [ka, kb] \<and> so_marshal ops a = Inr (ks_Share ka) \<and>
    so_marshal ops b = Inr (ks_Share kb) \<and> ks_ChainCode ka = chain \<and> ks_ChainCode kb = chain \<and>
    ks_PublicKey ka = elliptic_Marshal (smul key) \<and> ks_PublicKey kb = elliptic_Marshal (smul key)"
  proof -
    have "marshal_all ops 0 [(p, a), (q, b)] CurveSecp256k1 (elliptic_Marshal (smul key)) chain
        = Inr kss" using ma ab(1) by (simp del: marshal_all.simps)
    from marshal_all_two [OF this] show ?thesis by blast
  qed
  ultimately show ?thesis using ab(2,4,6,7) by blast
qed

text \<open>The same for the ed25519 key, whose public key bytes are taken as they are given.\<close>

lemma DealerSetupEdDSA_shares:
  fixes ops :: "'pk dealt save_data save_ops"
  assumes laws: "ec_laws c smul"
    and D: "DealerSetupEdDSA S c ops draws key pubKeyBytes chain parties = Return (Inr kss)"
    and len: "length parties = 2" and ids: "makeSortedPartyIDs S parties = [p, q]"
    and ip: "interpolates (ec_N c) [la, lb] [lp_Key p, lp_Key q] 1"
  shows "\<exists>kA kB a b. kss = [kA, kB] \<and> so_marshal ops a = Inr (ks_Share kA) \<and>
    so_marshal ops b = Inr (ks_Share kB) \<and> ks_ChainCode kA = chain \<and> ks_ChainCode kB = chain \<and>
    ks_PublicKey kA = pubKeyBytes \<and> ks_PublicKey kB = pubKeyBytes \<and> shares_of c smul la lb key a b"
proof -
  let ?ks = "[lp_Key p, lp_Key q]"
  obtain shares bigXj pub where
    sp: "shamirSplit draws key ?ks (int (length parties) - 1) (ec_N c) = Return (Inr shares)"
    and pub: "NewECPoint c (ec_ScalarBaseMult c (nat_bytes key)) = Inr pub"
    and ma: "marshal_all ops 0 (zip [p, q] (eddsa_saves ?ks shares bigXj pub)) CurveEd25519
      pubKeyBytes chain = Inr kss"
    using D by (auto simp: DealerSetupEdDSA_def Let_def ids split: may_panic.splits sum.splits)
  have pub': "pub = smul key"
    using pub laws by (auto simp: NewECPoint_def ec_laws_def be_nat_nat_bytes split: option.splits)
  obtain x y where xy: "shares = [x, y]" using two_shares [OF sp] by auto
  have sp1: "shamirSplit draws key ?ks 1 (ec_N c) = Return (Inr [x, y])" using sp len xy by simp
  obtain a b :: "'pk dealt save_data" where ab: "eddsa_saves ?ks shares bigXj pub = [a, b]"
    "sv_Xi a = x" "sv_Pub a = smul key" "sv_Xi b = y" "sv_Pub b = smul key"
    by (simp add: eddsa_saves_def xy pub' upt_rec)
  have "marshal_all ops 0 [(p, a), (q, b)] CurveEd25519 pubKeyBytes chain = Inr kss"
    using ma ab(1) by (simp del: marshal_all.simps)
  from marshal_all_two [OF this] dealt_shares_of [OF laws sp1 ip ab(2-5)] show ?thesis by blast
qed

definition toy_ids :: "PartyID list" where
  "toy_ids = [\<lparr>pid_ID = [CHR 0x01], pid_Index = 0\<rparr>, \<lparr>pid_ID = [CHR 0x02], pid_Index = 1\<rparr>]"

text \<open>Only the public key is written, in unary; the share that is read back has it.\<close>

definition toy_dealt :: "point \<Rightarrow> unit dealt save_data" where
  "toy_dealt P = \<lparr>sv_Xi = 0, sv_BigXj = [Some (mod7 4), Some (mod7 3)], sv_Pub = P,
     sv_rest = \<lparr>dl_PreParams = None, dl_ShareID = 0, dl_Ks = [], dl_NTildej = [], dl_H1j = [], dl_H2j = [],
       dl_PaillierPKs = []\<rparr>\<rparr>"

definition toy_dealt_ops :: "unit dealt save_data save_ops" where
  "toy_dealt_ops = \<lparr>so_marshal = (\<lambda>s. Inr (replicate (fst (sv_Pub s)) 0 @ 1 # replicate (snd (sv_Pub s)) 0)),
     so_unmarshal = (\<lambda>b. Inr (toy_dealt (length (takeWhile ((=) 0) b), length (dropWhile ((=) 0) b) - 1))),
     so_pub = sv_Pub\<rparr>"

lemma toy_dealt_codec:
  "so_marshal toy_dealt_ops s = Inr b \<Longrightarrow> so_unmarshal toy_dealt_ops b = Inr (toy_dealt (sv_Pub s))"
proof -
  have "takeWhile ((=) 0) (replicate m 0 @ 1 # ys) = replicate m 0"
    "dropWhile ((=) 0) (replicate m 0 @ 1 # ys) = 1 # ys" for m and ys :: bytes
    by (induction m) simp_all
  then show "so_marshal toy_dealt_ops s = Inr b \<Longrightarrow>
      so_unmarshal toy_dealt_ops b = Inr (toy_dealt (sv_Pub s))"
    by (auto simp: toy_dealt_ops_def)
qed

definition toy_pp :: "unit preparams" where
  "toy_pp = \<lparr>pp_NTildei = 0, pp_H1i = 0, pp_H2i = 0, pp_PaillierPK = ()\<rparr>"

lemma toy_sorted: "\<exists>p q. makeSortedPartyIDs (\<lambda>x. x) toy_ids = [p, q] \<and> lp_Key p = 1 \<and> lp_Key q = 2"
  by (simp add: makeSortedPartyIDs_def toy_ids_def NewPartyID_def str_bytes_def)

theorem DealerSetupECDSA_shares_witness:
  "\<exists>kA kB a b. DealerSetupECDSA (\<lambda>x. x) toy_ec toy_dealt_ops [Inr 3] 5 (elliptic_Marshal (mod7 5))
      [9] toy_ids [toy_pp, toy_pp] = Return (Inr [kA, kB]) \<and>
    shares_of toy_ec mod7 2 6 5 (a :: unit dealt save_data) b"
proof -
  obtain p q where ids: "makeSortedPartyIDs (\<lambda>x. x) toy_ids = [p, q]"
    and k: "lp_Key p = 1" "lp_Key q = 2" using toy_sorted by blast
  have len: "length toy_ids = 2" by (simp add: toy_ids_def)
  have N: "ec_N toy_ec = 7" by (simp add: toy_ec_def)
  have sp: "shamirSplit [Inr 3] 5 [1, 2] 1 7 = Return (Inr [1, 4 :: nat])"
    by (simp add: shamirSplit_def)
  have ck: "\<And>p. NewECPoint toy_ec p = Inr p" by (simp add: NewECPoint_def toy_ec_def)
  have "\<exists>kss. marshal_all toy_dealt_ops 0 [(p, a), (q, b)] CurveSecp256k1 pub chain = Inr kss"
    for a b pub chain by (simp add: toy_dealt_ops_def)
  then obtain kss where D: "DealerSetupECDSA (\<lambda>x. x) toy_ec toy_dealt_ops [Inr 3] 5
      (elliptic_Marshal (mod7 5)) [9] toy_ids [toy_pp, toy_pp] = Return (Inr kss)"
    using ids k len N sp ck decode_elliptic_Marshal [OF toy_laws, of 5]
    by (simp add: DealerSetupECDSA_def Let_def ecdsa_saves_def upt_rec) blast
  have "j = 1" if "1 \<le> j" "j \<le> (1 :: nat)" for j using that by simp
  then have ip: "interpolates (ec_N toy_ec) [2, 6] [lp_Key p, lp_Key q] 1"
    by (auto simp: interpolates_def N k)
  from DealerSetupECDSA_shares [OF toy_laws D len ids ip] D show ?thesis by blast
qed

end
