(* ===== verification/Recovery.thy ===== *)
theory Recovery
  imports Dealer
begin

section \<open>Recovery from the mnemonic (cmd/installer/mnemonic.go, ed25519_sign.go)\<close>

text \<open>
  The installer holds the mnemonic: it derives the master keys that the dealer splits, and can later
  derive the private key of any path alone. The theorems tie this second implementation to
  \<open>Derivation\<close>: it reads paths the same way where the services accept them, and the private key it
  exports is the discrete logarithm of the public key the services report. BIP-39, SHA-512, the
  curves and the address encodings are arguments.
\<close>

subsection \<open>Paths\<close>

definition trimPrefix :: "string \<Rightarrow> string \<Rightarrow> string" where
  "trimPrefix s p = (if length p \<le> length s \<and> take (length p) s = p then drop (length p) s else s)"

text \<open>\<open>splitPath\<close>: the loop over positions, with the piece being read.\<close>

fun splitPath_loop :: "string \<Rightarrow> string \<Rightarrow> string list" where
  "splitPath_loop cur [] = [cur]"
| "splitPath_loop cur (c # s) =
     (if c = CHR ''/'' then cur # splitPath_loop [] s else splitPath_loop (cur @ [c]) s)"

definition splitPath :: "string \<Rightarrow> string list" where
  "splitPath s = splitPath_loop [] s"

text \<open>The digits of a component, in 32-bit arithmetic.\<close>

fun component_val :: "u32 \<Rightarrow> string \<Rightarrow> u32 option" where
  "component_val v [] = Some v"
| "component_val v (c # cs) =
     (if is_digit c then component_val (v * 10 + word_of_nat (digit_val c)) cs else None)"

fun parse_bip32_parts :: "string list \<Rightarrow> u32 list res" where
  "parse_bip32_parts [] = Inr []"
| "parse_bip32_parts (p # ps) =
     (if p = [] then parse_bip32_parts ps
      else let hardened = is_hardened p; part = (if hardened then butlast p else p) in
        (case component_val 0 part of
           None \<Rightarrow> Inl (''invalid path component: '' @ part)
         | Some v \<Rightarrow> (case parse_bip32_parts ps of
             Inl e \<Rightarrow> Inl e
           | Inr is \<Rightarrow> Inr ((if hardened then v + 0x80000000 else v) # is))))"

definition parseBIP32Path :: "string \<Rightarrow> u32 list res" where
  "parseBIP32Path path =
     (if path = [] \<or> path = ''m'' then Inl ''empty derivation path''
      else (case parse_bip32_parts (splitPath (trimPrefix path ''m/'')) of
          Inl e \<Rightarrow> Inl e
        | Inr is \<Rightarrow> if is = [] then Inl ''empty derivation path'' else Inr is))"

lemma trimPrefix_eq: "trimPrefix s p = trim_prefix s p"
  by (auto simp: trimPrefix_def trim_prefix_def has_prefix_def)

lemma splitPath_loop_eq:
  "splitPath_loop cur s = (case split_on CHR ''/'' s of [] \<Rightarrow> [cur] | p # ps \<Rightarrow> (cur @ p) # ps)"
  by (induction cur s rule: splitPath_loop.induct) (auto split: list.splits)

lemma splitPath_pieces: "splitPath s = split_on CHR ''/'' s"
  using split_on_nonempty [of "CHR ''/''" s]
  by (auto simp: splitPath_def splitPath_loop_eq split: list.splits)

lemma component_val_dec:
  "list_all is_digit s \<Longrightarrow> component_val (word_of_nat v) s = Some (word_of_nat (dec_val v s))"
proof (induction s arbitrary: v)
  case (Cons c s)
  have "(word_of_nat v * 10 + word_of_nat (digit_val c) :: u32) = word_of_nat (v * 10 + digit_val c)"
    by simp
  then show ?case using Cons.prems Cons.IH [of "v * 10 + digit_val c"]
    by (simp only: component_val.simps dec_val.simps list.pred_inject if_True)
qed simp

lemma component_val_parse:
  assumes "parse_uint 31 s = Inr n"
  shows "component_val 0 s = Some (word_of_nat n)"
proof -
  have "list_all is_digit s" "n = dec_val 0 s"
    using assms by (auto simp: parse_uint_def parse_dec_def split: option.splits if_splits)
  then show ?thesis using component_val_dec [of s 0] by simp
qed

lemma parse_parts_agree: "parse_parts ps = Inr is \<Longrightarrow> parse_bip32_parts ps = Inr is"
proof (induction ps arbitrary: "is")
  case (Cons p ps)
  show ?case
  proof (cases "p = []")
    case False
    then obtain i js where pc: "parse_component p = Inr i" and js: "parse_parts ps = Inr js"
      and "is": "is = i # js"
      using Cons.prems by (auto split: sum.splits)
    let ?part = "if is_hardened p then butlast p else p"
    obtain n where n: "parse_uint 31 ?part = Inr n"
      and i: "i = word_of_nat n + (if is_hardened p then hardenedOffset else 0)"
      using pc by (auto simp: parse_component_def Let_def split: sum.splits)
    show ?thesis using Cons.IH [OF js] component_val_parse [OF n] False
      by (simp add: "is" i Let_def hardenedOffset_def)
  qed (use Cons in simp)
qed simp

lemma parseBIP32Path_eq:
  assumes "parsePath path = Inr is" and "is \<noteq> []"
  shows "parseBIP32Path path = Inr is"
proof -
  have "path \<noteq> []" "path \<noteq> ''m''"
    using assms(1) by (auto simp: parsePath_def trim_prefix_def has_prefix_def Let_def
        parse_component_def is_hardened_def parse_uint_def parse_dec_def is_digit_def)
  then show ?thesis using assms
    by (auto simp: parsePath_def parseBIP32Path_def Let_def trimPrefix_eq splitPath_pieces
        parse_parts_agree split: if_splits)
qed

text \<open>
  The two path parsers agree wherever the services accept a path with at least one index: the
  installer reads the same indices, so recovering funds from the mnemonic walks the same tree the
  threshold derivation walked.
\<close>

theorem parseBIP32Path_agrees:
  assumes "parsePath path = Inr is" and "is \<noteq> []"
  shows "parseBIP32Path path = Inr is"
  using assms by (rule parseBIP32Path_eq)

theorem parseBIP32Path_agrees_witness:
  "parseBIP32Path (show_path [0x8000003C, 7]) = Inr [0x8000003C, 7]"
  by (rule parseBIP32Path_agrees) (simp_all add: parsePath_canonical)

text \<open>
  Outside that domain they differ: the installer computes in 32 bits and accepts a bare hardened
  mark, so a path the services reject can silently name another key. The component 4294967296 is
  read as 0.
\<close>

theorem parseBIP32Path_wraps:
  "parseBIP32Path ''m/4294967296'' = Inr [0] \<and> \<not> is_ok (parsePath ''m/4294967296'') \<and>
   parseBIP32Path ''m/h'' = Inr [0x80000000] \<and> \<not> is_ok (parsePath ''m/h'')"
  by (simp add: parseBIP32Path_def trimPrefix_def splitPath_def is_hardened_def is_digit_def
      digit_val_def parsePath_def trim_prefix_def has_prefix_def parse_component_def parse_uint_def
      parse_dec_def Let_def)

subsection \<open>secp256k1 keys\<close>

type_synonym hmac = "bytes \<Rightarrow> bytes \<Rightarrow> bytes"

record bip39 =
  b39_IsMnemonicValid :: "string \<Rightarrow> bool"
  b39_NewSeed :: "string \<Rightarrow> bytes"

definition compressPubKey :: "point \<Rightarrow> bytes may_panic" where
  "compressPubKey p =
     (let buf = (if even (snd p) then 0x02 else 0x03) # replicate 32 0;
          xb = nat_bytes (fst p)
      in if length xb \<le> 33 then Return (take (1 + 32 - length xb) buf @ xb) else Panic)"

text \<open>The master key at \<open>m\<close>, as each of the three ECDSA functions computes it.\<close>

definition bip32_master :: "ec \<Rightarrow> hmac \<Rightarrow> bytes \<Rightarrow> (nat \<times> bytes) res" where
  "bip32_master c hmac seed =
     (let I = hmac (str_bytes ''Bitcoin seed'') seed; key = be_nat (take 32 I) in
      if key = 0 \<or> ec_N c \<le> key then Inl ''invalid master key'' else Inr (key, drop 32 I))"

definition deriveECDSAKey :: "ec \<Rightarrow> hmac \<Rightarrow> bytes \<Rightarrow> (nat \<times> bytes \<times> bytes) res" where
  "deriveECDSAKey c hmac seed =
     (case bip32_master c hmac seed of
        Inl e \<Rightarrow> Inl e
      | Inr (key, chainCode) \<Rightarrow>
          Inr (key, elliptic_Marshal (ec_ScalarBaseMult c (nat_bytes key)), chainCode))"

text \<open>What both loops do with the MAC of a level.\<close>

definition child_key :: "ec \<Rightarrow> u32 \<Rightarrow> nat \<Rightarrow> bytes \<Rightarrow> (nat \<times> bytes) res" where
  "child_key c idx key I =
     (let il = be_nat (take 32 I) in
      if ec_N c \<le> il then Inl (''derived key >= curve order at index '' @ nat_dec (unat idx))
      else let childKey = (il + key) mod ec_N c in
        if childKey = 0 then Inl (''derived key is zero at index '' @ nat_dec (unat idx))
        else Inr (childKey, drop 32 I))"

definition bip44_step :: "ec \<Rightarrow> hmac \<Rightarrow> u32 \<Rightarrow> nat \<times> bytes \<Rightarrow> (nat \<times> bytes) res may_panic" where
  "bip44_step c hmac idx kc =
     (case (if 0x80000000 \<le> idx then left_pad 33 (nat_bytes (fst kc))
            else compressPubKey (ec_ScalarBaseMult c (nat_bytes (fst kc)))) of
        Panic \<Rightarrow> Panic
      | Return pre \<Rightarrow>
          Return (child_key c idx (fst kc) (hmac (snd kc) (pre @ be_put 4 (unat idx)))))"

definition DeriveECDSAKeyBIP44 :: "bip39 \<Rightarrow> ec \<Rightarrow> hmac \<Rightarrow> string \<Rightarrow> u32 list \<Rightarrow>
    (nat \<times> bytes) res may_panic" where
  "DeriveECDSAKeyBIP44 b39 c hmac mnemonic indices =
     (if \<not> b39_IsMnemonicValid b39 mnemonic then Return (Inl ''invalid mnemonic'')
      else (case bip32_master c hmac (b39_NewSeed b39 mnemonic) of
          Inl e \<Rightarrow> Return (Inl e)
        | Inr kc \<Rightarrow>
            (case derive_loop (bip44_step c hmac) indices kc of
               Panic \<Rightarrow> Panic
             | Return (Inl e) \<Rightarrow> Return (Inl e)
             | Return (Inr (key, cc)) \<Rightarrow>
                 Return (Inr (key, elliptic_Marshal (ec_ScalarBaseMult c (nat_bytes key)))))))"

record DerivedKeyExport =
  dx_Path :: string
  dx_PrivKeyHex :: string
  dx_Address :: string

definition tss_key_step :: "ec \<Rightarrow> hmac \<Rightarrow> u32 \<Rightarrow> nat \<times> bytes \<Rightarrow> (nat \<times> bytes) res may_panic" where
  "tss_key_step c hmac idx kc =
     (case compressPubKey (ec_ScalarBaseMult c (nat_bytes (fst kc))) of
        Panic \<Rightarrow> Panic
      | Return compressed \<Rightarrow>
          Return (child_key c idx (fst kc) (hmac (snd kc) (compressed @ be_put 4 (unat idx)))))"

text \<open>
  \<open>DeriveECDSAKeyTSS\<close>: \<open>bech32\<close> stands for the Cosmos address of a compressed key under a prefix,
  \<open>ethAddress\<close> for the checksummed Ethereum address.
\<close>

definition DeriveECDSAKeyTSS :: "bip39 \<Rightarrow> ec \<Rightarrow> hmac \<Rightarrow> (string \<Rightarrow> bytes \<Rightarrow> string res) \<Rightarrow>
    (point \<Rightarrow> string) \<Rightarrow> string \<Rightarrow> string \<Rightarrow> string option \<Rightarrow> DerivedKeyExport res may_panic" where
  "DeriveECDSAKeyTSS b39 c hmac bech32 ethAddress mnemonic path prefix0 =
     (if \<not> b39_IsMnemonicValid b39 mnemonic then Return (Inl ''invalid mnemonic'')
      else (case parseBIP32Path path of
          Inl e \<Rightarrow> Return (Inl (wrap_err ''parse path'' e))
        | Inr indices \<Rightarrow> (case bip32_master c hmac (b39_NewSeed b39 mnemonic) of
            Inl e \<Rightarrow> Return (Inl e)
          | Inr kc \<Rightarrow> (case derive_loop (tss_key_step c hmac) indices kc of
              Panic \<Rightarrow> Panic
            | Return (Inl e) \<Rightarrow> Return (Inl e)
            | Return (Inr (key, cc)) \<Rightarrow>
                let pub = ec_ScalarBaseMult c (nat_bytes key) in
                (case (compressPubKey pub, left_pad 32 (nat_bytes key)) of
                   (Return compressed, Return padded) \<Rightarrow>
                     (case (case prefix0 of
                              Some p \<Rightarrow> if p \<noteq> [] then map_sum (wrap_err ''bech32 encode'') id
                                                        (bech32 p compressed)
                                        else Inr (ethAddress pub)
                            | None \<Rightarrow> Inr (ethAddress pub)) of
                        Inl e \<Rightarrow> Return (Inl e)
                      | Inr addr \<Rightarrow> Return (Inr \<lparr>dx_Path = path,
                          dx_PrivKeyHex = hex_encode padded, dx_Address = addr\<rparr>))
                 | _ \<Rightarrow> Panic)))))"

lemma compressPubKey_eq: "compressPubKey p = compressPublicKey p"
  by (simp add: compressPubKey_def compressPublicKey_def Let_def)

lemma tss_key_step_pair: "tss_key_step c hmac idx (key, chain) =
    (case compressPublicKey (ec_ScalarBaseMult c (nat_bytes key)) of
       Panic \<Rightarrow> Panic
     | Return compressed \<Rightarrow>
         Return (child_key c idx key (hmac chain (compressed @ be_put 4 (unat idx)))))"
  unfolding tss_key_step_def compressPubKey_eq fst_conv snd_conv by (rule refl)

lemma tss_loop_shift:
  assumes "ec_laws c smul"
    and "derive_loop (tss_key_step c hmac) is (key, chain) = Return (Inr (key', chain'))"
  shows "\<exists>d. path_shift c (ecdsa_tweak c hmac) is (smul key) chain =
      Return (Inr (d, smul key', chain')) \<and> key' mod ec_N c = (key + d) mod ec_N c"
  using assms(2)
proof (induction "is" arbitrary: key chain)
  case Nil
  then show ?case by simp
next
  case (Cons i "is")
  have base: "ec_ScalarBaseMult c (nat_bytes k) = smul k" for k
    using assms(1) by (simp add: ec_laws_def be_nat_nat_bytes)
  obtain pre where pre: "compressPublicKey (smul key) = Return pre"
    using Cons.prems
    by (auto simp: tss_key_step_pair base split: may_panic.splits)
  let ?I = "hmac chain (pre @ be_put 4 (unat i))"
  let ?il = "be_nat (take 32 ?I)"
  let ?k1 = "(?il + key) mod ec_N c"
  have lt: "\<not> ec_N c \<le> ?il"
    and rest: "derive_loop (tss_key_step c hmac) is (?k1, drop 32 ?I) = Return (Inr (key', chain'))"
    using Cons.prems pre
    by (auto simp: tss_key_step_pair base child_key_def Let_def split: if_splits)
  obtain d where d: "path_shift c (ecdsa_tweak c hmac) is (smul ?k1) (drop 32 ?I) =
      Return (Inr (d, smul key', chain'))" "key' mod ec_N c = (?k1 + d) mod ec_N c"
    using Cons.IH [OF rest] by blast
  have g: "ec_ScalarBaseMult c (take 32 ?I) = smul ?il" using assms(1) by (simp add: ec_laws_def)
  have p: "ec_Add c (smul key) (smul ?il) = smul ?k1"
    using smul_add_mod [OF assms(1), of key ?il] by (simp add: add.commute)
  have "path_shift c (ecdsa_tweak c hmac) (i # is) (smul key) chain =
      Return (Inr (?il + d, smul key', chain'))"
    using pre lt d(1) g p by (simp add: ecdsa_tweak_def Let_def)
  moreover have "key' mod ec_N c = (key + (?il + d)) mod ec_N c"
    using d(2) by (simp add: mod_simps algebra_simps)
  ultimately show ?case by blast
qed

lemma tss_loop_less:
  assumes "derive_loop (tss_key_step c hmac) is (key, chain) = Return (Inr (key', chain'))"
    and "key < ec_N c" and "0 < ec_N c"
  shows "key' < ec_N c"
  using assms(1,2)
proof (induction "is" arbitrary: key chain)
  case (Cons i "is")
  then obtain k1 c1 where "derive_loop (tss_key_step c hmac) is (k1, c1) = Return (Inr (key', chain'))"
    "k1 < ec_N c"
    using assms(3)
    by (auto simp: tss_key_step_pair child_key_def Let_def split: may_panic.splits if_splits)
  then show ?case using Cons.IH by blast
qed simp

text \<open>
  The private key the installer exports for a path is the key of the address in use: if a
  threshold derivation from the dealt secp256k1 shares of the mnemonic's master key reports a public
  key, then the mnemonic export along the same path, when it succeeds, is the hexadecimal form of
  exactly the secret behind that public key. Funds at derived addresses stay recoverable from the
  mnemonic alone.
\<close>

theorem DeriveECDSAKeyTSS_recovers:
  assumes laws: "ec_laws c smul"
    and master: "bip32_master c hmac (b39_NewSeed b39 mnemonic) = Inr (key, ks_ChainCode A)"
    and share: "so_unmarshal ops (ks_Share A) = Inr a" "sv_Pub a = smul key"
    and path: "parsePath path = Inr is" "is \<noteq> []"
    and derived: "deriveECDSA c hmac ops A path is = Return (Inr dA)"
    and export: "DeriveECDSAKeyTSS b39 c hmac bech32 eth mnemonic path pfx = Return (Inr x)"
  shows "\<exists>key'. key' < 256 ^ 32 \<and> dx_PrivKeyHex x = hex_encode (be_put 32 key') \<and>
    dk_PublicKey dA = elliptic_Marshal (smul key')"
proof -
  have N: "0 < ec_N c" "ec_N c \<le> 256 ^ 32" using laws by (auto simp: ec_laws_def)
  have key: "key < ec_N c"
    using master by (auto simp: bip32_master_def Let_def split: if_splits)
  obtain key' cc where loop: "derive_loop (tss_key_step c hmac) is (key, ks_ChainCode A)
      = Return (Inr (key', cc))"
    and hex: "\<exists>padded. left_pad 32 (nat_bytes key') = Return padded \<and>
      dx_PrivKeyHex x = hex_encode padded"
    using export parseBIP32Path_eq [OF path] master
    by (auto simp: DeriveECDSAKeyTSS_def Let_def
        split: if_splits may_panic.splits sum.splits option.splits)
  have key': "key' < 256 ^ 32" using tss_loop_less [OF loop key N(1)] N(2) by simp
  obtain d where d: "path_shift c (ecdsa_tweak c hmac) is (smul key) (ks_ChainCode A) =
      Return (Inr (d, smul key', cc))"
    using tss_loop_shift [OF laws loop] by blast
  let ?st = "hd_start c a (ks_ChainCode A)"
  have "hd_Pub ?st = smul key" "hd_ChainCode ?st = ks_ChainCode A"
    using share(2) by (simp_all add: hd_start_def)
  then obtain st where st: "derive_loop (ecdsa_step c hmac) is ?st = Return (Inr st)"
    "hd_Pub st = smul key'"
    using ecdsa.loop_shift [of c hmac "is" ?st d "smul key'" cc] d by auto
  have "dk_PublicKey dA = elliptic_Marshal (smul key')"
    using derived share(1) st coords_pad [OF laws, of key']
    by (auto simp: deriveECDSA_def elliptic_Marshal_def dest!: derived_key_child)
  then show ?thesis using hex key' left_pad_nat_bytes [OF key'] by auto
qed

definition toy_b39 :: bip39 where
  "toy_b39 = \<lparr>b39_IsMnemonicValid = (\<lambda>s. True), b39_NewSeed = (\<lambda>s. [1, 1, 1, 1])\<rparr>"

definition toy_A :: KeyShare where
  "toy_A = (toy_master CurveSecp256k1 4)\<lparr>ks_ChainCode := str_bytes ''Bitcoin seed''\<rparr>"

definition toy_ops4 :: "unit save_data save_ops" where
  "toy_ops4 = toy_ops\<lparr>so_unmarshal := (\<lambda>b. Inr (toy_save 4\<lparr>sv_Pub := mod7 4\<rparr>))\<rparr>"

lemma toy_master_key: "bip32_master toy_ec toy_hmac (b39_NewSeed toy_b39 w) =
    Inr (4, str_bytes ''Bitcoin seed'')"
proof -
  have "be_nat (replicate 31 0 @ [4]) = 4" by (simp only: be_nat_zeros) simp
  then show ?thesis by (simp add: bip32_master_def toy_hmac_def toy_b39_def toy_ec_def Let_def)
qed

lemma toy_mac_tail: "drop 32 (toy_hmac k m) = k"
  by (simp add: toy_hmac_def)

lemma toy_path: "parsePath ''m/0'' = Inr [0]"
  by (simp add: parsePath_def trim_prefix_def has_prefix_def parse_component_def is_hardened_def
      parse_uint_def parse_dec_def is_digit_def digit_val_def Let_def)

lemma toy_derived: "\<exists>dA. deriveECDSA toy_ec toy_hmac toy_ops4 toy_A ''m/0'' [0] = Return (Inr dA)"
proof -
  let ?st = "hd_start toy_ec (toy_save 4\<lparr>sv_Pub := mod7 4\<rparr>) (str_bytes ''Bitcoin seed'')"
  have "be_nat (replicate 31 0 @ [2]) = 2" by (simp only: be_nat_zeros) simp
  then obtain st where s: "ecdsa_step toy_ec toy_hmac 0 ?st = Return (Inr st)"
    and p: "hd_Pub st = mod7 6"
    by (simp add: ecdsa_step_def hd_start_def toy_compress toy_mac Let_def toy_ec_def)
      (simp add: mod7_def)
  have m: "\<forall>s. is_ok (so_marshal toy_ops4 s)" by (simp add: toy_ops4_def toy_ops_def)
  obtain dA where "derived_key toy_ec toy_ops4 toy_A ''m/0'' (toy_save 4\<lparr>sv_Pub := mod7 4\<rparr>) st
      (0x04 # be_put 32 (fst (mod7 6)) @ be_put 32 (snd (mod7 6))) = Inr dA"
    using derived_key_exists [OF m] by (metis ec.select_convs(4) toy_ec_def)
  then show ?thesis
    using s p coords_pad [OF toy_laws, of 6]
    by (simp add: deriveECDSA_def toy_A_def toy_ops4_def)
qed

lemma toy_export: "\<exists>x. DeriveECDSAKeyTSS toy_b39 toy_ec toy_hmac (\<lambda>p b. Inl []) (\<lambda>p. ''0x'') ''words'' ''m/0''
    None = Return (Inr x)"
proof -
  have "be_nat (replicate 31 0 @ [2]) = 2" by (simp only: be_nat_zeros) simp
  then have c: "child_key toy_ec 0 4 (toy_hmac k (0x02 # be_put 32 4 @ be_put 4 0)) = Inr (6, k)" for k
    by (simp add: child_key_def Let_def toy_mac toy_ec_def toy_mac_tail)
  have b: "ec_ScalarBaseMult toy_ec (nat_bytes k) = mod7 k" for k
    by (simp add: toy_ec_def be_nat_nat_bytes)
  have "derive_loop (tss_key_step toy_ec toy_hmac) [0] (4, str_bytes ''Bitcoin seed'') =
      Return (Inr (6, str_bytes ''Bitcoin seed''))"
    using toy_compress [of 4] c by (simp add: tss_key_step_pair b)
  moreover have "left_pad 32 (nat_bytes 6) = Return (be_put 32 6)" by (rule left_pad_nat_bytes) simp
  ultimately show ?thesis
    using parseBIP32Path_eq [OF toy_path]
    by (simp add: DeriveECDSAKeyTSS_def toy_master_key toy_compress compressPubKey_eq b Let_def)
      (simp add: toy_b39_def)
qed

theorem DeriveECDSAKeyTSS_recovers_witness:
  "\<exists>dA x key'. deriveECDSA toy_ec toy_hmac toy_ops4 toy_A ''m/0'' [0] = Return (Inr dA) \<and>
    DeriveECDSAKeyTSS toy_b39 toy_ec toy_hmac (\<lambda>p b. Inl []) (\<lambda>p. ''0x'') ''words'' ''m/0'' None =
      Return (Inr x) \<and>
    dx_PrivKeyHex x = hex_encode (be_put 32 key') \<and>
    dk_PublicKey dA = elliptic_Marshal (mod7 key')"
proof -
  obtain dA where d: "deriveECDSA toy_ec toy_hmac toy_ops4 toy_A ''m/0'' [0] = Return (Inr dA)"
    using toy_derived by blast
  obtain x where x: "DeriveECDSAKeyTSS toy_b39 toy_ec toy_hmac (\<lambda>p b. Inl []) (\<lambda>p. ''0x'') ''words''
      ''m/0'' None = Return (Inr x)" using toy_export by blast
  have "bip32_master toy_ec toy_hmac (b39_NewSeed toy_b39 ''words'') = Inr (4, ks_ChainCode toy_A)"
    by (simp add: toy_master_key toy_A_def)
  moreover have "so_unmarshal toy_ops4 (ks_Share toy_A) = Inr (toy_save 4\<lparr>sv_Pub := mod7 4\<rparr>)"
    by (simp add: toy_ops4_def)
  ultimately show ?thesis
    using DeriveECDSAKeyTSS_recovers [OF toy_laws _ _ _ toy_path _ d x] d x by fastforce
qed

text \<open>
  Threshold derivation is standard BIP-32 exactly on paths without hardened indices: there the
  wallet-compatible derivation and the export of threshold keys walk to the same private key, so an
  address of such a path can be opened by an ordinary wallet.
\<close>

theorem BIP44_equals_TSS_unhardened:
  assumes "\<forall>i \<in> set is. \<not> 0x80000000 \<le> i"
  shows "derive_loop (bip44_step c hmac) is kc = derive_loop (tss_key_step c hmac) is kc"
  using assms
proof (induction "is" arbitrary: kc)
  case (Cons i "is")
  then have "bip44_step c hmac i kc = tss_key_step c hmac i kc"
    unfolding bip44_step_def tss_key_step_def by simp
  then show ?case using Cons by (simp split: may_panic.splits sum.splits)
qed simp

theorem BIP44_equals_TSS_unhardened_witness:
  "derive_loop (bip44_step toy_ec toy_hmac) [0, 7] (4, [9]) =
     derive_loop (tss_key_step toy_ec toy_hmac) [0, 7] (4, [9])"
  by (rule BIP44_equals_TSS_unhardened) simp

subsection \<open>ed25519 keys\<close>

text \<open>The SLIP-0010 walk along m/44'/501'/0'/0' that three functions repeat.\<close>

fun slip10_walk :: "hmac \<Rightarrow> u32 list \<Rightarrow> bytes \<times> bytes \<Rightarrow> bytes \<times> bytes" where
  "slip10_walk hmac [] kc = kc"
| "slip10_walk hmac (i # is) kc =
     (let I = hmac (snd kc) (0x00 # fst kc @ be_put 4 (unat i)) in
      slip10_walk hmac is (take 32 I, drop 32 I))"

definition solana_indices :: "u32 list" where
  "solana_indices = [0x8000002C, 0x800001F5, 0x80000000, 0x80000000]"

definition slip10_key :: "hmac \<Rightarrow> bytes \<Rightarrow> bytes \<times> bytes" where
  "slip10_key hmac seed =
     (let I = hmac (str_bytes ''ed25519 seed'') seed in
      slip10_walk hmac solana_indices (take 32 I, drop 32 I))"

text \<open>\<open>edPublic\<close> is the public key \<open>ed25519.NewKeyFromSeed\<close> computes.\<close>

definition deriveEdDSAMaster :: "hmac \<Rightarrow> (bytes \<Rightarrow> bytes) \<Rightarrow> bytes \<Rightarrow> bytes \<times> bytes \<times> bytes" where
  "deriveEdDSAMaster hmac edPublic seed =
     (let (key, chainCode) = slip10_key hmac seed in (key, edPublic key, chainCode))"

definition deriveEdDSAKeyRaw :: "hmac \<Rightarrow> (bytes \<Rightarrow> bytes) \<Rightarrow> bytes \<Rightarrow> bytes \<times> bytes" where
  "deriveEdDSAKeyRaw hmac edPublic seed =
     (let (key, chainCode) = slip10_key hmac seed in (key, edPublic key))"

text \<open>The clamped scalar of a seed, from the little-endian first half of its SHA-512.\<close>

definition clamped_scalar :: "(bytes \<Rightarrow> bytes) \<Rightarrow> bytes \<Rightarrow> nat" where
  "clamped_scalar sha512 seed =
     (let h = sha512 seed;
          h1 = h[0 := and (h ! 0) 248];
          h2 = h1[31 := and (h1 ! 31) 127];
          h3 = h2[31 := or (h2 ! 31) 64]
      in be_nat (rev (take 32 h3)))"

definition deriveEdDSAKey :: "hmac \<Rightarrow> (bytes \<Rightarrow> bytes) \<Rightarrow> (bytes \<Rightarrow> bytes) \<Rightarrow> bytes \<Rightarrow>
    nat \<times> bytes \<times> bytes" where
  "deriveEdDSAKey hmac edPublic sha512 seed =
     (let (key, chainCode) = slip10_key hmac seed in
      (clamped_scalar sha512 key, edPublic key, chainCode))"

definition compressEdwardsPubKey :: "point \<Rightarrow> bytes may_panic" where
  "compressEdwardsPubKey p =
     (let buf = (if even (snd p) then 0x02 else 0x03) # replicate 32 0;
          xb = nat_bytes (fst p)
      in if length xb \<le> 33 then Return (take (33 - length xb) buf @ xb) else Panic)"

definition edwardsToEd25519PubKey :: "point \<Rightarrow> bytes may_panic" where
  "edwardsToEd25519PubKey p =
     (let yb = nat_bytes (snd p) in
      if length yb \<le> 32
      then (let pk = rev yb @ replicate (32 - length yb) 0 in
        Return (if odd (fst p) then pk[31 := or (pk ! 31) 0x80] else pk))
      else Panic)"

text \<open>
  One level of the walk that \<open>ExportSolanaKeyAtPath\<close> and \<open>deriveScalarAtPath\<close> repeat; the state is
  the scalar, the public point and the chain code.
\<close>

definition solana_step :: "ec \<Rightarrow> hmac \<Rightarrow> u32 \<Rightarrow> nat \<times> point \<times> bytes \<Rightarrow>
    (nat \<times> point \<times> bytes) res may_panic" where
  "solana_step c hmac idx st =
     (case st of (scalar, pub, chain) \<Rightarrow>
        (case compressEdwardsPubKey pub of
           Panic \<Rightarrow> Panic
         | Return compressed \<Rightarrow>
             let ilIr = hmac chain (compressed @ be_put 4 (unat idx));
                 ilInt = be_nat (take 32 ilIr) mod ec_N c
             in (case left_pad 32 (nat_bytes ilInt) of
                   Panic \<Rightarrow> Panic
                 | Return ilBytes \<Rightarrow>
                     Return (Inr ((scalar + ilInt) mod ec_N c,
                       ec_Add c pub (ec_ScalarBaseMult c ilBytes), drop 32 ilIr)))))"

text \<open>\<open>decode\<close> is \<open>decodeEd25519PubKey\<close> below.\<close>

definition solana_walk :: "bip39 \<Rightarrow> ec \<Rightarrow> hmac \<Rightarrow> (bytes \<Rightarrow> bytes) \<Rightarrow> (bytes \<Rightarrow> bytes) \<Rightarrow>
    (bytes \<Rightarrow> point may_panic) \<Rightarrow> string \<Rightarrow> string \<Rightarrow> (nat \<times> point) res may_panic" where
  "solana_walk b39 c hmac edPublic sha512 decode mnemonic path =
     (if \<not> b39_IsMnemonicValid b39 mnemonic then Return (Inl ''invalid mnemonic'')
      else (case parseBIP32Path path of
          Inl e \<Rightarrow> Return (Inl (wrap_err ''parse path'' e))
        | Inr indices \<Rightarrow>
            (case deriveEdDSAMaster hmac edPublic (b39_NewSeed b39 mnemonic) of
               (masterSeed, masterPub, masterCC) \<Rightarrow>
                 (case decode masterPub of
                    Panic \<Rightarrow> Panic
                  | Return pub \<Rightarrow>
                      (case derive_loop (solana_step c hmac) indices
                          (clamped_scalar sha512 masterSeed, pub, masterCC) of
                         Panic \<Rightarrow> Panic
                       | Return (Inl e) \<Rightarrow> Return (Inl e)
                       | Return (Inr (scalar, pub', cc)) \<Rightarrow> Return (Inr (scalar, pub')))))))"

definition deriveScalarAtPath :: "bip39 \<Rightarrow> ec \<Rightarrow> hmac \<Rightarrow> (bytes \<Rightarrow> bytes) \<Rightarrow> (bytes \<Rightarrow> bytes) \<Rightarrow>
    (bytes \<Rightarrow> point may_panic) \<Rightarrow> string \<Rightarrow> string \<Rightarrow> (nat \<times> bytes) res may_panic" where
  "deriveScalarAtPath b39 c hmac edPublic sha512 decode mnemonic path =
     (case solana_walk b39 c hmac edPublic sha512 decode mnemonic path of
        Panic \<Rightarrow> Panic
      | Return (Inl e) \<Rightarrow> Return (Inl e)
      | Return (Inr (scalar, pub)) \<Rightarrow>
          (case edwardsToEd25519PubKey pub of
             Panic \<Rightarrow> Panic
           | Return pk \<Rightarrow> Return (Inr (scalar, pk))))"

text \<open>The exported key pair: the scalar little-endian in 32 bytes, then the public key.\<close>

definition ExportSolanaKeyAtPath :: "bip39 \<Rightarrow> ec \<Rightarrow> hmac \<Rightarrow> (bytes \<Rightarrow> bytes) \<Rightarrow> (bytes \<Rightarrow> bytes) \<Rightarrow>
    (bytes \<Rightarrow> point may_panic) \<Rightarrow> (bytes \<Rightarrow> string) \<Rightarrow> string \<Rightarrow> string \<Rightarrow>
    DerivedKeyExport res may_panic" where
  "ExportSolanaKeyAtPath b39 c hmac edPublic sha512 decode base58 mnemonic path =
     (case solana_walk b39 c hmac edPublic sha512 decode mnemonic path of
        Panic \<Rightarrow> Panic
      | Return (Inl e) \<Rightarrow> Return (Inl e)
      | Return (Inr (scalar, pub)) \<Rightarrow>
          if 32 < length (nat_bytes scalar) then Panic
          else (case edwardsToEd25519PubKey pub of
              Panic \<Rightarrow> Panic
            | Return pk \<Rightarrow>
                let sb = nat_bytes scalar in
                Return (Inr \<lparr>dx_Path = path,
                  dx_PrivKeyHex = base58 (rev sb @ replicate (32 - length sb) 0 @ pk),
                  dx_Address = base58 pk\<rparr>)))"

definition ExportSolanaKey :: "bip39 \<Rightarrow> hmac \<Rightarrow> (bytes \<Rightarrow> bytes) \<Rightarrow> (bytes \<Rightarrow> string) \<Rightarrow> string \<Rightarrow>
    (string \<times> string) res" where
  "ExportSolanaKey b39 hmac edPublic base58 mnemonic =
     (if \<not> b39_IsMnemonicValid b39 mnemonic then Inl ''invalid mnemonic''
      else let (solSeed, solPub) = deriveEdDSAKeyRaw hmac edPublic (b39_NewSeed b39 mnemonic) in
        Inr (base58 (solSeed @ solPub), base58 solPub))"

record MnemonicKeys =
  mk_Mnemonic :: string
  mk_ECDSAPrivKey :: nat
  mk_ECDSAPubKey :: bytes
  mk_ECDSAChainCode :: bytes
  mk_EdDSAPrivKey :: nat
  mk_EdDSAPubKey :: bytes
  mk_EdDSAChainCode :: bytes

definition DeriveKeysFromMnemonic :: "bip39 \<Rightarrow> ec \<Rightarrow> hmac \<Rightarrow> (bytes \<Rightarrow> bytes) \<Rightarrow> (bytes \<Rightarrow> bytes) \<Rightarrow>
    string \<Rightarrow> MnemonicKeys res" where
  "DeriveKeysFromMnemonic b39 c hmac edPublic sha512 mnemonic =
     (if \<not> b39_IsMnemonicValid b39 mnemonic then Inl ''invalid mnemonic''
      else let seed = b39_NewSeed b39 mnemonic in
        (case deriveECDSAKey c hmac seed of
           Inl e \<Rightarrow> Inl (wrap_err ''derive ECDSA key'' e)
         | Inr (priv, pub, cc) \<Rightarrow>
             let (s, edPub, edCC) = deriveEdDSAKey hmac edPublic sha512 seed in
             Inr \<lparr>mk_Mnemonic = mnemonic, mk_ECDSAPrivKey = priv, mk_ECDSAPubKey = pub,
               mk_ECDSAChainCode = cc, mk_EdDSAPrivKey = s, mk_EdDSAPubKey = edPub,
               mk_EdDSAChainCode = edCC\<rparr>))"

text \<open>\<open>entropy\<close> and \<open>newMnemonic\<close> are the outcomes of the BIP-39 library.\<close>

definition GenerateMnemonicKeys :: "bip39 \<Rightarrow> ec \<Rightarrow> hmac \<Rightarrow> (bytes \<Rightarrow> bytes) \<Rightarrow> (bytes \<Rightarrow> bytes) \<Rightarrow>
    bytes res \<Rightarrow> (bytes \<Rightarrow> string res) \<Rightarrow> MnemonicKeys res" where
  "GenerateMnemonicKeys b39 c hmac edPublic sha512 entropy newMnemonic =
     (case entropy of
        Inl e \<Rightarrow> Inl (wrap_err ''generate entropy'' e)
      | Inr ent \<Rightarrow> (case newMnemonic ent of
          Inl e \<Rightarrow> Inl (wrap_err ''generate mnemonic'' e)
        | Inr m \<Rightarrow> DeriveKeysFromMnemonic b39 c hmac edPublic sha512 m))"

subsection \<open>The recovered ed25519 key is the threshold key\<close>

text \<open>The walk of the recovery is the share derivation of a party without public shares.\<close>

definition as_hd :: "nat \<times> point \<times> bytes \<Rightarrow> hd" where
  "as_hd st = (case st of (x, p, ch) \<Rightarrow>
     \<lparr>hd_Pub = p, hd_ChainCode = ch, hd_Xi = x, hd_BigXj = []\<rparr>)"

definition of_hd :: "hd \<Rightarrow> nat \<times> point \<times> bytes" where
  "of_hd st = (hd_Xi st, hd_Pub st, hd_ChainCode st)"

lemma compressEdwardsPubKey_eq: "compressEdwardsPubKey p = compressPublicKey p"
  by (simp add: compressEdwardsPubKey_def compressPublicKey_def Let_def)

lemma edwardsToEd25519PubKey_eq: "edwardsToEd25519PubKey p = edwardsPointToEd25519PubKey p"
  by (simp add: edwardsToEd25519PubKey_def edwardsPointToEd25519PubKey_def)

lemma solana_step_sim:
  "solana_step c hmac i (x, p, ch) =
     (case eddsa_step c hmac i (as_hd (x, p, ch)) of
        Panic \<Rightarrow> Panic
      | Return (Inl e) \<Rightarrow> Return (Inl e)
      | Return (Inr st) \<Rightarrow> Return (Inr (of_hd st)))"
  unfolding solana_step_def compressEdwardsPubKey_eq
  by (auto simp: eddsa_step_def as_hd_def of_hd_def Let_def split: may_panic.splits)

lemma eddsa_step_as_hd:
  "eddsa_step c hmac i (as_hd s) = Return (Inr st) \<Longrightarrow> st = as_hd (of_hd st)"
  by (auto simp: eddsa_step_def as_hd_def of_hd_def Let_def shift_points_def
      split: may_panic.splits prod.splits)

lemma solana_loop_sim:
  "derive_loop (solana_step c hmac) is s =
     (case derive_loop (eddsa_step c hmac) is (as_hd s) of
        Panic \<Rightarrow> Panic
      | Return (Inl e) \<Rightarrow> Return (Inl e)
      | Return (Inr st) \<Rightarrow> Return (Inr (of_hd st)))"
proof (induction "is" arbitrary: s)
  case Nil
  then show ?case by (cases s) (simp add: as_hd_def of_hd_def)
next
  case (Cons i "is")
  obtain x p ch where s: "s = (x, p, ch)" by (cases s)
  show ?case
  proof (cases "eddsa_step c hmac i (as_hd s)")
    case (Return r)
    then show ?thesis
      using Cons.IH eddsa_step_as_hd [of c hmac i s] by (cases r) (auto simp: s solana_step_sim)
  qed (simp add: s solana_step_sim)
qed

text \<open>
  Recovering a Solana key from the mnemonic finds the key that the two parties use: when the
  threshold derivation from a share of the mnemonic's master key reports an ed25519 public key,
  \<open>deriveScalarAtPath\<close> succeeds along the same path, reports the same public key, and the scalar it
  returns is the secret of that public key.
\<close>

theorem deriveScalarAtPath_recovers:
  assumes laws: "ec_laws c smul"
    and valid: "b39_IsMnemonicValid b39 mnemonic"
    and master: "deriveEdDSAMaster hmac edPublic (b39_NewSeed b39 mnemonic) =
      (ms, mp, ks_ChainCode A)"
    and dec: "decode mp = Return (smul (clamped_scalar sha512 ms))"
    and share: "so_unmarshal ops (ks_Share A) = Inr a" "sv_Pub a = smul (clamped_scalar sha512 ms)"
    and path: "parsePath path = Inr is" "is \<noteq> []"
    and derived: "deriveEdDSA c hmac ops A path is = Return (Inr dA)"
  shows "\<exists>s. deriveScalarAtPath b39 c hmac edPublic sha512 decode mnemonic path =
      Return (Inr (s, dk_PublicKey dA)) \<and>
    edwardsPointToEd25519PubKey (smul s) = Return (dk_PublicKey dA)"
proof -
  let ?k = "clamped_scalar sha512 ms" and ?ch = "ks_ChainCode A"
  let ?st = "hd_start c a ?ch"
  obtain sta pk where sta: "derive_loop (eddsa_step c hmac) is ?st = Return (Inr sta)"
    and pk: "edwardsPointToEd25519PubKey (hd_Pub sta) = Return pk" "dk_PublicKey dA = pk"
    using derived share(1)
    by (auto simp: deriveEdDSA_def split: may_panic.splits sum.splits dest!: derived_key_child)
  have start: "hd_Pub ?st = smul ?k" "hd_ChainCode ?st = ?ch" "hd_Pub (as_hd (?k, smul ?k, ?ch)) = smul ?k"
    "hd_ChainCode (as_hd (?k, smul ?k, ?ch)) = ?ch" "hd_Xi (as_hd (?k, smul ?k, ?ch)) = ?k"
    using share(2) by (simp_all add: hd_start_def as_hd_def)
  obtain d stb where pub: "hd_Pub sta = smul (?k + d)"
    and stb: "derive_loop (eddsa_step c hmac) is (as_hd (?k, smul ?k, ?ch)) = Return (Inr stb)"
    and b: "hd_Pub stb = smul (?k + d)" "hd_Xi stb mod ec_N c = (?k + d) mod ec_N c"
    using eddsa.both_parties [OF laws eddsa_tweak_in_group [OF laws] start(1) start(3) _ sta] start
    by auto
  have "derive_loop (solana_step c hmac) is (?k, smul ?k, ?ch) = Return (Inr (of_hd stb))"
    by (simp add: solana_loop_sim stb)
  then have w: "solana_walk b39 c hmac edPublic sha512 decode mnemonic path =
      Return (Inr (hd_Xi stb, hd_Pub stb))"
    using valid master dec parseBIP32Path_eq [OF path] by (simp add: solana_walk_def of_hd_def)
  have "smul (hd_Xi stb) = smul (?k + d)"
    using b(2) smul_mod [OF laws] by metis
  then show ?thesis
    using w b(1) pub pk by (simp add: deriveScalarAtPath_def edwardsToEd25519PubKey_eq)
qed

definition toy_B :: "nat \<Rightarrow> bytes \<Rightarrow> KeyShare" where
  "toy_B k ch = (toy_master CurveEd25519 4)\<lparr>ks_ChainCode := ch\<rparr>"

definition toy_opsk :: "nat \<Rightarrow> unit save_data save_ops" where
  "toy_opsk k = toy_ops\<lparr>so_unmarshal := (\<lambda>b. Inr (toy_save 4\<lparr>sv_Pub := mod7 k\<rparr>))\<rparr>"

lemma toy_eddsa_derived:
  "\<exists>dA. deriveEdDSA toy_ec toy_hmac (toy_opsk k) (toy_B k ch) ''m/0'' [0] = Return (Inr dA)"
proof -
  let ?st = "hd_start toy_ec (toy_save 4\<lparr>sv_Pub := mod7 k\<rparr>) ch"
  have b: "be_nat (replicate 31 0 @ [2]) = 2" by (simp only: be_nat_zeros) simp
  have l: "left_pad 32 (nat_bytes 2) = Return (be_put 32 2)" by (rule left_pad_nat_bytes) simp
  obtain st where s: "eddsa_step toy_ec toy_hmac 0 ?st = Return (Inr st)"
    and p: "hd_Pub st = mod7 (k + 2)"
    by (simp add: eddsa_step_def hd_start_def toy_compress toy_mac Let_def toy_ec_def b l be_nat_be_put)
      (simp add: mod7_def mod_simps)
  have "length (nat_bytes (snd (mod7 (k + 2)))) \<le> 32"
    by (simp add: mod7_def nat_bytes.simps)
  then obtain pk where "edwardsPointToEd25519PubKey (mod7 (k + 2)) = Return pk"
    by (simp add: edwardsPointToEd25519PubKey_def Let_def)
  moreover have m: "\<forall>s. is_ok (so_marshal (toy_opsk k) s)" by (simp add: toy_opsk_def toy_ops_def)
  moreover obtain dA where "derived_key toy_ec (toy_opsk k) (toy_B k ch) ''m/0''
      (toy_save 4\<lparr>sv_Pub := mod7 k\<rparr>) st pk = Inr dA"
    using derived_key_exists [OF m] by (metis ec.select_convs(4) toy_ec_def)
  ultimately show ?thesis
    using s p by (simp add: deriveEdDSA_def toy_B_def toy_opsk_def)
qed

theorem deriveScalarAtPath_recovers_witness:
  "\<exists>k ch dA s decode. deriveEdDSA toy_ec toy_hmac (toy_opsk k) (toy_B k ch) ''m/0'' [0] =
      Return (Inr dA) \<and>
    deriveScalarAtPath toy_b39 toy_ec toy_hmac id (\<lambda>b. replicate 64 0) decode ''words'' ''m/0'' =
      Return (Inr (s, dk_PublicKey dA)) \<and>
    edwardsPointToEd25519PubKey (mod7 s) = Return (dk_PublicKey dA)"
proof -
  let ?sha = "\<lambda>b :: bytes. replicate 64 (0 :: byte)"
  obtain ms mp cc where m: "deriveEdDSAMaster toy_hmac id (b39_NewSeed toy_b39 ''words'') = (ms, mp, cc)"
    by (metis prod_cases3)
  let ?k = "clamped_scalar ?sha ms"
  obtain dA where d: "deriveEdDSA toy_ec toy_hmac (toy_opsk ?k) (toy_B ?k cc) ''m/0'' [0] = Return (Inr dA)"
    using toy_eddsa_derived by blast
  have v: "b39_IsMnemonicValid toy_b39 ''words''" by (simp add: toy_b39_def)
  have m': "deriveEdDSAMaster toy_hmac id (b39_NewSeed toy_b39 ''words'') =
      (ms, mp, ks_ChainCode (toy_B ?k cc))"
    using m by (simp add: toy_B_def)
  have u: "so_unmarshal (toy_opsk ?k) (ks_Share (toy_B ?k cc)) = Inr (toy_save 4\<lparr>sv_Pub := mod7 ?k\<rparr>)"
    by (simp add: toy_opsk_def)
  show ?thesis
    using deriveScalarAtPath_recovers [of toy_ec mod7 toy_b39 "''words''" toy_hmac id ms mp
        "toy_B ?k cc" "\<lambda>b. Return (mod7 ?k)" ?sha "toy_opsk ?k" "toy_save 4\<lparr>sv_Pub := mod7 ?k\<rparr>"
        "''m/0''" "[0]" dA] toy_laws v m' u toy_path d by fastforce
qed

subsection \<open>Decoding an ed25519 public key\<close>

definition ed_p :: nat where "ed_p = 2 ^ 255 - 19"

text \<open>\<open>ModInverse\<close> by the extended Euclidean algorithm; \<open>None\<close> when there is no inverse.\<close>

fun ext_gcd :: "nat \<Rightarrow> nat \<Rightarrow> int \<times> int" where
  "ext_gcd a b = (if b = 0 then (1, 0)
     else let (x, y) = ext_gcd b (a mod b) in (y, x - int (a div b) * y))"

declare ext_gcd.simps [simp del]

definition mod_inverse :: "nat \<Rightarrow> nat \<Rightarrow> nat option" where
  "mod_inverse a p = (if gcd a p = 1 then Some (nat (fst (ext_gcd a p) mod int p)) else None)"

definition le_nat :: "bytes \<Rightarrow> nat" where "le_nat b = be_nat (rev b)"

text \<open>
  \<open>decodeEd25519PubKey\<close>: y from the low 255 bits, x a square root of (y^2 - 1) / (d y^2 + 1), of the
  parity the top bit asks for. Indexing a short slice and a missing inverse panic. Subtractions are
  modulo \<open>p\<close>.
\<close>

definition ed_x2 :: "nat \<Rightarrow> nat \<Rightarrow> nat option" where
  "ed_x2 p y =
     (let y2 = (y * y) mod p in
      case mod_inverse 121666 p of
        None \<Rightarrow> None
      | Some d0 \<Rightarrow>
          let d = nat ((int d0 * - 121665) mod int p);
              num = nat ((int y2 - 1) mod int p);
              den = (d * y2 + 1) mod p
          in (case mod_inverse den p of
                None \<Rightarrow> None
              | Some denInv \<Rightarrow> Some ((num * denInv) mod p)))"

definition ed_sqrt :: "nat \<Rightarrow> nat \<Rightarrow> nat" where
  "ed_sqrt p x2 =
     (let x = x2 ^ ((p + 3) div 8) mod p in
      if (x * x) mod p \<noteq> x2 then (x * (2 ^ ((p - 1) div 4) mod p)) mod p else x)"

definition decodeEd25519PubKey :: "nat \<Rightarrow> bytes \<Rightarrow> point may_panic" where
  "decodeEd25519PubKey p pub =
     (if length pub < 32 then Panic
      else
        let signBit = drop_bit 7 (pub ! 31);
            yLE = (take 32 pub)[31 := and (pub ! 31) 0x7f];
            y = le_nat yLE
        in (case ed_x2 p y of
              None \<Rightarrow> Panic
            | Some x2 \<Rightarrow>
                let x = ed_sqrt p x2 in
                Return (if odd x \<noteq> (signBit = 1) then p - x else x, y)))"

lemma ed_sqrt_less: "0 < p \<Longrightarrow> ed_sqrt p x2 < p"
  by (simp add: ed_sqrt_def Let_def)

lemma be_put_0: "be_put k 0 = replicate k 0"
  by (induction k) (simp_all add: replicate_append_same)

lemma le_encode:
  assumes "length b = 32"
  shows "rev (nat_bytes (le_nat b)) @ replicate (32 - length (nat_bytes (le_nat b))) 0 = b"
    and "length (nat_bytes (le_nat b)) \<le> 32"
proof -
  have lt: "le_nat b < 256 ^ 32" using be_nat_less [of "rev b"] assms by (simp add: le_nat_def)
  show le: "length (nat_bytes (le_nat b)) \<le> 32" using lt by (rule length_nat_bytes_le)
  have "replicate (32 - length (nat_bytes (le_nat b))) 0 @ nat_bytes (le_nat b) = be_put 32 (le_nat b)"
    using left_pad_nat_bytes [OF lt] le by (simp add: left_pad_def)
  also have "\<dots> = rev b" using be_put_be_nat [of "rev b"] assms by (simp add: le_nat_def)
  finally have "rev (replicate (32 - length (nat_bytes (le_nat b))) 0 @ nat_bytes (le_nat b)) = b"
    by simp
  then show "rev (nat_bytes (le_nat b)) @ replicate (32 - length (nat_bytes (le_nat b))) 0 = b"
    by simp
qed

lemma byte_index_cases: "n < 8 \<Longrightarrow> n = 0 \<or> n = 1 \<or> n = 2 \<or> n = 3 \<or> n = 4 \<or> n = 5 \<or> n = 6 \<or> n = (7 :: nat)"
  by linarith

lemma top_bit_cases: "drop_bit 7 (b :: byte) = 1 \<and> or (and b 0x7f) 0x80 = b \<or>
    drop_bit 7 b = 0 \<and> and b 0x7f = b"
proof (cases "bit b 7")
  case True
  have "drop_bit 7 b = 1"
  proof (rule bit_word_eqI)
    fix n assume "n < LENGTH(8)"
    show "bit (drop_bit 7 b) n = bit 1 n"
      using True bit_imp_le_length [of b "7 + n"] by (cases n) (auto simp: bit_simps)
  qed
  moreover have "or (and b 0x7f) 0x80 = b"
  proof (rule bit_word_eqI)
    fix n assume "n < LENGTH(8)"
    then have "n < 8" by simp
    then show "bit (or (and b 0x7f) 0x80) n = bit b n"
      using True byte_index_cases [of n] by (auto simp: bit_simps)
  qed
  ultimately show ?thesis by blast
next
  case False
  have "drop_bit 7 b = 0"
  proof (rule bit_word_eqI)
    fix n assume "n < LENGTH(8)"
    show "bit (drop_bit 7 b) n = bit 0 n"
      using False bit_imp_le_length [of b "7 + n"] by (cases n) (auto simp: bit_simps)
  qed
  moreover have "and b 0x7f = b"
  proof (rule bit_word_eqI)
    fix n assume "n < LENGTH(8)"
    then have "n < 8" by simp
    then show "bit (and b 0x7f) n = bit b n"
      using False byte_index_cases [of n] by (auto simp: bit_simps)
  qed
  ultimately show ?thesis by blast
qed

text \<open>
  Decoding and encoding an ed25519 public key are inverse: whatever point the decoder computes
  for a 32-byte key (also for a y that is on no curve point), encoding it gives the same 32 bytes.
  So the address printed for the master key is the one the key was stored with.
\<close>

theorem decode_encode_ed25519:
  assumes "odd p" and "length pub = 32" and "decodeEd25519PubKey p pub = Return q"
  shows "edwardsToEd25519PubKey q = Return pub"
proof -
  let ?y = "pub[31 := and (pub ! 31) 0x7f]"
  have p0: "0 < p" using assms(1) by (cases p) auto
  have ly: "length ?y = 32" using assms(2) by simp
  obtain x2 where q: "q = (if odd (ed_sqrt p x2) \<noteq> (drop_bit 7 (pub ! 31) = 1)
      then p - ed_sqrt p x2 else ed_sqrt p x2, le_nat ?y)"
    using assms(2,3) by (auto simp: decodeEd25519PubKey_def Let_def split: option.splits)
  have snd: "snd q = le_nat ?y" by (simp add: q)
  have par: "odd (fst q) \<longleftrightarrow> drop_bit 7 (pub ! 31) = 1"
    using ed_sqrt_less [OF p0, of x2] assms(1) by (auto simp: q less_imp_le)
  have enc: "edwardsToEd25519PubKey q =
      Return (if odd (fst q) then ?y[31 := or (?y ! 31) 0x80] else ?y)"
    using le_encode [OF ly] by (simp add: edwardsToEd25519PubKey_def Let_def snd)
  have i: "?y ! 31 = and (pub ! 31) 0x7f" using assms(2) by simp
  show ?thesis
    using top_bit_cases [of "pub ! 31"]
  proof
    assume t: "drop_bit 7 (pub ! 31) = 1 \<and> or (and (pub ! 31) 0x7f) 0x80 = pub ! 31"
    then show ?thesis using enc par i by simp
  next
    assume t: "drop_bit 7 (pub ! 31) = 0 \<and> and (pub ! 31) 0x7f = pub ! 31"
    then show ?thesis using enc par by simp
  qed
qed

theorem decode_encode_ed25519_witness:
  "edwardsToEd25519PubKey (4, 3) = Return (3 # replicate 31 0)"
proof (rule decode_encode_ed25519)
  have "ed_x2 7 3 = Some 2"
    by (simp add: ed_x2_def mod_inverse_def ext_gcd.simps gcd_nat.simps)
  moreover have "ed_sqrt 7 2 = 4" by (simp add: ed_sqrt_def Let_def)
  moreover have "le_nat (3 # replicate 31 0) = 3"
    unfolding le_nat_def by (simp add: replicate_append_same) (simp only: be_nat_snoc be_nat_zeros [of 31 "[]", simplified], simp)
  moreover have "(replicate 31 0)[30 := 0] = replicate 31 (0 :: byte)"
    by (simp add: list_update_same_conv)
  ultimately show "decodeEd25519PubKey 7 (3 # replicate 31 0) = Return (4, 3)"
    by (simp add: decodeEd25519PubKey_def Let_def)
qed simp_all

subsection \<open>Signing with a bare scalar\<close>

text \<open>
  \<open>signEd25519WithScalar\<close> over the library edwards25519: scalars are numbers below the group order
  \<open>ed_l\<close>, \<open>el_base r\<close> is the encoding of the \<open>r\<close>-th multiple of the base point.
\<close>

definition ed_l :: nat where
  "ed_l = 7237005577332262213973186563042994240857116359379907606001950938285454250989"

record ed_lib =
  el_SetCanonicalBytes :: "bytes \<Rightarrow> nat res"
  el_SetUniformBytes :: "bytes \<Rightarrow> nat res"
  el_base :: "nat \<Rightarrow> bytes"
  el_MultiplyAdd :: "nat \<Rightarrow> nat \<Rightarrow> nat \<Rightarrow> nat"
  el_Bytes :: "nat \<Rightarrow> bytes"

definition le_bytes32 :: "nat \<Rightarrow> bytes" where
  "le_bytes32 n = (let b = nat_bytes n in take 32 (rev b) @ replicate (32 - length b) 0)"

definition signEd25519WithScalar :: "ed_lib \<Rightarrow> (bytes \<Rightarrow> bytes) \<Rightarrow> nat \<Rightarrow> bytes \<Rightarrow> bytes \<Rightarrow> bytes res" where
  "signEd25519WithScalar L sha512 scalar pubKey msg =
     (let scalarLE = le_bytes32 (scalar mod ed_l) in
      case el_SetCanonicalBytes L scalarLE of
        Inl e \<Rightarrow> Inl (wrap_err ''set scalar'' e)
      | Inr s \<Rightarrow> (case el_SetUniformBytes L (sha512 (scalarLE @ msg)) of
          Inl e \<Rightarrow> Inl (wrap_err ''set nonce'' e)
        | Inr r \<Rightarrow>
            let R = el_base L r in
            (case el_SetUniformBytes L (sha512 (R @ pubKey @ msg)) of
               Inl e \<Rightarrow> Inl (wrap_err ''set hram'' e)
             | Inr k \<Rightarrow> Inr (R @ el_Bytes L (el_MultiplyAdd L k s r)))))"

text \<open>What the library documents of these functions.\<close>

definition ed_lib_laws :: "ed_lib \<Rightarrow> bool" where
  "ed_lib_laws L \<longleftrightarrow>
     (\<forall>b. length b = 32 \<and> le_nat b < ed_l \<longrightarrow> el_SetCanonicalBytes L b = Inr (le_nat b)) \<and>
     (\<forall>b. length b = 64 \<longrightarrow> el_SetUniformBytes L b = Inr (le_nat b mod ed_l)) \<and>
     (\<forall>k s r. el_MultiplyAdd L k s r = (k * s + r) mod ed_l) \<and>
     (\<forall>n. length (el_base L n) = 32) \<and> (\<forall>n < ed_l. el_Bytes L n = le_bytes32 n)"

lemma ed_l_bounds: "0 < ed_l" "ed_l < 256 ^ 32"
  by (simp_all add: ed_l_def)

lemma le_nat_bytes32: "n < 256 ^ 32 \<Longrightarrow> le_nat (le_bytes32 n) = n \<and> length (le_bytes32 n) = 32"
  using length_nat_bytes_le [of n 32]
  by (simp add: le_nat_def le_bytes32_def Let_def be_nat_zeros be_nat_nat_bytes)

text \<open>
  A signature made from the exported scalar is a valid ed25519 signature of the scalar's public
  key: it is the encoding of some multiple \<open>r\<close> of the base point followed by the little-endian \<open>S\<close>
  with S = k s + r modulo the group order, where k is the hash of R, the public key and the message,
  which is the verification equation; and signing never fails.
\<close>

theorem signEd25519_valid:
  assumes "ed_lib_laws L" and "\<forall>b. length (sha512 b) = 64"
  shows "\<exists>r S. signEd25519WithScalar L sha512 scalar pub msg = Inr (el_base L r @ le_bytes32 S) \<and>
    le_nat (le_bytes32 S) = S \<and> S < ed_l \<and>
    S mod ed_l = (le_nat (sha512 (el_base L r @ pub @ msg)) * scalar + r) mod ed_l"
proof -
  let ?s = "scalar mod ed_l"
  have s: "?s < ed_l" using ed_l_bounds(1) by simp
  then have lt: "?s < 256 ^ 32" using ed_l_bounds(2) by linarith
  have c: "el_SetCanonicalBytes L (le_bytes32 ?s) = Inr ?s"
    using assms(1) le_nat_bytes32 [OF lt] s by (simp add: ed_lib_laws_def)
  let ?r = "le_nat (sha512 (le_bytes32 ?s @ msg)) mod ed_l"
  let ?h = "le_nat (sha512 (el_base L ?r @ pub @ msg))"
  let ?S = "(?h mod ed_l * ?s + ?r) mod ed_l"
  have S: "?S < ed_l" using ed_l_bounds(1) by simp
  then have "?S < 256 ^ 32" using ed_l_bounds(2) by linarith
  then have le: "le_nat (le_bytes32 ?S) = ?S" using le_nat_bytes32 by blast
  have "signEd25519WithScalar L sha512 scalar pub msg = Inr (el_base L ?r @ le_bytes32 ?S)"
    using assms c S by (simp add: signEd25519WithScalar_def Let_def ed_lib_laws_def)
  moreover have "?S = (?h * scalar + ?r) mod ed_l"
    by (intro mod_add_cong mod_mult_cong refl) simp_all
  then have "?S mod ed_l = (?h * scalar + ?r) mod ed_l" by simp
  ultimately show ?thesis using S le by blast
qed

definition toy_ed :: ed_lib where
  "toy_ed = \<lparr>el_SetCanonicalBytes = (\<lambda>b. Inr (le_nat b)),
     el_SetUniformBytes = (\<lambda>b. Inr (le_nat b mod ed_l)), el_base = le_bytes32 \<circ> (\<lambda>n. n mod ed_l),
     el_MultiplyAdd = (\<lambda>k s r. (k * s + r) mod ed_l), el_Bytes = le_bytes32\<rparr>"

lemma toy_ed_laws: "ed_lib_laws toy_ed"
proof -
  have "length (le_bytes32 (n mod ed_l)) = 32" for n
  proof -
    have "n mod ed_l < 256 ^ 32"
      using ed_l_bounds mod_less_divisor [of ed_l n] by linarith
    then show ?thesis using le_nat_bytes32 by blast
  qed
  then show ?thesis by (simp add: ed_lib_laws_def toy_ed_def)
qed

theorem signEd25519_valid_witness:
  "\<exists>r S. signEd25519WithScalar toy_ed (\<lambda>b. replicate 64 1) 3 [7] [8] =
      Inr (el_base toy_ed r @ le_bytes32 S) \<and> le_nat (le_bytes32 S) = S \<and> S < ed_l \<and>
    S mod ed_l = (le_nat (replicate 64 1) * 3 + r) mod ed_l"
  using signEd25519_valid [OF toy_ed_laws, of "\<lambda>b. replicate 64 1" 3 "[7]" "[8]"] by simp

end
