(* ===== verification/Sweep.thy ===== *)
theory Sweep
  imports Recovery Solana
begin

section \<open>Sweeping recovered Solana accounts (cmd/installer/ed25519\_sign.go)\<close>

text \<open>
  With the recovery phrase alone the installer moves the SOL, or one token, of a derived address to a
  destination: it derives the scalar, asks an RPC node for the balance, signs a transfer of
  everything and sends it. The network is the record \<open>rpc_net\<close>; \<open>Must\<close> functions panic.
\<close>

record 'r sweeper =
  sw_b39 :: bip39
  sw_ec :: ec
  sw_edwards :: ec
  sw_hmac :: hmac
  sw_edPublic :: "bytes \<Rightarrow> bytes"
  sw_sha512 :: "bytes \<Rightarrow> bytes"
  sw_ed :: ed_lib
  sw_Verify :: "bytes \<Rightarrow> bytes \<Rightarrow> bytes \<Rightarrow> bool"
  sw_sol :: "'r sol"
  sw_net :: rpc_net

subsection \<open>RPC calls\<close>

text \<open>The error object, of which only the message is used.\<close>

definition dec_rpc_error :: "fields \<Rightarrow> string option res" where
  "dec_rpc_error fs =
     dec_field (dec_ptr (dec_struct (\<lambda>m fs1. str_field ''message'' m fs1)) []) ''error'' None fs"

definition dec_balance :: "doc \<Rightarrow> (u64 \<times> string option) res" where
  "dec_balance = unmarshal (\<lambda>fs.
     bind_res (dec_field (dec_struct (\<lambda>v fs1. dec_field (dec_uint 64) ''value'' v fs1)) ''result'' 0 fs) (\<lambda>v.
     bind_res (dec_rpc_error fs) (\<lambda>e. Inr (word_of_nat v, e))))"

definition getSOLBalance :: "rpc_net \<Rightarrow> string \<Rightarrow> string \<Rightarrow> u64 res" where
  "getSOLBalance N rpcURL address =
     bind_res (rpc_post N rpcURL (json_rpc ''getBalance'' [JStr address]) 4096) (\<lambda>body.
     bind_res (dec_balance (nt_parse N body)) (\<lambda>(v, e).
       case e of Some message \<Rightarrow> Inl message | None \<Rightarrow> Inr v))"

definition dec_token_balance :: "doc \<Rightarrow> (string \<times> string option) res" where
  "dec_token_balance = unmarshal (\<lambda>fs.
     bind_res (dec_field (dec_struct (\<lambda>a fs1.
         dec_field (dec_struct (\<lambda>a fs2. str_field ''amount'' a fs2)) ''value'' a fs1)) ''result'' [] fs) (\<lambda>a.
     bind_res (dec_rpc_error fs) (\<lambda>e. Inr (a, e))))"

text \<open>The error of \<open>Sscanf\<close> is dropped: a text without a number counts as zero.\<close>

definition getTokenBalance :: "rpc_net \<Rightarrow> string \<Rightarrow> string \<Rightarrow> u64 res" where
  "getTokenBalance N rpcURL ataAddress =
     bind_res (rpc_post N rpcURL (json_rpc ''getTokenAccountBalance'' [JStr ataAddress]) 4096) (\<lambda>body.
     bind_res (dec_token_balance (nt_parse N body)) (\<lambda>(a, e).
       case e of
         Some message \<Rightarrow> Inl message
       | None \<Rightarrow> Inr (case scan_uint64 a of Inl err \<Rightarrow> 0 | Inr v \<Rightarrow> v)))"

definition fetchBlockhash :: "rpc_net \<Rightarrow> string \<Rightarrow> string res" where
  "fetchBlockhash N rpcURL =
     bind_res (rpc_post N rpcURL
       (json_rpc ''getLatestBlockhash'' [JObj [(''commitment'', JStr ''finalized'')]]) 4096) (\<lambda>body.
     bind_res (dec_blockhash (nt_parse N body)) (\<lambda>(h, e).
       case e of
         Some message \<Rightarrow> Inl message
       | None \<Rightarrow> if h = [] then Inl ''empty blockhash'' else Inr h))"

definition detectTokenProgramRPC :: "'r sol \<Rightarrow> rpc_net \<Rightarrow> string \<Rightarrow> pubkey \<Rightarrow> pubkey res" where
  "detectTokenProgramRPC S N rpcURL mint =
     bind_res (rpc_post N rpcURL (json_rpc ''getAccountInfo''
       [JStr (so_String S mint), JObj [(''encoding'', JStr ''jsonParsed'')]]) 8192) (\<lambda>body.
     bind_res (dec_owner (nt_parse N body)) (\<lambda>value.
       case value of
         None \<Rightarrow> Inl (''mint account not found: '' @ so_String S mint)
       | Some owner \<Rightarrow> Inr (if owner = so_String S (so_Token2022ProgramID S)
           then so_Token2022ProgramID S else so_TokenProgramID S)))"

definition send_request :: "string \<Rightarrow> bytes \<Rightarrow> http_request" where
  "send_request rpcURL txBytes =
     \<lparr>hr_Method = ''POST'', hr_URL = rpcURL, hr_Headers = [(''Content-Type'', ''application/json'')],
      hr_Body = json_rpc ''sendTransaction'' [JStr (b64_encode txBytes),
        JObj [(''encoding'', JStr ''base64''), (''preflightCommitment'', JStr ''confirmed'')]]\<rparr>"

definition dec_send :: "doc \<Rightarrow> (string \<times> string option) res" where
  "dec_send = unmarshal (\<lambda>fs.
     bind_res (str_field ''result'' [] fs) (\<lambda>r.
     bind_res (dec_rpc_error fs) (\<lambda>e. Inr (r, e))))"

definition sendTransaction :: "rpc_net \<Rightarrow> string \<Rightarrow> bytes \<Rightarrow> string res" where
  "sendTransaction N rpcURL txBytes =
     bind_res (nt_http N (send_request rpcURL txBytes)) (\<lambda>(status, text).
     bind_res (dec_send (nt_parse N (take 4096 text))) (\<lambda>(r, e).
       case e of Some message \<Rightarrow> Inl message | None \<Rightarrow> Inr r))"

subsection \<open>Token accounts\<close>

record TokenAccountInfo =
  ta_Mint :: string
  ta_Amount :: string
  ta_Program :: string

text \<open>One element of the answer: account.data.parsed.info with its token amount, and the program.\<close>

definition dec_token_info :: "string \<times> string \<Rightarrow> fields \<Rightarrow> (string \<times> string) res" where
  "dec_token_info old fs =
     bind_res (str_field ''mint'' (fst old) fs) (\<lambda>mint.
     bind_res (dec_field (dec_struct (\<lambda>a fs1. str_field ''amount'' a fs1)) ''tokenAmount'' (snd old) fs)
       (\<lambda>amount. Inr (mint, amount)))"

definition dec_token_parsed :: "string \<times> string \<Rightarrow> fields \<Rightarrow> (string \<times> string) res" where
  "dec_token_parsed old fs =
     bind_res (dec_field (dec_struct dec_token_info) ''info'' old fs) (\<lambda>info.
     bind_res (str_field ''type'' [] fs) (\<lambda>ty. Inr info))"

definition dec_token_data :: "TokenAccountInfo \<Rightarrow> fields \<Rightarrow> TokenAccountInfo res" where
  "dec_token_data old fs =
     bind_res (dec_field (dec_struct dec_token_parsed) ''parsed'' (ta_Mint old, ta_Amount old) fs)
       (\<lambda>(mint, amount).
     bind_res (str_field ''program'' (ta_Program old) fs) (\<lambda>prog.
       Inr \<lparr>ta_Mint = mint, ta_Amount = amount, ta_Program = prog\<rparr>))"

definition dec_token_accounts :: "doc \<Rightarrow> TokenAccountInfo list res" where
  "dec_token_accounts = unmarshal (\<lambda>fs.
     dec_field (dec_struct (\<lambda>vs fs1. dec_field (dec_array
       (dec_struct (\<lambda>t fs2. dec_field (dec_struct (\<lambda>t fs3.
          dec_field (dec_struct dec_token_data) ''data'' t fs3)) ''account'' t fs2))
       \<lparr>ta_Mint = [], ta_Amount = [], ta_Program = []\<rparr>) ''value'' vs fs1)) ''result'' [] fs)"

definition fetchTokenAccountsRPC :: "rpc_net \<Rightarrow> string \<Rightarrow> doc \<Rightarrow> TokenAccountInfo list res" where
  "fetchTokenAccountsRPC N rpcURL body =
     bind_res (rpc_post N rpcURL body 65536) (\<lambda>text.
     bind_res (dec_token_accounts (nt_parse N text)) (\<lambda>vs.
       Inr (filter (\<lambda>t. ta_Amount t \<noteq> [] \<and> ta_Amount t \<noteq> ''0'') vs)))"

text \<open>The two requests differ in the program and in their id.\<close>

definition owner_request :: "rat \<Rightarrow> string \<Rightarrow> string \<Rightarrow> doc" where
  "owner_request i owner programID = Some (JObj [(''jsonrpc'', JStr ''2.0''), (''id'', JNum i),
     (''method'', JStr ''getTokenAccountsByOwner''), (''params'', JArr [JStr owner,
       JObj [(''programId'', JStr programID)], JObj [(''encoding'', JStr ''jsonParsed'')]])])"

definition getTokenAccounts :: "'r sol \<Rightarrow> rpc_net \<Rightarrow> string \<Rightarrow> string \<Rightarrow> TokenAccountInfo list" where
  "getTokenAccounts S N rpcURL owner =
     concat (map (\<lambda>b. case fetchTokenAccountsRPC N rpcURL b of Inl e \<Rightarrow> [] | Inr ts \<Rightarrow> ts)
       [owner_request 1 owner (so_String S (so_TokenProgramID S)),
        owner_request 2 owner (so_String S (so_Token2022ProgramID S))])"

subsection \<open>Sweeping\<close>

definition copy_into :: "nat \<Rightarrow> bytes \<Rightarrow> bytes" where
  "copy_into n b = take n b @ replicate (n - length b) 0"

definition sweep_key :: "'r sweeper \<Rightarrow> string \<Rightarrow> string \<Rightarrow> (nat \<times> bytes) res may_panic" where
  "sweep_key W mnemonic path =
     (case deriveScalarAtPath (sw_b39 W) (sw_edwards W) (sw_hmac W) (sw_edPublic W) (sw_sha512 W)
        (decodeEd25519PubKey ed_p) mnemonic path of
        Panic \<Rightarrow> Panic | Return r \<Rightarrow> Return (in_ctx ''derive key'' r))"

text \<open>From the blockhash to the answer of the node, the same in both sweeps.\<close>

definition signed_sweep :: "'r sweeper \<Rightarrow> nat \<Rightarrow> bytes \<Rightarrow> 'r SolMessage \<Rightarrow> bytes res" where
  "signed_sweep W scalar pubKey message =
     bind_res (in_ctx ''serialize message'' (so_MarshalMessage (sw_sol W) message)) (\<lambda>msgBytes.
     bind_res (in_ctx ''sign'' (signEd25519WithScalar (sw_ed W) (sw_sha512 W) scalar pubKey msgBytes)) (\<lambda>sig.
       if \<not> sw_Verify W pubKey msgBytes sig then Inl ''local signature verification failed''
       else in_ctx ''serialize signed tx'' (so_MarshalTx (sw_sol W)
         \<lparr>st_Signatures = [copy_into 64 sig], st_Message = message\<rparr>)))"

definition finish_sweep :: "'r sweeper \<Rightarrow> string \<Rightarrow> nat \<Rightarrow> bytes \<Rightarrow> 'r SolTx \<Rightarrow> string res may_panic" where
  "finish_sweep W rpcURL scalar pubKey tx =
     bind_pr (Return (in_ctx ''fetch blockhash'' (fetchBlockhash (sw_net W) rpcURL))) (\<lambda>blockhash.
     bind_pr (no_err (must (so_HashFromBase58 (sw_sol W) blockhash))) (\<lambda>h.
       Return (bind_res (signed_sweep W scalar pubKey ((st_Message tx)\<lparr>mg_RecentBlockhash := h\<rparr>))
         (\<lambda>txBytes. in_ctx ''send tx'' (sendTransaction (sw_net W) rpcURL txBytes)))))"

definition sweep_fee :: u64 where "sweep_fee = 5000"

definition sweepSOL :: "'r sweeper \<Rightarrow> string \<Rightarrow> string \<Rightarrow> string \<Rightarrow> string \<Rightarrow> string res may_panic" where
  "sweepSOL W mnemonic path destination rpcURL =
     bind_pr (sweep_key W mnemonic path) (\<lambda>(scalar, pubKey).
     let S = sw_sol W; sender = copy_into 32 pubKey in
     bind_pr (no_err (MustPublicKeyFromBase58 S destination)) (\<lambda>to.
     bind_pr (Return (in_ctx ''get balance'' (getSOLBalance (sw_net W) rpcURL (so_String S sender)))) (\<lambda>balance.
       if balance = 0 then Return (Inl (''zero balance at '' @ so_String S sender))
       else if balance \<le> sweep_fee
       then Return (Inl (''balance '' @ nat_dec (unat balance) @ '' lamports is too low to cover fee''))
       else bind_pr (Return (in_ctx ''build tx'' (so_NewTransaction S
           [so_NewTransfer S (balance - sweep_fee) sender to] (replicate 32 0) sender)))
         (finish_sweep W rpcURL scalar pubKey))))"

definition sweepSPLToken :: "'r sweeper \<Rightarrow> string \<Rightarrow> string \<Rightarrow> string \<Rightarrow> string \<Rightarrow> string \<Rightarrow> string res may_panic" where
  "sweepSPLToken W mnemonic path destination mint rpcURL =
     bind_pr (sweep_key W mnemonic path) (\<lambda>(scalar, pubKey).
     let S = sw_sol W; N = sw_net W; sender = copy_into 32 pubKey in
     bind_pr (no_err (MustPublicKeyFromBase58 S destination)) (\<lambda>to.
     bind_pr (no_err (MustPublicKeyFromBase58 S mint)) (\<lambda>mintPK.
     bind_pr (Return (in_ctx ''detect token program'' (detectTokenProgramRPC S N rpcURL mintPK))) (\<lambda>tokenProgramID.
     bind_pr (Return (in_ctx ''find from ATA'' (findATA S sender mintPK tokenProgramID))) (\<lambda>(fromATA, _).
     bind_pr (Return (in_ctx ''get token balance'' (getTokenBalance N rpcURL (so_String S fromATA)))) (\<lambda>balance.
       if balance = 0 then Return (Inl (''zero token balance at '' @ so_String S fromATA))
       else bind_pr (Return (in_ctx ''find to ATA'' (findATA S to mintPK tokenProgramID))) (\<lambda>(toATA, _).
         bind_pr (Return (in_ctx ''build tx'' (so_NewTransaction S
             (spl_transfer S sender to mintPK tokenProgramID fromATA toATA balance) (replicate 32 0) sender)))
           (finish_sweep W rpcURL scalar pubKey))))))))"

subsection \<open>What a sweep sends\<close>

text \<open>A transaction signed by the scalar's owner: what the node is sent, and that it was verified.\<close>

definition swept :: "'r sweeper \<Rightarrow> string \<Rightarrow> nat \<Rightarrow> bytes \<Rightarrow> 'r SolTx \<Rightarrow> string \<Rightarrow> bool" where
  "swept W rpcURL scalar pubKey tx txid \<longleftrightarrow>
     (\<exists>h msgBytes sig txBytes.
        so_MarshalMessage (sw_sol W) ((st_Message tx)\<lparr>mg_RecentBlockhash := h\<rparr>) = Inr msgBytes \<and>
        signEd25519WithScalar (sw_ed W) (sw_sha512 W) scalar pubKey msgBytes = Inr sig \<and>
        sw_Verify W pubKey msgBytes sig \<and>
        so_TransactionFromBytes (sw_sol W) txBytes = Inr \<lparr>st_Signatures = [copy_into 64 sig],
          st_Message = (st_Message tx)\<lparr>mg_RecentBlockhash := h\<rparr>\<rparr> \<and>
        sendTransaction (sw_net W) rpcURL txBytes = Inr txid)"

lemma finish_sweep_swept:
  assumes "sol_laws (sw_sol W)" and "finish_sweep W rpcURL scalar pubKey tx = Return (Inr txid)"
  shows "swept W rpcURL scalar pubKey tx txid"
  using assms(2) read_back [OF assms(1)]
  by (auto simp: finish_sweep_def signed_sweep_def res_simps swept_def split: if_splits) blast

text \<open>
  C40. A sweep moves everything and nothing else: when it reports a transaction, the balance the node
  named was more than the fee of 5000 lamports, and what was sent is one transfer of exactly the rest,
  from the derived key to the destination, carrying a signature of the derived scalar that was verified
  before anything was broadcast. No subtraction wraps.
\<close>

theorem sweepSOL_sends_all:
  assumes "sol_laws (sw_sol W)" and "sweepSOL W mnemonic path destination rpcURL = Return (Inr txid)"
  shows "\<exists>scalar pubKey to balance tx.
    sweep_key W mnemonic path = Return (Inr (scalar, pubKey)) \<and>
    so_PublicKeyFromBase58 (sw_sol W) destination = Some to \<and>
    getSOLBalance (sw_net W) rpcURL (so_String (sw_sol W) (copy_into 32 pubKey)) = Inr balance \<and>
    unat balance = unat (balance - sweep_fee) + 5000 \<and> 0 < unat (balance - sweep_fee) \<and>
    so_NewTransaction (sw_sol W) [so_NewTransfer (sw_sol W) (balance - sweep_fee) (copy_into 32 pubKey) to]
      (replicate 32 0) (copy_into 32 pubKey) = Inr tx \<and>
    swept W rpcURL scalar pubKey tx txid"
proof -
  obtain scalar pubKey to balance tx where r: "sweep_key W mnemonic path = Return (Inr (scalar, pubKey))"
    "so_PublicKeyFromBase58 (sw_sol W) destination = Some to"
    "getSOLBalance (sw_net W) rpcURL (so_String (sw_sol W) (copy_into 32 pubKey)) = Inr balance"
    "\<not> balance \<le> sweep_fee"
    "so_NewTransaction (sw_sol W) [so_NewTransfer (sw_sol W) (balance - sweep_fee) (copy_into 32 pubKey) to]
      (replicate 32 0) (copy_into 32 pubKey) = Inr tx"
    "finish_sweep W rpcURL scalar pubKey tx = Return (Inr txid)"
    using assms(2)
    by (auto simp: sweepSOL_def res_simps Let_def MustPublicKeyFromBase58_def split: if_splits)
  from r(4) have "5000 < unat balance" by (simp add: sweep_fee_def word_le_nat_alt)
  then have "unat (balance - sweep_fee) = unat balance - 5000"
    by (simp add: sweep_fee_def unat_sub word_le_nat_alt)
  with \<open>5000 < unat balance\<close> r finish_sweep_swept [OF assms(1) r(6)] show ?thesis
    by (intro exI conjI) (assumption | simp)+
qed

text \<open>
  A token sweep moves the whole balance of the key's token account, which is not zero, to the
  destination's token account, creating that account where needed.
\<close>

theorem sweepSPLToken_sends_all:
  assumes "sol_laws (sw_sol W)"
    and "sweepSPLToken W mnemonic path destination mint rpcURL = Return (Inr txid)"
  shows "\<exists>scalar pubKey to mintPK prog fromATA toATA b1 b2 balance tx.
    sweep_key W mnemonic path = Return (Inr (scalar, pubKey)) \<and>
    so_PublicKeyFromBase58 (sw_sol W) destination = Some to \<and>
    findATA (sw_sol W) (copy_into 32 pubKey) mintPK prog = Inr (fromATA, b1) \<and>
    findATA (sw_sol W) to mintPK prog = Inr (toATA, b2) \<and>
    getTokenBalance (sw_net W) rpcURL (so_String (sw_sol W) fromATA) = Inr balance \<and> balance \<noteq> 0 \<and>
    so_NewTransaction (sw_sol W) (spl_transfer (sw_sol W) (copy_into 32 pubKey) to mintPK prog fromATA toATA
      balance) (replicate 32 0) (copy_into 32 pubKey) = Inr tx \<and>
    swept W rpcURL scalar pubKey tx txid"
  using assms(2) finish_sweep_swept [OF assms(1)]
  by (auto simp: sweepSPLToken_def res_simps Let_def MustPublicKeyFromBase58_def split: if_splits) blast

subsection \<open>A desk with a small network\<close>

definition sweep_net :: rpc_net where
  "sweep_net = serving_net
     \<lparr>nt_http := (\<lambda>r. Inr (200, case hr_Body r of
        Some (JObj fs) \<Rightarrow> (case map_of fs ''method'' of Some (JStr m) \<Rightarrow> m | _ \<Rightarrow> []) | _ \<Rightarrow> [])),
      nt_parse := (\<lambda>t. Some (JObj [(''result'',
        if t = ''getBalance'' then JObj [(''value'', JNum (of_nat 7000))]
        else if t = ''getLatestBlockhash''
        then JObj [(''value'', JObj [(''blockhash'', JStr ''H'')])]
        else JStr ''tx1'')]))\<rparr>"

definition sweep_desk :: "unit sweeper" where
  "sweep_desk = \<lparr>sw_b39 = toy_b39, sw_ec = toy_ec, sw_edwards = toy_ec\<lparr>ec_Add := (\<lambda>p q. p)\<rparr>, sw_hmac = toy_hmac,
     sw_edPublic = (\<lambda>b. replicate 32 0), sw_sha512 = (\<lambda>b. replicate 64 0), sw_ed = toy_ed,
     sw_Verify = (\<lambda>p m s. True), sw_sol = toy_sol, sw_net = sweep_net\<rparr>"

lemma sweep_net_calls:
  "getSOLBalance sweep_net url a = Inr 7000" "fetchBlockhash sweep_net url = Inr ''H''"
  "sendTransaction sweep_net url b = Inr ''tx1''"
proof -
  have p: "rpc_post sweep_net url (json_rpc m ps) 4096 = Inr (take 4096 m)" for m ps
    by (simp add: rpc_post_def sweep_net_def json_rpc_def)
  show "getSOLBalance sweep_net url a = Inr 7000"
    unfolding getSOLBalance_def p
    by (simp add: sweep_net_def dec_balance_def dec_rpc_error_def dec_struct_def
        to_lower_def char_lower_def dec_uint_num del: of_nat_numeral) simp
  show "fetchBlockhash sweep_net url = Inr ''H''"
    unfolding fetchBlockhash_def p
    by (simp add: sweep_net_def dec_blockhash_def dec_struct_def to_lower_def char_lower_def)
  show "sendTransaction sweep_net url b = Inr ''tx1''"
    by (simp add: sendTransaction_def send_request_def sweep_net_def json_rpc_def dec_send_def
        dec_rpc_error_def to_lower_def char_lower_def)
qed

lemma gcd_ed: "gcd 121666 ed_p = 1"
proof -
  have e: "121666 * 37095705934669439343138083508754565189542113879843219016388785533085940283556 = 1 + 77955 * ed_p" by (simp add: ed_p_def)
  have "coprime 121666 ed_p"
  proof (rule coprimeI)
    fix c assume "c dvd 121666" "c dvd ed_p"
    then have "c dvd 1 + 77955 * ed_p" unfolding e [symmetric] by (intro dvd_mult2)
    moreover have "c dvd 77955 * ed_p" using \<open>c dvd ed_p\<close> by (rule dvd_mult)
    ultimately show "is_unit c" using dvd_add_left_iff by blast
  qed
  then show ?thesis by (simp add: coprime_iff_gcd_eq_1)
qed

lemma sweep_decode: "\<exists>x. decodeEd25519PubKey ed_p (replicate 32 0) = Return (x, 0) \<and> x \<le> ed_p"
proof -
  have "(replicate 32 (0 :: byte))[31 := 0] = replicate 32 0"
    by (rule list_update_same_conv [THEN iffD2]) simp_all
  then have y: "le_nat ((take 32 (replicate 32 0))[31 := and (replicate 32 (0 :: byte) ! 31) 0x7f]) = 0"
    using be_nat_zeros [of 32 "[]"] by (simp add: le_nat_def)
  obtain x2 where x2: "ed_x2 ed_p 0 = Some x2"
    using gcd_ed by (simp add: ed_x2_def mod_inverse_def Let_def)
  have "ed_sqrt ed_p x2 < ed_p" by (rule ed_sqrt_less) (simp add: ed_p_def)
  then show ?thesis
    unfolding decodeEd25519PubKey_def y Let_def by (simp add: x2)
qed

lemma sweep_desk_key: "\<exists>s pk. sweep_key sweep_desk ''words'' ''m/0'' = Return (Inr (s, pk))"
proof -
  obtain x where x: "decodeEd25519PubKey ed_p (replicate 32 0) = Return (x, 0)" "x \<le> ed_p"
    using sweep_decode by blast
  have "x < 256 ^ 33" using x(2) by (simp add: ed_p_def)
  then have len: "length (nat_bytes x) \<le> 33" by (rule length_nat_bytes_le)
  have "parseBIP32Path ''m/0'' = Inr [0]"
    by (rule parseBIP32Path_eq [OF toy_path]) simp
  moreover have "left_pad 32 (nat_bytes (n mod 7)) = Return (be_put 32 (n mod 7))" for n
    by (rule left_pad_nat_bytes) (rule less_trans [of _ 7], simp_all)
  ultimately show ?thesis
    using x(1) len nat_bytes.simps [of 0]
    by (auto simp: sweep_key_def sweep_desk_def deriveScalarAtPath_def solana_walk_def toy_b39_def
        deriveEdDSAMaster_def solana_step_def compressEdwardsPubKey_def Let_def toy_ec_def
        edwardsToEd25519PubKey_def in_ctx_def split: prod.splits may_panic.splits)
qed

lemma sweep_desk_sends: "sweepSOL sweep_desk ''words'' ''m/0'' ''D'' url = Return (Inr ''tx1'')"
proof -
  obtain s pk where k: "sweep_key sweep_desk ''words'' ''m/0'' = Return (Inr (s, pk))"
    using sweep_desk_key by blast
  have desk: "sw_sol sweep_desk = toy_sol" "sw_net sweep_desk = sweep_net" "sw_ed sweep_desk = toy_ed"
    "sw_Verify sweep_desk p m g" "sw_sha512 sweep_desk = (\<lambda>b. replicate 64 0)" for p m g
    by (simp_all add: sweep_desk_def)
  have "\<exists>g. signEd25519WithScalar toy_ed (\<lambda>b. replicate 64 0) s pk m = Inr g" for m
    by (simp add: signEd25519WithScalar_def toy_ed_def Let_def)
  moreover have "\<exists>tx. so_NewTransaction toy_sol ixs h p = Inr tx" for ixs h p
    by (simp add: toy_sol_def)
  moreover have "\<exists>h. so_HashFromBase58 toy_sol b = Some h" "\<exists>b. so_MarshalMessage toy_sol m = Inr b" for b m
    by (simp_all add: toy_sol_def)
  ultimately obtain tx h b where "so_NewTransaction toy_sol
      [so_NewTransfer toy_sol (7000 - sweep_fee) (copy_into 32 pk) (pad32 (str_bytes ''D''))]
      (replicate 32 0) (copy_into 32 pk) = Inr tx" "so_HashFromBase58 toy_sol ''H'' = Some h"
    "so_MarshalMessage toy_sol ((st_Message tx)\<lparr>mg_RecentBlockhash := h\<rparr>) = Inr b"
    by metis
  moreover from this obtain g where "signEd25519WithScalar toy_ed (\<lambda>b. replicate 64 0) s pk b = Inr g"
    using \<open>\<And>m. \<exists>g. signEd25519WithScalar toy_ed (\<lambda>b. replicate 64 0) s pk m = Inr g\<close> by blast
  ultimately show ?thesis
    by (simp add: sweepSOL_def k desk MustPublicKeyFromBase58_def must_def toy_base58 sweep_net_calls
        finish_sweep_def signed_sweep_def toy_marshal in_ctx_def Let_def)
      (simp add: sweep_fee_def)
qed

theorem sweepSOL_sends_all_witness:
  "\<exists>to tx. so_PublicKeyFromBase58 toy_sol ''D'' = Some to \<and>
     (\<exists>s pk. swept sweep_desk [] s pk tx ''tx1'')"
proof -
  have "sw_sol sweep_desk = toy_sol" by (simp add: sweep_desk_def)
  then show ?thesis
    using sweepSOL_sends_all [of sweep_desk "''words''" "''m/0''" "''D''" "[]" "''tx1''"] toy_sol_laws
      sweep_desk_sends by auto
qed

end
