(* ===== verification/Wizard.thy ===== *)
theory Wizard
  imports Config Sweep
begin

section \<open>The installer's wizard\<close>

text \<open>
  \<open>cmd/installer/state.go\<close> and the handlers of \<open>cmd/installer/handlers.go\<close> that fill the wizard's
  state: servers, recovery phrase, language model and Telegram, and the state a browser is shown. The
  handlers take the decoded request and the outcomes of the calls they make, and return the answer and
  the new state, under the state's mutex. Deployment is in \<open>Setup\<close> and \<open>Deploy\<close>, exports and sweeps
  in \<open>Export\<close>.
\<close>

subsection \<open>The state\<close>

record SSHConfig =
  sh_Host :: string
  sh_Port :: int
  sh_User :: string
  sh_Password :: string
  sh_KeyPath :: string

datatype channel = NilChannel | OpenChannel | ClosedChannel

text \<open>The step, the mode, the servers, the secrets, the configuration and the deployment's progress.\<close>

record 'p WizardState =
  wz_Step :: string
  wz_Mode :: string
  wz_ServerA :: SSHConfig
  wz_ServerB :: SSHConfig
  wz_LocalMode :: bool
  wz_CACert :: bytes
  wz_CAKey :: bytes
  wz_CertA :: bytes
  wz_KeyA :: bytes
  wz_CertB :: bytes
  wz_KeyB :: bytes
  wz_Mnemonic :: string
  wz_ECDSAPubKey :: string
  wz_EdDSAPubKey :: string
  wz_ShareA :: "KeyShare option"
  wz_ShareB :: "KeyShare option"
  wz_EdShareA :: "KeyShare option"
  wz_EdShareB :: "KeyShare option"
  wz_LLMProvider :: string
  wz_LLMAPIKey :: string
  wz_LLMModel :: string
  wz_LLMEndpoint :: string
  wz_DisableAI :: bool
  wz_TelegramBotToken :: string
  wz_TelegramBotUsername :: string
  wz_TelegramUserID :: user_id
  wz_DeployLogs :: "string list"
  wz_DeployDone :: bool
  wz_DeployFailed :: bool
  wz_PartyAAddr :: string
  wz_TransportPort :: int
  wz_preParamA :: "'p option"
  wz_preParamB :: "'p option"
  wz_preParamReady :: channel
  wz_preParamErr :: "err option"

definition no_server :: SSHConfig where
  "no_server = \<lparr>sh_Host = [], sh_Port = 0, sh_User = [], sh_Password = [], sh_KeyPath = []\<rparr>"

text \<open>The state \<open>main\<close> starts with.\<close>

definition wizard_start :: "'p WizardState" where
  "wizard_start = \<lparr>wz_Step = ''welcome'', wz_Mode = [], wz_ServerA = no_server, wz_ServerB = no_server,
     wz_LocalMode = False, wz_CACert = [], wz_CAKey = [], wz_CertA = [], wz_KeyA = [], wz_CertB = [],
     wz_KeyB = [], wz_Mnemonic = [], wz_ECDSAPubKey = [], wz_EdDSAPubKey = [], wz_ShareA = None,
     wz_ShareB = None, wz_EdShareA = None, wz_EdShareB = None, wz_LLMProvider = [], wz_LLMAPIKey = [],
     wz_LLMModel = [], wz_LLMEndpoint = [], wz_DisableAI = False, wz_TelegramBotToken = [],
     wz_TelegramBotUsername = [], wz_TelegramUserID = 0, wz_DeployLogs = [], wz_DeployDone = False,
     wz_DeployFailed = False, wz_PartyAAddr = [], wz_TransportPort = 0, wz_preParamA = None,
     wz_preParamB = None, wz_preParamReady = NilChannel, wz_preParamErr = None\<rparr>"

definition Addr :: "SSHConfig \<Rightarrow> string" where
  "Addr c = (let port = if sh_Port c = 0 then 22 else sh_Port c in
     (if CHR '':'' \<in> set (sh_Host c) then ''['' @ sh_Host c @ '']'' else sh_Host c) @ '':'' @ int_dec port)"

definition GetTransportPort :: "'p WizardState \<Rightarrow> int" where
  "GetTransportPort s = (if wz_TransportPort s \<le> 0 then 443 else wz_TransportPort s)"

text \<open>Go prints a map by key.\<close>

definition server_doc :: "SSHConfig \<Rightarrow> json" where
  "server_doc c = JObj [(''hasKey'', JBool (sh_KeyPath c \<noteq> [])),
     (''hasPassword'', JBool (sh_Password c \<noteq> [])), (''host'', JStr (sh_Host c)),
     (''port'', enc_int (sh_Port c)), (''user'', JStr (sh_User c))]"

definition SanitizedState :: "'p WizardState \<Rightarrow> json" where
  "SanitizedState s = JObj [
     (''certsGenerated'', JBool (wz_CACert s \<noteq> [])),
     (''deployDone'', JBool (wz_DeployDone s)),
     (''disableAI'', JBool (wz_DisableAI s)),
     (''dkgComplete'', JBool (wz_ShareA s \<noteq> None \<and> wz_ShareB s \<noteq> None)),
     (''ecdsaPubKey'', JStr (wz_ECDSAPubKey s)),
     (''eddsaPubKey'', JStr (wz_EdDSAPubKey s)),
     (''llmConfigured'', JBool (wz_LLMProvider s \<noteq> [] \<or> wz_DisableAI s)),
     (''llmEndpoint'', JStr (wz_LLMEndpoint s)),
     (''llmModel'', JStr (wz_LLMModel s)),
     (''llmProvider'', JStr (wz_LLMProvider s)),
     (''localMode'', JBool (wz_LocalMode s)),
     (''mnemonicGenerated'', JBool (wz_Mnemonic s \<noteq> [])),
     (''mode'', JStr (wz_Mode s)),
     (''partyAAddr'', JStr (wz_PartyAAddr s)),
     (''serverA'', server_doc (wz_ServerA s)),
     (''serverB'', server_doc (wz_ServerB s)),
     (''step'', JStr (wz_Step s)),
     (''telegramBotUsername'', JStr (wz_TelegramBotUsername s)),
     (''telegramConfigured'', JBool (wz_TelegramBotToken s \<noteq> [])),
     (''telegramUserId'', enc_int (sint (wz_TelegramUserID s))),
     (''transportPort'', enc_int (GetTransportPort s))]"

definition SetECDSAKeys :: "KeyShare \<Rightarrow> KeyShare \<Rightarrow> 'p WizardState \<Rightarrow> 'p WizardState" where
  "SetECDSAKeys shareA shareB s = s\<lparr>wz_ShareA := Some shareA, wz_ShareB := Some shareB,
     wz_ECDSAPubKey := hex_encode (ks_PublicKey shareA)\<rparr>"

definition SetEdDSAKeys :: "KeyShare \<Rightarrow> KeyShare \<Rightarrow> 'p WizardState \<Rightarrow> 'p WizardState" where
  "SetEdDSAKeys shareA shareB s = s\<lparr>wz_EdShareA := Some shareA, wz_EdShareB := Some shareB,
     wz_EdDSAPubKey := hex_encode (ks_PublicKey shareA)\<rparr>"

definition AppendLog :: "string \<Rightarrow> 'p WizardState \<Rightarrow> 'p WizardState" where
  "AppendLog msg s = s\<lparr>wz_DeployLogs := wz_DeployLogs s @ [msg]\<rparr>"

definition DrainLogs :: "'p WizardState \<Rightarrow> string list \<times> 'p WizardState" where
  "DrainLogs s = (wz_DeployLogs s, s\<lparr>wz_DeployLogs := []\<rparr>)"

subsection \<open>The safe primes computed in the background\<close>

definition StartPreParamGeneration :: "'p WizardState \<Rightarrow> 'p WizardState" where
  "StartPreParamGeneration s = s\<lparr>wz_preParamReady := OpenChannel\<rparr>"

text \<open>
  The end of the background goroutine: it stores both results or the first error, and then closes the
  channel, which panics where it is closed already; the process dies of a panic in a goroutine.
\<close>

definition close_channel :: "channel \<Rightarrow> channel may_panic" where
  "close_channel c = (if c = OpenChannel then Return ClosedChannel else Panic)"

definition preparams_stored :: "'p res \<Rightarrow> 'p res \<Rightarrow> 'p WizardState \<Rightarrow> 'p WizardState" where
  "preparams_stored resA resB s =
     (case resA of
        Inl e \<Rightarrow> s\<lparr>wz_preParamErr := Some e\<rparr>
      | Inr a \<Rightarrow> (case resB of
          Inl e \<Rightarrow> s\<lparr>wz_preParamErr := Some e\<rparr>
        | Inr b \<Rightarrow> s\<lparr>wz_preParamA := Some a, wz_preParamB := Some b\<rparr>))"

definition preparams_done :: "'p res \<Rightarrow> 'p res \<Rightarrow> 'p WizardState \<Rightarrow> 'p WizardState may_panic" where
  "preparams_done resA resB s =
     (let s1 = preparams_stored resA resB s in
      case close_channel (wz_preParamReady s1) of
        Panic \<Rightarrow> Panic | Return c \<Rightarrow> Return (s1\<lparr>wz_preParamReady := c\<rparr>))"

text \<open>
  \<open>WaitPreParams\<close>: at once if both are there; otherwise each round of the loop either finds the channel
  closed or logs that it still waits. A round on a channel that is nil or open blocks for 15 seconds.
  A round that finds it closed takes the state's mutex until it returns, and without an error it logs
  first: \<open>logFn\<close> is \<open>AppendLog\<close>, which takes the same mutex, so the round never returns.
\<close>

definition wait_begin :: "'p WizardState \<Rightarrow> ('p \<times> 'p) option \<times> 'p WizardState" where
  "wait_begin s =
     (case (wz_preParamA s, wz_preParamB s) of
        (Some a, Some b) \<Rightarrow> (Some (a, b), AppendLog ''Cryptographic parameters ready (pre-computed).'' s)
      | _ \<Rightarrow> (None, AppendLog ''Waiting for safe prime generation (started when wizard launched)...'' s))"

datatype wait_result = StillWaiting | WaitFailed err | Deadlock

definition wait_round :: "nat \<Rightarrow> 'p WizardState \<Rightarrow> wait_result \<times> 'p WizardState" where
  "wait_round elapsed s =
     (if wz_preParamReady s = ClosedChannel
      then (case wz_preParamErr s of Some e \<Rightarrow> (WaitFailed e, s) | None \<Rightarrow> (Deadlock, s))
      else (StillWaiting, AppendLog (''Still generating safe primes... ('' @ nat_dec (elapsed + 15) @
        ''s elapsed, typically takes 2-5 minutes)'') s))"

definition InjectPreParams :: "'p option \<Rightarrow> 'p option \<Rightarrow> 'p WizardState \<Rightarrow> 'p WizardState" where
  "InjectPreParams a b s = s\<lparr>wz_preParamA := a, wz_preParamB := b,
     wz_preParamReady := (if wz_preParamReady s = OpenChannel then ClosedChannel else wz_preParamReady s)\<rparr>"

subsection \<open>Servers\<close>

definition dec_SSHConfig :: "SSHConfig \<Rightarrow> fields \<Rightarrow> SSHConfig res" where
  "dec_SSHConfig old fs =
     bind_res (str_field ''host'' (sh_Host old) fs) (\<lambda>host.
     bind_res (int_field ''port'' (sh_Port old) fs) (\<lambda>port.
     bind_res (str_field ''user'' (sh_User old) fs) (\<lambda>user.
     bind_res (str_field ''password'' (sh_Password old) fs) (\<lambda>password.
     bind_res (str_field ''keyPath'' (sh_KeyPath old) fs) (\<lambda>keyPath.
       Inr \<lparr>sh_Host = host, sh_Port = port, sh_User = user, sh_Password = password,
         sh_KeyPath = keyPath\<rparr>)))))"

definition bad_body :: "err \<Rightarrow> http_response" where
  "bad_body e = writeError 400 (''invalid request body: '' @ e)"

definition status_ok :: http_response where
  "status_ok = writeJSON 200 (JObj [(''status'', JStr ''ok'')])"

definition local_server :: SSHConfig where
  "local_server = \<lparr>sh_Host = ''127.0.0.1'', sh_Port = 22, sh_User = ''local'', sh_Password = [],
     sh_KeyPath = []\<rparr>"

definition dec_serversRequest :: "doc \<Rightarrow> (SSHConfig \<times> SSHConfig \<times> bool \<times> int) res" where
  "dec_serversRequest = unmarshal (\<lambda>fs.
     bind_res (dec_field (dec_struct dec_SSHConfig) ''serverA'' no_server fs) (\<lambda>a.
     bind_res (dec_field (dec_struct dec_SSHConfig) ''serverB'' no_server fs) (\<lambda>b.
     bind_res (bool_field ''localMode'' False fs) (\<lambda>l.
     bind_res (int_field ''transportPort'' 0 fs) (\<lambda>port. Inr (a, b, l, port))))))"

definition handleServersSave :: "doc \<Rightarrow> 'p WizardState \<Rightarrow> http_response \<times> 'p WizardState" where
  "handleServersSave body s =
     (case dec_serversRequest body of
        Inl e \<Rightarrow> (bad_body e, s)
      | Inr (a, b, l, port) \<Rightarrow>
          let s1 = s\<lparr>wz_LocalMode := l, wz_TransportPort := port\<rparr>;
              s2 = (if l then s1\<lparr>wz_ServerA := local_server, wz_ServerB := local_server,
                               wz_PartyAAddr := ''127.0.0.1:8080''\<rparr>
                    else s1\<lparr>wz_ServerA := a, wz_ServerB := b\<rparr>) in
          (status_ok, s2\<lparr>wz_Step := ''servers''\<rparr>))"

definition default_addr :: string where "default_addr = ''127.0.0.1:8080''"

text \<open>A body that cannot be decoded gives the default address, like an empty one.\<close>

definition handleLocalhostSetup :: "doc \<Rightarrow> 'p WizardState \<Rightarrow> http_response \<times> 'p WizardState" where
  "handleLocalhostSetup body s =
     (let addr0 = (case unmarshal (str_field ''partyAAddr'' []) body of Inl e \<Rightarrow> default_addr | Inr a \<Rightarrow> a);
          addr = (if addr0 = [] then default_addr else addr0) in
      (status_ok, s\<lparr>wz_LocalMode := True, wz_PartyAAddr := addr, wz_ServerA := local_server,
         wz_ServerB := local_server, wz_Step := ''servers''\<rparr>))"

subsection \<open>The recovery phrase\<close>

text \<open>Both handlers log the first sixteen digits of the keys after they stored them.\<close>

definition store_keys :: "string \<Rightarrow> MnemonicKeys \<Rightarrow> 'p WizardState \<Rightarrow> 'p WizardState" where
  "store_keys mode keys s = s\<lparr>wz_Mnemonic := mk_Mnemonic keys,
     wz_ECDSAPubKey := hex_encode (mk_ECDSAPubKey keys),
     wz_EdDSAPubKey := hex_encode (mk_EdDSAPubKey keys), wz_Step := ''prepared'', wz_Mode := mode\<rparr>"

definition log_keys :: "'p WizardState \<Rightarrow> http_response \<Rightarrow> http_response may_panic" where
  "log_keys s resp =
     (if length (wz_ECDSAPubKey s) < 16 \<or> length (wz_EdDSAPubKey s) < 16 then Panic else Return resp)"

definition handleInstallPrepare :: "'r sweeper \<Rightarrow> bytes res \<Rightarrow> (bytes \<Rightarrow> string res) \<Rightarrow> 'p WizardState \<Rightarrow>
    http_response may_panic \<times> 'p WizardState" where
  "handleInstallPrepare W entropy newMnemonic s =
     (case GenerateMnemonicKeys (sw_b39 W) (sw_ec W) (sw_hmac W) (sw_edPublic W) (sw_sha512 W)
        entropy newMnemonic of
        Inl e \<Rightarrow> (Return (writeError 500 (''generate keys: '' @ e)), s)
      | Inr keys \<Rightarrow>
          let s1 = store_keys ''install'' keys s in
          (log_keys s1 (writeJSON 200 (JObj [(''ecdsaPubKey'', JStr (wz_ECDSAPubKey s1)),
             (''eddsaPubKey'', JStr (wz_EdDSAPubKey s1)), (''mnemonic'', JStr (mk_Mnemonic keys)),
             (''status'', JStr ''ok'')])), s1))"

definition handleInstallRestore :: "'r sweeper \<Rightarrow> doc \<Rightarrow> 'p WizardState \<Rightarrow>
    http_response may_panic \<times> 'p WizardState" where
  "handleInstallRestore W body s =
     (case unmarshal (str_field ''mnemonic'' []) body of
        Inl e \<Rightarrow> (Return (bad_body e), s)
      | Inr m0 \<Rightarrow>
          let m = trim_space m0 in
          if m = [] then (Return (writeError 400 ''mnemonic is required''), s)
          else (case DeriveKeysFromMnemonic (sw_b39 W) (sw_ec W) (sw_hmac W) (sw_edPublic W)
                  (sw_sha512 W) m of
              Inl e \<Rightarrow> (Return (writeError 400 (''invalid mnemonic: '' @ e)), s)
            | Inr keys \<Rightarrow>
                let s1 = store_keys ''restore'' keys s in
                (log_keys s1 (writeJSON 200 (JObj [(''ecdsaPubKey'', JStr (wz_ECDSAPubKey s1)),
                   (''eddsaPubKey'', JStr (wz_EdDSAPubKey s1)), (''status'', JStr ''ok'')])), s1)))"

subsection \<open>The language model\<close>

record llm_request =
  lr_Provider :: string
  lr_APIKey :: string
  lr_Model :: string
  lr_Endpoint :: string

definition dec_llm_request :: "doc \<Rightarrow> llm_request res" where
  "dec_llm_request = unmarshal (\<lambda>fs.
     bind_res (str_field ''provider'' [] fs) (\<lambda>provider.
     bind_res (str_field ''apiKey'' [] fs) (\<lambda>key.
     bind_res (str_field ''model'' [] fs) (\<lambda>model.
     bind_res (str_field ''endpoint'' [] fs) (\<lambda>endpoint.
       Inr \<lparr>lr_Provider = provider, lr_APIKey = key, lr_Model = model, lr_Endpoint = endpoint\<rparr>)))))"

definition detectLLMProvider :: "string \<Rightarrow> string" where
  "detectLLMProvider apiKey =
     (if has_prefix apiKey ''sk-ant-'' then ''anthropic''
      else if has_prefix apiKey ''sk-proj-'' \<or> has_prefix apiKey ''sk-or-'' then ''openai''
      else [])"

definition corrected_provider :: "llm_request \<Rightarrow> string" where
  "corrected_provider req =
     (if lr_APIKey req \<noteq> [] \<and> detectLLMProvider (lr_APIKey req) \<noteq> [] \<and>
         detectLLMProvider (lr_APIKey req) \<noteq> lr_Provider req
      then detectLLMProvider (lr_APIKey req) else lr_Provider req)"

definition handleLLMSave :: "doc \<Rightarrow> 'p WizardState \<Rightarrow> http_response \<times> 'p WizardState" where
  "handleLLMSave body s =
     (case dec_llm_request body of
        Inl e \<Rightarrow> (bad_body e, s)
      | Inr req \<Rightarrow>
          if lr_Provider req = [] then (writeError 400 ''provider is required'', s)
          else let provider = corrected_provider req in
            (status_ok, s\<lparr>wz_LLMProvider := provider, wz_LLMAPIKey := lr_APIKey req,
               wz_LLMModel := lr_Model req,
               wz_LLMEndpoint := (if provider = ''local'' then lr_Endpoint req else []),
               wz_Step := ''llm''\<rparr>))"

definition handleLLMSkip :: "'p WizardState \<Rightarrow> http_response \<times> 'p WizardState" where
  "handleLLMSkip s = (status_ok, s\<lparr>wz_LLMProvider := [], wz_LLMAPIKey := [], wz_LLMModel := [],
     wz_LLMEndpoint := [], wz_DisableAI := True, wz_Step := ''llm''\<rparr>)"

text \<open>
  Trying a provider. \<open>newRequest\<close> refuses an unusable URL, \<open>post\<close> sends the text with its headers and
  gives the status and the decoded body; the body of the request is pasted from the model's name.
\<close>

type_synonym poster = "string \<Rightarrow> (string \<times> string) list \<Rightarrow> string \<Rightarrow> (nat \<times> doc) res"

definition quoted :: "string \<Rightarrow> string" where
  "quoted s = CHR 0x22 # s @ [CHR 0x22]"

definition chat_body :: "string \<Rightarrow> string" where
  "chat_body model = ''{'' @ quoted ''model'' @ '':'' @ quoted model @ '','' @ quoted ''max_tokens'' @
     '':1,'' @ quoted ''messages'' @ '':[{'' @ quoted ''role'' @ '':'' @ quoted ''user'' @ '','' @
     quoted ''content'' @ '':'' @ quoted ''hi'' @ ''}]}''"

definition ollama_body :: "string \<Rightarrow> string" where
  "ollama_body model = ''{'' @ quoted ''model'' @ '':'' @ quoted model @ '','' @ quoted ''messages'' @
     '':[{'' @ quoted ''role'' @ '':'' @ quoted ''user'' @ '','' @ quoted ''content'' @ '':'' @
     quoted ''ping'' @ ''}],'' @ quoted ''stream'' @ '':false}''"

definition json_header :: "(string \<times> string)" where
  "json_header = (''Content-Type'', ''application/json'')"

text \<open>The message of an error answer; a body that cannot be decoded has none.\<close>

definition dec_api_error :: "doc \<Rightarrow> string" where
  "dec_api_error body =
     (case unmarshal (dec_field (dec_struct (\<lambda>m fs. str_field ''message'' m fs)) ''error'' []) body of
        Inl e \<Rightarrow> [] | Inr m \<Rightarrow> m)"

definition key_answer :: "(nat \<times> doc) res \<Rightarrow> err option" where
  "key_answer r =
     (case r of
        Inl e \<Rightarrow> Some (wrap_err ''connection failed'' e)
      | Inr (status, body) \<Rightarrow>
          if status = 401 then Some ''invalid API key (401 Unauthorized)''
          else if status = 403 then Some ''API key lacks permission (403 Forbidden)''
          else if 400 \<le> status then
            (if dec_api_error body \<noteq> [] then Some (dec_api_error body)
             else Some (''API returned status '' @ nat_dec status))
          else None)"

definition testAnthropicKey :: "(string \<Rightarrow> err option) \<Rightarrow> poster \<Rightarrow> string \<Rightarrow> string \<Rightarrow> err option" where
  "testAnthropicKey newRequest post apiKey model0 =
     (let model = (if model0 = [] then ''claude-haiku-4-5-20251001'' else model0);
          url = ''https://api.anthropic.com/v1/messages'' in
      case newRequest url of Some e \<Rightarrow> Some e
      | None \<Rightarrow> key_answer (post url [json_header, (''x-api-key'', apiKey),
          (''anthropic-version'', ''2023-06-01'')] (chat_body model)))"

definition testOpenAIKey :: "(string \<Rightarrow> err option) \<Rightarrow> poster \<Rightarrow> string \<Rightarrow> string \<Rightarrow> err option" where
  "testOpenAIKey newRequest post apiKey model0 =
     (let model = (if model0 = [] then ''gpt-4o-mini'' else model0);
          url = ''https://api.openai.com/v1/chat/completions'' in
      case newRequest url of Some e \<Rightarrow> Some e
      | None \<Rightarrow> key_answer (post url [json_header, (''Authorization'', ''Bearer '' @ apiKey)]
          (chat_body model)))"

definition tryLocalRequest :: "(string \<Rightarrow> err option) \<Rightarrow> poster \<Rightarrow> string \<Rightarrow> string \<Rightarrow> err option" where
  "tryLocalRequest newRequest post url body =
     (case newRequest url of
        Some e \<Rightarrow> Some e
      | None \<Rightarrow> (case post url [json_header] body of
          Inl e \<Rightarrow> Some (wrap_err ''connection failed'' e)
        | Inr (status, b) \<Rightarrow> if 400 \<le> status then Some (''status '' @ nat_dec status) else None))"

definition testLocalEndpoint :: "(string \<Rightarrow> err option) \<Rightarrow> poster \<Rightarrow> string \<Rightarrow> string \<Rightarrow> err option" where
  "testLocalEndpoint newRequest post endpoint model0 =
     (if endpoint = [] then Some ''endpoint URL is required''
      else let model = (if model0 = [] then ''default'' else model0);
               base = trim_right (\<lambda>c. c = CHR ''/'') endpoint in
        case tryLocalRequest newRequest post (base @ ''/api/chat'') (ollama_body model) of
          None \<Rightarrow> None
        | Some e1 \<Rightarrow>
            (case tryLocalRequest newRequest post (base @ ''/v1/chat/completions'') (chat_body model) of
               None \<Rightarrow> None
             | Some e \<Rightarrow> Some (wrap_err (''endpoint not reachable (tried '' @ base @ ''/api/chat and '' @
                 base @ ''/v1/chat/completions)'') e)))"

definition failure :: "err \<Rightarrow> http_response" where
  "failure e = writeJSON 200 (JObj [(''error'', JStr e), (''success'', JBool False)])"

definition handleLLMTest :: "(string \<Rightarrow> err option) \<Rightarrow> poster \<Rightarrow> doc \<Rightarrow> http_response" where
  "handleLLMTest newRequest post body =
     (case dec_llm_request body of
        Inl e \<Rightarrow> writeError 400 ''invalid request body''
      | Inr req \<Rightarrow>
          let provider = lr_Provider req; detected = detectLLMProvider (lr_APIKey req);
              answer = (\<lambda>testErr. case testErr of Some e \<Rightarrow> failure e
                | None \<Rightarrow> writeJSON 200 (JObj [(''success'', JBool True)])) in
          if provider = [] then writeError 400 ''provider is required''
          else if provider \<noteq> ''local'' \<and> lr_APIKey req = [] then writeError 400 ''API key is required''
          else if detected \<noteq> [] \<and> detected \<noteq> provider
          then writeError 400 (''API key looks like '' @ detected @ '' but you selected '' @ provider)
          else if provider = ''anthropic''
          then answer (testAnthropicKey newRequest post (lr_APIKey req) (lr_Model req))
          else if provider = ''openai''
          then answer (testOpenAIKey newRequest post (lr_APIKey req) (lr_Model req))
          else if provider = ''local''
          then answer (testLocalEndpoint newRequest post (lr_Endpoint req) (lr_Model req))
          else writeError 400 (''unknown provider: '' @ provider))"

subsection \<open>Telegram\<close>

text \<open>\<open>newBot\<close> is the outcome of \<open>NewBotAPI\<close> for a token: the bot's name.\<close>

definition handleTelegramSave :: "(string \<Rightarrow> string res) \<Rightarrow> doc \<Rightarrow> 'p WizardState \<Rightarrow>
    http_response \<times> 'p WizardState" where
  "handleTelegramSave newBot body s =
     (case unmarshal (str_field ''botToken'' []) body of
        Inl e \<Rightarrow> (bad_body e, s)
      | Inr token \<Rightarrow>
          if token = [] then (writeError 400 ''botToken is required'', s)
          else (case newBot token of
              Inl e \<Rightarrow> (writeJSON 200 (JObj [(''error'', JStr (''Invalid bot token: '' @ e)),
                (''status'', JStr ''error'')]), s)
            | Inr name \<Rightarrow> (writeJSON 200 (JObj [(''botUsername'', JStr name), (''status'', JStr ''ok'')]),
                s\<lparr>wz_TelegramBotToken := token, wz_TelegramBotUsername := name,
                  wz_Step := ''telegram''\<rparr>)))"

text \<open>A message has a text and perhaps a sender with id, user name and first name; an update may have no message.\<close>

record tg_message =
  tm_Text :: string
  tm_From :: "(user_id \<times> string \<times> string) option"

record tg_update =
  tu_UpdateID :: int
  tu_Message :: "tg_message option"

text \<open>The inner loop: the offset moves past every update seen, and the first message ends it.\<close>

fun scan_updates :: "int \<Rightarrow> tg_update list \<Rightarrow> int \<times> tg_message option" where
  "scan_updates offset [] = (offset, None)"
| "scan_updates offset (u # us) =
     (case tu_Message u of
        None \<Rightarrow> scan_updates (tu_UpdateID u + 1) us
      | Some m \<Rightarrow> (tu_UpdateID u + 1, Some m))"

definition verified :: "tg_message \<Rightarrow> 'p WizardState \<Rightarrow> http_response may_panic \<times> 'p WizardState" where
  "verified m s =
     (case tm_From m of
        None \<Rightarrow> (Panic, s)
      | Some (userID, userName, firstName) \<Rightarrow>
          (Return (writeJSON 200 (JObj [(''status'', JStr ''ok''), (''userId'', enc_int (sint userID)),
             (''username'', JStr (if userName = [] then firstName else userName))])),
           s\<lparr>wz_TelegramUserID := userID\<rparr>))"

text \<open>
  What a bot answers to \<open>GetUpdates\<close> with an offset, knowing the offsets it was asked with before.
  \<open>n\<close> rounds fit into the minute. The message that confirms the user is not part of the answer and is left out.
\<close>

type_synonym tg_bot = "int list \<Rightarrow> int \<Rightarrow> tg_update list res"

fun verify_loop :: "nat \<Rightarrow> tg_bot \<Rightarrow> int list \<Rightarrow> int \<Rightarrow> 'p WizardState \<Rightarrow>
    http_response may_panic \<times> 'p WizardState" where
  "verify_loop 0 api asked offset s =
     (Return (writeJSON 200 (JObj [(''error'', JStr (''No message received within 60 seconds. '' @
        ''Please send /start to the bot and try again.'')), (''status'', JStr ''timeout'')])), s)"
| "verify_loop (Suc n) api asked offset s =
     (case api asked offset of
        Inl e \<Rightarrow> verify_loop n api (asked @ [offset]) offset s
      | Inr us \<Rightarrow> (case scan_updates offset us of
          (offset', None) \<Rightarrow> verify_loop n api (asked @ [offset]) offset' s
        | (offset', Some m) \<Rightarrow> verified m s))"

text \<open>
  The token is given to the library again, which may refuse it with an error text of its own. The old updates
  are cleared first, by a call with offset -1 whose outcome is dropped.
\<close>

definition handleTelegramVerify :: "(string \<Rightarrow> tg_bot res) \<Rightarrow> nat \<Rightarrow>
    'p WizardState \<Rightarrow> http_response may_panic \<times> 'p WizardState" where
  "handleTelegramVerify newBot rounds s =
     (if wz_TelegramBotToken s = [] then (Return (writeError 400 ''save bot token first''), s)
      else (case newBot (wz_TelegramBotToken s) of
          Inl e \<Rightarrow> (Return (writeError 500 (''bot init: '' @ e)), s)
        | Inr api \<Rightarrow> verify_loop rounds api [-1] 0 s))"

subsection \<open>Looking at the state and at the machine\<close>

definition handleState :: "'p WizardState \<Rightarrow> http_response" where
  "handleState s = writeJSON 200 (SanitizedState s)"

text \<open>\<open>out\<close> and \<open>e\<close> are the output and the error of \<open>docker info\<close>.\<close>

definition docker_problem :: "string \<Rightarrow> err option \<Rightarrow> string option" where
  "docker_problem out e =
     (case e of
        None \<Rightarrow> None
      | Some msg \<Rightarrow> Some (
          if str_contains out ''Cannot connect'' \<or> str_contains out ''no such file'' \<or>
             str_contains msg ''executable file not found''
          then ''Docker is not running. Please start Docker Desktop.''
          else ''Docker check failed: '' @ trim_space out))"

definition handlePreflight :: "string \<Rightarrow> err option \<Rightarrow> 'p WizardState \<Rightarrow> http_response" where
  "handlePreflight out e s = writeJSON 200 (JObj (
     if wz_LocalMode s
     then let p = docker_problem out e in
       [(''docker'', JObj [(''error'', JStr (case p of None \<Rightarrow> [] | Some m \<Rightarrow> m)), (''ok'', JBool (p = None))]),
        (''ready'', JBool (p = None))]
     else [(''ready'', JBool True)]))"

text \<open>
  One tick of the log stream: it sends what is pending, and ends the stream when the deployment is done
  and nothing was pending. The flags are read after the logs, under a lock of their own, so both states
  are arguments.
\<close>

definition log_event :: "string \<Rightarrow> string \<Rightarrow> json" where
  "log_event t msg = JObj [(''message'', JStr msg), (''type'', JStr t)]"

definition logs_tick :: "'p WizardState \<Rightarrow> bool \<Rightarrow> bool \<Rightarrow> json list \<times> bool \<times> 'p WizardState" where
  "logs_tick s done_after failed_after =
     (let (logs, s1) = DrainLogs s;
          events = map (log_event ''log'') logs in
      if done_after \<and> logs = [] then
        (events @ [if failed_after
           then log_event ''error'' ''Deployment failed. Check the logs above for details.''
           else log_event ''complete'' ''deployment complete''], True, s1)
      else (events, False, s1))"

text \<open>
  An uploaded SSH key: the form's file, reading it, whether it is a key, and a temporary file with its
  name, or the errors of these calls.
\<close>

definition handleSSHKeyUpload :: "err option \<Rightarrow> bytes res \<Rightarrow> (bytes \<Rightarrow> err option) \<Rightarrow> string res \<Rightarrow>
    err option \<Rightarrow> http_response" where
  "handleSSHKeyUpload form body parseKey tmp wr =
     (case form of Some e \<Rightarrow> writeError 400 (''missing '' @ [CHR 0x27] @ ''key'' @ [CHR 0x27] @ '' file field: '' @ e)
      | None \<Rightarrow> (case body of Inl e \<Rightarrow> writeError 400 (''failed to read uploaded file: '' @ e)
        | Inr data \<Rightarrow> (case parseKey data of Some e \<Rightarrow> writeError 400 (''not a valid SSH private key: '' @ e)
          | None \<Rightarrow> (case tmp of Inl e \<Rightarrow> writeError 500 (''failed to create temp file: '' @ e)
            | Inr name \<Rightarrow> (case wr of Some e \<Rightarrow> writeError 500 (''failed to write temp file: '' @ e)
              | None \<Rightarrow> writeJSON 200 (JObj [(''path'', JStr name)]))))))"

subsection \<open>Sequences of requests\<close>

text \<open>One request with the outcomes of the calls its handler makes.\<close>

datatype wizard_request =
  ServersSave doc
| LocalhostSetup doc
| Prepare "bytes res" "bytes \<Rightarrow> string res"
| Restore doc
| LLMSave doc
| LLMSkip
| LLMTest "string \<Rightarrow> err option" poster doc
| TelegramSave "string \<Rightarrow> string res" doc
| TelegramVerify "string \<Rightarrow> tg_bot res" nat
| ShowState
| Preflight string "err option"
| SSHKeyUpload "err option" "bytes res" "bytes \<Rightarrow> err option" "string res" "err option"

fun wizard_step :: "'r sweeper \<Rightarrow> wizard_request \<Rightarrow> 'p WizardState \<Rightarrow>
    http_response may_panic \<times> 'p WizardState" where
  "wizard_step W (ServersSave body) s = (let (r, s') = handleServersSave body s in (Return r, s'))"
| "wizard_step W (LocalhostSetup body) s = (let (r, s') = handleLocalhostSetup body s in (Return r, s'))"
| "wizard_step W (Prepare entropy newMnemonic) s = handleInstallPrepare W entropy newMnemonic s"
| "wizard_step W (Restore body) s = handleInstallRestore W body s"
| "wizard_step W (LLMSave body) s = (let (r, s') = handleLLMSave body s in (Return r, s'))"
| "wizard_step W LLMSkip s = (let (r, s') = handleLLMSkip s in (Return r, s'))"
| "wizard_step W (LLMTest newRequest post body) s = (Return (handleLLMTest newRequest post body), s)"
| "wizard_step W (TelegramSave newBot body) s = (let (r, s') = handleTelegramSave newBot body s in (Return r, s'))"
| "wizard_step W (TelegramVerify newBot rounds) s = handleTelegramVerify newBot rounds s"
| "wizard_step W ShowState s = (Return (handleState s), s)"
| "wizard_step W (Preflight out e) s = (Return (handlePreflight out e s), s)"
| "wizard_step W (SSHKeyUpload form body parseKey tmp wr) s =
     (Return (handleSSHKeyUpload form body parseKey tmp wr), s)"

fun wizard_run :: "'r sweeper \<Rightarrow> wizard_request list \<Rightarrow> 'p WizardState \<Rightarrow>
    http_response may_panic list \<times> 'p WizardState" where
  "wizard_run W [] s = ([], s)"
| "wizard_run W (q # qs) s =
     (let (r, s1) = wizard_step W q s; (rs, s2) = wizard_run W qs s1 in (r # rs, s2))"

subsection \<open>No request brings a stored secret back\<close>

text \<open>
  Two states look alike when they differ in secrets only, of which each has the same ones: the keys and
  passwords, certificates, key shares and tokens.
\<close>

definition servers_alike :: "SSHConfig \<Rightarrow> SSHConfig \<Rightarrow> bool" where
  "servers_alike c d \<longleftrightarrow> sh_Host c = sh_Host d \<and> sh_Port c = sh_Port d \<and> sh_User c = sh_User d \<and>
     (sh_Password c = [] \<longleftrightarrow> sh_Password d = []) \<and> (sh_KeyPath c = [] \<longleftrightarrow> sh_KeyPath d = [])"

definition looks_alike :: "'p WizardState \<Rightarrow> 'p WizardState \<Rightarrow> bool" where
  "looks_alike s t \<longleftrightarrow>
     wz_Step s = wz_Step t \<and> wz_Mode s = wz_Mode t \<and>
     servers_alike (wz_ServerA s) (wz_ServerA t) \<and> servers_alike (wz_ServerB s) (wz_ServerB t) \<and>
     wz_LocalMode s = wz_LocalMode t \<and>
     (wz_CACert s = [] \<longleftrightarrow> wz_CACert t = []) \<and> (wz_Mnemonic s = [] \<longleftrightarrow> wz_Mnemonic t = []) \<and>
     wz_ECDSAPubKey s = wz_ECDSAPubKey t \<and> wz_EdDSAPubKey s = wz_EdDSAPubKey t \<and>
     (wz_ShareA s = None \<longleftrightarrow> wz_ShareA t = None) \<and> (wz_ShareB s = None \<longleftrightarrow> wz_ShareB t = None) \<and>
     wz_LLMProvider s = wz_LLMProvider t \<and> wz_LLMModel s = wz_LLMModel t \<and>
     wz_LLMEndpoint s = wz_LLMEndpoint t \<and> wz_DisableAI s = wz_DisableAI t \<and>
     (wz_TelegramBotToken s = [] \<longleftrightarrow> wz_TelegramBotToken t = []) \<and>
     wz_TelegramBotUsername s = wz_TelegramBotUsername t \<and> wz_TelegramUserID s = wz_TelegramUserID t \<and>
     wz_DeployLogs s = wz_DeployLogs t \<and> wz_DeployDone s = wz_DeployDone t \<and>
     wz_DeployFailed s = wz_DeployFailed t \<and> wz_PartyAAddr s = wz_PartyAAddr t \<and>
     wz_TransportPort s = wz_TransportPort t"

lemma servers_alike_refl [simp]: "servers_alike c c"
  by (simp add: servers_alike_def)

lemma server_doc_alike: "servers_alike c d \<Longrightarrow> server_doc c = server_doc d"
  by (simp add: servers_alike_def server_doc_def)

lemma SanitizedState_alike: "looks_alike s t \<Longrightarrow> SanitizedState s = SanitizedState t"
  unfolding looks_alike_def by (elim conjE) (simp add: SanitizedState_def GetTransportPort_def server_doc_alike)

lemma verify_loop_alike:
  "looks_alike s t \<Longrightarrow> fst (verify_loop n api asked off s) = fst (verify_loop n api asked off t) \<and>
     looks_alike (snd (verify_loop n api asked off s)) (snd (verify_loop n api asked off t))"
  by (induction n api asked off s rule: verify_loop.induct)
    (auto simp: verified_def looks_alike_def split: sum.splits prod.splits option.splits)

lemma store_keys_alike: "looks_alike s t \<Longrightarrow> looks_alike (store_keys m k s) (store_keys m k t)"
  by (simp add: looks_alike_def store_keys_def)

lemma log_keys_store: "log_keys (store_keys m k s) r = log_keys (store_keys m k t) r"
  by (simp add: log_keys_def store_keys_def)

lemma stored_pubs [simp]:
  "wz_ECDSAPubKey (store_keys m k s) = hex_encode (mk_ECDSAPubKey k)"
  "wz_EdDSAPubKey (store_keys m k s) = hex_encode (mk_EdDSAPubKey k)"
  by (simp_all add: store_keys_def)

text \<open>
  Trying out the stored token shows what Telegram says of it, so an answer to that request is the same only
  where Telegram treats both tokens alike. The two tokens stay what they were until both states get the
  same new one.
\<close>

fun same_bot :: "string \<Rightarrow> string \<Rightarrow> wizard_request \<Rightarrow> bool" where
  "same_bot a b (TelegramVerify newBot rounds) \<longleftrightarrow> newBot a = newBot b"
| "same_bot a b q \<longleftrightarrow> True"

lemma verify_loop_token [simp]:
  "wz_TelegramBotToken (snd (verify_loop n api asked off s)) = wz_TelegramBotToken s"
  by (induction n api asked off s rule: verify_loop.induct)
    (auto simp: verified_def split: sum.splits prod.splits option.splits)

lemma wizard_step_alike:
  assumes "looks_alike s t" and "same_bot (wz_TelegramBotToken s) (wz_TelegramBotToken t) q"
  shows "fst (wizard_step W q s) = fst (wizard_step W q t)"
    and "looks_alike (snd (wizard_step W q s)) (snd (wizard_step W q t))"
proof -
  note m = assms(1) [unfolded looks_alike_def]
  have "fst (wizard_step W q s) = fst (wizard_step W q t) \<and>
    looks_alike (snd (wizard_step W q s)) (snd (wizard_step W q t))"
  proof (cases q)
    case (ServersSave body)
    then show ?thesis using m
      by (auto simp: handleServersSave_def Let_def looks_alike_def split: sum.splits)
  next
    case (LocalhostSetup body)
    then show ?thesis using m by (simp add: handleLocalhostSetup_def Let_def looks_alike_def)
  next
    case (Prepare entropy newMnemonic)
    then show ?thesis using store_keys_alike [OF assms(1)] assms log_keys_store
      by (auto simp: handleInstallPrepare_def Let_def split: sum.splits)
  next
    case (Restore body)
    then show ?thesis using store_keys_alike [OF assms(1)] assms log_keys_store
      by (auto simp: handleInstallRestore_def Let_def split: sum.splits)
  next
    case (LLMSave body)
    then show ?thesis using m by (auto simp: handleLLMSave_def Let_def looks_alike_def split: sum.splits)
  next
    case LLMSkip
    then show ?thesis using m by (simp add: handleLLMSkip_def looks_alike_def)
  next
    case (TelegramSave newBot body)
    then show ?thesis using m by (auto simp: handleTelegramSave_def looks_alike_def split: sum.splits)
  next
    case (TelegramVerify newBot rounds)
    then show ?thesis using verify_loop_alike [OF assms(1)] m assms
      by (auto simp: handleTelegramVerify_def split: sum.splits)
  next
    case ShowState
    then show ?thesis using SanitizedState_alike [OF assms(1)] assms by (simp add: handleState_def)
  next
    case (Preflight out e)
    then show ?thesis using m assms by (simp add: handlePreflight_def)
  qed (use assms in simp_all)
  then show "fst (wizard_step W q s) = fst (wizard_step W q t)"
    and "looks_alike (snd (wizard_step W q s)) (snd (wizard_step W q t))" by blast+
qed

definition tokens_kept :: "'p WizardState \<Rightarrow> 'p WizardState \<Rightarrow> 'p WizardState \<Rightarrow> 'p WizardState \<Rightarrow> bool" where
  "tokens_kept s t s' t' \<longleftrightarrow> wz_TelegramBotToken s' = wz_TelegramBotToken t' \<or>
     wz_TelegramBotToken s' = wz_TelegramBotToken s \<and> wz_TelegramBotToken t' = wz_TelegramBotToken t"

lemma wizard_step_tokens: "tokens_kept s t (snd (wizard_step W q s)) (snd (wizard_step W q t))"
proof (cases q)
  case (Prepare entropy newMnemonic)
  then show ?thesis
    by (auto simp: tokens_kept_def handleInstallPrepare_def store_keys_def Let_def split: sum.splits)
next
  case (Restore body)
  then show ?thesis
    by (auto simp: tokens_kept_def handleInstallRestore_def store_keys_def Let_def split: sum.splits)
next
  case (TelegramVerify newBot rounds)
  then show ?thesis by (auto simp: tokens_kept_def handleTelegramVerify_def split: sum.splits)
qed (auto simp: tokens_kept_def handleServersSave_def handleLocalhostSetup_def handleLLMSave_def
    handleLLMSkip_def handleTelegramSave_def Let_def split: sum.splits)

definition filled_state :: "string \<Rightarrow> string \<Rightarrow> nat WizardState" where
  "filled_state phrase token = wizard_start\<lparr>wz_Mnemonic := phrase, wz_LLMAPIKey := token,
     wz_TelegramBotToken := token, wz_ServerA := no_server\<lparr>sh_Password := phrase\<rparr>\<rparr>"

subsection \<open>Skipping the language model is for good\<close>

lemma verify_loop_DisableAI [simp]: "wz_DisableAI (snd (verify_loop n api asked off s)) = wz_DisableAI s"
  by (induction n api asked off s rule: verify_loop.induct)
    (auto simp: verified_def split: sum.splits prod.splits option.splits)

lemma wizard_step_DisableAI:
  "wz_DisableAI (snd (wizard_step W q s)) \<longleftrightarrow> wz_DisableAI s \<or> q = LLMSkip"
proof (cases q)
  case (ServersSave body)
  then show ?thesis by (auto simp: handleServersSave_def Let_def split: sum.splits)
next
  case (LocalhostSetup body)
  then show ?thesis by (simp add: handleLocalhostSetup_def Let_def)
next
  case (Prepare entropy newMnemonic)
  then show ?thesis by (auto simp: handleInstallPrepare_def store_keys_def Let_def split: sum.splits)
next
  case (Restore body)
  then show ?thesis by (auto simp: handleInstallRestore_def store_keys_def Let_def split: sum.splits)
next
  case (LLMSave body)
  then show ?thesis by (auto simp: handleLLMSave_def Let_def split: sum.splits)
next
  case LLMSkip
  then show ?thesis by (simp add: handleLLMSkip_def)
next
  case (TelegramSave newBot body)
  then show ?thesis by (auto simp: handleTelegramSave_def split: sum.splits)
next
  case (TelegramVerify newBot rounds)
  then show ?thesis by (auto simp: handleTelegramVerify_def split: sum.splits)
qed simp_all

text \<open>
  Once the step was skipped, no request brings the language model back, saving one included.
\<close>

lemma DisableAI_iff_skipped:
  "wz_DisableAI (snd (wizard_run W qs s)) \<longleftrightarrow> wz_DisableAI s \<or> LLMSkip \<in> set qs"
  by (induction qs arbitrary: s) (auto simp: split_beta wizard_step_DisableAI)

subsection \<open>Who becomes the authorised user\<close>

text \<open>
  The user whose message comes first while the wizard waits becomes the authorised one, whatever the
  text is; \<open>/start\<close> is not asked for.
\<close>

lemma scan_first_message:
  "scan_updates off us = (off', Some m) \<Longrightarrow>
     \<exists>i < length us. tu_Message (us ! i) = Some m \<and> (\<forall>j < i. tu_Message (us ! j) = None)"
proof (induction us arbitrary: off)
  case (Cons u us)
  show ?case
  proof (cases "tu_Message u")
    case None
    with Cons.prems Cons.IH obtain i where "i < length us" "tu_Message (us ! i) = Some m"
      "\<forall>j < i. tu_Message (us ! j) = None" by auto
    with None show ?thesis by (intro exI [of _ "Suc i"]) (auto simp: less_Suc_eq_0_disj nth_Cons')
  qed (use Cons.prems in \<open>auto intro!: exI [of _ 0]\<close>)
qed simp

lemma first_sender_authorised:
  assumes "wz_TelegramBotToken s \<noteq> []" "newBot (wz_TelegramBotToken s) = Inr api"
    and "api [-1] 0 = Inr us" "scan_updates 0 us = (off, Some m)" "tm_From m = Some (userID, u, f)"
  shows "wz_TelegramUserID (snd (handleTelegramVerify newBot (Suc n) s)) = userID"
  using assms by (simp add: handleTelegramVerify_def verified_def)

subsection \<open>The logs of a deployment\<close>

text \<open>What the ticks of a stream send, together with what is pending, is what was appended.\<close>

datatype log_step = LAppend string | LTick bool bool

definition is_log :: "json \<Rightarrow> bool" where
  "is_log e \<longleftrightarrow> (\<exists>m. e = log_event ''log'' m)"

fun logs_run :: "log_step list \<Rightarrow> 'p WizardState \<Rightarrow> json list \<times> 'p WizardState" where
  "logs_run [] s = ([], s)"
| "logs_run (LAppend msg # ls) s = logs_run ls (AppendLog msg s)"
| "logs_run (LTick d f # ls) s =
     (let (es, stop, s1) = logs_tick s d f; (es', s2) = logs_run ls s1 in
      (filter is_log es @ es', s2))"

fun appended :: "log_step list \<Rightarrow> string list" where
  "appended [] = []"
| "appended (LAppend msg # ls) = msg # appended ls"
| "appended (LTick d f # ls) = appended ls"

lemma is_log_event [simp]: "is_log (log_event k m) \<longleftrightarrow> k = ''log''"
  by (simp add: is_log_def log_event_def)

lemma logs_tick_delivers:
  "filter is_log (fst (logs_tick s d f)) = map (log_event ''log'') (wz_DeployLogs s)"
  "wz_DeployLogs (snd (snd (logs_tick s d f))) = []"
  by (auto simp: logs_tick_def DrainLogs_def Let_def filter_map o_def)

lemma logs_delivered_once:
  "fst (logs_run ls s) @ map (log_event ''log'') (wz_DeployLogs (snd (logs_run ls s))) =
   map (log_event ''log'') (wz_DeployLogs s @ appended ls)"
proof (induction ls arbitrary: s)
  case (Cons l ls)
  then show ?case
    by (cases l) (simp_all add: AppendLog_def split_beta logs_tick_delivers)
qed simp

end
