(* ===== verification/Shell.thy ===== *)
theory Shell
  imports Wizard "HOL-Library.State_Monad"
begin

section \<open>Commands on the local and remote machines\<close>

text \<open>
  What the installer does to machines is a sequence of actions; a world answers each action, knowing
  all earlier ones. A computation runs on the actions so far, the wizard's state and the databases by
  their connection string. On top of it: \<open>cmd/installer/ssh.go\<close>, which dials, runs commands and uploads
  files, and the way the code stops at the first error. The \<open>only\<close> lemmas tell which actions a
  computation can make.
\<close>

datatype auth = KeyAuth bytes | PasswordAuth string

text \<open>An SSH client stands for the address it is connected to.\<close>

type_synonym ssh_client = string

datatype action =
  Exec "string list"
| ExecIn string "string list"
| LookPath string
| Getenv string
| HomeDir
| Getwd
| FileStat string
| FileRead string
| FileWrite string bytes
| MkdirAll string
| TempDir
| ParseKey bytes
| Dial string string "auth list"
| NewSession ssh_client
| RunOn ssh_client string
| StdinPipe ssh_client
| StartOn ssh_client string
| SendInput ssh_client bytes
| WaitOn ssh_client
| TunnelTo ssh_client string
| Listen string
| Sleep nat
| Connect string
| Query string string
| RandomNonce
| WaitProcess

record answer =
  re_Out :: string
  re_ErrOut :: string
  re_Data :: bytes
  re_Err :: "err option"

type_synonym world = "action list \<Rightarrow> action \<Rightarrow> answer"

record 'p sys =
  sy_trace :: "action list"
  sy_wz :: "'p WizardState"
  sy_db :: "string \<Rightarrow> db"

type_synonym ('p, 'a) io = "('p sys, 'a) state"

definition perform :: "world \<Rightarrow> action \<Rightarrow> ('p, answer) io" where
  "perform w a = State (\<lambda>s. (w (sy_trace s) a, s\<lparr>sy_trace := sy_trace s @ [a]\<rparr>))"

definition wizard :: "('p WizardState \<Rightarrow> 'a) \<Rightarrow> ('p, 'a) io" where
  "wizard f = State (\<lambda>s. (f (sy_wz s), s))"

definition modify_wizard :: "('p WizardState \<Rightarrow> 'p WizardState) \<Rightarrow> ('p, unit) io" where
  "modify_wizard f = State (\<lambda>s. ((), s\<lparr>sy_wz := f (sy_wz s)\<rparr>))"

definition on_db :: "string \<Rightarrow> (db \<Rightarrow> 'a \<times> db) \<Rightarrow> ('p, 'a) io" where
  "on_db dsn f = State (\<lambda>s. case f (sy_db s dsn) of (x, d) \<Rightarrow> (x, s\<lparr>sy_db := (sy_db s)(dsn := d)\<rparr>))"

text \<open>\<open>logFn\<close> of the deployments.\<close>

definition logFn :: "string \<Rightarrow> ('p, unit) io" where
  "logFn msg = modify_wizard (AppendLog msg)"

definition ok :: "'a \<Rightarrow> ('p, 'a res) io" where
  "ok x = State_Monad.return (Inr x)"

definition fail :: "err \<Rightarrow> ('p, 'a res) io" where
  "fail e = State_Monad.return (Inl e)"

text \<open>\<open>if err != nil { return ... }\<close>: go on with the value, or return the error.\<close>

definition try_then :: "('p, 'a res) io \<Rightarrow> ('a \<Rightarrow> ('p, 'b res) io) \<Rightarrow> ('p, 'b res) io" where
  "try_then m f = State_Monad.bind m (\<lambda>r. case r of Inl e \<Rightarrow> fail e | Inr x \<Rightarrow> f x)"

definition in_context :: "string \<Rightarrow> ('p, 'a res) io \<Rightarrow> ('p, 'a res) io" where
  "in_context msg m = State_Monad.bind m (\<lambda>r. State_Monad.return (in_ctx msg r))"

definition checked :: "answer \<Rightarrow> answer res" where
  "checked r = (case re_Err r of None \<Rightarrow> Inr r | Some e \<Rightarrow> Inl e)"

definition try_act :: "world \<Rightarrow> action \<Rightarrow> ('p, answer res) io" where
  "try_act w a = State_Monad.bind (perform w a) (\<lambda>r. State_Monad.return (checked r))"

text \<open>A loop that returns at the first error.\<close>

fun for_each :: "('a \<Rightarrow> ('p, unit res) io) \<Rightarrow> 'a list \<Rightarrow> ('p, unit res) io" where
  "for_each f [] = ok ()"
| "for_each f (x # xs) = try_then (f x) (\<lambda>_. for_each f xs)"

subsection \<open>Quoted words\<close>

text \<open>The verb \<open>%q\<close> for text in which every byte above 127 is part of valid UTF-8.\<close>

definition esc_char :: "char \<Rightarrow> string" where
  "esc_char c =
     (let n = (of_char c :: nat) in
      if n = 0x22 \<or> n = 0x5c then [CHR 0x5c, c]
      else if n = 7 then [CHR 0x5c, CHR ''a''] else if n = 8 then [CHR 0x5c, CHR ''b'']
      else if n = 9 then [CHR 0x5c, CHR ''t''] else if n = 10 then [CHR 0x5c, CHR ''n'']
      else if n = 11 then [CHR 0x5c, CHR ''v''] else if n = 12 then [CHR 0x5c, CHR ''f'']
      else if n = 13 then [CHR 0x5c, CHR ''r'']
      else if n < 32 \<or> n = 127
      then [CHR 0x5c, CHR ''x'', hex_digit (n div 16), hex_digit (n mod 16)]
      else [c])"

definition quote_word :: "string \<Rightarrow> string" where
  "quote_word s = quoted (concat (map esc_char s))"

subsection \<open>SSH\<close>

text \<open>The default keys are tried in order, and the first that can be read and parsed is used.\<close>

definition read_key :: "world \<Rightarrow> string \<Rightarrow> ('p, auth res) io" where
  "read_key w path =
     try_then (in_context (''read SSH key '' @ path) (try_act w (FileRead path))) (\<lambda>r.
     try_then (in_context ''parse SSH key'' (try_act w (ParseKey (re_Data r)))) (\<lambda>_.
       ok (KeyAuth (re_Data r))))"

fun default_key :: "world \<Rightarrow> string \<Rightarrow> string list \<Rightarrow> ('p, auth list) io" where
  "default_key w home [] = State_Monad.return []"
| "default_key w home (name # names) =
     State_Monad.bind (read_key w (path_join [home, ''.ssh'', name])) (\<lambda>r.
       case r of Inl e \<Rightarrow> default_key w home names | Inr a \<Rightarrow> State_Monad.return [a])"

definition key_methods :: "world \<Rightarrow> SSHConfig \<Rightarrow> ('p, auth list res) io" where
  "key_methods w cfg =
     (if sh_KeyPath cfg \<noteq> [] then try_then (read_key w (sh_KeyPath cfg)) (\<lambda>a. ok [a])
      else State_Monad.bind (try_act w HomeDir) (\<lambda>h. case h of
          Inl e \<Rightarrow> ok []
        | Inr r \<Rightarrow> State_Monad.bind (default_key w (re_Out r) [''id_ed25519'', ''id_rsa'', ''id_ecdsa'']) ok))"

definition SSHConnect :: "world \<Rightarrow> SSHConfig \<Rightarrow> ('p, ssh_client res) io" where
  "SSHConnect w cfg =
     try_then (key_methods w cfg) (\<lambda>keys.
     let methods = keys @ (if sh_Password cfg \<noteq> [] then [PasswordAuth (sh_Password cfg)] else []) in
     if methods = [] then fail ''no SSH authentication methods available (provide password or key)''
     else try_then (in_context (''SSH dial '' @ Addr cfg) (try_act w (Dial (Addr cfg) (sh_User cfg) methods)))
       (\<lambda>_. ok (Addr cfg)))"

text \<open>Standard output, standard error and the error.\<close>

definition SSHRunCommand :: "world \<Rightarrow> ssh_client \<Rightarrow> string \<Rightarrow> ('p, string \<times> string \<times> err option) io" where
  "SSHRunCommand w c cmd =
     State_Monad.bind (try_act w (NewSession c)) (\<lambda>s. case s of
       Inl e \<Rightarrow> State_Monad.return ([], [], Some (wrap_err ''create SSH session'' e))
     | Inr _ \<Rightarrow> State_Monad.bind (perform w (RunOn c cmd)) (\<lambda>r.
         State_Monad.return (re_Out r, re_ErrOut r, re_Err r)))"

definition run_ok :: "world \<Rightarrow> ssh_client \<Rightarrow> string \<Rightarrow> ('p, string res) io" where
  "run_ok w c cmd = State_Monad.bind (SSHRunCommand w c cmd) (\<lambda>(out, errout, e).
     State_Monad.return (case e of None \<Rightarrow> Inr out | Some m \<Rightarrow> Inl m))"

definition SSHUploadFile :: "world \<Rightarrow> ssh_client \<Rightarrow> bytes \<Rightarrow> string \<Rightarrow> ('p, unit res) io" where
  "SSHUploadFile w c content remotePath =
     (let dir = path_dir remotePath in
      try_then (in_context (''mkdir '' @ dir) (run_ok w c (''mkdir -p '' @ quote_word dir))) (\<lambda>_.
      try_then (in_context ''create SSH session'' (try_act w (NewSession c))) (\<lambda>_.
      try_then (in_context ''open stdin pipe'' (try_act w (StdinPipe c))) (\<lambda>_.
      try_then (in_context ''start cat command'' (try_act w (StartOn c (''cat > '' @ quote_word remotePath)))) (\<lambda>_.
      try_then (in_context ''write file data'' (try_act w (SendInput c content))) (\<lambda>_.
      State_Monad.bind (perform w (WaitOn c)) (\<lambda>r. case re_Err r of
        Some e \<Rightarrow> fail (wrap_err (''upload to '' @ remotePath @ '': '' @ re_ErrOut r) e)
      | None \<Rightarrow>
          try_then (in_context (''chmod '' @ remotePath) (run_ok w c (''chmod 0600 '' @ quote_word remotePath)))
            (\<lambda>_. ok ()))))))))"

definition handleServersTest :: "world \<Rightarrow> doc \<Rightarrow> ('p, http_response) io" where
  "handleServersTest w body =
     (case unmarshal (dec_SSHConfig no_server) body of
        Inl e \<Rightarrow> State_Monad.return (bad_body e)
      | Inr cfg \<Rightarrow>
          if sh_Host cfg = [] then State_Monad.return (writeError 400 ''host is required'')
          else if sh_User cfg = [] then State_Monad.return (writeError 400 ''user is required'')
          else State_Monad.bind (SSHConnect w cfg) (\<lambda>r. case r of
              Inl e \<Rightarrow> State_Monad.return (failure e)
            | Inr c \<Rightarrow> State_Monad.bind (run_ok w c ''uname -a'') (\<lambda>r. case r of
                Inl e \<Rightarrow> State_Monad.return (failure (''connected but command failed: '' @ e))
              | Inr out \<Rightarrow> State_Monad.return
                  (writeJSON 200 (JObj [(''success'', JBool True), (''system'', JStr out)])))))"

subsection \<open>Which actions a computation makes\<close>

text \<open>
  \<open>does v p m Q\<close>: from a wizard state that is \<open>v\<close> up to its logs, and whatever happened before, \<open>m\<close> adds
  actions that satisfy \<open>p\<close> and no others, changes nothing but the logs, and returns a value in \<open>Q\<close>.
  \<open>only\<close> is this without a claim on the value.
\<close>

named_theorems only_intros "which actions a computation can make"

definition unlogged :: "'p WizardState \<Rightarrow> 'p WizardState" where
  "unlogged s = s\<lparr>wz_DeployLogs := []\<rparr>"

definition does :: "'p WizardState \<Rightarrow> (action \<Rightarrow> bool) \<Rightarrow> ('p, 'a) io \<Rightarrow> ('a \<Rightarrow> bool) \<Rightarrow> bool" where
  "does v p m Q \<longleftrightarrow> (\<forall>s. unlogged (sy_wz s) = v \<longrightarrow>
     (case run_state m s of (x, s') \<Rightarrow> Q x \<and> unlogged (sy_wz s') = v \<and>
        (\<exists>as. sy_trace s' = sy_trace s @ as \<and> list_all p as)))"

definition only :: "'p WizardState \<Rightarrow> (action \<Rightarrow> bool) \<Rightarrow> ('p, 'a) io \<Rightarrow> bool" where
  "only v p m \<longleftrightarrow> does v p m (\<lambda>_. True)"

lemma does_return: "Q x \<Longrightarrow> does v p (State_Monad.return x) Q"
  by (simp add: does_def)

lemma does_ok: "Q (Inr x) \<Longrightarrow> does v p (ok x) Q" "Q (Inl e) \<Longrightarrow> does v p (fail e) Q"
  by (simp_all add: ok_def fail_def does_return)

lemma does_bind:
  fixes m :: "('p, 'a) io"
  assumes "does v p m R" and "\<And>x. R x \<Longrightarrow> does v p (f x) Q"
  shows "does v p (State_Monad.bind m f) Q"
  unfolding does_def
proof (intro allI impI)
  fix s :: "'p sys" assume v: "unlogged (sy_wz s) = v"
  obtain x s1 where m: "run_state m s = (x, s1)" by fastforce
  from assms(1) m v obtain as where a: "R x" "unlogged (sy_wz s1) = v"
    "sy_trace s1 = sy_trace s @ as" "list_all p as"
    unfolding does_def by fastforce
  obtain y s2 where f: "run_state (f x) s1 = (y, s2)" by fastforce
  from assms(2) [OF a(1)] f a(2) obtain bs where b: "Q y" "unlogged (sy_wz s2) = v"
    "sy_trace s2 = sy_trace s1 @ bs" "list_all p bs"
    unfolding does_def by fastforce
  have "sy_trace s2 = sy_trace s @ as @ bs \<and> list_all p (as @ bs)" using a b by simp
  then show "case run_state (State_Monad.bind m f) s of (x, s') \<Rightarrow> Q x \<and> unlogged (sy_wz s') = v \<and>
      (\<exists>as. sy_trace s' = sy_trace s @ as \<and> list_all p as)"
    using b f m by auto
qed

lemma does_try_then:
  assumes "does v p m (\<lambda>r. \<forall>x. r = Inr x \<longrightarrow> R x)" and "\<And>x. R x \<Longrightarrow> does v p (f x) Q"
    and "\<And>e. Q (Inl e)"
  shows "does v p (try_then m f) Q"
  unfolding try_then_def
  by (rule does_bind [OF assms(1)]) (auto intro: does_ok assms split: sum.split)

lemma does_mono:
  fixes m :: "('p, 'a) io"
  assumes "does v p m Q" and "\<And>a. p a \<Longrightarrow> q a" and "\<And>x. Q x \<Longrightarrow> R x"
  shows "does v q m R"
  unfolding does_def
proof (intro allI impI)
  fix s :: "'p sys" assume v: "unlogged (sy_wz s) = v"
  obtain x s1 where m: "run_state m s = (x, s1)" by fastforce
  from assms(1) m v obtain as where a: "Q x" "unlogged (sy_wz s1) = v"
    "sy_trace s1 = sy_trace s @ as" "list_all p as"
    unfolding does_def by fastforce
  have "list_all q as" using a(4) assms(2) by (simp add: list_all_iff)
  then show "case run_state m s of (x, s') \<Rightarrow> R x \<and> unlogged (sy_wz s') = v \<and>
      (\<exists>as. sy_trace s' = sy_trace s @ as \<and> list_all q as)"
    using a assms(3) m by auto
qed

lemma does_only: "does v p m Q \<Longrightarrow> only v p m"
  unfolding only_def by (erule does_mono) simp_all

lemma only_mono: "only v p m \<Longrightarrow> (\<And>a. p a \<Longrightarrow> q a) \<Longrightarrow> only v q m"
  unfolding only_def by (rule does_mono)

lemma only_return [only_intros]: "only v p (State_Monad.return x)"
  by (simp add: only_def does_return)

lemma only_ok [only_intros]: "only v p (ok x)" "only v p (fail e)"
  by (simp_all add: only_def does_ok)

lemma does_wizard:
  "(\<And>wz. unlogged wz = v \<Longrightarrow> Q (f wz)) \<Longrightarrow> does v p (wizard f) Q"
  by (simp add: does_def wizard_def)

lemma only_bind_wizard:
  "(\<And>wz. unlogged wz = v \<Longrightarrow> only v p (g (f wz))) \<Longrightarrow> only v p (State_Monad.bind (wizard f) g)"
  unfolding only_def
  by (rule does_bind [OF does_wizard [where Q = "\<lambda>x. \<exists>wz. unlogged wz = v \<and> x = f wz"]]) auto

lemma only_bind:
  "only v p m \<Longrightarrow> (\<And>x. only v p (f x)) \<Longrightarrow> only v p (State_Monad.bind m f)"
  unfolding only_def by (rule does_bind)

lemma only_perform [only_intros]: "p a \<Longrightarrow> only v p (perform w a)"
  by (simp add: only_def does_def perform_def)

lemma only_logFn [only_intros]: "only v p (logFn msg)"
  by (simp add: only_def does_def logFn_def modify_wizard_def unlogged_def AppendLog_def)

lemma only_db [only_intros]: "only v p (on_db dsn f)"
  by (simp add: only_def does_def on_db_def split: prod.split)

lemma only_try_then [only_intros]:
  "only v p m \<Longrightarrow> (\<And>x. only v p (f x)) \<Longrightarrow> only v p (try_then m f)"
  unfolding only_def by (rule does_try_then) (auto elim: does_mono)

lemma only_in_context [only_intros]: "only v p m \<Longrightarrow> only v p (in_context msg m)"
  unfolding in_context_def by (intro only_bind only_intros)

lemma only_try_act [only_intros]: "p a \<Longrightarrow> only v p (try_act w a)"
  unfolding try_act_def by (intro only_bind only_intros)

lemma only_for_each [only_intros]:
  "(\<And>x. x \<in> set xs \<Longrightarrow> only v p (f x)) \<Longrightarrow> only v p (for_each f xs)"
  by (induction xs) (auto intro: only_intros)

lemma only_if [only_intros]:
  "(b \<Longrightarrow> only v p m) \<Longrightarrow> (\<not> b \<Longrightarrow> only v p n) \<Longrightarrow> only v p (if b then m else n)"
  by simp

lemma only_case_res [only_intros]:
  "(\<And>e. only v p (f e)) \<Longrightarrow> (\<And>x. only v p (g x)) \<Longrightarrow>
     only v p (case r of Inl e \<Rightarrow> f e | Inr x \<Rightarrow> g x)"
  by (cases r) simp_all

lemma only_case_option [only_intros]:
  "only v p m \<Longrightarrow> (\<And>x. only v p (g x)) \<Longrightarrow> only v p (case r of None \<Rightarrow> m | Some x \<Rightarrow> g x)"
  by (cases r) simp_all

lemma only_case_prod [only_intros]:
  "(\<And>x y. r = (x, y) \<Longrightarrow> only v p (f x y)) \<Longrightarrow> only v p (case r of (x, y) \<Rightarrow> f x y)"
  by (cases r) simp

lemma only_Let [only_intros]: "only v p (f x) \<Longrightarrow> only v p (let y = x in f y)"
  by simp

text \<open>The rule for reading the wizard is tried before the one for any other first step.\<close>

lemmas [only_intros] = only_bind only_bind_wizard

lemma does_any: "only v p m \<Longrightarrow> does v p m (\<lambda>r. \<forall>x. r = Inr x \<longrightarrow> True)"
  by (simp add: only_def)

lemma does_bind_only:
  "only v p m \<Longrightarrow> (\<And>x. does v p (f x) Q) \<Longrightarrow> does v p (State_Monad.bind m f) Q"
  unfolding only_def by (rule does_bind)

lemma does_try_only:
  "only v p m \<Longrightarrow> (\<And>x. does v p (f x) Q) \<Longrightarrow> (\<And>e. Q (Inl e)) \<Longrightarrow> does v p (try_then m f) Q"
  by (rule does_try_then [OF does_any]) simp_all

text \<open>The actions of the SSH functions. A server is only offered keys and its own password.\<close>

fun reads_key :: "action \<Rightarrow> bool" where
  "reads_key (FileRead f) = True"
| "reads_key (ParseKey b) = True"
| "reads_key HomeDir = True"
| "reads_key a = False"

definition offers :: "SSHConfig \<Rightarrow> auth list \<Rightarrow> bool" where
  "offers cfg ms \<longleftrightarrow> (\<forall>p. PasswordAuth p \<in> set ms \<longrightarrow> p = sh_Password cfg)"

definition dials :: "SSHConfig \<Rightarrow> action \<Rightarrow> bool" where
  "dials cfg a \<longleftrightarrow> reads_key a \<or> (\<exists>ms. a = Dial (Addr cfg) (sh_User cfg) ms \<and> offers cfg ms)"

abbreviation is_key :: "auth \<Rightarrow> bool" where
  "is_key a \<equiv> \<exists>b. a = KeyAuth b"

lemma does_read_key: "does v reads_key (read_key w path) (\<lambda>r. \<forall>a. r = Inr a \<longrightarrow> is_key a)"
  unfolding read_key_def
  by (intro does_try_only does_ok only_intros) simp_all

lemma does_default_key: "does v reads_key (default_key w home names) (\<lambda>ks. \<forall>a \<in> set ks. is_key a)"
proof (induction names)
  case (Cons name names)
  show ?case unfolding default_key.simps
    by (rule does_bind [OF does_read_key]) (auto intro: Cons.IH does_return split: sum.split)
qed (simp add: does_return)

lemma does_key_methods:
  "does v reads_key (key_methods w cfg) (\<lambda>r. \<forall>ks. r = Inr ks \<longrightarrow> (\<forall>a \<in> set ks. is_key a))"
proof (cases "sh_KeyPath cfg = []")
  case True
  let ?keys = "\<lambda>r. \<forall>ks. r = Inr ks \<longrightarrow> (\<forall>a \<in> set ks. is_key a)"
  have d: "does v reads_key (State_Monad.bind (default_key w home names) ok) ?keys" for home names
    by (rule does_bind [OF does_default_key]) (simp add: does_ok)
  have h: "only v reads_key (try_act w HomeDir)" by (intro only_intros) simp
  have "does v reads_key (case x of Inl e \<Rightarrow> ok []
    | Inr r \<Rightarrow> State_Monad.bind (default_key w (re_Out r) [''id_ed25519'', ''id_rsa'', ''id_ecdsa'']) ok) ?keys" for x
    by (cases x) (simp_all add: does_ok d del: default_key.simps)
  from does_bind_only [OF h this] show ?thesis by (simp add: key_methods_def True del: default_key.simps)
next
  case False
  then show ?thesis unfolding key_methods_def
    by (auto intro!: does_try_then [OF does_read_key] does_ok)
qed

lemma only_read_key: "only v reads_key (read_key w path)"
  by (rule does_only [OF does_read_key])

lemma only_default_key: "only v reads_key (default_key w home names)"
  by (rule does_only [OF does_default_key])

lemma does_SSHConnect:
  "does v (dials cfg) (SSHConnect w cfg) (\<lambda>r. \<forall>c. r = Inr c \<longrightarrow> c = Addr cfg)"
proof -
  have k: "does v (dials cfg) (key_methods w cfg) (\<lambda>r. \<forall>ks. r = Inr ks \<longrightarrow> (\<forall>a \<in> set ks. is_key a))"
    by (rule does_mono [OF does_key_methods]) (simp_all add: dials_def)
  have a: "only v (dials cfg) (in_context msg (try_act w (Dial (Addr cfg) (sh_User cfg) ms)))"
    if "offers cfg ms" for msg ms
    using that by (intro only_intros) (auto simp: dials_def)
  show ?thesis
    unfolding SSHConnect_def Let_def
  proof (rule does_try_then [OF k])
    fix ks assume "\<forall>a \<in> set ks. is_key a"
    then have "offers cfg (ks @ (if sh_Password cfg \<noteq> [] then [PasswordAuth (sh_Password cfg)] else []))"
      by (auto simp: offers_def)
    from a [OF this]
    show "does v (dials cfg)
      (if ks @ (if sh_Password cfg \<noteq> [] then [PasswordAuth (sh_Password cfg)] else []) = []
       then fail ''no SSH authentication methods available (provide password or key)''
       else try_then (in_context (''SSH dial '' @ Addr cfg) (try_act w (Dial (Addr cfg) (sh_User cfg)
         (ks @ (if sh_Password cfg \<noteq> [] then [PasswordAuth (sh_Password cfg)] else [])))))
         (\<lambda>_. ok (Addr cfg))) (\<lambda>r. \<forall>c. r = Inr c \<longrightarrow> c = Addr cfg)"
      by (auto intro!: does_try_only does_ok)
  qed simp
qed

lemma only_SSHRunCommand [only_intros]:
  "p (NewSession c) \<Longrightarrow> p (RunOn c cmd) \<Longrightarrow> only v p (SSHRunCommand w c cmd)"
  unfolding SSHRunCommand_def by (intro only_intros)

lemma only_run_ok [only_intros]:
  "p (NewSession c) \<Longrightarrow> p (RunOn c cmd) \<Longrightarrow> only v p (run_ok w c cmd)"
  unfolding run_ok_def by (intro only_intros)

lemma only_SSHUploadFile [only_intros]:
  assumes "p (NewSession c)" "p (StdinPipe c)" "p (WaitOn c)"
    and "p (RunOn c (''mkdir -p '' @ quote_word (path_dir path)))"
      "p (StartOn c (''cat > '' @ quote_word path))" "p (RunOn c (''chmod 0600 '' @ quote_word path))"
    and "p (SendInput c content)"
  shows "only v p (SSHUploadFile w c content path)"
  unfolding SSHUploadFile_def Let_def by (intro only_intros assms)

text \<open>What running a command gives back: nothing, or the world's answer to it.\<close>

definition outputs :: "world \<Rightarrow> ssh_client \<Rightarrow> string \<Rightarrow> string set" where
  "outputs w c cmd = {[]} \<union> {re_Out (w as (RunOn c cmd)) | as. True}"

lemma does_perform:
  "p a \<Longrightarrow> (\<And>as. Q (w as a)) \<Longrightarrow> does v p (perform w a) Q"
  by (simp add: does_def perform_def)

lemma does_SSHRunCommand:
  assumes "p (NewSession c)" "p (RunOn c cmd)"
  shows "does v p (SSHRunCommand w c cmd) (\<lambda>(out, errout, e). out \<in> outputs w c cmd)"
  unfolding SSHRunCommand_def
proof (rule does_bind_only)
  show "only v p (try_act w (NewSession c))" by (intro only_intros assms)
  fix x
  have r: "does v p (perform w (RunOn c cmd)) (\<lambda>r. re_Out r \<in> outputs w c cmd)"
    by (rule does_perform, rule assms(2)) (auto simp: outputs_def)
  have e: "[] \<in> outputs w c cmd" by (simp add: outputs_def)
  show "does v p (case x of
      Inl e \<Rightarrow> State_Monad.return ([], [], Some (wrap_err ''create SSH session'' e))
    | Inr _ \<Rightarrow> State_Monad.bind (perform w (RunOn c cmd)) (\<lambda>r. State_Monad.return (re_Out r, re_ErrOut r, re_Err r)))
    (\<lambda>(out, errout, e). out \<in> outputs w c cmd)"
    by (cases x) (auto intro!: does_bind [OF r] does_return e)
qed

end
