(* ===== verification/Certs.thy ===== *)
theory Certs
  imports Prelude
begin

section \<open>Certificates of the transport\<close>

text \<open>
  \<open>internal/transport/certs.go\<close> and \<open>cmd/installer/certs.go\<close>: the certificate authority, the
  certificates of the two parties with the hosts they are valid for, and the configuration a party
  loads. Key generation, X.509 and PEM are the operations of a record; what the random source gives
  and the clock are arguments.
\<close>

datatype key_usage = DigitalSignature | KeyEncipherment | CertSign | CRLSign
datatype ext_key_usage = ClientAuth | ServerAuth

record 'i template =
  ct_SerialNumber :: nat
  ct_CommonName :: string
  ct_Organization :: "string list"
  ct_NotBefore :: int
  ct_NotAfter :: int
  ct_KeyUsage :: "key_usage list"
  ct_ExtKeyUsage :: "ext_key_usage list"
  ct_BasicConstraintsValid :: bool
  ct_IsCA :: bool
  ct_MaxPathLen :: int
  ct_IPAddresses :: "'i list"
  ct_DNSNames :: "string list"

text \<open>
  \<open>create\<close> takes the template, the parent's template or certificate, the subject's key and the
  signing key. \<open>net.ParseIP\<close> gives an address for the texts that are one.
\<close>

record ('c, 'i, 'k) x509 =
  xx_CreateCertificate :: "'i template \<Rightarrow> ('i template + 'c) \<Rightarrow> 'k \<Rightarrow> 'k \<Rightarrow> bytes res"
  xx_ParseCertificate :: "bytes \<Rightarrow> 'c res"
  xx_MarshalECPrivateKey :: "'k \<Rightarrow> bytes res"
  xx_EncodePEM :: "string \<Rightarrow> bytes \<Rightarrow> bytes"
  xx_ParseIP :: "string \<Rightarrow> 'i option"

record ('c, 'k) CACert =
  cc_Cert :: 'c
  cc_Key :: 'k
  cc_CertPEM :: bytes
  cc_KeyPEM :: bytes

text \<open>A \<open>PartyCert\<close> has the same fields.\<close>

type_synonym ('c, 'k) PartyCert = "('c, 'k) CACert"

definition hour :: int where "hour = 3600"

definition ca_template :: "string \<Rightarrow> nat \<Rightarrow> int \<Rightarrow> 'i template" where
  "ca_template commonName serial now = \<lparr>ct_SerialNumber = serial, ct_CommonName = commonName,
     ct_Organization = [''crypto-claw''], ct_NotBefore = now - 1 * hour,
     ct_NotAfter = now + 10 * 365 * 24 * hour, ct_KeyUsage = [CertSign, CRLSign],
     ct_ExtKeyUsage = [], ct_BasicConstraintsValid = True, ct_IsCA = True, ct_MaxPathLen = 1,
     ct_IPAddresses = [], ct_DNSNames = []\<rparr>"

definition GenerateCA :: "('c, 'i, 'k) x509 \<Rightarrow> 'k res \<Rightarrow> nat res \<Rightarrow> int \<Rightarrow> string \<Rightarrow> ('c, 'k) CACert res" where
  "GenerateCA X newKey newSerial now commonName =
     bind_res (in_ctx ''generate CA key'' newKey) (\<lambda>key.
     bind_res (in_ctx ''generate serial'' newSerial) (\<lambda>serial.
     let tmpl = ca_template commonName serial now in
     bind_res (in_ctx ''create CA cert'' (xx_CreateCertificate X tmpl (Inl tmpl) key key)) (\<lambda>certDER.
     bind_res (in_ctx ''parse CA cert'' (xx_ParseCertificate X certDER)) (\<lambda>cert.
     bind_res (in_ctx ''marshal CA key'' (xx_MarshalECPrivateKey X key)) (\<lambda>keyDER.
       Inr \<lparr>cc_Cert = cert, cc_Key = key, cc_CertPEM = xx_EncodePEM X ''CERTIFICATE'' certDER,
         cc_KeyPEM = xx_EncodePEM X ''EC PRIVATE KEY'' keyDER\<rparr>)))))"

text \<open>The loop over the hosts, and the addresses a certificate without hosts gets.\<close>

definition add_host :: "('c, 'i, 'k) x509 \<Rightarrow> string \<Rightarrow> 'i template \<Rightarrow> 'i template" where
  "add_host X h t =
     (case xx_ParseIP X h of
        Some ip \<Rightarrow> t\<lparr>ct_IPAddresses := ct_IPAddresses t @ [ip]\<rparr>
      | None \<Rightarrow> t\<lparr>ct_DNSNames := ct_DNSNames t @ [h]\<rparr>)"

definition local_host :: "('c, 'i, 'k) x509 \<Rightarrow> 'i template \<Rightarrow> 'i template" where
  "local_host X t =
     (if ct_IPAddresses t = [] \<and> ct_DNSNames t = []
      then t\<lparr>ct_IPAddresses := [the (xx_ParseIP X ''127.0.0.1'')], ct_DNSNames := [''localhost'']\<rparr>
      else t)"

definition party_template :: "('c, 'i, 'k) x509 \<Rightarrow> string \<Rightarrow> nat \<Rightarrow> int \<Rightarrow> string list \<Rightarrow> 'i template" where
  "party_template X commonName serial now hosts =
     local_host X (fold (add_host X) hosts
       \<lparr>ct_SerialNumber = serial, ct_CommonName = commonName,
        ct_Organization = [''crypto-claw''], ct_NotBefore = now - 1 * hour,
        ct_NotAfter = now + 5 * 365 * 24 * hour, ct_KeyUsage = [DigitalSignature, KeyEncipherment],
        ct_ExtKeyUsage = [ClientAuth, ServerAuth], ct_BasicConstraintsValid = False, ct_IsCA = False,
        ct_MaxPathLen = 0, ct_IPAddresses = [], ct_DNSNames = []\<rparr>)"

definition GeneratePartyCert :: "('c, 'i, 'k) x509 \<Rightarrow> 'k res \<Rightarrow> nat res \<Rightarrow> int \<Rightarrow> ('c, 'k) CACert \<Rightarrow>
    string \<Rightarrow> string list \<Rightarrow> ('c, 'k) PartyCert res" where
  "GeneratePartyCert X newKey newSerial now ca commonName hosts =
     bind_res (in_ctx ''generate party key'' newKey) (\<lambda>key.
     bind_res (in_ctx ''generate serial'' newSerial) (\<lambda>serial.
     bind_res (in_ctx ''create party cert'' (xx_CreateCertificate X
       (party_template X commonName serial now hosts) (Inr (cc_Cert ca)) key (cc_Key ca))) (\<lambda>certDER.
     bind_res (in_ctx ''parse party cert'' (xx_ParseCertificate X certDER)) (\<lambda>cert.
     bind_res (in_ctx ''marshal party key'' (xx_MarshalECPrivateKey X key)) (\<lambda>keyDER.
       Inr \<lparr>cc_Cert = cert, cc_Key = key, cc_CertPEM = xx_EncodePEM X ''CERTIFICATE'' certDER,
         cc_KeyPEM = xx_EncodePEM X ''EC PRIVATE KEY'' keyDER\<rparr>)))))"

subsection \<open>The installer's bundle\<close>

record CertBundle =
  cb_CACert :: bytes
  cb_CAKey :: bytes
  cb_CertA :: bytes
  cb_KeyA :: bytes
  cb_CertB :: bytes
  cb_KeyB :: bytes

fun dedup_loop :: "string set \<Rightarrow> string list \<Rightarrow> string list" where
  "dedup_loop seen [] = []"
| "dedup_loop seen (s # ss) =
     (if s \<in> seen then dedup_loop seen ss else s # dedup_loop (insert s seen) ss)"

definition dedupStrings :: "string list \<Rightarrow> string list" where
  "dedupStrings ss = dedup_loop {} ss"

text \<open>Each of the three keys comes with its serial number from the random source.\<close>

definition sans :: "string list \<Rightarrow> string list" where
  "sans hosts = dedupStrings ([''localhost'', ''127.0.0.1''] @ hosts)"

definition GenerateCerts :: "('c, 'i, 'k) x509 \<Rightarrow> (nat \<Rightarrow> 'k res \<times> nat res) \<Rightarrow> int \<Rightarrow>
    string list \<Rightarrow> string list \<Rightarrow> CertBundle res" where
  "GenerateCerts X rand now hostsA hostsB =
     bind_res (in_ctx ''generate CA'' (GenerateCA X (fst (rand 0)) (snd (rand 0)) now ''crypto-claw-ca'')) (\<lambda>ca.
     bind_res (in_ctx ''generate party A cert''
       (GeneratePartyCert X (fst (rand 1)) (snd (rand 1)) now ca ''crypto-claw-party-a'' (sans hostsA))) (\<lambda>certA.
     bind_res (in_ctx ''generate party B cert''
       (GeneratePartyCert X (fst (rand 2)) (snd (rand 2)) now ca ''crypto-claw-party-b'' (sans hostsB))) (\<lambda>certB.
       Inr \<lparr>cb_CACert = cc_CertPEM ca, cb_CAKey = cc_KeyPEM ca, cb_CertA = cc_CertPEM certA,
         cb_KeyA = cc_KeyPEM certA, cb_CertB = cc_CertPEM certB, cb_KeyB = cc_KeyPEM certB\<rparr>)))"

subsection \<open>What a party loads\<close>

record ('t, 'p) tls_config =
  tc_Certificates :: "'t list"
  tc_RootCAs :: 'p
  tc_ClientCAs :: 'p
  tc_MinVersion :: string

text \<open>\<open>readFile\<close> is the file system's answer; \<open>pool\<close> reads a PEM text into a pool, if it can.\<close>

definition LoadCerts :: "(string \<Rightarrow> string \<Rightarrow> 't res) \<Rightarrow> (string \<Rightarrow> bytes res) \<Rightarrow> (bytes \<Rightarrow> 'p option) \<Rightarrow>
    string \<Rightarrow> string \<Rightarrow> string \<Rightarrow> ('t, 'p) tls_config res" where
  "LoadCerts loadPair readFile pool certFile keyFile caCertFile =
     bind_res (in_ctx ''load key pair'' (loadPair certFile keyFile)) (\<lambda>cert.
     bind_res (in_ctx ''read CA cert'' (readFile caCertFile)) (\<lambda>caCertPEM.
       (case pool caCertPEM of
          None \<Rightarrow> Inl ''failed to parse CA cert''
        | Some caPool \<Rightarrow> Inr \<lparr>tc_Certificates = [cert], tc_RootCAs = caPool, tc_ClientCAs = caPool,
            tc_MinVersion = ''TLS1.3''\<rparr>)))"

subsection \<open>Whom the certificates are for\<close>

lemma dedup_loop_spec:
  "set (dedup_loop seen ss) = set ss - seen \<and> distinct (dedup_loop seen ss)"
  by (induction seen ss rule: dedup_loop.induct) auto

lemma set_dedupStrings [simp]: "set (dedupStrings ss) = set ss"
  by (simp add: dedupStrings_def dedup_loop_spec)

lemma distinct_dedupStrings [simp]: "distinct (dedupStrings ss)"
  by (simp add: dedupStrings_def dedup_loop_spec)

lemma dedup_loop_distinct: "distinct ss \<Longrightarrow> set ss \<inter> seen = {} \<Longrightarrow> dedup_loop seen ss = ss"
  by (induction seen ss rule: dedup_loop.induct) auto

lemma dedupStrings_idem [simp]: "dedupStrings (dedupStrings ss) = dedupStrings ss"
  unfolding dedupStrings_def [of "dedupStrings ss"] by (rule dedup_loop_distinct) simp_all

lemma sans_local: "''localhost'' \<in> set (sans hosts)" "''127.0.0.1'' \<in> set (sans hosts)"
    "set hosts \<subseteq> set (sans hosts)"
  by (auto simp: sans_def)

lemma fold_add_host:
  "ct_IPAddresses (fold (add_host X) hosts t) = ct_IPAddresses t @ List.map_filter (xx_ParseIP X) hosts"
  "ct_DNSNames (fold (add_host X) hosts t) =
     ct_DNSNames t @ filter (\<lambda>h. xx_ParseIP X h = None) hosts"
  "ct_IsCA (fold (add_host X) hosts t) = ct_IsCA t"
  "ct_ExtKeyUsage (fold (add_host X) hosts t) = ct_ExtKeyUsage t"
  by (induction hosts arbitrary: t)
    (auto simp: add_host_def split: option.splits)

text \<open>What a certificate is valid for: each host as an address where it is one, as a name otherwise.\<close>

definition valid_for :: "('c, 'i, 'k) x509 \<Rightarrow> 'i template \<Rightarrow> string \<Rightarrow> bool" where
  "valid_for X t h \<longleftrightarrow> (case xx_ParseIP X h of
     Some ip \<Rightarrow> ip \<in> set (ct_IPAddresses t) | None \<Rightarrow> h \<in> set (ct_DNSNames t))"

lemma party_template_valid_for:
  assumes "h \<in> set hosts"
  shows "valid_for X (party_template X cn serial now hosts) h"
proof -
  have "local_host X t = t" if "valid_for X t h" for t
    using that by (auto simp: local_host_def valid_for_def split: option.splits)
  moreover have "valid_for X (fold (add_host X) hosts t) h" for t
    using assms by (auto simp: valid_for_def fold_add_host List.map_filter_def image_iff split: option.splits)
  ultimately show ?thesis by (simp add: party_template_def)
qed

lemma party_template_kind [simp]:
  "ct_IsCA (party_template X cn serial now hosts) = False"
  "ct_ExtKeyUsage (party_template X cn serial now hosts) = [ClientAuth, ServerAuth]"
  by (simp_all add: party_template_def local_host_def fold_add_host)

text \<open>
  The certificates of a bundle: both are issued by the key of the bundle's authority, to a holder that
  is not an authority itself and may be client and server, for the machine itself and every host.
\<close>

definition issued :: "('c, 'i, 'k) x509 \<Rightarrow> ('c, 'k) CACert \<Rightarrow> string list \<Rightarrow> bytes \<Rightarrow> bytes \<Rightarrow> bool" where
  "issued X ca hosts certPEM keyPEM \<longleftrightarrow> (\<exists>t key der keyDER.
     xx_CreateCertificate X t (Inr (cc_Cert ca)) key (cc_Key ca) = Inr der \<and>
     xx_MarshalECPrivateKey X key = Inr keyDER \<and>
     certPEM = xx_EncodePEM X ''CERTIFICATE'' der \<and>
     keyPEM = xx_EncodePEM X ''EC PRIVATE KEY'' keyDER \<and>
     \<not> ct_IsCA t \<and> ct_ExtKeyUsage t = [ClientAuth, ServerAuth] \<and>
     (\<forall>h \<in> {''localhost'', ''127.0.0.1''} \<union> set hosts. valid_for X t h))"

lemma GeneratePartyCert_issued:
  assumes "GeneratePartyCert X newKey newSerial now ca cn (sans hosts) = Inr cert"
  shows "issued X ca hosts (cc_CertPEM cert) (cc_KeyPEM cert)"
proof -
  obtain key serial der keyDER where
    "xx_CreateCertificate X (party_template X cn serial now (sans hosts)) (Inr (cc_Cert ca)) key (cc_Key ca) = Inr der"
    "xx_MarshalECPrivateKey X key = Inr keyDER"
    "cc_CertPEM cert = xx_EncodePEM X ''CERTIFICATE'' der"
    "cc_KeyPEM cert = xx_EncodePEM X ''EC PRIVATE KEY'' keyDER"
    using assms by (auto simp: GeneratePartyCert_def res_simps)
  moreover have "valid_for X (party_template X cn serial now (sans hosts)) h"
    if "h \<in> {''localhost'', ''127.0.0.1''} \<union> set hosts" for h
    using that sans_local [of hosts] by (intro party_template_valid_for) auto
  ultimately show ?thesis unfolding issued_def by (metis party_template_kind)
qed

theorem GenerateCerts_issued:
  assumes "GenerateCerts X rand now hostsA hostsB = Inr b"
  shows "\<exists>ca. GenerateCA X (fst (rand 0)) (snd (rand 0)) now ''crypto-claw-ca'' = Inr ca \<and>
    cb_CACert b = cc_CertPEM ca \<and>
    issued X ca hostsA (cb_CertA b) (cb_KeyA b) \<and> issued X ca hostsB (cb_CertB b) (cb_KeyB b)"
  using assms GeneratePartyCert_issued
  by (auto simp: GenerateCerts_def res_simps)


definition toy_x509 :: "(bytes, string, nat) x509" where
  "toy_x509 = \<lparr>xx_CreateCertificate = (\<lambda>t p k s. Inr [of_nat k, of_nat s, of_nat (ct_SerialNumber t)]),
     xx_ParseCertificate = Inr, xx_MarshalECPrivateKey = (\<lambda>k. Inr [of_nat k]),
     xx_EncodePEM = (\<lambda>_ b. b), xx_ParseIP = (\<lambda>h. if h = ''127.0.0.1'' then Some h else None)\<rparr>"

theorem GenerateCerts_issued_witness:
  "\<exists>b ca. GenerateCerts toy_x509 (\<lambda>i. (Inr (i + 5), Inr i)) 0 [''a.example''] [''b.example''] = Inr b \<and>
     issued toy_x509 ca [''a.example''] (cb_CertA b) (cb_KeyA b) \<and>
     issued toy_x509 ca [''b.example''] (cb_CertB b) (cb_KeyB b)"
proof -
  obtain b where "GenerateCerts toy_x509 (\<lambda>i. (Inr (i + 5), Inr i)) 0 [''a.example''] [''b.example''] = Inr b"
    by (simp add: GenerateCerts_def GenerateCA_def GeneratePartyCert_def toy_x509_def Let_def)
  from this GenerateCerts_issued [OF this] show ?thesis by blast
qed

end
