(* ===== verification/Setup.thy ===== *)
theory Setup
  imports Shell Certs
begin

section \<open>Setting up the two machines\<close>

text \<open>
  \<open>cmd/installer/deploy.go\<close> and the remote part of \<open>handlers.go\<close>: the configuration of each party,
  PostgreSQL and Docker on the local or a remote machine, certificates and key shares on disk and in the
  databases, and starting the containers, as sequences of actions.
\<close>

subsection \<open>The configurations\<close>

definition remoteConfigDir :: string where "remoteConfigDir = ''/etc/crypto-claw''"
definition containerNameA :: string where "containerNameA = ''crypto-claw-party-a''"
definition containerNameB :: string where "containerNameB = ''crypto-claw-party-b''"
definition containerNamePG :: string where "containerNamePG = ''crypto-claw-postgres''"
definition dockerImage :: string where "dockerImage = ''ghcr.io/seeingred/crypto-claw''"

text \<open>\<open>strings.SplitN(s, ":", 2)\<close> with two pieces.\<close>

definition after_colon :: "string \<Rightarrow> string option" where
  "after_colon s = (case dropWhile (\<lambda>c. c \<noteq> CHR '':'') s of [] \<Rightarrow> None | c # rest \<Rightarrow> Some rest)"

definition party_a_listen :: "string \<Rightarrow> string" where
  "party_a_listen addr =
     (if addr = [] \<or> has_prefix addr ''127.0.0.1:''
      then ''0.0.0.0:'' @ (case after_colon addr of Some port \<Rightarrow> port | None \<Rightarrow> ''8080'')
      else addr)"

definition party_database :: "string \<Rightarrow> string \<Rightarrow> DatabaseConfig" where
  "party_database host party = \<lparr>db_Host = host, db_Port = 5432, db_User = ''crypto_claw'',
     db_Password = ''crypto_claw'', db_DBName = ''crypto_claw_'' @ party, db_SSLMode = ''disable''\<rparr>"

definition transport_files :: "string \<Rightarrow> TransportConfig" where
  "transport_files dir = \<lparr>tp_RemoteAddr = [], tp_ListenAddr = [], tp_CertFile = path_join [dir, ''cert.pem''],
     tp_KeyFile = path_join [dir, ''key.pem''], tp_CACertFile = path_join [dir, ''ca.pem'']\<rparr>"

definition base_config :: "string \<Rightarrow> string \<Rightarrow> string \<Rightarrow> Config" where
  "base_config party dir dbHost = \<lparr>cf_Party = party, cf_DataDir = dir,
     cf_Database = party_database dbHost party, cf_API = no_api, cf_Transport = transport_files dir,
     cf_Analyzer = no_analyzer, cf_Telegram = no_telegram\<rparr>"

text \<open>\<open>5 * time.Minute\<close> in nanoseconds.\<close>

definition five_minutes :: int where "five_minutes = 5 * 60 * 1000000000"

definition party_b_telegram :: "'p WizardState \<Rightarrow> TelegramConfig" where
  "party_b_telegram s = \<lparr>tg_BotToken = wz_TelegramBotToken s, tg_AuthorizedUserID = wz_TelegramUserID s,
     tg_EscalationTimeout = five_minutes\<rparr>"

definition party_b_analyzer :: "'p WizardState \<Rightarrow> string \<Rightarrow> AnalyzerConfig" where
  "party_b_analyzer s endpoint = no_analyzer\<lparr>ac_DisableAI := wz_DisableAI s,
     ac_LLM := \<lparr>lc_Provider = wz_LLMProvider s, lc_APIKey = wz_LLMAPIKey s, lc_Endpoint = endpoint,
       lc_Model = wz_LLMModel s\<rparr>\<rparr>"

definition all_interfaces :: "'p WizardState \<Rightarrow> string" where
  "all_interfaces s = ''0.0.0.0:'' @ int_dec (GetTransportPort s)"

definition docker_host :: string where "docker_host = ''host.docker.internal''"

text \<open>\<open>strings.Replace(s, old, new, 1)\<close> for a nonempty \<open>old\<close>.\<close>

definition replace_first :: "string \<Rightarrow> string \<Rightarrow> string \<Rightarrow> string" where
  "replace_first s old new =
     (case str_index s old of None \<Rightarrow> s | Some i \<Rightarrow> take i s @ new @ drop (i + length old) s)"

definition docker_endpoint :: "string \<Rightarrow> string" where
  "docker_endpoint e =
     (if e = [] then e
      else replace_first (replace_first e ''localhost'' docker_host) ''127.0.0.1'' docker_host)"

definition buildLocalDockerConfig :: "'p WizardState \<Rightarrow> string \<Rightarrow> Config" where
  "buildLocalDockerConfig s party =
     (let cfg = base_config party remoteConfigDir docker_host; t = cf_Transport cfg in
      if party = ''a''
      then cfg\<lparr>cf_API := no_api\<lparr>ap_ListenAddr := party_a_listen (wz_PartyAAddr s)\<rparr>,
        cf_Transport := t\<lparr>tp_RemoteAddr := docker_host @ '':'' @ int_dec (GetTransportPort s)\<rparr>\<rparr>
      else cfg\<lparr>cf_Transport := t\<lparr>tp_ListenAddr := all_interfaces s\<rparr>,
        cf_Analyzer := party_b_analyzer s (docker_endpoint (wz_LLMEndpoint s)),
        cf_Telegram := party_b_telegram s\<rparr>)"

definition buildPartyConfig :: "'p WizardState \<Rightarrow> string \<Rightarrow> string \<Rightarrow> Config" where
  "buildPartyConfig s party certDir =
     (let cfg = base_config party certDir ''127.0.0.1''; t = cf_Transport cfg;
          tport = int_dec (GetTransportPort s) in
      if party = ''a''
      then cfg\<lparr>cf_API := no_api\<lparr>ap_ListenAddr := party_a_listen (wz_PartyAAddr s)\<rparr>,
        cf_Transport := t\<lparr>tp_RemoteAddr := (if wz_LocalMode s then ''127.0.0.1:'' @ tport
          else sh_Host (wz_ServerB s) @ '':'' @ tport)\<rparr>\<rparr>
      else cfg\<lparr>cf_Transport := t\<lparr>tp_ListenAddr := all_interfaces s\<rparr>,
        cf_Analyzer := party_b_analyzer s (wz_LLMEndpoint s), cf_Telegram := party_b_telegram s\<rparr>)"

subsection \<open>What every step needs\<close>

text \<open>
  The world; the order in which a map is gone through; the printers of configurations and key shares
  with the parser of shares; the encryption of the store with the key
  of the empty passphrase; and the directory for temporary files.
\<close>

record deployer =
  se_world :: world
  se_perm :: "(string \<times> bytes) list \<Rightarrow> (string \<times> bytes) list"
  se_config :: "Config \<Rightarrow> bytes"
  se_share :: "KeyShare \<Rightarrow> bytes"
  se_parse :: "bytes \<Rightarrow> KeyShare res"
  se_aead :: aead
  se_encKey :: bytes
  se_tempDir :: string

definition tag :: "string \<Rightarrow> string \<Rightarrow> string" where
  "tag party msg = ''['' @ party @ ''] '' @ msg"

subsection \<open>Key shares on disk and in a database\<close>

definition ecdsa_share_of :: "string \<Rightarrow> 'p WizardState \<Rightarrow> KeyShare option" where
  "ecdsa_share_of party s = (if party = ''a'' then wz_ShareA s else wz_ShareB s)"

definition eddsa_share_of :: "string \<Rightarrow> 'p WizardState \<Rightarrow> KeyShare option" where
  "eddsa_share_of party s = (if party = ''a'' then wz_EdShareA s else wz_EdShareB s)"

definition write_share :: "deployer \<Rightarrow> string \<Rightarrow> string \<Rightarrow> string \<Rightarrow> KeyShare option \<Rightarrow> ('p, unit res) io" where
  "write_share E dir name label share =
     (case share of
        None \<Rightarrow> ok ()
      | Some k \<Rightarrow> try_then (in_context (''write '' @ label @ '' share'')
          (try_act (se_world E) (FileWrite (path_join [dir, name]) (se_share E k)))) (\<lambda>_. ok ()))"

definition writeKeyShares :: "deployer \<Rightarrow> string \<Rightarrow> string \<Rightarrow> ('p, unit res) io" where
  "writeKeyShares E party dir = do {
     ecdsaShare \<leftarrow> wizard (ecdsa_share_of party);
     eddsaShare \<leftarrow> wizard (eddsa_share_of party);
     try_then (write_share E dir ''ecdsa_share.json'' ''ECDSA'' ecdsaShare) (\<lambda>_.
       write_share E dir ''eddsa_share.json'' ''EdDSA'' eddsaShare)
   }"

text \<open>
  Importing one share: where the store holds another public key for the curve, every derived key is
  cleared first, and the error of clearing is dropped. A share that cannot be read counts as absent,
  and so does a file. The nonce is drawn only to encrypt the share.
\<close>

definition key_changed :: "deployer \<Rightarrow> dbres \<Rightarrow> Curve \<Rightarrow> KeyShare \<Rightarrow> db \<Rightarrow> bool" where
  "key_changed E got curve share d =
     (case GetMasterShare (se_aead E) (se_encKey E) got curve d of
        Inl e \<Rightarrow> False
      | Inr existing \<Rightarrow> ks_PublicKey existing \<noteq> ks_PublicKey share)"

definition clear_keys :: "deployer \<Rightarrow> string \<Rightarrow> string \<Rightarrow> string \<Rightarrow> ('p, unit) io" where
  "clear_keys E dsn party label = do {
     logFn (tag party (''WARNING: '' @ label @ '' master key changed '' @ [CHR 0xE2, CHR 0x80, CHR 0x94] @
       '' clearing old derived keys''));
     cleared \<leftarrow> perform (se_world E) (Query dsn ''clear derived keys'');
     on_db dsn (\<lambda>d. ((), snd (ClearDerivedKeys (re_Err cleared) d)))
   }"

definition save_share :: "deployer \<Rightarrow> string \<Rightarrow> KeyShare \<Rightarrow> ('p, err option) io" where
  "save_share E dsn share = do {
     nonce \<leftarrow> try_act (se_world E) RandomNonce;
     saved \<leftarrow> (case nonce of
         Inl e \<Rightarrow> State_Monad.return None
       | Inr n \<Rightarrow> do {
           r \<leftarrow> perform (se_world E) (Query dsn ''save master share'');
           State_Monad.return (re_Err r) });
     on_db dsn (SaveMasterShare (se_aead E) (se_encKey E) (map_sum id re_Data nonce) saved share)
   }"

definition importShare :: "deployer \<Rightarrow> string \<Rightarrow> string \<Rightarrow> string \<Rightarrow> Curve \<Rightarrow> string \<Rightarrow> ('p, unit res) io" where
  "importShare E dsn party path curve label = do {
     file \<leftarrow> try_act (se_world E) (FileRead path);
     (case file of
        Inl e \<Rightarrow> ok ()
      | Inr r \<Rightarrow> (case in_ctx (''parse '' @ label @ '' share'') (se_parse E (re_Data r)) of
          Inl e \<Rightarrow> fail e
        | Inr share \<Rightarrow> do {
            got \<leftarrow> perform (se_world E) (Query dsn ''get master share'');
            changed \<leftarrow> on_db dsn (\<lambda>d. (key_changed E (re_Err got) curve share d, d));
            (if changed then clear_keys E dsn party label else State_Monad.return ());
            saved \<leftarrow> save_share E dsn share;
            (case saved of
               Some m \<Rightarrow> fail (wrap_err (''save '' @ label @ '' share'') m)
             | None \<Rightarrow> do { logFn (tag party (label @ '' master share imported.'')); ok () })
          }))
   }"

definition importSharesToDB :: "deployer \<Rightarrow> string \<Rightarrow> string \<Rightarrow> string \<Rightarrow> ('p, unit res) io" where
  "importSharesToDB E dsn partyDir party =
     try_then (in_context ''connect to database'' (try_act (se_world E) (Connect dsn))) (\<lambda>_.
     try_then (importShare E dsn party (path_join [partyDir, ''ecdsa_share.json'']) CurveSecp256k1 ''ECDSA'') (\<lambda>_.
       importShare E dsn party (path_join [partyDir, ''eddsa_share.json'']) CurveEd25519 ''EdDSA''))"

end
