(* ===== verification/Delivery.thy ===== *)
theory Delivery
  imports Docker
begin

section \<open>What the installer delivers to whom\<close>

text \<open>
  The remote deployment speaks to each server for its own party only: what it sends there, the commands it
  runs and the shares it imports are that party's; the importing of shares keeps derived keys exactly while the
  master key stays; the two configurations meet at one port; and a local deployment reports success only
  after both containers were seen running.
\<close>

subsection \<open>Each server gets its own secrets\<close>

lemma unlogged_reads:
  assumes "unlogged wz = v"
  shows "ecdsa_share_of party wz = ecdsa_share_of party v" "eddsa_share_of party wz = eddsa_share_of party v"
    "buildPartyConfig wz party dir = buildPartyConfig v party dir"
    "cert_of party wz = cert_of party v" "key_of party wz = key_of party v" "wz_CACert wz = wz_CACert v"
    "wz_ServerA wz = wz_ServerA v" "wz_ServerB wz = wz_ServerB v" "wz_CertA wz = wz_CertA v"
    "wz_KeyA wz = wz_KeyA v" "wz_CertB wz = wz_CertB v" "wz_KeyB wz = wz_KeyB v"
  unfolding assms [symmetric] unlogged_def
  by (simp_all add: ecdsa_share_of_def eddsa_share_of_def cert_of_def key_of_def buildPartyConfig_def
      base_config_def party_b_analyzer_def party_b_telegram_def all_interfaces_def GetTransportPort_def Let_def)

text \<open>
  The files of a party: its certificate and key, the authority's certificate, its key shares, and its
  configuration.
\<close>

definition shares_for :: "deployer \<Rightarrow> 'p WizardState \<Rightarrow> string \<Rightarrow> bytes set" where
  "shares_for E v party = {se_share E k | k. ecdsa_share_of party v = Some k \<or> eddsa_share_of party v = Some k}"

definition files_of :: "deployer \<Rightarrow> 'p WizardState \<Rightarrow> string \<Rightarrow> bytes set" where
  "files_of E v party = {cert_of party v, key_of party v, wz_CACert v} \<union> shares_for E v party \<union>
     {se_config E (remote_config (buildPartyConfig v party d) dir osType) | d dir osType. True}"

text \<open>
  The commands that a deployment runs on a server, for a party, the port it listens on, the server's operating
  system and its configuration directory; uploading runs three for each of six files. Nothing else of the wizard
  goes into them.
\<close>

definition uploaded_names :: "string list" where
  "uploaded_names = [''cert.pem'', ''key.pem'', ''ca.pem'', ''config.json'', ''ecdsa_share.json'', ''eddsa_share.json'']"

inductive server_command :: "string \<Rightarrow> string \<Rightarrow> string \<Rightarrow> string \<Rightarrow> string \<Rightarrow> bool" for party port os dir where
  in_path: "server_command party port os dir cmd \<Longrightarrow> server_command party port os dir (with_path os cmd)"
| "server_command party port os dir ''uname -s''"
| "server_command party port os dir ''echo $HOME''"
| "server_command party port os dir (mkdir_command os dir)"
| "server_command party port os dir ''docker --version''"
| "server_command party port os dir ''docker info >/dev/null 2>&1''"
| "server_command party port os dir
     ''cat /etc/os-release 2>/dev/null || cat /etc/redhat-release 2>/dev/null || echo unknown''"
| "server_command party port os dir (docker_install osRelease)"
| "server_command party port os dir ''sudo docker --version''"
| "server_command party port os dir (sudoPrefix os @ ''docker inspect -f '' @ [CHR 0x27] @
     ''{{.State.Running}}'' @ [CHR 0x27] @ '' '' @ (''crypto-claw-postgres-'' @ party) @ '' 2>/dev/null'')"
| "server_command party port os dir (sudoPrefix os @ ''docker rm '' @ (''crypto-claw-postgres-'' @ party) @ '' 2>/dev/null'')"
| "server_command party port os dir (sudoPrefix os @ ''docker run -d --name '' @ (''crypto-claw-postgres-'' @ party) @
     '' -p 5432:5432 -e POSTGRES_USER=crypto_claw -e POSTGRES_PASSWORD=crypto_claw -e POSTGRES_DB='' @
     (''crypto_claw_'' @ party) @ '' --restart unless-stopped postgres:16-alpine'')"
| "server_command party port os dir (sudoPrefix os @ ''docker exec '' @ (''crypto-claw-postgres-'' @ party) @
     '' pg_isready -U crypto_claw'')"
| "server_command party port os dir (sudoPrefix os @ ''docker pull '' @ (dockerImage @ '':party-'' @ party @ ''-latest'') @ '' 2>&1'')"
| in_build: "cmd \<in> set (build_commands party os) \<Longrightarrow> server_command party port os dir cmd"
| "server_command party port os dir (sudoPrefix os @ ''docker stop '' @ container_name party @ '' 2>/dev/null; '' @
     sudoPrefix os @ ''docker rm '' @ container_name party @ '' 2>/dev/null'')"
| "imageTag \<in> {dockerImage @ '':party-'' @ party @ ''-latest'', ''crypto-claw-party-'' @ party @ '':latest''} \<Longrightarrow>
     server_command party port os dir (run_command os (container_name party) dir port imageTag)"
| "server_command party port os dir (sudoPrefix os @ ''docker inspect -f '' @ [CHR 0x27] @
     ''{{.State.Running}}'' @ [CHR 0x27] @ '' '' @ container_name party)"
| "server_command party port os dir (sudoPrefix os @ ''docker logs --tail 20 '' @ container_name party @ '' 2>&1'')"
| "name \<in> set uploaded_names \<Longrightarrow> server_command party port os dir (''mkdir -p '' @ quote_word (path_dir (path_join [dir, name])))"
| "name \<in> set uploaded_names \<Longrightarrow> server_command party port os dir (''cat > '' @ quote_word (path_join [dir, name]))"
| "name \<in> set uploaded_names \<Longrightarrow> server_command party port os dir (''chmod 0600 '' @ quote_word (path_join [dir, name]))"

lemmas server_intros = server_command.intros(1-14,16-)

text \<open>The operating system is one of two, and the directory is fixed or below the home the server reports.\<close>

definition config_dirs :: "world \<Rightarrow> ssh_client \<Rightarrow> string set" where
  "config_dirs w c = {remoteConfigDir} \<union>
     {path_join [trim_space home, ''.crypto-claw''] | home. home \<in> outputs w c ''echo $HOME''}"

definition server_port :: "'p WizardState \<Rightarrow> string \<Rightarrow> string" where
  "server_port v party = (if party = ''b'' then int_dec (GetTransportPort v) else ''8080'')"

definition server_of :: "'p WizardState \<Rightarrow> string \<Rightarrow> SSHConfig" where
  "server_of v party = (if party = ''b'' then wz_ServerB v else wz_ServerA v)"

definition runs_on :: "deployer \<Rightarrow> 'p WizardState \<Rightarrow> string \<Rightarrow> string \<Rightarrow> bool" where
  "runs_on E v party cmd \<longleftrightarrow> (\<exists>os \<in> {''linux'', ''darwin''}.
     \<exists>dir \<in> config_dirs (se_world E) (Addr (server_of v party)).
       server_command party (server_port v party) os dir cmd)"

text \<open>
  The actions that a deployment does for a party: it only speaks to that party's server, which it offers no
  password but its own, runs only these commands, and sends only that party's files; what it writes to
  the installer's own disk are that party's shares; and it only opens that party's database, through a
  tunnel to that server.
\<close>

fun for_party :: "deployer \<Rightarrow> 'p WizardState \<Rightarrow> string \<Rightarrow> action \<Rightarrow> bool" where
  "for_party E v party (FileRead path) = True"
| "for_party E v party (ParseKey b) = True"
| "for_party E v party HomeDir = True"
| "for_party E v party TempDir = True"
| "for_party E v party (Sleep n) = True"
| "for_party E v party RandomNonce = True"
| "for_party E v party (Listen addr) = (addr = ''127.0.0.1:0'')"
| "for_party E v party (Dial addr user ms) = (addr = Addr (server_of v party) \<and>
     user = sh_User (server_of v party) \<and> offers (server_of v party) ms)"
| "for_party E v party (NewSession c) = (c = Addr (server_of v party))"
| "for_party E v party (RunOn c cmd) = (c = Addr (server_of v party) \<and> runs_on E v party cmd)"
| "for_party E v party (StdinPipe c) = (c = Addr (server_of v party))"
| "for_party E v party (StartOn c cmd) = (c = Addr (server_of v party) \<and> runs_on E v party cmd)"
| "for_party E v party (SendInput c data) = (c = Addr (server_of v party) \<and> data \<in> files_of E v party)"
| "for_party E v party (WaitOn c) = (c = Addr (server_of v party))"
| "for_party E v party (TunnelTo c addr) = (c = Addr (server_of v party) \<and> addr = ''127.0.0.1:5432'')"
| "for_party E v party (FileWrite path data) = (data \<in> shares_for E v party)"
| "for_party E v party (Connect dsn) = (\<exists>port. dsn = party_dsn port party)"
| "for_party E v party (Query dsn what) = (\<exists>port. dsn = party_dsn port party)"
| "for_party E v party a = False"

text \<open>What a predicate on actions must allow for the steps on a server.\<close>

definition lets :: "(action \<Rightarrow> bool) \<Rightarrow> ssh_client \<Rightarrow> (string \<Rightarrow> bool) \<Rightarrow> bool" where
  "lets p c P \<longleftrightarrow> p (NewSession c) \<and> p (StdinPipe c) \<and> p (WaitOn c) \<and>
     (\<forall>cmd. P cmd \<longrightarrow> p (RunOn c cmd) \<and> p (StartOn c cmd))"

lemma lets_all: "lets (\<lambda>_. True) c P"
  by (simp add: lets_def)

lemma letsD:
  "lets p c P \<Longrightarrow> p (NewSession c)" "lets p c P \<Longrightarrow> p (StdinPipe c)" "lets p c P \<Longrightarrow> p (WaitOn c)"
  "lets p c P \<Longrightarrow> P cmd \<Longrightarrow> p (RunOn c cmd)" "lets p c P \<Longrightarrow> P cmd \<Longrightarrow> p (StartOn c cmd)"
  by (simp_all add: lets_def)

lemma lets_for_party:
  "os \<in> {''linux'', ''darwin''} \<Longrightarrow> dir \<in> config_dirs (se_world E) (Addr (server_of v party)) \<Longrightarrow>
     lets (for_party E v party) (Addr (server_of v party)) (server_command party (server_port v party) os dir)"
  by (auto simp: lets_def runs_on_def)

subsubsection \<open>The steps on a server\<close>

lemma only_sshRunWithPath [only_intros]:
  "p (NewSession c) \<Longrightarrow> p (RunOn c (with_path osType cmd)) \<Longrightarrow> only v p (sshRunWithPath w c osType cmd)"
  unfolding sshRunWithPath_def by (intro only_intros)

lemma only_remoteOS [only_intros]:
  "p (NewSession c) \<Longrightarrow> p (RunOn c ''uname -s'') \<Longrightarrow> only v p (remoteOS w c)"
  unfolding remoteOS_def by (intro only_intros)

lemma only_remoteConfigPath [only_intros]:
  "p (NewSession c) \<Longrightarrow> p (RunOn c ''echo $HOME'') \<Longrightarrow> only v p (remoteConfigPath w osType c)"
  unfolding remoteConfigPath_def by (intro only_intros)

lemma only_ensureDocker [only_intros]:
  assumes "lets p c (server_command party port osType dir)"
  shows "only v p (ensureDocker w c party osType)"
  unfolding ensureDocker_def install_docker_def by (intro only_intros letsD [OF assms] server_intros)

lemma only_wait_ready [only_intros]:
  "only v p check \<Longrightarrow> p (Sleep 1) \<Longrightarrow> only v p (wait_ready w n check)"
  by (induction n) (auto intro!: only_intros)

lemma only_ensureRemotePostgres [only_intros]:
  assumes "lets p c (server_command party port osType dir)" and "p (Sleep 1)"
  shows "only v p (ensureRemotePostgres w c party (sudoPrefix osType) osType)"
  unfolding ensureRemotePostgres_def Let_def by (intro only_intros letsD [OF assms(1)] server_intros assms(2))

lemma only_buildFromSource [only_intros]:
  assumes "lets p c (server_command party port osType dir)"
  shows "only v p (buildFromSource w c party osType)"
  unfolding buildFromSource_def by (intro only_intros letsD [OF assms] in_path in_build)

lemma does_get_image:
  assumes "lets p c (server_command party port osType dir)"
  shows "does v p (get_image w c party osType) (\<lambda>r. \<forall>i. r = Inr i \<longrightarrow>
    i \<in> {dockerImage @ '':party-'' @ party @ ''-latest'', ''crypto-claw-party-'' @ party @ '':latest''})"
proof -
  have b: "only v p (in_context ''build from source'' (buildFromSource w c party osType))"
    by (intro only_intros, rule assms)
  have s: "only v p (sshRunWithPath w c osType (sudoPrefix osType @ ''docker pull '' @
      (dockerImage @ '':party-'' @ party @ ''-latest'') @ '' 2>&1''))"
    by (intro only_intros letsD [OF assms] server_intros)
  show ?thesis unfolding get_image_def Let_def
    by (rule does_bind_only [OF only_logFn], rule does_bind_only [OF s])
      (auto intro!: does_bind_only [OF only_logFn] does_try_only [OF b] does_ok split: prod.split)
qed

lemma only_get_image [only_intros]:
  "lets p c (server_command party port osType dir) \<Longrightarrow> only v p (get_image w c party osType)"
  by (rule does_only [OF does_get_image])

lemma only_start_party:
  assumes "lets p c (server_command party port osType dir)" and "p (Sleep 2)"
    and "imageTag \<in> {dockerImage @ '':party-'' @ party @ ''-latest'', ''crypto-claw-party-'' @ party @ '':latest''}"
  shows "only v p (start_party w c party osType dir port imageTag)"
  unfolding start_party_def Let_def by (intro only_intros letsD [OF assms(1)] server_intros assms(2,3))

lemma only_upload_named:
  assumes "lets p c (server_command party port osType dir)" and "name \<in> set uploaded_names"
    and "p (SendInput c content)"
  shows "only v p (SSHUploadFile w c content (path_join [dir, name]))"
  by (intro only_intros letsD [OF assms(1)] server_intros assms(2,3))

lemma only_upload_files:
  assumes perm: "\<And>xs. set (se_perm E xs) \<subseteq> set xs"
    and l: "lets p c (server_command party port osType dir)"
    and d: "\<And>data. data \<in> {cert, key, caCert, se_config E (remote_config cfg dir osType)} \<Longrightarrow> p (SendInput c data)"
  shows "only v p (upload_files E c party cfg dir osType cert key caCert)"
proof -
  have f: "only v p (case x of (path, data) \<Rightarrow> in_context (''upload '' @ path) (SSHUploadFile (se_world E) c data path))"
    if x: "x \<in> set (se_perm E [(path_join [dir, ''cert.pem''], cert), (path_join [dir, ''key.pem''], key),
         (path_join [dir, ''ca.pem''], caCert)])" for x
  proof -
    obtain name data where "x = (path_join [dir, name], data)" "name \<in> set uploaded_names" "data \<in> {cert, key, caCert}"
      using subsetD [OF perm x] by (auto simp: uploaded_names_def)
    then show ?thesis using d by (auto intro!: only_in_context only_upload_named [OF l])
  qed
  then show ?thesis unfolding upload_files_def
    by (intro only_bind only_logFn only_try_then only_for_each only_in_context only_upload_named [OF l] f d)
      (simp_all add: uploaded_names_def)
qed

subsubsection \<open>One party\<close>

lemma for_party_asks:
  "for_party E v party (NewSession (Addr (server_of v party)))"
  "for_party E v party (RunOn (Addr (server_of v party)) ''uname -s'')"
  "for_party E v party (RunOn (Addr (server_of v party)) ''echo $HOME'')"
proof -
  have "remoteConfigDir \<in> config_dirs (se_world E) (Addr (server_of v party))" by (simp add: config_dirs_def)
  from lets_for_party [OF _ this, of "''linux''"]
  have l: "lets (for_party E v party) (Addr (server_of v party))
      (server_command party (server_port v party) ''linux'' remoteConfigDir)" by simp
  show "for_party E v party (NewSession (Addr (server_of v party)))"
    "for_party E v party (RunOn (Addr (server_of v party)) ''uname -s'')"
    "for_party E v party (RunOn (Addr (server_of v party)) ''echo $HOME'')"
    by (intro letsD [OF l] server_intros)+
qed

lemma for_party_dials: "dials (server_of v party) a \<Longrightarrow> for_party E v party a"
  by (cases a) (auto simp: dials_def)

lemma does_remoteOS:
  "does v (for_party E v party) (remoteOS (se_world E) (Addr (server_of v party))) (\<lambda>os. os \<in> {''linux'', ''darwin''})"
  unfolding remoteOS_def
  by (rule does_bind_only, intro only_intros for_party_asks) (auto intro!: does_return split: prod.split)

lemma does_remoteConfigPath:
  "does v (for_party E v party) (remoteConfigPath (se_world E) osType (Addr (server_of v party)))
     (\<lambda>dir. dir \<in> config_dirs (se_world E) (Addr (server_of v party)))"
proof -
  have h: "does v (for_party E v party) (SSHRunCommand (se_world E) (Addr (server_of v party)) ''echo $HOME'')
      (\<lambda>(out, errout, e). out \<in> outputs (se_world E) (Addr (server_of v party)) ''echo $HOME'')"
    by (rule does_SSHRunCommand; rule for_party_asks)
  have "does v (for_party E v party) (State_Monad.bind
      (SSHRunCommand (se_world E) (Addr (server_of v party)) ''echo $HOME'')
      (\<lambda>(home, errout, e). State_Monad.return (path_join [trim_space home, ''.crypto-claw''])))
      (\<lambda>dir. dir \<in> config_dirs (se_world E) (Addr (server_of v party)))"
    by (rule does_bind [OF h]) (auto intro!: does_return simp: config_dirs_def)
  then show ?thesis unfolding remoteConfigPath_def
    by (auto intro!: does_return simp: config_dirs_def)
qed

lemma only_DeployParty:
  assumes perm: "\<And>xs. set (se_perm E xs) \<subseteq> set xs"
    and files: "{cert, key, caCert} \<subseteq> files_of E v party"
    and config: "\<And>d t. se_config E (remote_config cfg d t) \<in> files_of E v party"
    and port: "listen_port party cfg = server_port v party"
  shows "only v (for_party E v party) (DeployParty E (Addr (server_of v party)) party cfg cert key caCert)"
  unfolding only_def DeployParty_def Let_def port
proof (rule does_bind [OF does_remoteOS], rule does_bind [OF does_remoteConfigPath], fold only_def)
  fix os dir
  let ?c = "Addr (server_of v party)"
  assume "os \<in> {''linux'', ''darwin''}" and "dir \<in> config_dirs (se_world E) ?c"
  note l = lets_for_party [OF this]
  have data: "for_party E v party (SendInput ?c data)"
    if "data \<in> {cert, key, caCert, se_config E (remote_config cfg dir os)}" for data
    using that files config by auto
  have img: "only v (for_party E v party) (try_then (get_image (se_world E) ?c party os)
      (\<lambda>imageTag. start_party (se_world E) ?c party os dir (server_port v party) imageTag))"
    unfolding only_def
    by (rule does_try_then [OF does_get_image [OF l]])
      (auto simp: only_def [symmetric] intro!: only_start_party [OF l])
  have a: "only v (for_party E v party) (in_context ''ensure docker'' (ensureDocker (se_world E) ?c party os))"
    "only v (for_party E v party) (in_context ''create config dir'' (run_ok (se_world E) ?c (mkdir_command os dir)))"
    "only v (for_party E v party) (upload_files E ?c party cfg dir os cert key caCert)"
    by (intro only_in_context only_ensureDocker [OF l] only_run_ok letsD [OF l] server_intros
        only_upload_files [OF perm l data])+
  have b: "only v (for_party E v party)
      (in_context ''ensure postgres'' (ensureRemotePostgres (se_world E) ?c party (sudoPrefix os) os))"
    by (intro only_in_context only_ensureRemotePostgres [OF l]) simp
  show "only v (for_party E v party) (do {
     logFn (tag party (''Detected remote OS: '' @ os));
     logFn (tag party ''Checking for Docker installation...'');
     try_then (in_context ''ensure docker'' (ensureDocker (se_world E) ?c party os)) (\<lambda>_. do {
     logFn (tag party ''Setting up PostgreSQL...'');
     try_then (in_context ''ensure postgres'' (ensureRemotePostgres (se_world E) ?c party (sudoPrefix os) os)) (\<lambda>_. do {
     logFn (tag party (''Creating config directory '' @ dir @ ''...''));
     try_then (in_context ''create config dir'' (run_ok (se_world E) ?c (mkdir_command os dir))) (\<lambda>_.
     try_then (upload_files E ?c party cfg dir os cert key caCert) (\<lambda>_.
     try_then (get_image (se_world E) ?c party os) (\<lambda>imageTag.
       start_party (se_world E) ?c party os dir (server_port v party) imageTag))) }) }) })"
    by (rule only_bind [OF only_logFn], rule only_bind [OF only_logFn], rule only_try_then [OF a(1)],
        rule only_bind [OF only_logFn], rule only_try_then [OF b], rule only_bind [OF only_logFn],
        rule only_try_then [OF a(2)], rule only_try_then [OF a(3)], rule img)
qed

lemma files_of_intros:
  "{cert_of party v, key_of party v, wz_CACert v} \<subseteq> files_of E v party"
  "se_config E (remote_config (buildPartyConfig v party d) dir osType) \<in> files_of E v party"
  "shares_for E v party \<subseteq> files_of E v party"
  unfolding files_of_def by blast+

lemma shares_for_intros:
  "unlogged wz = v \<Longrightarrow> ecdsa_share_of party wz = Some k \<Longrightarrow> se_share E k \<in> shares_for E v party"
  "unlogged wz = v \<Longrightarrow> eddsa_share_of party wz = Some k \<Longrightarrow> se_share E k \<in> shares_for E v party"
  using unlogged_reads(1,2) [of wz v party] by (auto simp: shares_for_def)

lemma int_dec_plain: "c \<in> set (int_dec i) \<Longrightarrow> is_digit c \<or> c = CHR ''-''"
  using nat_dec_digits by (auto simp: int_dec_def list_all_iff split: if_splits)

lemma split_port_plain:
  assumes "\<forall>c \<in> set host. c \<noteq> CHR '':'' \<and> c \<noteq> CHR ''['' \<and> c \<noteq> CHR '']''"
    and "\<forall>c \<in> set p. c \<noteq> CHR '':'' \<and> c \<noteq> CHR ''['' \<and> c \<noteq> CHR '']''"
  shows "split_port (host @ '':'' @ p) = Some p"
proof -
  have t: "takeWhile (\<lambda>c. c \<noteq> CHR '':'') (rev p @ CHR '':'' # rev host) = rev p"
    using assms(2) by (subst takeWhile_append2) auto
  show ?thesis using assms by (simp add: split_port_def Let_def t list_all_iff)
qed

lemma split_all_interfaces: "split_port (''0.0.0.0:'' @ int_dec i) = Some (int_dec i)"
proof -
  have "\<forall>c \<in> set (int_dec i). c \<noteq> CHR '':'' \<and> c \<noteq> CHR ''['' \<and> c \<noteq> CHR '']''"
    using int_dec_plain [of _ i] by (force simp: is_digit_def)
  from split_port_plain [OF _ this, of "''0.0.0.0''"] show ?thesis by simp
qed

lemma listen_port_built: "listen_port party (buildPartyConfig s party d) = server_port s party"
  using split_all_interfaces
  by (simp add: listen_port_def server_port_def buildPartyConfig_def all_interfaces_def Let_def)

text \<open>A first step that fails ends the work on a party.\<close>

lemma does_logged_fail: "does v p (do { logFn msg; fail e }) (\<lambda>r. \<forall>x. r = Inr x \<longrightarrow> R x)"
  by (rule does_bind_only [OF only_logFn]) (rule does_ok, simp)

lemma does_case_res:
  "(\<And>e. does v p (f e) Q) \<Longrightarrow> (\<And>x. does v p (g x) Q) \<Longrightarrow>
     does v p (case r of Inl e \<Rightarrow> f e | Inr x \<Rightarrow> g x) Q"
  by (cases r) simp_all

lemma does_connect_party:
  "does v (for_party E v party) (connect_party E name (server_of v party))
     (\<lambda>r. \<forall>c. r = Inr c \<longrightarrow> c = Addr (server_of v party))"
  unfolding connect_party_def Let_def
  by (rule does_bind [OF does_mono [OF does_SSHConnect for_party_dials]])
    (auto intro: does_logged_fail does_ok split: sum.split)

lemma does_deploy_party:
  assumes perm: "\<And>xs. set (se_perm E xs) \<subseteq> set xs" and files: "{cert, key, caCert} \<subseteq> files_of E v party"
  shows "does v (for_party E v party) (deploy_party E name party (server_of v party) cert key caCert)
    (\<lambda>r. \<forall>x. r = Inr x \<longrightarrow> fst x = Addr (server_of v party) \<and>
      snd x \<in> config_dirs (se_world E) (Addr (server_of v party)))"
  unfolding deploy_party_def Let_def
proof (rule does_bind_only [OF only_logFn], rule does_try_then [OF does_connect_party])
  fix c assume c: "c = Addr (server_of v party)"
  have w: "does v (for_party E v party) (wizard (\<lambda>s. buildPartyConfig s party dir))
      (\<lambda>cfg. cfg = buildPartyConfig v party dir)" for dir
    by (rule does_wizard, rule unlogged_reads(3))
  have d: "only v (for_party E v party) (DeployParty E c party (buildPartyConfig v party dir) cert key caCert)" for dir
    unfolding c by (rule only_DeployParty [OF perm files files_of_intros(2) listen_port_built])
  show "does v (for_party E v party)
    (do {
       osType \<leftarrow> remoteOS (se_world E) c;
       certDir \<leftarrow> remoteConfigPath (se_world E) osType c;
       cfg \<leftarrow> wizard (\<lambda>s. buildPartyConfig s party certDir);
       r \<leftarrow> DeployParty E c party cfg cert key caCert;
       (case r of
          Inl e \<Rightarrow> do { logFn (''ERROR: '' @ wrap_err (''deploy Party '' @ name) e);
                      fail (wrap_err (''deploy Party '' @ name) e) }
        | Inr _ \<Rightarrow> ok (c, certDir)) })
    (\<lambda>r. \<forall>x. r = Inr x \<longrightarrow> fst x = Addr (server_of v party) \<and>
      snd x \<in> config_dirs (se_world E) (Addr (server_of v party)))"
    by (rule does_bind [OF does_remoteOS [where E = E and v = v and party = party, folded c]],
        rule does_bind [OF does_remoteConfigPath [where E = E and v = v and party = party, folded c]],
        rule does_bind [OF w], hypsubst, rule does_bind_only [OF d], rule does_case_res)
      (rule does_logged_fail, rule does_ok, simp add: c)
qed simp

lemma only_upload_share:
  assumes "lets p c (server_command party port os dir)" and "name \<in> set uploaded_names"
    and "\<And>k. share = Some k \<Longrightarrow> p (SendInput c (se_share E k))"
  shows "only v p (upload_share E c dir name label share)"
  unfolding upload_share_def using assms(3)
  by (cases share) (auto intro!: only_intros(2,3) only_in_context only_upload_named [OF assms(1,2)])

lemma only_uploadKeyShares:
  assumes dir: "dir \<in> config_dirs (se_world E) (Addr (server_of v party))"
  shows "only v (for_party E v party) (uploadKeyShares E (Addr (server_of v party)) party dir)"
proof -
  let ?c = "Addr (server_of v party)"
  have l: "lets (for_party E v party) ?c (server_command party (server_port v party) ''linux'' dir)"
    using dir by (intro lets_for_party) simp_all
  have send: "for_party E v party (SendInput ?c data)" if "data \<in> shares_for E v party" for data
    using that files_of_intros(3) by auto
  have n: "''ecdsa_share.json'' \<in> set uploaded_names" "''eddsa_share.json'' \<in> set uploaded_names"
    by (simp_all add: uploaded_names_def)
  show ?thesis unfolding uploadKeyShares_def
    by (rule only_bind_wizard, rule only_bind_wizard, rule only_try_then;
        intro only_upload_share [OF l] n send) (rule shares_for_intros; assumption)+
qed

subsubsection \<open>Importing\<close>

lemma only_importShare [only_intros]:
  assumes "p RandomNonce" and "\<And>what. p (Query dsn what)" and "\<And>f. p (FileRead f)"
  shows "only v p (importShare E dsn party path curve label)"
  unfolding importShare_def clear_keys_def save_share_def
  by (intro only_intros assms)

lemma only_importSharesToDB [only_intros]:
  assumes "p RandomNonce" and "\<And>what. p (Query dsn what)" and "\<And>f. p (FileRead f)" and "p (Connect dsn)"
  shows "only v p (importSharesToDB E dsn dir party)"
  unfolding importSharesToDB_def by (intro only_intros assms)

lemma only_write_temp [only_intros]:
  "(\<And>k. share = Some k \<Longrightarrow> p (FileWrite (path_join [dir, name]) (se_share E k))) \<Longrightarrow>
     only v p (write_temp E dir name share)"
  unfolding write_temp_def by (cases share) (auto intro!: only_intros)

lemma only_importRemoteShares:
  "only v (for_party E v party) (importRemoteShares E (Addr (server_of v party)) party)"
proof -
  have f: "for_party E v party (FileWrite path data)" if "data \<in> shares_for E v party" for path data
    using that by simp
  have i: "only v (for_party E v party) (in_context ''import shares''
      (importSharesToDB E (party_dsn port party) dir party))" for port dir
    by (intro only_in_context only_importSharesToDB) auto
  have l: "only v (for_party E v party) (do { logFn msg; ok () })" for msg
    by (intro only_intros)
  have t: "only v (for_party E v party) (in_context msg (try_act (se_world E) a))"
    if "for_party E v party a" for msg a
    using that by (intro only_intros)
  show ?thesis unfolding importRemoteShares_def Let_def
    by (rule only_try_then [OF t], simp, rule only_try_then [OF t], simp, rule only_try_then [OF t], simp,
        rule only_bind_wizard, rule only_bind_wizard, rule only_bind, rule only_write_temp, rule f,
        rule shares_for_intros, assumption, assumption, rule only_bind, rule only_write_temp, rule f,
        rule shares_for_intros, assumption, assumption, rule only_try_then [OF i], rule l)
qed

subsubsection \<open>Parties in turn\<close>

text \<open>
  A computation whose actions fall into consecutive pieces, each allowed by the predicate for that piece; a
  computation that stops early leaves the last ones empty.
\<close>

definition in_turn :: "'p WizardState \<Rightarrow> (action \<Rightarrow> bool) list \<Rightarrow> ('p, 'a) io \<Rightarrow> ('a \<Rightarrow> bool) \<Rightarrow> bool" where
  "in_turn v ps m Q \<longleftrightarrow> (\<forall>s. unlogged (sy_wz s) = v \<longrightarrow>
     (case run_state m s of (x, s') \<Rightarrow> Q x \<and> unlogged (sy_wz s') = v \<and>
        (\<exists>ass. sy_trace s' = sy_trace s @ concat ass \<and> list_all2 list_all ps ass)))"

lemma in_turn_one: "does v p m Q \<Longrightarrow> in_turn v [p] m Q"
  unfolding in_turn_def does_def
  by (fastforce intro: exI [of _ "[as]" for as])

lemma in_turn_silent: "does v (\<lambda>_. False) m Q \<Longrightarrow> in_turn v [] m Q"
  unfolding in_turn_def does_def
  by (fastforce simp: list_all_iff)

lemma in_turn_return: "Q x \<Longrightarrow> in_turn v ps (State_Monad.return x) Q"
proof -
  have "list_all2 list_all ps (map (\<lambda>_. []) ps)" by (simp add: list_all2_conv_all_nth)
  moreover have "concat (map (\<lambda>_. [] :: action list) ps) = []" by simp
  ultimately show "Q x \<Longrightarrow> ?thesis" unfolding in_turn_def by (auto intro!: exI [of _ "map (\<lambda>_. []) ps"])
qed

lemma in_turn_bind:
  fixes m :: "('p, 'a) io"
  assumes "in_turn v ps m R" and "\<And>x. R x \<Longrightarrow> in_turn v qs (f x) Q"
  shows "in_turn v (ps @ qs) (State_Monad.bind m f) Q"
  unfolding in_turn_def
proof (intro allI impI)
  fix s :: "'p sys" assume v: "unlogged (sy_wz s) = v"
  obtain x s1 where m: "run_state m s = (x, s1)" by fastforce
  from assms(1) m v obtain as where a: "R x" "unlogged (sy_wz s1) = v"
    "sy_trace s1 = sy_trace s @ concat as" "list_all2 list_all ps as"
    unfolding in_turn_def by fastforce
  obtain y s2 where f: "run_state (f x) s1 = (y, s2)" by fastforce
  from assms(2) [OF a(1)] f a(2) obtain bs where b: "Q y" "unlogged (sy_wz s2) = v"
    "sy_trace s2 = sy_trace s1 @ concat bs" "list_all2 list_all qs bs"
    unfolding in_turn_def by fastforce
  have "sy_trace s2 = sy_trace s @ concat (as @ bs) \<and> list_all2 list_all (ps @ qs) (as @ bs)"
    using a b by (simp add: list_all2_appendI)
  then have "\<exists>ass. sy_trace s2 = sy_trace s @ concat ass \<and> list_all2 list_all (ps @ qs) ass" by blast
  then show "case run_state (State_Monad.bind m f) s of (x, s') \<Rightarrow> Q x \<and> unlogged (sy_wz s') = v \<and>
      (\<exists>ass. sy_trace s' = sy_trace s @ concat ass \<and> list_all2 list_all (ps @ qs) ass)"
    using b(1,2) f m by simp
qed

lemma in_turn_try:
  assumes "in_turn v ps m (\<lambda>r. \<forall>x. r = Inr x \<longrightarrow> R x)" and "\<And>x. R x \<Longrightarrow> in_turn v qs (f x) Q"
    and "\<And>e. Q (Inl e)"
  shows "in_turn v (ps @ qs) (try_then m f) Q"
  unfolding try_then_def
  by (rule in_turn_bind [OF assms(1)]) (auto intro: in_turn_return assms simp: fail_def split: sum.split)

lemma in_turn_log: "in_turn v qs m Q \<Longrightarrow> in_turn v qs (State_Monad.bind (logFn msg) (\<lambda>_. m)) Q"
  using in_turn_bind [OF in_turn_silent, of v "logFn msg" "\<lambda>_. True" qs "\<lambda>_. m" Q] only_logFn
  unfolding only_def by fastforce

lemma in_turn_both:
  assumes "only v p m" "only v q n"
  shows "in_turn v [p, q] (first_error msgA msgB (both m n)) (\<lambda>r. \<forall>x. r = Inr x \<longrightarrow> True)"
proof -
  have "in_turn v ([q] @ []) (do { b \<leftarrow> n; State_Monad.return (a, b) }) (\<lambda>_. True)" for a
    by (rule in_turn_bind [OF in_turn_one [OF assms(2) [unfolded only_def]]]) (simp add: in_turn_return)
  then have "in_turn v ([p] @ [q]) (both m n) (\<lambda>_. True)" unfolding both_def
    by (intro in_turn_bind [OF in_turn_one [OF assms(1) [unfolded only_def]]]) simp
  moreover have "only v (\<lambda>_. False) (case ab of (a, b) \<Rightarrow> try_then (logged msgA (State_Monad.return a))
      (\<lambda>_. logged msgB (State_Monad.return b)))" for ab
    unfolding logged_def by (intro only_intros)
  ultimately have "in_turn v (([p] @ [q]) @ []) (first_error msgA msgB (both m n)) (\<lambda>_. True)"
    unfolding first_error_def only_def by (intro in_turn_bind [where R = "\<lambda>_. True", OF _ in_turn_silent])
  then show ?thesis by simp
qed

lemma in_turn_deployRemote:
  assumes perm: "\<And>xs. set (se_perm E xs) \<subseteq> set xs"
  shows "in_turn v (map (for_party E v) [''b'', ''a'', ''a'', ''b'', ''a'', ''b'']) (deployRemote E) (\<lambda>_. True)"
proof -
  let ?a = "for_party E v ''a''" and ?b = "for_party E v ''b''"
  let ?A = "Addr (server_of v ''a'')" and ?B = "Addr (server_of v ''b'')"
  have servers: "wz_ServerA v = server_of v ''a''" "wz_ServerB v = server_of v ''b''"
    by (simp_all add: server_of_def)
  have files: "{wz_CertA v, wz_KeyA v, wz_CACert v} \<subseteq> files_of E v ''a''"
    "{wz_CertB v, wz_KeyB v, wz_CACert v} \<subseteq> files_of E v ''b''"
    by (simp_all add: files_of_def cert_of_def key_of_def)
  note deploy = in_turn_one [OF does_deploy_party [OF perm files(1)]] in_turn_one [OF does_deploy_party [OF perm files(2)]]
  have importing: "in_turn v ([?a, ?b] @ []) (try_then (first_error ''import shares Party A'' ''import shares Party B''
      (both (importRemoteShares E ?A ''a'') (importRemoteShares E ?B ''b'')))
      (\<lambda>_. do { logFn ''Remote deployment complete.''; ok () })) (\<lambda>_. True)"
    by (rule in_turn_try [OF in_turn_both [OF only_importRemoteShares only_importRemoteShares]])
      (simp_all add: in_turn_log in_turn_return ok_def)
  have uploads: "in_turn v ([?a, ?b] @ [?a, ?b]) (try_then (first_error ''upload key shares to Party A'' ''upload key shares to Party B''
      (both (uploadKeyShares E ?A ''a'' dirA) (uploadKeyShares E ?B ''b'' dirB))) (\<lambda>_. do {
      logFn ''Importing key shares into databases...'';
      try_then (first_error ''import shares Party A'' ''import shares Party B''
        (both (importRemoteShares E ?A ''a'') (importRemoteShares E ?B ''b'')))
        (\<lambda>_. do { logFn ''Remote deployment complete.''; ok () }) })) (\<lambda>_. True)"
    if "dirA \<in> config_dirs (se_world E) ?A" "dirB \<in> config_dirs (se_world E) ?B" for dirA dirB
    by (rule in_turn_try [OF in_turn_both [OF only_uploadKeyShares [OF that(1)] only_uploadKeyShares [OF that(2)]]])
      (use importing in \<open>simp_all add: in_turn_log\<close>)
  have "in_turn v ([?b] @ [?a] @ [?a, ?b] @ [?a, ?b])
    (try_then (deploy_party E ''B'' ''b'' (wz_ServerB v) (wz_CertB v) (wz_KeyB v) (wz_CACert v)) (\<lambda>(cB, dirB).
     try_then (deploy_party E ''A'' ''a'' (wz_ServerA v) (wz_CertA v) (wz_KeyA v) (wz_CACert v)) (\<lambda>(cA, dirA). do {
       logFn ''Uploading key shares...'';
       try_then (first_error ''upload key shares to Party A'' ''upload key shares to Party B''
         (both (uploadKeyShares E cA ''a'' dirA) (uploadKeyShares E cB ''b'' dirB))) (\<lambda>_. do {
       logFn ''Importing key shares into databases...'';
       try_then (first_error ''import shares Party A'' ''import shares Party B''
         (both (importRemoteShares E cA ''a'') (importRemoteShares E cB ''b''))) (\<lambda>_. do {
       logFn ''Remote deployment complete.'';
       ok () }) }) }))) (\<lambda>_. True)"
    unfolding servers
    by (rule in_turn_try [OF deploy(2)], clarify, rule in_turn_try [OF deploy(1)], clarify)
      (use uploads in \<open>auto intro!: in_turn_log\<close>)
  then have rest: "in_turn v (map (for_party E v) [''b'', ''a'', ''a'', ''b'', ''a'', ''b''])
    (try_then (deploy_party E ''B'' ''b'' (wz_ServerB wz) (wz_CertB wz) (wz_KeyB wz) (wz_CACert wz)) (\<lambda>(cB, dirB).
     try_then (deploy_party E ''A'' ''a'' (wz_ServerA wz) (wz_CertA wz) (wz_KeyA wz) (wz_CACert wz)) (\<lambda>(cA, dirA). do {
       logFn ''Uploading key shares...'';
       try_then (first_error ''upload key shares to Party A'' ''upload key shares to Party B''
         (both (uploadKeyShares E cA ''a'' dirA) (uploadKeyShares E cB ''b'' dirB))) (\<lambda>_. do {
       logFn ''Importing key shares into databases...'';
       try_then (first_error ''import shares Party A'' ''import shares Party B''
         (both (importRemoteShares E cA ''a'') (importRemoteShares E cB ''b''))) (\<lambda>_. do {
       logFn ''Remote deployment complete.'';
       ok () }) }) }))) (\<lambda>_. True)" if "unlogged wz = v" for wz
    unfolding unlogged_reads(6-12) [OF that] by simp
  have w: "in_turn v [] (wizard id) (\<lambda>wz. unlogged wz = v)"
    by (rule in_turn_silent, rule does_wizard) simp
  from in_turn_bind [OF w rest] show ?thesis unfolding deployRemote_def by simp
qed

lemma for_party_unlogged: "for_party E (unlogged wz) = for_party E wz"
proof (intro ext)
  fix party a
  have s: "server_of (unlogged wz) = server_of wz" "server_port (unlogged wz) = server_port wz"
    by (simp_all add: fun_eq_iff server_of_def server_port_def unlogged_def GetTransportPort_def)
  have sh: "shares_for E (unlogged wz) = shares_for E wz"
    unfolding shares_for_def using unlogged_reads(1,2) [of wz "unlogged wz"] by (simp add: fun_eq_iff)
  have f: "files_of E (unlogged wz) = files_of E wz"
    unfolding files_of_def sh using unlogged_reads(3-6) [of wz "unlogged wz"] by (simp add: fun_eq_iff)
  have r: "runs_on E (unlogged wz) = runs_on E wz" by (simp add: fun_eq_iff runs_on_def s)
  show "for_party E (unlogged wz) party a = for_party E wz party a"
    by (cases a) (simp_all add: s sh f r)
qed


definition quiet_deployer :: "world \<Rightarrow> deployer" where
  "quiet_deployer w = \<lparr>se_world = w, se_perm = rev, se_config = (\<lambda>c. str_bytes (cf_Party c)),
     se_share = ks_Share, se_parse = (\<lambda>b. Inl ''no share''), se_aead = toy_aead, se_encKey = [],
     se_tempDir = ''/tmp''\<rparr>"

definition two_servers :: "nat WizardState" where
  "two_servers = wizard_start\<lparr>wz_ServerA := no_server\<lparr>sh_Host := ''a''\<rparr>,
     wz_ServerB := no_server\<lparr>sh_Host := ''b''\<rparr>, wz_CertA := [1], wz_KeyA := [2],
     wz_CertB := [3], wz_KeyB := [4], wz_CACert := [5], wz_ShareB := Some (demo_share\<lparr>ks_Share := [6]\<rparr>)\<rparr>"

definition before_deploy :: "nat sys" where
  "before_deploy = \<lparr>sy_trace = [], sy_wz = two_servers, sy_db = (\<lambda>dsn. db_empty)\<rparr>"


subsection \<open>Importing a share over an older installation\<close>

lemma run_io:
  "run_state (perform w a) s = (w (sy_trace s) a, s\<lparr>sy_trace := sy_trace s @ [a]\<rparr>)"
  "run_state (try_act w a) s = (checked (w (sy_trace s) a), s\<lparr>sy_trace := sy_trace s @ [a]\<rparr>)"
  "run_state (logFn msg) s = ((), s\<lparr>sy_wz := AppendLog msg (sy_wz s)\<rparr>)"
  "run_state (ok x) s = (Inr x, s)" "run_state (fail e) s = (Inl e, s)"
  "run_state (on_db dsn f) s =
     (fst (f (sy_db s dsn)), s\<lparr>sy_db := (sy_db s)(dsn := snd (f (sy_db s dsn)))\<rparr>)"
  by (simp_all add: perform_def try_act_def logFn_def modify_wizard_def ok_def fail_def on_db_def
      split: prod.split)

lemma select_merged_master:
  "map_option ks_PublicKey (select ks_Curve (ks_Curve share) (upsert ks_Curve merge_master share t)) =
     Some (ks_PublicKey share)"
  by (simp add: find_upsert merge_master_def split: option.split)

lemma run_save_share:
  "(\<forall>x. x \<noteq> dsn \<longrightarrow> sy_db (snd (run_state (save_share E dsn share) s)) x = sy_db s x) \<and>
     db_keys (sy_db (snd (run_state (save_share E dsn share) s)) dsn) = db_keys (sy_db s dsn) \<and>
     (fst (run_state (save_share E dsn share) s) = None \<longrightarrow>
        map_option ks_PublicKey (select ks_Curve (ks_Curve share)
          (db_master (sy_db (snd (run_state (save_share E dsn share) s)) dsn))) = Some (ks_PublicKey share))"
  using select_merged_master [of "share\<lparr>ks_Share := c\<rparr>" for c]
  unfolding save_share_def
  by (simp add: run_io checked_def SaveMasterShare_def split: sum.split option.split)

lemma run_clear_keys:
  "sy_db (snd (run_state (clear_keys E dsn party label) s)) =
     (sy_db s)(dsn := snd (ClearDerivedKeys (re_Err (se_world E (sy_trace s) (Query dsn ''clear derived keys'')))
       (sy_db s dsn)))"
  by (simp add: clear_keys_def run_io)

definition first_query :: "deployer \<Rightarrow> action list \<Rightarrow> string \<Rightarrow> string \<Rightarrow> dbres" where
  "first_query E as dsn what = re_Err (se_world E as (Query dsn what))"

text \<open>
  C21. Importing a share over an older installation keeps the store consistent with the key: when the import
  reports success, the store holds the public key of the file's share for its curve, no other database
  has changed, and the derived keys are gone exactly if the store held a readable share of another
  public key and the clearing of them succeeded. Otherwise they all stay: a failure of the clearing is not
  reported.
\<close>

theorem import_replaces_master:
  assumes run: "run_state (importShare E dsn party path curve label) s = (Inr (), s')"
    and readable: "re_Err (se_world E (sy_trace s) (FileRead path)) = None"
    and parsed: "se_parse E (re_Data (se_world E (sy_trace s) (FileRead path))) = Inr share"
  shows "map_option ks_PublicKey (select ks_Curve (ks_Curve share) (db_master (sy_db s' dsn))) =
      Some (ks_PublicKey share) \<and>
    (\<forall>x. x \<noteq> dsn \<longrightarrow> sy_db s' x = sy_db s x) \<and>
    db_keys (sy_db s' dsn) =
      (if key_changed E (first_query E (sy_trace s @ [FileRead path]) dsn ''get master share'') curve share
          (sy_db s dsn) \<and>
          first_query E (sy_trace s @ [FileRead path, Query dsn ''get master share'']) dsn ''clear derived keys'' = None
       then [] else db_keys (sy_db s dsn))"
proof -
  let ?s1 = "s\<lparr>sy_trace := sy_trace s @ [FileRead path, Query dsn ''get master share'']\<rparr>"
  let ?changed = "key_changed E (first_query E (sy_trace s @ [FileRead path]) dsn ''get master share'') curve
    share (sy_db s dsn)"
  obtain u sc where ck: "run_state (clear_keys E dsn party label) ?s1 = (u, sc)" by (rule prod.exhaust)
  define s2 where "s2 = (if ?changed then sc else ?s1)"
  have dbs: "sy_db s2 = (if ?changed then (sy_db s)(dsn := snd (ClearDerivedKeys (first_query E
      (sy_trace s @ [FileRead path, Query dsn ''get master share'']) dsn ''clear derived keys'') (sy_db s dsn)))
      else sy_db s)"
    using run_clear_keys [of E dsn party label ?s1] by (simp add: s2_def ck first_query_def)
  obtain saved s3 where save: "run_state (save_share E dsn share) s2 = (saved, s3)" by fastforce
  have "saved = None \<and> sy_db s' = sy_db s3"
    using run readable parsed save ck unfolding s2_def
    by (cases ?changed; cases saved) (auto simp: importShare_def run_io checked_def first_query_def)
  then show ?thesis
    using run_save_share [of dsn E share s2] save dbs
    by (auto simp: ClearDerivedKeys_def split: option.splits if_splits)
qed

definition import_world :: world where
  "import_world as a = \<lparr>re_Out = [], re_ErrOut = [], re_Data = replicate 12 0, re_Err = None\<rparr>"

definition import_deployer :: deployer where
  "import_deployer = (quiet_deployer import_world)\<lparr>se_parse := (\<lambda>b. Inr demo_share)\<rparr>"

definition old_install :: "nat sys" where
  "old_install = \<lparr>sy_trace = [], sy_wz = wizard_start, sy_db = (\<lambda>dsn. db_empty\<lparr>
     db_master := [demo_share\<lparr>ks_PublicKey := [0, 0], ks_Share := replicate 12 0 @ [1, 7]\<rparr>],
     db_keys := [desk_key]\<rparr>)\<rparr>"

theorem import_replaces_master_witness:
  "\<exists>s'. run_state (importShare import_deployer ''db'' ''a'' ''f'' CurveSecp256k1 ''ECDSA'') old_install = (Inr (), s') \<and>
     db_keys (sy_db s' ''db'') = [] \<and> db_keys (sy_db s' ''other'') = [desk_key]"
proof -
  let ?E = import_deployer
  have w: "re_Err (se_world ?E as a) = None" "re_Data (se_world ?E as a) = replicate 12 0" for as a
    by (simp_all add: import_deployer_def quiet_deployer_def import_world_def)
  have parsed: "se_parse ?E b = Inr demo_share" for b by (simp add: import_deployer_def)
  have aead: "se_aead ?E = toy_aead" by (simp add: import_deployer_def quiet_deployer_def)
  have pub: "ks_PublicKey demo_share \<noteq> [0, 0]" by (simp add: demo_share_def)
  have ch: "key_changed ?E None CurveSecp256k1 demo_share (sy_db old_install ''db'')"
    using pub by (simp add: key_changed_def GetMasterShare_def select_def old_install_def aead decrypt_def
        NonceSize_def toy_aead_def demo_share_def)
  obtain s' where run: "run_state (importShare ?E ''db'' ''a'' ''f'' CurveSecp256k1 ''ECDSA'') old_install = (Inr (), s')"
    using ch by (simp add: importShare_def run_io checked_def w parsed clear_keys_def save_share_def
        SaveMasterShare_def encrypt_def aead)
  from import_replaces_master [OF run w(1) parsed] run ch show ?thesis
    by (simp add: first_query_def w) (simp add: old_install_def)
qed

subsection \<open>Where the parties meet\<close>

text \<open>
  C22. In a remote deployment the parties meet: Party A dials the host of Party B's server at the transport
  port, Party B listens on that port of all interfaces, and it is the port that is published for its
  container. In a local deployment they meet exactly if the transport port is 9000, because the
  container of Party B publishes 9000 whatever it listens on; the port that a localhost setup leaves is
  443.
\<close>

theorem parties_meet:
  "tp_RemoteAddr (cf_Transport (buildPartyConfig (s\<lparr>wz_LocalMode := False\<rparr>) ''a'' d)) =
     sh_Host (wz_ServerB s) @ '':'' @ int_dec (GetTransportPort s) \<and>
   tp_ListenAddr (cf_Transport (buildPartyConfig s ''b'' d)) = ''0.0.0.0:'' @ int_dec (GetTransportPort s) \<and>
   listen_port ''b'' (buildPartyConfig s ''b'' d) = int_dec (GetTransportPort s) \<and>
   (tp_RemoteAddr (cf_Transport (buildLocalDockerConfig s ''a'')) = docker_host @ '':'' @ local_port ''b'' \<and>
    tp_ListenAddr (cf_Transport (buildLocalDockerConfig s ''b'')) = ''0.0.0.0:'' @ local_port ''b'' \<longleftrightarrow>
      GetTransportPort s = 9000) \<and>
   GetTransportPort (snd (handleLocalhostSetup body wizard_start)) = 443"
proof -
  have "int_dec 9000 = ''9000''" by (simp add: int_dec_def nat_dec.simps digit_char_def) (simp add: char_of_def bit_iff_odd)
  then have nine: "int_dec i = ''9000'' \<longleftrightarrow> i = 9000" for i by (metis parse_bigint_int_dec option.inject)
  have a: "tp_RemoteAddr (cf_Transport (buildPartyConfig (s\<lparr>wz_LocalMode := False\<rparr>) ''a'' d)) =
      sh_Host (wz_ServerB s) @ '':'' @ int_dec (GetTransportPort s)"
    by (simp add: buildPartyConfig_def GetTransportPort_def Let_def)
  have b: "tp_ListenAddr (cf_Transport (buildPartyConfig s ''b'' d)) = ''0.0.0.0:'' @ int_dec (GetTransportPort s)"
    by (simp add: buildPartyConfig_def all_interfaces_def Let_def)
  have la: "tp_RemoteAddr (cf_Transport (buildLocalDockerConfig s ''a'')) =
      docker_host @ '':'' @ int_dec (GetTransportPort s)"
    by (simp add: buildLocalDockerConfig_def Let_def)
  have lb: "tp_ListenAddr (cf_Transport (buildLocalDockerConfig s ''b'')) = ''0.0.0.0:'' @ int_dec (GetTransportPort s)"
    by (simp add: buildLocalDockerConfig_def all_interfaces_def Let_def)
  have port: "local_port ''b'' = ''9000''" by (simp add: local_port_def)
  have "GetTransportPort (snd (handleLocalhostSetup body wizard_start)) = 443"
    by (simp add: handleLocalhostSetup_def GetTransportPort_def wizard_start_def Let_def)
  then show ?thesis
    using a b by (simp only: la lb port listen_port_def split_all_interfaces same_append_eq append_same_eq nine
        option.case if_True simp_thms)
qed

text \<open>Skipping the language model also holds in what is deployed.\<close>

lemma skipped_stays_off:
  assumes "LLMSkip \<in> set qs"
  shows "ac_DisableAI (cf_Analyzer (buildPartyConfig (snd (wizard_run W qs s)) ''b'' d))"
    and "ac_DisableAI (cf_Analyzer (buildLocalDockerConfig (snd (wizard_run W qs s)) ''b''))"
proof -
  have "wz_DisableAI (snd (wizard_run W qs s))" using assms by (simp add: DisableAI_iff_skipped)
  then show "ac_DisableAI (cf_Analyzer (buildPartyConfig (snd (wizard_run W qs s)) ''b'' d))"
    "ac_DisableAI (cf_Analyzer (buildLocalDockerConfig (snd (wizard_run W qs s)) ''b''))"
    by (simp_all add: buildPartyConfig_def buildLocalDockerConfig_def party_b_analyzer_def Let_def)
qed

end
