(* ===== verification/Ceremony.thy ===== *)
theory Ceremony
  imports Tss
begin

section \<open>Generating keys inside the installer\<close>

text \<open>
  \<open>cmd/installer/dkg.go\<close>: both parties of a key generation run in one process over a router of
  channels. The protocol's outcomes are arguments; the router is modelled in full, with its channels of
  1024 messages that appear when a party asks for them.
\<close>

subsection \<open>The router\<close>

type_synonym incoming = "PartyID \<times> bytes"
type_synonym inMemoryRouter = "string \<rightharpoonup> incoming list"

definition newInMemoryRouter :: inMemoryRouter where
  "newInMemoryRouter = Map.empty"

definition forParty :: "PartyID \<Rightarrow> inMemoryRouter \<Rightarrow> inMemoryRouter" where
  "forParty p r = (case r (pid_ID p) of None \<Rightarrow> r(pid_ID p \<mapsto> []) | Some q \<Rightarrow> r)"

definition router_cap :: nat where "router_cap = 1024"

text \<open>A send on a full channel blocks; \<open>None\<close> stands for that.\<close>

definition mem_Send :: "PartyID \<Rightarrow> PartyID \<Rightarrow> bytes \<Rightarrow> inMemoryRouter \<Rightarrow>
    (err option \<times> inMemoryRouter) option" where
  "mem_Send self to msg r =
     (case r (pid_ID to) of
        None \<Rightarrow> Some (Some (''no channel for party '' @ pid_ID to), r)
      | Some q \<Rightarrow> if length q < router_cap then Some (None, r(pid_ID to \<mapsto> q @ [(self, msg)])) else None)"

text \<open>Taking a message from the channel \<open>Receive\<close> returns; an empty or a nil channel blocks.\<close>

definition router_Receive :: "PartyID \<Rightarrow> inMemoryRouter \<Rightarrow> (incoming \<times> inMemoryRouter) option" where
  "router_Receive self r =
     (case r (pid_ID self) of
        Some (m # q) \<Rightarrow> Some (m, r(pid_ID self \<mapsto> q))
      | _ \<Rightarrow> None)"

subsection \<open>The ceremony\<close>

record DKGResult =
  dg_ShareA :: KeyShare
  dg_ShareB :: KeyShare

definition runDKGForCurve :: "KeyShare res \<Rightarrow> KeyShare res \<Rightarrow> DKGResult res" where
  "runDKGForCurve resA resB =
     bind_res (in_ctx ''party A'' resA) (\<lambda>shareA.
     bind_res (in_ctx ''party B'' resB) (\<lambda>shareB. Inr \<lparr>dg_ShareA = shareA, dg_ShareB = shareB\<rparr>))"

text \<open>
  \<open>ctx\<close> is the state of the context when it is looked at for the first and the second time; \<open>dkg\<close> is
  the outcome of the protocol for a curve, a party and what \<open>GetPreParams\<close> gives it. The threshold
  is two of two.
\<close>

definition GetPreParams :: "'p \<Rightarrow> 'p \<Rightarrow> PartyID \<Rightarrow> 'p res" where
  "GetPreParams ppA ppB p =
     (if pid_ID p = ''party-a'' then Inr ppA else if pid_ID p = ''party-b'' then Inr ppB
      else Inl (''no pre-params for party '' @ pid_ID p))"

definition party_a_id :: PartyID where "party_a_id = \<lparr>pid_ID = ''party-a'', pid_Index = 0\<rparr>"
definition party_b_id :: PartyID where "party_b_id = \<lparr>pid_ID = ''party-b'', pid_Index = 1\<rparr>"

definition unless_done :: "err option \<Rightarrow> 'a res \<Rightarrow> 'a res" where
  "unless_done ctx r = (case ctx of Some e \<Rightarrow> Inl e | None \<Rightarrow> r)"

definition RunInstallerDKG :: "(nat \<Rightarrow> err option) \<Rightarrow> 'p res \<Rightarrow> 'p res \<Rightarrow>
    (Curve \<Rightarrow> PartyID \<Rightarrow> (PartyID \<Rightarrow> 'p res) \<Rightarrow> KeyShare res) \<Rightarrow> (DKGResult \<times> DKGResult) res" where
  "RunInstallerDKG ctx resA resB dkg =
     unless_done (ctx 0)
       (bind_res (in_ctx ''generate pre-params for party-a'' resA) (\<lambda>ppA.
        bind_res (in_ctx ''generate pre-params for party-b'' resB) (\<lambda>ppB.
        let run = (\<lambda>curve. runDKGForCurve (dkg curve party_a_id (GetPreParams ppA ppB))
              (dkg curve party_b_id (GetPreParams ppA ppB))) in
        bind_res (in_ctx ''ECDSA DKG'' (run CurveSecp256k1)) (\<lambda>ecdsa.
        unless_done (ctx 1)
          (bind_res (in_ctx ''EdDSA DKG'' (run CurveEd25519)) (\<lambda>eddsa. Inr (ecdsa, eddsa)))))))"

subsection \<open>Delivery\<close>

datatype router_step =
  Register PartyID
| RSend PartyID PartyID bytes
| RReceive PartyID

text \<open>
  A run of steps: what was accepted for a party and what it took, in order; a step that blocks or fails
  changes nothing.
\<close>

fun router_run :: "router_step list \<Rightarrow> inMemoryRouter \<Rightarrow>
    (string \<Rightarrow> incoming list) \<times> (string \<Rightarrow> incoming list) \<times> inMemoryRouter" where
  "router_run [] r = (\<lambda>_. [], \<lambda>_. [], r)"
| "router_run (Register p # ss) r = router_run ss (forParty p r)"
| "router_run (RSend self to msg # ss) r =
     (case mem_Send self to msg r of
        Some (None, r1) \<Rightarrow> (let (sent, got, r2) = router_run ss r1 in
          (sent(pid_ID to := (self, msg) # sent (pid_ID to)), got, r2))
      | _ \<Rightarrow> router_run ss r)"
| "router_run (RReceive self # ss) r =
     (case router_Receive self r of
        Some (m, r1) \<Rightarrow> (let (sent, got, r2) = router_run ss r1 in
          (sent, got(pid_ID self := m # got (pid_ID self)), r2))
      | None \<Rightarrow> router_run ss r)"

definition pending :: "inMemoryRouter \<Rightarrow> string \<Rightarrow> incoming list" where
  "pending r p = (case r p of None \<Rightarrow> [] | Some q \<Rightarrow> q)"

lemma pending_forParty [simp]: "pending (forParty p r) = pending r"
  by (auto simp: pending_def forParty_def split: option.splits)

text \<open>
  Every party takes the messages sent to it, in the order in which they were accepted; what is missing
  is still in its channel.
\<close>

theorem router_delivers_in_order:
  "(case router_run ss r of (sent, got, r') \<Rightarrow> pending r p @ sent p = got p @ pending r' p)"
proof (induction ss arbitrary: r)
  case (Cons s ss)
  note IH = Cons.IH [simplified split_beta]
  show ?case
  proof (cases s)
    case (RSend self to msg)
    show ?thesis
    proof (cases "\<exists>r1. mem_Send self to msg r = Some (None, r1)")
      case True
      then obtain r1 where r1: "mem_Send self to msg r = Some (None, r1)" by blast
      then have "pending r1 p = pending r p @ (if p = pid_ID to then [(self, msg)] else [])"
        by (auto simp: mem_Send_def pending_def split: option.splits if_splits)
      then show ?thesis using IH [of r1] by (auto simp: RSend r1 split_beta)
    next
      case False
      then have "router_run (RSend self to msg # ss) r = router_run ss r"
        by (auto split: option.splits)
      then show ?thesis using IH by (simp add: RSend split_beta)
    qed
  next
    case (RReceive self)
    show ?thesis
    proof (cases "router_Receive self r")
      case (Some mr)
      then obtain m r1 where r1: "router_Receive self r = Some (m, r1)" by (cases mr) auto
      then have "pending r p = (if p = pid_ID self then [m] else []) @ pending r1 p"
        by (auto simp: router_Receive_def pending_def split: option.splits list.splits)
      then show ?thesis using IH [of r1] by (auto simp: RReceive r1 split_beta)
    qed (use IH in \<open>simp add: RReceive split_beta\<close>)
  next
    case (Register q)
    then show ?thesis using IH [of "forParty q r"] by (simp add: split_beta)
  qed
qed (simp add: split_beta)

text \<open>
  The two goroutines register their channels themselves, so a party that is fast enough sends to a
  channel that does not exist yet: the send fails, and so does the ceremony.
\<close>

lemma early_send_fails:
  assumes "pid_ID p \<noteq> pid_ID q"
  shows "mem_Send p q msg (forParty p newInMemoryRouter) =
    Some (Some (''no channel for party '' @ pid_ID q), forParty p newInMemoryRouter)"
  using assms by (simp add: mem_Send_def forParty_def newInMemoryRouter_def)

lemma send_after_both_registered:
  "mem_Send p q msg (forParty q (forParty p newInMemoryRouter)) =
     Some (None, (forParty q (forParty p newInMemoryRouter))(pid_ID q \<mapsto> [(p, msg)]))"
  by (auto simp: mem_Send_def forParty_def newInMemoryRouter_def router_cap_def)

end
