(* ===== verification/Deploy.thy ===== *)
theory Deploy
  imports Delivery Dealer Ceremony
begin

section \<open>The deployment and the update\<close>

text \<open>
  \<open>handleDeploy\<close> and \<open>handleUpdate\<close> of \<open>cmd/installer/handlers.go\<close>: each starts a goroutine whose phases
  run between the requests of the browser, the streaming of logs and the end of the generation of safe
  primes. One phase is one step; the requests that come while a phase runs are taken before or after it.
\<close>

subsection \<open>The phases\<close>

text \<open>What the installer was linked with: the libraries of the wizard, the machines, tss-lib and X.509.\<close>

record ('r, 'pk, 'c, 'i, 'k) installer_env =
  ie_W :: "'r sweeper"
  ie_E :: deployer
  ie_S :: "lib_party list \<Rightarrow> lib_party list"
  ie_ecdsa :: "'pk dealt save_data save_ops"
  ie_eddsa :: "'pk dealt save_data save_ops"
  ie_X :: "('c, 'i, 'k) x509"

text \<open>The outcomes of the random source and the clock in one phase.\<close>

record 'k luck =
  lu_ecdsa :: "nat res list"
  lu_eddsa :: "nat res list"
  lu_keys :: "nat \<Rightarrow> 'k res \<times> nat res"
  lu_now :: int

datatype 'p job =
  Deriving string bool
| Starting MnemonicKeys bool
| Waiting MnemonicKeys bool nat
| Splitting MnemonicKeys bool 'p 'p
| Certifying bool
| Delivering bool
| Updating bool
| Finishing string bool
| Reporting string bool

text \<open>
  A phase gives the next one, or ends the goroutine and with it frees the handler's mutex, or panics, which
  ends the process, or never returns while it has the state's mutex.
\<close>

datatype 'p progress = Next "'p job" | Ended | Crashed | Hung

definition on_wizard :: "('p WizardState \<Rightarrow> 'a \<times> 'p WizardState) \<Rightarrow> ('p, 'a) io" where
  "on_wizard f = State (\<lambda>s. case f (sy_wz s) of (x, wz) \<Rightarrow> (x, s\<lparr>sy_wz := wz\<rparr>))"

definition abort_job :: "string \<Rightarrow> ('p, 'p progress) io" where
  "abort_job msg = do {
     logFn msg;
     modify_wizard (\<lambda>s. s\<lparr>wz_DeployDone := True, wz_DeployFailed := True\<rparr>);
     State_Monad.return Ended }"

definition derive_phase :: "'r sweeper \<Rightarrow> string \<Rightarrow> bool \<Rightarrow> ('p, 'p progress) io" where
  "derive_phase W mnemonic localMode = do {
     logFn ''Deriving keys from mnemonic...'';
     (case DeriveKeysFromMnemonic (sw_b39 W) (sw_ec W) (sw_hmac W) (sw_edPublic W) (sw_sha512 W) mnemonic of
        Inl e \<Rightarrow> abort_job (''ERROR: derive keys: '' @ e)
      | Inr keys \<Rightarrow> State_Monad.return (Next (Starting keys localMode))) }"

definition params_ready :: "MnemonicKeys \<Rightarrow> bool \<Rightarrow> 'p \<Rightarrow> 'p \<Rightarrow> ('p, 'p progress) io" where
  "params_ready keys localMode a b = do {
     logFn ''Cryptographic parameters ready.'';
     State_Monad.return (Next (Splitting keys localMode a b)) }"

definition start_phase :: "MnemonicKeys \<Rightarrow> bool \<Rightarrow> ('p, 'p progress) io" where
  "start_phase keys localMode = do {
     r \<leftarrow> on_wizard wait_begin;
     (case r of
        Some (a, b) \<Rightarrow> params_ready keys localMode a b
      | None \<Rightarrow> State_Monad.return (Next (Waiting keys localMode 0))) }"

definition wait_phase :: "MnemonicKeys \<Rightarrow> bool \<Rightarrow> nat \<Rightarrow> ('p, 'p progress) io" where
  "wait_phase keys localMode elapsed = do {
     r \<leftarrow> on_wizard (wait_round elapsed);
     (case r of
        StillWaiting \<Rightarrow> State_Monad.return (Next (Waiting keys localMode (elapsed + 15)))
      | WaitFailed e \<Rightarrow> abort_job (''ERROR: generate pre-params: '' @ e)
      | Deadlock \<Rightarrow> State_Monad.return Hung) }"

text \<open>Indexing the dealer's answer beyond its end panics.\<close>

definition parties :: "PartyID list" where "parties = [party_a_id, party_b_id]"

definition store_shares :: "KeyShare list \<Rightarrow> KeyShare list \<Rightarrow> bool \<Rightarrow> ('p, 'p progress) io" where
  "store_shares ecdsaShares eddsaShares localMode =
     (case (ecdsaShares, eddsaShares) of
        (kA # kB # _, eA # eB # _) \<Rightarrow> do {
          modify_wizard (SetECDSAKeys kA kB);
          modify_wizard (SetEdDSAKeys eA eB);
          logFn ''Key shares generated.'';
          State_Monad.return (Next (Certifying localMode)) }
      | _ \<Rightarrow> State_Monad.return Crashed)"

definition split_eddsa :: "('r, 'pk, 'c, 'i, 'k) installer_env \<Rightarrow> 'k luck \<Rightarrow> MnemonicKeys \<Rightarrow> bool \<Rightarrow>
    KeyShare list \<Rightarrow> ('pk preparams, 'pk preparams progress) io" where
  "split_eddsa I L keys localMode ecdsaShares = do {
     logFn ''Splitting EdDSA key into threshold shares...'';
     (case DealerSetupEdDSA (ie_S I) (sw_edwards (ie_W I)) (ie_eddsa I) (lu_eddsa L) (mk_EdDSAPrivKey keys)
        (mk_EdDSAPubKey keys) (mk_EdDSAChainCode keys) parties of
        Panic \<Rightarrow> State_Monad.return Crashed
      | Return (Inl e) \<Rightarrow> abort_job (''ERROR: EdDSA dealer setup: '' @ e)
      | Return (Inr eddsaShares) \<Rightarrow> store_shares ecdsaShares eddsaShares localMode) }"

definition split_phase :: "('r, 'pk, 'c, 'i, 'k) installer_env \<Rightarrow> 'k luck \<Rightarrow> MnemonicKeys \<Rightarrow> bool \<Rightarrow>
    'pk preparams \<Rightarrow> 'pk preparams \<Rightarrow> ('pk preparams, 'pk preparams progress) io" where
  "split_phase I L keys localMode ppA ppB = do {
     logFn ''Splitting ECDSA key into threshold shares...'';
     (case DealerSetupECDSA (ie_S I) (sw_ec (ie_W I)) (ie_ecdsa I) (lu_ecdsa L) (mk_ECDSAPrivKey keys)
        (mk_ECDSAPubKey keys) (mk_ECDSAChainCode keys) parties [ppA, ppB] of
        Panic \<Rightarrow> State_Monad.return Crashed
      | Return (Inl e) \<Rightarrow> abort_job (''ERROR: ECDSA dealer setup: '' @ e)
      | Return (Inr ecdsaShares) \<Rightarrow> split_eddsa I L keys localMode ecdsaShares) }"

definition store_bundle :: "CertBundle \<Rightarrow> 'p WizardState \<Rightarrow> 'p WizardState" where
  "store_bundle b s = s\<lparr>wz_CACert := cb_CACert b, wz_CAKey := cb_CAKey b, wz_CertA := cb_CertA b,
     wz_KeyA := cb_KeyA b, wz_CertB := cb_CertB b, wz_KeyB := cb_KeyB b\<rparr>"

definition cert_hosts :: "SSHConfig \<Rightarrow> bool \<Rightarrow> string list" where
  "cert_hosts server localMode = sh_Host server # (if localMode then [docker_host] else [])"

definition cert_phase :: "('r, 'pk, 'c, 'i, 'k) installer_env \<Rightarrow> 'k luck \<Rightarrow> bool \<Rightarrow> ('p, 'p progress) io" where
  "cert_phase I L localMode = do {
     logFn ''Generating TLS certificates...'';
     hostsA \<leftarrow> wizard (\<lambda>s. cert_hosts (wz_ServerA s) localMode);
     hostsB \<leftarrow> wizard (\<lambda>s. cert_hosts (wz_ServerB s) localMode);
     (case GenerateCerts (ie_X I) (lu_keys L) (lu_now L) hostsA hostsB of
        Inl e \<Rightarrow> abort_job (''ERROR: generate certs: '' @ e)
      | Inr bundle \<Rightarrow> do {
          modify_wizard (store_bundle bundle);
          logFn ''TLS certificates generated.'';
          State_Monad.return (Next (Delivering localMode)) }) }"

text \<open>The end of both goroutines: an error is logged and remembered.\<close>

definition then_finish :: "string \<Rightarrow> string \<Rightarrow> unit res \<Rightarrow> ('p, 'p progress) io" where
  "then_finish what msg r =
     (case r of
        Inl e \<Rightarrow> do { logFn (msg @ e); State_Monad.return (Next (Finishing what True)) }
      | Inr _ \<Rightarrow> State_Monad.return (Next (Finishing what False)))"

definition deliver_phase :: "deployer \<Rightarrow> bool \<Rightarrow> ('p, 'p progress) io" where
  "deliver_phase E localMode =
     (if localMode then do {
        logFn ''Starting local deployment...'';
        r \<leftarrow> DeployLocal E;
        then_finish ''Deployment'' ''ERROR: local deploy failed: '' r }
      else do {
        logFn ''Starting remote deployment...'';
        r \<leftarrow> deployRemote E;
        then_finish ''Deployment'' ''ERROR: '' r })"

definition update_phase :: "deployer \<Rightarrow> bool \<Rightarrow> ('p, 'p progress) io" where
  "update_phase E localMode =
     (if localMode then do {
        logFn ''Starting local update (code only)...'';
        r \<leftarrow> UpdateLocal E;
        then_finish ''Update'' ''ERROR: local update failed: '' r }
      else then_finish ''Update'' []
        (Inl (''ERROR: remote update not yet implemented '' @ em_dash @ '' use deploy for remote servers'')))"

definition finish_phase :: "string \<Rightarrow> bool \<Rightarrow> ('p, 'p progress) io" where
  "finish_phase what failed = do {
     modify_wizard (\<lambda>s. s\<lparr>wz_DeployDone := True, wz_DeployFailed := failed,
       wz_Step := (if failed then ''deploying'' else ''done'')\<rparr>);
     State_Monad.return (Next (Reporting what failed)) }"

definition report_phase :: "string \<Rightarrow> bool \<Rightarrow> ('p, 'p progress) io" where
  "report_phase what failed = do {
     logFn (what @ (if failed then '' finished with errors.'' else '' finished successfully.''));
     State_Monad.return Ended }"

fun job_step :: "('r, 'pk, 'c, 'i, 'k) installer_env \<Rightarrow> 'k luck \<Rightarrow> 'pk preparams job \<Rightarrow>
    ('pk preparams, 'pk preparams progress) io" where
  "job_step I L (Deriving mnemonic localMode) = derive_phase (ie_W I) mnemonic localMode"
| "job_step I L (Starting keys localMode) = start_phase keys localMode"
| "job_step I L (Waiting keys localMode elapsed) = wait_phase keys localMode elapsed"
| "job_step I L (Splitting keys localMode a b) = split_phase I L keys localMode a b"
| "job_step I L (Certifying localMode) = cert_phase I L localMode"
| "job_step I L (Delivering localMode) = deliver_phase (ie_E I) localMode"
| "job_step I L (Updating localMode) = update_phase (ie_E I) localMode"
| "job_step I L (Finishing what failed) = finish_phase what failed"
| "job_step I L (Reporting what failed) = report_phase what failed"

subsection \<open>The handlers\<close>

text \<open>The system with the mutex of each handler, its goroutine, and whether the process hangs or crashed.\<close>

record 'p installer =
  in_sys :: "'p sys"
  in_deploying :: bool
  in_updating :: bool
  in_deploy :: "'p job option"
  in_update :: "'p job option"
  in_stuck :: bool
  in_crashed :: bool

abbreviation in_wz :: "'p installer \<Rightarrow> 'p WizardState" where
  "in_wz i \<equiv> sy_wz (in_sys i)"

definition set_wz :: "'p WizardState \<Rightarrow> 'p installer \<Rightarrow> 'p installer" where
  "set_wz wz i = i\<lparr>in_sys := (in_sys i)\<lparr>sy_wz := wz\<rparr>\<rparr>"

definition started :: http_response where
  "started = writeJSON 200 (JObj [(''status'', JStr ''started'')])"

definition begin_deploy :: "'p WizardState \<Rightarrow> 'p WizardState" where
  "begin_deploy s = s\<lparr>wz_DeployDone := False, wz_DeployFailed := False, wz_DeployLogs := [],
     wz_Step := ''deploying''\<rparr>"

definition handleDeploy :: "'p installer \<Rightarrow> http_response \<times> 'p installer" where
  "handleDeploy i =
     (if in_deploying i then (writeError 409 ''deployment already in progress'', i)
      else
        let s = in_wz i; i1 = set_wz (begin_deploy s) i in
        if wz_Mnemonic s = [] then (writeError 400 ''call /api/install/prepare first'', i1)
        else (started, i1\<lparr>in_deploying := True,
          in_deploy := Some (Deriving (wz_Mnemonic s) (wz_LocalMode s))\<rparr>))"

definition handleUpdate :: "'p installer \<Rightarrow> http_response \<times> 'p installer" where
  "handleUpdate i =
     (if in_updating i then (writeError 409 ''update already in progress'', i)
      else
        let s = in_wz i; i1 = set_wz ((begin_deploy s)\<lparr>wz_Mode := ''update''\<rparr>) i in
        (started, i1\<lparr>in_updating := True, in_update := Some (Updating (wz_LocalMode s))\<rparr>))"

fun after_deploy :: "'p progress \<Rightarrow> 'p installer \<Rightarrow> 'p installer" where
  "after_deploy (Next j) i = i\<lparr>in_deploy := Some j\<rparr>"
| "after_deploy Ended i = i\<lparr>in_deploy := None, in_deploying := False\<rparr>"
| "after_deploy Crashed i = i\<lparr>in_crashed := True\<rparr>"
| "after_deploy Hung i = i\<lparr>in_stuck := True\<rparr>"

fun after_update :: "'p progress \<Rightarrow> 'p installer \<Rightarrow> 'p installer" where
  "after_update (Next j) i = i\<lparr>in_update := Some j\<rparr>"
| "after_update Ended i = i\<lparr>in_update := None, in_updating := False\<rparr>"
| "after_update Crashed i = i\<lparr>in_crashed := True\<rparr>"
| "after_update Hung i = i\<lparr>in_stuck := True\<rparr>"

text \<open>
  While a goroutine hangs it has the state's mutex, which every handler that changes the state, the log
  stream and the other goroutines wait for.
\<close>

definition runs :: "'p installer \<Rightarrow> bool" where
  "runs i \<longleftrightarrow> \<not> in_stuck i \<and> \<not> in_crashed i"

inductive install_step :: "('r, 'pk, 'c, 'i, 'k) installer_env \<Rightarrow> 'pk preparams installer \<Rightarrow>
    'pk preparams installer \<Rightarrow> bool" for I where
  request: "install_step I i (set_wz s i)"
    if "runs i" and "wizard_step (ie_W I) q (in_wz i) = (resp, s)"
| deploy: "install_step I i i'" if "runs i" and "handleDeploy i = (resp, i')"
| update: "install_step I i i'" if "runs i" and "handleUpdate i = (resp, i')"
| tick: "install_step I i (set_wz s i)"
    if "runs i" and "logs_tick (in_wz i) d f = (events, stop, s)"
| primes: "install_step I i (set_wz s i)"
    if "runs i" and "preparams_done a b (in_wz i) = Return s"
| deploying: "install_step I i (after_deploy p (i\<lparr>in_sys := s\<rparr>))"
    if "runs i" and "in_deploy i = Some j" and "run_state (job_step I L j) (in_sys i) = (p, s)"
| updating: "install_step I i (after_update p (i\<lparr>in_sys := s\<rparr>))"
    if "runs i" and "in_update i = Some j" and "run_state (job_step I L j) (in_sys i) = (p, s)"

definition installer_start :: "(string \<Rightarrow> db) \<Rightarrow> 'p installer" where
  "installer_start dbs = \<lparr>in_sys = \<lparr>sy_trace = [], sy_wz = StartPreParamGeneration wizard_start,
     sy_db = dbs\<rparr>, in_deploying = False, in_updating = False, in_deploy = None, in_update = None,
     in_stuck = False, in_crashed = False\<rparr>"

definition installer_reach :: "('r, 'pk, 'c, 'i, 'k) installer_env \<Rightarrow> 'pk preparams installer \<Rightarrow> bool" where
  "installer_reach I i \<longleftrightarrow> (\<exists>dbs. (install_step I)\<^sup>*\<^sup>* (installer_start dbs) i)"

subsection \<open>What a phase changes\<close>

text \<open>The work on machines changes nothing of the wizard but its logs.\<close>

lemma quiet_wait_ready [only_intros]:
  "only v (\<lambda>_. True) check \<Longrightarrow> only v (\<lambda>_. True) (wait_ready w n check)"
  by (rule only_wait_ready) simp_all

lemma quiet_find_root [only_intros]: "only v (\<lambda>_. True) (find_root w es)"
  by (induction es) (auto simp: Let_def intro!: only_intros)

lemma quiet_log_errors [only_intros]: "only v (\<lambda>_. True) (log_errors who es)"
  by (induction es) (auto intro!: only_intros)

lemma quiet_log_lines [only_intros]: "only v (\<lambda>_. True) (log_lines ls)"
  by (induction ls) (auto intro!: only_intros)

lemma quiet_kill_pids [only_intros]: "only v (\<lambda>_. True) (kill_pids w pids)"
  by (induction pids) (auto simp: exec_def intro!: only_intros)

lemma quiet_killExistingParties [only_intros]: "only v (\<lambda>_. True) (killExistingParties w)"
  unfolding killExistingParties_def remove_container_def free_port_def exec_def Let_def
  by (intro only_intros TrueI)

lemma quiet_images [only_intros]: "only v (\<lambda>_. True) (local_images w who verb done_word)"
  unfolding local_images_def findProjectRoot_def build_image_def dockerBuildWithLogs_def exec_def Let_def
  by (intro only_intros TrueI)

lemma quiet_containers [only_intros]:
  "only v (\<lambda>_. True) (start_container w who baseDir party)"
  "only v (\<lambda>_. True) (verify_containers w who)"
  unfolding start_container_def verify_containers_def container_error_def dockerLogs_def exec_def Let_def
  by (intro only_intros TrueI)+

lemma quiet_postgres [only_intros]: "only v (\<lambda>_. True) (ensureLocalPostgres w)"
  unfolding ensureLocalPostgres_def hostPGAvailable_def ensureHostPostgresDatabases_def create_role_def
    create_host_db_def setup_complete_def ensureDockerPostgres_def ensureDockerPostgresDatabases_def exec_def
  by (intro only_intros TrueI)

lemma quiet_write_party [only_intros]: "only v (\<lambda>_. True) (write_party E baseDir party)"
  unfolding write_party_def writeKeyShares_def write_share_def write_file_def Let_def
  by (intro only_intros TrueI)

lemma quiet_start_local [only_intros]: "only v (\<lambda>_. True) (start_local E baseDir)"
  unfolding start_local_def look_for_docker_def import_local_def Let_def
  by (intro only_intros TrueI)

lemma quiet_local:
  "only v (\<lambda>_. True) (DeployLocal E)" "only v (\<lambda>_. True) (UpdateLocal E)"
  unfolding DeployLocal_def UpdateLocal_def localBaseDir_def check_installed_def Let_def
  by (intro only_intros TrueI)+

lemma quiet_start_party [only_intros]:
  "only v (\<lambda>_. True) (start_party w c party osType cfgDir port imageTag)"
  unfolding start_party_def Let_def by (intro only_intros TrueI)

lemma quiet_importRemoteShares [only_intros]: "only v (\<lambda>_. True) (importRemoteShares E c party)"
  unfolding importRemoteShares_def Let_def by (intro only_intros TrueI)

lemma quiet_wizard: "only v (\<lambda>_. True) (wizard f)"
  by (simp add: only_def does_def wizard_def)

lemma quiet_both [only_intros]:
  "only v (\<lambda>_. True) m \<Longrightarrow> only v (\<lambda>_. True) n \<Longrightarrow>
     only v (\<lambda>_. True) (first_error msgA msgB (both m n))"
  unfolding first_error_def logged_def both_def by (intro only_intros)

lemma quiet_remote: "only v (\<lambda>_. True) (deployRemote E)"
  unfolding deployRemote_def deploy_party_def connect_party_def uploadKeyShares_def upload_share_def
    DeployParty_def upload_files_def SSHConnect_def key_methods_def Let_def
  by (intro only_intros quiet_wizard TrueI lets_all only_mono [OF only_read_key] only_mono [OF only_default_key])

named_theorems io_runs "running the steps of a computation"

lemma run_basics [io_runs]:
  "run_state (perform w a) s = (w (sy_trace s) a, s\<lparr>sy_trace := sy_trace s @ [a]\<rparr>)"
  "run_state (wizard f) s = (f (sy_wz s), s)"
  "run_state (modify_wizard g) s = ((), s\<lparr>sy_wz := g (sy_wz s)\<rparr>)"
  "run_state (logFn msg) s = ((), s\<lparr>sy_wz := AppendLog msg (sy_wz s)\<rparr>)"
  "run_state (on_wizard h) s = (fst (h (sy_wz s)), s\<lparr>sy_wz := snd (h (sy_wz s))\<rparr>)"
  by (simp_all add: perform_def wizard_def modify_wizard_def logFn_def on_wizard_def split: prod.split)

lemma run_abort_job [io_runs]:
  "run_state (abort_job msg) s = (Ended, s\<lparr>sy_wz := (AppendLog msg (sy_wz s))
     \<lparr>wz_DeployDone := True, wz_DeployFailed := True\<rparr>\<rparr>)"
  by (simp add: abort_job_def io_runs)

lemma quiet_run:
  fixes m :: "('p, 'a) io"
  assumes "only (unlogged (sy_wz s)) (\<lambda>_. True) m" and "run_state m s = (x, s')"
  shows "\<exists>ls. sy_wz s' = (sy_wz s)\<lparr>wz_DeployLogs := ls\<rparr>"
proof -
  have "unlogged (sy_wz s') = unlogged (sy_wz s)"
    using assms(1) [unfolded only_def does_def, rule_format, OF refl] by (simp add: assms(2))
  then have "(unlogged (sy_wz s'))\<lparr>wz_DeployLogs := wz_DeployLogs (sy_wz s')\<rparr> =
      (sy_wz s)\<lparr>wz_DeployLogs := wz_DeployLogs (sy_wz s')\<rparr>" by (simp add: unlogged_def)
  then show ?thesis by (auto simp: unlogged_def)
qed

text \<open>Delivering and updating, whatever the machines do.\<close>

lemma run_then_finish:
  "run_state (then_finish what msg r) s = (Next (Finishing what (\<exists>e. r = Inl e)),
     s\<lparr>sy_wz := (case r of Inl e \<Rightarrow> AppendLog (msg @ e) (sy_wz s) | Inr _ \<Rightarrow> sy_wz s)\<rparr>)"
  by (simp add: then_finish_def io_runs split: sum.split)

lemma quiet_work:
  fixes m :: "('p, unit res) io"
  assumes q: "\<And>v. only v (\<lambda>_. True) m"
    and r: "run_state (State_Monad.bind (logFn msg) (\<lambda>_. State_Monad.bind m (then_finish what msg'))) s = (p, s')"
  shows "\<exists>f ls. p = Next (Finishing what f) \<and> sy_wz s' = (sy_wz s)\<lparr>wz_DeployLogs := ls\<rparr>"
proof -
  let ?s = "s\<lparr>sy_wz := AppendLog msg (sy_wz s)\<rparr>"
  obtain x s1 where m: "run_state m ?s = (x, s1)" by fastforce
  obtain ls where "sy_wz s1 = (sy_wz ?s)\<lparr>wz_DeployLogs := ls\<rparr>" using quiet_run [OF q m] by blast
  with r m show ?thesis
    by (auto simp: io_runs run_then_finish AppendLog_def split: sum.splits)
qed

lemma deliver_phase_run:
  assumes "run_state (deliver_phase E l) s = (p, s')"
  shows "\<exists>f ls. p = Next (Finishing ''Deployment'' f) \<and> sy_wz s' = (sy_wz s)\<lparr>wz_DeployLogs := ls\<rparr>"
proof (cases l)
  case True
  show ?thesis by (rule quiet_work [OF quiet_local(1)], rule assms [unfolded deliver_phase_def if_P [OF True]])
next
  case False
  show ?thesis by (rule quiet_work [OF quiet_remote], rule assms [unfolded deliver_phase_def if_not_P [OF False]])
qed

lemma update_phase_run:
  assumes "run_state (update_phase E l) s = (p, s')"
  shows "\<exists>f ls. p = Next (Finishing ''Update'' f) \<and> sy_wz s' = (sy_wz s)\<lparr>wz_DeployLogs := ls\<rparr>"
proof (cases l)
  case True
  show ?thesis by (rule quiet_work [OF quiet_local(2)], rule assms [unfolded update_phase_def if_P [OF True]])
next
  case False
  with assms show ?thesis by (auto simp: update_phase_def run_then_finish AppendLog_def)
qed

subsection \<open>The deployment that waits for the primes\<close>

text \<open>No step but the end of their generation touches what \<open>WaitPreParams\<close> reads.\<close>

definition same_params :: "'p WizardState \<Rightarrow> 'p WizardState \<Rightarrow> bool" where
  "same_params s t \<longleftrightarrow> wz_preParamA s = wz_preParamA t \<and> wz_preParamB s = wz_preParamB t \<and>
     wz_preParamReady s = wz_preParamReady t \<and> wz_preParamErr s = wz_preParamErr t"

lemma same_params_refl [simp]: "same_params s s"
  by (simp add: same_params_def)

lemma same_params_updates [simp]:
  "same_params s (t\<lparr>wz_DeployLogs := ls\<rparr>) = same_params s t"
  "same_params s (t\<lparr>wz_DeployDone := d\<rparr>) = same_params s t"
  "same_params s (t\<lparr>wz_DeployFailed := d\<rparr>) = same_params s t"
  "same_params s (t\<lparr>wz_Step := p\<rparr>) = same_params s t"
  "same_params s (t\<lparr>wz_Mode := p\<rparr>) = same_params s t"
  "same_params s (t\<lparr>wz_TelegramUserID := u\<rparr>) = same_params s t"
  "same_params s (AppendLog msg t) = same_params s t"
  "same_params s (SetECDSAKeys a b t) = same_params s t"
  "same_params s (SetEdDSAKeys a b t) = same_params s t"
  "same_params s (store_bundle bundle t) = same_params s t"
  "same_params s (begin_deploy t) = same_params s t"
  "same_params s (store_keys m k t) = same_params s t"
  by (simp_all add: same_params_def AppendLog_def SetECDSAKeys_def SetEdDSAKeys_def store_bundle_def
      begin_deploy_def store_keys_def)

lemma verify_loop_params [simp]: "same_params s (snd (verify_loop n api asked off t)) = same_params s t"
  by (induction n api asked off t rule: verify_loop.induct)
    (auto simp: verified_def same_params_def split: sum.splits prod.splits option.splits)

lemma wizard_step_params: "wizard_step W q s = (r, s') \<Longrightarrow> same_params s s'"
proof (cases q)
  case (TelegramVerify newBot n)
  assume "wizard_step W q s = (r, s')"
  then have "s' = snd (wizard_step W q s)" by simp
  then show ?thesis by (simp add: TelegramVerify handleTelegramVerify_def split: sum.splits)
qed (auto simp: handleServersSave_def handleLocalhostSetup_def handleInstallPrepare_def Let_def
    handleInstallRestore_def handleLLMSave_def handleLLMSkip_def handleTelegramSave_def same_params_def
    store_keys_def split: sum.splits prod.splits if_splits)

lemma logs_tick_params: "logs_tick s d f = (events, stop, s') \<Longrightarrow> same_params s s'"
  by (auto simp: logs_tick_def DrainLogs_def Let_def split: if_splits)

text \<open>The phases but the two on machines, as functions of the wizard's state.\<close>

lemma wait_run:
  "run_state (wait_phase keys l n) s = (p, s') \<Longrightarrow>
     same_params (sy_wz s) (sy_wz s') \<and>
     (p = Next (Waiting keys l (n + 15)) \<and> wz_preParamReady (sy_wz s) \<noteq> ClosedChannel \<or>
      p = Ended \<and> wz_preParamErr (sy_wz s) \<noteq> None \<and> wz_DeployDone (sy_wz s') \<or>
      p = Hung \<and> wz_preParamReady (sy_wz s) = ClosedChannel \<and> wz_preParamErr (sy_wz s) = None)"
  by (auto simp: wait_phase_def wait_round_def io_runs split: if_splits option.splits)

lemma start_run:
  "run_state (start_phase keys l) s = (p, s') \<Longrightarrow>
     same_params (sy_wz s) (sy_wz s') \<and>
     (p = Next (Waiting keys l 0) \<and> (wz_preParamA (sy_wz s) = None \<or> wz_preParamB (sy_wz s) = None) \<or> (\<exists>a b. p = Next (Splitting keys l a b) \<and>
        wz_preParamA (sy_wz s) = Some a \<and> wz_preParamB (sy_wz s) = Some b))"
  by (auto simp: start_phase_def wait_begin_def params_ready_def io_runs split: option.splits)

lemma derive_run:
  "run_state (derive_phase W m l) s = (p, s') \<Longrightarrow>
     same_params (sy_wz s) (sy_wz s') \<and>
     (p = Ended \<and> wz_DeployDone (sy_wz s') \<or>
      (\<exists>keys. p = Next (Starting keys l) \<and> DeriveKeysFromMnemonic (sw_b39 W) (sw_ec W) (sw_hmac W)
         (sw_edPublic W) (sw_sha512 W) m = Inr keys))"
  by (auto simp: derive_phase_def io_runs split: sum.splits)

lemma store_shares_run:
  "run_state (store_shares xs ys l) s = (p, s') \<Longrightarrow>
     same_params (sy_wz s) (sy_wz s') \<and>
     (p = Crashed \<or> (\<exists>kA kB eA eB xs' ys'. p = Next (Certifying l) \<and> xs = kA # kB # xs' \<and> ys = eA # eB # ys' \<and>
        sy_wz s' = AppendLog ''Key shares generated.'' (SetEdDSAKeys eA eB (SetECDSAKeys kA kB (sy_wz s)))))"
  by (auto simp: store_shares_def io_runs split: list.splits)

lemma split_run:
  assumes "run_state (split_phase I L keys l a b) s = (p, s')"
  shows "same_params (sy_wz s) (sy_wz s') \<and>
     (p = Crashed \<or> p = Ended \<and> wz_DeployDone (sy_wz s') \<or> p = Next (Certifying l) \<and>
       (\<exists>kA kB eA eB xs ys. DealerSetupECDSA (ie_S I) (sw_ec (ie_W I)) (ie_ecdsa I) (lu_ecdsa L)
          (mk_ECDSAPrivKey keys) (mk_ECDSAPubKey keys) (mk_ECDSAChainCode keys) parties [a, b] =
            Return (Inr (kA # kB # xs)) \<and>
        DealerSetupEdDSA (ie_S I) (sw_edwards (ie_W I)) (ie_eddsa I) (lu_eddsa L) (mk_EdDSAPrivKey keys)
          (mk_EdDSAPubKey keys) (mk_EdDSAChainCode keys) parties = Return (Inr (eA # eB # ys)) \<and>
        wz_ShareA (sy_wz s') = Some kA \<and> wz_ShareB (sy_wz s') = Some kB \<and>
        wz_EdShareA (sy_wz s') = Some eA \<and> wz_EdShareB (sy_wz s') = Some eB))"
  using assms
  by (auto simp: split_phase_def split_eddsa_def io_runs AppendLog_def SetEdDSAKeys_def SetECDSAKeys_def same_params_def
      split: sum.splits may_panic.splits dest!: store_shares_run)

lemma cert_run:
  "run_state (cert_phase I L l) s = (p, s') \<Longrightarrow>
     same_params (sy_wz s) (sy_wz s') \<and> (p = Ended \<and> wz_DeployDone (sy_wz s') \<or> p = Next (Delivering l))"
  by (auto simp: cert_phase_def io_runs split: sum.splits)

lemma finish_run:
  "run_state (finish_phase what f) s = (p, s') \<Longrightarrow>
     same_params (sy_wz s) (sy_wz s') \<and> p = Next (Reporting what f) \<and> wz_DeployDone (sy_wz s')"
  by (auto simp: finish_phase_def io_runs)

lemma report_run:
  "run_state (report_phase what f) s = (p, s') \<Longrightarrow>
     same_params (sy_wz s) (sy_wz s') \<and> p = Ended \<and> wz_DeployDone (sy_wz s') = wz_DeployDone (sy_wz s)"
  by (auto simp: report_phase_def io_runs AppendLog_def split: if_splits)

lemmas phase_runs = wait_run start_run derive_run split_run cert_run deliver_phase_run update_phase_run
  finish_run report_run

lemma job_step_params:
  "run_state (job_step I L j) s = (p, s') \<Longrightarrow> same_params (sy_wz s) (sy_wz s')"
  by (cases j) (auto dest!: phase_runs)

inductive_cases install_stepE: "install_step I i i'"

lemma preparams_done_cases:
  assumes "preparams_done a b s = Return s'"
  shows "wz_preParamReady s = OpenChannel \<and> wz_preParamReady s' = ClosedChannel \<and>
    (wz_preParamErr s' = None \<longrightarrow> wz_preParamErr s = None)"
  using assms
  by (auto simp: preparams_done_def preparams_stored_def close_channel_def Let_def
      split: sum.splits may_panic.splits if_splits)

lemma in_wz_set [simp]: "in_wz (set_wz s i) = s" "in_deploy (set_wz s i) = in_deploy i"
  "in_deploying (set_wz s i) = in_deploying i" "in_update (set_wz s i) = in_update i"
  "in_updating (set_wz s i) = in_updating i" "in_stuck (set_wz s i) = in_stuck i"
  "in_crashed (set_wz s i) = in_crashed i"
  by (simp_all add: set_wz_def)

lemma after_sys [simp]: "in_sys (after_deploy p i) = in_sys i" "in_sys (after_update p i) = in_sys i"
  "in_deploy (after_update p i) = in_deploy i" "in_deploying (after_update p i) = in_deploying i"
  "in_update (after_deploy p i) = in_update i" "in_updating (after_deploy p i) = in_updating i"
  by (cases p; simp)+

lemma handlers_params:
  "handleDeploy i = (r, i') \<Longrightarrow> same_params (in_wz i) (in_wz i')"
  "handleUpdate i = (r, i') \<Longrightarrow> same_params (in_wz i) (in_wz i')"
  by (auto simp: handleDeploy_def handleUpdate_def Let_def set_wz_def split: if_splits)

text \<open>An error of the generation stays.\<close>

lemma params_error_stays:
  "install_step I i i' \<Longrightarrow> wz_preParamErr (in_wz i') = None \<Longrightarrow> wz_preParamErr (in_wz i) = None"
  by (erule install_stepE)
    (auto simp: same_params_def dest!: wizard_step_params logs_tick_params job_step_params handlers_params
      preparams_done_cases)

lemma waiting_step:
  assumes "install_step I i i'" and "in_deploying i" and "in_deploy i = Some (Waiting keys l n)"
    and "wz_preParamErr (in_wz i) = None"
  shows "in_deploying i' \<and> (\<exists>m. in_deploy i' = Some (Waiting keys l m))"
  using assms(1)
proof (cases rule: install_step.cases)
  case (deploying j L p s)
  with assms have "j = Waiting keys l n" by simp
  with deploying assms(4) have "p = Next (Waiting keys l (n + 15)) \<or> p = Hung" by (auto dest!: wait_run)
  then show ?thesis using deploying assms by auto
qed (use assms in \<open>auto simp: handleDeploy_def handleUpdate_def Let_def split: if_splits\<close>)

lemma hung_is_final: "in_stuck i \<Longrightarrow> \<not> install_step I i i'"
  by (auto simp: runs_def elim: install_stepE)

text \<open>
  C16. A deployment that is started before the safe primes are there never gets any further: as long as
  their generation does not fail, every later state of the installer has it waiting still, and the
  first look it takes after the primes are there hangs the whole installer. \<open>WaitPreParams\<close> logs
  while it has the state's mutex, which the log function takes.
\<close>

theorem late_primes_hang:
  assumes "in_deploying i" and "in_deploy i = Some (Waiting keys l n)"
    and "(install_step I)\<^sup>*\<^sup>* i i'" and "wz_preParamErr (in_wz i') = None"
  shows "\<exists>m. in_deploy i' = Some (Waiting keys l m) \<and>
    (wz_preParamReady (in_wz i') = ClosedChannel \<longrightarrow>
       fst (run_state (job_step I L (Waiting keys l m)) (in_sys i')) = Hung) \<and>
    (in_stuck i' \<longrightarrow> (\<nexists>i''. install_step I i' i''))"
proof -
  from assms(3,4) have "in_deploying i' \<and> (\<exists>m. in_deploy i' = Some (Waiting keys l m))"
  proof (induction rule: rtranclp_induct)
    case base
    then show ?case using assms(1,2) by blast
  next
    case (step y z)
    then have "wz_preParamErr (in_wz y) = None" using params_error_stays by blast
    with step show ?case using waiting_step by blast
  qed
  then show ?thesis
    using hung_is_final assms(4) by (auto simp: wait_phase_def wait_round_def io_runs)
qed

definition waiting_installer :: "unit preparams installer" where
  "waiting_installer = (installer_start (\<lambda>_. db_empty))\<lparr>in_deploying := True,
     in_deploy := Some (Waiting \<lparr>mk_Mnemonic = ''m'', mk_ECDSAPrivKey = 1, mk_ECDSAPubKey = [],
       mk_ECDSAChainCode = [], mk_EdDSAPrivKey = 1, mk_EdDSAPubKey = [], mk_EdDSAChainCode = []\<rparr> True 0)\<rparr>"

theorem late_primes_hang_witness:
  "\<forall>(I :: ('r, unit, 'c, 'i, 'k) installer_env) L. \<exists>i' keys m. install_step I waiting_installer i' \<and> wz_preParamReady (in_wz i') = ClosedChannel \<and>
     in_deploy i' = Some (Waiting keys True m) \<and>
     fst (run_state (job_step I L (Waiting keys True m)) (in_sys i')) = Hung"
proof (intro allI)
  fix I :: "('r, unit, 'c, 'i, 'k) installer_env" and L :: "'k luck"
  let ?i = waiting_installer
  let ?s = "(in_wz ?i)\<lparr>wz_preParamA := Some toy_pp, wz_preParamB := Some toy_pp, wz_preParamReady := ClosedChannel\<rparr>"
  let ?i' = "set_wz ?s ?i"
  have "preparams_done (Inr toy_pp) (Inr toy_pp) (in_wz ?i) = Return ?s"
    by (simp add: waiting_installer_def installer_start_def preparams_done_def preparams_stored_def
        close_channel_def StartPreParamGeneration_def wizard_start_def Let_def)
  then have step: "install_step I ?i ?i'"
    by (intro install_step.primes) (simp_all add: runs_def waiting_installer_def installer_start_def)
  obtain keys where d: "in_deploying ?i" "in_deploy ?i = Some (Waiting keys True 0)"
    by (simp add: waiting_installer_def)
  have e: "wz_preParamErr (in_wz ?i') = None" "wz_preParamReady (in_wz ?i') = ClosedChannel"
    by (simp_all add: waiting_installer_def installer_start_def StartPreParamGeneration_def wizard_start_def)
  have "(install_step I)\<^sup>*\<^sup>* ?i ?i'" using step by (rule r_into_rtranclp [of "install_step I"])
  from late_primes_hang [OF d this e(1)] e(2) step
  show "\<exists>i' keys m. install_step I ?i i' \<and> wz_preParamReady (in_wz i') = ClosedChannel \<and>
     in_deploy i' = Some (Waiting keys True m) \<and>
     fst (run_state (job_step I L (Waiting keys True m)) (in_sys i')) = Hung" by blast
qed

subsection \<open>One deployment and one update at a time\<close>

definition one_at_a_time :: "'p installer \<Rightarrow> bool" where
  "one_at_a_time i \<longleftrightarrow> (in_deploying i \<longleftrightarrow> in_deploy i \<noteq> None) \<and> (in_updating i \<longleftrightarrow> in_update i \<noteq> None)"

lemma one_at_a_time_step:
  assumes "install_step I i i'" and i: "one_at_a_time i"
  shows "one_at_a_time i'"
  using assms(1)
proof (cases rule: install_step.cases)
  case (deploying j L p s)
  with i show ?thesis by (cases p) (auto simp: one_at_a_time_def)
next
  case (updating j L p s)
  with i show ?thesis by (cases p) (auto simp: one_at_a_time_def)
qed (use i in \<open>auto simp: one_at_a_time_def handleDeploy_def handleUpdate_def Let_def split: if_splits\<close>)

text \<open>
  C17. At any time at most one deployment and at most one update run: in every state the installer can
  reach, whatever was requested and however the phases were interleaved, a handler's mutex is taken
  exactly while its goroutine runs, and while it runs another request for it is refused with 409
  and changes nothing.
\<close>

theorem deployments_exclude:
  assumes "installer_reach I i"
  shows "(in_deploying i \<longleftrightarrow> in_deploy i \<noteq> None) \<and> (in_updating i \<longleftrightarrow> in_update i \<noteq> None) \<and>
    (in_deploy i \<noteq> None \<longrightarrow> handleDeploy i = (writeError 409 ''deployment already in progress'', i)) \<and>
    (in_update i \<noteq> None \<longrightarrow> handleUpdate i = (writeError 409 ''update already in progress'', i))"
proof -
  obtain dbs where "(install_step I)\<^sup>*\<^sup>* (installer_start dbs) i"
    using assms unfolding installer_reach_def by blast
  then have "one_at_a_time i"
    by (induction rule: rtranclp_induct)
      (simp add: one_at_a_time_def installer_start_def, erule one_at_a_time_step, assumption)
  then show ?thesis by (simp add: one_at_a_time_def handleDeploy_def handleUpdate_def)
qed

theorem deployments_exclude_witness:
  "\<forall>(I :: ('r, unit, 'c, 'i, 'k) installer_env). \<exists>i. installer_reach I (i :: unit preparams installer) \<and> in_update i = Some (Updating False) \<and>
     handleUpdate i = (writeError 409 ''update already in progress'', i)"
proof
  fix I :: "('r, unit, 'c, 'i, 'k) installer_env"
  let ?i0 = "installer_start (\<lambda>_. db_empty) :: unit preparams installer"
  obtain r i where h: "handleUpdate ?i0 = (r, i)" by fastforce
  have "install_step I ?i0 i"
    by (rule install_step.update [OF _ h]) (simp add: runs_def installer_start_def)
  then have reach: "installer_reach I i" unfolding installer_reach_def by blast
  have u: "in_update i = Some (Updating False)" using h
    by (auto simp: handleUpdate_def installer_start_def set_wz_def StartPreParamGeneration_def
        wizard_start_def Let_def)
  from reach u deployments_exclude [OF reach]
  show "\<exists>i. installer_reach I (i :: unit preparams installer) \<and> in_update i = Some (Updating False) \<and>
     handleUpdate i = (writeError 409 ''update already in progress'', i)" by (metis option.distinct(1))
qed

subsection \<open>A deployment comes to an end\<close>

fun job_rank :: "'p job \<Rightarrow> nat" where
  "job_rank (Deriving m l) = 8"
| "job_rank (Starting k l) = 7"
| "job_rank (Waiting k l n) = 6"
| "job_rank (Splitting k l a b) = 5"
| "job_rank (Certifying l) = 4"
| "job_rank (Delivering l) = 3"
| "job_rank (Updating l) = 3"
| "job_rank (Finishing w f) = 2"
| "job_rank (Reporting w f) = 1"

text \<open>The phases of a goroutine in a row, with the luck of each.\<close>

fun job_run :: "('r, 'pk, 'c, 'i, 'k) installer_env \<Rightarrow> 'k luck list \<Rightarrow> 'pk preparams job \<Rightarrow>
    'pk preparams sys \<Rightarrow> 'pk preparams progress \<times> 'pk preparams sys" where
  "job_run I [] j s = (Next j, s)"
| "job_run I (L # Ls) j s =
     (case run_state (job_step I L j) s of
        (Next j', s') \<Rightarrow> job_run I Ls j' s'
      | (p, s') \<Rightarrow> (p, s'))"

definition primes_there :: "'p WizardState \<Rightarrow> bool" where
  "primes_there wz \<longleftrightarrow> wz_preParamA wz \<noteq> None \<and> wz_preParamB wz \<noteq> None"

definition on_course :: "'p job \<Rightarrow> 'p WizardState \<Rightarrow> bool" where
  "on_course j wz \<longleftrightarrow> (job_rank j = 1 \<longrightarrow> wz_DeployDone wz) \<and> (primes_there wz \<longrightarrow> job_rank j \<noteq> 6)"

lemma job_step_cases:
  assumes "run_state (job_step I L j) s = (p, s')" and "on_course j (sy_wz s)"
    and "wz_preParamReady (sy_wz s) = ClosedChannel"
  shows "(\<exists>j'. p = Next j' \<and> job_rank j' < job_rank j \<and> on_course j' (sy_wz s')) \<or>
    p = Ended \<and> wz_DeployDone (sy_wz s') \<or> p = Crashed \<or> p = Hung \<and> \<not> primes_there (sy_wz s)"
proof -
  have params: "primes_there (sy_wz s') = primes_there (sy_wz s)"
    using job_step_params [OF assms(1)] by (simp add: same_params_def primes_there_def)
  show ?thesis
    using assms unfolding on_course_def params
    by (cases j) (auto simp: primes_there_def dest!: phase_runs)
qed

lemma job_run_ends:
  assumes "on_course j (sy_wz s)" and "wz_preParamReady (sy_wz s) = ClosedChannel" and "job_rank j \<le> length Ls"
  shows "case job_run I Ls j s of (p, s') \<Rightarrow>
    p = Ended \<and> wz_DeployDone (sy_wz s') \<or> p = Crashed \<or> p = Hung \<and> \<not> primes_there (sy_wz s)"
  using assms
proof (induction Ls arbitrary: j s)
  case Nil
  then show ?case by (cases j) simp_all
next
  case (Cons L Ls)
  obtain p s' where r: "run_state (job_step I L j) s = (p, s')" by fastforce
  from job_step_params [OF r] have "wz_preParamReady (sy_wz s') = ClosedChannel"
    "primes_there (sy_wz s') = primes_there (sy_wz s)"
    using Cons.prems(2) by (simp_all add: same_params_def primes_there_def)
  with job_step_cases [OF r Cons.prems(1,2)] Cons.IH Cons.prems(3) show ?case by (fastforce simp: r)
qed

text \<open>
  C20. Once the safe primes have been generated, or their generation failed, the goroutine of a deployment
  does at most eight phases, whatever the machines, the libraries and the random source answer: it ends with
  the wizard told that the deployment is done, unless it panics or hangs. It hangs only if it looked
  for the primes before they were there.
\<close>

theorem deployment_ends:
  assumes "wz_preParamReady (sy_wz s) = ClosedChannel" and "length Ls = 8"
  shows "case job_run I Ls (Deriving m l) s of (p, s') \<Rightarrow>
    p = Ended \<and> wz_DeployDone (sy_wz s') \<or> p = Crashed \<or>
    p = Hung \<and> (wz_preParamA (sy_wz s) = None \<or> wz_preParamB (sy_wz s) = None)"
proof -
  have "on_course (Deriving m l) (sy_wz s)" by (simp add: on_course_def)
  from job_run_ends [OF this assms(1), of Ls I] show ?thesis
    by (simp add: assms(2) primes_there_def split: prod.splits)
qed

definition primed_sys :: "unit preparams sys" where
  "primed_sys = \<lparr>sy_trace = [], sy_wz = wizard_start\<lparr>wz_preParamA := Some toy_pp,
     wz_preParamB := Some toy_pp, wz_preParamReady := ClosedChannel\<rparr>, sy_db = (\<lambda>_. db_empty)\<rparr>"

theorem deployment_ends_witness:
  "\<forall>(I :: ('r, unit, 'c, 'i, 'k) installer_env) L. case job_run I (replicate 8 L) (Deriving ''phrase'' True) primed_sys of
     (p, s') \<Rightarrow> p = Ended \<and> wz_DeployDone (sy_wz s') \<or> p = Crashed"
proof (intro allI)
  fix I :: "('r, unit, 'c, 'i, 'k) installer_env" and L :: "'k luck"
  have "wz_preParamReady (sy_wz primed_sys) = ClosedChannel" "length (replicate 8 L) = 8"
    by (simp_all add: primed_sys_def)
  from deployment_ends [OF this, of I "''phrase''" True]
  show "case job_run I (replicate 8 L) (Deriving ''phrase'' True) primed_sys of
      (p, s') \<Rightarrow> p = Ended \<and> wz_DeployDone (sy_wz s') \<or> p = Crashed"
    by (auto simp: primed_sys_def)
qed

subsection \<open>The shares of the phrase\<close>

lemma derived_ecdsa_key:
  assumes "DeriveKeysFromMnemonic b39 c hmac edPublic sha512 m = Inr keys" and "ec_laws c smul"
  shows "mk_ECDSAPubKey keys = elliptic_Marshal (smul (mk_ECDSAPrivKey keys)) \<and> mk_Mnemonic keys = m"
  using assms
  by (auto simp: DeriveKeysFromMnemonic_def deriveECDSAKey_def Let_def ec_laws_def be_nat_nat_bytes
      split: if_splits sum.splits prod.splits)

lemma deploy_three_phases:
  assumes "job_run I [L1, L2, L3] (Deriving m l) s = (Next (Certifying l), s')"
  shows "\<exists>keys a b s2. DeriveKeysFromMnemonic (sw_b39 (ie_W I)) (sw_ec (ie_W I)) (sw_hmac (ie_W I))
      (sw_edPublic (ie_W I)) (sw_sha512 (ie_W I)) m = Inr keys \<and>
    run_state (split_phase I L3 keys l a b) s2 = (Next (Certifying l), s')"
  using assms by (auto split: progress.splits prod.splits dest!: derive_run start_run wait_run) blast

text \<open>
  What a deployment stores for the two parties is a sharing of the keys of the user's phrase: when its
  first three phases have run, the two ECDSA shares and the two EdDSA shares in the wizard are shares of the
  private keys derived from the phrase it was started with, and carry their public keys and chain codes.
  This is what the derivation of addresses and the recovery from the phrase rest on.
\<close>

lemma stored_shares:
  assumes laws: "ec_laws (sw_ec (ie_W I)) smul" "ec_laws (sw_edwards (ie_W I)) smulE"
    and ids: "makeSortedPartyIDs (ie_S I) parties = [p, q]"
    and ip: "interpolates (ec_N (sw_ec (ie_W I))) [la, lb] [lp_Key p, lp_Key q] 1"
      "interpolates (ec_N (sw_edwards (ie_W I))) [le, lf] [lp_Key p, lp_Key q] 1"
    and run: "job_run I [L1, L2, L3] (Deriving m l) s = (Next (Certifying l), s')"
  shows "\<exists>keys kA kB eA eB a b e f.
    DeriveKeysFromMnemonic (sw_b39 (ie_W I)) (sw_ec (ie_W I)) (sw_hmac (ie_W I)) (sw_edPublic (ie_W I))
      (sw_sha512 (ie_W I)) m = Inr keys \<and>
    wz_ShareA (sy_wz s') = Some kA \<and> wz_ShareB (sy_wz s') = Some kB \<and>
    wz_EdShareA (sy_wz s') = Some eA \<and> wz_EdShareB (sy_wz s') = Some eB \<and>
    so_marshal (ie_ecdsa I) a = Inr (ks_Share kA) \<and> so_marshal (ie_ecdsa I) b = Inr (ks_Share kB) \<and>
    so_marshal (ie_eddsa I) e = Inr (ks_Share eA) \<and> so_marshal (ie_eddsa I) f = Inr (ks_Share eB) \<and>
    shares_of (sw_ec (ie_W I)) smul la lb (mk_ECDSAPrivKey keys) a b \<and>
    shares_of (sw_edwards (ie_W I)) smulE le lf (mk_EdDSAPrivKey keys) e f \<and>
    (\<forall>k \<in> {kA, kB}. ks_PublicKey k = mk_ECDSAPubKey keys \<and> ks_ChainCode k = mk_ECDSAChainCode keys) \<and>
    (\<forall>k \<in> {eA, eB}. ks_PublicKey k = mk_EdDSAPubKey keys \<and> ks_ChainCode k = mk_EdDSAChainCode keys)"
proof -
  obtain keys x y s2 where keys: "DeriveKeysFromMnemonic (sw_b39 (ie_W I)) (sw_ec (ie_W I)) (sw_hmac (ie_W I))
      (sw_edPublic (ie_W I)) (sw_sha512 (ie_W I)) m = Inr keys"
    and run3: "run_state (split_phase I L3 keys l x y) s2 = (Next (Certifying l), s')"
    using deploy_three_phases [OF run] by blast
  note pub = derived_ecdsa_key [OF keys laws(1), THEN conjunct1]
  have len: "length parties = 2" by (simp add: parties_def)
  from split_run [OF run3] obtain kA kB eA eB xs ys where
    D: "DealerSetupECDSA (ie_S I) (sw_ec (ie_W I)) (ie_ecdsa I) (lu_ecdsa L3) (mk_ECDSAPrivKey keys)
        (elliptic_Marshal (smul (mk_ECDSAPrivKey keys))) (mk_ECDSAChainCode keys) parties [x, y] =
      Return (Inr (kA # kB # xs))"
    and DE: "DealerSetupEdDSA (ie_S I) (sw_edwards (ie_W I)) (ie_eddsa I) (lu_eddsa L3) (mk_EdDSAPrivKey keys)
        (mk_EdDSAPubKey keys) (mk_EdDSAChainCode keys) parties = Return (Inr (eA # eB # ys))"
    and sh: "wz_ShareA (sy_wz s') = Some kA" "wz_ShareB (sy_wz s') = Some kB"
      "wz_EdShareA (sy_wz s') = Some eA" "wz_EdShareB (sy_wz s') = Some eB"
    by (auto simp: pub)
  from DealerSetupECDSA_shares [OF laws(1) D len ids ip(1)]
    DealerSetupEdDSA_shares [OF laws(2) DE len ids ip(2)] keys sh
  show ?thesis by (auto simp: pub)
qed

definition toy_installer :: "(unit, unit, bytes, string, nat) installer_env" where
  "toy_installer = \<lparr>ie_W = sweep_desk\<lparr>sw_b39 := toy_b39, sw_ec := toy_ec, sw_edwards := toy_ec,
       sw_hmac := toy_hmac\<rparr>,
     ie_E = quiet_deployer (\<lambda>as a. \<lparr>re_Out = [], re_ErrOut = [], re_Data = [], re_Err = None\<rparr>),
     ie_S = id, ie_ecdsa = toy_dealt_ops, ie_eddsa = toy_dealt_ops, ie_X = toy_x509\<rparr>"

definition toy_luck :: "nat luck" where
  "toy_luck = \<lparr>lu_ecdsa = [Inr 3], lu_eddsa = [Inr 2], lu_keys = (\<lambda>i. (Inr i, Inr i)), lu_now = 0\<rparr>"

lemma toy_parties: "\<exists>p q. makeSortedPartyIDs id parties = [p, q] \<and> lp_Key p mod 7 = 4 \<and> lp_Key q mod 7 = 5"
  by (simp add: makeSortedPartyIDs_def parties_def party_a_id_def party_b_id_def NewPartyID_def str_bytes_def)

lemma toy_check: "NewECPoint toy_ec p = Inr p"
  by (simp add: NewECPoint_def toy_ec_def)

lemma toy_dealers:
  "\<exists>kA kB. DealerSetupECDSA id toy_ec toy_dealt_ops [Inr c] key (elliptic_Marshal (mod7 key)) chain
      parties [toy_pp, toy_pp] = Return (Inr [kA, kB])"
  "\<exists>kA kB. DealerSetupEdDSA id toy_ec toy_dealt_ops [Inr c] key pub chain parties = Return (Inr [kA, kB])"
proof -
  obtain p q where ids: "makeSortedPartyIDs id parties = [p, q]" using toy_parties by blast
  have len: "length parties = 2" by (simp add: parties_def)
  show "\<exists>kA kB. DealerSetupECDSA id toy_ec toy_dealt_ops [Inr c] key (elliptic_Marshal (mod7 key)) chain
      parties [toy_pp, toy_pp] = Return (Inr [kA, kB])"
    using decode_elliptic_Marshal [OF toy_laws, of key]
    by (simp add: DealerSetupECDSA_def Let_def ids len shamirSplit_def toy_check ecdsa_saves_def upt_rec
        toy_dealt_ops_def)
  show "\<exists>kA kB. DealerSetupEdDSA id toy_ec toy_dealt_ops [Inr c] key pub chain parties = Return (Inr [kA, kB])"
    by (simp add: DealerSetupEdDSA_def Let_def ids len shamirSplit_def toy_check eddsa_saves_def upt_rec
        toy_dealt_ops_def)
qed

lemma toy_deploys:
  "\<exists>s'. job_run toy_installer [toy_luck, toy_luck, toy_luck] (Deriving ''words'' False) primed_sys =
     (Next (Certifying False), s')"
proof -
  let ?W = "ie_W toy_installer"
  have e: "ie_S toy_installer = id" "sw_ec ?W = toy_ec" "sw_edwards ?W = toy_ec"
    "ie_ecdsa toy_installer = toy_dealt_ops" "ie_eddsa toy_installer = toy_dealt_ops"
    "lu_ecdsa toy_luck = [Inr 3]" "lu_eddsa toy_luck = [Inr 2]" "sw_b39 ?W = toy_b39" "sw_hmac ?W = toy_hmac"
    by (simp_all add: toy_installer_def toy_luck_def)
  have m: "deriveECDSAKey toy_ec toy_hmac (b39_NewSeed toy_b39 w) =
      Inr (4, elliptic_Marshal (ec_ScalarBaseMult toy_ec (nat_bytes 4)), str_bytes ''Bitcoin seed'')" for w
    by (simp add: deriveECDSAKey_def toy_master_key)
  have v: "b39_IsMnemonicValid toy_b39 w" for w by (simp add: toy_b39_def)
  obtain keys where keys: "DeriveKeysFromMnemonic (sw_b39 ?W) (sw_ec ?W) (sw_hmac ?W) (sw_edPublic ?W)
      (sw_sha512 ?W) ''words'' = Inr keys"
    by (simp add: DeriveKeysFromMnemonic_def e m v Let_def split_beta)
  have pub: "mk_ECDSAPubKey keys = elliptic_Marshal (mod7 (mk_ECDSAPrivKey keys))"
    by (rule derived_ecdsa_key [OF keys, THEN conjunct1]) (simp add: toy_installer_def toy_laws)
  obtain kA kB where D: "DealerSetupECDSA id toy_ec toy_dealt_ops [Inr 3] (mk_ECDSAPrivKey keys)
      (mk_ECDSAPubKey keys) (mk_ECDSAChainCode keys) parties [toy_pp, toy_pp] = Return (Inr [kA, kB])"
    using toy_dealers(1) unfolding pub by blast
  obtain eA eB where DE: "DealerSetupEdDSA id toy_ec toy_dealt_ops [Inr 2] (mk_EdDSAPrivKey keys)
      (mk_EdDSAPubKey keys) (mk_EdDSAChainCode keys) parties = Return (Inr [eA, eB])"
    using toy_dealers(2) by blast
  show ?thesis
    by (simp add: derive_phase_def start_phase_def wait_begin_def params_ready_def split_phase_def
        split_eddsa_def store_shares_def io_runs keys [unfolded e] D DE e primed_sys_def AppendLog_def)
qed

lemma toy_interpolates:
  "\<exists>p q. makeSortedPartyIDs id parties = [p, q] \<and> interpolates (ec_N toy_ec) [5, 3] [lp_Key p, lp_Key q] 1"
proof -
  obtain p q where ids: "makeSortedPartyIDs id parties = [p, q]" and k: "lp_Key p mod 7 = 4" "lp_Key q mod 7 = 5"
    using toy_parties by blast
  have "(5 * lp_Key p + 3 * lp_Key q) mod 7 = (5 * (lp_Key p mod 7) + 3 * (lp_Key q mod 7)) mod 7"
    by (intro mod_add_cong) (simp_all only: mod_mult_right_eq)
  then have z: "(5 * lp_Key p + 3 * lp_Key q) mod 7 = 0" by (simp add: k)
  have "j = 1" if "1 \<le> j" "j \<le> (1 :: nat)" for j using that by simp
  then have ip: "interpolates (ec_N toy_ec) [5, 3] [lp_Key p, lp_Key q] 1"
    using z by (auto simp: interpolates_def toy_ec_def)
  with ids show ?thesis by blast
qed

lemma toy_stored_shares:
  "\<exists>s' keys kA kB a b. job_run toy_installer [toy_luck, toy_luck, toy_luck] (Deriving ''words'' False)
      primed_sys = (Next (Certifying False), s') \<and>
    wz_ShareA (sy_wz s') = Some kA \<and> wz_ShareB (sy_wz s') = Some kB \<and>
    shares_of toy_ec mod7 5 3 (mk_ECDSAPrivKey (keys :: MnemonicKeys)) (a :: unit dealt save_data) b"
proof -
  obtain s' where run: "job_run toy_installer [toy_luck, toy_luck, toy_luck] (Deriving ''words'' False)
      primed_sys = (Next (Certifying False), s')" using toy_deploys by blast
  obtain p q where ids: "makeSortedPartyIDs id parties = [p, q]"
    and ip: "interpolates (ec_N toy_ec) [5, 3] [lp_Key p, lp_Key q] 1"
    using toy_interpolates by blast
  have e: "sw_ec (ie_W toy_installer) = toy_ec" "sw_edwards (ie_W toy_installer) = toy_ec" "ie_S toy_installer = id"
    by (simp_all add: toy_installer_def)
  note laws = toy_laws [folded e(1)] toy_laws [folded e(2)]
  note all = stored_shares [OF laws ids [folded e(3)] ip [folded e(1)] ip [folded e(2)] run]
  obtain keys :: MnemonicKeys and kA kB and a b :: "unit dealt save_data" where
    "wz_ShareA (sy_wz s') = Some kA" "wz_ShareB (sy_wz s') = Some kB"
    "shares_of toy_ec mod7 5 3 (mk_ECDSAPrivKey keys) a b"
    using all unfolding e by (elim exE conjE) (rule that, assumption+)
  with run show ?thesis by (intro exI conjI)
qed

end
