(* ===== verification/Peer.thy ===== *)
theory Peer
  imports Wire
begin

section \<open>The connected peers (internal/transport/client.go, server.go)\<close>

text \<open>
  Party A's \<open>Client\<close> and Party B's \<open>Server\<close>: correlation ids and the table of pending requests,
  the body of the two read loops, the single peer connection, and reconnection with back-off.
  A connection is a number; what travels on it is two queues of messages, one per direction,
  which \<open>Wire\<close> shows the framing delivers unchanged. The outcome of writing to a socket is
  the argument \<open>wr\<close> (\<open>None\<close> when the write succeeds). A reply channel (\<open>make(chan *Message, 1)\<close>)
  is a number too, with its one-place buffer in \<open>cl_chans\<close>.
\<close>

type_synonym 'p handler_result = "'p message option res"
type_synonym 'p write_outcome = "'p message \<Rightarrow> err option"

record 'p client =
  cl_conn :: "nat option"
  cl_closed :: bool
  cl_seq :: u64
  cl_incoming :: "'p list"
  cl_pending :: "u64 \<rightharpoonup> nat"
  cl_chans :: "nat \<rightharpoonup> 'p message"
  cl_next_chan :: nat

definition NewClient :: "'p client" where
  "NewClient = \<lparr>cl_conn = None, cl_closed = False, cl_seq = 0, cl_incoming = [],
     cl_pending = Map.empty, cl_chans = Map.empty, cl_next_chan = 0\<rparr>"

text \<open>The capacity of the channel of incoming protocol messages.\<close>

definition incoming_cap :: nat where "incoming_cap = 100"

text \<open>The result carries the connection written to when the write succeeded.\<close>

definition client_SendMessage ::
  "'p write_outcome \<Rightarrow> 'p message \<Rightarrow> 'p client \<Rightarrow> err + nat" where
  "client_SendMessage wr m c =
     (case cl_conn c of
        None \<Rightarrow> Inl ''not connected''
      | Some n \<Rightarrow> (case wr m of Some e \<Rightarrow> Inl e | None \<Rightarrow> Inr n))"

text \<open>
  \<open>Request\<close> up to its \<open>select\<close>: a fresh id, a fresh channel registered under it, the message
  sent; a failed send unregisters the channel. The result is the channel waited on, the
  connection used and the message as sent.
\<close>

definition Request ::
  "'p write_outcome \<Rightarrow> 'p message \<Rightarrow> 'p client \<Rightarrow> (nat \<times> nat \<times> 'p message) res \<times> 'p client" where
  "Request wr m c =
     (let ident = cl_seq c + 1;
          msg = m\<lparr>m_id := ident\<rparr>;
          ch = cl_next_chan c;
          c1 = c\<lparr>cl_seq := ident, cl_next_chan := Suc ch,
                 cl_chans := (cl_chans c)(ch := None),
                 cl_pending := (cl_pending c)(ident \<mapsto> ch)\<rparr>
      in case client_SendMessage wr msg c1 of
           Inl e \<Rightarrow> (Inl e, c1\<lparr>cl_pending := (cl_pending c1)(ident := None)\<rparr>)
         | Inr n \<Rightarrow> (Inr (ch, n, msg), c1))"

text \<open>The two arms of its \<open>select\<close>: a reply is in the channel, or the context has ended.\<close>

definition Request_reply :: "nat \<Rightarrow> 'p client \<Rightarrow> ('p message \<times> 'p client) option" where
  "Request_reply ch c =
     (case cl_chans c ch of
        None \<Rightarrow> None
      | Some r \<Rightarrow> Some (r, c\<lparr>cl_chans := (cl_chans c)(ch := None)\<rparr>))"

definition Request_cancel :: "u64 \<Rightarrow> 'p client \<Rightarrow> 'p client" where
  "Request_cancel ident c = c\<lparr>cl_pending := (cl_pending c)(ident := None)\<rparr>"

text \<open>\<open>Send\<close>, the client as a message router of the protocol.\<close>

definition client_Send :: "'p write_outcome \<Rightarrow> 'p \<Rightarrow> 'p client \<Rightarrow>
    (nat \<times> 'p message) res \<times> 'p client" where
  "client_Send wr p c =
     (let ident = cl_seq c + 1;
          msg = \<lparr>m_type = MsgTSSRound, m_id = ident, m_payload = p\<rparr>;
          c1 = c\<lparr>cl_seq := ident\<rparr>
      in case client_SendMessage wr msg c1 of
           Inl e \<Rightarrow> (Inl e, c1)
         | Inr n \<Rightarrow> (Inr (n, msg), c1))"

definition is_protocol_type :: "byte \<Rightarrow> bool" where
  "is_protocol_type ty \<longleftrightarrow> ty \<in> {MsgTSSRound, MsgDKGRound, MsgReshare}"

text \<open>
  The body of \<open>readLoop\<close> for one message read: a pending request takes it, else a protocol
  message goes to the incoming channel (dropped when that is full), else the handler runs and its
  response, if any, is sent with the id of the message. The result lists what was sent, with the
  connection it was sent on. Writing to the reply channel blocks when its buffer is full;
  \<open>Block\<close> is that case.
\<close>

datatype 'a blocking = Block | Proceed 'a

definition client_read :: "('p message \<Rightarrow> 'p handler_result) option \<Rightarrow> 'p write_outcome \<Rightarrow>
    'p message \<Rightarrow> 'p client \<Rightarrow> ((nat \<times> 'p message) list \<times> 'p client) blocking" where
  "client_read handler wr m c =
     (case cl_pending c (m_id m) of
        Some ch \<Rightarrow>
          let c1 = c\<lparr>cl_pending := (cl_pending c)(m_id m := None)\<rparr>
          in (case cl_chans c1 ch of
                Some r \<Rightarrow> Block
              | None \<Rightarrow> Proceed ([], c1\<lparr>cl_chans := (cl_chans c1)(ch \<mapsto> m)\<rparr>))
      | None \<Rightarrow>
          if is_protocol_type (m_type m)
          then Proceed ([], if length (cl_incoming c) < incoming_cap
                            then c\<lparr>cl_incoming := cl_incoming c @ [m_payload m]\<rparr> else c)
          else (case handler of
                  None \<Rightarrow> Proceed ([], c)
                | Some h \<Rightarrow>
                    (case h m of
                       Inl e \<Rightarrow> Proceed ([], c)
                     | Inr None \<Rightarrow> Proceed ([], c)
                     | Inr (Some resp) \<Rightarrow>
                         (case client_SendMessage wr (resp\<lparr>m_id := m_id m\<rparr>) c of
                            Inl e \<Rightarrow> Proceed ([], c)
                          | Inr n \<Rightarrow> Proceed ([(n, resp\<lparr>m_id := m_id m\<rparr>)], c)))))"

text \<open>The deferred clean-up of \<open>readLoop\<close>: only the current connection is forgotten.\<close>

definition client_read_end :: "nat \<Rightarrow> 'p client \<Rightarrow> 'p client" where
  "client_read_end n c = (if cl_conn c = Some n then c\<lparr>cl_conn := None\<rparr> else c)"

definition client_IsConnected :: "'p client \<Rightarrow> bool" where
  "client_IsConnected c \<longleftrightarrow> cl_conn c \<noteq> None"

definition client_Close :: "'p client \<Rightarrow> 'p client" where
  "client_Close c = c\<lparr>cl_closed := True\<rparr>"

subsection \<open>Connecting with back-off\<close>

text \<open>
  \<open>connectWithRetry\<close>, driven by what happens at each attempt. An attempt finds the context
  ended, the client closed, or dials; after a failed dial the wait ends by the timer, the context
  or a close. Delays are nanoseconds. The model returns the delays waited as well as the outcome;
  \<open>None\<close> means the events ran out while it was still retrying.
\<close>

datatype wait_end = TimerFired | WaitCtxDone err | WaitClosed
datatype attempt = CtxDone err | ClientClosed | DialOk nat | DialFailed wait_end

definition initialDelay :: nat where "initialDelay = 500 * 10 ^ 6"
definition maxBackoff :: nat where "maxBackoff = 30 * 10 ^ 9"

definition next_delay :: "nat \<Rightarrow> nat" where
  "next_delay d = min (d * 2) maxBackoff"

fun connectWithRetry :: "attempt list \<Rightarrow> nat \<Rightarrow> 'p client \<Rightarrow>
    (err option \<times> 'p client) option \<times> nat list" where
  "connectWithRetry [] delay c = (None, [])"
| "connectWithRetry (CtxDone e # as) delay c = (Some (Some e, c), [])"
| "connectWithRetry (ClientClosed # as) delay c = (Some (Some ''client closed'', c), [])"
| "connectWithRetry (DialOk n # as) delay c = (Some (None, c\<lparr>cl_conn := Some n\<rparr>), [])"
| "connectWithRetry (DialFailed w # as) delay c =
     (case w of
        WaitCtxDone e \<Rightarrow> (Some (Some e, c), [delay])
      | WaitClosed \<Rightarrow> (Some (Some ''client closed'', c), [delay])
      | TimerFired \<Rightarrow>
          (case connectWithRetry as (next_delay delay) c of
             (r, ds) \<Rightarrow> (r, delay # ds)))"

definition Connect :: "attempt list \<Rightarrow> 'p client \<Rightarrow>
    (err option \<times> 'p client) option \<times> nat list" where
  "Connect as c = connectWithRetry as initialDelay c"

lemma connectWithRetry_delays:
  "i < length (snd (connectWithRetry as d c)) \<Longrightarrow> d \<le> maxBackoff \<Longrightarrow>
     snd (connectWithRetry as d c) ! i = min (d * 2 ^ i) maxBackoff"
proof (induction as d c arbitrary: i rule: connectWithRetry.induct)
  case (5 w as delay c)
  show ?case
  proof (cases i)
    case 0
    then show ?thesis using 5 by (auto split: wait_end.splits prod.splits)
  next
    case (Suc j)
    with "5.prems" have w: "w = TimerFired"
      by (auto split: wait_end.splits prod.splits)
    have nd: "next_delay delay \<le> maxBackoff" by (simp add: next_delay_def)
    have "snd (connectWithRetry (DialFailed w # as) delay c) ! i =
        snd (connectWithRetry as (next_delay delay) c) ! j"
      using w Suc by (auto split: prod.splits)
    also have "\<dots> = min (next_delay delay * 2 ^ j) maxBackoff"
      using "5.IH" [of j] w Suc "5.prems" nd by (auto split: prod.splits)
    also have "\<dots> = min (delay * 2 ^ i) maxBackoff"
    proof (cases "delay * 2 \<le> maxBackoff")
      case True
      then show ?thesis by (simp add: next_delay_def Suc mult.assoc)
    next
      case False
      then have "maxBackoff \<le> maxBackoff * 2 ^ j" and "maxBackoff \<le> delay * 2 * 2 ^ j"
        by (simp, metis False linear mult_le_mono nat_mult_1_right one_le_numeral one_le_power)
      then show ?thesis using False by (simp add: next_delay_def Suc mult.assoc)
    qed
    finally show ?thesis .
  qed
qed auto

subsection \<open>The server\<close>

record server =
  sv_conn :: "nat option"
  sv_started :: bool
  sv_listening :: bool

definition NewServer :: server where
  "NewServer = \<lparr>sv_conn = None, sv_started = False, sv_listening = False\<rparr>"

definition Start :: "err option \<Rightarrow> server \<Rightarrow> err option \<times> server" where
  "Start listen s =
     (if sv_started s then (Some ''server already started'', s)
      else let s1 = s\<lparr>sv_started := True\<rparr> in
        case listen of
          Some e \<Rightarrow> (Some (wrap_err ''listen'' e), s1)
        | None \<Rightarrow> (None, s1\<lparr>sv_listening := True\<rparr>))"

text \<open>
  One accepted connection (\<open>acceptLoop\<close>): a connection already held is closed, the new one is
  kept. The result names the connection closed.
\<close>

definition accept_conn :: "nat \<Rightarrow> server \<Rightarrow> nat option \<times> server" where
  "accept_conn n s = (sv_conn s, s\<lparr>sv_conn := Some n\<rparr>)"

text \<open>The deferred clean-up of \<open>handleConn\<close>.\<close>

definition handleConn_end :: "nat \<Rightarrow> server \<Rightarrow> server" where
  "handleConn_end n s = (if sv_conn s = Some n then s\<lparr>sv_conn := None\<rparr> else s)"

text \<open>
  The body of \<open>handleConn\<close> for one message: no handler, a handler error and an empty response
  send nothing; a response gets the id of the message and goes to the connection the message came
  from. The result is what was sent and whether the loop goes on.
\<close>

definition handle_message :: "('p message \<Rightarrow> 'h \<Rightarrow> 'p handler_result \<times> 'h) option \<Rightarrow>
    'p write_outcome \<Rightarrow> 'p message \<Rightarrow> 'h \<Rightarrow> 'p message option \<times> bool \<times> 'h" where
  "handle_message handler wr m h =
     (case handler of
        None \<Rightarrow> (None, True, h)
      | Some f \<Rightarrow>
          (case f m h of
             (Inl e, h1) \<Rightarrow> (None, True, h1)
           | (Inr None, h1) \<Rightarrow> (None, True, h1)
           | (Inr (Some resp), h1) \<Rightarrow>
               (case wr (resp\<lparr>m_id := m_id m\<rparr>) of
                  Some e \<Rightarrow> (None, False, h1)
                | None \<Rightarrow> (Some (resp\<lparr>m_id := m_id m\<rparr>), True, h1))))"

definition server_Send :: "'p write_outcome \<Rightarrow> 'p message \<Rightarrow> server \<Rightarrow> err + nat" where
  "server_Send wr m s =
     (case sv_conn s of
        None \<Rightarrow> Inl ''no client connected''
      | Some n \<Rightarrow> (case wr m of Some e \<Rightarrow> Inl e | None \<Rightarrow> Inr n))"

definition server_IsConnected :: "server \<Rightarrow> bool" where
  "server_IsConnected s \<longleftrightarrow> sv_conn s \<noteq> None"

text \<open>\<open>ServerRouter.Send\<close>: the message it builds has no id, so id 0.\<close>

definition router_Send :: "'p write_outcome \<Rightarrow> 'p \<Rightarrow> server \<Rightarrow> (nat \<times> 'p message) res" where
  "router_Send wr p s =
     (let msg = \<lparr>m_type = MsgTSSRound, m_id = 0, m_payload = p\<rparr> in
      case server_Send wr msg s of Inl e \<Rightarrow> Inl e | Inr n \<Rightarrow> Inr (n, msg))"

text \<open>
  \<open>FeedMessage\<close> writes to the router's channel of capacity 100 and blocks when it is full.
\<close>

definition FeedMessage :: "'p \<Rightarrow> 'p list \<Rightarrow> 'p list blocking" where
  "FeedMessage p inCh = (if length inCh < incoming_cap then Proceed (inCh @ [p]) else Block)"

subsection \<open>The two peers together\<close>

text \<open>
  The two peers and the messages in flight. \<open>nt_up n\<close> and \<open>nt_down n\<close> are the directions of
  connection \<open>n\<close>, oldest message first; \<open>nt_asked\<close> remembers, for a reply channel, the request
  that was sent for it (it is read by no operation). The server's handler \<open>f\<close> runs on a state
  \<open>nt_hstate\<close> that other goroutines may also change.
\<close>

record ('p, 'h) net =
  nt_client :: "'p client"
  nt_server :: server
  nt_hstate :: 'h
  nt_up :: "nat \<Rightarrow> 'p message list"
  nt_down :: "nat \<Rightarrow> 'p message list"
  nt_asked :: "nat \<rightharpoonup> 'p message"

definition net_init :: "'h \<Rightarrow> ('p, 'h) net" where
  "net_init h = \<lparr>nt_client = NewClient, nt_server = NewServer, nt_hstate = h,
     nt_up = (\<lambda>n. []), nt_down = (\<lambda>n. []), nt_asked = Map.empty\<rparr>"

definition enqueue :: "(nat \<times> 'p message) list \<Rightarrow> (nat \<Rightarrow> 'p message list) \<Rightarrow>
    nat \<Rightarrow> 'p message list" where
  "enqueue outs q = (\<lambda>n. q n @ map snd (filter (\<lambda>x. fst x = n) outs))"

inductive net_step :: "('p message \<Rightarrow> 'h \<Rightarrow> 'p handler_result \<times> 'h) \<Rightarrow>
    ('p, 'h) net \<Rightarrow> ('p, 'h) net \<Rightarrow> bool" for f where
  Ask: "Request wr m (nt_client s) = (Inr (ch, n, msg), c) \<Longrightarrow>
    net_step f s (s\<lparr>nt_client := c, nt_up := enqueue [(n, msg)] (nt_up s),
      nt_asked := (nt_asked s)(ch \<mapsto> msg)\<rparr>)"
| Ask_fails: "Request wr m (nt_client s) = (Inl e, c) \<Longrightarrow> net_step f s (s\<lparr>nt_client := c\<rparr>)"
| Take_reply: "Request_reply ch (nt_client s) = Some (r, c) \<Longrightarrow>
    net_step f s (s\<lparr>nt_client := c\<rparr>)"
| Give_up: "net_step f s (s\<lparr>nt_client := Request_cancel ident (nt_client s)\<rparr>)"
| Send_round: "client_Send wr p (nt_client s) = (Inr (n, msg), c) \<Longrightarrow>
    net_step f s (s\<lparr>nt_client := c, nt_up := enqueue [(n, msg)] (nt_up s)\<rparr>)"
| Send_round_fails: "client_Send wr p (nt_client s) = (Inl e, c) \<Longrightarrow>
    net_step f s (s\<lparr>nt_client := c\<rparr>)"
| Client_reads: "nt_down s n = m # rest \<Longrightarrow>
    client_read hc wr m (nt_client s) = Proceed (outs, c) \<Longrightarrow>
    net_step f s (s\<lparr>nt_client := c, nt_down := (nt_down s)(n := rest),
      nt_up := enqueue outs (nt_up s)\<rparr>)"
| Client_read_ends: "net_step f s (s\<lparr>nt_client := client_read_end n (nt_client s)\<rparr>)"
| Client_connects: "Connect as (nt_client s) = (Some (e, c), ds) \<Longrightarrow>
    net_step f s (s\<lparr>nt_client := c\<rparr>)"
| Client_closes: "net_step f s (s\<lparr>nt_client := client_Close (nt_client s)\<rparr>)"
| Server_handles: "nt_up s n = m # rest \<Longrightarrow>
    handle_message (Some f) wr m (nt_hstate s) = (out, go, h) \<Longrightarrow>
    net_step f s (s\<lparr>nt_hstate := h, nt_up := (nt_up s)(n := rest),
      nt_down := enqueue (case out of None \<Rightarrow> [] | Some r \<Rightarrow> [(n, r)]) (nt_down s)\<rparr>)"
| Server_pushes: "server_Send wr m (nt_server s) = Inr n \<Longrightarrow> m_id m = 0 \<Longrightarrow>
    net_step f s (s\<lparr>nt_down := enqueue [(n, m)] (nt_down s)\<rparr>)"
| Server_starts: "Start l (nt_server s) = (e, sv) \<Longrightarrow> net_step f s (s\<lparr>nt_server := sv\<rparr>)"
| Server_accepts: "accept_conn n (nt_server s) = (old, sv) \<Longrightarrow>
    net_step f s (s\<lparr>nt_server := sv\<rparr>)"
| Server_conn_ends: "net_step f s (s\<lparr>nt_server := handleConn_end n (nt_server s)\<rparr>)"
| Server_works: "net_step f s (s\<lparr>nt_hstate := h\<rparr>)"
| Conn_breaks: "net_step f s (s\<lparr>nt_up := (nt_up s)(n := take i (nt_up s n)),
    nt_down := (nt_down s)(n := take j (nt_down s n))\<rparr>)"

text \<open>The states reached in \<open>k\<close> steps.\<close>

inductive net_reach :: "('p message \<Rightarrow> 'h \<Rightarrow> 'p handler_result \<times> 'h) \<Rightarrow>
    nat \<Rightarrow> ('p, 'h) net \<Rightarrow> bool" for f where
  Reach_init: "net_reach f 0 (net_init h)"
| Reach_step: "net_reach f k s \<Longrightarrow> net_step f s s' \<Longrightarrow> net_reach f (Suc k) s'"

text \<open>A reply answers a request when the handler computed it, in some state, on that request.\<close>

definition answers :: "('p message \<Rightarrow> 'h \<Rightarrow> 'p handler_result \<times> 'h) \<Rightarrow>
    'p message \<Rightarrow> 'p message \<Rightarrow> bool" where
  "answers f q r \<longleftrightarrow> (\<exists>h r'. fst (f q h) = Inr (Some r') \<and> r = r'\<lparr>m_id := m_id q\<rparr>)"

subsection \<open>The invariant of the pending table\<close>

definition ids_upto :: "nat \<Rightarrow> (nat \<Rightarrow> 'p message list) \<Rightarrow> bool" where
  "ids_upto b q \<longleftrightarrow> (\<forall>n. \<forall>m \<in> set (q n). unat (m_id m) \<le> b)"

definition pending_ok :: "('p message \<Rightarrow> 'h \<Rightarrow> 'p handler_result \<times> 'h) \<Rightarrow>
    ('p, 'h) net \<Rightarrow> u64 \<Rightarrow> nat \<Rightarrow> bool" where
  "pending_ok f s i ch \<longleftrightarrow>
     i \<noteq> 0 \<and> unat i \<le> unat (cl_seq (nt_client s)) \<and> ch < cl_next_chan (nt_client s) \<and>
     cl_chans (nt_client s) ch = None \<and>
     (\<exists>q. nt_asked s ch = Some q \<and> m_id q = i \<and>
        (\<forall>n. \<forall>m \<in> set (nt_up s n). m_id m = i \<longrightarrow> m = q) \<and>
        (\<forall>n. \<forall>m \<in> set (nt_down s n). m_id m = i \<longrightarrow> answers f q m))"

definition chan_ok :: "('p message \<Rightarrow> 'h \<Rightarrow> 'p handler_result \<times> 'h) \<Rightarrow>
    ('p, 'h) net \<Rightarrow> nat \<Rightarrow> 'p message \<Rightarrow> bool" where
  "chan_ok f s ch r \<longleftrightarrow> ch < cl_next_chan (nt_client s) \<and>
     (\<exists>q. nt_asked s ch = Some q \<and> answers f q r)"

definition net_inv :: "('p message \<Rightarrow> 'h \<Rightarrow> 'p handler_result \<times> 'h) \<Rightarrow>
    nat \<Rightarrow> ('p, 'h) net \<Rightarrow> bool" where
  "net_inv f k s \<longleftrightarrow>
     unat (cl_seq (nt_client s)) \<le> k \<and>
     ids_upto (unat (cl_seq (nt_client s))) (nt_up s) \<and>
     ids_upto (unat (cl_seq (nt_client s))) (nt_down s) \<and>
     (\<forall>i ch. cl_pending (nt_client s) i = Some ch \<longrightarrow> pending_ok f s i ch) \<and>
     (\<forall>ch r. cl_chans (nt_client s) ch = Some r \<longrightarrow> chan_ok f s ch r)"

lemma set_enqueue [simp]:
  "set (enqueue outs q n) = set (q n) \<union> {m. (n, m) \<in> set outs}"
  by (force simp: enqueue_def)

lemma unat_seq_succ:
  "unat (i :: u64) \<le> k \<Longrightarrow> k < 2 ^ 64 - 1 \<Longrightarrow> unat (i + 1) = unat i + 1"
proof -
  assume "unat i \<le> k" and "k < 2 ^ 64 - 1"
  then have "unat i + 1 < 2 ^ 64" by simp
  then show ?thesis by (simp add: unat_word_ariths)
qed

lemma succ_id_nonzero: "unat (i + 1) = unat i + 1 \<Longrightarrow> (i + 1 :: u64) \<noteq> 0"
  by auto

lemma answers_id: "answers f q r \<Longrightarrow> m_id r = m_id q"
  by (auto simp: answers_def)

lemma net_inv_mono: "net_inv f k s \<Longrightarrow> net_inv f (Suc k) s"
  by (simp add: net_inv_def)

text \<open>A step that only shrinks the table, the buffers and the queues keeps the invariant.\<close>

lemma net_inv_shrink:
  assumes "net_inv f k s"
    and "cl_seq (nt_client s') = cl_seq (nt_client s)"
    and "cl_next_chan (nt_client s') = cl_next_chan (nt_client s)"
    and "nt_asked s' = nt_asked s"
    and "cl_pending (nt_client s') \<subseteq>\<^sub>m cl_pending (nt_client s)"
    and "cl_chans (nt_client s') \<subseteq>\<^sub>m cl_chans (nt_client s)"
    and "\<And>n. set (nt_up s' n) \<subseteq> set (nt_up s n)"
    and "\<And>n. set (nt_down s' n) \<subseteq> set (nt_down s n)"
  shows "net_inv f k s'"
proof -
  have p: "cl_pending (nt_client s) i = Some ch" if "cl_pending (nt_client s') i = Some ch" for i ch
    using assms(5) that by (auto simp: map_le_def dom_def)
  have c: "cl_chans (nt_client s) ch = Some r" if "cl_chans (nt_client s') ch = Some r" for ch r
    using assms(6) that by (auto simp: map_le_def dom_def)
  have cn: "cl_chans (nt_client s') ch = None" if "cl_chans (nt_client s) ch = None" for ch
    using c that by (cases "cl_chans (nt_client s') ch") auto
  have u: "ids_upto b (nt_up s')" if "ids_upto b (nt_up s)" for b
    using that assms(7) by (auto simp: ids_upto_def)
  have d: "ids_upto b (nt_down s')" if "ids_upto b (nt_down s)" for b
    using that assms(8) by (auto simp: ids_upto_def)
  have pk: "pending_ok f s' i ch" if pk0: "pending_ok f s i ch" for i ch
  proof -
    obtain q where q: "nt_asked s ch = Some q" "m_id q = i"
      and qu: "\<And>n x. x \<in> set (nt_up s n) \<Longrightarrow> m_id x = i \<Longrightarrow> x = q"
      and qd: "\<And>n x. x \<in> set (nt_down s n) \<Longrightarrow> m_id x = i \<Longrightarrow> answers f q x"
      using pk0 unfolding pending_ok_def by blast
    have "x = q" if "x \<in> set (nt_up s' n)" "m_id x = i" for n x
      using qu [of x n] that assms(7) by blast
    moreover have "answers f q x" if "x \<in> set (nt_down s' n)" "m_id x = i" for n x
      using qd [of x n] that assms(8) by blast
    ultimately show ?thesis
      using pk0 q cn assms(2-4) by (simp add: pending_ok_def)
  qed
  show ?thesis
    using assms(1) p c u d pk assms(2-4) by (auto simp: net_inv_def chan_ok_def)
qed

lemma Request_Inr:
  assumes "Request wr m c = (Inr (ch, n, msg), c')"
  shows "cl_seq c' = cl_seq c + 1 \<and> msg = m\<lparr>m_id := cl_seq c + 1\<rparr> \<and> ch = cl_next_chan c \<and>
    cl_next_chan c' = Suc (cl_next_chan c) \<and> cl_chans c' = (cl_chans c)(cl_next_chan c := None) \<and>
    cl_pending c' = (cl_pending c)(cl_seq c + 1 \<mapsto> cl_next_chan c)"
  using assms by (auto simp: Request_def Let_def split: sum.splits)

lemma Request_Inl:
  assumes "Request wr m c = (Inl e, c')"
  shows "cl_seq c' = cl_seq c + 1 \<and>
    cl_next_chan c' = Suc (cl_next_chan c) \<and> cl_chans c' = (cl_chans c)(cl_next_chan c := None) \<and>
    cl_pending c' = (cl_pending c)(cl_seq c + 1 := None)"
  using assms by (auto simp: Request_def Let_def split: sum.splits)

lemma ids_upto_mono: "ids_upto a q \<Longrightarrow> a \<le> b \<Longrightarrow> ids_upto b q"
  by (auto simp: ids_upto_def intro: order_trans)

lemma ids_upto_enqueue:
  "ids_upto b q \<Longrightarrow> (\<And>n m. (n, m) \<in> set outs \<Longrightarrow> unat (m_id m) \<le> b) \<Longrightarrow>
     ids_upto b (enqueue outs q)"
  by (auto simp: ids_upto_def)

lemma ids_upto_tail: "ids_upto b q \<Longrightarrow> q n = m # rest \<Longrightarrow> ids_upto b (q(n := rest))"
  by (auto simp: ids_upto_def dest: spec [of _ n])

lemma no_msg_above: "ids_upto b q \<Longrightarrow> b < unat i \<Longrightarrow> m \<in> set (q n) \<Longrightarrow> m_id m \<noteq> i"
  by (auto simp: ids_upto_def dest!: spec [of _ n])

lemma inv_Ask:
  assumes inv: "net_inv f k s" and k: "k < 2 ^ 64 - 1"
    and r: "Request wr m (nt_client s) = (Inr (ch, n, msg), c)"
  shows "net_inv f (Suc k) (s\<lparr>nt_client := c, nt_up := enqueue [(n, msg)] (nt_up s),
      nt_asked := (nt_asked s)(ch \<mapsto> msg)\<rparr>)" (is "net_inv f _ ?s")
proof -
  let ?i = "cl_seq (nt_client s)"
  note R = Request_Inr [OF r]
  have le: "unat ?i \<le> k" and up: "ids_upto (unat ?i) (nt_up s)" and
    dn: "ids_upto (unat ?i) (nt_down s)" using inv by (auto simp: net_inv_def)
  have su: "unat (?i + 1) = unat ?i + 1" using unat_seq_succ [OF le k] .
  have nu: "m_id x \<noteq> ?i + 1" if "x \<in> set (nt_up s j)" for x j
    using no_msg_above [OF up _ that] su by simp
  have nd: "m_id x \<noteq> ?i + 1" if "x \<in> set (nt_down s j)" for x j
    using no_msg_above [OF dn _ that] su by simp
  have new: "pending_ok f ?s (?i + 1) (cl_next_chan (nt_client s))"
    using R nu nd su succ_id_nonzero [OF su] by (auto simp: pending_ok_def)
  have old: "pending_ok f ?s j ch'" if "cl_pending (nt_client s) j = Some ch'" for j ch'
  proof -
    have pk: "pending_ok f s j ch'" using inv that by (simp add: net_inv_def)
    then have "j \<noteq> ?i + 1" and "ch' \<noteq> cl_next_chan (nt_client s)"
      using su by (auto simp: pending_ok_def)
    with pk show ?thesis using R su by (auto simp: pending_ok_def)
  qed
  show ?thesis
    unfolding net_inv_def
    using R su le new old inv
    by (auto simp: net_inv_def chan_ok_def less_Suc_eq
        intro!: ids_upto_enqueue intro: ids_upto_mono split: if_splits)
qed


lemma inv_Ask_fails:
  assumes inv: "net_inv f k s" and k: "k < 2 ^ 64 - 1"
    and r: "Request wr m (nt_client s) = (Inl e, c)"
  shows "net_inv f (Suc k) (s\<lparr>nt_client := c\<rparr>)" (is "net_inv f _ ?s")
proof -
  let ?i = "cl_seq (nt_client s)"
  note R = Request_Inl [OF r]
  have le: "unat ?i \<le> k" using inv by (simp add: net_inv_def)
  have su: "unat (?i + 1) = unat ?i + 1" using unat_seq_succ [OF le k] .
  have old: "pending_ok f ?s j ch" if "cl_pending (nt_client s) j = Some ch" for j ch
  proof -
    have pk: "pending_ok f s j ch" using inv that by (simp add: net_inv_def)
    then have "ch \<noteq> cl_next_chan (nt_client s)" by (auto simp: pending_ok_def)
    with pk show ?thesis using R su by (auto simp: pending_ok_def)
  qed
  show ?thesis
    unfolding net_inv_def
    using R su le old inv
    by (auto simp: net_inv_def chan_ok_def less_Suc_eq intro: ids_upto_mono split: if_splits)
qed

lemma client_Send_seq:
  assumes "client_Send wr p c = (r, c')"
  shows "c' = c\<lparr>cl_seq := cl_seq c + 1\<rparr> \<and>
    (\<forall>n msg. r = Inr (n, msg) \<longrightarrow> m_id msg = cl_seq c + 1)"
  using assms by (auto simp: client_Send_def Let_def split: sum.splits)

lemma inv_seq_and_send:
  assumes inv: "net_inv f k s" and k: "k < 2 ^ 64 - 1"
    and o: "\<And>n x. (n, x) \<in> set outs \<Longrightarrow> m_id x = cl_seq (nt_client s) + 1"
  shows "net_inv f (Suc k) (s\<lparr>nt_client := nt_client s\<lparr>cl_seq := cl_seq (nt_client s) + 1\<rparr>,
    nt_up := enqueue outs (nt_up s)\<rparr>)" (is "net_inv f _ ?s")
proof -
  let ?i = "cl_seq (nt_client s)"
  have le: "unat ?i \<le> k" using inv by (simp add: net_inv_def)
  have su: "unat (?i + 1) = unat ?i + 1" using unat_seq_succ [OF le k] .
  have old: "pending_ok f ?s j ch" if "cl_pending (nt_client s) j = Some ch" for j ch
  proof -
    have pk: "pending_ok f s j ch" using inv that by (simp add: net_inv_def)
    then have "j \<noteq> ?i + 1" using su by (auto simp: pending_ok_def)
    with pk show ?thesis using su o by (auto simp: pending_ok_def)
  qed
  show ?thesis
    unfolding net_inv_def
    using su le old inv o
    by (auto simp: net_inv_def chan_ok_def intro!: ids_upto_enqueue intro: ids_upto_mono)
qed

lemma client_read_seq:
  assumes "client_read hc wr m c = Proceed (outs, c')"
  shows "cl_seq c' = cl_seq c \<and> cl_next_chan c' = cl_next_chan c \<and>
    (\<forall>n x. (n, x) \<in> set outs \<longrightarrow> m_id x = m_id m \<and> cl_pending c (m_id m) = None) \<and>
    (case cl_pending c (m_id m) of
       None \<Rightarrow> cl_pending c' = cl_pending c \<and> cl_chans c' = cl_chans c
     | Some ch \<Rightarrow> cl_pending c' = (cl_pending c)(m_id m := None) \<and>
         cl_chans c' = (cl_chans c)(ch \<mapsto> m))"
  using assms
  by (auto simp: client_read_def Let_def split: option.splits if_splits sum.splits)

lemma inv_Client_reads:
  assumes inv: "net_inv f k s" and q: "nt_down s n = m # rest"
    and r: "client_read hc wr m (nt_client s) = Proceed (outs, c)"
  shows "net_inv f (Suc k) (s\<lparr>nt_client := c, nt_down := (nt_down s)(n := rest),
      nt_up := enqueue outs (nt_up s)\<rparr>)" (is "net_inv f _ ?s")
proof -
  note R = client_read_seq [OF r]
  have dn: "ids_upto (unat (cl_seq (nt_client s))) (nt_down s)" and
    up: "ids_upto (unat (cl_seq (nt_client s))) (nt_up s)" and
    le: "unat (cl_seq (nt_client s)) \<le> k" using inv by (auto simp: net_inv_def)
  have mid: "unat (m_id m) \<le> unat (cl_seq (nt_client s))"
    using dn q unfolding ids_upto_def by (metis list.set_intros(1))
  have old: "pending_ok f ?s j ch" if "cl_pending c j = Some ch" for j ch
  proof -
    from that have p: "cl_pending (nt_client s) j = Some ch" and
      jm: "cl_pending (nt_client s) (m_id m) \<noteq> None \<Longrightarrow> j \<noteq> m_id m"
      using R by (auto split: option.splits if_splits)
    then have pk: "pending_ok f s j ch" using inv by (simp add: net_inv_def)
    have "cl_chans c ch = None"
    proof (cases "cl_pending (nt_client s) (m_id m)")
      case None
      then show ?thesis using R pk by (auto simp: pending_ok_def)
    next
      case (Some ch2)
      then have "pending_ok f s (m_id m) ch2" using inv by (simp add: net_inv_def)
      then have "ch2 \<noteq> ch" using pk jm Some by (auto simp: pending_ok_def)
      then show ?thesis using R pk Some by (auto simp: pending_ok_def)
    qed
    moreover obtain w where w: "nt_asked s ch = Some w" "m_id w = j" and
      wu: "\<And>i x. x \<in> set (nt_up s i) \<Longrightarrow> m_id x = j \<Longrightarrow> x = w" and
      wd: "\<And>i x. x \<in> set (nt_down s i) \<Longrightarrow> m_id x = j \<Longrightarrow> answers f w x"
      using pk unfolding pending_ok_def by blast
    moreover have "x = w" if x: "x \<in> set (enqueue outs (nt_up s) i)" "m_id x = j" for i x
    proof (cases "x \<in> set (nt_up s i)")
      case True
      then show ?thesis using wu x(2) by blast
    next
      case False
      then have "m_id x = m_id m" and "cl_pending (nt_client s) (m_id m) = None"
        using R x(1) by auto
      then show ?thesis using p x(2) by simp
    qed
    moreover have "answers f w x" if "x \<in> set (((nt_down s)(n := rest)) i)" "m_id x = j" for i x
      using that wd [of x i] q by (auto split: if_splits)
    ultimately show ?thesis using pk R
      by (simp add: pending_ok_def)
  qed
  have ch: "chan_ok f ?s ch' x" if "cl_chans c ch' = Some x" for ch' x
  proof (cases "cl_pending (nt_client s) (m_id m)")
    case None
    then show ?thesis using R that inv by (auto simp: net_inv_def chan_ok_def)
  next
    case (Some ch2)
    then have pk: "pending_ok f s (m_id m) ch2" using inv by (simp add: net_inv_def)
    show ?thesis
    proof (cases "ch' = ch2")
      case True
      then have "x = m" using R that Some by simp
      then show ?thesis using pk True R q
        by (auto simp: pending_ok_def chan_ok_def) (metis list.set_intros(1))
    next
      case False
      then show ?thesis using R that inv Some by (auto simp: net_inv_def chan_ok_def)
    qed
  qed
  have "ids_upto (unat (cl_seq (nt_client s))) (enqueue outs (nt_up s))"
    using R mid by (intro ids_upto_enqueue [OF up]) auto
  then show ?thesis
    unfolding net_inv_def using R old ch le ids_upto_tail [OF dn q] by simp
qed

lemma handle_message_reply:
  assumes "handle_message (Some f) wr m h = (Some r, go, h')"
  shows "answers f m r"
  using assms unfolding handle_message_def answers_def
  by (auto split: sum.splits option.splits prod.splits intro!: exI [of _ h])

lemma inv_Server_handles:
  assumes inv: "net_inv f k s" and q: "nt_up s n = m # rest"
    and r: "handle_message (Some f) wr m (nt_hstate s) = (out, go, h)"
  shows "net_inv f (Suc k) (s\<lparr>nt_hstate := h, nt_up := (nt_up s)(n := rest),
      nt_down := enqueue (case out of None \<Rightarrow> [] | Some r \<Rightarrow> [(n, r)]) (nt_down s)\<rparr>)"
    (is "net_inv f _ ?s")
proof -
  have dn: "ids_upto (unat (cl_seq (nt_client s))) (nt_down s)" and
    up: "ids_upto (unat (cl_seq (nt_client s))) (nt_up s)" and
    le: "unat (cl_seq (nt_client s)) \<le> k" using inv by (auto simp: net_inv_def)
  have mid: "unat (m_id m) \<le> unat (cl_seq (nt_client s))"
    using up q unfolding ids_upto_def by (metis list.set_intros(1))
  have a: "answers f m x" if "out = Some x" for x
    using handle_message_reply [of f wr m _ x go h] r that by simp
  have old: "pending_ok f ?s j ch" if p: "cl_pending (nt_client s) j = Some ch" for j ch
  proof -
    have pk: "pending_ok f s j ch" using inv p by (simp add: net_inv_def)
    then obtain w where w: "nt_asked s ch = Some w" "m_id w = j" and
      wu: "\<And>i x. x \<in> set (nt_up s i) \<Longrightarrow> m_id x = j \<Longrightarrow> x = w" and
      wd: "\<And>i x. x \<in> set (nt_down s i) \<Longrightarrow> m_id x = j \<Longrightarrow> answers f w x"
      unfolding pending_ok_def by blast
    have "x = w" if "x \<in> set (((nt_up s)(n := rest)) i)" "m_id x = j" for i x
      using that wu [of x i] q by (auto split: if_splits)
    moreover have "answers f w x" if "out = Some x" "m_id x = j" for x
      using a [OF that(1)] answers_id [OF a [OF that(1)]] that(2) wu [of m n] q by simp
    ultimately show ?thesis using pk w wd
      by (auto simp: pending_ok_def split: option.splits)
  qed
  have "ids_upto (unat (cl_seq (nt_client s)))
      (enqueue (case out of None \<Rightarrow> [] | Some r \<Rightarrow> [(n, r)]) (nt_down s))"
    using a answers_id mid by (intro ids_upto_enqueue [OF dn]) (fastforce split: option.splits)
  then show ?thesis
    unfolding net_inv_def using old inv le ids_upto_tail [OF up q]
    by (simp add: net_inv_def chan_ok_def)
qed

lemma inv_Server_pushes:
  assumes inv: "net_inv f k s" and z: "m_id m = 0"
  shows "net_inv f (Suc k) (s\<lparr>nt_down := enqueue [(n, m)] (nt_down s)\<rparr>)" (is "net_inv f _ ?s")
proof -
  have dn: "ids_upto (unat (cl_seq (nt_client s))) (nt_down s)" using inv by (simp add: net_inv_def)
  have old: "pending_ok f ?s j ch" if "pending_ok f s j ch" for j ch
    using that z by (fastforce simp: pending_ok_def)
  have "ids_upto (unat (cl_seq (nt_client s))) (enqueue [(n, m)] (nt_down s))"
    using z by (intro ids_upto_enqueue [OF dn]) auto
  then show ?thesis
    unfolding net_inv_def using old inv by (simp add: net_inv_def chan_ok_def)
qed

lemma connectWithRetry_client:
  "fst (connectWithRetry as d c) = Some (e, c') \<Longrightarrow> c' = c \<or> (\<exists>n. c' = c\<lparr>cl_conn := Some n\<rparr>)"
  by (induction as d c rule: connectWithRetry.induct)
    (auto split: wait_end.splits prod.splits)

lemma set_take_sub: "set (((q :: nat \<Rightarrow> 'a list)(n := take i (q n))) j) \<subseteq> set (q j)"
  by (auto dest: in_set_takeD)

lemma net_step_inv:
  assumes "net_step f s s'" and "net_inv f k s" and "k < 2 ^ 64 - 1"
  shows "net_inv f (Suc k) s'"
  using assms
proof (induction rule: net_step.induct)
  case (Send_round wr p s n msg c)
  then show ?case
    using client_Send_seq [OF Send_round(1)] inv_seq_and_send [of f k s "[(n, msg)]"] by simp
next
  case (Send_round_fails wr p s e c)
  have "enqueue [] (nt_up s) = nt_up s" by (simp add: enqueue_def)
  then show ?case
    using Send_round_fails client_Send_seq [OF Send_round_fails(1)] inv_seq_and_send [of f k s "[]"]
    by simp
next
  case (Take_reply ch s r c)
  then show ?case
    by (intro net_inv_mono net_inv_shrink [OF Take_reply(2)])
      (auto simp: Request_reply_def map_le_def split: option.splits if_splits)
next
  case (Give_up s i)
  then show ?case
    by (intro net_inv_mono net_inv_shrink [OF Give_up(1)])
      (auto simp: Request_cancel_def map_le_def)
next
  case (Client_read_ends s n)
  then show ?case
    by (intro net_inv_mono net_inv_shrink [OF Client_read_ends(1)])
      (auto simp: client_read_end_def)
next
  case (Client_connects as s e c ds)
  then have "c = nt_client s \<or> (\<exists>n. c = (nt_client s)\<lparr>cl_conn := Some n\<rparr>)"
    by (intro connectWithRetry_client [of as initialDelay]) (simp add: Connect_def)
  then show ?case
    by (intro net_inv_mono net_inv_shrink [OF Client_connects(2)]) auto
next
  case (Client_closes s)
  then show ?case
    by (intro net_inv_mono net_inv_shrink [OF Client_closes(1)]) (auto simp: client_Close_def)
next
  case (Conn_breaks s n i j)
  show ?case
    by (intro net_inv_mono net_inv_shrink [OF Conn_breaks(1)])
      (auto dest: in_set_takeD split: if_splits)
next
  case (Server_starts l s e sv)
  then show ?case by (intro net_inv_mono net_inv_shrink [OF Server_starts(2)]) auto
next
  case (Server_accepts n s old sv)
  then show ?case by (intro net_inv_mono net_inv_shrink [OF Server_accepts(2)]) auto
next
  case (Server_conn_ends s n)
  then show ?case by (intro net_inv_mono net_inv_shrink [OF Server_conn_ends(1)]) auto
next
  case (Server_works s h)
  then show ?case by (intro net_inv_mono net_inv_shrink [OF Server_works(1)]) auto
qed (blast intro: inv_Ask inv_Ask_fails inv_Client_reads inv_Server_handles inv_Server_pushes)+

lemma net_reach_inv: "net_reach f k s \<Longrightarrow> k < 2 ^ 64 \<Longrightarrow> net_inv f k s"
proof (induction rule: net_reach.induct)
  case (Reach_init h)
  then show ?case
    by (simp add: net_inv_def net_init_def NewClient_def ids_upto_def)
next
  case (Reach_step k s s')
  then show ?case using net_step_inv [of f s s' k] by simp
qed


inductive_cases net_reach_SucE: "net_reach f (Suc k) s"

subsection \<open>What the peers promise\<close>

text \<open>
  C23. Replies are correlated: in every state the two peers can reach, over any number of
  connections, lost messages, timed-out requests, protocol rounds and unsolicited messages, a
  reply that \<open>Request\<close> returns carries the id of the request it waited for and is what Party B's
  handler computed on exactly that request. The bound on the number of steps keeps the 64-bit id
  counter from wrapping.
\<close>

theorem reply_correlated:
  assumes "net_reach f k s" and "k < 2 ^ 64"
    and "Request_reply ch (nt_client s) = Some (r, c)"
  shows "\<exists>q. nt_asked s ch = Some q \<and> m_id r = m_id q \<and> answers f q r"
proof -
  have "cl_chans (nt_client s) ch = Some r"
    using assms(3) by (auto simp: Request_reply_def split: option.splits)
  then have "chan_ok f s ch r"
    using net_reach_inv [OF assms(1,2)] by (simp add: net_inv_def)
  then show ?thesis using answers_id by (auto simp: chan_ok_def)
qed

text \<open>A health check that is answered: the states of a run of five steps.\<close>

definition demo_handler :: "nat message \<Rightarrow> unit \<Rightarrow> nat handler_result \<times> unit" where
  "demo_handler m h =
     (Inr (Some \<lparr>m_type = MsgHealthResp, m_id = 0, m_payload = m_payload m + 1\<rparr>), ())"

definition demo_ping :: "nat message" where
  "demo_ping = \<lparr>m_type = MsgHealthCheck, m_id = 0, m_payload = 41\<rparr>"

definition demo_pong :: "nat message" where
  "demo_pong = \<lparr>m_type = MsgHealthResp, m_id = 1, m_payload = 42\<rparr>"

definition demo_asked :: "nat client" where
  "demo_asked = NewClient\<lparr>cl_conn := Some 3, cl_seq := 1, cl_next_chan := 1,
     cl_chans := Map.empty(0 := None), cl_pending := [1 \<mapsto> 0]\<rparr>"

definition demo_final :: "(nat, unit) net" where
  "demo_final = \<lparr>nt_client = demo_asked\<lparr>cl_pending := Map.empty, cl_chans := [0 \<mapsto> demo_pong]\<rparr>,
     nt_server = NewServer, nt_hstate = (), nt_up = (\<lambda>n. []), nt_down = (\<lambda>n. []),
     nt_asked = [0 \<mapsto> demo_ping\<lparr>m_id := 1\<rparr>]\<rparr>"

lemma demo_run: "net_reach demo_handler 4 demo_final"
proof -
  let ?i = "net_init () :: (nat, unit) net"
  let ?q = "demo_ping\<lparr>m_id := 1\<rparr>"
  let ?s1 = "?i\<lparr>nt_client := NewClient\<lparr>cl_conn := Some 3\<rparr>\<rparr>"
  let ?s2 = "?s1\<lparr>nt_client := demo_asked, nt_up := enqueue [(3, ?q)] (nt_up ?s1),
    nt_asked := (nt_asked ?s1)(0 \<mapsto> ?q)\<rparr>"
  let ?s3 = "?s2\<lparr>nt_hstate := (), nt_up := (nt_up ?s2)(3 := []),
    nt_down := enqueue (case Some demo_pong of None \<Rightarrow> [] | Some r \<Rightarrow> [(3, r)]) (nt_down ?s2)\<rparr>"
  let ?c4 = "demo_asked\<lparr>cl_pending := Map.empty, cl_chans := [0 \<mapsto> demo_pong]\<rparr>"
  let ?s4 = "?s3\<lparr>nt_client := ?c4, nt_down := (nt_down ?s3)(3 := []),
    nt_up := enqueue [] (nt_up ?s3)\<rparr>"
  have "net_step demo_handler ?i ?s1"
    by (rule Client_connects [where as = "[DialOk 3]"])
      (simp add: Connect_def net_init_def NewClient_def)
  moreover have "net_step demo_handler ?s1 ?s2"
    by (rule Ask [where m = demo_ping and wr = "\<lambda>m. None"])
      (simp add: Request_def client_SendMessage_def demo_asked_def NewClient_def)
  moreover have "net_step demo_handler ?s2 ?s3"
    by (rule Server_handles [where m = ?q and wr = "\<lambda>m. None" and go = True])
      (simp_all add: handle_message_def demo_handler_def demo_pong_def demo_ping_def
        net_init_def enqueue_def)
  moreover have "net_step demo_handler ?s3 ?s4"
    by (rule Client_reads [where m = demo_pong and hc = None and wr = "\<lambda>m. None"])
      (simp_all add: client_read_def demo_asked_def NewClient_def demo_pong_def
        net_init_def enqueue_def)
  ultimately have "net_reach demo_handler (Suc (Suc (Suc (Suc 0)))) ?s4"
    by (blast intro: Reach_init Reach_step)
  moreover have "?s4 = demo_final"
    by (simp add: demo_final_def net_init_def enqueue_def fun_eq_iff)
  moreover have "Suc (Suc (Suc (Suc 0))) = 4" by simp
  ultimately show ?thesis by simp
qed

theorem reply_correlated_witness:
  "\<exists>q. nt_asked demo_final 0 = Some q \<and> m_id demo_pong = m_id q \<and>
     answers demo_handler q demo_pong"
  by (rule reply_correlated [OF demo_run, of 0 demo_pong
        "(nt_client demo_final)\<lparr>cl_chans := Map.empty(0 := None)\<rparr>"])
    (simp_all add: Request_reply_def demo_final_def)

text \<open>
  C24. The client's read loop never blocks on a reply channel: whatever message arrives in a
  reachable state, the channel of the pending request it answers is empty, so one slow or vanished
  requester cannot stop protocol messages from being read.
\<close>

theorem read_loop_never_blocks:
  assumes "net_reach f k s" and "k < 2 ^ 64"
  shows "client_read hc wr m (nt_client s) \<noteq> Block"
proof -
  have "cl_chans (nt_client s) ch = None" if "cl_pending (nt_client s) (m_id m) = Some ch" for ch
    using net_reach_inv [OF assms] that by (auto simp: net_inv_def pending_ok_def)
  then show ?thesis
    by (auto simp: client_read_def Let_def split: option.splits sum.splits)
qed

theorem read_loop_never_blocks_witness:
  "client_read None (\<lambda>m. None) demo_pong (nt_client demo_final) \<noteq> Block"
  by (rule read_loop_never_blocks [OF demo_run]) simp

text \<open>
  C25. A request on a live connection is answered: the message that \<open>Request\<close> sends, once handled
  by a handler that responds and written back, is delivered to the channel the request waits on
  with the handler's payload, and leaves no pending entry behind.
\<close>

theorem request_answered:
  assumes "cl_conn c = Some n"
    and "handler (m\<lparr>m_id := cl_seq c + 1\<rparr>) h = (Inr (Some resp), h')"
  shows "\<exists>ch msg c1 r c2 c3. Request (\<lambda>m. None) m c = (Inr (ch, n, msg), c1) \<and>
    handle_message (Some handler) (\<lambda>m. None) msg h = (Some r, True, h') \<and>
    client_read hc wr r c1 = Proceed ([], c2) \<and> Request_reply ch c2 = Some (r, c3) \<and>
    m_payload r = m_payload resp \<and> m_type r = m_type resp \<and> cl_pending c3 (m_id msg) = None"
  using assms
  by (simp add: Request_def client_SendMessage_def handle_message_def client_read_def
      Request_reply_def Let_def)

theorem request_answered_witness:
  "\<exists>ch msg c1 r c2 c3.
    Request (\<lambda>m. None) demo_ping (NewClient\<lparr>cl_conn := Some 3\<rparr>) = (Inr (ch, 3, msg), c1) \<and>
    handle_message (Some demo_handler) (\<lambda>m. None) msg () = (Some r, True, ()) \<and>
    client_read None (\<lambda>m. None) r c1 = Proceed ([], c2) \<and> Request_reply ch c2 = Some (r, c3) \<and>
    m_payload r = 42 \<and> m_type r = MsgHealthResp \<and> cl_pending c3 (m_id msg) = None"
  using request_answered [of "NewClient\<lparr>cl_conn := Some 3\<rparr>" 3 demo_handler demo_ping "()"
      "\<lparr>m_type = MsgHealthResp, m_id = 0, m_payload = 42\<rparr>" "()" None "\<lambda>m. None"]
  by (simp add: demo_handler_def demo_ping_def)

text \<open>
  Reconnection backs off exponentially: the wait after the \<open>i\<close>-th failed dial is 500 ms doubled
  \<open>i\<close> times, capped at 30 s, whatever ends the attempts.
\<close>

theorem Connect_backoff:
  assumes "i < length (snd (Connect as c))"
  shows "snd (Connect as c) ! i = min (initialDelay * 2 ^ i) maxBackoff"
  using connectWithRetry_delays [of i as initialDelay c] assms
  by (simp add: Connect_def initialDelay_def maxBackoff_def)

theorem Connect_backoff_witness:
  "snd (Connect (replicate 8 (DialFailed TimerFired) @ [DialOk 1]) (NewClient :: nat client)) ! 7 =
     30 * 10 ^ 9"
proof -
  let ?as = "replicate 8 (DialFailed TimerFired) @ [DialOk 1]"
  have "length (snd (Connect ?as (NewClient :: nat client))) = 8"
    by (simp add: Connect_def eval_nat_numeral)
  then show ?thesis
    using Connect_backoff [of 7 ?as "NewClient :: nat client"]
    by (simp add: initialDelay_def maxBackoff_def)
qed

text \<open>
  Only the newest connection is the server's: ending an older one leaves it in place.
\<close>

lemma accept_then_old_ends:
  "m \<noteq> n \<Longrightarrow> handleConn_end m (snd (accept_conn n s)) = snd (accept_conn n s)"
  by (simp add: handleConn_end_def accept_conn_def)

end
