(* ===== verification/PartyB.thy ===== *)
theory PartyB
  imports Telegram Peer
begin

section \<open>The Party B service (internal/partyb/service.go)\<close>

text \<open>
  Party B receives sign requests, has them analysed, asks the human where needed, and takes part in
  the signing. Its state is the database, the bot, the four maps of the service, and one task per
  transaction: what the goroutine working on it waits for. Each operation is a function on that
  state; \<open>svc_step\<close> interleaves them as the goroutines do.
\<close>

subsection \<open>What the service uses\<close>

text \<open>The statements of one operation, and what the database answers to each.\<close>

datatype stmt =
  StSaveTx | StUpdateTx | StGetTx | StGetMaster | StGetDerivedKey | StSaveDerivedKey
| StIsWhitelisted string | StGetWhitelistEntry string | StAddWhitelistEntry string

type_synonym outcomes = "stmt \<Rightarrow> dbres"

text \<open>
  The adapters, the cipher and its key, key derivation, the percent formatter, the JSON printer,
  whether the two callbacks of the main program are set, and what the database may answer.
\<close>

record env =
  en_vmReg :: "registry option"
  en_aead :: aead
  en_encKey :: bytes
  en_DeriveKey :: "KeyShare \<Rightarrow> string \<Rightarrow> DerivedKey res"
  en_pct :: "rat \<Rightarrow> string"
  en_marshal :: "doc \<Rightarrow> string"
  en_onSigningStarted :: bool
  en_onEscalationApproved :: bool
  en_outcomes :: "outcomes \<Rightarrow> bool"

text \<open>
  A task: a notification was sent but the decision channel is not registered; waiting for the human;
  the signing goroutine is started; it waits for the final bytes; it runs the protocol.
\<close>

datatype task =
  Registering SignRequestPayload AnalysisResult
| Waiting SignRequestPayload
| Spawned SignRequestPayload nat
| AtChannel SignRequestPayload nat
| Running SignRequestPayload nat SignRequest bytes

record service =
  sb_db :: db
  sb_bot :: "Bot option"
  sb_pending :: "string \<rightharpoonup> bool list"
  sb_reqCache :: "string \<rightharpoonup> (SignRequestPayload \<times> AnalysisResult)"
  sb_activeRouter :: "nat option"
  sb_signReady :: "string \<rightharpoonup> bytes list"
  sb_nextRouter :: nat
  sb_inCh :: "nat \<Rightarrow> doc list"
  sb_tasks :: "string \<rightharpoonup> task"
  sb_effects :: "effect list"

text \<open>
  \<open>New\<close>: the bot exists when there is a token, in the configured mode and with both callbacks; the
  configured addresses are added to the whitelist, a failure being logged only.
\<close>

fun seed_whitelist :: "outcomes \<Rightarrow> int \<Rightarrow> (string \<times> string) list \<Rightarrow> db \<Rightarrow> db" where
  "seed_whitelist out now [] d = d"
| "seed_whitelist out now ((address, label) # seeds) d =
     seed_whitelist out now seeds (snd (AddWhitelistEntry (out (StAddWhitelistEntry address))
       \<lparr>we_Address = to_lower address, we_Label = label, we_AddedAt = now\<rparr> d))"

definition partyb_bot :: "err option \<Rightarrow> TelegramConfig \<Rightarrow> AnalyzerConfig \<Rightarrow> Bot option res" where
  "partyb_bot api tg cfg =
     (if tg_BotToken tg = [] then Inr None
      else (case telegram_New api tg of
          Inl e \<Rightarrow> Inl (wrap_err ''init telegram bot'' e)
        | Inr b \<Rightarrow> Inr (Some (SetWhitelistCallback (SetDecisionCallback
            (SetAutoMode (ac_AutoMode cfg) b))))))"

definition partyb_New :: "err option \<Rightarrow> outcomes \<Rightarrow> int \<Rightarrow> TelegramConfig \<Rightarrow> AnalyzerConfig \<Rightarrow> db \<Rightarrow>
    service res" where
  "partyb_New api out now tg cfg d =
     (case partyb_bot api tg cfg of
        Inl e \<Rightarrow> Inl e
      | Inr b \<Rightarrow> Inr \<lparr>sb_db = seed_whitelist out now (ac_Whitelist cfg) d, sb_bot = b,
          sb_pending = Map.empty, sb_reqCache = Map.empty, sb_activeRouter = None,
          sb_signReady = Map.empty, sb_nextRouter = 0, sb_inCh = (\<lambda>r. []), sb_tasks = Map.empty,
          sb_effects = []\<rparr>)"

subsection \<open>Incoming sign requests\<close>

definition updateTxStatus :: "outcomes \<Rightarrow> int \<Rightarrow> string \<Rightarrow> TxStatus \<Rightarrow> service \<Rightarrow> service" where
  "updateTxStatus out now txID status s =
     s\<lparr>sb_db := snd (UpdateTxStatus (out StUpdateTx) now txID status None (sb_db s))\<rparr>"

definition tx_record :: "int \<Rightarrow> string \<Rightarrow> SignRequestPayload \<Rightarrow> TxRecord" where
  "tx_record now txID req =
     \<lparr>tr_ID = txID, tr_DerivationPath = rq_DerivationPath req, tr_To = Some (opt_list (rq_To req)),
      tr_Value = rq_Value req, tr_Data = rq_Data req,
      tr_UnsignedTx = (case b64_decode (rq_UnsignedTx req) of Inl e \<Rightarrow> None | Inr raw \<Rightarrow> Some raw),
      tr_SignedTx = None, tr_Status = TxStatusPending, tr_Reason = [], tr_CreatedAt = now,
      tr_UpdatedAt = now\<rparr>"

text \<open>The analyzer looks addresses up in the service's store.\<close>

definition with_store :: "analyzer \<Rightarrow> outcomes \<Rightarrow> db \<Rightarrow> analyzer" where
  "with_store A out d = A\<lparr>an_whitelist := Some
     (\<lambda>a. IsWhitelisted (out (StIsWhitelisted a)) a d,
      \<lambda>a. GetWhitelistEntry (out (StGetWhitelistEntry a)) a d)\<rparr>"

text \<open>
  \<open>startSigning\<close>: a fresh router becomes the active one, whatever was active, and the signing
  goroutine is started.
\<close>

definition startSigning :: "env \<Rightarrow> string \<Rightarrow> SignRequestPayload \<Rightarrow> service \<Rightarrow> service" where
  "startSigning E txID req s =
     (if \<not> en_onSigningStarted E then s
      else let r = sb_nextRouter s in
        s\<lparr>sb_activeRouter := Some r, sb_nextRouter := Suc r, sb_inCh := (sb_inCh s)(r := []),
          sb_tasks := (sb_tasks s)(txID \<mapsto> Spawned req r)\<rparr>)"

abbreviation reject_response :: "string \<Rightarrow> SignResponsePayload" where
  "reject_response reason \<equiv> \<lparr>rs_Decision = ActionReject, rs_Reason = reason, rs_TxID = []\<rparr>"

text \<open>The first half of \<open>escalate\<close>: the notification.\<close>

definition escalate_notify :: "env \<Rightarrow> (api_call \<Rightarrow> err option) \<Rightarrow> outcomes \<Rightarrow> int \<Rightarrow> string \<Rightarrow>
    SignRequestPayload \<Rightarrow> AnalysisResult \<Rightarrow> service \<Rightarrow> SignResponsePayload \<times> service" where
  "escalate_notify E api out now txID req result s =
     (case sb_bot s of
        None \<Rightarrow> (reject_response ''no Telegram bot configured for escalation'',
                 updateTxStatus out now txID TxStatusRejected s)
      | Some b \<Rightarrow> (case NotifyForReview api (en_pct E) b txID result of
          Some e \<Rightarrow> (reject_response (''failed to send Telegram notification: '' @ e),
                     updateTxStatus out now txID TxStatusRejected s)
        | None \<Rightarrow> (\<lparr>rs_Decision = ActionEscalate, rs_Reason = dn_Reason (ar_Decision result),
                     rs_TxID = txID\<rparr>,
                   s\<lparr>sb_tasks := (sb_tasks s)(txID \<mapsto> Registering req result)\<rparr>)))"

text \<open>The second half: the maps are filled and the waiting goroutine is started.\<close>

definition escalate_register :: "string \<Rightarrow> service \<Rightarrow> service" where
  "escalate_register txID s =
     (case sb_tasks s txID of
        Some (Registering req result) \<Rightarrow>
          s\<lparr>sb_pending := (sb_pending s)(txID \<mapsto> []),
            sb_reqCache := (sb_reqCache s)(txID \<mapsto> (req, result)),
            sb_tasks := (sb_tasks s)(txID \<mapsto> Waiting req)\<rparr>
      | _ \<Rightarrow> s)"

definition escalate :: "env \<Rightarrow> (api_call \<Rightarrow> err option) \<Rightarrow> outcomes \<Rightarrow> int \<Rightarrow> string \<Rightarrow>
    SignRequestPayload \<Rightarrow> AnalysisResult \<Rightarrow> service \<Rightarrow> SignResponsePayload \<times> service" where
  "escalate E api out now txID req result s =
     (let (resp, s') = escalate_notify E api out now txID req result s
      in (resp, escalate_register txID s'))"

definition auto_mode :: "service \<Rightarrow> bool" where
  "auto_mode s = (case sb_bot s of None \<Rightarrow> False | Some b \<Rightarrow> AutoMode b)"

text \<open>
  \<open>HandleSignRequest\<close> up to the registration of an escalation. \<open>txID\<close> is the fresh identifier. The
  outcome of the notification of an automatic approval is only logged.
\<close>

definition save_request :: "outcomes \<Rightarrow> int \<Rightarrow> string \<Rightarrow> SignRequestPayload \<Rightarrow> service \<Rightarrow> service" where
  "save_request out now txID req s =
     s\<lparr>sb_db := snd (SaveTx (out StSaveTx) (tx_record now txID req) (sb_db s))\<rparr>"

definition analysis :: "analyzer \<Rightarrow> outcomes \<Rightarrow> SignRequestPayload \<Rightarrow> service \<Rightarrow> AnalysisResult" where
  "analysis A out req s = Analyze (with_store A out (sb_db s)) req"

definition route_decision :: "env \<Rightarrow> (api_call \<Rightarrow> err option) \<Rightarrow> outcomes \<Rightarrow> int \<Rightarrow> string \<Rightarrow>
    SignRequestPayload \<Rightarrow> AnalysisResult \<Rightarrow> service \<Rightarrow> SignResponsePayload \<times> service" where
  "route_decision E api out now txID req result s =
     (if dn_Action (ar_Decision result) = ActionReject
      then (reject_response (dn_Reason (ar_Decision result)),
            updateTxStatus out now txID TxStatusRejected s)
      else if auto_mode s \<and> ar_Whitelisted result
      then (\<lparr>rs_Decision = ActionApprove, rs_Reason = dn_Reason (ar_Decision result), rs_TxID = txID\<rparr>,
            startSigning E txID req (updateTxStatus out now txID TxStatusApproved s))
      else escalate_notify E api out now txID req result s)"

definition receive_request :: "env \<Rightarrow> analyzer \<Rightarrow> (api_call \<Rightarrow> err option) \<Rightarrow> outcomes \<Rightarrow> int \<Rightarrow>
    string \<Rightarrow> SignRequestPayload \<Rightarrow> service \<Rightarrow> SignResponsePayload \<times> service" where
  "receive_request E A api out now txID req s =
     (let s1 = save_request out now txID req s
      in route_decision E api out now txID req (analysis A out req s1) s1)"

definition HandleSignRequest :: "env \<Rightarrow> analyzer \<Rightarrow> (api_call \<Rightarrow> err option) \<Rightarrow> outcomes \<Rightarrow> int \<Rightarrow>
    string \<Rightarrow> SignRequestPayload \<Rightarrow> service \<Rightarrow> SignResponsePayload \<times> service" where
  "HandleSignRequest E A api out now txID req s =
     (let (resp, s') = receive_request E A api out now txID req s
      in (resp, escalate_register txID s'))"

subsection \<open>The human decides\<close>

text \<open>The decision channel holds one value; a sender blocks while it is full.\<close>

definition onTelegramDecision :: "string \<Rightarrow> bool \<Rightarrow> service \<Rightarrow> service blocking" where
  "onTelegramDecision txID approved s =
     (case sb_pending s txID of
        None \<Rightarrow> Proceed s
      | Some [] \<Rightarrow> Proceed (s\<lparr>sb_pending := (sb_pending s)(txID \<mapsto> [approved])\<rparr>)
      | Some (v # vs) \<Rightarrow> Block)"

fun whitelist_all :: "outcomes \<Rightarrow> int \<Rightarrow> string list \<Rightarrow> db \<Rightarrow> db" where
  "whitelist_all out now [] d = d"
| "whitelist_all out now (addr # addrs) d =
     whitelist_all out now addrs (snd (AddWhitelistEntry (out (StAddWhitelistEntry addr))
       \<lparr>we_Address = to_lower addr, we_Label = ''approved via Telegram'', we_AddedAt = now\<rparr> d))"

definition onTelegramWhitelist :: "outcomes \<Rightarrow> int \<Rightarrow> string \<Rightarrow> service \<Rightarrow> service" where
  "onTelegramWhitelist out now txID s =
     (case sb_reqCache s txID of
        None \<Rightarrow> s
      | Some (req, result) \<Rightarrow>
          let addrs = (case ar_DecodedTx result of
                Some t \<Rightarrow> if dt_To t \<noteq> [] then dt_To t else opt_list (rq_To req)
              | None \<Rightarrow> opt_list (rq_To req))
          in s\<lparr>sb_db := whitelist_all out now addrs (sb_db s)\<rparr>)"

definition run_effect :: "outcomes \<Rightarrow> int \<Rightarrow> effect \<Rightarrow> service \<Rightarrow> service blocking" where
  "run_effect out now e s =
     (case e of
        Api c \<Rightarrow> Proceed s
      | OnWhitelist txID \<Rightarrow> Proceed (onTelegramWhitelist out now txID s)
      | OnDecision txID approved \<Rightarrow> onTelegramDecision txID approved s)"

definition escalation_timeout :: "TelegramConfig \<Rightarrow> int" where
  "escalation_timeout cfg =
     (if tg_EscalationTimeout cfg = 0 then 5 * 60 * 10 ^ 9 else tg_EscalationTimeout cfg)"

definition escalation_cleanup :: "string \<Rightarrow> service \<Rightarrow> service" where
  "escalation_cleanup txID s =
     s\<lparr>sb_pending := (sb_pending s)(txID := None), sb_reqCache := (sb_reqCache s)(txID := None)\<rparr>"

abbreviation end_task :: "string \<Rightarrow> service \<Rightarrow> service" where
  "end_task txID s \<equiv> s\<lparr>sb_tasks := (sb_tasks s)(txID := None)\<rparr>"

text \<open>
  The goroutine of \<open>escalate\<close> receives the decision: the result is what is pushed to Party A and
  the new state.
\<close>

definition escalation_decided :: "env \<Rightarrow> outcomes \<Rightarrow> int \<Rightarrow> string \<Rightarrow> service \<Rightarrow>
    (SignApprovedPayload list \<times> service) option" where
  "escalation_decided E out now txID s =
     (case (sb_tasks s txID, sb_pending s txID) of
        (Some (Waiting req), Some (approved # rest)) \<Rightarrow>
          Some (if approved
            then (if en_onEscalationApproved E
                  then [\<lparr>sa_TxID = txID, sa_DerivationPath = rq_DerivationPath req\<rparr>] else [],
                  escalation_cleanup txID (startSigning E txID req
                    (end_task txID (updateTxStatus out now txID TxStatusApproved s))))
            else ([], escalation_cleanup txID
                    (end_task txID (updateTxStatus out now txID TxStatusRejected s))))
      | _ \<Rightarrow> None)"

definition escalation_timed_out :: "outcomes \<Rightarrow> int \<Rightarrow> string \<Rightarrow> service \<Rightarrow> service option" where
  "escalation_timed_out out now txID s =
     (case sb_tasks s txID of
        Some (Waiting req) \<Rightarrow> Some (escalation_cleanup txID
          (end_task txID (updateTxStatus out now txID TxStatusRejected s)))
      | _ \<Rightarrow> None)"

subsection \<open>Signing\<close>

text \<open>
  \<open>HandleSignReady\<close>: the bytes go to the channel of the transaction, which holds one value; with no
  channel the message is dropped. The bytes are not compared with anything.
\<close>

definition HandleSignReady :: "SignReadyPayload \<Rightarrow> service \<Rightarrow> service blocking" where
  "HandleSignReady payload s =
     (case sb_signReady s (sy_TxID payload) of
        None \<Rightarrow> Proceed s
      | Some q \<Rightarrow> (case b64_decode (sy_SignableBytes payload) of
          Inl e \<Rightarrow> Proceed s
        | Inr decoded \<Rightarrow>
            if q = [] then Proceed (s\<lparr>sb_signReady := (sb_signReady s)(sy_TxID payload \<mapsto> [decoded])\<rparr>)
            else Block))"

text \<open>\<open>sign\<close> first opens the channel.\<close>

definition sign_register :: "string \<Rightarrow> service \<Rightarrow> service option" where
  "sign_register txID s =
     (case sb_tasks s txID of
        Some (Spawned req r) \<Rightarrow> Some (s\<lparr>sb_signReady := (sb_signReady s)(txID \<mapsto> []),
          sb_tasks := (sb_tasks s)(txID \<mapsto> AtChannel req r)\<rparr>)
      | _ \<Rightarrow> None)"

text \<open>How the signing goroutine ends: its channel is deleted, and the router if it is still the active one.\<close>

definition sign_cleanup :: "string \<Rightarrow> nat \<Rightarrow> service \<Rightarrow> service" where
  "sign_cleanup txID r s =
     s\<lparr>sb_signReady := (sb_signReady s)(txID := None),
       sb_activeRouter := (if sb_activeRouter s = Some r then None else sb_activeRouter s),
       sb_tasks := (sb_tasks s)(txID := None)\<rparr>"

definition sign_failed :: "outcomes \<Rightarrow> int \<Rightarrow> string \<Rightarrow> nat \<Rightarrow> service \<Rightarrow> service" where
  "sign_failed out now txID r s =
     sign_cleanup txID r (updateTxStatus out now txID TxStatusRejected s)"

definition party_a :: PartyID where "party_a = \<lparr>pid_ID = ''party-a'', pid_Index = 0\<rparr>"
definition party_b :: PartyID where "party_b = \<lparr>pid_ID = ''party-b'', pid_Index = 1\<rparr>"

text \<open>
  The final bytes have arrived: the derived key is read and the protocol is started with the bytes,
  the key's curve and its share.
\<close>

definition sign_receive :: "env \<Rightarrow> outcomes \<Rightarrow> int \<Rightarrow> string \<Rightarrow> service \<Rightarrow> service option" where
  "sign_receive E out now txID s =
     (case (sb_tasks s txID, sb_signReady s txID) of
        (Some (AtChannel req r), Some (msgBytes # q)) \<Rightarrow>
          let s1 = s\<lparr>sb_signReady := (sb_signReady s)(txID \<mapsto> q)\<rparr> in
          Some (case GetDerivedKey (en_aead E) (en_encKey E) (out StGetDerivedKey)
                  (rq_DerivationPath req) (sb_db s) of
              Inl e \<Rightarrow> sign_failed out now txID r s1
            | Inr dk \<Rightarrow> s1\<lparr>sb_tasks := (sb_tasks s)(txID \<mapsto> Running req r
                \<lparr>sq_DerivationPath = rq_DerivationPath req, sq_Message = msgBytes,
                 sq_Curve = dr_Curve dk\<rparr> (dr_Share dk))\<rparr>)
      | _ \<Rightarrow> None)"

definition ready_timeout :: int where "ready_timeout = 30 * 10 ^ 9"

definition sign_timed_out :: "outcomes \<Rightarrow> int \<Rightarrow> string \<Rightarrow> service \<Rightarrow> service option" where
  "sign_timed_out out now txID s =
     (case sb_tasks s txID of
        Some (AtChannel req r) \<Rightarrow> Some (sign_failed out now txID r s)
      | _ \<Rightarrow> None)"

definition enc_Signature :: "Signature \<Rightarrow> doc" where
  "enc_Signature sig = Some (JObj
     ([(''r'', JNum (of_nat (sig_R sig))), (''s'', JNum (of_nat (sig_S sig)))] @
      (if sig_V sig = 0 then [] else [(''v'', JNum (of_nat (unat (sig_V sig))))]) @
      [(''bytes'', JStr (b64_encode (sig_Bytes sig)))]))"

text \<open>The protocol has returned \<open>res\<close>.\<close>

definition sign_done :: "env \<Rightarrow> outcomes \<Rightarrow> int \<Rightarrow> string \<Rightarrow> Signature res \<Rightarrow> service \<Rightarrow> service option" where
  "sign_done E out now txID res s =
     (case sb_tasks s txID of
        Some (Running req r sreq share) \<Rightarrow> Some (case res of
            Inl e \<Rightarrow> sign_failed out now txID r s
          | Inr sig \<Rightarrow> sign_cleanup txID r (s\<lparr>sb_db := snd (UpdateTxStatus (out StUpdateTx) now txID
              TxStatusSigned (Some (str_bytes (en_marshal E (enc_Signature sig)))) (sb_db s))\<rparr>))
      | _ \<Rightarrow> None)"

definition HandleTSSRound :: "doc \<Rightarrow> service \<Rightarrow> service blocking" where
  "HandleTSSRound payload s =
     (case sb_activeRouter s of
        None \<Rightarrow> Proceed s
      | Some r \<Rightarrow> (case FeedMessage payload (sb_inCh s r) of
          Block \<Rightarrow> Block
        | Proceed q \<Rightarrow> Proceed (s\<lparr>sb_inCh := (sb_inCh s)(r := q)\<rparr>)))"

subsection \<open>The other requests\<close>

definition GetTxStatus :: "outcomes \<Rightarrow> string \<Rightarrow> service \<Rightarrow> TxRecord res" where
  "GetTxStatus out txID s = GetTx (out StGetTx) txID (sb_db s)"

definition derive_curve :: "registry option \<Rightarrow> string \<Rightarrow> Curve" where
  "derive_curve reg path =
     (case reg of
        None \<Rightarrow> CurveSecp256k1
      | Some r \<Rightarrow> (case ForPath r path of None \<Rightarrow> CurveSecp256k1 | Some ad \<Rightarrow> ad_Curve ad))"

definition HandleDeriveRequest :: "env \<Rightarrow> outcomes \<Rightarrow> bytes res \<Rightarrow> int \<Rightarrow> string \<Rightarrow> service \<Rightarrow>
    err option \<times> service" where
  "HandleDeriveRequest E out nonce now path s =
     (let curve = derive_curve (en_vmReg E) path in
      case GetMasterShare (en_aead E) (en_encKey E) (out StGetMaster) curve (sb_db s) of
        Inl e \<Rightarrow> (Some (wrap_err ''get master share'' e), s)
      | Inr masterShare \<Rightarrow> (case en_DeriveKey E masterShare path of
          Inl e \<Rightarrow> (Some (wrap_err ''derive key'' e), s)
        | Inr derived \<Rightarrow>
            let record = \<lparr>dr_DerivationPath = path, dr_Curve = curve,
                  dr_PublicKey = dk_PublicKey derived, dr_Address = [], dr_Label = [],
                  dr_Share = dk_Share derived, dr_CreatedAt = now\<rparr>;
                (e, d) = SaveDerivedKey (en_aead E) (en_encKey E) nonce (out StSaveDerivedKey)
                  record (sb_db s)
            in (map_option (wrap_err ''save derived key'') e, s\<lparr>sb_db := d\<rparr>)))"

subsection \<open>The message handler of the main program (cmd/party-b/main.go)\<close>

text \<open>
  What one message does: the reply with the type and payload the code gives it, and the new state.
  The handler runs in the connection's read loop, so where it blocks the connection stands still.
\<close>

definition status_doc :: "string \<Rightarrow> doc" where
  "status_doc status = Some (JObj [(''status'', JStr status)])"

definition dec_string_field :: "string \<Rightarrow> doc \<Rightarrow> string res" where
  "dec_string_field name = unmarshal (str_field name [])"

definition tx_status_payload :: "string \<Rightarrow> TxRecord res \<Rightarrow> TxStatusResponsePayload" where
  "tx_status_payload txID r =
     (case r of
        Inl e \<Rightarrow> \<lparr>ts_TxID = txID, ts_Status = ''unknown'', ts_Reason = [], ts_SignedTx = []\<rparr>
      | Inr tx \<Rightarrow> \<lparr>ts_TxID = tr_ID tx, ts_Status = tr_Status tx, ts_Reason = tr_Reason tx,
          ts_SignedTx = (case tr_SignedTx tx of None \<Rightarrow> [] | Some b \<Rightarrow> b64_encode b)\<rparr>)"

record inputs =
  in_analyzer :: analyzer
  in_api :: "api_call \<Rightarrow> err option"
  in_out :: outcomes
  in_now :: int
  in_txID :: string
  in_nonce :: "bytes res"

definition reply :: "byte \<Rightarrow> doc message \<Rightarrow> doc \<Rightarrow> doc message option res" where
  "reply ty msg payload = Inr (Some \<lparr>m_type = ty, m_id = m_id msg, m_payload = payload\<rparr>)"

definition partyb_handler :: "env \<Rightarrow> inputs \<Rightarrow> doc message \<Rightarrow> service \<Rightarrow>
    (doc message option res \<times> service) blocking" where
  "partyb_handler E i msg s =
     (if m_type msg = MsgSignRequest then
        (case dec_SignRequest (m_payload msg) of
           Inl e \<Rightarrow> Proceed (Inl (wrap_err ''unmarshal sign request'' e), s)
         | Inr req \<Rightarrow>
             let (resp, s') = HandleSignRequest E (in_analyzer i) (in_api i) (in_out i) (in_now i)
                   (in_txID i) req s
             in Proceed (reply MsgSignResponse msg (enc_SignResponse resp), s'))
      else if m_type msg = MsgTSSRound then
        (case HandleTSSRound (m_payload msg) s of
           Block \<Rightarrow> Block | Proceed s' \<Rightarrow> Proceed (Inr None, s'))
      else if m_type msg = MsgHealthCheck then
        Proceed (reply MsgHealthResp msg (status_doc ''ok''), s)
      else if m_type msg = MsgDeriveReq then
        (case dec_string_field ''derivationPath'' (m_payload msg) of
           Inl e \<Rightarrow> Proceed (Inl (wrap_err ''unmarshal derive request'' e), s)
         | Inr path \<Rightarrow> Proceed (case HandleDeriveRequest E (in_out i) (in_nonce i) (in_now i) path s of
             (Some e, s') \<Rightarrow> (reply MsgDeriveResp msg
               (Some (JObj [(''error'', JStr e), (''status'', JStr ''error'')])), s')
           | (None, s') \<Rightarrow> (reply MsgDeriveResp msg (status_doc ''ok''), s')))
      else if m_type msg = MsgTxStatusReq then
        (case dec_string_field ''txId'' (m_payload msg) of
           Inl e \<Rightarrow> Proceed (Inl (wrap_err ''unmarshal tx status request'' e), s)
         | Inr txID \<Rightarrow> Proceed (reply MsgTxStatusResp msg
             (enc_TxStatusResponse (tx_status_payload txID (GetTxStatus (in_out i) txID s))), s))
      else if m_type msg = MsgSignReady then
        (case dec_SignReady (m_payload msg) of
           Inl e \<Rightarrow> Proceed (Inl (wrap_err ''unmarshal sign-ready'' e), s)
         | Inr payload \<Rightarrow> (case HandleSignReady payload s of
             Block \<Rightarrow> Block
           | Proceed s' \<Rightarrow> Proceed (reply MsgSignReady msg (Some (JObj [(''ok'', JBool True)])), s')))
      else Proceed (Inr None, s))"

subsection \<open>The goroutines together\<close>

text \<open>What an observer sees of a step.\<close>

datatype event =
  Requested string SignRequestPayload AnalysisResult bool
| Pressed CallbackQuery
| ReadyArrived SignReadyPayload
| SignCalled string SignRequest bytes
| Ended string TxStatus
| Internal

text \<open>The task of \<open>txID\<close> has entered the protocol, or has ended.\<close>

fun sign_event :: "string \<Rightarrow> task option \<Rightarrow> event" where
  "sign_event txID (Some (Running req r sreq share)) = SignCalled txID sreq share"
| "sign_event txID None = Ended txID TxStatusRejected"
| "sign_event txID t = Internal"

inductive svc_step :: "env \<Rightarrow> service \<Rightarrow> event \<Rightarrow> service \<Rightarrow> bool" for E where
  Receives: "en_outcomes E out \<Longrightarrow>
    receive_request E A api out now txID req s = (resp, s') \<Longrightarrow>
    svc_step E s (Requested txID req (analysis A out req (save_request out now txID req s))
      (auto_mode s)) s'"
| Registers: "svc_step E s Internal (escalate_register txID s)"
| Bot_handles: "sb_bot s = Some b \<Longrightarrow> sb_effects s = [] \<Longrightarrow>
    handle_update (Some q) msg b = (es, b') \<Longrightarrow>
    svc_step E s (Pressed q) (s\<lparr>sb_bot := Some b', sb_effects := es\<rparr>)"
| Bot_acts: "sb_effects s = e # es \<Longrightarrow> en_outcomes E out \<Longrightarrow>
    run_effect out now e s = Proceed s' \<Longrightarrow>
    svc_step E s Internal (s'\<lparr>sb_effects := es\<rparr>)"
| Decided: "en_outcomes E out \<Longrightarrow>
    escalation_decided E out now txID s = Some (pushed, s') \<Longrightarrow> svc_step E s Internal s'"
| Escalation_expires: "en_outcomes E out \<Longrightarrow>
    escalation_timed_out out now txID s = Some s' \<Longrightarrow>
    svc_step E s (Ended txID TxStatusRejected) s'"
| Sign_opens: "sign_register txID s = Some s' \<Longrightarrow> svc_step E s Internal s'"
| Ready_arrives: "HandleSignReady p s = Proceed s' \<Longrightarrow> svc_step E s (ReadyArrived p) s'"
| Sign_starts: "en_outcomes E out \<Longrightarrow>
    sign_receive E out now txID s = Some s' \<Longrightarrow>
    svc_step E s (sign_event txID (sb_tasks s' txID)) s'"
| Sign_expires: "en_outcomes E out \<Longrightarrow>
    sign_timed_out out now txID s = Some s' \<Longrightarrow>
    svc_step E s (Ended txID TxStatusRejected) s'"
| Sign_ends: "en_outcomes E out \<Longrightarrow>
    sign_done E out now txID res s = Some s' \<Longrightarrow>
    svc_step E s (Ended txID (if is_ok res then TxStatusSigned else TxStatusRejected)) s'"
| Round_arrives: "HandleTSSRound payload s = Proceed s' \<Longrightarrow> svc_step E s Internal s'"
| Derives: "en_outcomes E out \<Longrightarrow>
    HandleDeriveRequest E out nonce now path s = (e, s') \<Longrightarrow> svc_step E s Internal s'"

inductive_cases svc_stepE: "svc_step E s e s'"

text \<open>
  Runs from a fresh service, the newest event first. Transaction identifiers are random UUIDs and
  taken to be new.
\<close>

definition fresh_service :: "service \<Rightarrow> bool" where
  "fresh_service s \<longleftrightarrow> sb_pending s = Map.empty \<and> sb_signReady s = Map.empty \<and>
     sb_tasks s = Map.empty \<and> sb_effects s = [] \<and>
     (\<forall>b. sb_bot s = Some b \<longrightarrow> bt_onDecision b)"

definition requested :: "event list \<Rightarrow> string \<Rightarrow> bool" where
  "requested tr txID \<longleftrightarrow> (\<exists>req result auto. Requested txID req result auto \<in> set tr)"

fun new_id :: "event list \<Rightarrow> event \<Rightarrow> bool" where
  "new_id tr (Requested txID req result auto) = (\<not> requested tr txID)"
| "new_id tr e = True"

inductive svc_run :: "env \<Rightarrow> service \<Rightarrow> event list \<Rightarrow> service \<Rightarrow> bool" for E s0 where
  Run_start: "fresh_service s0 \<Longrightarrow> svc_run E s0 [] s0"
| Run_step: "svc_run E s0 tr s \<Longrightarrow> svc_step E s e s' \<Longrightarrow> new_id tr e \<Longrightarrow> svc_run E s0 (e # tr) s'"

text \<open>Who approved, and what: in the run so far.\<close>

definition human_approved :: "service \<Rightarrow> event list \<Rightarrow> string \<Rightarrow> bool" where
  "human_approved s0 tr txID \<longleftrightarrow> (\<exists>b q. sb_bot s0 = Some b \<and> Pressed q \<in> set tr \<and>
     cq_From q = bt_authorizedUserID b \<and>
     (cq_Data q = ''approve:'' @ txID \<or> cq_Data q = ''whitelist:'' @ txID))"

definition not_rejected :: "event list \<Rightarrow> string \<Rightarrow> SignRequestPayload \<Rightarrow> bool" where
  "not_rejected tr txID req \<longleftrightarrow> (\<exists>result auto. Requested txID req result auto \<in> set tr \<and>
     dn_Action (ar_Decision result) \<noteq> ActionReject)"

definition approved :: "service \<Rightarrow> event list \<Rightarrow> string \<Rightarrow> SignRequestPayload \<Rightarrow> bool" where
  "approved s0 tr txID req \<longleftrightarrow> (\<exists>result auto. Requested txID req result auto \<in> set tr \<and>
     dn_Action (ar_Decision result) \<noteq> ActionReject \<and>
     (auto \<and> ar_Whitelisted result \<or> human_approved s0 tr txID))"

fun task_ok :: "service \<Rightarrow> event list \<Rightarrow> string \<Rightarrow> task \<Rightarrow> bool" where
  "task_ok s0 tr txID (Registering req result) = not_rejected tr txID req"
| "task_ok s0 tr txID (Waiting req) = not_rejected tr txID req"
| "task_ok s0 tr txID (Spawned req r) = approved s0 tr txID req"
| "task_ok s0 tr txID (AtChannel req r) = approved s0 tr txID req"
| "task_ok s0 tr txID (Running req r sreq share) = approved s0 tr txID req"

fun running :: "task \<Rightarrow> bool" where
  "running (Running req r sreq share) = True"
| "running t = False"

fun sign_calls :: "event list \<Rightarrow> string \<Rightarrow> nat" where
  "sign_calls [] txID = 0"
| "sign_calls (SignCalled t sreq share # tr) txID = (if t = txID then 1 else 0) + sign_calls tr txID"
| "sign_calls (e # tr) txID = sign_calls tr txID"

definition svc_inv :: "service \<Rightarrow> event list \<Rightarrow> service \<Rightarrow> bool" where
  "svc_inv s0 tr s \<longleftrightarrow>
     (\<forall>txID t. sb_tasks s txID = Some t \<longrightarrow> requested tr txID \<and> task_ok s0 tr txID t) \<and>
     (\<forall>txID q. sb_pending s txID = Some q \<longrightarrow> True \<in> set q \<longrightarrow> human_approved s0 tr txID) \<and>
     (\<forall>txID. OnDecision txID True \<in> set (sb_effects s) \<longrightarrow> human_approved s0 tr txID) \<and>
     (\<forall>b. sb_bot s = Some b \<longrightarrow> bt_onDecision b \<and>
        (\<exists>b0. sb_bot s0 = Some b0 \<and> bt_authorizedUserID b0 = bt_authorizedUserID b)) \<and>
     (\<forall>txID sreq share. SignCalled txID sreq share \<in> set tr \<longrightarrow>
        (\<exists>req. approved s0 tr txID req \<and> sq_DerivationPath sreq = rq_DerivationPath req)) \<and>
     (\<forall>txID. sign_calls tr txID \<le> 1 \<and> (\<not> requested tr txID \<longrightarrow> sign_calls tr txID = 0) \<and>
        (\<forall>t. sb_tasks s txID = Some t \<longrightarrow> \<not> running t \<longrightarrow> sign_calls tr txID = 0))"

subsection \<open>Preservation\<close>

named_theorems service_simps

lemma updateTxStatus_simps [service_simps]:
  "sb_tasks (updateTxStatus out now txID st s) = sb_tasks s"
  "sb_pending (updateTxStatus out now txID st s) = sb_pending s"
  "sb_effects (updateTxStatus out now txID st s) = sb_effects s"
  "sb_bot (updateTxStatus out now txID st s) = sb_bot s"
  "sb_signReady (updateTxStatus out now txID st s) = sb_signReady s"
  "sb_activeRouter (updateTxStatus out now txID st s) = sb_activeRouter s"
  by (simp_all add: updateTxStatus_def)

lemma save_request_simps [service_simps]:
  "sb_tasks (save_request out now txID req s) = sb_tasks s"
  "sb_pending (save_request out now txID req s) = sb_pending s"
  "sb_effects (save_request out now txID req s) = sb_effects s"
  "sb_bot (save_request out now txID req s) = sb_bot s"
  "auto_mode (save_request out now txID req s) = auto_mode s"
  by (simp_all add: save_request_def auto_mode_def)

lemma startSigning_simps [service_simps]:
  "sb_tasks (startSigning E txID req s) = (if en_onSigningStarted E
     then (sb_tasks s)(txID \<mapsto> Spawned req (sb_nextRouter s)) else sb_tasks s)"
  "sb_pending (startSigning E txID req s) = sb_pending s"
  "sb_effects (startSigning E txID req s) = sb_effects s"
  "sb_bot (startSigning E txID req s) = sb_bot s"
  by (simp_all add: startSigning_def Let_def)

lemma cleanup_simps [service_simps]:
  "sb_tasks (escalation_cleanup txID s) = sb_tasks s"
  "sb_pending (escalation_cleanup txID s) = (sb_pending s)(txID := None)"
  "sb_effects (escalation_cleanup txID s) = sb_effects s"
  "sb_bot (escalation_cleanup txID s) = sb_bot s"
  "sb_tasks (sign_cleanup txID r s) = (sb_tasks s)(txID := None)"
  "sb_pending (sign_cleanup txID r s) = sb_pending s"
  "sb_effects (sign_cleanup txID r s) = sb_effects s"
  "sb_bot (sign_cleanup txID r s) = sb_bot s"
  "sb_tasks (sign_failed out now txID r s) = (sb_tasks s)(txID := None)"
  "sb_pending (sign_failed out now txID r s) = sb_pending s"
  "sb_effects (sign_failed out now txID r s) = sb_effects s"
  "sb_bot (sign_failed out now txID r s) = sb_bot s"
  by (simp_all add: escalation_cleanup_def sign_cleanup_def sign_failed_def service_simps)

lemma requested_Cons: "requested tr t \<Longrightarrow> requested (e # tr) t"
  by (auto simp: requested_def)

lemma approvals_Cons:
  "human_approved s0 tr t \<Longrightarrow> human_approved s0 (e # tr) t"
  "not_rejected tr t req \<Longrightarrow> not_rejected (e # tr) t req"
  "approved s0 tr t req \<Longrightarrow> approved s0 (e # tr) t req"
  by (auto simp: human_approved_def not_rejected_def approved_def)

lemma task_ok_Cons: "task_ok s0 tr t k \<Longrightarrow> task_ok s0 (e # tr) t k"
  by (cases k) (auto intro: approvals_Cons)

lemma approvedI: "not_rejected tr t req \<Longrightarrow> human_approved s0 tr t \<Longrightarrow> approved s0 tr t req"
  by (auto simp: not_rejected_def approved_def)

text \<open>What a step has to show: the changes of each field against the run so far.\<close>

lemma svc_inv_stepI:
  assumes "svc_inv s0 tr s"
    and "\<And>t k. sb_tasks s' t = Some k \<Longrightarrow> sb_tasks s t = Some k \<or>
      (requested (e # tr) t \<and> task_ok s0 (e # tr) t k \<and>
       (\<not> running k \<longrightarrow> sign_calls (e # tr) t = 0))"
    and "\<And>t q. sb_pending s' t = Some q \<Longrightarrow> True \<in> set q \<Longrightarrow>
      human_approved s0 (e # tr) t"
    and "\<And>t. OnDecision t True \<in> set (sb_effects s') \<Longrightarrow>
      OnDecision t True \<in> set (sb_effects s) \<or> human_approved s0 (e # tr) t"
    and "sb_bot s' = sb_bot s \<or> (\<exists>b b'. sb_bot s = Some b \<and> sb_bot s' = Some b' \<and>
      bt_onDecision b' = bt_onDecision b \<and> bt_authorizedUserID b' = bt_authorizedUserID b)"
    and "\<And>t sreq share. e = SignCalled t sreq share \<Longrightarrow>
      (\<exists>req r. sb_tasks s t = Some (AtChannel req r) \<and>
        sq_DerivationPath sreq = rq_DerivationPath req) \<and>
      (\<forall>k. sb_tasks s' t = Some k \<longrightarrow> running k)"
  shows "svc_inv s0 (e # tr) s'"
proof -
  have calls: "sign_calls (e # tr) t =
      (if \<exists>sreq share. e = SignCalled t sreq share then 1 else 0) + sign_calls tr t" for t
    by (cases e) auto
  have fresh: "sign_calls tr t = 0 \<and> requested tr t" if "e = SignCalled t sreq share" for t sreq share
    using assms(1) assms(6) [OF that] by (fastforce simp: svc_inv_def)
  have one: "sign_calls (e # tr) t \<le> 1" for t
    using assms(1) fresh by (auto simp: calls svc_inv_def)
  have none: "\<not> requested (e # tr) t \<longrightarrow> sign_calls (e # tr) t = 0" for t
    using assms(1) fresh by (auto simp: calls svc_inv_def requested_def)
  have idle: "sign_calls (e # tr) t = 0" if "sb_tasks s' t = Some k" "\<not> running k" for t k
    using assms(2) [OF that(1)] that assms(6) assms(1) by (fastforce simp: calls svc_inv_def)
  have bot: "bt_onDecision b \<and> (\<exists>b0. sb_bot s0 = Some b0 \<and>
      bt_authorizedUserID b0 = bt_authorizedUserID b)" if "sb_bot s' = Some b" for b
    using assms(5) assms(1) that unfolding svc_inv_def by auto
  have sc: "\<exists>req. approved s0 (e # tr) t req \<and> sq_DerivationPath sreq = rq_DerivationPath req"
    if "SignCalled t sreq share \<in> set (e # tr)" for t sreq share
  proof (cases "e = SignCalled t sreq share")
    case True
    then obtain req r where "sb_tasks s t = Some (AtChannel req r)"
      "sq_DerivationPath sreq = rq_DerivationPath req"
      using assms(6) by blast
    moreover from this(1) have "approved s0 tr t req"
      using assms(1) unfolding svc_inv_def by fastforce
    ultimately show ?thesis by (blast intro: approvals_Cons)
  next
    case False
    then have "SignCalled t sreq share \<in> set tr" using that by simp
    then show ?thesis using assms(1) unfolding svc_inv_def by (blast intro: approvals_Cons)
  qed
  have tk: "requested (e # tr) t \<and> task_ok s0 (e # tr) t k" if "sb_tasks s' t = Some k" for t k
    using assms(2) [OF that] assms(1) unfolding svc_inv_def
    by (blast intro: requested_Cons task_ok_Cons)
  have eff: "human_approved s0 (e # tr) t" if "OnDecision t True \<in> set (sb_effects s')" for t
    using assms(4) [OF that] assms(1) unfolding svc_inv_def by (blast intro: approvals_Cons)
  show ?thesis
    unfolding svc_inv_def using tk assms(3) eff bot sc one none idle by blast
qed

lemma keep_pending:
  "svc_inv s0 tr s \<Longrightarrow> sb_pending s t = Some q \<Longrightarrow> True \<in> set q \<Longrightarrow> human_approved s0 (e # tr) t"
  unfolding svc_inv_def by (blast intro: approvals_Cons)

lemma approved_now:
  "dn_Action (ar_Decision res) \<noteq> ActionReject \<Longrightarrow> not_rejected (Requested t req res auto # tr) t req"
  "dn_Action (ar_Decision res) \<noteq> ActionReject \<Longrightarrow> auto \<Longrightarrow> ar_Whitelisted res \<Longrightarrow>
     approved s0 (Requested t req res auto # tr) t req"
  unfolding not_rejected_def approved_def by (meson list.set_intros(1))+

text \<open>The steps that leave tasks, channels, effects and the bot alone, or only end tasks.\<close>

lemma svc_inv_quietI:
  assumes "svc_inv s0 tr s" and "\<And>t sreq share. e \<noteq> SignCalled t sreq share"
    and "\<And>t. sb_tasks s' t = sb_tasks s t \<or> sb_tasks s' t = None"
    and "\<And>t. sb_pending s' t = sb_pending s t \<or> sb_pending s' t = None"
    and "sb_effects s' = sb_effects s" and "sb_bot s' = sb_bot s"
  shows "svc_inv s0 (e # tr) s'"
proof (rule svc_inv_stepI [OF assms(1)])
  fix t q
  assume "sb_pending s' t = Some q" "True \<in> set q"
  then show "human_approved s0 (e # tr) t"
    using keep_pending [OF assms(1)] assms(4) [of t] by (metis option.distinct(1))
qed (use assms(2-6) in \<open>metis option.distinct(1)\<close>)+

lemma inv_Receives:
  assumes "svc_inv s0 tr s" "receive_request E A api out now txID req s = (resp, s')"
    "\<not> requested tr txID"
  shows "svc_inv s0 (Requested txID req (analysis A out req (save_request out now txID req s))
    (auto_mode s) # tr) s'"
proof (rule svc_inv_stepI [OF assms(1)])
  let ?e = "Requested txID req (analysis A out req (save_request out now txID req s)) (auto_mode s)"
  have no_calls: "sign_calls (?e # tr) txID = 0"
    using assms(1,3) by (auto simp: svc_inv_def)
  have req: "requested (?e # tr) txID" by (auto simp: requested_def)
  show "sb_tasks s t = Some k \<or> requested (?e # tr) t \<and> task_ok s0 (?e # tr) t k \<and>
      (\<not> running k \<longrightarrow> sign_calls (?e # tr) t = 0)" if "sb_tasks s' t = Some k" for t k
    using assms(2) that no_calls req
    by (auto simp: receive_request_def route_decision_def escalate_notify_def Let_def service_simps
        approved_now split: if_splits option.splits)
  show "human_approved s0 (?e # tr) t" if "sb_pending s' t = Some q" "True \<in> set q" for t q
  proof -
    have "sb_pending s' = sb_pending s"
      using assms(2) by (auto simp: receive_request_def route_decision_def escalate_notify_def
          Let_def service_simps split: if_splits option.splits)
    then show ?thesis using keep_pending [OF assms(1)] that by simp
  qed
  have "sb_effects s' = sb_effects s \<and> sb_bot s' = sb_bot s"
    using assms(2) by (auto simp: receive_request_def route_decision_def escalate_notify_def
        Let_def service_simps split: if_splits option.splits)
  then show "sb_bot s' = sb_bot s \<or> (\<exists>b b'. sb_bot s = Some b \<and> sb_bot s' = Some b' \<and>
      bt_onDecision b' = bt_onDecision b \<and> bt_authorizedUserID b' = bt_authorizedUserID b)"
    and "\<And>t. OnDecision t True \<in> set (sb_effects s') \<Longrightarrow>
      OnDecision t True \<in> set (sb_effects s) \<or> human_approved s0 (?e # tr) t" by simp_all
qed simp

lemma inv_Registers:
  assumes "svc_inv s0 tr s"
  shows "svc_inv s0 (Internal # tr) (escalate_register txID s)"
proof (rule svc_inv_stepI [OF assms])
  show "sb_tasks s t = Some k \<or> requested (Internal # tr) t \<and> task_ok s0 (Internal # tr) t k \<and>
      (\<not> running k \<longrightarrow> sign_calls (Internal # tr) t = 0)"
    if "sb_tasks (escalate_register txID s) t = Some k" for t k
    using that assms
    by (fastforce simp: escalate_register_def svc_inv_def intro: requested_Cons approvals_Cons
        split: option.splits task.splits if_splits)
  show "human_approved s0 (Internal # tr) t"
    if "sb_pending (escalate_register txID s) t = Some q" "True \<in> set q" for t q
    using that keep_pending [OF assms]
    by (auto simp: escalate_register_def split: option.splits task.splits if_splits)
qed (auto simp: escalate_register_def split: option.splits task.splits)

lemma inv_Bot_handles:
  assumes "svc_inv s0 tr s" "sb_bot s = Some b" "handle_update (Some q) msg b = (es, b')"
  shows "svc_inv s0 (Pressed q # tr) (s\<lparr>sb_bot := Some b', sb_effects := es\<rparr>)"
proof (rule svc_inv_stepI [OF assms(1)])
  obtain b0 where b: "bt_onDecision b" "sb_bot s0 = Some b0"
    "bt_authorizedUserID b0 = bt_authorizedUserID b"
    using assms(1,2) unfolding svc_inv_def by blast
  fix t
  assume "OnDecision t True \<in> set (sb_effects (s\<lparr>sb_bot := Some b', sb_effects := es\<rparr>))"
  then have "OnDecision t True \<in> set (fst (handle_update (Some q) msg b))"
    by (simp add: assms(3))
  then have "human_approved s0 (Pressed q # tr) t"
    using b unfolding press_decides [OF b(1)] human_approved_def by auto
  then show "OnDecision t True \<in> set (sb_effects s) \<or> human_approved s0 (Pressed q # tr) t" ..
next
  have "b' = snd (handleCallback q b)"
    using assms(3) by (simp add: handle_update_def)
  then show "sb_bot (s\<lparr>sb_bot := Some b', sb_effects := es\<rparr>) = sb_bot s \<or>
      (\<exists>ba b'a. sb_bot s = Some ba \<and> sb_bot (s\<lparr>sb_bot := Some b', sb_effects := es\<rparr>) = Some b'a \<and>
      bt_onDecision b'a = bt_onDecision ba \<and> bt_authorizedUserID b'a = bt_authorizedUserID ba)"
    using assms(2) by simp
qed (use keep_pending [OF assms(1)] in auto)

lemma inv_Bot_acts:
  assumes "svc_inv s0 tr s" "sb_effects s = x # es" "run_effect out now x s = Proceed s'"
  shows "svc_inv s0 (Internal # tr) (s'\<lparr>sb_effects := es\<rparr>)"
proof (rule svc_inv_stepI [OF assms(1)])
  have wl: "sb_tasks (onTelegramWhitelist out now t s) = sb_tasks s \<and>
      sb_pending (onTelegramWhitelist out now t s) = sb_pending s \<and>
      sb_bot (onTelegramWhitelist out now t s) = sb_bot s" for t
    by (simp add: onTelegramWhitelist_def Let_def split: option.splits)
  have keep: "sb_tasks s' = sb_tasks s \<and> sb_bot s' = sb_bot s"
    using assms(3) wl by (auto simp: run_effect_def onTelegramDecision_def
        split: effect.splits option.splits list.splits)
  show "sb_tasks s t = Some k \<or> requested (Internal # tr) t \<and> task_ok s0 (Internal # tr) t k \<and>
      (\<not> running k \<longrightarrow> sign_calls (Internal # tr) t = 0)"
    if "sb_tasks (s'\<lparr>sb_effects := es\<rparr>) t = Some k" for t k
    using that keep by simp
  show "sb_bot (s'\<lparr>sb_effects := es\<rparr>) = sb_bot s \<or> (\<exists>b b'. sb_bot s = Some b \<and>
      sb_bot (s'\<lparr>sb_effects := es\<rparr>) = Some b' \<and>
      bt_onDecision b' = bt_onDecision b \<and> bt_authorizedUserID b' = bt_authorizedUserID b)"
    using keep by simp
  fix t q
  assume q: "sb_pending (s'\<lparr>sb_effects := es\<rparr>) t = Some q" "True \<in> set q"
  show "human_approved s0 (Internal # tr) t"
  proof (cases "sb_pending s' t = sb_pending s t")
    case True
    then show ?thesis using q keep_pending [OF assms(1)] by simp
  next
    case False
    then have "x = OnDecision t True"
      using assms(3) q wl
      by (auto simp: run_effect_def onTelegramDecision_def
          split: effect.splits option.splits list.splits if_splits)
    then have "human_approved s0 tr t" using assms(1,2) by (simp add: svc_inv_def)
    then show ?thesis by (rule approvals_Cons)
  qed
qed (use assms(2) in auto)

lemma inv_Decided:
  assumes "svc_inv s0 tr s" "escalation_decided E out now txID s = Some (pushed, s')"
  shows "svc_inv s0 (Internal # tr) s'"
proof (rule svc_inv_stepI [OF assms(1)])
  obtain req ok rest where w: "sb_tasks s txID = Some (Waiting req)"
    "sb_pending s txID = Some (ok # rest)"
    using assms(2) by (auto simp: escalation_decided_def
        split: option.splits task.splits list.splits)
  have inv: "requested tr txID" "not_rejected tr txID req" "sign_calls tr txID = 0"
    "ok \<longrightarrow> human_approved s0 tr txID"
    using assms(1) w unfolding svc_inv_def by fastforce+
  have ap: "ok \<Longrightarrow> approved s0 (Internal # tr) txID req"
    using inv(2,4) by (blast intro: approvals_Cons approvedI)
  show "sb_tasks s t = Some k \<or> requested (Internal # tr) t \<and> task_ok s0 (Internal # tr) t k \<and>
      (\<not> running k \<longrightarrow> sign_calls (Internal # tr) t = 0)" if "sb_tasks s' t = Some k" for t k
    using assms(2) w that ap inv(1,3) requested_Cons [OF inv(1)]
    by (cases ok) (auto simp: escalation_decided_def service_simps split: if_splits)
  show "human_approved s0 (Internal # tr) t" if "sb_pending s' t = Some q" "True \<in> set q" for t q
    using assms(2) w that keep_pending [OF assms(1)]
    by (cases ok) (auto simp: escalation_decided_def service_simps split: if_splits)
  have "sb_effects s' = sb_effects s \<and> sb_bot s' = sb_bot s"
    using assms(2) w by (cases ok) (auto simp: escalation_decided_def service_simps)
  then show "sb_bot s' = sb_bot s \<or> (\<exists>b b'. sb_bot s = Some b \<and> sb_bot s' = Some b' \<and>
      bt_onDecision b' = bt_onDecision b \<and> bt_authorizedUserID b' = bt_authorizedUserID b)"
    and "\<And>t. OnDecision t True \<in> set (sb_effects s') \<Longrightarrow>
      OnDecision t True \<in> set (sb_effects s) \<or> human_approved s0 (Internal # tr) t" by simp_all
qed simp

lemma inv_Sign_opens:
  assumes "svc_inv s0 tr s" "sign_register txID s = Some s'"
  shows "svc_inv s0 (Internal # tr) s'"
proof (rule svc_inv_stepI [OF assms(1)])
  obtain req r where w: "sb_tasks s txID = Some (Spawned req r)"
    "s' = s\<lparr>sb_signReady := (sb_signReady s)(txID \<mapsto> []),
       sb_tasks := (sb_tasks s)(txID \<mapsto> AtChannel req r)\<rparr>"
    using assms(2) by (auto simp: sign_register_def split: option.splits task.splits)
  have inv: "requested tr txID" "approved s0 tr txID req" "sign_calls tr txID = 0"
    using assms(1) w(1) unfolding svc_inv_def by fastforce+
  show "sb_tasks s t = Some k \<or> requested (Internal # tr) t \<and> task_ok s0 (Internal # tr) t k \<and>
      (\<not> running k \<longrightarrow> sign_calls (Internal # tr) t = 0)" if "sb_tasks s' t = Some k" for t k
    using w(2) that inv requested_Cons [OF inv(1)] approvals_Cons(3) [OF inv(2)]
    by (auto split: if_splits)
  show "human_approved s0 (Internal # tr) t" if "sb_pending s' t = Some q" "True \<in> set q" for t q
    using that w(2) keep_pending [OF assms(1)] by simp
qed (use assms(2) in \<open>auto simp: sign_register_def split: option.splits task.splits\<close>)

lemma inv_Sign_starts:
  assumes "svc_inv s0 tr s" "sign_receive E out now txID s = Some s'"
  shows "svc_inv s0 (sign_event txID (sb_tasks s' txID) # tr) s'"
proof -
  obtain req r b q where w: "sb_tasks s txID = Some (AtChannel req r)"
    "sb_signReady s txID = Some (b # q)"
    using assms(2) by (auto simp: sign_receive_def split: option.splits task.splits list.splits)
  have inv: "requested tr txID" "approved s0 tr txID req" "sign_calls tr txID = 0"
    using assms(1) w(1) unfolding svc_inv_def by fastforce+
  show ?thesis
  proof (cases "GetDerivedKey (en_aead E) (en_encKey E) (out StGetDerivedKey)
      (rq_DerivationPath req) (sb_db s)")
    case (Inl e)
    then have s': "s' = sign_failed out now txID r (s\<lparr>sb_signReady := (sb_signReady s)(txID \<mapsto> q)\<rparr>)"
      using assms(2) w by (simp add: sign_receive_def)
    show ?thesis
      by (rule svc_inv_quietI [OF assms(1)]) (simp_all add: s' service_simps)
  next
    case (Inr dk)
    let ?q = "\<lparr>sq_DerivationPath = rq_DerivationPath req, sq_Message = b, sq_Curve = dr_Curve dk\<rparr>"
    let ?e = "SignCalled txID ?q (dr_Share dk)"
    have s': "s' = s\<lparr>sb_signReady := (sb_signReady s)(txID \<mapsto> q),
        sb_tasks := (sb_tasks s)(txID \<mapsto> Running req r ?q (dr_Share dk))\<rparr>"
      using assms(2) w Inr by (simp add: sign_receive_def)
    have "svc_inv s0 (?e # tr) s'"
    proof (rule svc_inv_stepI [OF assms(1)])
      show "sb_tasks s t = Some k \<or> requested (?e # tr) t \<and> task_ok s0 (?e # tr) t k \<and>
          (\<not> running k \<longrightarrow> sign_calls (?e # tr) t = 0)" if "sb_tasks s' t = Some k" for t k
        using that requested_Cons [OF inv(1)] approvals_Cons(3) [OF inv(2)]
        by (auto simp: s' split: if_splits)
      show "human_approved s0 (?e # tr) t" if "sb_pending s' t = Some q" "True \<in> set q" for t q
        using that keep_pending [OF assms(1)] by (simp add: s')
    qed (use w in \<open>auto simp: s'\<close>)
    then show ?thesis by (simp add: s')
  qed
qed

lemma svc_step_inv:
  assumes "svc_step E s e s'" "svc_inv s0 tr s" "new_id tr e"
  shows "svc_inv s0 (e # tr) s'"
  using assms
proof (induction rule: svc_step.induct)
  case (Receives A api out now txID req s resp s')
  then show ?case by (simp add: inv_Receives)
next
  case (Registers s txID)
  then show ?case by (simp add: inv_Registers)
next
  case (Bot_handles s b q msg es b')
  then show ?case by (blast intro: inv_Bot_handles)
next
  case (Bot_acts s e es out now s')
  then show ?case by (blast intro: inv_Bot_acts)
next
  case (Decided out now txID s pushed s')
  then show ?case by (blast intro: inv_Decided)
next
  case (Sign_opens txID s s')
  then show ?case by (blast intro: inv_Sign_opens)
next
  case (Sign_starts out now txID s s')
  then show ?case by (blast intro: inv_Sign_starts)
next
  case (Escalation_expires out now txID s s')
  show ?case
    by (rule svc_inv_quietI [OF Escalation_expires(3)])
      (use Escalation_expires(2) in \<open>auto simp: escalation_timed_out_def service_simps
        split: option.splits task.splits if_splits\<close>)
next
  case (Sign_expires out now txID s s')
  show ?case
    by (rule svc_inv_quietI [OF Sign_expires(3)])
      (use Sign_expires(2) in \<open>auto simp: sign_timed_out_def service_simps
        split: option.splits task.splits if_splits\<close>)
next
  case (Sign_ends out now txID res s s')
  show ?case
    by (rule svc_inv_quietI [OF Sign_ends(3)])
      (use Sign_ends(2) in \<open>auto simp: sign_done_def service_simps
        split: option.splits task.splits sum.splits if_splits\<close>)
next
  case (Ready_arrives p s s')
  show ?case
    by (rule svc_inv_quietI [OF Ready_arrives(2)])
      (use Ready_arrives(1) in \<open>auto simp: HandleSignReady_def
        split: option.splits sum.splits if_splits\<close>)
next
  case (Round_arrives payload s s')
  show ?case
    by (rule svc_inv_quietI [OF Round_arrives(2)])
      (use Round_arrives(1) in \<open>auto simp: HandleTSSRound_def
        split: option.splits blocking.splits\<close>)
next
  case (Derives out nonce now path s e s')
  show ?case
    by (rule svc_inv_quietI [OF Derives(3)])
      (use Derives(2) in \<open>auto simp: HandleDeriveRequest_def Let_def
        split: option.splits sum.splits prod.splits\<close>)
qed

lemma svc_run_inv: "svc_run E s0 tr s \<Longrightarrow> svc_inv s0 tr s"
proof (induction rule: svc_run.induct)
  case Run_start
  then show ?case by (auto simp: svc_inv_def fresh_service_def)
next
  case (Run_step tr s e s')
  then show ?case by (blast intro: svc_step_inv)
qed

text \<open>
  C1. Party B enters the signing protocol only for an approved transaction, and once: in every
  interleaving of requests, button presses, timeouts, final bytes, rounds and failures, a call of the
  protocol for \<open>txID\<close> is preceded by a request with that identifier that the analysis did not
  reject, and either automatic mode was on and the analysis found a whitelisted receiver, or the
  authorised user pressed a button that approves exactly this transaction. The key used is the one
  at the path of that request, and no transaction reaches the protocol twice.
\<close>

theorem signs_only_approved:
  assumes "svc_run E s0 tr s"
  shows "(SignCalled txID sreq share \<in> set tr \<longrightarrow>
      (\<exists>req result auto. Requested txID req result auto \<in> set tr \<and>
        dn_Action (ar_Decision result) \<noteq> ActionReject \<and>
        sq_DerivationPath sreq = rq_DerivationPath req \<and>
        (auto \<and> ar_Whitelisted result \<or>
         (\<exists>b q. sb_bot s0 = Some b \<and> Pressed q \<in> set tr \<and> cq_From q = bt_authorizedUserID b \<and>
           (cq_Data q = ''approve:'' @ txID \<or> cq_Data q = ''whitelist:'' @ txID))))) \<and>
    sign_calls tr txID \<le> 1"
  using svc_run_inv [OF assms] unfolding svc_inv_def approved_def human_approved_def by blast

subsection \<open>A run to the protocol\<close>

text \<open>
  An automatic approval with a receiver on the whitelist; the final bytes that arrive are any bytes.
\<close>

definition demo_db :: db where
  "demo_db = \<lparr>db_master = [],
     db_keys = [\<lparr>dr_DerivationPath = ''m/44/60/0/0/0'', dr_Curve = CurveSecp256k1, dr_PublicKey = [],
       dr_Address = [], dr_Label = [], dr_Share = replicate 12 0 @ [1, 7], dr_CreatedAt = 0\<rparr>],
     db_txs = [], db_whitelist = [\<lparr>we_Address = ''0xab'', we_Label = [], we_AddedAt = 0\<rparr>]\<rparr>"

definition demo_env :: env where
  "demo_env = \<lparr>en_vmReg = None, en_aead = toy_aead, en_encKey = [1],
     en_DeriveKey = (\<lambda>k p. Inl ''none''), en_pct = (\<lambda>q. []), en_marshal = (\<lambda>d. []),
     en_onSigningStarted = True, en_onEscalationApproved = True,
     en_outcomes = (\<lambda>out. True)\<rparr>"

definition demo_service :: service where
  "demo_service = \<lparr>sb_db = demo_db, sb_bot = Some (sample_bot\<lparr>bt_autoMode := True\<rparr>),
     sb_pending = Map.empty, sb_reqCache = Map.empty, sb_activeRouter = None,
     sb_signReady = Map.empty, sb_nextRouter = 0, sb_inCh = (\<lambda>r. []), sb_tasks = Map.empty,
     sb_effects = []\<rparr>"

abbreviation demo_request :: SignRequestPayload where
  "demo_request \<equiv> sample_request sample_tx sample_tx"

definition demo_saved :: service where
  "demo_saved = save_request (\<lambda>x. None) 1 ''t1'' demo_request demo_service"

definition demo_analyzer :: analyzer where
  "demo_analyzer = with_store sample_analyzer (\<lambda>x. None) (sb_db demo_saved)"

definition demo_result :: AnalysisResult where
  "demo_result = analysis sample_analyzer (\<lambda>x. None) demo_request demo_saved"

lemma demo_same_decoding:
  "decodable demo_analyzer = decodable sample_analyzer"
proof -
  have "an_vmReg demo_analyzer = an_vmReg sample_analyzer"
    by (simp add: demo_analyzer_def with_store_def)
  then show ?thesis by (intro ext) (simp only: decodable_def)
qed

lemma demo_result_facts:
  "ar_Whitelisted demo_result" "dn_Action (ar_Decision demo_result) = ActionApprove"
proof -
  have d: "tampered demo_analyzer = tampered sample_analyzer"
    "receivers demo_analyzer = receivers sample_analyzer"
    "amount demo_analyzer = amount sample_analyzer"
    by (rule ext, simp add: tampered_def receivers_def amount_def decoded_tx_def
        demo_same_decoding)+
  have "sb_db demo_saved = demo_db\<lparr>db_txs := [tx_record 1 ''t1'' demo_request]\<rparr>"
    by (simp add: demo_saved_def save_request_def demo_service_def SaveTx_def tx_record_def
        demo_db_def)
  then have k: "known_receiver demo_analyzer [''0xab'']"
    by (simp add: demo_analyzer_def with_store_def known_receiver_def IsWhitelisted_def
        demo_db_def select_def to_lower_def char_lower_def)
  have l: "an_llm demo_analyzer = None"
    by (simp add: demo_analyzer_def with_store_def analyzer_simps)
  have r: "demo_result = Analyze demo_analyzer demo_request"
    by (simp add: demo_result_def analysis_def demo_analyzer_def)
  show "ar_Whitelisted demo_result"
    by (simp add: r Analyze_eq d sample_request_facts k)
  show "dn_Action (ar_Decision demo_result) = ActionApprove"
    by (simp add: r Analyze_eq d sample_request_facts k l deterministicChecks_def five
        zero_address_def high_value_threshold_def analyzer_simps to_lower_def char_lower_def)
qed

definition demo_spawned :: service where
  "demo_spawned = startSigning demo_env ''t1'' demo_request
     (updateTxStatus (\<lambda>x. None) 1 ''t1'' TxStatusApproved demo_saved)"

lemma demo_spawned_facts:
  "sb_tasks demo_spawned = [''t1'' \<mapsto> Spawned demo_request 0]"
  "sb_signReady demo_spawned = Map.empty"
  "db_keys (sb_db demo_spawned) = db_keys demo_db"
  by (simp_all add: demo_spawned_def startSigning_def demo_env_def Let_def updateTxStatus_def
      demo_saved_def save_request_def demo_service_def SaveTx_def UpdateTxStatus_def tx_record_def
      demo_db_def)

definition demo_open :: service where
  "demo_open = demo_spawned\<lparr>sb_signReady := [''t1'' \<mapsto> []],
     sb_tasks := [''t1'' \<mapsto> AtChannel demo_request 0]\<rparr>"

definition demo_ready :: "bytes \<Rightarrow> service" where
  "demo_ready b = demo_open\<lparr>sb_signReady := [''t1'' \<mapsto> [b]]\<rparr>"

definition demo_sign_request :: "bytes \<Rightarrow> Tss.SignRequest" where
  "demo_sign_request b = \<lparr>sq_DerivationPath = ''m/44/60/0/0/0'', sq_Message = b,
     sq_Curve = CurveSecp256k1\<rparr>"

definition demo_running :: "bytes \<Rightarrow> service" where
  "demo_running b = (demo_ready b)\<lparr>sb_signReady := [''t1'' \<mapsto> []],
     sb_tasks := [''t1'' \<mapsto> Running demo_request 0 (demo_sign_request b) [1]]\<rparr>"

lemma demo_requested:
  "svc_run demo_env demo_service [Requested ''t1'' demo_request demo_result True] demo_spawned"
proof -
  have am: "auto_mode demo_service"
    by (simp add: auto_mode_def demo_service_def AutoMode_def)
  have r: "receive_request demo_env sample_analyzer (\<lambda>c. None) (\<lambda>x. None) 1 ''t1'' demo_request
      demo_service = (\<lparr>rs_Decision = ActionApprove, rs_Reason = dn_Reason (ar_Decision demo_result),
        rs_TxID = ''t1''\<rparr>, demo_spawned)"
    using am
    by (simp add: receive_request_def Let_def route_decision_def demo_saved_def [symmetric]
        demo_result_def [symmetric] demo_result_facts demo_spawned_def)
      (simp add: demo_saved_def service_simps)
  have "svc_step demo_env demo_service (Requested ''t1'' demo_request demo_result True) demo_spawned"
    using Receives [OF _ r] am by (simp add: demo_result_def demo_saved_def demo_env_def)
  moreover have "fresh_service demo_service"
    by (simp add: fresh_service_def demo_service_def sample_bot_def)
  ultimately show ?thesis
    by (intro Run_step [OF Run_start]) (simp_all add: requested_def)
qed

lemma demo_key:
  "GetDerivedKey (en_aead demo_env) (en_encKey demo_env) None (rq_DerivationPath demo_request)
     (sb_db demo_spawned) = Inr \<lparr>dr_DerivationPath = ''m/44/60/0/0/0'', dr_Curve = CurveSecp256k1,
       dr_PublicKey = [], dr_Address = [], dr_Label = [], dr_Share = [1], dr_CreatedAt = 0\<rparr>"
  by (simp add: GetDerivedKey_def demo_spawned_facts demo_db_def select_def demo_env_def decrypt_def
      toy_aead_def NonceSize_def sample_request_def numeral_eq_Suc)

lemma demo_outcomes: "en_outcomes demo_env (\<lambda>x. None)"
  by (simp add: demo_env_def)

text \<open>
  From a goroutine that was started for an approved transaction, three steps lead into the protocol:
  it opens its channel, the final bytes arrive, and they are signed.
\<close>

definition final_bytes :: "string \<Rightarrow> bytes \<Rightarrow> SignReadyPayload" where
  "final_bytes txID b = \<lparr>sy_TxID = txID, sy_SignableBytes = b64_encode b\<rparr>"

lemma run_from_spawned:
  assumes run: "svc_run E s0 tr s" and task: "sb_tasks s txID = Some (Spawned req r)"
    and out: "en_outcomes E out"
    and key: "GetDerivedKey (en_aead E) (en_encKey E) (out StGetDerivedKey) (rq_DerivationPath req)
      (sb_db s) = Inr dk"
  shows "\<exists>s'. svc_run E s0 ([SignCalled txID \<lparr>sq_DerivationPath = rq_DerivationPath req,
      sq_Message = b, sq_Curve = dr_Curve dk\<rparr> (dr_Share dk), ReadyArrived (final_bytes txID b),
      Internal] @ tr) s'"
proof -
  define s1 where "s1 = s\<lparr>sb_signReady := (sb_signReady s)(txID \<mapsto> []),
    sb_tasks := (sb_tasks s)(txID \<mapsto> AtChannel req r)\<rparr>"
  define s2 where "s2 = s1\<lparr>sb_signReady := (sb_signReady s1)(txID \<mapsto> [b])\<rparr>"
  have "sign_register txID s = Some s1" by (simp add: sign_register_def task s1_def)
  then have r1: "svc_run E s0 (Internal # tr) s1" by (intro Run_step [OF run] Sign_opens) simp_all
  have "HandleSignReady (final_bytes txID b) s1 = Proceed s2"
    by (simp add: HandleSignReady_def final_bytes_def s1_def s2_def)
  then have r2: "svc_run E s0 (ReadyArrived (final_bytes txID b) # Internal # tr) s2"
    by (intro Run_step [OF r1] Ready_arrives) simp_all
  obtain s3 where s3: "sign_receive E out now txID s2 = Some s3"
    "sb_tasks s3 txID = Some (Running req r \<lparr>sq_DerivationPath = rq_DerivationPath req,
      sq_Message = b, sq_Curve = dr_Curve dk\<rparr> (dr_Share dk))"
    by (simp add: sign_receive_def s1_def s2_def key)
  have "svc_step E s2 (SignCalled txID \<lparr>sq_DerivationPath = rq_DerivationPath req, sq_Message = b,
      sq_Curve = dr_Curve dk\<rparr> (dr_Share dk)) s3"
    using Sign_starts [OF out s3(1)] by (simp add: s3(2))
  then show ?thesis using Run_step [OF r2] by fastforce
qed

definition demo_trace :: "bytes \<Rightarrow> event list" where
  "demo_trace b = [SignCalled ''t1'' (demo_sign_request b) [1], ReadyArrived (final_bytes ''t1'' b),
     Internal, Requested ''t1'' demo_request demo_result True]"

lemma demo_signs: "\<exists>s. svc_run demo_env demo_service (demo_trace b) s"
proof -
  have "sb_tasks demo_spawned ''t1'' = Some (Spawned demo_request 0)" by (simp add: demo_spawned_facts)
  from run_from_spawned [OF demo_requested this demo_outcomes demo_key, of b]
  show ?thesis by (simp add: demo_trace_def demo_sign_request_def sample_request_def)
qed

theorem signs_only_approved_witness:
  "SignCalled ''t1'' (demo_sign_request [9]) [1] \<in> set (demo_trace [9]) \<and>
   sign_calls (demo_trace [9]) ''t1'' \<le> 1"
proof -
  obtain s where "svc_run demo_env demo_service (demo_trace [9]) s" using demo_signs by blast
  then have "sign_calls (demo_trace [9]) ''t1'' \<le> 1"
    using signs_only_approved [of demo_env demo_service "demo_trace [9]" s "''t1''" "demo_sign_request [9]" "[1]"]
    by blast
  then show ?thesis by (simp add: demo_trace_def)
qed

text \<open>
  C10. The bytes that are signed need not be the analysed ones. In every run in which Party B has started
  the signing goroutine of a transaction, whatever the route of its approval, whatever the request said and
  whatever it was analysed with, the final bytes can be any bytes: for each \<open>b\<close> the run goes on by the arrival of
  \<open>b\<close> from Party A straight to the signing of \<open>b\<close> with the key at the request's path, without
  another request, analysis or button press. The key must be readable.
\<close>

theorem any_bytes_signed:
  assumes "svc_run E s0 tr s" and "sb_tasks s txID = Some (Spawned req r)" and "en_outcomes E out"
    and "GetDerivedKey (en_aead E) (en_encKey E) (out StGetDerivedKey) (rq_DerivationPath req)
      (sb_db s) = Inr dk"
  shows "approved s0 tr txID req \<and>
    (\<forall>b. \<exists>s'. svc_run E s0 ([SignCalled txID \<lparr>sq_DerivationPath = rq_DerivationPath req,
      sq_Message = b, sq_Curve = dr_Curve dk\<rparr> (dr_Share dk), ReadyArrived (final_bytes txID b),
      Internal] @ tr) s')"
proof -
  have "approved s0 tr txID req"
    using svc_run_inv [OF assms(1)] assms(2) unfolding svc_inv_def by fastforce
  then show ?thesis using run_from_spawned [OF assms] by blast
qed

theorem any_bytes_signed_witness:
  "b64_decode (rq_SignableBytes demo_request) = Inr [1] \<and>
   (\<exists>s. svc_run demo_env demo_service (demo_trace [4, 2]) s)"
proof -
  have "sb_tasks demo_spawned ''t1'' = Some (Spawned demo_request 0)" by (simp add: demo_spawned_facts)
  from any_bytes_signed [OF demo_requested this demo_outcomes demo_key]
  have "\<exists>s. svc_run demo_env demo_service (demo_trace [4, 2]) s"
    by (simp add: demo_trace_def demo_sign_request_def sample_request_def)
  then show ?thesis by (simp add: sample_request_def)
qed

subsection \<open>The life of a transaction\<close>

definition tx_status :: "service \<Rightarrow> string \<Rightarrow> TxStatus option" where
  "tx_status s txID = map_option tr_Status (select tr_ID txID (db_txs (sb_db s)))"

fun phase :: "task option \<Rightarrow> TxStatus set" where
  "phase None = {TxStatusRejected, TxStatusSigned}"
| "phase (Some (Registering req result)) = {TxStatusPending}"
| "phase (Some (Waiting req)) = {TxStatusPending}"
| "phase (Some t) = {TxStatusApproved}"

definition life :: "event list \<Rightarrow> service \<Rightarrow> bool" where
  "life tr s \<longleftrightarrow> (\<forall>t. if requested tr t then tx_status s t \<in> Some ` phase (sb_tasks s t)
     else sb_tasks s t = None)"

abbreviation all_ok :: outcomes where "all_ok \<equiv> \<lambda>x. None"

named_theorems status_simps

lemma tx_status_update:
  "tx_status (updateTxStatus all_ok now t st s) x =
     (if x = t then map_option (\<lambda>_. st) (tx_status s t) else tx_status s x)"
  "tx_status (s\<lparr>sb_db := snd (UpdateTxStatus None now t st sg (sb_db s))\<rparr>) x =
     (if x = t then map_option (\<lambda>_. st) (tx_status s t) else tx_status s x)"
  by (auto simp: tx_status_def updateTxStatus_def UpdateTxStatus_def select_update option.map_comp
      comp_def)

lemma tx_status_save:
  "tx_status (save_request all_ok now t req s) x =
     (if x = t then Some TxStatusPending else tx_status s x)"
  by (auto simp: tx_status_def save_request_def SaveTx_def tx_table.get_put tx_record_def merge_tx_def
      split: option.splits)

lemma tx_status_same: "db_txs (sb_db s') = db_txs (sb_db s) \<Longrightarrow> tx_status s' x = tx_status s x"
  by (simp add: tx_status_def)

lemma status_frame [status_simps]:
  "tx_status (startSigning E t req s) x = tx_status s x"
  "tx_status (escalation_cleanup t s) x = tx_status s x"
  "tx_status (sign_cleanup t r s) x = tx_status s x"
  "tx_status (s\<lparr>sb_tasks := ts\<rparr>) x = tx_status s x"
  "tx_status (s\<lparr>sb_signReady := sr\<rparr>) x = tx_status s x"
  "tx_status (s\<lparr>sb_pending := pe\<rparr>) x = tx_status s x"
  "tx_status (s\<lparr>sb_effects := ef\<rparr>) x = tx_status s x"
  "tx_status (s\<lparr>sb_bot := bo\<rparr>) x = tx_status s x"
  "tx_status (s\<lparr>sb_inCh := ch\<rparr>) x = tx_status s x"
  by (simp_all add: tx_status_def startSigning_def escalation_cleanup_def sign_cleanup_def Let_def)

lemmas [status_simps] = tx_status_update tx_status_save sign_failed_def service_simps

lemma whitelist_all_txs: "db_txs (whitelist_all out now addrs d) = db_txs d"
  by (induction out now addrs d rule: whitelist_all.induct)
    (auto simp: AddWhitelistEntry_def split: option.splits)

lemma lifeI:
  assumes "life tr s" and "\<And>t. requested (e # tr) t = requested tr t"
    and "\<And>t. sb_tasks s' t = sb_tasks s t \<and> tx_status s' t = tx_status s t \<or>
      (sb_tasks s t \<noteq> None \<and> (tx_status s t \<in> Some ` phase (sb_tasks s t) \<longrightarrow>
        tx_status s' t \<in> Some ` phase (sb_tasks s' t)))"
  shows "life (e # tr) s'"
  unfolding life_def
proof (intro allI)
  fix t
  show "if requested (e # tr) t then tx_status s' t \<in> Some ` phase (sb_tasks s' t)
      else sb_tasks s' t = None"
    using assms(1) assms(2,3) [of t] unfolding life_def by metis
qed

lemma requested_other [simp]:
  "requested (Internal # tr) t = requested tr t"
  "requested (Pressed q # tr) t = requested tr t"
  "requested (ReadyArrived p # tr) t = requested tr t"
  "requested (SignCalled x sreq share # tr) t = requested tr t"
  "requested (Ended x st # tr) t = requested tr t"
  "requested (sign_event x k # tr) t = requested tr t"
  by (simp_all add: requested_def, cases k, simp_all, cases "the k", auto)

lemma life_Receives:
  assumes "life tr s" "receive_request E A api all_ok now txID req s = (resp, s')"
    "\<not> requested tr txID" "en_onSigningStarted E"
  shows "life (Requested txID req result au # tr) s'"
  unfolding life_def
proof (intro allI)
  fix t
  have st: "tx_status (save_request all_ok now txID req s) txID = Some TxStatusPending"
    by (simp add: tx_status_save)
  have old: "if requested tr t then tx_status s t \<in> Some ` phase (sb_tasks s t)
      else sb_tasks s t = None"
    using assms(1) by (simp add: life_def)
  have "sb_tasks s txID = None"
    using assms(1,3) unfolding life_def by (metis (full_types))
  then have this_one: "tx_status s' txID \<in> Some ` phase (sb_tasks s' txID)"
    using assms(2,4)
    by (auto simp: receive_request_def route_decision_def escalate_notify_def Let_def status_simps
        split: if_splits option.splits)
  have others: "sb_tasks s' t = sb_tasks s t \<and> tx_status s' t = tx_status s t" if "t \<noteq> txID"
    using assms(2) that
    by (auto simp: receive_request_def route_decision_def escalate_notify_def Let_def status_simps
        split: if_splits option.splits)
  show "if requested (Requested txID req result au # tr) t
      then tx_status s' t \<in> Some ` phase (sb_tasks s' t) else sb_tasks s' t = None"
    using old this_one others by (cases "t = txID") (auto simp: requested_def)
qed

lemma svc_step_life:
  assumes "svc_step E s e s'" "life tr s" "new_id tr e"
    and "en_outcomes E = (\<lambda>out. out = all_ok)" "en_onSigningStarted E"
  shows "life (e # tr) s'"
  using assms
proof (induction rule: svc_step.induct)
  case (Receives out A api now txID req s resp s')
  then show ?case by (auto intro: life_Receives)
next
  case (Registers s txID)
  show ?case
    by (rule lifeI [OF Registers(1)])
      (auto simp: escalate_register_def tx_status_def split: option.splits task.splits)
next
  case (Bot_handles s b q msg es b')
  show ?case by (rule lifeI [OF Bot_handles(4)]) (simp_all add: status_simps)
next
  case (Bot_acts s e es out now s')
  have "db_txs (sb_db (onTelegramWhitelist out now t s)) = db_txs (sb_db s) \<and>
      sb_tasks (onTelegramWhitelist out now t s) = sb_tasks s" for t
    by (simp add: onTelegramWhitelist_def Let_def whitelist_all_txs split: option.splits)
  then have "db_txs (sb_db s') = db_txs (sb_db s) \<and> sb_tasks s' = sb_tasks s"
    using Bot_acts(3) by (auto simp: run_effect_def onTelegramDecision_def
        split: effect.splits option.splits list.splits)
  then show ?case
    by (intro lifeI [OF Bot_acts(4)]) (simp_all add: tx_status_def)
next
  case (Decided out now txID s pushed s')
  show ?case
    by (rule lifeI [OF Decided(3)])
      (use Decided(1,2,5,6) in \<open>auto simp: escalation_decided_def status_simps
        split: option.splits task.splits list.splits if_splits\<close>)
next
  case (Escalation_expires out now txID s s')
  show ?case
    by (rule lifeI [OF Escalation_expires(3)])
      (use Escalation_expires(1,2,5) in \<open>auto simp: escalation_timed_out_def status_simps
        split: option.splits task.splits\<close>)
next
  case (Sign_opens txID s s')
  show ?case
    by (rule lifeI [OF Sign_opens(2)])
      (use Sign_opens(1,2) in \<open>auto simp: sign_register_def life_def tx_status_def
        split: option.splits task.splits\<close>)
next
  case (Ready_arrives p s s')
  show ?case
    by (rule lifeI [OF Ready_arrives(2)])
      (use Ready_arrives(1) in \<open>auto simp: HandleSignReady_def status_simps
        split: option.splits sum.splits if_splits\<close>)
next
  case (Sign_starts out now txID s s')
  show ?case
    by (rule lifeI [OF Sign_starts(3)])
      (use Sign_starts(1,2,3,5) in \<open>auto simp: sign_receive_def status_simps Let_def life_def
        split: option.splits task.splits list.splits sum.splits\<close>)
next
  case (Sign_expires out now txID s s')
  show ?case
    by (rule lifeI [OF Sign_expires(3)])
      (use Sign_expires(1,2,5) in \<open>auto simp: sign_timed_out_def status_simps
        split: option.splits task.splits\<close>)
next
  case (Sign_ends out now txID res s s')
  show ?case
    by (rule lifeI [OF Sign_ends(3)])
      (use Sign_ends(1,2,5) in \<open>auto simp: sign_done_def status_simps
        split: option.splits task.splits sum.splits\<close>)
next
  case (Round_arrives payload s s')
  show ?case
    by (rule lifeI [OF Round_arrives(2)])
      (use Round_arrives(1) in \<open>auto simp: HandleTSSRound_def status_simps
        split: option.splits blocking.splits\<close>)
next
  case (Derives out nonce now path s e s')
  have "db_txs (sb_db s') = db_txs (sb_db s) \<and> sb_tasks s' = sb_tasks s"
    using Derives(2) by (auto simp: HandleDeriveRequest_def SaveDerivedKey_def Let_def
        split: option.splits sum.splits prod.splits)
  then show ?case by (intro lifeI [OF Derives(3)]) (simp_all add: tx_status_def)
qed

lemma svc_run_life:
  assumes "svc_run E s0 tr s" and "en_outcomes E = (\<lambda>out. out = all_ok)" "en_onSigningStarted E"
  shows "life tr s"
  using assms(1)
proof (induction rule: svc_run.induct)
  case Run_start
  then show ?case by (simp add: life_def requested_def fresh_service_def)
next
  case (Run_step tr s e s')
  then show ?case using svc_step_life assms(2,3) by blast
qed

text \<open>
  C9. While the database answers, the stored status of a transaction tells where it is: pending while
  the human is asked, approved from the approval until the signing goroutine ends, and rejected or
  signed once nothing works on it any more. So no transaction is left approved or pending by a
  timeout, a refusal, a missing key or a failed protocol run.
\<close>

theorem status_tells_phase:
  assumes "svc_run E s0 tr s" and "en_outcomes E = (\<lambda>out. out = (\<lambda>x. None))" "en_onSigningStarted E"
    and "Requested txID req result auto \<in> set tr"
  shows "\<exists>tx. GetTx None txID (sb_db s) = Inr tx \<and>
    (case sb_tasks s txID of
       None \<Rightarrow> tr_Status tx = TxStatusRejected \<or> tr_Status tx = TxStatusSigned
     | Some (Registering r res) \<Rightarrow> tr_Status tx = TxStatusPending
     | Some (Waiting r) \<Rightarrow> tr_Status tx = TxStatusPending
     | Some t \<Rightarrow> tr_Status tx = TxStatusApproved)"
proof -
  have "requested tr txID" using assms(4) by (auto simp: requested_def)
  then have "tx_status s txID \<in> Some ` phase (sb_tasks s txID)"
    using svc_run_life [OF assms(1-3)] by (simp add: life_def)
  then show ?thesis
    by (auto simp: tx_status_def GetTx_def split: option.splits task.splits)
qed

definition demo_reliable_env :: env where
  "demo_reliable_env = demo_env\<lparr>en_outcomes := (\<lambda>out. out = (\<lambda>x. None))\<rparr>"

lemma demo_reliable_run:
  "svc_run demo_reliable_env demo_service [Requested ''t1'' demo_request demo_result True] demo_spawned"
proof -
  have am: "auto_mode demo_service"
    by (simp add: auto_mode_def demo_service_def AutoMode_def)
  have sp: "startSigning demo_reliable_env = startSigning demo_env"
    by (intro ext) (simp add: startSigning_def demo_reliable_env_def)
  have r: "receive_request demo_reliable_env sample_analyzer (\<lambda>c. None) all_ok 1 ''t1'' demo_request
      demo_service = (\<lparr>rs_Decision = ActionApprove, rs_Reason = dn_Reason (ar_Decision demo_result),
        rs_TxID = ''t1''\<rparr>, demo_spawned)"
    using am
    by (simp add: receive_request_def Let_def route_decision_def demo_saved_def [symmetric]
        demo_result_def [symmetric] demo_result_facts demo_spawned_def sp)
      (simp add: demo_saved_def service_simps)
  have "svc_step demo_reliable_env demo_service (Requested ''t1'' demo_request demo_result True)
      demo_spawned"
    using Receives [OF _ r] am by (simp add: demo_result_def demo_saved_def demo_reliable_env_def)
  moreover have "fresh_service demo_service"
    by (simp add: fresh_service_def demo_service_def sample_bot_def)
  ultimately show ?thesis
    by (intro Run_step [OF Run_start]) (simp_all add: requested_def)
qed

theorem status_tells_phase_witness:
  "\<exists>tx. GetTx None ''t1'' (sb_db demo_spawned) = Inr tx \<and> tr_Status tx = TxStatusApproved"
proof -
  have "en_outcomes demo_reliable_env = (\<lambda>out. out = (\<lambda>x. None))"
    "en_onSigningStarted demo_reliable_env"
    by (simp_all add: demo_reliable_env_def demo_env_def)
  from status_tells_phase [OF demo_reliable_run this, of "''t1''" demo_request demo_result True]
  show ?thesis by (simp add: demo_spawned_facts)
qed

end
