(* ===== verification/Evm.thy ===== *)
theory Evm
  imports Vm
begin

section \<open>The Ethereum adapter (internal/vm/evm/evm.go)\<close>

text \<open>
  Building, hashing, assembling and reading legacy transactions. The library go-ethereum is the
  record \<open>geth\<close>: transactions are an abstract type with the constructor, the RLP codec, the EIP-155
  signer and the accessors the adapter calls; \<open>geth_laws\<close> states what the adapter relies on. The
  adapter's own arithmetic is written out: default gas, the chain id folded into \<open>V\<close>, the layout of
  the 65-byte signature, and the slice expressions that panic.
\<close>

record LegacyTx =
  lt_Nonce :: u64
  lt_To :: bytes
  lt_Value :: int
  lt_Gas :: u64
  lt_GasPrice :: int
  lt_Data :: bytes
  lt_V :: int
  lt_R :: int
  lt_S :: int

record 'tx geth =
  ge_NewTx :: "LegacyTx \<Rightarrow> 'tx"
  ge_EncodeToBytes :: "'tx \<Rightarrow> bytes res"
  ge_DecodeBytes :: "bytes \<Rightarrow> 'tx res"
  ge_Hash :: "int \<Rightarrow> 'tx \<Rightarrow> bytes"
  ge_ChainId :: "'tx \<Rightarrow> int"
  ge_Value :: "'tx \<Rightarrow> int"
  ge_Gas :: "'tx \<Rightarrow> u64"
  ge_To :: "'tx \<Rightarrow> bytes option"
  ge_Data :: "'tx \<Rightarrow> bytes"
  ge_WithSignature :: "int \<Rightarrow> 'tx \<Rightarrow> bytes \<Rightarrow> 'tx res"
  ge_Sender :: "int \<Rightarrow> 'tx \<Rightarrow> bytes res"
  ge_Hex :: "bytes \<Rightarrow> string"
  ge_HexToAddress :: "string \<Rightarrow> bytes"
  ge_Keccak256 :: "bytes \<Rightarrow> bytes"

text \<open>
  What go-ethereum documents: RLP decodes what it encoded, the accessors return what the transaction
  was made of, and the chain id is read back from an EIP-155 \<open>V\<close>.
\<close>

definition geth_laws :: "'tx geth \<Rightarrow> bool" where
  "geth_laws G \<longleftrightarrow>
     (\<forall>t b. ge_EncodeToBytes G t = Inr b \<longrightarrow> ge_DecodeBytes G b = Inr t) \<and>
     (\<forall>l. ge_Value G (ge_NewTx G l) = lt_Value l \<and> ge_Gas G (ge_NewTx G l) = lt_Gas l \<and>
        ge_To G (ge_NewTx G l) = Some (lt_To l) \<and> ge_Data G (ge_NewTx G l) = lt_Data l) \<and>
     (\<forall>l c. 0 \<le> c \<longrightarrow> lt_V l = c * 2 + 35 \<longrightarrow> ge_ChainId G (ge_NewTx G l) = c)"

subsection \<open>Addresses and keys\<close>

definition evm_Name :: string where "evm_Name = ''evm''"
definition evm_Curve :: Curve where "evm_Curve = CurveSecp256k1"

definition evm_DeriveAddress :: "'tx geth \<Rightarrow> bytes \<Rightarrow> string list \<Rightarrow> string res" where
  "evm_DeriveAddress G pubKey opts =
     (if length pubKey \<noteq> 65 \<or> hd pubKey \<noteq> 0x04
      then Inl (''evm: expected 65-byte uncompressed public key, got '' @ nat_dec (length pubKey) @
        '' bytes'')
      else Inr (ge_Hex G (drop 12 (ge_Keccak256 G (tl pubKey)))))"

text \<open>The coordinates that \<open>PubKeyToECDSA\<close> reads.\<close>

definition PubKeyToECDSA :: "bytes \<Rightarrow> (nat \<times> nat) res" where
  "PubKeyToECDSA pubKey =
     (if length pubKey \<noteq> 65 \<or> hd pubKey \<noteq> 0x04
      then Inl ''evm: expected 65-byte uncompressed public key''
      else Inr (be_nat (take 32 (drop 1 pubKey)), be_nat (take 32 (drop 33 pubKey))))"

subsection \<open>Building\<close>

text \<open>A decimal number field with the value it has when it is empty.\<close>

definition bigint_field :: "string \<Rightarrow> int \<Rightarrow> string \<Rightarrow> int res" where
  "bigint_field name dflt s =
     (if s = [] then Inr dflt
      else (case parse_bigint s of
          None \<Rightarrow> Inl (''evm: invalid '' @ name @ '' '' @ go_quote s)
        | Some v \<Rightarrow> Inr v))"

definition default_gas :: "u64 \<Rightarrow> bytes \<Rightarrow> u64" where
  "default_gas gasLimit data =
     (if gasLimit = 0 then (if data \<noteq> [] then 100000 else 21000) else gasLimit)"

definition legacy_tx :: "'tx geth \<Rightarrow> TxRequest \<Rightarrow> int \<Rightarrow> int \<Rightarrow> int \<Rightarrow> LegacyTx" where
  "legacy_tx G req value gasPrice chainID =
     \<lparr>lt_Nonce = tq_Nonce req, lt_To = ge_HexToAddress G (hd (tq_To req)), lt_Value = value,
      lt_Gas = default_gas (tq_GasLimit req) (tq_Data req), lt_GasPrice = gasPrice,
      lt_Data = tq_Data req, lt_V = chainID * 2 + 35, lt_R = 0, lt_S = 0\<rparr>"

definition hex_data :: "bytes \<Rightarrow> string" where
  "hex_data data = (if data \<noteq> [] then ''0x'' @ hex_encode data else [])"

definition evm_BuildUnsignedTx :: "'tx geth \<Rightarrow> TxRequest \<Rightarrow> UnsignedTx res" where
  "evm_BuildUnsignedTx G req =
     (if tq_To req = [] then Inl ''evm: at least one recipient required''
      else bind_res (bigint_field ''value'' 0 (tq_Value req)) (\<lambda>value.
           bind_res (bigint_field ''gas price'' 0 (tq_GasPrice req)) (\<lambda>gasPrice.
           bind_res (bigint_field ''chain ID'' 1 (tq_ChainID req)) (\<lambda>chainID.
             let tx = ge_NewTx G (legacy_tx G req value gasPrice chainID) in
             bind_res (in_ctx ''evm: encode tx'' (ge_EncodeToBytes G tx)) (\<lambda>rawBytes.
               Inr \<lparr>ut_RawBytes = rawBytes, ut_Hash = ge_Hash G chainID tx, ut_To = tq_To req,
                 ut_Value = tq_Value req, ut_Data = hex_data (tq_Data req),
                 ut_ExtraSignerKeys = []\<rparr>)))))"

subsection \<open>Hashing, assembling, reading\<close>

definition evm_ExtractSignableBytes :: "'tx geth \<Rightarrow> bytes \<Rightarrow> bytes res" where
  "evm_ExtractSignableBytes G unsignedTx =
     bind_res (in_ctx ''evm: decode unsigned tx'' (ge_DecodeBytes G unsignedTx)) (\<lambda>tx.
       Inr (ge_Hash G (ge_ChainId G tx) tx))"

text \<open>\<open>copy(buf[end-len(b):end], b)\<close>: the slice expression panics when \<open>b\<close> is longer than \<open>end\<close>.\<close>

definition copy_right :: "nat \<Rightarrow> bytes \<Rightarrow> bytes \<Rightarrow> bytes may_panic" where
  "copy_right k b buf =
     (if length b \<le> k then Return (take (k - length b) buf @ b @ drop k buf) else Panic)"

definition signature_bytes :: "Signature \<Rightarrow> bytes may_panic" where
  "signature_bytes sig =
     (case copy_right 32 (nat_bytes (sig_R sig)) (replicate 65 0) of
        Panic \<Rightarrow> Panic
      | Return b1 \<Rightarrow> (case copy_right 64 (nat_bytes (sig_S sig)) b1 of
          Panic \<Rightarrow> Panic
        | Return b2 \<Rightarrow> Return (b2[64 := sig_V sig])))"

definition evm_AssembleSignedTx :: "'tx geth \<Rightarrow> bytes \<Rightarrow> Signature \<Rightarrow> bytes res may_panic" where
  "evm_AssembleSignedTx G unsignedTx sig =
     (case in_ctx ''evm: decode unsigned tx'' (ge_DecodeBytes G unsignedTx) of
        Inl e \<Rightarrow> Return (Inl e)
      | Inr tx \<Rightarrow> (case signature_bytes sig of
          Panic \<Rightarrow> Panic
        | Return sigBytes \<Rightarrow> Return (
            bind_res (in_ctx ''evm: apply signature'' (ge_WithSignature G (ge_ChainId G tx) tx sigBytes))
              (\<lambda>signedTx. in_ctx ''evm: encode signed tx'' (ge_EncodeToBytes G signedTx)))))"

definition evm_DecodeTx :: "'tx geth \<Rightarrow> bytes \<Rightarrow> DecodedTx res" where
  "evm_DecodeTx G txBytes =
     bind_res (in_ctx ''evm: decode tx'' (ge_DecodeBytes G txBytes)) (\<lambda>tx.
       Inr \<lparr>dt_From = (case ge_Sender G (ge_ChainId G tx) tx of Inl e \<Rightarrow> [] | Inr a \<Rightarrow> ge_Hex G a),
         dt_To = (case ge_To G tx of None \<Rightarrow> [] | Some a \<Rightarrow> [ge_Hex G a]),
         dt_Value = int_dec (ge_Value G tx),
         dt_Data = hex_data (ge_Data G tx),
         dt_Method = (if 4 \<le> length (ge_Data G tx) then ''0x'' @ hex_encode (take 4 (ge_Data G tx))
                      else []),
         dt_Args = [], dt_ChainID = int_dec (ge_ChainId G tx), dt_GasLimit = ge_Gas G tx\<rparr>)"

text \<open>The adapter as the services hold it.\<close>

definition evm_adapter :: "'tx geth \<Rightarrow> adapter" where
  "evm_adapter G =
     \<lparr>ad_Name = evm_Name, ad_Curve = evm_Curve, ad_DeriveAddress = evm_DeriveAddress G,
      ad_BuildUnsignedTx = evm_BuildUnsignedTx G,
      ad_ExtractSignableBytes = evm_ExtractSignableBytes G,
      ad_AssembleSignedTx = (\<lambda>raw sig. recovered (evm_AssembleSignedTx G raw sig)),
      ad_DecodeTx = evm_DecodeTx G\<rparr>"

subsection \<open>What the adapter promises\<close>

text \<open>The numbers a request stands for.\<close>

definition number_or :: "int \<Rightarrow> string \<Rightarrow> int" where
  "number_or dflt s = (if s = [] then dflt else the (parse_bigint s))"

lemma bigint_field_ok [res_simps]:
  "bigint_field name dflt s = Inr v \<longleftrightarrow>
     v = number_or dflt s \<and> (s = [] \<or> parse_bigint s \<noteq> None)"
  by (auto simp: bigint_field_def number_or_def split: option.splits)

lemma evm_build_iff:
  "evm_BuildUnsignedTx G req = Inr u \<longleftrightarrow>
     tq_To req \<noteq> [] \<and>
     (\<forall>s \<in> {tq_Value req, tq_GasPrice req, tq_ChainID req}. s = [] \<or> parse_bigint s \<noteq> None) \<and>
     (let c = number_or 1 (tq_ChainID req);
          tx = ge_NewTx G (legacy_tx G req (number_or 0 (tq_Value req)) (number_or 0 (tq_GasPrice req)) c)
      in ge_EncodeToBytes G tx = Inr (ut_RawBytes u) \<and>
         u = \<lparr>ut_RawBytes = ut_RawBytes u, ut_Hash = ge_Hash G c tx, ut_To = tq_To req,
           ut_Value = tq_Value req, ut_Data = hex_data (tq_Data req), ut_ExtraSignerKeys = []\<rparr>)"
  by (auto simp: evm_BuildUnsignedTx_def res_simps Let_def)

lemma geth_decode: "geth_laws G \<Longrightarrow> ge_EncodeToBytes G t = Inr b \<Longrightarrow> ge_DecodeBytes G b = Inr t"
  by (simp add: geth_laws_def)

lemma geth_accessors:
  assumes "geth_laws G"
  shows "ge_Value G (ge_NewTx G l) = lt_Value l" "ge_Gas G (ge_NewTx G l) = lt_Gas l"
    "ge_To G (ge_NewTx G l) = Some (lt_To l)" "ge_Data G (ge_NewTx G l) = lt_Data l"
    "0 \<le> c \<Longrightarrow> lt_V l = c * 2 + 35 \<Longrightarrow> ge_ChainId G (ge_NewTx G l) = c"
  using assms by (simp_all add: geth_laws_def)

lemma evm_build_facts:
  assumes "geth_laws G" and "evm_BuildUnsignedTx G req = Inr u"
    and "0 \<le> number_or 1 (tq_ChainID req)"
  shows "evm_ExtractSignableBytes G (ut_RawBytes u) = Inr (ut_Hash u) \<and>
    (\<exists>d. evm_DecodeTx G (ut_RawBytes u) = Inr d \<and>
      dt_To d = [ge_Hex G (ge_HexToAddress G (hd (tq_To req)))] \<and>
      dt_Value d = int_dec (number_or 0 (tq_Value req)) \<and>
      dt_Data d = hex_data (tq_Data req) \<and>
      dt_ChainID d = int_dec (number_or 1 (tq_ChainID req)) \<and>
      dt_GasLimit d = (if tq_GasLimit req \<noteq> 0 then tq_GasLimit req
        else if tq_Data req = [] then 21000 else 100000))"
proof -
  let ?c = "number_or 1 (tq_ChainID req)"
  let ?l = "legacy_tx G req (number_or 0 (tq_Value req)) (number_or 0 (tq_GasPrice req)) ?c"
  have enc: "ge_EncodeToBytes G (ge_NewTx G ?l) = Inr (ut_RawBytes u)"
    and hash: "ut_Hash u = ge_Hash G ?c (ge_NewTx G ?l)"
    using assms(2) unfolding evm_build_iff Let_def by (metis, metis UnsignedTx.select_convs(2))
  have dec: "ge_DecodeBytes G (ut_RawBytes u) = Inr (ge_NewTx G ?l)"
    by (rule geth_decode [OF assms(1) enc])
  have "ge_ChainId G (ge_NewTx G ?l) = ?c"
    by (rule geth_accessors(5) [OF assms(1,3)]) (simp add: legacy_tx_def)
  then show ?thesis
    using dec hash geth_accessors(1-4) [OF assms(1), of ?l]
    by (simp add: evm_ExtractSignableBytes_def evm_DecodeTx_def legacy_tx_def default_gas_def)
qed

text \<open>
  C27. What the sender hashed is what anyone recomputes: for a transaction the adapter built on a
  chain with a nonnegative id, the signable bytes extracted from its raw bytes are its hash, and
  decoding the raw bytes gives the receiver, the amount, the data, the chain id (1 when none was
  given) and the gas limit (21000, or 100000 with data, when none was given) of the request.
\<close>

theorem evm_build_faithful:
  assumes "geth_laws G" and "evm_BuildUnsignedTx G req = Inr u"
    and "0 \<le> number_or 1 (tq_ChainID req)"
  shows "evm_ExtractSignableBytes G (ut_RawBytes u) = Inr (ut_Hash u) \<and>
    (\<exists>d. evm_DecodeTx G (ut_RawBytes u) = Inr d \<and>
      dt_To d = [ge_Hex G (ge_HexToAddress G (hd (tq_To req)))] \<and>
      dt_Value d = int_dec (number_or 0 (tq_Value req)) \<and>
      dt_Data d = hex_data (tq_Data req) \<and>
      dt_ChainID d = int_dec (number_or 1 (tq_ChainID req)) \<and>
      dt_GasLimit d = (if tq_GasLimit req \<noteq> 0 then tq_GasLimit req
        else if tq_Data req = [] then 21000 else 100000))"
  using assms by (rule evm_build_facts)

lemma copy_right_put:
  "n < 256 ^ k \<Longrightarrow> copy_right (j + k) (nat_bytes n) (xs @ replicate k 0 @ ys) =
     Return (xs @ be_put k n @ ys)" if "length xs = j"
proof -
  assume n: "n < 256 ^ k"
  have l: "length (nat_bytes n) \<le> k" using n by (rule length_nat_bytes_le)
  have "be_put k n = replicate (k - length (nat_bytes n)) 0 @ nat_bytes n"
    using left_pad_nat_bytes [OF n] l by (simp add: left_pad_def)
  then show ?thesis using that l by (simp add: copy_right_def)
qed

lemma signature_bytes_layout:
  assumes "sig_R sig < 2 ^ 256" and "sig_S sig < 2 ^ 256"
  shows "signature_bytes sig = Return (be_put 32 (sig_R sig) @ be_put 32 (sig_S sig) @ [sig_V sig])"
proof -
  have e: "(2 :: nat) ^ 256 = 256 ^ 32" by simp
  have zeros: "replicate 65 (0 :: byte) = [] @ replicate 32 0 @ (replicate 32 0 @ [0])"
    by (simp add: numeral_eq_Suc)
  have R: "copy_right 32 (nat_bytes (sig_R sig)) (replicate 65 0) =
      Return (be_put 32 (sig_R sig) @ replicate 32 0 @ [0])"
    using copy_right_put [of "[]" 0 "sig_R sig" 32 "replicate 32 0 @ [0]"] assms(1) e
    unfolding zeros by simp
  have "copy_right (32 + 32) (nat_bytes (sig_S sig)) (be_put 32 (sig_R sig) @ replicate 32 0 @ [0]) =
      Return (be_put 32 (sig_R sig) @ be_put 32 (sig_S sig) @ [0])"
    by (rule copy_right_put) (use assms(2) e in simp_all)
  with R show ?thesis by (simp add: signature_bytes_def list_update_append)
qed

text \<open>
  C28. The signature goes into the transaction as the curve library delivers it: the 65 bytes given to
  the signer are \<open>R\<close> and \<open>S\<close>, each in 32 big-endian bytes whatever leading zeros it has, and the
  recovery byte, under the chain id read from the transaction; nothing else of the transaction is
  touched before, and no slice expression panics for numbers below \<open>2^256\<close>.
\<close>

theorem evm_signature_layout:
  assumes "sig_R sig < 2 ^ 256" and "sig_S sig < 2 ^ 256"
    and "ge_DecodeBytes G raw = Inr tx"
    and "ge_WithSignature G (ge_ChainId G tx) tx
      (be_put 32 (sig_R sig) @ be_put 32 (sig_S sig) @ [sig_V sig]) = Inr signedTx"
  shows "evm_AssembleSignedTx G raw sig =
    Return (in_ctx ''evm: encode signed tx'' (ge_EncodeToBytes G signedTx))"
  using assms by (simp add: evm_AssembleSignedTx_def signature_bytes_layout)

text \<open>A number too long for its 32 bytes makes the copy of \<open>R\<close> panic.\<close>

lemma oversized_R_panics:
  assumes "256 ^ 32 \<le> sig_R sig"
  shows "signature_bytes sig = Panic"
proof -
  have "be_nat (nat_bytes (sig_R sig)) < 256 ^ length (nat_bytes (sig_R sig))" by (rule be_nat_less)
  then have "(256 :: nat) ^ 32 < 256 ^ length (nat_bytes (sig_R sig))"
    using assms by (simp only: be_nat_nat_bytes)
  then have "32 < length (nat_bytes (sig_R sig))" by (rule power_less_imp_less_exp [rotated]) simp
  then show ?thesis by (simp add: signature_bytes_def copy_right_def)
qed

subsection \<open>A small library at which the hypotheses hold\<close>

text \<open>Transactions that carry chain id, value, gas, receiver and data in one-byte fields.\<close>

definition toy_encode :: "LegacyTx \<Rightarrow> bytes res" where
  "toy_encode l =
     (if length (lt_To l) = 20 \<and> lt_Value l \<in> {0..<256} \<and> lt_GasPrice l \<in> {0..<256} \<and>
         lt_V l \<in> {0..<256} \<and> lt_R l \<in> {0..<256} \<and> lt_S l \<in> {0..<256}
      then Inr (lt_To l @ be_put 8 (unat (lt_Nonce l)) @ be_put 8 (unat (lt_Gas l)) @
        [word_of_int (lt_Value l), word_of_int (lt_GasPrice l), word_of_int (lt_V l),
         word_of_int (lt_R l), word_of_int (lt_S l)] @ lt_Data l)
      else Inl ''rlp'')"

definition toy_decode :: "bytes \<Rightarrow> LegacyTx res" where
  "toy_decode b = Inr \<lparr>lt_Nonce = word_of_nat (be_nat (take 8 (drop 20 b))), lt_To = take 20 b,
     lt_Value = uint (b ! 36), lt_Gas = word_of_nat (be_nat (take 8 (drop 28 b))),
     lt_GasPrice = uint (b ! 37), lt_Data = drop 41 b, lt_V = uint (b ! 38),
     lt_R = uint (b ! 39), lt_S = uint (b ! 40)\<rparr>"

definition toy_geth :: "LegacyTx geth" where
  "toy_geth = \<lparr>ge_NewTx = id, ge_EncodeToBytes = toy_encode, ge_DecodeBytes = toy_decode,
     ge_Hash = (\<lambda>c t. [word_of_int c] @ lt_To t @ [word_of_int (lt_Value t)]),
     ge_ChainId = (\<lambda>t. (lt_V t - 35) div 2), ge_Value = lt_Value, ge_Gas = lt_Gas,
     ge_To = (\<lambda>t. Some (lt_To t)), ge_Data = lt_Data,
     ge_WithSignature = (\<lambda>c t s. 
        Inr (t\<lparr>lt_R := int (be_nat (take 32 s)), lt_S := int (be_nat (take 32 (drop 32 s)))\<rparr>)),
     ge_Sender = (\<lambda>c t. Inl ''unsigned''), ge_Hex = (\<lambda>a. ''0x'' @ hex_encode a),
     ge_HexToAddress = (\<lambda>s. case hex_decode (trim_prefix s ''0x'') of
        Inr a \<Rightarrow> take 20 (a @ replicate 20 0) | Inl e \<Rightarrow> replicate 20 0),
     ge_Keccak256 = (\<lambda>b. take 32 (b @ replicate 32 0))\<rparr>"

lemma toy_geth_laws: "geth_laws toy_geth"
proof -
  have rt: "toy_decode b = Inr l" if "toy_encode l = Inr b" for l b
  proof -
    have u64: "word_of_nat (be_nat (be_put 8 (unat w))) = (w :: u64)" for w
      using unsigned_less [of w, where ?'a = nat] by (simp add: be_nat_be_put)
    have byte: "uint (word_of_int i :: byte) = i" if "i \<in> {0..<256}" for i
      using that by (simp add: uint_word_of_int)
    have b: "b = lt_To l @ be_put 8 (unat (lt_Nonce l)) @ be_put 8 (unat (lt_Gas l)) @
        [word_of_int (lt_Value l), word_of_int (lt_GasPrice l), word_of_int (lt_V l),
         word_of_int (lt_R l), word_of_int (lt_S l)] @ lt_Data l"
      and r: "length (lt_To l) = 20" "lt_Value l \<in> {0..<256}" "lt_GasPrice l \<in> {0..<256}"
        "lt_V l \<in> {0..<256}" "lt_R l \<in> {0..<256}" "lt_S l \<in> {0..<256}"
      using that by (auto simp: toy_encode_def split: if_splits)
    show ?thesis
      unfolding toy_decode_def b using r(1)
      by (simp add: nth_append u64 byte [OF r(2)] byte [OF r(3)] byte [OF r(4)] byte [OF r(5)]
          byte [OF r(6)] del: be_put.simps)
  qed
  then show ?thesis by (auto simp: geth_laws_def toy_geth_def)
qed

definition evm_sample_request :: TxRequest where
  "evm_sample_request = \<lparr>tq_From = [], tq_To = [''0x01''], tq_Value = ''7'', tq_Data = [],
     tq_DerivationPath = [], tq_Prefix = [], tq_Denom = [], tq_ChainID = ''5'', tq_AccountNumber = 0,
     tq_Sequence = 0, tq_Fee = [], tq_Gas = 0, tq_Memo = [], tq_PubKey = [], tq_GasLimit = 0,
     tq_GasPrice = [], tq_Nonce = 3, tq_AutoNonce = False, tq_RpcURL = [], tq_Mint = [],
     tq_Instructions = [], tq_Program = [], tq_Method = [], tq_Args = []\<rparr>"

definition evm_sample_raw :: bytes where
  "evm_sample_raw = 1 # replicate 19 0 @ be_put 8 3 @ be_put 8 21000 @ [7, 0, 45, 0, 0]"

lemma evm_sample_build:
  "evm_BuildUnsignedTx toy_geth evm_sample_request = Inr \<lparr>ut_RawBytes = evm_sample_raw,
     ut_Hash = 5 # 1 # replicate 19 0 @ [7], ut_To = [''0x01''], ut_Value = ''7'', ut_Data = [],
     ut_ExtraSignerKeys = []\<rparr>"
  by (simp add: evm_BuildUnsignedTx_def evm_sample_request_def toy_geth_def legacy_tx_def
      bigint_field_def parse_bigint_def parse_dec_def is_digit_def digit_val_def hex_val_def
      toy_encode_def default_gas_def hex_data_def evm_sample_raw_def trim_prefix_def has_prefix_def)

theorem evm_build_faithful_witness:
  "evm_ExtractSignableBytes toy_geth evm_sample_raw = Inr (5 # 1 # replicate 19 0 @ [7])"
proof -
  have "0 \<le> number_or 1 (tq_ChainID evm_sample_request)"
    by (simp add: number_or_def evm_sample_request_def parse_bigint_def parse_dec_def is_digit_def)
  from evm_build_faithful [OF toy_geth_laws evm_sample_build this] show ?thesis by simp
qed

theorem evm_signature_layout_witness:
  "\<exists>signed. evm_AssembleSignedTx toy_geth evm_sample_raw \<lparr>sig_R = 8, sig_S = 9, sig_V = 1,
     sig_Bytes = []\<rparr> = Return (Inr signed)"
proof -
  let ?sig = "\<lparr>sig_R = 8, sig_S = 9, sig_V = 1, sig_Bytes = []\<rparr>"
  have byte: "uint (x :: byte) < 256" for x using uint_bounded [of x] by simp
  define tx where "tx = projr (toy_decode evm_sample_raw)"
  have tx: "ge_DecodeBytes toy_geth evm_sample_raw = Inr tx" "length (lt_To tx) = 20"
    "lt_Value tx \<in> {0..<256}" "lt_GasPrice tx \<in> {0..<256}" "lt_V tx \<in> {0..<256}"
    by (simp_all add: tx_def toy_geth_def toy_decode_def byte) (simp add: evm_sample_raw_def)
  have "evm_AssembleSignedTx toy_geth evm_sample_raw ?sig = Return (in_ctx ''evm: encode signed tx''
      (ge_EncodeToBytes toy_geth (tx\<lparr>lt_R := 8, lt_S := 9\<rparr>)))"
    using evm_signature_layout [of ?sig toy_geth evm_sample_raw tx "tx\<lparr>lt_R := 8, lt_S := 9\<rparr>"] tx
    by (simp add: toy_geth_def be_nat_be_put del: be_put.simps)
  then show ?thesis using tx by (simp add: toy_geth_def toy_encode_def)
qed

end
