(* ===== verification/Tendermint.thy ===== *)
theory Tendermint
  imports Vm
begin

section \<open>The Cosmos adapter (internal/vm/tendermint/tendermint.go)\<close>

text \<open>
  Building, hashing, assembling and reading Cosmos transactions. The Cosmos SDK is the record
  \<open>cosmos\<close>: protobuf encoding, packing into \<open>Any\<close>, coins (whose constructors panic on a bad
  denomination or a negative amount), bech32 and address hashing. The messages, the body, the auth
  info, the sign document and the JSON envelope are the code's, field by field.
\<close>

record Coin =
  cn_Denom :: string
  cn_Amount :: int

datatype cosmos_msg =
  MsgSend string string "Coin list"
| MsgDelegate string string Coin
| MsgUndelegate string string Coin
| MsgBeginRedelegate string string string Coin

record 'any TxBody =
  tb_Messages :: "'any list"
  tb_Memo :: string

text \<open>One signer in direct mode, and the fee.\<close>

record 'any AuthInfo =
  ai_PublicKey :: 'any
  ai_Sequence :: u64
  ai_FeeAmount :: "Coin list"
  ai_GasLimit :: u64

record SignDoc =
  sd_BodyBytes :: bytes
  sd_AuthInfoBytes :: bytes
  sd_ChainId :: string
  sd_AccountNumber :: u64

record TxRaw =
  xr_BodyBytes :: bytes
  xr_AuthInfoBytes :: bytes
  xr_Signatures :: "bytes list"

record 'any cosmos =
  co_NewAnyMsg :: "cosmos_msg \<Rightarrow> 'any res"
  co_NewAnyPubKey :: "bytes \<Rightarrow> 'any res"
  co_MarshalBody :: "'any TxBody \<Rightarrow> bytes res"
  co_MarshalAuthInfo :: "'any AuthInfo \<Rightarrow> bytes res"
  co_MarshalSignDoc :: "SignDoc \<Rightarrow> bytes res"
  co_MarshalTxRaw :: "TxRaw \<Rightarrow> bytes res"
  co_NewInt64Coin :: "string \<Rightarrow> int \<Rightarrow> Coin may_panic"
  co_NewCoins :: "Coin \<Rightarrow> Coin list may_panic"
  co_ConvertAndEncode :: "string \<Rightarrow> bytes \<Rightarrow> string res"
  co_Address :: "bytes \<Rightarrow> bytes"
  co_Sum256 :: "bytes \<Rightarrow> bytes"
  co_Marshal :: "doc \<Rightarrow> bytes"
  co_Parse :: "bytes \<Rightarrow> doc"

text \<open>JSON text is read back as the document it was printed from.\<close>

definition cosmos_laws :: "'any cosmos \<Rightarrow> bool" where
  "cosmos_laws C \<longleftrightarrow> (\<forall>d. d \<noteq> None \<longrightarrow> co_Parse C (co_Marshal C d) = d)"

record tm_adapter =
  tm_Prefix :: string
  tm_Denom :: string

definition tm_New :: "string \<Rightarrow> string \<Rightarrow> tm_adapter" where
  "tm_New prefix0 denom = \<lparr>tm_Prefix = (if prefix0 = [] then ''cosmos'' else prefix0),
     tm_Denom = (if denom = [] then ''uatom'' else denom)\<rparr>"

definition tm_Name :: string where "tm_Name = ''tendermint''"
definition tm_Curve :: Curve where "tm_Curve = CurveSecp256k1"

subsection \<open>Keys and addresses\<close>

definition compressPubKey :: "bytes \<Rightarrow> bytes res" where
  "compressPubKey pubKey =
     (if length pubKey = 65 then
        (if hd pubKey \<noteq> 0x04 then Inl ''tendermint: invalid uncompressed key prefix''
         else Inr ((if unat (pubKey ! 64) mod 2 = 0 then 0x02 else 0x03) # take 32 (drop 1 pubKey)))
      else if length pubKey = 33 then Inr pubKey
      else Inl (''tendermint: expected 33 or 65-byte public key, got '' @ nat_dec (length pubKey) @
        '' bytes''))"

definition tm_DeriveAddress :: "'any cosmos \<Rightarrow> tm_adapter \<Rightarrow> bytes \<Rightarrow> string list \<Rightarrow> string res" where
  "tm_DeriveAddress C a pubKey opts =
     (let o_Prefix = ApplyDeriveOpts opts;
          bech_prefix = (if o_Prefix \<noteq> [] then o_Prefix else tm_Prefix a) in
      bind_res (compressPubKey pubKey) (\<lambda>compressed.
        in_ctx ''tendermint: bech32 encode'' (co_ConvertAndEncode C bech_prefix (co_Address C compressed))))"

subsection \<open>The envelope\<close>

record unsignedTxEnvelope =
  ue_BodyBytes :: bytes
  ue_AuthInfoBytes :: bytes
  ue_ChainID :: string
  ue_AccountNumber :: u64
  ue_From :: string
  ue_To :: string
  ue_Value :: string
  ue_Denom :: string
  ue_Memo :: string

definition enc_envelope :: "unsignedTxEnvelope \<Rightarrow> doc" where
  "enc_envelope e = Some (JObj ([(''bodyBytes'', JStr (b64_encode (ue_BodyBytes e))),
     (''authInfoBytes'', JStr (b64_encode (ue_AuthInfoBytes e))), (''chainId'', JStr (ue_ChainID e)),
     (''accountNumber'', JNum (of_nat (unat (ue_AccountNumber e)))), (''from'', JStr (ue_From e)),
     (''to'', JStr (ue_To e)), (''value'', JStr (ue_Value e)), (''denom'', JStr (ue_Denom e))] @
     omitempty ''memo'' (ue_Memo e)))"

definition dec_envelope :: "doc \<Rightarrow> unsignedTxEnvelope res" where
  "dec_envelope = unmarshal (\<lambda>fs.
     bind_res (dec_field dec_bytes ''bodyBytes'' [] fs) (\<lambda>body.
     bind_res (dec_field dec_bytes ''authInfoBytes'' [] fs) (\<lambda>auth.
     bind_res (str_field ''chainId'' [] fs) (\<lambda>chain.
     bind_res (dec_field (dec_uint 64) ''accountNumber'' 0 fs) (\<lambda>account.
     bind_res (str_field ''from'' [] fs) (\<lambda>frm.
     bind_res (str_field ''to'' [] fs) (\<lambda>to.
     bind_res (str_field ''value'' [] fs) (\<lambda>value.
     bind_res (str_field ''denom'' [] fs) (\<lambda>denom.
     bind_res (str_field ''memo'' [] fs) (\<lambda>memo.
       Inr \<lparr>ue_BodyBytes = body, ue_AuthInfoBytes = auth, ue_ChainID = chain,
         ue_AccountNumber = word_of_nat account, ue_From = frm, ue_To = to, ue_Value = value,
         ue_Denom = denom, ue_Memo = memo\<rparr>))))))))))"

definition sign_doc :: "unsignedTxEnvelope \<Rightarrow> SignDoc" where
  "sign_doc e = \<lparr>sd_BodyBytes = ue_BodyBytes e, sd_AuthInfoBytes = ue_AuthInfoBytes e,
     sd_ChainId = ue_ChainID e, sd_AccountNumber = ue_AccountNumber e\<rparr>"

subsection \<open>Building\<close>

definition tm_message :: "'any cosmos \<Rightarrow> TxRequest \<Rightarrow> Coin \<Rightarrow> 'any res may_panic" where
  "tm_message C req coin =
     (let method = (if tq_Method req = [] then ''send'' else tq_Method req); to = tq_To req;
          pack = (\<lambda>m. Return (in_ctx ''tendermint: pack msg'' (co_NewAnyMsg C m))) in
      if method = ''send'' then
        bind_pr (no_err (co_NewCoins C coin)) (\<lambda>coins. pack (MsgSend (tq_From req) (hd to) coins))
      else if method = ''delegate'' then pack (MsgDelegate (tq_From req) (hd to) coin)
      else if method = ''undelegate'' then pack (MsgUndelegate (tq_From req) (hd to) coin)
      else if method = ''redelegate'' then
        (if length to < 2
         then Return (Inl ''tendermint: redelegate requires two addresses in to (src_validator, dst_validator)'')
         else pack (MsgBeginRedelegate (tq_From req) (hd to) (to ! 1) coin))
      else Return (Inl (''tendermint: unknown method '' @ go_quote method @
        '' (supported: send, delegate, undelegate, redelegate)'')))"

definition int_field :: "string \<Rightarrow> string \<Rightarrow> int res" where
  "int_field name s = in_ctx (''tendermint: invalid '' @ name @ '' '' @ go_quote s)
     (in_ctx (''strconv.ParseInt: parsing '' @ go_quote s) (parse_int 64 s))"

definition fee_or_default :: "string \<Rightarrow> string" where
  "fee_or_default fee = (if fee = [] then ''5000'' else fee)"

definition gas_or_default :: "u64 \<Rightarrow> u64" where
  "gas_or_default gas = (if gas = 0 then 200000 else gas)"

definition tm_auth_info :: "'any cosmos \<Rightarrow> TxRequest \<Rightarrow> string \<Rightarrow> bytes res may_panic" where
  "tm_auth_info C req denom =
     bind_pr (Return (in_ctx ''tendermint: compress pubkey'' (compressPubKey (tq_PubKey req)))) (\<lambda>compressed.
     bind_pr (Return (in_ctx ''tendermint: pack pubkey'' (co_NewAnyPubKey C compressed))) (\<lambda>pubKeyAny.
     bind_pr (Return (int_field ''fee'' (fee_or_default (tq_Fee req)))) (\<lambda>feeAmount.
     bind_pr (no_err (co_NewInt64Coin C denom feeAmount)) (\<lambda>feeCoin.
     bind_pr (no_err (co_NewCoins C feeCoin)) (\<lambda>feeCoins.
       Return (in_ctx ''tendermint: marshal auth_info'' (co_MarshalAuthInfo C
         \<lparr>ai_PublicKey = pubKeyAny, ai_Sequence = tq_Sequence req, ai_FeeAmount = feeCoins,
          ai_GasLimit = gas_or_default (tq_Gas req)\<rparr>)))))))"

definition tm_BuildUnsignedTx :: "'any cosmos \<Rightarrow> tm_adapter \<Rightarrow> TxRequest \<Rightarrow> UnsignedTx res may_panic" where
  "tm_BuildUnsignedTx C a req =
     (if tq_To req = [] then Return (Inl ''tendermint: at least one recipient required'')
      else let denom = (if tq_Denom req \<noteq> [] then tq_Denom req else tm_Denom a) in
        bind_pr (Return (int_field ''value'' (tq_Value req))) (\<lambda>amount.
        bind_pr (no_err (co_NewInt64Coin C denom amount)) (\<lambda>coin.
        bind_pr (tm_message C req coin) (\<lambda>msgAny.
        bind_pr (Return (in_ctx ''tendermint: marshal body'' (co_MarshalBody C
          \<lparr>tb_Messages = [msgAny], tb_Memo = tq_Memo req\<rparr>))) (\<lambda>bodyBytes.
        bind_pr (tm_auth_info C req denom) (\<lambda>authInfoBytes.
          let env = \<lparr>ue_BodyBytes = bodyBytes, ue_AuthInfoBytes = authInfoBytes,
                ue_ChainID = tq_ChainID req, ue_AccountNumber = tq_AccountNumber req,
                ue_From = tq_From req, ue_To = hd (tq_To req), ue_Value = tq_Value req,
                ue_Denom = denom, ue_Memo = tq_Memo req\<rparr> in
          bind_pr (Return (in_ctx ''tendermint: marshal sign_doc'' (co_MarshalSignDoc C (sign_doc env))))
            (\<lambda>signDocBytes.
              Return (Inr \<lparr>ut_RawBytes = co_Marshal C (enc_envelope env),
                ut_Hash = co_Sum256 C signDocBytes, ut_To = tq_To req, ut_Value = tq_Value req,
                ut_Data = [], ut_ExtraSignerKeys = []\<rparr>))))))))"

subsection \<open>Hashing, assembling, reading\<close>

definition tm_ExtractSignableBytes :: "'any cosmos \<Rightarrow> bytes \<Rightarrow> bytes res" where
  "tm_ExtractSignableBytes C unsignedTx =
     bind_res (in_ctx ''tendermint: decode envelope'' (dec_envelope (co_Parse C unsignedTx))) (\<lambda>env.
     bind_res (in_ctx ''tendermint: marshal sign_doc'' (co_MarshalSignDoc C (sign_doc env))) (\<lambda>b.
       Inr (co_Sum256 C b)))"

definition tm_AssembleSignedTx :: "'any cosmos \<Rightarrow> bytes \<Rightarrow> Signature \<Rightarrow> bytes res may_panic" where
  "tm_AssembleSignedTx C unsignedTx sig =
     bind_pr (Return (in_ctx ''tendermint: decode envelope'' (dec_envelope (co_Parse C unsignedTx)))) (\<lambda>env.
     bind_pr (no_err (left_pad 32 (nat_bytes (sig_R sig)))) (\<lambda>rBytes.
     bind_pr (no_err (left_pad 32 (nat_bytes (sig_S sig)))) (\<lambda>sBytes.
       Return (in_ctx ''tendermint: marshal tx_raw'' (co_MarshalTxRaw C
         \<lparr>xr_BodyBytes = ue_BodyBytes env, xr_AuthInfoBytes = ue_AuthInfoBytes env,
          xr_Signatures = [rBytes @ sBytes]\<rparr>)))))"

definition tm_DecodeTx :: "'any cosmos \<Rightarrow> bytes \<Rightarrow> DecodedTx res" where
  "tm_DecodeTx C txBytes =
     bind_res (in_ctx ''tendermint: decode tx'' (dec_envelope (co_Parse C txBytes))) (\<lambda>env.
       Inr (empty_decoded\<lparr>dt_From := ue_From env, dt_To := [ue_To env], dt_Value := ue_Value env,
         dt_ChainID := ue_ChainID env\<rparr>))"

definition tendermint_adapter :: "'any cosmos \<Rightarrow> tm_adapter \<Rightarrow> adapter" where
  "tendermint_adapter C a =
     \<lparr>ad_Name = tm_Name, ad_Curve = tm_Curve, ad_DeriveAddress = tm_DeriveAddress C a,
      ad_BuildUnsignedTx = (\<lambda>req. recovered (tm_BuildUnsignedTx C a req)),
      ad_ExtractSignableBytes = tm_ExtractSignableBytes C,
      ad_AssembleSignedTx = (\<lambda>raw sig. recovered (tm_AssembleSignedTx C raw sig)),
      ad_DecodeTx = tm_DecodeTx C\<rparr>"

subsection \<open>What the adapter promises\<close>

lemma unat_u64_less: "unat (w :: u64) < 2 ^ 64"
  using unsigned_less [of w, where ?'a = nat] by simp

lemma dec_enc_envelope [simp]: "dec_envelope (enc_envelope e) = Inr e"
proof -
  have "dec_uint 64 0 (JNum (of_nat (unat (ue_AccountNumber e)))) = Inr (unat (ue_AccountNumber e))"
    by (rule dec_uint_num) (rule unat_u64_less)
  then show ?thesis
    by (simp add: dec_envelope_def enc_envelope_def to_lower_def char_lower_def omitempty_def
        dec_field_append del: dec_uint.simps)
qed

lemma parse_envelope [simp]: "cosmos_laws C \<Longrightarrow> co_Parse C (co_Marshal C (enc_envelope e)) = enc_envelope e"
  by (simp add: cosmos_laws_def enc_envelope_def)

lemma extract_envelope: "cosmos_laws C \<Longrightarrow>
    tm_ExtractSignableBytes C (co_Marshal C (enc_envelope e)) =
      bind_res (in_ctx ''tendermint: marshal sign_doc'' (co_MarshalSignDoc C (sign_doc e))) (\<lambda>b.
        Inr (co_Sum256 C b))"
  by (simp add: tm_ExtractSignableBytes_def)

text \<open>
  A Cosmos transaction hashes the same on both sides: the signable bytes extracted from the raw
  bytes of a transaction the adapter built are its hash, and decoding them gives the sender, the
  first receiver, the amount as it was written and the chain of the request.
\<close>

theorem tm_build_faithful:
  assumes "cosmos_laws C" and "tm_BuildUnsignedTx C a req = Return (Inr u)"
  shows "tm_ExtractSignableBytes C (ut_RawBytes u) = Inr (ut_Hash u) \<and>
    tm_DecodeTx C (ut_RawBytes u) = Inr (empty_decoded\<lparr>dt_From := tq_From req,
      dt_To := [hd (tq_To req)], dt_Value := tq_Value req, dt_ChainID := tq_ChainID req\<rparr>)"
proof -
  obtain env b where "ut_RawBytes u = co_Marshal C (enc_envelope env)"
    "ut_Hash u = co_Sum256 C b" "co_MarshalSignDoc C (sign_doc env) = Inr b"
    "ue_From env = tq_From req" "ue_To env = hd (tq_To req)" "ue_Value env = tq_Value req"
    "ue_ChainID env = tq_ChainID req"
    using assms(2) unfolding tm_BuildUnsignedTx_def
    by (auto simp: res_simps Let_def split: if_splits)
  then show ?thesis using assms(1) by (simp add: extract_envelope tm_DecodeTx_def)
qed

text \<open>
  What Party B is shown of a Cosmos transaction is not what is signed: from any transaction one
  can make another with a receiver, amount and sender of one's choice for the analysis, whose
  signable bytes, and whose assembled transaction, are those of the first.
\<close>

theorem tm_display_not_signed:
  assumes "cosmos_laws C"
  shows "let shown = env\<lparr>ue_From := from', ue_To := to', ue_Value := value'\<rparr> in
    tm_ExtractSignableBytes C (co_Marshal C (enc_envelope shown)) =
      tm_ExtractSignableBytes C (co_Marshal C (enc_envelope env)) \<and>
    tm_AssembleSignedTx C (co_Marshal C (enc_envelope shown)) sig =
      tm_AssembleSignedTx C (co_Marshal C (enc_envelope env)) sig \<and>
    tm_DecodeTx C (co_Marshal C (enc_envelope shown)) = Inr (empty_decoded\<lparr>dt_From := from',
      dt_To := [to'], dt_Value := value', dt_ChainID := ue_ChainID env\<rparr>)"
  using assms by (simp add: extract_envelope tm_DecodeTx_def tm_AssembleSignedTx_def sign_doc_def)

text \<open>A Cosmos signature is \<open>R\<close> and \<open>S\<close> in 32 big-endian bytes each.\<close>

lemma tm_signature_layout:
  assumes "sig_R sig < 2 ^ 256" and "sig_S sig < 2 ^ 256" and "dec_envelope (co_Parse C raw) = Inr env"
  shows "tm_AssembleSignedTx C raw sig = Return (in_ctx ''tendermint: marshal tx_raw'' (co_MarshalTxRaw C
    \<lparr>xr_BodyBytes = ue_BodyBytes env, xr_AuthInfoBytes = ue_AuthInfoBytes env,
     xr_Signatures = [be_put 32 (sig_R sig) @ be_put 32 (sig_S sig)]\<rparr>))"
proof -
  have "sig_R sig < 256 ^ 32" "sig_S sig < 256 ^ 32" using assms(1,2) by simp_all
  then show ?thesis using assms(3) by (simp add: tm_AssembleSignedTx_def left_pad_nat_bytes)
qed

text \<open>A redelegation shows the validator the stake leaves, not the one it goes to.\<close>

lemma redelegate_hides_destination:
  assumes "cosmos_laws C" and "tm_BuildUnsignedTx C a req = Return (Inr u)"
    and "tq_To req = [src, dst]"
  shows "\<exists>d. tm_DecodeTx C (ut_RawBytes u) = Inr d \<and> dt_To d = [src]"
  using tm_build_faithful [OF assms(1,2)] assms(3) by simp

subsection \<open>A small library at which the hypotheses hold\<close>

definition toy_cosmos :: "string cosmos" where
  "toy_cosmos = \<lparr>co_NewAnyMsg = (\<lambda>m. Inr (case m of MsgSend a b c \<Rightarrow> b | _ \<Rightarrow> [])),
     co_NewAnyPubKey = (\<lambda>b. Inr (bytes_str b)),
     co_MarshalBody = (\<lambda>b. Inr (str_bytes (concat (tb_Messages b)))),
     co_MarshalAuthInfo = (\<lambda>a. Inr (str_bytes (ai_PublicKey a))),
     co_MarshalSignDoc = (\<lambda>d. Inr (sd_BodyBytes d @ sd_AuthInfoBytes d)),
     co_MarshalTxRaw = (\<lambda>x. Inr (xr_BodyBytes x @ concat (xr_Signatures x))),
     co_NewInt64Coin = (\<lambda>d a. if a < 0 then Panic else Return \<lparr>cn_Denom = d, cn_Amount = a\<rparr>),
     co_NewCoins = (\<lambda>c. Return [c]), co_ConvertAndEncode = (\<lambda>p b. Inr (p @ hex_encode b)),
     co_Address = take 20, co_Sum256 = take 32, co_Marshal = numbered_print,
     co_Parse = numbered_parse\<rparr>"

lemma toy_cosmos_laws: "cosmos_laws toy_cosmos"
  by (simp add: cosmos_laws_def toy_cosmos_def)

definition tm_sample_request :: TxRequest where
  "tm_sample_request = \<lparr>tq_From = ''alice'', tq_To = [''bob''], tq_Value = ''25'', tq_Data = [],
     tq_DerivationPath = [], tq_Prefix = [], tq_Denom = [], tq_ChainID = ''hub'', tq_AccountNumber = 4,
     tq_Sequence = 0, tq_Fee = [], tq_Gas = 0, tq_Memo = [], tq_PubKey = 2 # replicate 32 9,
     tq_GasLimit = 0, tq_GasPrice = [], tq_Nonce = 0, tq_AutoNonce = False, tq_RpcURL = [],
     tq_Mint = [], tq_Instructions = [], tq_Program = [], tq_Method = [], tq_Args = []\<rparr>"

lemma tm_sample_builds:
  "\<exists>u. tm_BuildUnsignedTx toy_cosmos (tm_New [] []) tm_sample_request = Return (Inr u)"
  by (simp add: tm_BuildUnsignedTx_def tm_sample_request_def toy_cosmos_def tm_message_def
      tm_auth_info_def int_field_def parse_int_def parse_bigint_def parse_dec_def is_digit_def
      digit_val_def fee_or_default_def compressPubKey_def tm_New_def Let_def)

theorem tm_build_faithful_witness:
  "\<exists>u. tm_BuildUnsignedTx toy_cosmos (tm_New [] []) tm_sample_request = Return (Inr u) \<and>
     tm_ExtractSignableBytes toy_cosmos (ut_RawBytes u) = Inr (ut_Hash u)"
  using tm_sample_builds tm_build_faithful [OF toy_cosmos_laws] by blast

theorem tm_display_not_signed_witness:
  "\<exists>env. ue_To env = ''thief'' \<and>
     tm_ExtractSignableBytes toy_cosmos (co_Marshal toy_cosmos (enc_envelope (env\<lparr>ue_To := ''bob''\<rparr>))) =
     tm_ExtractSignableBytes toy_cosmos (co_Marshal toy_cosmos (enc_envelope env))"
proof -
  let ?env = "\<lparr>ue_BodyBytes = [1], ue_AuthInfoBytes = [2], ue_ChainID = ''hub'',
    ue_AccountNumber = 4, ue_From = ''alice'', ue_To = ''thief'', ue_Value = ''25'',
    ue_Denom = ''uatom'', ue_Memo = []\<rparr>"
  show ?thesis
    using tm_display_not_signed [OF toy_cosmos_laws, where env = ?env and from' = "''alice''" and
        to' = "''bob''" and value' = "''25''"]
    by (intro exI [of _ ?env]) (simp add: Let_def)
qed

end
