(* ===== verification/Custody.thy ===== *)
theory Custody
  imports Approval PartyB Evm Tendermint
begin

section \<open>The two parties together (cmd/party-a, cmd/party-b)\<close>

text \<open>
  Both main programs register the same adapters, and what one party sends the other reads. The theorems
  follow a transaction across the wire: what Party B analyses of an honest request, which bytes the
  two signing runs get, and what Party A learns of the outcome.
\<close>

subsection \<open>The registries of the main programs\<close>

definition main_registry :: "'t geth \<Rightarrow> 'r sol \<Rightarrow> solana_env \<Rightarrow> anchor_state \<Rightarrow> 'c cosmos \<Rightarrow> registry" where
  "main_registry G S V st C =
     Register [''118''] (tendermint_adapter C (tm_New [] []))
       (Register [''501''] (solana_adapter S V st)
         (Register [''60''] (evm_adapter G) NewRegistry))"

lemma ForPath_main:
  "ForPath (main_registry G S V st C) path =
     (let c = extractCoinType path in
      if c = ''118'' then Some (tendermint_adapter C (tm_New [] []))
      else if c = ''501'' then Some (solana_adapter S V st)
      else if c = ''60'' then Some (evm_adapter G) else None)"
  by (auto simp: main_registry_def ForPath_def Let_def NewRegistry_def)

subsection \<open>An honest request\<close>

lemma sign_prepare_facts:
  assumes "sign_prepare E out req s = Inr (ad, dk, u, signable)"
  shows "ForPath (pv_registry E) (sg_DerivationPath req) = Some ad"
    and "ad_BuildUnsignedTx ad (tx_request req dk) = Inr u"
    and "ad_ExtractSignableBytes ad (ut_RawBytes u) = Inr signable"
  using assms by (auto simp: sign_prepare_def res_simps split: option.splits)

lemma honest_request_bytes:
  assumes "sign_prepare E out req s = Inr (ad, dk, u, signable)"
    and "an_vmReg A = Some (pv_registry E)"
  shows "decodable A (sign_payload req u signable) = Some (ad, ut_RawBytes u)"
    and "\<not> tampered A (sign_payload req u signable)"
    and "decoded_tx A (sign_payload req u signable) =
      (case ad_DecodeTx ad (ut_RawBytes u) of Inl e \<Rightarrow> None | Inr d \<Rightarrow> Some d)"
proof -
  show dec: "decodable A (sign_payload req u signable) = Some (ad, ut_RawBytes u)"
    using assms(2) sign_prepare_facts(1) [OF assms(1)] by (simp add: decodable_def sign_payload_def)
  show "\<not> tampered A (sign_payload req u signable)"
    unfolding tampered_def dec using sign_prepare_facts(3) [OF assms(1)] by (simp add: sign_payload_def)
  show "decoded_tx A (sign_payload req u signable) =
      (case ad_DecodeTx ad (ut_RawBytes u) of Inl e \<Rightarrow> None | Inr d \<Rightarrow> Some d)"
    by (simp add: decoded_tx_def dec)
qed

text \<open>
  Party B judges the transaction Party A built: an honest request on any chain is never taken for
  tampering by a Party B with the same adapters, and the receivers and the amount it is judged by are
  those of the transaction decoded from the raw bytes, those of the message only where the decoded
  ones are empty.
\<close>

theorem honest_request_judged:
  assumes "sign_prepare E out req s = Inr (ad, dk, u, signable)"
    and "an_vmReg A = Some (pv_registry E)"
    and "ad_DecodeTx ad (ut_RawBytes u) = Inr d"
  shows "\<not> tampered A (sign_payload req u signable) \<and>
    receivers A (sign_payload req u signable) =
      (if dt_To d \<noteq> [] then dt_To d else opt_list (sg_To req)) \<and>
    amount A (sign_payload req u signable) = (if dt_Value d \<noteq> [] then dt_Value d else sg_Value req)"
  using honest_request_bytes [OF assms(1,2)] assms(3)
  by (simp add: receivers_def amount_def effectiveTo_def effectiveValue_def)
    (simp add: sign_payload_def)

text \<open>
  C8. On Ethereum the judgement is exact: the receiver Party B checks is the address of the request, the
  amount is the requested number, and the analyzer approves it only if at most 100 ether move.
\<close>

theorem honest_evm_request_judged:
  assumes "geth_laws G" and "pv_registry E = main_registry G S V st C"
    and "extractCoinType (sg_DerivationPath req) = ''60''"
    and "0 \<le> number_or 1 (sg_ChainID req)"
    and "sign_prepare E out req s = Inr (ad, dk, u, signable)"
    and "A = New cfg (Some (pv_registry E)) wl h parse abi fmt"
  shows "receivers A (sign_payload req u signable) =
      [ge_Hex G (ge_HexToAddress G (hd (opt_list (sg_To req))))] \<and>
    amount A (sign_payload req u signable) = int_dec (number_or 0 (sg_Value req)) \<and>
    (dn_Action (ar_Decision (Analyze A (sign_payload req u signable))) = ActionApprove \<longrightarrow>
       number_or 0 (sg_Value req) \<le> high_value_threshold)"
proof -
  let ?p = "sign_payload req u signable"
  have ad: "ad = evm_adapter G"
    using sign_prepare_facts(1) [OF assms(5)] assms(2,3) by (simp add: ForPath_main)
  have u: "evm_BuildUnsignedTx G (tx_request req dk) = Inr u"
    using sign_prepare_facts(2) [OF assms(5)] by (simp add: ad evm_adapter_def)
  obtain d where d: "evm_DecodeTx G (ut_RawBytes u) = Inr d"
    "dt_To d = [ge_Hex G (ge_HexToAddress G (hd (opt_list (sg_To req))))]"
    "dt_Value d = int_dec (number_or 0 (sg_Value req))"
    using evm_build_facts [OF assms(1) u] assms(4) by (auto simp: tx_request_def)
  have reg: "an_vmReg A = Some (pv_registry E)" by (simp add: assms(6) New_def)
  have "dt_Value d \<noteq> []"
    using d(3) parse_bigint_int_dec [of "number_or 0 (sg_Value req)"] by (auto simp: parse_bigint_def parse_dec_def)
  then have r: "receivers A ?p = [ge_Hex G (ge_HexToAddress G (hd (opt_list (sg_To req))))]"
    and a: "amount A ?p = int_dec (number_or 0 (sg_Value req))" and t: "\<not> tampered A ?p"
    using honest_request_bytes [OF assms(5) reg] d
    by (simp_all add: receivers_def amount_def effectiveTo_def effectiveValue_def ad evm_adapter_def)
  have "number_or 0 (sg_Value req) \<le> high_value_threshold"
    if "dn_Action (ar_Decision (Analyze A ?p)) = ActionApprove"
  proof -
    have "deterministicChecks (receivers A ?p) (amount A ?p) = None"
      using that t deterministicChecks_never_approves by (auto simp: Analyze_eq split: option.splits)
    then show ?thesis using d(3) \<open>dt_Value d \<noteq> []\<close> by (auto simp: deterministicChecks_None a)
  qed
  with r a show ?thesis by blast
qed

subsection \<open>Messages across the wire\<close>

text \<open>
  What Party A's request gets back from a Party B in state \<open>sb\<close>: the handler's reply; where there is
  none, the request runs into its deadline.
\<close>

definition party_b_rpc :: "env \<Rightarrow> inputs \<Rightarrow> service \<Rightarrow> send_receive" where
  "party_b_rpc EB i sb m =
     (case partyb_handler EB i m sb of
        Proceed (Inr (Some r), sb') \<Rightarrow> Inr r
      | _ \<Rightarrow> Inl ''context deadline exceeded'')"

definition ready_message :: "u64 \<Rightarrow> string \<Rightarrow> bytes \<Rightarrow> doc message" where
  "ready_message i txID signable = \<lparr>m_type = MsgSignReady, m_id = i, m_payload = enc_SignReady
     \<lparr>sy_TxID = txID, sy_SignableBytes = b64_encode signable\<rparr>\<rparr>"

lemma handler_ready:
  "partyb_handler EB i (ready_message n txID signable) sb =
     (case HandleSignReady \<lparr>sy_TxID = txID, sy_SignableBytes = b64_encode signable\<rparr> sb of
        Block \<Rightarrow> Block
      | Proceed sb' \<Rightarrow> Proceed (reply MsgSignReady (ready_message n txID signable)
          (Some (JObj [(''ok'', JBool True)])), sb'))"
  by (simp add: partyb_handler_def, simp add: ready_message_def msg_type_defs)

definition ready_answer :: "u64 \<Rightarrow> doc message" where
  "ready_answer n = \<lparr>m_type = MsgSignReady, m_id = n, m_payload = Some (JObj [(''ok'', JBool True)])\<rparr>"

lemma ready_accepted:
  "sb_signReady sb txID = Some [] \<Longrightarrow> partyb_handler EB i (ready_message n txID message) sb =
     Proceed (Inr (Some (ready_answer n)),
       sb\<lparr>sb_signReady := (sb_signReady sb)(txID \<mapsto> [message])\<rparr>)"
  "sb_signReady sb txID = None \<Longrightarrow> partyb_handler EB i (ready_message n txID message) sb =
     Proceed (Inr (Some (ready_answer n)), sb)"
  by (simp_all add: handler_ready HandleSignReady_def reply_def ready_answer_def)
    (simp_all add: ready_message_def)

text \<open>
  What a computation that talks to Party B sends: it sends exactly \<open>msg\<close> when its outcome depends on
  how \<open>msg\<close> is answered and on no other answer. No computation sends exactly two messages.
\<close>

definition sends_exactly :: "(send_receive \<Rightarrow> 'a) \<Rightarrow> doc message \<Rightarrow> bool" where
  "sends_exactly run msg \<longleftrightarrow> (\<forall>rpc rpc'. rpc msg = rpc' msg \<longrightarrow> run rpc = run rpc') \<and>
     (\<exists>rpc rpc'. run rpc \<noteq> run rpc')"

lemma sends_one:
  assumes "sends_exactly run m1" "sends_exactly run m2" shows "m1 = m2"
proof (rule ccontr)
  assume ne: "m1 \<noteq> m2"
  obtain rpc rpc' where d: "run rpc \<noteq> run rpc'" using assms(1) unfolding sends_exactly_def by blast
  let ?mixed = "rpc(m1 := rpc' m1)"
  have "run ?mixed = run rpc'" using assms(1) unfolding sends_exactly_def by (metis fun_upd_same)
  moreover have "run ?mixed = run rpc"
    using assms(2) ne unfolding sends_exactly_def by (metis fun_upd_other)
  ultimately show False using d by simp
qed

lemma runTSSSigning_sends:
  assumes "final_tx E ad raw0 url = Return (Inr raw)" and "ad_ExtractSignableBytes ad raw = Inr signable"
    and "tss \<lparr>sq_DerivationPath = dr_DerivationPath dk, sq_Message = signable, sq_Curve = dr_Curve dk\<rparr>
      (dr_Share dk) pid_a [pid_a, pid_b] = Inr sig" and "assemble E ad raw extra sig = Inr signedTx"
  shows "sends_exactly (\<lambda>rpc. runTSSSigning E rpc tss ad dk raw0 extra url txID s)
    (ready_message (pa_msgCounter s + 1) txID signable)"
proof -
  have run: "runTSSSigning E rpc tss ad dk raw0 extra url txID s =
      (case rpc (ready_message (pa_msgCounter s + 1) txID signable) of
         Inl e \<Rightarrow> (Return (Inl (wrap_err ''send sign-ready to Party B'' e)), s\<lparr>pa_msgCounter := pa_msgCounter s + 1\<rparr>)
       | Inr answer \<Rightarrow> (Return (Inr signedTx), s\<lparr>pa_msgCounter := pa_msgCounter s + 1\<rparr>))" for rpc
    using assms by (simp add: runTSSSigning_def ask_def nextMsgID_def ready_message_def in_ctx_def
        split: sum.split)
  have "runTSSSigning E (\<lambda>m. Inl []) tss ad dk raw0 extra url txID s \<noteq>
      runTSSSigning E (\<lambda>m. Inr m) tss ad dk raw0 extra url txID s"
    by (simp add: run)
  moreover have "\<forall>rpc rpc'. rpc (ready_message (pa_msgCounter s + 1) txID signable) =
      rpc' (ready_message (pa_msgCounter s + 1) txID signable) \<longrightarrow>
      runTSSSigning E rpc tss ad dk raw0 extra url txID s = runTSSSigning E rpc' tss ad dk raw0 extra url txID s"
    by (simp add: run)
  ultimately show ?thesis unfolding sends_exactly_def by blast
qed

text \<open>
  C5. Both parties sign the same bytes. Where Party A's run got through to a signed transaction while Party
  B's goroutine was waiting for the final bytes: there is one message \<open>message\<close>, the signable bytes
  of the transaction as it is assembled, such that Party A gave it to the protocol with its share; the one
  thing Party A sent is a \<open>MsgSignReady\<close> with these bytes; and Party B's handler takes exactly that and
  its goroutine gives the same bytes to the protocol, with the share it holds for the path.
\<close>

theorem both_sign_same_bytes:
  assumes "runTSSSigning E (party_b_rpc EB i sb) tss ad dk raw extra url txID s =
      (Return (Inr signedTx), s')"
    and "sb_tasks sb txID = Some (AtChannel reqB r)" "sb_signReady sb txID = Some []"
    and "GetDerivedKey (en_aead EB) (en_encKey EB) (out StGetDerivedKey) (rq_DerivationPath reqB)
      (sb_db sb) = Inr dkB"
  shows "\<exists>final message sig sb1 sb2 rep.
    final_tx E ad raw url = Return (Inr final) \<and> ad_ExtractSignableBytes ad final = Inr message \<and>
    tss \<lparr>sq_DerivationPath = dr_DerivationPath dk, sq_Message = message, sq_Curve = dr_Curve dk\<rparr>
      (dr_Share dk) pid_a [pid_a, pid_b] = Inr sig \<and> assemble E ad final extra sig = Inr signedTx \<and>
    sends_exactly (\<lambda>rpc. runTSSSigning E rpc tss ad dk raw extra url txID s)
      (ready_message (pa_msgCounter s + 1) txID message) \<and>
    partyb_handler EB i (ready_message (pa_msgCounter s + 1) txID message) sb =
      Proceed (Inr (Some rep), sb1) \<and>
    sign_receive EB out now txID sb1 = Some sb2 \<and>
    sb_tasks sb2 txID = Some (Running reqB r \<lparr>sq_DerivationPath = rq_DerivationPath reqB,
      sq_Message = message, sq_Curve = dr_Curve dkB\<rparr> (dr_Share dkB))"
proof -
  obtain final message sig where m: "final_tx E ad raw url = Return (Inr final)"
    "ad_ExtractSignableBytes ad final = Inr message"
    "tss \<lparr>sq_DerivationPath = dr_DerivationPath dk, sq_Message = message, sq_Curve = dr_Curve dk\<rparr>
      (dr_Share dk) pid_a [pid_a, pid_b] = Inr sig" "assemble E ad final extra sig = Inr signedTx"
    using runTSSSigning_ok [OF assms(1)] by (auto simp: signed_by_both_def)
  define sb1 where "sb1 = sb\<lparr>sb_signReady := (sb_signReady sb)(txID \<mapsto> [message])\<rparr>"
  note ready_accepted(1) [OF assms(3), of EB i "pa_msgCounter s + 1" message, folded sb1_def]
  moreover obtain sb2 where "sign_receive EB out now txID sb1 = Some sb2"
    "sb_tasks sb2 txID = Some (Running reqB r \<lparr>sq_DerivationPath = rq_DerivationPath reqB,
      sq_Message = message, sq_Curve = dr_Curve dkB\<rparr> (dr_Share dkB))"
    by (simp add: sign_receive_def sb1_def assms(2,4))
  ultimately show ?thesis using m runTSSSigning_sends [where tss = tss and dk = dk and sig = sig, OF m] by blast
qed

text \<open>
  Final bytes that come too early are lost: while Party B's signing goroutine has not opened its
  channel, Party A is told ok and the bytes are dropped; the goroutine then finds nothing to read and
  its timeout rejects the approved transaction.
\<close>

theorem early_ready_lost:
  assumes "sb_tasks sb txID = Some (Spawned reqB r)" and "sb_signReady sb txID = None"
    and "select tr_ID txID (db_txs (sb_db sb)) \<noteq> None"
  shows "\<exists>sb1 sb2. party_b_rpc EB i sb (ready_message n txID message) =
      Inr (ready_answer n) \<and>
    partyb_handler EB i (ready_message n txID message) sb = Proceed (Inr (Some (ready_answer n)), sb) \<and>
    sign_register txID sb = Some sb1 \<and> sign_receive EB out now txID sb1 = None \<and>
    sign_timed_out (\<lambda>x. None) now txID sb1 = Some sb2 \<and> tx_status sb2 txID = Some TxStatusRejected"
proof -
  note h = ready_accepted(2) [OF assms(2)]
  define sb1 where "sb1 = sb\<lparr>sb_signReady := (sb_signReady sb)(txID \<mapsto> []),
    sb_tasks := (sb_tasks sb)(txID \<mapsto> AtChannel reqB r)\<rparr>"
  have "sign_register txID sb = Some sb1" by (simp add: sign_register_def assms(1) sb1_def)
  moreover have "sign_receive EB out now txID sb1 = None" by (simp add: sign_receive_def sb1_def)
  moreover have "sign_timed_out (\<lambda>x. None) now txID sb1 =
      Some (sign_failed (\<lambda>x. None) now txID r sb1)"
    by (simp add: sign_timed_out_def sb1_def)
  moreover have "tx_status (sign_failed (\<lambda>x. None) now txID r sb1) txID = Some TxStatusRejected"
  proof -
    have "sb_db (sign_failed (\<lambda>x. None) now txID r sb1) =
        snd (UpdateTxStatus None now txID TxStatusRejected None (sb_db sb))"
      by (simp add: sign_failed_def sign_cleanup_def updateTxStatus_def sb1_def)
    then show ?thesis using assms(3)
      by (auto simp: tx_status_def UpdateTxStatus_def select_update)
  qed
  ultimately show ?thesis by (auto simp: party_b_rpc_def h)
qed

subsection \<open>What Party A learns of an escalated transaction\<close>

lemma party_b_status:
  assumes "in_out i StGetTx = None" "select tr_ID txID (db_txs (sb_db sb)) = Some tx"
  shows "party_b_rpc EB i sb \<lparr>m_type = MsgTxStatusReq, m_id = n, m_payload = string_doc ''txId'' txID\<rparr> =
    Inr \<lparr>m_type = MsgTxStatusResp, m_id = n,
      m_payload = enc_TxStatusResponse (tx_status_payload txID (Inr tx))\<rparr>"
  using assms
  by (simp add: party_b_rpc_def partyb_handler_def msg_type_defs dec_string_field_def string_doc_def
      payload_simps GetTxStatus_def GetTx_def reply_def)

lemma poll_of_row:
  assumes "queue_inv (pa_queue s)" "queue_lookup txID (pa_queue s) = Some p"
    and "pt_Status p = TxStatusPending"
    and "in_out i StGetTx = None" "select tr_ID txID (db_txs (sb_db sb)) = Some tx"
    and "tr_Status tx \<noteq> ''unknown''" "tr_SignedTx tx \<noteq> Some []"
  shows "\<exists>s'. GetSignStatus outa (party_b_rpc EB i sb) txID s =
      (Inr \<lparr>sr_TxID = txID, sr_Status = tr_Status tx, sr_SignedTx = opt_hex0x (tr_SignedTx tx),
         sr_Reason = tr_Reason tx\<rparr>, s') \<and>
    queue_lookup txID (pa_queue s') =
      (if tr_SignedTx tx \<noteq> None \<and> tr_Status tx = TxStatusSigned then None
       else Some (set_status (tr_Status tx) (tr_SignedTx tx) p))"
proof -
  have b: "reply_signedTx (case tr_SignedTx tx of None \<Rightarrow> [] | Some b \<Rightarrow> b64_encode b) = tr_SignedTx tx"
    using assms(7) reply_signedTx_encode
    by (cases "tr_SignedTx tx") (auto simp: reply_signedTx_def)
  let ?s = "s\<lparr>pa_msgCounter := pa_msgCounter s + 1\<rparr>"
  let ?s1 = "update_queue txID (tr_Status tx) (tr_SignedTx tx) ?s"
  let ?r = "\<lparr>sr_TxID = txID, sr_Status = tr_Status tx, sr_SignedTx = opt_hex0x (tr_SignedTx tx),
    sr_Reason = tr_Reason tx\<rparr>"
  let ?s2 = "if tr_SignedTx tx \<noteq> None \<and> tr_Status tx = TxStatusSigned
    then ?s1\<lparr>pa_queue := queue_Delete txID (pa_queue ?s1)\<rparr> else ?s1"
  have look: "queue_lookup txID (pa_queue ?s1) = Some (set_status (tr_Status tx) (tr_SignedTx tx) p)"
    and inv: "queue_inv (pa_queue ?s1)"
    using update_queue_lookup [of ?s] update_queue_inv [of ?s] assms(1,2) by simp_all
  have "queryPartyBTxStatus (party_b_rpc EB i sb) txID s = (Some ?r, ?s2)"
    by (simp only: queryPartyBTxStatus_def ask_def nextMsgID_def Let_def prod.case
        party_b_status [OF assms(4,5)] status_reply_def sum.case message.select_convs
        dec_enc_TxStatusResponse tx_status_payload_def TxStatusResponsePayload.select_convs b
        assms(6) if_False)
  moreover obtain a where "queue_Get txID (pa_queue s) = Some a"
    "pt_Status (eq_heap (pa_queue s) a) = TxStatusPending"
    using assms(2,3) by (auto simp: queue_Get_def queue_lookup_def)
  ultimately have "GetSignStatus outa (party_b_rpc EB i sb) txID s = (Inr ?r, ?s2)"
    by (simp only: GetSignStatus_def option.case simp_thms if_True Let_def prod.case)
  moreover have "queue_lookup txID (pa_queue ?s2) =
      (if tr_SignedTx tx \<noteq> None \<and> tr_Status tx = TxStatusSigned then None
       else Some (set_status (tr_Status tx) (tr_SignedTx tx) p))"
  proof -
    have "pa_queue (?s1\<lparr>pa_queue := q\<rparr>) = q" for q by simp
    then show ?thesis
      by (simp only: if_distrib [of "\<lambda>s. queue_lookup txID (pa_queue s)"] look queue.lookup_del [OF inv]
          simp_thms if_True)
  qed
  ultimately show ?thesis by blast
qed

text \<open>
  A poll reports Party B's verdict: while Party A's entry is pending, the status of a transaction
  Party B knows is answered with Party B's status and reason, and Party A's entry takes that status,
  or is removed when it is signed.
\<close>

theorem poll_reports_party_b:
  assumes "queue_inv (pa_queue s)" "queue_lookup txID (pa_queue s) = Some p"
    and "pt_Status p = TxStatusPending"
    and "in_out i StGetTx = None" "select tr_ID txID (db_txs (sb_db sb)) = Some tx"
    and "tr_Status tx \<noteq> ''unknown''" "tr_SignedTx tx \<noteq> Some []"
  shows "\<exists>s'. GetSignStatus outa (party_b_rpc EB i sb) txID s =
      (Inr \<lparr>sr_TxID = txID, sr_Status = tr_Status tx, sr_SignedTx = opt_hex0x (tr_SignedTx tx),
         sr_Reason = tr_Reason tx\<rparr>, s') \<and>
    queue_lookup txID (pa_queue s') =
      (if tr_SignedTx tx \<noteq> None \<and> tr_Status tx = TxStatusSigned then None
       else Some (set_status (tr_Status tx) (tr_SignedTx tx) p))"
  using assms by (rule poll_of_row)

text \<open>
  A poll that overtakes the approval gets the wrong bytes: once Party B's half of the signing has
  ended and Party A's entry is still pending, the poll answers signed with the JSON text of the
  bare signature in place of the signed transaction, and drops the entry.
\<close>

theorem poll_serves_bare_signature:
  assumes "queue_inv (pa_queue s)" "queue_lookup txID (pa_queue s) = Some p"
    and "pt_Status p = TxStatusPending" and "in_out i = (\<lambda>x. None)"
    and "sign_done EB (\<lambda>x. None) now txID (Inr sig) sb = Some sb'"
    and "select tr_ID txID (db_txs (sb_db sb)) \<noteq> None" "en_marshal EB (enc_Signature sig) \<noteq> []"
  shows "\<exists>r s'. GetSignStatus outa (party_b_rpc EB i sb') txID s = (Inr r, s') \<and>
    sr_Status r = ''signed'' \<and>
    sr_SignedTx r = hex0x (str_bytes (en_marshal EB (enc_Signature sig))) \<and>
    queue_lookup txID (pa_queue s') = None"
proof -
  let ?json = "str_bytes (en_marshal EB (enc_Signature sig))"
  have "sb_db sb' = snd (UpdateTxStatus None now txID TxStatusSigned (Some ?json) (sb_db sb))"
    using assms(5) by (auto simp: sign_done_def sign_cleanup_def split: option.splits task.splits)
  then obtain tx where tx: "select tr_ID txID (db_txs (sb_db sb')) = Some tx"
    "tr_Status tx = TxStatusSigned" "tr_SignedTx tx = Some ?json"
    using assms(6) by (auto simp: UpdateTxStatus_def select_update)
  have "?json \<noteq> []" using assms(7) by (simp add: str_bytes_def)
  with poll_of_row [OF assms(1-3) _ tx(1), of i outa EB] assms(4) tx(2,3) show ?thesis
    by (auto simp: tx_status_defs opt_hex0x_def)
qed

subsection \<open>Two desks at which the hypotheses hold\<close>

theorem honest_request_judged_witness:
  "receivers (sample_analyzer\<lparr>an_vmReg := Some (pv_registry desk_env)\<rparr>)
     (sign_payload desk_request desk_tx [1]) = [''0xab'']"
proof -
  have "ad_DecodeTx desk_adapter (ut_RawBytes desk_tx) =
      Inr (empty_decoded\<lparr>dt_To := [''0xab''], dt_Value := ''5''\<rparr>)"
    by (simp add: desk_adapter_def echo_adapter_def desk_tx_def)
  from honest_request_judged [OF desk_prepare _ this,
      of "sample_analyzer\<lparr>an_vmReg := Some (pv_registry desk_env)\<rparr>"]
  show ?thesis by simp
qed

definition demo_inputs :: inputs where
  "demo_inputs = \<lparr>in_analyzer = sample_analyzer, in_api = (\<lambda>c. None), in_out = (\<lambda>x. None),
     in_now = 1, in_txID = ''t1'', in_nonce = Inr (replicate 12 0)\<rparr>"

lemma demo_open_facts:
  "sb_tasks demo_open ''t1'' = Some (AtChannel demo_request 0)" "sb_signReady demo_open ''t1'' = Some []"
  "GetDerivedKey (en_aead demo_env) (en_encKey demo_env) None (rq_DerivationPath demo_request)
     (sb_db demo_open) = Inr desk_key"
  by (simp_all add: demo_open_def GetDerivedKey_def demo_spawned_facts demo_db_def select_def
      demo_env_def decrypt_def toy_aead_def NonceSize_def sample_request_def desk_key_def numeral_eq_Suc)

lemma desk_signs_with_demo:
  "runTSSSigning desk_env (party_b_rpc demo_env demo_inputs demo_open) desk_tss desk_adapter desk_key
     [1] [] [] ''t1'' desk_queued = (Return (Inr [1, 5]), snd (nextMsgID desk_queued))"
proof -
  have "party_b_rpc demo_env demo_inputs demo_open (ready_message n ''t1'' m) = Inr (ready_answer n)" for n m
    by (simp add: party_b_rpc_def ready_accepted demo_open_facts)
  then show ?thesis
    by (simp add: runTSSSigning_def final_tx_def desk_adapter_def echo_adapter_def dummy_adapter_def
        ask_def ready_message_def desk_tss_def assemble_def in_ctx_def del: b64_encode.simps
        split: prod.splits)
qed

theorem both_sign_same_bytes_witness:
  "\<exists>message sb1 sb2 rep. partyb_handler demo_env demo_inputs
      (ready_message (pa_msgCounter desk_queued + 1) ''t1'' message) demo_open =
      Proceed (Inr (Some rep), sb1) \<and>
    sign_receive demo_env (\<lambda>x. None) 2 ''t1'' sb1 = Some sb2 \<and> sb_tasks sb2 ''t1'' \<noteq> None"
proof -
  have "GetDerivedKey (en_aead demo_env) (en_encKey demo_env) ((\<lambda>x. None) StGetDerivedKey)
      (rq_DerivationPath demo_request) (sb_db demo_open) = Inr desk_key"
    using demo_open_facts(3) by simp
  from both_sign_same_bytes [OF desk_signs_with_demo demo_open_facts(1,2) this] show ?thesis by force
qed

lemma demo_spawned_row:
  "\<exists>tx. select tr_ID ''t1'' (db_txs (sb_db demo_spawned)) = Some tx \<and> tr_Status tx = TxStatusApproved \<and>
     tr_SignedTx tx = None"
  by (simp add: demo_spawned_def startSigning_def demo_env_def Let_def updateTxStatus_def
      demo_saved_def save_request_def demo_service_def SaveTx_def UpdateTxStatus_def tx_record_def
      demo_db_def select_def update_def)

theorem early_ready_lost_witness:
  "\<exists>sb1 sb2. sign_register ''t1'' demo_spawned = Some sb1 \<and>
     sign_timed_out (\<lambda>x. None) 2 ''t1'' sb1 = Some sb2 \<and> tx_status sb2 ''t1'' = Some TxStatusRejected"
proof -
  have "sb_tasks demo_spawned ''t1'' = Some (Spawned demo_request 0)" "sb_signReady demo_spawned ''t1'' = None"
    "select tr_ID ''t1'' (db_txs (sb_db demo_spawned)) \<noteq> None"
    using demo_spawned_row by (auto simp: demo_spawned_facts)
  from early_ready_lost [OF this, where now = 2]
  show ?thesis by blast
qed

theorem poll_reports_party_b_witness:
  "\<exists>r s'. GetSignStatus no_fault (party_b_rpc demo_env demo_inputs demo_spawned) ''t1'' desk_queued =
     (Inr r, s') \<and> sr_Status r = ''approved''"
proof -
  obtain tx where tx: "select tr_ID ''t1'' (db_txs (sb_db demo_spawned)) = Some tx"
    "tr_Status tx = TxStatusApproved" "tr_SignedTx tx = None"
    using demo_spawned_row by blast
  have "pt_Status desk_pending = TxStatusPending" "in_out demo_inputs StGetTx = None"
    by (simp_all add: desk_pending_def demo_inputs_def)
  from poll_reports_party_b [OF desk_queued_facts(2,1) this tx(1), where outa = no_fault and EB = demo_env]
  show ?thesis using tx(2,3) by (auto simp: TxStatusApproved_def)
qed

definition json_env :: env where "json_env = demo_env\<lparr>en_marshal := (\<lambda>d. ''{}'')\<rparr>"

theorem poll_serves_bare_signature_witness:
  "\<exists>sb' r. sign_done json_env (\<lambda>x. None) 3 ''t1'' (Inr \<lparr>sig_R = 1, sig_S = 2, sig_V = 0, sig_Bytes = []\<rparr>)
       (demo_running [9]) = Some sb' \<and>
     fst (GetSignStatus no_fault (party_b_rpc json_env demo_inputs sb') ''t1'' desk_queued) = Inr r \<and>
     sr_SignedTx r = hex0x (str_bytes ''{}'')"
proof -
  let ?sig = "\<lparr>sig_R = 1, sig_S = 2, sig_V = 0, sig_Bytes = []\<rparr> :: Signature"
  obtain sb' where sb': "sign_done json_env (\<lambda>x. None) 3 ''t1'' (Inr ?sig) (demo_running [9]) = Some sb'"
    by (simp add: sign_done_def demo_running_def)
  have row: "select tr_ID ''t1'' (db_txs (sb_db (demo_running [9]))) \<noteq> None"
    using demo_spawned_row by (auto simp: demo_running_def demo_ready_def demo_open_def)
  have "pt_Status desk_pending = TxStatusPending" "in_out demo_inputs = (\<lambda>x. None)"
    "en_marshal json_env (enc_Signature ?sig) = ''{}''"
    by (simp_all add: desk_pending_def demo_inputs_def json_env_def)
  with poll_serves_bare_signature [OF desk_queued_facts(2,1) _ _ sb' row, where i = demo_inputs and outa = no_fault]
  obtain r s' where "GetSignStatus no_fault (party_b_rpc json_env demo_inputs sb') ''t1'' desk_queued =
      (Inr r, s')" "sr_SignedTx r = hex0x (str_bytes ''{}'')"
    by auto
  then show ?thesis using sb' by auto
qed

definition evm_desk :: "unit aenv" where
  "evm_desk = desk_env\<lparr>pv_registry :=
     main_registry toy_geth toy_sol sample_env \<lparr>as_idls = Map.empty, as_accounts = Map.empty\<rparr> toy_cosmos\<rparr>"

definition evm_desk_request :: TxSignRequest where
  "evm_desk_request = desk_request\<lparr>sg_To := Some [''0x01''], sg_Value := ''7'', sg_ChainID := ''5'',
     sg_Nonce := 3\<rparr>"

lemma evm_desk_prepare:
  "\<exists>u signable. sign_prepare evm_desk no_fault evm_desk_request (partya_New desk_db) =
     Inr (evm_adapter toy_geth, desk_key, u, signable)"
proof -
  have path: "sg_DerivationPath evm_desk_request = ''m/44/60/0/0/0''"
    by (simp add: evm_desk_request_def desk_request_def)
  have ad: "ForPath (pv_registry evm_desk) ''m/44/60/0/0/0'' = Some (evm_adapter toy_geth)"
    by (simp add: evm_desk_def ForPath_main sample_path)
  have key: "GetDerivedKey (pv_aead evm_desk) (pv_encKey evm_desk) None ''m/44/60/0/0/0'' desk_db =
      Inr desk_key"
    using desk_GetDerivedKey [of desk_db] by (simp add: evm_desk_def)
  have b: "evm_BuildUnsignedTx toy_geth (tx_request evm_desk_request desk_key) =
      evm_BuildUnsignedTx toy_geth evm_sample_request"
    by (simp add: evm_BuildUnsignedTx_def tx_request_def evm_desk_request_def desk_request_def
        evm_sample_request_def opt_list_def legacy_tx_def)
  obtain u where u: "evm_BuildUnsignedTx toy_geth (tx_request evm_desk_request desk_key) = Inr u"
    unfolding b evm_sample_build by blast
  have "0 \<le> number_or 1 (tq_ChainID (tx_request evm_desk_request desk_key))"
    by (simp add: number_or_def tx_request_def evm_desk_request_def parse_bigint_def parse_dec_def is_digit_def)
  with evm_build_facts [OF toy_geth_laws u]
  have "evm_ExtractSignableBytes toy_geth (ut_RawBytes u) = Inr (ut_Hash u)" by blast
  then show ?thesis
    using u by (simp add: sign_prepare_def path ad key in_ctx_def evm_adapter_def partya_New_def)
qed

theorem honest_evm_request_judged_witness:
  "\<exists>u signable. amount (New sample_config (Some (pv_registry evm_desk)) None (\<lambda>r. Inl ''offline'')
     (\<lambda>s. None) (\<lambda>a d. Inl ''no abi'') (\<lambda>v. [])) (sign_payload evm_desk_request u signable) = int_dec 7"
proof -
  obtain u signable where p: "sign_prepare evm_desk no_fault evm_desk_request (partya_New desk_db) =
     Inr (evm_adapter toy_geth, desk_key, u, signable)"
    using evm_desk_prepare by blast
  have "pv_registry evm_desk = main_registry toy_geth toy_sol sample_env
      \<lparr>as_idls = Map.empty, as_accounts = Map.empty\<rparr> toy_cosmos"
    "extractCoinType (sg_DerivationPath evm_desk_request) = ''60''"
    "0 \<le> number_or 1 (sg_ChainID evm_desk_request)"
    by (simp_all add: evm_desk_def evm_desk_request_def desk_request_def sample_path number_or_def
        parse_bigint_def parse_dec_def is_digit_def)
  from honest_evm_request_judged [OF toy_geth_laws this p refl]
  have "amount (New sample_config (Some (pv_registry evm_desk)) None (\<lambda>r. Inl ''offline'')
      (\<lambda>s. None) (\<lambda>a d. Inl ''no abi'') (\<lambda>v. [])) (sign_payload evm_desk_request u signable) =
      int_dec (number_or 0 (sg_Value evm_desk_request))" by blast
  moreover have "number_or 0 (sg_Value evm_desk_request) = 7"
    by (simp add: evm_desk_request_def number_or_def parse_bigint_def parse_dec_def is_digit_def
        digit_val_def)
  ultimately show ?thesis by metis
qed

end
