(* ===== verification/Startup.thy ===== *)
theory Startup
  imports Deploy Custody
begin

section \<open>Starting the three programs\<close>

text \<open>
  \<open>cmd/party-a/main.go\<close>, \<open>cmd/party-b/main.go\<close> and \<open>cmd/installer/main.go\<close> up to the point where they serve:
  what they read, in which order, and with which message they exit. What the operating system, the
  database, the certificates and the network answer are arguments. The properties at the end say that
  a party started on the configuration the installer made for it runs with the wizard's choices.
\<close>

subsection \<open>The store\<close>

text \<open>The outcomes of opening the pool, of the ping and of the schema's migration.\<close>

record db_open =
  do_New :: "err option"
  do_Ping :: "err option"
  do_Migrate :: "err option"

definition step_ok :: "string \<Rightarrow> err option \<Rightarrow> unit res" where
  "step_ok msg e = (case e of None \<Rightarrow> Inr () | Some m \<Rightarrow> Inl (wrap_err msg m))"

text \<open>The store is its encryption key; the database is an argument of its operations.\<close>

definition NewPostgresStore :: "(string \<Rightarrow> db_open) \<Rightarrow> (string \<Rightarrow> bytes) \<Rightarrow> string \<Rightarrow> string \<Rightarrow> bytes res" where
  "NewPostgresStore opened derive dsn passphrase =
     bind_res (step_ok ''connect to postgres'' (do_New (opened dsn))) (\<lambda>_.
     bind_res (step_ok ''ping postgres'' (do_Ping (opened dsn))) (\<lambda>_.
     bind_res (step_ok ''migrate schema'' (do_Migrate (opened dsn))) (\<lambda>_.
       Inr (derive passphrase))))"

subsection \<open>The parties\<close>

record ('t, 'p) machine =
  mc_files :: files
  mc_parse :: "bytes \<Rightarrow> doc"
  mc_open :: "string \<Rightarrow> db_open"
  mc_derive :: "string \<Rightarrow> bytes"
  mc_loadPair :: "string \<Rightarrow> string \<Rightarrow> 't res"
  mc_pool :: "bytes \<Rightarrow> 'p option"

definition load_tls :: "('t, 'p) machine \<Rightarrow> TransportConfig \<Rightarrow> ('t, 'p) tls_config res" where
  "load_tls M t = LoadCerts (mc_loadPair M) (ReadFile (mc_files M)) (mc_pool M) (tp_CertFile t) (tp_KeyFile t)
     (tp_CACertFile t)"

definition wrong_party :: "string \<Rightarrow> string \<Rightarrow> err" where
  "wrong_party want got = ''config party must be '' @ sql_name want @ '', got '' @ sql_name got"

text \<open>What both programs do first: the configuration, whose it is, and the store.\<close>

definition load_party :: "('t, 'p) machine \<Rightarrow> string \<Rightarrow> string \<Rightarrow> string \<Rightarrow> (Config \<times> bytes) res" where
  "load_party M party path passphrase =
     bind_res (in_ctx ''failed to load config'' (Load (mc_parse M) (mc_files M) path)) (\<lambda>cfg.
     if cf_Party cfg \<noteq> party then Inl (wrong_party party (cf_Party cfg))
     else bind_res (in_ctx ''failed to init store''
       (NewPostgresStore (mc_open M) (mc_derive M) (DSN (cf_Database cfg)) passphrase)) (\<lambda>key.
       Inr (cfg, key)))"

record ('t, 'p) running_a =
  ra_cfg :: Config
  ra_encKey :: bytes
  ra_tls :: "('t, 'p) tls_config"
  ra_dial :: string
  ra_listen :: string

text \<open>\<open>connect\<close> is what \<open>Connect\<close> gives for an address; it retries until it is connected or told to stop.\<close>

definition party_a_main :: "('t, 'p) machine \<Rightarrow> (string \<Rightarrow> err option) \<Rightarrow> string \<Rightarrow> string \<Rightarrow>
    ('t, 'p) running_a res" where
  "party_a_main M connect path passphrase =
     bind_res (load_party M ''a'' path passphrase) (\<lambda>(cfg, key).
     bind_res (in_ctx ''failed to load TLS certs'' (load_tls M (cf_Transport cfg))) (\<lambda>tls.
     bind_res (step_ok ''failed to connect to Party B'' (connect (tp_RemoteAddr (cf_Transport cfg)))) (\<lambda>_.
       Inr \<lparr>ra_cfg = cfg, ra_encKey = key, ra_tls = tls, ra_dial = tp_RemoteAddr (cf_Transport cfg),
         ra_listen = ap_ListenAddr (cf_API cfg)\<rparr>)))"

record ('t, 'p) running_b =
  rb_cfg :: Config
  rb_encKey :: bytes
  rb_service :: service
  rb_analyzer :: analyzer
  rb_tls :: "('t, 'p) tls_config"
  rb_listen :: string

text \<open>The analyzer of \<open>New\<close> with the registry; its whitelist is the service's store.\<close>

record b_env =
  be_registry :: registry
  be_http :: http
  be_parse :: "string \<Rightarrow> doc"
  be_abi :: "string \<Rightarrow> string \<Rightarrow> DecodedCall res"
  be_fmt :: "int \<Rightarrow> string"
  be_out :: outcomes
  be_now :: int
  be_bot :: "err option"
  be_listen :: "string \<Rightarrow> err option"

definition party_b_analyzer_of :: "b_env \<Rightarrow> AnalyzerConfig \<Rightarrow> analyzer" where
  "party_b_analyzer_of V cfg =
     New cfg (Some (be_registry V)) None (be_http V) (be_parse V) (be_abi V) (be_fmt V)"

definition party_b_main :: "('t, 'p) machine \<Rightarrow> b_env \<Rightarrow> db \<Rightarrow> string \<Rightarrow> string \<Rightarrow> ('t, 'p) running_b res" where
  "party_b_main M V d path passphrase =
     bind_res (load_party M ''b'' path passphrase) (\<lambda>(cfg, key).
     bind_res (in_ctx ''failed to init Party B service''
       (partyb_New (be_bot V) (be_out V) (be_now V) (cf_Telegram cfg) (cf_Analyzer cfg) d)) (\<lambda>svc.
     bind_res (in_ctx ''failed to load TLS certs'' (load_tls M (cf_Transport cfg))) (\<lambda>tls.
     bind_res (step_ok ''failed to start transport server'' (be_listen V (tp_ListenAddr (cf_Transport cfg)))) (\<lambda>_.
       Inr \<lparr>rb_cfg = cfg, rb_encKey = key, rb_service = svc,
         rb_analyzer = party_b_analyzer_of V (cf_Analyzer cfg), rb_tls = tls,
         rb_listen = tp_ListenAddr (cf_Transport cfg)\<rparr>))))"

subsection \<open>The installer's server\<close>

text \<open>\<open>taken p\<close>: something answers on port \<open>p\<close>; \<open>listen p\<close> is the error of listening there.\<close>

definition portInUse :: "(int \<Rightarrow> err option) \<Rightarrow> int \<Rightarrow> bool" where
  "portInUse dial p \<longleftrightarrow> dial p = None"

definition candidate_ports :: "int \<Rightarrow> int list" where
  "candidate_ports preferred = preferred # map (\<lambda>k. preferred + 1 + int k) [0..<19]"

fun try_ports :: "(int \<Rightarrow> err option) \<Rightarrow> (int \<Rightarrow> err option) \<Rightarrow> int list \<Rightarrow> int option" where
  "try_ports dial listen [] = None"
| "try_ports dial listen (p # ps) =
     (if portInUse dial p then try_ports dial listen ps
      else (case listen p of None \<Rightarrow> Some p | Some e \<Rightarrow> try_ports dial listen ps))"

text \<open>Port 0 asks the system for a port, which \<open>any\<close> gives.\<close>

definition findAvailableListener :: "(int \<Rightarrow> err option) \<Rightarrow> (int \<Rightarrow> err option) \<Rightarrow> int res \<Rightarrow> int \<Rightarrow> int res" where
  "findAvailableListener dial listen any preferred =
     (case try_ports dial listen (candidate_ports preferred) of
        Some p \<Rightarrow> Inr p
      | None \<Rightarrow> in_ctx ''cannot find available port'' any)"

definition openBrowser :: "string \<Rightarrow> string \<Rightarrow> string list option" where
  "openBrowser os url =
     (if os = ''darwin'' then Some [''open'', url]
      else if os = ''linux'' then Some [''xdg-open'', url]
      else if os = ''windows'' then Some [''rundll32'', ''url.dll,FileProtocolHandler'', url]
      else None)"

text \<open>A response with its headers; a handler writes into the headers that are there.\<close>

record page =
  pg_Status :: nat
  pg_Headers :: "(string \<times> string) list"
  pg_Body :: doc

definition cors_headers :: "(string \<times> string) list" where
  "cors_headers = [(''Access-Control-Allow-Origin'', ''*''),
     (''Access-Control-Allow-Methods'', ''GET, POST, OPTIONS''),
     (''Access-Control-Allow-Headers'', ''Content-Type'')]"

definition corsMiddleware :: "(string \<Rightarrow> http_response) \<Rightarrow> string \<Rightarrow> page" where
  "corsMiddleware handler req_method =
     (if req_method = ''OPTIONS'' then \<lparr>pg_Status = 204, pg_Headers = cors_headers, pg_Body = None\<rparr>
      else let r = handler req_method in
        \<lparr>pg_Status = hp_Status r, pg_Headers = cors_headers, pg_Body = hp_Body r\<rparr>)"

datatype endpoint =
  EpServersTest | EpServersSave | EpLLMSave | EpLLMTest | EpLLMSkip | EpTelegramSave | EpTelegramVerify
| EpPrepare | EpRestore | EpExport | EpSweep | EpSweepToken | EpTokenAccounts | EpDeploy | EpUpdate
| EpDeployLogs | EpState | EpPreflight | EpLocalhostSetup | EpSSHKeyUpload

definition registerAPIRoutes :: "(string \<times> endpoint) list" where
  "registerAPIRoutes = [
     (''POST /api/servers/test'', EpServersTest), (''POST /api/servers/save'', EpServersSave),
     (''POST /api/llm/save'', EpLLMSave), (''POST /api/llm/test'', EpLLMTest), (''POST /api/llm/skip'', EpLLMSkip),
     (''POST /api/telegram/save'', EpTelegramSave), (''POST /api/telegram/verify'', EpTelegramVerify),
     (''POST /api/install/prepare'', EpPrepare), (''POST /api/install/restore'', EpRestore),
     (''POST /api/install/export'', EpExport), (''POST /api/install/sweep'', EpSweep),
     (''POST /api/install/sweep-token'', EpSweepToken), (''POST /api/install/token-accounts'', EpTokenAccounts),
     (''POST /api/deploy'', EpDeploy), (''POST /api/update'', EpUpdate),
     (''GET /api/deploy/logs'', EpDeployLogs), (''GET /api/state'', EpState),
     (''GET /api/preflight'', EpPreflight), (''POST /api/localhost/setup'', EpLocalhostSetup),
     (''POST /api/ssh-key/upload'', EpSSHKeyUpload)]"

text \<open>
  The built-in pages: \<open>built\<close> are the files and directories of the interface, if it was built. \<open>Served f\<close> is the file
  server's answer for a path, which for \<open>/\<close> is the start page.
\<close>

datatype answer_page = Served string | Fallback | NotFound

definition fallbackHandler :: "string \<Rightarrow> answer_page" where
  "fallbackHandler path = (if path \<noteq> ''/'' \<and> path \<noteq> ''/index.html'' then NotFound else Fallback)"

definition frontendHandler :: "string set option \<Rightarrow> string \<Rightarrow> answer_page" where
  "frontendHandler built path =
     (case built of
        None \<Rightarrow> fallbackHandler path
      | Some fs \<Rightarrow>
          if ''index.html'' \<notin> fs then fallbackHandler path
          else if path = ''/'' then Served ''/''
          else if drop 1 path \<notin> fs then Served ''/''
          else Served path)"

subsection \<open>Which port the wizard serves\<close>

lemma try_ports_some:
  "try_ports dial listen ps = Some p \<Longrightarrow>
     \<exists>i < length ps. ps ! i = p \<and> dial p \<noteq> None \<and> listen p = None \<and>
       (\<forall>j < i. dial (ps ! j) = None \<or> listen (ps ! j) \<noteq> None)"
proof (induction ps)
  case (Cons q ps)
  show ?case
  proof (cases "dial q \<noteq> None \<and> listen q = None")
    case True
    with Cons.prems have "p = q" by (simp add: portInUse_def)
    with True show ?thesis by (intro exI [of _ 0]) simp
  next
    case False
    with Cons.prems have "try_ports dial listen ps = Some p"
      by (auto simp: portInUse_def split: if_splits option.splits)
    from Cons.IH [OF this] obtain i where i: "i < length ps" "ps ! i = p" "dial p \<noteq> None" "listen p = None"
      "\<forall>j < i. dial (ps ! j) = None \<or> listen (ps ! j) \<noteq> None" by blast
    have "dial ((q # ps) ! j) = None \<or> listen ((q # ps) ! j) \<noteq> None" if "j < Suc i" for j
      using that i(5) False by (cases j) auto
    with i show ?thesis by (intro exI [of _ "Suc i"]) simp
  qed
qed simp

lemma try_ports_none:
  "try_ports dial listen ps = None \<longleftrightarrow> (\<forall>p \<in> set ps. dial p = None \<or> listen p \<noteq> None)"
  by (induction ps) (auto simp: portInUse_def split: option.split)

lemma candidate_ports_nth: "i < 20 \<Longrightarrow> candidate_ports preferred ! i = preferred + int i"
  by (cases i) (simp_all add: candidate_ports_def)

text \<open>The first free port of twenty from the preferred one on is taken.\<close>

lemma findAvailableListener_first:
  assumes "i < 20" and "dial (preferred + int i) \<noteq> None" and "listen (preferred + int i) = None"
    and "\<And>j. j < i \<Longrightarrow> dial (preferred + int j) = None \<or> listen (preferred + int j) \<noteq> None"
  shows "findAvailableListener dial listen any preferred = Inr (preferred + int i)"
proof -
  let ?ps = "candidate_ports preferred"
  have len: "length ?ps = 20" by (simp add: candidate_ports_def)
  have "preferred + int i \<in> set ?ps"
    using assms(1) len by (metis candidate_ports_nth nth_mem)
  then obtain p where p: "try_ports dial listen ?ps = Some p"
    using assms(2,3) try_ports_none [of dial listen ?ps] by (cases "try_ports dial listen ?ps") auto
  from try_ports_some [OF p] obtain k where k: "k < 20" "?ps ! k = p" "dial p \<noteq> None" "listen p = None"
    "\<forall>j < k. dial (?ps ! j) = None \<or> listen (?ps ! j) \<noteq> None" by (auto simp: len)
  have "\<not> k < i" using assms(4) [of k] k by (auto simp: candidate_ports_nth)
  moreover have "\<not> i < k" using k(1,5) assms(1,2,3) by (auto simp: candidate_ports_nth)
  ultimately have "k = i" by simp
  then show ?thesis using p k by (simp add: findAvailableListener_def candidate_ports_nth)
qed

subsection \<open>A deployed party runs with the wizard's choices\<close>

lemma wf_base_config [simp]: "wf_config (base_config party dir host)"
  by (simp add: wf_config_def base_config_def party_database_def fits64_def no_telegram_def no_analyzer_def)

lemma wf_party_config:
  "wf_config (buildPartyConfig s party dir)" "wf_config (buildLocalDockerConfig s party)"
proof -
  have b: "fits64 (db_Port (cf_Database (base_config party d h)))" for d h
    by (simp add: base_config_def party_database_def fits64_def)
  show "wf_config (buildPartyConfig s party dir)" "wf_config (buildLocalDockerConfig s party)"
    using b wf_base_config [of party dir "''127.0.0.1''"] wf_base_config [of party remoteConfigDir docker_host]
    by (auto simp: wf_config_def buildPartyConfig_def buildLocalDockerConfig_def Let_def fits64_def
        party_b_telegram_def party_b_analyzer_def five_minutes_def no_analyzer_def)
qed

text \<open>The configurations that a deployment writes or uploads for a party.\<close>

definition installed_config :: "'p WizardState \<Rightarrow> string \<Rightarrow> Config \<Rightarrow> bool" where
  "installed_config s party cfg \<longleftrightarrow> cfg = buildLocalDockerConfig s party \<or>
     (\<exists>d dir osType. cfg = remote_config (buildPartyConfig s party d) dir osType)"

lemma wf_remote_config [simp]: "wf_config (remote_config cfg dir osType) = wf_config cfg"
  by (auto simp: wf_config_def remote_config_def Let_def)

lemma installed_wf: "installed_config s party cfg \<Longrightarrow> wf_config cfg"
  using wf_party_config by (auto simp: installed_config_def)

lemma remote_config_keeps [simp]:
  "cf_Party (remote_config cfg dir osType) = cf_Party cfg"
  "tp_ListenAddr (cf_Transport (remote_config cfg dir osType)) = tp_ListenAddr (cf_Transport cfg)"
  "tp_RemoteAddr (cf_Transport (remote_config cfg dir osType)) = tp_RemoteAddr (cf_Transport cfg)"
  "cf_Analyzer (remote_config cfg dir osType) = cf_Analyzer cfg"
  "cf_Telegram (remote_config cfg dir osType) = cf_Telegram cfg"
  by (simp_all add: remote_config_def Let_def)

lemma installed_b:
  assumes "installed_config s ''b'' cfg"
  shows "cf_Party cfg = ''b'' \<and> tp_ListenAddr (cf_Transport cfg) = all_interfaces s \<and>
    (\<exists>e. cf_Analyzer cfg = party_b_analyzer s e) \<and> cf_Telegram cfg = party_b_telegram s"
  using assms
  by (auto simp: installed_config_def buildLocalDockerConfig_def buildPartyConfig_def base_config_def Let_def)

lemma Load_installed:
  assumes "mc_files M path = Some data" and "mc_parse M data = enc_Config cfg"
    and "wf_config cfg" and "load_party M party path passphrase = Inr (c, key)"
  shows "\<exists>dir. c = cfg\<lparr>cf_DataDir := dir\<rparr> \<and> cf_Party cfg = party"
proof -
  have l: "Load (mc_parse M) (mc_files M) path =
      Inr (if cf_DataDir cfg = [] then cfg\<lparr>cf_DataDir := path_dir path\<rparr> else cfg)"
    using assms(1-3) by (simp add: Load_def ReadFile_def dec_enc_Config)
  have "c = (if cf_DataDir cfg = [] then cfg\<lparr>cf_DataDir := path_dir path\<rparr> else cfg) \<and> cf_Party c = party"
    using assms(4) by (auto simp: load_party_def l res_simps split: if_splits)
  then show ?thesis
    by (cases "cf_DataDir cfg = []") (auto intro: exI [of _ "cf_DataDir cfg"])
qed

text \<open>
  C18. Party B, started on the configuration that the installer made for it, is what the user chose in the
  wizard: it listens on the chosen port, it has a language model exactly if one was given and the step
  was not skipped, the only user who can decide is the one who was verified, escalation is not
  switched off, and its whitelist is what the database holds.
\<close>

theorem installed_party_b_obeys_wizard:
  assumes "mc_files M path = Some data" and "mc_parse M data = enc_Config cfg"
    and "installed_config s ''b'' cfg" and "party_b_main M V d path passphrase = Inr r"
  shows "rb_listen r = ''0.0.0.0:'' @ int_dec (GetTransportPort s) \<and>
    (an_llm (rb_analyzer r) = None \<longleftrightarrow> wz_DisableAI s \<or> wz_LLMProvider s = []) \<and>
    (case sb_bot (rb_service r) of
       None \<Rightarrow> wz_TelegramBotToken s = []
     | Some b \<Rightarrow> wz_TelegramBotToken s \<noteq> [] \<and> bt_authorizedUserID b = wz_TelegramUserID s \<and> \<not> bt_autoMode b) \<and>
    sb_db (rb_service r) = d"
proof -
  obtain c key svc where l: "load_party M ''b'' path passphrase = Inr (c, key)"
    and n: "partyb_New (be_bot V) (be_out V) (be_now V) (cf_Telegram c) (cf_Analyzer c) d = Inr svc"
    and r: "rb_listen r = tp_ListenAddr (cf_Transport c)" "rb_service r = svc"
      "rb_analyzer r = party_b_analyzer_of V (cf_Analyzer c)"
    using assms(4) by (auto simp: party_b_main_def res_simps)
  from Load_installed [OF assms(1,2) installed_wf [OF assms(3)] l] installed_b [OF assms(3)]
  obtain e where c: "tp_ListenAddr (cf_Transport c) = all_interfaces s" "cf_Analyzer c = party_b_analyzer s e"
    "cf_Telegram c = party_b_telegram s" by auto
  have bot: "case sb_bot svc of None \<Rightarrow> wz_TelegramBotToken s = []
      | Some b \<Rightarrow> wz_TelegramBotToken s \<noteq> [] \<and> bt_authorizedUserID b = wz_TelegramUserID s \<and> \<not> bt_autoMode b"
    using n by (auto simp: c partyb_New_def partyb_bot_def telegram_New_def party_b_telegram_def
        party_b_analyzer_def no_analyzer_def SetAutoMode_def SetDecisionCallback_def SetWhitelistCallback_def
        split: sum.splits if_splits option.splits)
  have "sb_db svc = d"
    using n by (auto simp: c partyb_New_def party_b_analyzer_def no_analyzer_def split: sum.splits)
  with bot show ?thesis
    by (simp add: r c all_interfaces_def party_b_analyzer_of_def New_def party_b_analyzer_def)
qed

definition demo_machine :: "(unit, unit) machine" where
  "demo_machine = \<lparr>mc_files = (\<lambda>p. Some []), mc_parse = (\<lambda>b. enc_Config (buildLocalDockerConfig two_servers ''b'')),
     mc_open = (\<lambda>dsn. \<lparr>do_New = None, do_Ping = None, do_Migrate = None\<rparr>), mc_derive = str_bytes,
     mc_loadPair = (\<lambda>c k. Inr ()), mc_pool = (\<lambda>b. Some ())\<rparr>"

definition demo_b_env :: b_env where
  "demo_b_env = \<lparr>be_registry = NewRegistry, be_http = (\<lambda>r. Inl []), be_parse = (\<lambda>s. None),
     be_abi = (\<lambda>a d. Inl []), be_fmt = (\<lambda>i. []), be_out = (\<lambda>q. None), be_now = 0, be_bot = None,
     be_listen = (\<lambda>a. None)\<rparr>"

theorem installed_party_b_obeys_wizard_witness:
  "\<exists>r. party_b_main demo_machine demo_b_env db_empty ''f'' [] = Inr r \<and> rb_listen r = ''0.0.0.0:443'' \<and>
     an_llm (rb_analyzer r) = None"
proof -
  let ?c = "buildLocalDockerConfig two_servers ''b''"
  have p: "mc_files demo_machine ''f'' = Some []" "mc_parse demo_machine [] = enc_Config ?c"
    by (simp_all add: demo_machine_def)
  have i: "installed_config two_servers ''b'' ?c" by (simp add: installed_config_def)
  have d: "cf_Party ?c = ''b''" "cf_DataDir ?c \<noteq> []" "tg_BotToken (cf_Telegram ?c) = []"
    by (simp_all add: buildLocalDockerConfig_def base_config_def remoteConfigDir_def party_b_telegram_def
        two_servers_def wizard_start_def Let_def)
  have l: "Load (mc_parse demo_machine) (mc_files demo_machine) ''f'' = Inr ?c"
    using d(2) by (simp add: Load_def ReadFile_def p dec_enc_Config installed_wf [OF i])
  have "\<exists>r. party_b_main demo_machine demo_b_env db_empty ''f'' [] = Inr r"
    by (simp add: party_b_main_def load_party_def l d NewPostgresStore_def step_ok_def load_tls_def
        LoadCerts_def partyb_New_def partyb_bot_def) (simp add: d demo_machine_def demo_b_env_def ReadFile_def)
  then obtain r where r: "party_b_main demo_machine demo_b_env db_empty ''f'' [] = Inr r" by blast
  have "GetTransportPort two_servers = 443" "wz_LLMProvider two_servers = []"
    by (simp_all add: GetTransportPort_def two_servers_def wizard_start_def)
  moreover have "int_dec 443 = ''443''"
    by (simp add: int_dec_def nat_dec.simps digit_char_def) (simp add: char_of_def bit_iff_odd)
  ultimately show ?thesis using installed_party_b_obeys_wizard [OF p i r] r by auto
qed

end
