(* ===== verification/Export.thy ===== *)
theory Export
  imports Wizard Dealer
begin

section \<open>Exporting and sweeping from the recovery phrase\<close>

text \<open>
  The handlers of \<open>cmd/installer/handlers.go\<close> that work from a phrase the user types in: exporting
  the keys of chosen paths, and moving SOL and tokens. The lemmas show that what is exported is the key
  of the address the two parties sign for, on both curves.
\<close>

subsection \<open>Exported keys\<close>

record exportKeyReq =
  ek_Path :: string
  ek_Prefix :: string

record 'r exporter =
  ex_W :: "'r sweeper"
  ex_bech32 :: "string \<Rightarrow> bytes \<Rightarrow> string res"
  ex_ethAddress :: "point \<Rightarrow> string"
  ex_base58 :: "bytes \<Rightarrow> string"

text \<open>The three functions are the libraries' encoders.\<close>

definition extractCoinTypeFromPath :: "string \<Rightarrow> string" where
  "extractCoinTypeFromPath path =
     (let parts = split_on (CHR ''/'') (trim_prefix path ''m/'') in
      if length parts < 2 then []
      else trim_right (\<lambda>c. c = CHR 0x27 \<or> c = CHR ''h'' \<or> c = CHR ''H'') (parts ! 1))"

datatype exported =
  Exported string DerivedKeyExport
| NotExported string string err

fun enc_exported :: "exported \<Rightarrow> json" where
  "enc_exported (Exported curve x) = JObj [(''address'', JStr (dx_Address x)), (''curve'', JStr curve),
     (''path'', JStr (dx_Path x)), (''privKeyHex'', JStr (dx_PrivKeyHex x))]"
| "enc_exported (NotExported curve path e) = JObj [(''curve'', JStr curve), (''error'', JStr e),
     (''path'', JStr path)]"

definition entry_of :: "string \<Rightarrow> string \<Rightarrow> DerivedKeyExport res may_panic \<Rightarrow> exported may_panic" where
  "entry_of curve path r =
     (case r of
        Panic \<Rightarrow> Panic
      | Return (Inl e) \<Rightarrow> Return (NotExported curve path e)
      | Return (Inr x) \<Rightarrow> Return (Exported curve x))"

definition export_tss :: "'r exporter \<Rightarrow> string \<Rightarrow> string \<Rightarrow> string option \<Rightarrow> DerivedKeyExport res may_panic" where
  "export_tss X mnemonic path pfx =
     DeriveECDSAKeyTSS (sw_b39 (ex_W X)) (sw_ec (ex_W X)) (sw_hmac (ex_W X)) (ex_bech32 X) (ex_ethAddress X)
       mnemonic path pfx"

definition export_solana :: "'r exporter \<Rightarrow> string \<Rightarrow> string \<Rightarrow> DerivedKeyExport res may_panic" where
  "export_solana X mnemonic path =
     ExportSolanaKeyAtPath (sw_b39 (ex_W X)) (sw_edwards (ex_W X)) (sw_hmac (ex_W X)) (sw_edPublic (ex_W X))
       (sw_sha512 (ex_W X)) (decodeEd25519PubKey ed_p) (ex_base58 X) mnemonic path"

definition export_entry :: "'r exporter \<Rightarrow> string \<Rightarrow> exportKeyReq \<Rightarrow> exported may_panic" where
  "export_entry X mnemonic kr =
     (let path = ek_Path kr; coinType = extractCoinTypeFromPath path in
      if coinType = ''501'' then entry_of ''ed25519'' path (export_solana X mnemonic path)
      else if ek_Prefix kr \<noteq> []
      then entry_of ''secp256k1'' path (export_tss X mnemonic path (Some (ek_Prefix kr)))
      else if coinType = ''118''
      then entry_of ''secp256k1'' path (export_tss X mnemonic path (Some ''cosmos''))
      else entry_of ''secp256k1'' path (export_tss X mnemonic path None))"

fun export_entries :: "'r exporter \<Rightarrow> string \<Rightarrow> exportKeyReq list \<Rightarrow> exported list may_panic" where
  "export_entries X mnemonic [] = Return []"
| "export_entries X mnemonic (kr # krs) =
     (case export_entry X mnemonic kr of
        Panic \<Rightarrow> Panic
      | Return e \<Rightarrow> (case export_entries X mnemonic krs of
          Panic \<Rightarrow> Panic | Return es \<Rightarrow> Return (e # es)))"

definition dec_exportKeyReq :: "exportKeyReq \<Rightarrow> fields \<Rightarrow> exportKeyReq res" where
  "dec_exportKeyReq old fs =
     bind_res (str_field ''path'' (ek_Path old) fs) (\<lambda>path.
     bind_res (str_field ''prefix'' (ek_Prefix old) fs) (\<lambda>pfx.
       Inr \<lparr>ek_Path = path, ek_Prefix = pfx\<rparr>))"

definition dec_exportRequest :: "doc \<Rightarrow> (string \<times> string list \<times> exportKeyReq list) res" where
  "dec_exportRequest = unmarshal (\<lambda>fs.
     bind_res (str_field ''mnemonic'' [] fs) (\<lambda>m.
     bind_res (dec_field dec_strings ''paths'' None fs) (\<lambda>paths.
     bind_res (dec_field (dec_array (dec_struct dec_exportKeyReq) \<lparr>ek_Path = [], ek_Prefix = []\<rparr>)
       ''keys'' [] fs) (\<lambda>keys. Inr (m, opt_list paths, keys)))))"

text \<open>
  The rows of \<open>derived_keys\<close> by their time of creation, where the local database can be reached; a row
  that cannot be read is left out. A nil slice is printed as \<open>null\<close>.
\<close>

definition listDerivedAddressesFromDB :: "err option \<Rightarrow> (string \<times> string \<times> string) res list res \<Rightarrow>
    (string \<times> string \<times> string) list" where
  "listDerivedAddressesFromDB connect rows =
     (case (connect, rows) of
        (None, Inr rs) \<Rightarrow> concat (map (\<lambda>r. case r of Inl e \<Rightarrow> [] | Inr row \<Rightarrow> [row]) rs)
      | _ \<Rightarrow> [])"

definition nil_or :: "json list \<Rightarrow> json" where
  "nil_or vs = (if vs = [] then JNull else JArr vs)"

definition enc_address :: "string \<times> string \<times> string \<Rightarrow> json" where
  "enc_address row = (case row of (path, curve, address) \<Rightarrow>
     JObj [(''address'', JStr address), (''curve'', JStr curve), (''path'', JStr path)])"

definition handleInstallExport :: "'r exporter \<Rightarrow> (string \<times> string \<times> string) list \<Rightarrow> doc \<Rightarrow>
    http_response may_panic" where
  "handleInstallExport X dbAddrs body =
     (let W = ex_W X in
      case dec_exportRequest body of
        Inl e \<Rightarrow> Return (bad_body e)
      | Inr (m0, paths, keyReqs) \<Rightarrow>
          let mnemonic = trim_space m0 in
          if mnemonic = [] then Return (writeError 400 ''mnemonic is required'')
          else (case DeriveKeysFromMnemonic (sw_b39 W) (sw_ec W) (sw_hmac W) (sw_edPublic W)
                  (sw_sha512 W) mnemonic of
              Inl e \<Rightarrow> Return (writeError 400 (''invalid mnemonic: '' @ e))
            | Inr keys \<Rightarrow> (case ExportSolanaKey (sw_b39 W) (sw_hmac W) (sw_edPublic W) (ex_base58 X) mnemonic of
                Inl e \<Rightarrow> Return (writeError 400 (''derive Solana key: '' @ e))
              | Inr (solPriv, solAddr) \<Rightarrow>
                  (case export_entries X mnemonic
                      (map (\<lambda>p. \<lparr>ek_Path = p, ek_Prefix = []\<rparr>) paths @ keyReqs) of
                     Panic \<Rightarrow> Panic
                   | Return es \<Rightarrow> Return (writeJSON 200 (JObj [
                       (''dbAddresses'', nil_or (map enc_address dbAddrs)),
                       (''derivedKeys'', nil_or (map enc_exported es)),
                       (''solAddress'', JStr solAddr), (''solPrivKey'', JStr solPriv),
                       (''status'', JStr ''ok'')]))))))"

subsection \<open>Sweeps\<close>

definition handleSweepSOL :: "'r sweeper \<Rightarrow> doc \<Rightarrow> http_response may_panic" where
  "handleSweepSOL W body =
     (case unmarshal (\<lambda>fs.
         bind_res (str_field ''mnemonic'' [] fs) (\<lambda>m.
         bind_res (str_field ''path'' [] fs) (\<lambda>path.
         bind_res (str_field ''destination'' [] fs) (\<lambda>dest.
         bind_res (str_field ''rpcUrl'' [] fs) (\<lambda>url. Inr (m, path, dest, url)))))) body of
        Inl e \<Rightarrow> Return (bad_body e)
      | Inr (m0, path, dest, url) \<Rightarrow>
          let m = trim_space m0 in
          if m = [] \<or> path = [] \<or> dest = [] \<or> url = []
          then Return (writeError 400 ''mnemonic, path, destination, and rpcUrl are required'')
          else (case sweepSOL W m path dest url of
              Panic \<Rightarrow> Panic
            | Return (Inl e) \<Rightarrow> Return (writeError 500 (''sweep failed: '' @ e))
            | Return (Inr txid) \<Rightarrow> Return (writeJSON 200 (JObj [(''status'', JStr ''ok''), (''txid'', JStr txid)]))))"

definition handleSweepToken :: "'r sweeper \<Rightarrow> doc \<Rightarrow> http_response may_panic" where
  "handleSweepToken W body =
     (case unmarshal (\<lambda>fs.
         bind_res (str_field ''mnemonic'' [] fs) (\<lambda>m.
         bind_res (str_field ''path'' [] fs) (\<lambda>path.
         bind_res (str_field ''destination'' [] fs) (\<lambda>dest.
         bind_res (str_field ''mint'' [] fs) (\<lambda>mint.
         bind_res (str_field ''rpcUrl'' [] fs) (\<lambda>url. Inr (m, path, dest, mint, url))))))) body of
        Inl e \<Rightarrow> Return (bad_body e)
      | Inr (m0, path, dest, mint, url) \<Rightarrow>
          let m = trim_space m0 in
          if m = [] \<or> path = [] \<or> dest = [] \<or> mint = [] \<or> url = []
          then Return (writeError 400 ''mnemonic, path, destination, mint, and rpcUrl are required'')
          else (case sweepSPLToken W m path dest mint url of
              Panic \<Rightarrow> Panic
            | Return (Inl e) \<Rightarrow> Return (writeError 500 (''token sweep failed: '' @ e))
            | Return (Inr txid) \<Rightarrow> Return (writeJSON 200 (JObj [(''status'', JStr ''ok''), (''txid'', JStr txid)]))))"

definition enc_TokenAccountInfo :: "TokenAccountInfo \<Rightarrow> json" where
  "enc_TokenAccountInfo a = JObj [(''mint'', JStr (ta_Mint a)), (''amount'', JStr (ta_Amount a)),
     (''program'', JStr (ta_Program a))]"

definition handleTokenAccounts :: "'r sol \<Rightarrow> rpc_net \<Rightarrow> doc \<Rightarrow> http_response" where
  "handleTokenAccounts S N body =
     (case unmarshal (\<lambda>fs.
         bind_res (str_field ''address'' [] fs) (\<lambda>addr.
         bind_res (str_field ''rpcUrl'' [] fs) (\<lambda>url. Inr (addr, url)))) body of
        Inl e \<Rightarrow> bad_body e
      | Inr (addr, url) \<Rightarrow>
          if addr = [] \<or> url = [] then writeError 400 ''address and rpcUrl are required''
          else writeJSON 200 (JObj [(''accounts'', nil_or (map enc_TokenAccountInfo
            (getTokenAccounts S N url addr))), (''status'', JStr ''ok'')]))"

subsection \<open>Every request gets its entry\<close>

lemma export_entries_nth:
  "export_entries X m krs = Return es \<Longrightarrow>
     length es = length krs \<and> (\<forall>i < length krs. export_entry X m (krs ! i) = Return (es ! i))"
proof (induction krs arbitrary: es)
  case (Cons kr krs)
  then show ?case
    by (auto split: may_panic.splits simp: less_Suc_eq_0_disj nth_Cons')
qed simp

lemma export_cases:
  "export_entry X m kr = (if extractCoinTypeFromPath (ek_Path kr) = ''501''
     then entry_of ''ed25519'' (ek_Path kr) (export_solana X m (ek_Path kr))
     else entry_of ''secp256k1'' (ek_Path kr) (export_tss X m (ek_Path kr)
       (if ek_Prefix kr \<noteq> [] then Some (ek_Prefix kr)
        else if extractCoinTypeFromPath (ek_Path kr) = ''118'' then Some ''cosmos'' else None)))"
  by (simp add: export_entry_def Let_def)


lemma exported_entry:
  assumes "export_entries X m krs = Return es" "i < length krs" "es ! i = Exported curve x"
  shows "(curve = ''ed25519'' \<and> export_solana X m (ek_Path (krs ! i)) = Return (Inr x)) \<or>
    (curve = ''secp256k1'' \<and> (\<exists>pfx. export_tss X m (ek_Path (krs ! i)) pfx = Return (Inr x)))"
proof -
  have "export_entry X m (krs ! i) = Return (Exported curve x)"
    using export_entries_nth [OF assms(1)] assms(2,3) by auto
  then show ?thesis
    by (auto simp: export_cases entry_of_def split: if_splits may_panic.splits sum.splits)
qed

lemma export_solana_cases:
  assumes "export_solana X m path = Return (Inr x)"
    and "deriveScalarAtPath (sw_b39 (ex_W X)) (sw_edwards (ex_W X)) (sw_hmac (ex_W X)) (sw_edPublic (ex_W X))
      (sw_sha512 (ex_W X)) (decodeEd25519PubKey ed_p) m path = Return (Inr (s, pk))"
  shows "dx_Address x = ex_base58 X pk"
    and "dx_PrivKeyHex x = ex_base58 X (rev (nat_bytes s) @ replicate (32 - length (nat_bytes s)) 0 @ pk)"
  using assms
  by (auto simp: export_solana_def ExportSolanaKeyAtPath_def deriveScalarAtPath_def Let_def
      split: may_panic.splits sum.splits if_splits)

text \<open>
  With a share of the master key of the phrase, the exported secp256k1 key is the secret of the public
  key that a party derives at that path.
\<close>

lemma exported_ecdsa_key:
  assumes laws: "ec_laws (sw_ec (ex_W X)) smul"
    and entries: "export_entries X m krs = Return es" "i < length krs" "es ! i = Exported ''secp256k1'' x"
    and master: "bip32_master (sw_ec (ex_W X)) (sw_hmac (ex_W X)) (b39_NewSeed (sw_b39 (ex_W X)) m) =
      Inr (key, ks_ChainCode A)"
    and share: "so_unmarshal ops (ks_Share A) = Inr a" "sv_Pub a = smul key"
    and path: "parsePath (ek_Path (krs ! i)) = Inr is" "is \<noteq> []"
    and derived: "deriveECDSA (sw_ec (ex_W X)) (sw_hmac (ex_W X)) ops A (ek_Path (krs ! i)) is =
      Return (Inr dA)"
  shows "\<exists>k < 256 ^ 32. dx_PrivKeyHex x = hex_encode (be_put 32 k) \<and>
    dk_PublicKey dA = elliptic_Marshal (smul k)"
proof -
  obtain pfx where "export_tss X m (ek_Path (krs ! i)) pfx = Return (Inr x)"
    using exported_entry [OF entries] by auto
  with DeriveECDSAKeyTSS_recovers [OF laws master share path derived]
  show ?thesis unfolding export_tss_def by blast
qed

text \<open>
  The exported Solana key pair has the address of the parties' public key and a scalar that is the
  secret of it.
\<close>

lemma exported_eddsa_key:
  assumes laws: "ec_laws (sw_edwards (ex_W X)) smul"
    and entries: "export_entries X m krs = Return es" "i < length krs" "es ! i = Exported ''ed25519'' x"
    and valid: "b39_IsMnemonicValid (sw_b39 (ex_W X)) m"
    and master: "deriveEdDSAMaster (sw_hmac (ex_W X)) (sw_edPublic (ex_W X))
      (b39_NewSeed (sw_b39 (ex_W X)) m) = (ms, mp, ks_ChainCode A)"
    and dec: "decodeEd25519PubKey ed_p mp = Return (smul (clamped_scalar (sw_sha512 (ex_W X)) ms))"
    and share: "so_unmarshal ops (ks_Share A) = Inr a"
      "sv_Pub a = smul (clamped_scalar (sw_sha512 (ex_W X)) ms)"
    and path: "parsePath (ek_Path (krs ! i)) = Inr is" "is \<noteq> []"
    and derived: "deriveEdDSA (sw_edwards (ex_W X)) (sw_hmac (ex_W X)) ops A (ek_Path (krs ! i)) is =
      Return (Inr dA)"
  shows "dx_Address x = ex_base58 X (dk_PublicKey dA) \<and>
    (\<exists>s. dx_PrivKeyHex x = ex_base58 X (rev (nat_bytes s) @ replicate (32 - length (nat_bytes s)) 0 @
        dk_PublicKey dA) \<and>
      edwardsPointToEd25519PubKey (smul s) = Return (dk_PublicKey dA))"
proof -
  have e: "export_solana X m (ek_Path (krs ! i)) = Return (Inr x)"
    using exported_entry [OF entries] by auto
  from deriveScalarAtPath_recovers [where decode = "decodeEd25519PubKey ed_p" and mp = mp and smul = smul,
      OF laws valid master dec share path derived] export_solana_cases [OF e]
  show ?thesis by blast
qed

definition toy_exporter :: "unit exporter" where
  "toy_exporter = \<lparr>ex_W = sweep_desk\<lparr>sw_b39 := toy_b39, sw_ec := toy_ec, sw_hmac := toy_hmac\<rparr>,
     ex_bech32 = (\<lambda>p b. Inl []), ex_ethAddress = (\<lambda>p. ''0x''), ex_base58 = (\<lambda>b. [])\<rparr>"

end
