(* ===== verification/Recoverable.thy ===== *)
theory Recoverable
  imports Deploy Export
begin

section \<open>The phrase of a deployed wallet\<close>

text \<open>
  The installer's dealer, the parties' derivation and the installer's export together: what a deployment
  stores for the parties, the keys they derive from it, and what the phrase alone gives back later.
\<close>

lemma phrase_masters:
  assumes "DeriveKeysFromMnemonic b39 c hmac edPublic sha512 m = Inr keys"
  shows "b39_IsMnemonicValid b39 m"
    and "bip32_master c hmac (b39_NewSeed b39 m) = Inr (mk_ECDSAPrivKey keys, mk_ECDSAChainCode keys)"
    and "\<exists>ms. deriveEdDSAMaster hmac edPublic (b39_NewSeed b39 m) =
        (ms, mk_EdDSAPubKey keys, mk_EdDSAChainCode keys) \<and>
      mk_EdDSAPrivKey keys = clamped_scalar sha512 ms"
  using assms
  by (auto simp: DeriveKeysFromMnemonic_def deriveECDSAKey_def deriveEdDSAKey_def deriveEdDSAMaster_def
      Let_def split: if_splits sum.splits prod.splits)

text \<open>
  C6. A deployed wallet can be recovered from its phrase. The shares that a deployment stores for the
  two parties are sharings of the keys of the phrase it was started with; and for every path whose
  key is later exported with that phrase, the exported secp256k1 key is 32 bytes whose number is the secret of
  the public key that either party derives from its stored share, and the exported Solana key pair has the address
  of that public key and a scalar that is the secret of it. The last needs that the public key of an
  ed25519 seed is its clamped scalar times the base point. A stored share read back has the public key
  it was written with.
\<close>

theorem deployed_wallet_recoverable:
  assumes laws: "ec_laws (sw_ec (ie_W I)) smul" "ec_laws (sw_edwards (ie_W I)) smulE"
    and ids: "makeSortedPartyIDs (ie_S I) parties = [p, q]"
    and ip: "interpolates (ec_N (sw_ec (ie_W I))) [la, lb] [lp_Key p, lp_Key q] 1"
      "interpolates (ec_N (sw_edwards (ie_W I))) [le, lf] [lp_Key p, lp_Key q] 1"
    and codec: "\<And>d b. so_marshal (ie_ecdsa I) d = Inr b \<Longrightarrow>
        \<exists>d'. so_unmarshal (ie_ecdsa I) b = Inr d' \<and> sv_Pub d' = sv_Pub d"
      "\<And>d b. so_marshal (ie_eddsa I) d = Inr b \<Longrightarrow>
        \<exists>d'. so_unmarshal (ie_eddsa I) b = Inr d' \<and> sv_Pub d' = sv_Pub d"
    and run: "job_run I [L1, L2, L3] (Deriving m l) s = (Next (Certifying l), s')"
    and exporter: "ex_W X = ie_W I" "export_entries X m krs = Return es" "i < length krs"
    and path: "parsePath (ek_Path (krs ! i)) = Inr is" "is \<noteq> []"
  shows "\<exists>keys kA kB eA eB a b e f.
    DeriveKeysFromMnemonic (sw_b39 (ie_W I)) (sw_ec (ie_W I)) (sw_hmac (ie_W I)) (sw_edPublic (ie_W I))
      (sw_sha512 (ie_W I)) m = Inr keys \<and>
    wz_ShareA (sy_wz s') = Some kA \<and> wz_ShareB (sy_wz s') = Some kB \<and>
    wz_EdShareA (sy_wz s') = Some eA \<and> wz_EdShareB (sy_wz s') = Some eB \<and>
    so_marshal (ie_ecdsa I) a = Inr (ks_Share kA) \<and> so_marshal (ie_ecdsa I) b = Inr (ks_Share kB) \<and>
    so_marshal (ie_eddsa I) e = Inr (ks_Share eA) \<and> so_marshal (ie_eddsa I) f = Inr (ks_Share eB) \<and>
    shares_of (sw_ec (ie_W I)) smul la lb (mk_ECDSAPrivKey keys) a b \<and>
    shares_of (sw_edwards (ie_W I)) smulE le lf (mk_EdDSAPrivKey keys) e f \<and>
    (\<forall>x. es ! i = Exported ''secp256k1'' x \<longrightarrow>
      (\<forall>K \<in> {kA, kB}. \<forall>d. deriveECDSA (sw_ec (ie_W I)) (sw_hmac (ie_W I)) (ie_ecdsa I) K
          (ek_Path (krs ! i)) is = Return (Inr d) \<longrightarrow>
        (\<exists>k < 256 ^ 32. dx_PrivKeyHex x = hex_encode (be_put 32 k) \<and>
          dk_PublicKey d = elliptic_Marshal (smul k)))) \<and>
    (\<forall>x. es ! i = Exported ''ed25519'' x \<longrightarrow>
      decodeEd25519PubKey ed_p (mk_EdDSAPubKey keys) = Return (smulE (mk_EdDSAPrivKey keys)) \<longrightarrow>
      (\<forall>K \<in> {eA, eB}. \<forall>d. deriveEdDSA (sw_edwards (ie_W I)) (sw_hmac (ie_W I)) (ie_eddsa I) K
          (ek_Path (krs ! i)) is = Return (Inr d) \<longrightarrow>
        dx_Address x = ex_base58 X (dk_PublicKey d) \<and>
        (\<exists>k. dx_PrivKeyHex x = ex_base58 X (rev (nat_bytes k) @ replicate (32 - length (nat_bytes k)) 0 @
            dk_PublicKey d) \<and>
          edwardsPointToEd25519PubKey (smulE k) = Return (dk_PublicKey d))))"
proof -
  obtain keys kA kB eA eB a b e f where
    keys: "DeriveKeysFromMnemonic (sw_b39 (ie_W I)) (sw_ec (ie_W I)) (sw_hmac (ie_W I)) (sw_edPublic (ie_W I))
      (sw_sha512 (ie_W I)) m = Inr keys"
    and wz: "wz_ShareA (sy_wz s') = Some kA" "wz_ShareB (sy_wz s') = Some kB"
      "wz_EdShareA (sy_wz s') = Some eA" "wz_EdShareB (sy_wz s') = Some eB"
    and ma: "so_marshal (ie_ecdsa I) a = Inr (ks_Share kA)" "so_marshal (ie_ecdsa I) b = Inr (ks_Share kB)"
      "so_marshal (ie_eddsa I) e = Inr (ks_Share eA)" "so_marshal (ie_eddsa I) f = Inr (ks_Share eB)"
    and sh: "shares_of (sw_ec (ie_W I)) smul la lb (mk_ECDSAPrivKey keys) a b"
      "shares_of (sw_edwards (ie_W I)) smulE le lf (mk_EdDSAPrivKey keys) e f"
    and ch: "\<forall>k \<in> {kA, kB}. ks_ChainCode k = mk_ECDSAChainCode keys"
      "\<forall>k \<in> {eA, eB}. ks_ChainCode k = mk_EdDSAChainCode keys"
    using stored_shares [OF laws ids ip run] by blast
  note masters = phrase_masters [OF keys]
  have ec: "\<exists>d. so_unmarshal (ie_ecdsa I) (ks_Share K) = Inr d \<and> sv_Pub d = smul (mk_ECDSAPrivKey keys)"
    if "K \<in> {kA, kB}" for K
    using that codec(1) [OF ma(1)] codec(1) [OF ma(2)] sh(1) by (auto simp: shares_of_def)
  have ed: "\<exists>d. so_unmarshal (ie_eddsa I) (ks_Share K) = Inr d \<and> sv_Pub d = smulE (mk_EdDSAPrivKey keys)"
    if "K \<in> {eA, eB}" for K
    using that codec(2) [OF ma(3)] codec(2) [OF ma(4)] sh(2) by (auto simp: shares_of_def)
  have A: "\<exists>k < 256 ^ 32. dx_PrivKeyHex x = hex_encode (be_put 32 k) \<and> dk_PublicKey d = elliptic_Marshal (smul k)"
    if x: "es ! i = Exported ''secp256k1'' x" and K: "K \<in> {kA, kB}"
      and d: "deriveECDSA (sw_ec (ie_W I)) (sw_hmac (ie_W I)) (ie_ecdsa I) K (ek_Path (krs ! i)) is =
        Return (Inr d)" for x K d
  proof -
    obtain y where y: "so_unmarshal (ie_ecdsa I) (ks_Share K) = Inr y" "sv_Pub y = smul (mk_ECDSAPrivKey keys)"
      using ec [OF K] by blast
    have "ks_ChainCode K = mk_ECDSAChainCode keys" using ch(1) K by blast
    with masters(2) exported_ecdsa_key [of X smul m krs es i x "mk_ECDSAPrivKey keys" K "ie_ecdsa I" y "is" d]
      laws(1) exporter x y path d show ?thesis by simp
  qed
  have B: "dx_Address x = ex_base58 X (dk_PublicKey d) \<and>
      (\<exists>k. dx_PrivKeyHex x = ex_base58 X (rev (nat_bytes k) @ replicate (32 - length (nat_bytes k)) 0 @
          dk_PublicKey d) \<and> edwardsPointToEd25519PubKey (smulE k) = Return (dk_PublicKey d))"
    if x: "es ! i = Exported ''ed25519'' x"
      and dec: "decodeEd25519PubKey ed_p (mk_EdDSAPubKey keys) = Return (smulE (mk_EdDSAPrivKey keys))"
      and K: "K \<in> {eA, eB}"
      and d: "deriveEdDSA (sw_edwards (ie_W I)) (sw_hmac (ie_W I)) (ie_eddsa I) K (ek_Path (krs ! i)) is =
        Return (Inr d)" for x K d
  proof -
    obtain y where y: "so_unmarshal (ie_eddsa I) (ks_Share K) = Inr y" "sv_Pub y = smulE (mk_EdDSAPrivKey keys)"
      using ed [OF K] by blast
    obtain ms where ms: "deriveEdDSAMaster (sw_hmac (ie_W I)) (sw_edPublic (ie_W I))
        (b39_NewSeed (sw_b39 (ie_W I)) m) = (ms, mk_EdDSAPubKey keys, mk_EdDSAChainCode keys)"
      "mk_EdDSAPrivKey keys = clamped_scalar (sw_sha512 (ie_W I)) ms"
      using masters(3) by blast
    have c: "ks_ChainCode K = mk_EdDSAChainCode keys" using ch(2) K by blast
    show ?thesis
      by (rule exported_eddsa_key [where mp = "mk_EdDSAPubKey keys" and ms = ms and A = K, OF _ exporter(2,3) x
            _ _ _ y(1) _ path])
        (use laws(2) masters(1) ms dec y(2) d c exporter(1) in simp_all)
  qed
  show ?thesis
    by (rule exI [of _ keys], rule exI [of _ kA], rule exI [of _ kB], rule exI [of _ eA], rule exI [of _ eB],
        rule exI [of _ a], rule exI [of _ b], rule exI [of _ e], rule exI [of _ f])
      (use keys wz ma sh A B in blast)
qed

subsection \<open>A wallet at which the hypotheses hold\<close>

definition toy_exporter :: "unit exporter" where
  "toy_exporter = \<lparr>ex_W = ie_W toy_installer, ex_bech32 = (\<lambda>p b. Inl []), ex_ethAddress = (\<lambda>p. ''0x''),
     ex_base58 = (\<lambda>b. [])\<rparr>"

lemma toy_installer_simps:
  "sw_ec (ie_W toy_installer) = toy_ec" "sw_edwards (ie_W toy_installer) = toy_ec"
  "sw_b39 (ie_W toy_installer) = toy_b39" "sw_hmac (ie_W toy_installer) = toy_hmac"
  "ie_S toy_installer = id" "ie_ecdsa toy_installer = toy_dealt_ops" "ie_eddsa toy_installer = toy_dealt_ops"
  by (simp_all add: toy_installer_def)

lemma toy_exports:
  "\<exists>x. export_entries toy_exporter ''words'' [\<lparr>ek_Path = ''m/0'', ek_Prefix = []\<rparr>] =
     Return [Exported ''secp256k1'' x]"
proof -
  have "extractCoinTypeFromPath ''m/0'' = []"
    by (simp add: extractCoinTypeFromPath_def trim_prefix_def has_prefix_def)
  then show ?thesis
    using toy_export by (auto simp: export_cases export_tss_def entry_of_def toy_exporter_def toy_installer_simps)
qed

lemma toy_derives:
  assumes "so_unmarshal toy_dealt_ops (ks_Share K) = Inr (toy_dealt (mod7 4))"
    and "ks_ChainCode K = str_bytes ''Bitcoin seed''"
  shows "\<exists>d. deriveECDSA toy_ec toy_hmac toy_dealt_ops K ''m/0'' [0] = Return (Inr d)"
proof -
  let ?st = "hd_start toy_ec (toy_dealt (mod7 4)) (str_bytes ''Bitcoin seed'')"
  have "be_nat (replicate 31 0 @ [2]) = 2" by (simp only: be_nat_zeros) simp
  then obtain st where s: "ecdsa_step toy_ec toy_hmac 0 ?st = Return (Inr st)" and p: "hd_Pub st = mod7 6"
    by (simp add: ecdsa_step_def hd_start_def toy_dealt_def toy_compress toy_mac Let_def toy_ec_def)
      (simp add: mod7_def)
  have m: "\<forall>s. is_ok (so_marshal toy_dealt_ops s)" by (simp add: toy_dealt_ops_def)
  obtain d where "derived_key toy_ec toy_dealt_ops K ''m/0'' (toy_dealt (mod7 4)) st
      (0x04 # be_put 32 (fst (mod7 6)) @ be_put 32 (snd (mod7 6))) = Inr d"
    using derived_key_exists [OF m] by (metis ec.select_convs(4) toy_ec_def)
  then show ?thesis
    using s p coords_pad [OF toy_laws, of 6] by (simp add: deriveECDSA_def assms)
qed

theorem deployed_wallet_recoverable_witness:
  "\<exists>s' kA x d k. job_run toy_installer [toy_luck, toy_luck, toy_luck] (Deriving ''words'' False) primed_sys =
      (Next (Certifying False), s') \<and> wz_ShareA (sy_wz s') = Some kA \<and>
    export_entries toy_exporter ''words'' [\<lparr>ek_Path = ''m/0'', ek_Prefix = []\<rparr>] =
      Return [Exported ''secp256k1'' x] \<and>
    deriveECDSA toy_ec toy_hmac toy_dealt_ops kA ''m/0'' [0] = Return (Inr d) \<and>
    k < 256 ^ 32 \<and> dx_PrivKeyHex x = hex_encode (be_put 32 k) \<and> dk_PublicKey d = elliptic_Marshal (mod7 k)"
proof -
  let ?krs = "[\<lparr>ek_Path = ''m/0'', ek_Prefix = []\<rparr>]"
  obtain s' where run: "job_run toy_installer [toy_luck, toy_luck, toy_luck] (Deriving ''words'' False)
      primed_sys = (Next (Certifying False), s')" using toy_deploys by blast
  obtain x where x: "export_entries toy_exporter ''words'' ?krs = Return [Exported ''secp256k1'' x]"
    using toy_exports by blast
  obtain p q where ids: "makeSortedPartyIDs id parties = [p, q]" and ip: "interpolates (ec_N toy_ec) [5, 3] [lp_Key p, lp_Key q] 1"
    using toy_interpolates by blast
  have codec: "so_marshal toy_dealt_ops d = Inr b \<Longrightarrow>
      \<exists>d'. so_unmarshal toy_dealt_ops b = Inr d' \<and> sv_Pub d' = sv_Pub d" for d b
    using toy_dealt_codec [of d b] by (simp add: toy_dealt_def)
  have laws: "ec_laws (sw_ec (ie_W toy_installer)) mod7" "ec_laws (sw_edwards (ie_W toy_installer)) mod7"
    by (simp_all add: toy_installer_simps toy_laws)
  note toy = laws ids [folded toy_installer_simps(5)] ip [folded toy_installer_simps(1)]
    ip [folded toy_installer_simps(2)]
  obtain keys :: MnemonicKeys and kA and a :: "unit dealt save_data" where
    keys: "DeriveKeysFromMnemonic toy_b39 toy_ec toy_hmac (sw_edPublic (ie_W toy_installer))
      (sw_sha512 (ie_W toy_installer)) ''words'' = Inr keys"
    and kA: "wz_ShareA (sy_wz s') = Some kA" "so_marshal toy_dealt_ops a = Inr (ks_Share kA)"
      "sv_Pub a = mod7 (mk_ECDSAPrivKey keys)" "ks_ChainCode kA = mk_ECDSAChainCode keys"
    using stored_shares [OF toy run] unfolding toy_installer_simps shares_of_def by blast
  from phrase_masters(2) [OF keys] have "mk_ECDSAPrivKey keys = 4" "mk_ECDSAChainCode keys = str_bytes ''Bitcoin seed''"
    by (simp_all add: toy_master_key)
  then obtain d where d: "deriveECDSA toy_ec toy_hmac toy_dealt_ops kA ''m/0'' [0] = Return (Inr d)"
    using toy_derives [of kA] toy_dealt_codec [OF kA(2)] kA(3,4) by auto
  have path: "parsePath (ek_Path (?krs ! 0)) = Inr [0]" "[0 :: u32] \<noteq> []" using toy_path by simp_all
  have ex: "ex_W toy_exporter = ie_W toy_installer" by (simp add: toy_exporter_def)
  have "\<forall>y. [Exported ''secp256k1'' x] ! 0 = Exported ''secp256k1'' y \<longrightarrow>
      (\<forall>d. deriveECDSA toy_ec toy_hmac toy_dealt_ops kA (ek_Path (?krs ! 0)) [0] = Return (Inr d) \<longrightarrow>
        (\<exists>k < 256 ^ 32. dx_PrivKeyHex y = hex_encode (be_put 32 k) \<and>
          dk_PublicKey d = elliptic_Marshal (mod7 k)))"
    using deployed_wallet_recoverable [OF toy codec [folded toy_installer_simps(6)]
        codec [folded toy_installer_simps(7)] run ex x _ path] kA(1)
    unfolding toy_installer_simps by fastforce
  with d obtain k where "k < 256 ^ 32" "dx_PrivKeyHex x = hex_encode (be_put 32 k)" "dk_PublicKey d = elliptic_Marshal (mod7 k)"
    by auto
  with run kA(1) x d show ?thesis by blast
qed

end
