(* ===== verification/Channels.thy ===== *)
theory Channels
  imports Ceremony PartyB
begin

section \<open>The incoming channels of the message routers\<close>

text \<open>
  \<open>tss.MessageRouter\<close> has three implementations: the transport client of Party A, the server router of
  Party B, and the in-memory router of a ceremony. A protocol run reads from the channel that
  \<open>Receive\<close> returns. The locale is what a run relies on: a channel that takes messages at its
  end while it has room and gives them from its front; its consequences hold for all three.
\<close>

subsection \<open>The interface\<close>

text \<open>
  What happens to a channel: \<open>Some m\<close> offers it a message, \<open>None\<close> asks it for one. The run gives
  the messages it accepted, those it gave out, and its last state.
\<close>

fun channel_run :: "('m \<Rightarrow> 's \<Rightarrow> 's option) \<Rightarrow> ('s \<Rightarrow> ('m \<times> 's) option) \<Rightarrow> 'm option list \<Rightarrow> 's \<Rightarrow>
    'm list \<times> 'm list \<times> 's" where
  "channel_run offer receive [] s = ([], [], s)"
| "channel_run offer receive (Some m # es) s =
     (case offer m s of
        None \<Rightarrow> channel_run offer receive es s
      | Some s1 \<Rightarrow> (case channel_run offer receive es s1 of (sent, got, s2) \<Rightarrow> (m # sent, got, s2)))"
| "channel_run offer receive (None # es) s =
     (case receive s of
        None \<Rightarrow> channel_run offer receive es s
      | Some (m, s1) \<Rightarrow> (case channel_run offer receive es s1 of (sent, got, s2) \<Rightarrow> (sent, m # got, s2)))"

locale bounded_channel =
  fixes offer :: "'m \<Rightarrow> 's \<Rightarrow> 's option"
    and receive :: "'s \<Rightarrow> ('m \<times> 's) option"
    and waiting :: "'s \<Rightarrow> 'm list"
    and room :: nat
  assumes offer_law: "offer m s = Some s' \<Longrightarrow> length (waiting s) < room \<and> waiting s' = waiting s @ [m]"
    and receive_law: "receive s = Some (m, s') \<Longrightarrow> waiting s = m # waiting s'"
begin

text \<open>One induction for what every accepted offer and every receipt keeps.\<close>

lemma run_keeps:
  assumes "P [] [] s"
    and "\<And>sent got t m t'. P sent got t \<Longrightarrow> offer m t = Some t' \<Longrightarrow> P (sent @ [m]) got t'"
    and "\<And>sent got t m t'. P sent got t \<Longrightarrow> receive t = Some (m, t') \<Longrightarrow> P sent (got @ [m]) t'"
  shows "case channel_run offer receive es s of (sent, got, s') \<Rightarrow> P sent got s'"
proof -
  have "case channel_run offer receive es t of (x, y, s') \<Rightarrow> P (sent @ x) (got @ y) s'" if "P sent got t"
    for sent got t
    using that
  proof (induction es arbitrary: sent got t)
    case (Cons e es)
    show ?case
    proof (cases e)
      case None
      show ?thesis
      proof (cases "receive t")
        case (Some r)
        then obtain m t' where r: "receive t = Some (m, t')" by (cases r) auto
        from Cons.IH [OF assms(3) [OF Cons.prems r]] show ?thesis by (simp add: None r split_beta)
      qed (use Cons in \<open>simp add: None\<close>)
    next
      case (Some m)
      show ?thesis
      proof (cases "offer m t")
        case o: (Some t')
        from Cons.IH [OF assms(2) [OF Cons.prems o]] show ?thesis by (simp add: Some o split_beta)
      qed (use Cons in \<open>simp add: Some\<close>)
    qed
  qed simp
  from this [OF assms(1)] show ?thesis by simp
qed

lemma in_order:
  "case channel_run offer receive es s of (sent, got, s') \<Rightarrow> waiting s @ sent = got @ waiting s'"
  by (rule run_keeps) (auto dest: offer_law receive_law)

lemma bounded:
  assumes "length (waiting s) \<le> room"
  shows "case channel_run offer receive es s of (sent, got, s') \<Rightarrow> length (waiting s') \<le> room"
  by (rule run_keeps) (use assms in \<open>auto dest: offer_law receive_law\<close>)

lemma gives_a_beginning:
  assumes "waiting s = []" and "channel_run offer receive es s = (sent, got, s')"
  shows "got = take (length got) sent \<and> length sent - length got = length (waiting s')"
  using in_order [where es = es and s = s] assms by simp

end

subsection \<open>The ceremony's router\<close>

definition ceremony_offer :: "PartyID \<Rightarrow> incoming \<Rightarrow> inMemoryRouter \<Rightarrow> inMemoryRouter option" where
  "ceremony_offer p m r =
     (case mem_Send (fst m) p (snd m) r of Some (None, r1) \<Rightarrow> Some r1 | _ \<Rightarrow> None)"

interpretation ceremony: bounded_channel "ceremony_offer p" "router_Receive p"
  "\<lambda>r. pending r (pid_ID p)" router_cap for p
  by unfold_locales (auto simp: ceremony_offer_def mem_Send_def router_Receive_def pending_def
      split: option.splits list.splits if_splits)

subsection \<open>The client of Party A\<close>

text \<open>
  A protocol message that the read loop gets, with an id no request waits for; one that finds the
  channel full is dropped. \<open>client_Receive\<close> takes from the channel.
\<close>

definition client_offer :: "('p message \<Rightarrow> 'p handler_result) option \<Rightarrow> 'p write_outcome \<Rightarrow> u64 \<Rightarrow> 'p \<Rightarrow>
    'p client \<Rightarrow> 'p client option" where
  "client_offer handler wr i payload c =
     (if cl_pending c i \<noteq> None \<or> incoming_cap \<le> length (cl_incoming c) then None
      else case client_read handler wr \<lparr>m_type = MsgTSSRound, m_id = i, m_payload = payload\<rparr> c of
          Block \<Rightarrow> None
        | Proceed (sent, c1) \<Rightarrow> Some c1)"

definition client_Receive :: "'p client \<Rightarrow> ('p \<times> 'p client) option" where
  "client_Receive c =
     (case cl_incoming c of [] \<Rightarrow> None | m # q \<Rightarrow> Some (m, c\<lparr>cl_incoming := q\<rparr>))"

interpretation client: bounded_channel "client_offer handler wr i" client_Receive cl_incoming incoming_cap
  for handler wr i
  by unfold_locales (auto simp: client_offer_def client_read_def client_Receive_def is_protocol_type_def
      split: if_splits list.splits)

subsection \<open>The server router of Party B\<close>

definition router_offer :: "doc \<Rightarrow> doc list \<Rightarrow> doc list option" where
  "router_offer payload q = (case FeedMessage payload q of Block \<Rightarrow> None | Proceed q1 \<Rightarrow> Some q1)"

definition server_Receive :: "doc list \<Rightarrow> (doc \<times> doc list) option" where
  "server_Receive q = (case q of [] \<Rightarrow> None | m # q1 \<Rightarrow> Some (m, q1))"

interpretation router: bounded_channel router_offer server_Receive "\<lambda>q. q" incoming_cap
  by unfold_locales (auto simp: router_offer_def FeedMessage_def server_Receive_def
      split: if_splits list.splits)

end
