(* ===== verification/Browser.thy ===== *)
theory Browser
  imports Deploy
begin

section \<open>What a browser is told\<close>

text \<open>
  The installer answers a browser (\<open>handlers.go\<close>). What it can be asked that looks at the state: the wizard's
  requests, to deploy, to update, and the next piece of the log stream. The other endpoints, exports, sweeps
  and the test of a server, take all they use from the request. No phase of a deployment runs in between.
\<close>

datatype browser_request = Ask wizard_request | AskDeploy | AskUpdate | AskLogs
datatype browser_answer = Answer "http_response may_panic" | Events "json list" bool

fun browse_step :: "'r sweeper \<Rightarrow> browser_request \<Rightarrow> 'p installer \<Rightarrow> browser_answer \<times> 'p installer" where
  "browse_step W (Ask q) i = (let (r, s) = wizard_step W q (in_wz i) in (Answer r, set_wz s i))"
| "browse_step W AskDeploy i = (let (r, i') = handleDeploy i in (Answer (Return r), i'))"
| "browse_step W AskUpdate i = (let (r, i') = handleUpdate i in (Answer (Return r), i'))"
| "browse_step W AskLogs i =
     (let (es, stop, s) = logs_tick (in_wz i) (wz_DeployDone (in_wz i)) (wz_DeployFailed (in_wz i)) in
      (Events es stop, set_wz s i))"

fun browse :: "'r sweeper \<Rightarrow> browser_request list \<Rightarrow> 'p installer \<Rightarrow> browser_answer list" where
  "browse W [] i = []"
| "browse W (q # qs) i = (let (r, i') = browse_step W q i in r # browse W qs i')"

definition installers_alike :: "'p installer \<Rightarrow> 'p installer \<Rightarrow> bool" where
  "installers_alike i j \<longleftrightarrow> looks_alike (in_wz i) (in_wz j) \<and> in_deploying i = in_deploying j \<and>
     in_updating i = in_updating j"

abbreviation bot_token :: "'p installer \<Rightarrow> string" where
  "bot_token i \<equiv> wz_TelegramBotToken (in_wz i)"

lemma begin_deploy_alike:
  "looks_alike s t \<Longrightarrow> looks_alike (begin_deploy s) (begin_deploy t)"
  "looks_alike s t \<Longrightarrow> looks_alike ((begin_deploy s)\<lparr>wz_Mode := m\<rparr>) ((begin_deploy t)\<lparr>wz_Mode := m\<rparr>)"
  by (simp_all add: looks_alike_def begin_deploy_def)

lemma begin_deploy_token [simp]: "wz_TelegramBotToken (begin_deploy s) = wz_TelegramBotToken s"
  by (simp add: begin_deploy_def)

lemma logs_tick_alike:
  assumes "looks_alike s t" "logs_tick s d f = (es, stop, s')" "logs_tick t d f = (es', stop', t')"
  shows "es = es' \<and> stop = stop' \<and> looks_alike s' t'"
proof -
  have l: "wz_DeployLogs s = wz_DeployLogs t" using assms(1) by (simp add: looks_alike_def)
  have s: "s' = s\<lparr>wz_DeployLogs := []\<rparr>" "t' = t\<lparr>wz_DeployLogs := []\<rparr>"
    using assms(2,3) by (auto simp: logs_tick_def DrainLogs_def Let_def split: if_splits)
  have "looks_alike s' t'" unfolding s using assms(1) by (simp add: looks_alike_def)
  moreover have "es = es' \<and> stop = stop'"
    using assms(2,3) by (auto simp: logs_tick_def DrainLogs_def Let_def l split: if_splits)
  ultimately show ?thesis by simp
qed

lemma logs_tick_token: "logs_tick s d f = (es, stop, s') \<Longrightarrow> wz_TelegramBotToken s' = wz_TelegramBotToken s"
  by (auto simp: logs_tick_def DrainLogs_def Let_def split: if_splits)

lemma browse_step_alike:
  assumes a: "installers_alike i j" and b: "\<And>w. q = Ask w \<Longrightarrow> same_bot (bot_token i) (bot_token j) w"
    and i: "browse_step W q i = (r, i')" and j: "browse_step W q j = (r', j')"
  shows "r = r' \<and> installers_alike i' j' \<and> tokens_kept (in_wz i) (in_wz j) (in_wz i') (in_wz j')"
proof (cases q)
  case (Ask w)
  have al: "looks_alike (in_wz i) (in_wz j)" using a by (simp add: installers_alike_def)
  from wizard_step_alike [OF al b [OF Ask], of W] wizard_step_tokens [of "in_wz i" "in_wz j" W w] a i j
  show ?thesis unfolding Ask by (auto simp: installers_alike_def split_beta)
next
  case AskDeploy
  show ?thesis
  proof (cases "in_deploying i")
    case True
    then show ?thesis using a i j by (simp add: AskDeploy handleDeploy_def installers_alike_def tokens_kept_def)
  next
    case False
    have m: "wz_Mnemonic (in_wz i) = [] \<longleftrightarrow> wz_Mnemonic (in_wz j) = []" "\<not> in_deploying j"
      using a False by (simp_all add: installers_alike_def looks_alike_def)
    have al: "installers_alike (set_wz (begin_deploy (in_wz i)) i) (set_wz (begin_deploy (in_wz j)) j)"
      using a begin_deploy_alike(1) [of "in_wz i" "in_wz j"] by (simp add: installers_alike_def)
    show ?thesis using i j False m al
      by (cases "wz_Mnemonic (in_wz i) = []")
        (auto simp: AskDeploy handleDeploy_def Let_def tokens_kept_def installers_alike_def)
  qed
next
  case AskUpdate
  show ?thesis
  proof (cases "in_updating i")
    case True
    then show ?thesis using a i j by (simp add: AskUpdate handleUpdate_def installers_alike_def tokens_kept_def)
  next
    case False
    have al: "looks_alike (in_wz i) (in_wz j)" "\<not> in_updating j" "in_deploying i = in_deploying j"
      using a False by (simp_all add: installers_alike_def)
    show ?thesis using i j False al(2,3) begin_deploy_alike(2) [OF al(1)]
      by (auto simp: AskUpdate handleUpdate_def Let_def tokens_kept_def installers_alike_def)
  qed
next
  case AskLogs
  obtain es stop s where s: "logs_tick (in_wz i) (wz_DeployDone (in_wz i)) (wz_DeployFailed (in_wz i)) =
      (es, stop, s)" by (rule prod_cases3)
  obtain es' stop' t where t: "logs_tick (in_wz j) (wz_DeployDone (in_wz j)) (wz_DeployFailed (in_wz j)) =
      (es', stop', t)" by (rule prod_cases3)
  have al: "looks_alike (in_wz i) (in_wz j)" "wz_DeployDone (in_wz i) = wz_DeployDone (in_wz j)"
    "wz_DeployFailed (in_wz i) = wz_DeployFailed (in_wz j)"
    using a by (simp_all add: installers_alike_def looks_alike_def)
  show ?thesis
    using logs_tick_alike [OF al(1) s t [folded al(2,3)]] logs_tick_token [OF s] logs_tick_token [OF t] a i j
    by (auto simp: AskLogs s t installers_alike_def tokens_kept_def)
qed

text \<open>
  C19. Whatever a browser asks after the wizard's secrets were entered, no answer depends on them: take two
  installers that differ in secrets only, of which the same ones are present: passwords and key files of the
  servers, certificates and their keys, the phrase, the key shares, the API key and the bot's token. They
  answer every sequence of requests alike, the log stream included. One request gives the token away to
  Telegram's library and shows what it says, trying the bot out; so where that request occurs, the library
  must treat the two tokens alike. The phrase itself is shown once, by the request that makes it. What a
  deployment writes to the log while it runs is not covered.
\<close>

theorem secrets_stay_hidden:
  assumes "installers_alike i j" and "\<forall>q. Ask q \<in> set qs \<longrightarrow> same_bot (bot_token i) (bot_token j) q"
  shows "browse W qs i = browse W qs j"
  using assms
proof (induction qs arbitrary: i j)
  case (Cons q qs)
  obtain r i' where i: "browse_step W q i = (r, i')" by fastforce
  obtain r' j' where j: "browse_step W q j = (r', j')" by fastforce
  have step: "r = r'" "installers_alike i' j'" "tokens_kept (in_wz i) (in_wz j) (in_wz i') (in_wz j')"
    using browse_step_alike [OF Cons.prems(1) _ i j] Cons.prems(2) by auto
  have "same_bot (bot_token i') (bot_token j') w" if "Ask w \<in> set qs" for w
  proof -
    have "same_bot a a w" for a by (cases w) simp_all
    moreover have "same_bot (bot_token i) (bot_token j) w" using Cons.prems(2) that by simp
    ultimately show ?thesis using step(3) unfolding tokens_kept_def by metis
  qed
  then have "browse W qs i' = browse W qs j'" by (intro Cons.IH [OF step(2)]) blast
  then show ?case using step(1) by (simp add: i j)
qed simp

definition filled_installer :: "string \<Rightarrow> string \<Rightarrow> nat installer" where
  "filled_installer phrase token = set_wz (filled_state phrase token) (installer_start (\<lambda>dsn. db_empty))"

text \<open>A bot library that does not know the token refuses both alike.\<close>

theorem secrets_stay_hidden_witness:
  "\<forall>W. browse W [Ask LLMSkip, Ask ShowState, Ask (TelegramVerify (\<lambda>t. Inl ''offline'') 3), AskDeploy, AskLogs]
       (filled_installer ''abandon'' ''t1'') =
     browse W [Ask LLMSkip, Ask ShowState, Ask (TelegramVerify (\<lambda>t. Inl ''offline'') 3), AskDeploy, AskLogs]
       (filled_installer ''zoo'' ''t2'')"
proof
  fix W :: "'r sweeper"
  have "installers_alike (filled_installer ''abandon'' ''t1'') (filled_installer ''zoo'' ''t2'')"
    by (simp add: installers_alike_def looks_alike_def servers_alike_def filled_installer_def filled_state_def
        wizard_start_def no_server_def)
  then show "browse W [Ask LLMSkip, Ask ShowState, Ask (TelegramVerify (\<lambda>t. Inl ''offline'') 3), AskDeploy, AskLogs]
       (filled_installer ''abandon'' ''t1'') =
     browse W [Ask LLMSkip, Ask ShowState, Ask (TelegramVerify (\<lambda>t. Inl ''offline'') 3), AskDeploy, AskLogs]
       (filled_installer ''zoo'' ''t2'')"
    by (rule secrets_stay_hidden) auto
qed

end
