(* ===== verification/Spec2Isabelle.thy ===== *)
theory Spec2Isabelle
  imports Startup Recoverable Api Channels Browser
begin

section \<open>crypto-claw: a wallet whose keys are split between two parties\<close>

text \<open>
  \<^bold>\<open>The program.\<close> Two servers hold one share each of a master key. \<^emph>\<open>Party A\<close> (\<open>cmd/party-a\<close>,
  \<open>internal/partya\<close>) has an HTTP interface: it derives addresses, builds a transaction, asks Party B and
  takes part in the signing. \<^emph>\<open>Party B\<close> (\<open>cmd/party-b\<close>, \<open>internal/partyb\<close>) decodes and analyses each
  transaction, asks a language model or, over Telegram, its owner, and takes part in the signing only of
  what was approved. They talk over one mutually authenticated connection (\<open>internal/transport\<close>); the
  threshold protocols, the derivation of child keys and the dealer are \<open>internal/tss\<close>; chains are
  adapters (\<open>internal/vm\<close>); shares and transactions are stored encrypted in PostgreSQL
  (\<open>internal/store\<close>). The \<^emph>\<open>installer\<close> (\<open>cmd/installer\<close>) is a web wizard that makes or restores the
  recovery phrase, splits its keys, issues certificates, deploys both parties, and can later export
  keys or sweep funds with the phrase alone.

  \<^bold>\<open>Theories, in the order they build on each other.\<close>
  \<^item> \<open>Prelude\<close>: bytes, results (\<open>err + 'a\<close>), panics (\<open>may_panic\<close>), the functions of package \<open>strings\<close>,
    and the collections of simplification rules. \<open>Encodings\<close>: base64, hexadecimal, decimal numbers,
    JSON values as \<open>json\<close> with Go's decoding rules for structs (a missing field keeps the old value,
    names match without regard to case).
  \<^item> \<open>Wire\<close> (\<open>protocol.go\<close>): frames over a byte stream, whose laws are the locale \<open>byte_stream\<close>.
    \<open>Payloads\<close>: the message structs and their JSON. \<open>Peer\<close> (\<open>client.go\<close>, \<open>server.go\<close>): pending
    requests, the read loops, one connection, reconnection, and both peers as one step relation.
    \<open>Channels\<close>: the locale \<open>bounded_channel\<close> of the channel behind \<open>tss.MessageRouter.Receive\<close>, with the
    client, the server router and the ceremony's router as its interpretations.
  \<^item> \<open>Tss\<close> (\<open>tss.go\<close>, \<open>dkg.go\<close>, \<open>signing.go\<close>, \<open>resharing.go\<close>): party order, message envelopes, session
    loops. \<open>Derivation\<close>: \<open>parsePath\<close> and both derivations, instances of the locale \<open>share_derivation\<close>.
    \<open>Dealer\<close>: Shamir sharing and the key shares. \<open>Recovery\<close> (\<open>mnemonic.go\<close>, \<open>ed25519_sign.go\<close>): the
    installer's own derivation, signing with a bare scalar, point decoding.
  \<^item> \<open>Store\<close> (\<open>postgres.go\<close>): four tables, each an interpretation of the locale \<open>keyed_table\<close>, and the
    encryption of shares.
  \<^item> \<open>Vm\<close>: requests, adapters, the registry. \<open>Evm\<close>, \<open>Tendermint\<close>, \<open>SolanaRpc\<close>, \<open>Idl\<close>, \<open>Anchor\<close>,
    \<open>Solana\<close>: the adapters, the RPC client with its address check, and program calls from an
    interface description.
  \<^item> \<open>Llm\<close>, \<open>Analyzer\<close>, \<open>Telegram\<close>, \<open>PartyB\<close>: prompts and answers of the model, the decision, the bot,
    and the service with its goroutines as \<open>svc_step\<close>.
  \<^item> \<open>PartyA\<close>, \<open>Api\<close>, \<open>Approval\<close>, \<open>Custody\<close>: the queue (the locale \<open>status_map\<close>) and the service, the
    handlers, its goroutines as \<open>a_step\<close>, and both parties together.
  \<^item> \<open>Sweep\<close>, \<open>Config\<close>, \<open>Certs\<close>, \<open>Wizard\<close>, \<open>Export\<close>, \<open>Ceremony\<close>: what the installer does by itself.
    \<open>Shell\<close>, \<open>Setup\<close>, \<open>Docker\<close>, \<open>Delivery\<close>: what it does to machines. \<open>Deploy\<close>: its two long jobs
    beside requests. \<open>Browser\<close>: what its requests are answered. \<open>Startup\<close>: how all three programs start. \<open>Recoverable\<close>: deployment, derivation
    and export together.

  \<^bold>\<open>Correspondence.\<close> A definition has the name of the function, method or type it translates; where that
  clashes it carries a prefix (\<open>partyb_New\<close>, \<open>evm_DecodeTx\<close>) or the theory's name. A record is a struct; its
  fields have a short prefix and the Go name. \<open>(T, error)\<close> is \<open>T res\<close> with the error's text, a panic is
  \<open>Panic\<close>, a goroutine that waits is a task or job in the state, and a blocking channel operation is \<open>Block\<close>
  or \<open>None\<close>. A map the code ranges over is a list with the order of iteration as an argument, machine
  integers are words, \<open>big.Int\<close> is \<open>int\<close> or \<open>nat\<close>. The queue of Party A, whose entries are shared pointers,
  is modelled with its heap. Actions on machines are a sequence (\<open>Shell\<close>) that a world answers.

  \<^bold>\<open>What the theorems show.\<close>
  \<^item> Custody: Party B signs only what was approved and at most once, in every interleaving; an approval
    of the analyzer implies the checks; both parties sign the same bytes, those that Party A sent, which need
    not be the analysed ones; an escalated transaction is
    signed from the bytes that were queued; only the authorised user decides.
  \<^item> Keys: child shares belong to one child key on both curves; sharing and reconstruction; one share
    hides the secret; what a deployment stores is a sharing of the phrase's keys, and the key exported
    from the phrase, 32 bytes, opens the address the parties derive; a derivation, also a repeated one, stores
    the derived share under its path.
  \<^item> Transport: frames round trip, truncated ones are rejected, replies are those to the request, read
    loops do not block, channels keep order and stay within their capacity.
  \<^item> Chains: built transactions decode to the request, signatures are placed where they belong,
    arguments are serialised as documented up to the wrap-around that is stated.
  \<^item> Installer: answers to a browser do not depend on secrets, but for what Telegram says of the bot's token;
    jobs exclude each other and end; a remote deployment is cut into pieces that each serve one party, with
    the commands, files, shares and database of that party only; an import keeps the store consistent, a started party obeys the wizard.
  \<^item> Faults: where the code does not do what it means to, a lemma states what it does instead
    (\<open>any_bytes_signed\<close>, \<open>late_primes_hang\<close>, \<open>parties_meet\<close>, \<open>early_ready_lost\<close>,
    \<open>poll_serves_bare_signature\<close>, \<open>eddsa_leading_zero_lost\<close>, \<open>tm_display_not_signed\<close>,
    \<open>sol_decode_ignores_instructions\<close>).

  \<^bold>\<open>Bounds and fuel.\<close> The only fuel is that of the Borsh serialiser (\<open>Anchor\<close>), the depth of Go's stack:
  a recursive type makes the code recurse without end, and where the types have ranks below \<open>k\<close> and at most \<open>d\<close>
  options around them, \<open>(k + 1) (d + 1)\<close> is enough (\<open>borsh_terminates\<close>). Loops over events (\<open>connectWithRetry\<close>, session loops) recurse on
  the list of what happens, and the minute of \<open>verify_loop\<close> is a number of rounds. All other recursion is structural or has a termination proof.

  \<^bold>\<open>Parameters.\<close> Cryptographic and chain libraries, the random source, the clock, JSON texts, HTTP, TLS,
  SSH, Docker, the database and the file system are arguments; where a theorem needs a law of one, the law
  is a named hypothesis with an instance in the witness (\<open>ec_laws\<close>, \<open>geth_laws\<close>, \<open>sol_laws\<close>).
  Concurrent access that the code guards with a mutex is one step; a phase of an installer job is one step
  too, and goroutines that only run side by side are taken one after the other.

  \<^bold>\<open>Not modelled.\<close> The protocols of tss-lib; the text of the documentation page (\<open>api.go\<close>) and of the
  built-in pages; command-line flags, signals, logging, and the serving of HTTP and TLS themselves;
  \<open>SavePEM\<close>, which nothing in the programs calls; forwarding of the bytes of a database tunnel; the
  files under \<open>tests/testutil\<close>, which support the tests only.
\<close>

end
